(* ===== verification/Prelude.thy ===== *)
theory Prelude
  imports Main "HOL-Library.Multiset" "HOL-Library.AList" "HOL-Library.Word"
begin

text \<open>
  What every component of the model shares: Go's time values and 64-bit integers, Go's maps as
  association lists, the maps of maps the server keeps per user, and the fact collections the
  component proofs rest on.

  A Go map is an association list (\<open>gomap\<close>). Its order stands for the order in which a
  \<open>range\<close> loop visits the entries, which Go leaves unspecified: a statement proved for
  every list holds for every iteration order. Reading is \<^term>\<open>map_of\<close>, writing is
  \<^term>\<open>AList.update\<close>, \<open>delete\<close> is \<^term>\<open>AList.delete\<close>, and the loops that
  delete entries while they range are \<^term>\<open>filter\<close>.
\<close>

named_theorems gomap_simps \<open>reading a map after a write, a deletion or a sweep\<close>
named_theorems gomap_intros \<open>operations that keep the keys of a map distinct\<close>

section \<open>Integers and time\<close>

text \<open>
  A \<open>time.Time\<close> is the number of nanoseconds since the Unix epoch, as an unbounded integer
  (Go keeps seconds and nanoseconds apart, so it does not wrap either); the zero time is the first
  of January of the year 1. A \<open>time.Duration\<close> is a number of nanoseconds.
\<close>

type_synonym go_time = int
type_synonym duration = int
type_synonym uid = int

definition zero_time :: go_time where
  "zero_time = - 62135596800000000000"

definition is_zero_time :: "go_time \<Rightarrow> bool" where
  "is_zero_time t \<longleftrightarrow> t = zero_time"

definition unix_milli :: "int \<Rightarrow> go_time" where
  "unix_milli ms = ms * 1000000"

definition go_second :: duration where
  "go_second = 1000000000"

definition go_minute :: duration where
  "go_minute = 60 * go_second"

text \<open>\<open>int64\<close> is the wrap-around of a signed 64-bit register, \<open>go_quot\<close> Go's division, which
  truncates towards zero.\<close>

definition int64 :: "int \<Rightarrow> int" where
  "int64 n = (n + 9223372036854775808) mod 18446744073709551616 - 9223372036854775808"

definition go_quot :: "int \<Rightarrow> int \<Rightarrow> int" where
  "go_quot a b = sgn a * sgn b * (\<bar>a\<bar> div \<bar>b\<bar>)"

lemma int64_sint: "int64 n = sint (word_of_int n :: 64 word)"
  by (simp add: int64_def signed_of_int signed_take_bit_eq_take_bit_shift take_bit_eq_mod)

lemma int64_id: "- 9223372036854775808 \<le> n \<Longrightarrow> n < 9223372036854775808 \<Longrightarrow> int64 n = n"
  by (simp add: int64_def)

lemma go_quot_nonneg: "0 \<le> a \<Longrightarrow> 0 < b \<Longrightarrow> go_quot a b = a div b"
  by (cases "a = 0") (simp_all add: go_quot_def)

definition unixMillis :: "go_time \<Rightarrow> int" where
  "unixMillis t = go_quot (int64 t) 1000000"

lemma unixMillis_nonneg: "0 \<le> t \<Longrightarrow> t < 9223372036854775808 \<Longrightarrow> unixMillis t = t div 1000000"
  by (simp add: unixMillis_def int64_id go_quot_nonneg)

section \<open>Maps\<close>

type_synonym ('k, 'v) gomap = "('k \<times> 'v) list"

definition gm_ok :: "('k, 'v) gomap \<Rightarrow> bool" where
  "gm_ok m \<longleftrightarrow> distinct (map fst m)"

abbreviation gm_put :: "'k \<Rightarrow> 'v \<Rightarrow> ('k, 'v) gomap \<Rightarrow> ('k, 'v) gomap" where
  "gm_put \<equiv> AList.update"

abbreviation gm_del :: "'k \<Rightarrow> ('k, 'v) gomap \<Rightarrow> ('k, 'v) gomap" where
  "gm_del \<equiv> AList.delete"

definition gm_keep :: "('v \<Rightarrow> bool) \<Rightarrow> ('k, 'v) gomap \<Rightarrow> ('k, 'v) gomap" where
  "gm_keep P m = filter (\<lambda>kv. P (snd kv)) m"

definition gm_values :: "('k, 'v) gomap \<Rightarrow> 'v list" where
  "gm_values m = map snd m"

lemma gm_ok_Nil [simp, gomap_intros]: "gm_ok []"
  by (simp add: gm_ok_def)

lemma gm_ok_put [simp, gomap_intros]: "gm_ok m \<Longrightarrow> gm_ok (gm_put k v m)"
  by (simp add: gm_ok_def distinct_update)

lemma gm_ok_del [simp, gomap_intros]: "gm_ok m \<Longrightarrow> gm_ok (gm_del k m)"
  by (simp add: gm_ok_def distinct_delete)

lemma gm_ok_keep [simp, gomap_intros]: "gm_ok m \<Longrightarrow> gm_ok (gm_keep P m)"
  by (simp add: gm_ok_def gm_keep_def distinct_map_filter)

lemma gm_get_put [gomap_simps]: "map_of (gm_put k v m) k' = (if k' = k then Some v else map_of m k')"
  by (simp add: update_conv')

lemma gm_get_del [gomap_simps]: "map_of (gm_del k m) k' = (if k' = k then None else map_of m k')"
  by (simp add: delete_conv')

lemma gm_get_keep [gomap_simps]:
  "gm_ok m \<Longrightarrow> map_of (gm_keep P m) k = (case map_of m k of None \<Rightarrow> None | Some v \<Rightarrow> if P v then Some v else None)"
proof (induction m)
  case Nil
  then show ?case by (simp add: gm_keep_def)
next
  case (Cons kv m)
  have "fst kv \<notin> fst ` set m" and ok: "gm_ok m"
    using Cons.prems by (simp_all add: gm_ok_def)
  then have "map_of m (fst kv) = None" and "map_of (gm_keep P m) (fst kv) = None"
    by (auto simp: map_of_eq_None_iff gm_keep_def)
  with Cons.IH [OF ok] show ?case
    by (cases kv) (auto simp: gm_keep_def split: option.splits)
qed

lemma gm_get_keep_SomeD: "gm_ok m \<Longrightarrow> map_of (gm_keep P m) k = Some v \<Longrightarrow> map_of m k = Some v \<and> P v"
  by (auto simp: gm_get_keep split: option.splits if_splits)

lemma gm_values_set: "gm_ok m \<Longrightarrow> v \<in> set (gm_values m) \<longleftrightarrow> (\<exists>k. map_of m k = Some v)"
  by (force simp: gm_values_def gm_ok_def image_iff)

section \<open>Maps of maps\<close>

text \<open>
  \<open>map[int64]map[string]T\<close>: the inner map is created by the first write below a user and the
  user's entry is deleted with the last inner key.
\<close>

type_synonym ('o, 'k, 'v) nmap = "('o, ('k, 'v) gomap) gomap"

definition nm_inner :: "('o, 'k, 'v) nmap \<Rightarrow> 'o \<Rightarrow> ('k, 'v) gomap" where
  "nm_inner m u = (case map_of m u of None \<Rightarrow> [] | Some i \<Rightarrow> i)"

definition nm_get :: "('o, 'k, 'v) nmap \<Rightarrow> 'o \<Rightarrow> 'k \<Rightarrow> 'v option" where
  "nm_get m u k = map_of (nm_inner m u) k"

definition nm_put :: "'o \<Rightarrow> 'k \<Rightarrow> 'v \<Rightarrow> ('o, 'k, 'v) nmap \<Rightarrow> ('o, 'k, 'v) nmap" where
  "nm_put u k v m = gm_put u (gm_put k v (nm_inner m u)) m"

definition nm_del :: "'o \<Rightarrow> 'k \<Rightarrow> ('o, 'k, 'v) nmap \<Rightarrow> ('o, 'k, 'v) nmap" where
  "nm_del u k m =
     (case map_of m u of
        None \<Rightarrow> m
      | Some i \<Rightarrow> (let i' = gm_del k i in if i' = [] then gm_del u m else gm_put u i' m))"

definition nm_ok :: "('o, 'k, 'v) nmap \<Rightarrow> bool" where
  "nm_ok m \<longleftrightarrow> gm_ok m \<and> (\<forall>i \<in> snd ` set m. gm_ok i \<and> i \<noteq> [])"

lemma nm_ok_inner: "nm_ok m \<Longrightarrow> gm_ok (nm_inner m u)"
  by (auto simp: nm_ok_def nm_inner_def split: option.splits dest!: map_of_SomeD)

lemma nm_get_Nil [simp]: "nm_get [] u k = None"
  by (simp add: nm_get_def nm_inner_def)

lemma nm_get_put [gomap_simps]:
  "nm_get (nm_put u k v m) u' k' = (if u' = u \<and> k' = k then Some v else nm_get m u' k')"
  by (auto simp: nm_get_def nm_put_def nm_inner_def gomap_simps split: option.splits)

lemma nm_get_del [gomap_simps]:
  "nm_get (nm_del u k m) u' k' = (if u' = u \<and> k' = k then None else nm_get m u' k')"
proof (cases "map_of m u")
  case None
  then show ?thesis by (auto simp: nm_get_def nm_del_def nm_inner_def)
next
  case (Some i)
  have "gm_del k i = [] \<Longrightarrow> map_of i k' = (if k' = k then map_of i k else None)"
    using gm_get_del [of k i k'] by (auto split: if_splits)
  with Some show ?thesis
    by (auto simp: nm_get_def nm_del_def nm_inner_def Let_def gomap_simps split: option.splits)
qed

lemma nm_ok_alt: "nm_ok m \<longleftrightarrow> gm_ok m \<and> (\<forall>u i. map_of m u = Some i \<longrightarrow> gm_ok i \<and> i \<noteq> [])"
  by (force simp: nm_ok_def gm_ok_def map_of_eq_Some_iff)

lemma put_neq_Nil [simp]: "gm_put k v m \<noteq> []"
  by (cases m) auto

lemma nm_ok_Nil [simp, gomap_intros]: "nm_ok []"
  by (simp add: nm_ok_def)

lemma nm_ok_put [simp, gomap_intros]: "nm_ok m \<Longrightarrow> nm_ok (nm_put u k v m)"
  using nm_ok_inner [of m u] by (auto simp: nm_ok_alt nm_put_def gomap_simps)

lemma nm_ok_del [simp, gomap_intros]: "nm_ok m \<Longrightarrow> nm_ok (nm_del u k m)"
  by (auto simp: nm_ok_alt nm_del_def Let_def gomap_simps split: option.splits)

lemma map_of_ext_set: "gm_ok m \<Longrightarrow> gm_ok m' \<Longrightarrow> map_of m = map_of m' \<Longrightarrow> set m = set m'"
  by (metis gm_ok_def map_of_eq_Some_iff surj_pair subset_antisym subsetI)

section \<open>Loops that stop at the first hit\<close>

text \<open>\<open>for _, x := range xs { if P(x) { return x, true } }\<close>\<close>

lemma find_SomeD: "List.find P xs = Some x \<Longrightarrow> x \<in> set xs \<and> P x"
  by (auto simp: find_Some_iff)

lemma find_None_iff_all: "List.find P xs = None \<longleftrightarrow> (\<forall>x \<in> set xs. \<not> P x)"
  by (auto simp: find_None_iff)

end
