(* ===== verification/GoStrings.thy ===== *)
theory GoStrings
  imports Prelude "HOL-Library.Char_ord" "HOL-Library.List_Lexorder" "HOL-Library.Sublist"
begin

text \<open>
  The parts of Go's \<open>strings\<close>, \<open>strconv\<close>, \<open>unicode\<close> and \<open>net/url\<close> packages the modelled code
  calls, and the server's own text helpers built on them: user ids (\<open>formatUID\<close>,
  \<open>parseFormattedUID\<close>, \<open>parseInt64\<close> of \<open>server/wshandler.go\<close> and \<open>server/device_rpc.go\<close>),
  \<open>firstNonEmpty\<close>, and the session key of \<open>server/user_device_registry.go\<close>.

  A Go string is a sequence of bytes and so is a HOL \<^typ>\<open>string\<close>: \<open>len\<close> is \<^const>\<open>length\<close>, and
  \<open><\<close> is the lexicographic order by byte.
\<close>

section \<open>Prefixes\<close>

definition hasPrefix :: "string \<Rightarrow> string \<Rightarrow> bool" where
  "hasPrefix s p \<longleftrightarrow> take (length p) s = p"

definition hasSuffix :: "string \<Rightarrow> string \<Rightarrow> bool" where
  "hasSuffix s p \<longleftrightarrow> hasPrefix (rev s) (rev p)"

definition trimPrefix :: "string \<Rightarrow> string \<Rightarrow> string" where
  "trimPrefix s p = (if hasPrefix s p then drop (length p) s else s)"

lemma hasPrefix_iff: "hasPrefix s p \<longleftrightarrow> (\<exists>r. s = p @ r)"
  by (metis append_eq_conv_conj append_take_drop_id hasPrefix_def)

lemma hasPrefix_append [simp]: "hasPrefix (p @ s) p"
  by (simp add: hasPrefix_def)

section \<open>White space\<close>

text \<open>
  The UTF-8 encodings of the runes of \<open>unicode.IsSpace\<close>. Stripping encodings from the front and
  from the back is what \<open>strings.TrimSpace\<close> does, on invalid UTF-8 as well: decoding the first
  (last) rune of a byte string gives a space exactly when the string starts (ends) with the
  encoding of one.
\<close>

definition space_runes :: "string list" where
  "space_runes =
     [[CHR 0x20], [CHR 0x09], [CHR 0x0A], [CHR 0x0B], [CHR 0x0C], [CHR 0x0D],
      [CHR 0xC2, CHR 0x85], [CHR 0xC2, CHR 0xA0], [CHR 0xE1, CHR 0x9A, CHR 0x80],
      [CHR 0xE2, CHR 0x80, CHR 0x80], [CHR 0xE2, CHR 0x80, CHR 0x81], [CHR 0xE2, CHR 0x80, CHR 0x82],
      [CHR 0xE2, CHR 0x80, CHR 0x83], [CHR 0xE2, CHR 0x80, CHR 0x84], [CHR 0xE2, CHR 0x80, CHR 0x85],
      [CHR 0xE2, CHR 0x80, CHR 0x86], [CHR 0xE2, CHR 0x80, CHR 0x87], [CHR 0xE2, CHR 0x80, CHR 0x88],
      [CHR 0xE2, CHR 0x80, CHR 0x89], [CHR 0xE2, CHR 0x80, CHR 0x8A], [CHR 0xE2, CHR 0x80, CHR 0xA8],
      [CHR 0xE2, CHR 0x80, CHR 0xA9], [CHR 0xE2, CHR 0x80, CHR 0xAF], [CHR 0xE2, CHR 0x81, CHR 0x9F],
      [CHR 0xE3, CHR 0x80, CHR 0x80]]"

definition strip_one :: "string list \<Rightarrow> string \<Rightarrow> string option" where
  "strip_one encs s =
     (case List.find (\<lambda>e. e \<noteq> [] \<and> hasPrefix s e) encs of
        None \<Rightarrow> None
      | Some e \<Rightarrow> Some (drop (length e) s))"

lemma strip_one_shorter: "strip_one encs s = Some r \<Longrightarrow> length r < length s"
  by (auto simp: strip_one_def hasPrefix_iff find_Some_iff split: option.splits)

function strip_all :: "string list \<Rightarrow> string \<Rightarrow> string" where
  "strip_all encs s = (case strip_one encs s of None \<Rightarrow> s | Some r \<Rightarrow> strip_all encs r)"
  by pat_completeness auto
termination
  by (relation "measure (\<lambda>(encs, s). length s)") (auto dest: strip_one_shorter)

declare strip_all.simps [simp del]

definition trimSpace :: "string \<Rightarrow> string" where
  "trimSpace s = rev (strip_all (map rev space_runes) (rev (strip_all space_runes s)))"

lemma strip_one_None: "strip_one encs s = None \<longleftrightarrow> (\<forall>e \<in> set encs. e \<noteq> [] \<longrightarrow> \<not> hasPrefix s e)"
proof -
  have "strip_one encs s = None \<longleftrightarrow> List.find (\<lambda>e. e \<noteq> [] \<and> hasPrefix s e) encs = None"
    by (simp add: strip_one_def split: option.split)
  then show ?thesis by (auto simp: find_None_iff)
qed

lemma strip_all_stuck: "strip_one encs (strip_all encs s) = None"
  by (induction encs s rule: strip_all.induct)
     (subst strip_all.simps, auto split: option.splits)

lemma strip_all_id: "strip_one encs s = None \<Longrightarrow> strip_all encs s = s"
  by (subst strip_all.simps) simp

lemma strip_all_suffix: "suffix (strip_all encs s) s"
proof (induction encs s rule: strip_all.induct)
  case (1 encs s)
  show ?case
  proof (cases "strip_one encs s")
    case None
    then show ?thesis by (simp add: strip_all_id)
  next
    case (Some r)
    then have "suffix r s"
      by (auto simp: strip_one_def suffix_drop split: option.splits)
    with 1 Some show ?thesis
      by (subst strip_all.simps) (auto intro: suffix_order.trans)
  qed
qed

lemma strip_one_prefix: "strip_one encs s = None \<Longrightarrow> prefix r s \<Longrightarrow> strip_one encs r = None"
  by (auto simp: strip_one_None hasPrefix_iff prefix_def)

text \<open>A trimmed text has no space at either end, so trimming it again changes nothing.\<close>

lemma trimSpace_stuck:
  "strip_one space_runes (trimSpace s) = None \<and> strip_one (map rev space_runes) (rev (trimSpace s)) = None"
proof -
  let ?t = "strip_all space_runes s"
  have "prefix (trimSpace s) ?t"
    using strip_all_suffix [of "map rev space_runes" "rev ?t"]
    by (simp add: trimSpace_def suffix_to_prefix)
  with strip_all_stuck [of space_runes s] have "strip_one space_runes (trimSpace s) = None"
    by (rule strip_one_prefix)
  then show ?thesis by (simp add: trimSpace_def strip_all_stuck)
qed

lemma trimSpace_idem [simp]: "trimSpace (trimSpace s) = trimSpace s"
  using trimSpace_stuck [of s] strip_all_id by (simp add: trimSpace_def [of "trimSpace s"])

lemma trimSpace_Nil [simp]: "trimSpace [] = []"
proof -
  have "strip_all encs [] = []" for encs
    using strip_all_suffix [of encs "[]"] by simp
  then show ?thesis by (simp add: trimSpace_def)
qed

lemma trimSpace_id:
  assumes "s \<noteq> []" and "\<forall>e \<in> set space_runes. hd e \<noteq> hd s \<and> last e \<noteq> last s"
  shows "trimSpace s = s"
proof -
  have "[] \<notin> set space_runes" by (simp add: space_runes_def)
  have "strip_one space_runes s = None"
    using assms by (auto simp: strip_one_None hasPrefix_iff)
  moreover have "strip_one (map rev space_runes) (rev s) = None"
    using assms by (auto simp: strip_one_None hasPrefix_iff hd_rev dest!: arg_cong [of _ _ hd])
  ultimately show ?thesis by (simp add: trimSpace_def strip_all_id)
qed

section \<open>Letter case\<close>

text \<open>
  \<open>strings.ToLower\<close> and \<open>strings.ToUpper\<close>, as far as their results are used: every call compares
  the result with ASCII constants. Besides the ASCII letters only four runes map into ASCII: the
  dotted capital I and the Kelvin sign (to lower case), the dotless i and the long s (to upper
  case). Other bytes above 0x7F stay above 0x7F and are left as they are.
\<close>

definition lower_byte :: "char \<Rightarrow> char" where
  "lower_byte c = (let n = of_char c :: nat in if 65 \<le> n \<and> n \<le> 90 then char_of (n + 32) else c)"

definition upper_byte :: "char \<Rightarrow> char" where
  "upper_byte c = (let n = of_char c :: nat in if 97 \<le> n \<and> n \<le> 122 then char_of (n - 32) else c)"

fun toLower :: "string \<Rightarrow> string" where
  "toLower [] = []"
| "toLower [a] = [lower_byte a]"
| "toLower [a, b] = (if [a, b] = [CHR 0xC4, CHR 0xB0] then ''i'' else lower_byte a # toLower [b])"
| "toLower (a # b # c # s) =
     (if [a, b] = [CHR 0xC4, CHR 0xB0] then CHR ''i'' # toLower (c # s)
      else if [a, b, c] = [CHR 0xE2, CHR 0x84, CHR 0xAA] then CHR ''k'' # toLower s
      else lower_byte a # toLower (b # c # s))"

fun toUpper :: "string \<Rightarrow> string" where
  "toUpper [] = []"
| "toUpper [a] = [upper_byte a]"
| "toUpper (a # b # s) =
     (if [a, b] = [CHR 0xC4, CHR 0xB1] then CHR ''I'' # toUpper s
      else if [a, b] = [CHR 0xC5, CHR 0xBF] then CHR ''S'' # toUpper s
      else upper_byte a # toUpper (b # s))"

definition firstNonEmpty :: "string list \<Rightarrow> string" where
  "firstNonEmpty values =
     (case List.find (\<lambda>v. trimSpace v \<noteq> []) values of None \<Rightarrow> [] | Some v \<Rightarrow> trimSpace v)"

section \<open>Decimal numbers and user ids\<close>

definition digit_char :: "nat \<Rightarrow> char" where
  "digit_char n = char_of (48 + n)"

definition is_digit :: "char \<Rightarrow> bool" where
  "is_digit c \<longleftrightarrow> 48 \<le> (of_char c :: nat) \<and> (of_char c :: nat) \<le> 57"

definition digit_value :: "char \<Rightarrow> int" where
  "digit_value c = int (of_char c) - 48"

fun nat_digits :: "nat \<Rightarrow> string" where
  "nat_digits n = (if n < 10 then [digit_char n] else nat_digits (n div 10) @ [digit_char (n mod 10)])"

declare nat_digits.simps [simp del]

definition formatInt :: "int \<Rightarrow> string" where
  "formatInt i = (if i < 0 then CHR ''-'' # nat_digits (nat (- i)) else nat_digits (nat i))"

fun parse_digits :: "int \<Rightarrow> string \<Rightarrow> int" where
  "parse_digits n [] = n"
| "parse_digits n (c # s) = (if \<not> is_digit c then 0 else parse_digits (int64 (n * 10 + digit_value c)) s)"

definition parseInt64 :: "string \<Rightarrow> int" where
  "parseInt64 s = parse_digits 0 s"

definition formatUID :: "uid \<Rightarrow> string" where
  "formatUID u = ''usr'' @ formatInt u"

definition parseFormattedUID :: "string \<Rightarrow> uid" where
  "parseFormattedUID v =
     (let value = trimSpace v;
          value = (if hasPrefix value ''usr'' then trimPrefix value ''usr'' else value)
      in parseInt64 value)"

lemma digit_char_props:
  "d < 10 \<Longrightarrow> is_digit (digit_char d) \<and> digit_value (digit_char d) = int d"
  by (simp add: is_digit_def digit_value_def digit_char_def of_char_of take_bit_eq_mod)

lemma nat_digits_neq_Nil [simp]: "nat_digits n \<noteq> []"
  by (subst nat_digits.simps) simp

lemma nat_digits_all: "c \<in> set (nat_digits n) \<Longrightarrow> is_digit c"
proof (induction n rule: nat_digits.induct)
  case (1 n)
  then show ?case
    by (subst (asm) nat_digits.simps) (auto simp: digit_char_props split: if_splits)
qed

lemma parse_digits_append:
  "\<forall>c \<in> set s. is_digit c \<Longrightarrow> parse_digits n (s @ t) = parse_digits (parse_digits n s) t"
  by (induction s arbitrary: n) auto

lemma parse_nat_digits: "int n < 9223372036854775808 \<Longrightarrow> parse_digits 0 (nat_digits n) = int n"
proof (induction n rule: nat_digits.induct)
  case (1 n)
  show ?case
  proof (cases "n < 10")
    case True
    then show ?thesis by (subst nat_digits.simps) (simp add: digit_char_props int64_id)
  next
    case False
    with 1 have IH: "parse_digits 0 (nat_digits (n div 10)) = int (n div 10)" by simp
    have "int (n div 10) * 10 + int (n mod 10) = int n" by presburger
    with False 1(2) show ?thesis
      by (subst nat_digits.simps)
         (simp add: parse_digits_append nat_digits_all IH digit_char_props int64_id)
  qed
qed

lemma is_digit_not_space: "is_digit c \<Longrightarrow> e \<in> set space_runes \<Longrightarrow> hd e \<noteq> c \<and> last e \<noteq> c"
  by (auto simp: is_digit_def space_runes_def)

lemma trimSpace_formatUID: "0 \<le> u \<Longrightarrow> trimSpace (formatUID u) = formatUID u"
proof (rule trimSpace_id)
  assume "0 \<le> u"
  then have "is_digit (last (formatUID u))"
    using nat_digits_all [OF last_in_set [OF nat_digits_neq_Nil]] by (simp add: formatUID_def formatInt_def)
  then show "\<forall>e \<in> set space_runes. hd e \<noteq> hd (formatUID u) \<and> last e \<noteq> last (formatUID u)"
    using is_digit_not_space by (auto simp: formatUID_def space_runes_def)
qed (simp add: formatUID_def)

lemma parse_formatUID: "0 \<le> u \<Longrightarrow> u < 9223372036854775808 \<Longrightarrow> parseFormattedUID (formatUID u) = u"
  by (simp add: parseFormattedUID_def trimSpace_formatUID Let_def)
     (simp add: formatUID_def hasPrefix_def trimPrefix_def parseInt64_def formatInt_def parse_nat_digits)

lemma formatUID_neq_Nil [simp]: "formatUID u \<noteq> []"
  by (simp add: formatUID_def)

end
