(* ===== verification/SessionKey.thy ===== *)
theory SessionKey
  imports GoStrings
begin

text \<open>
  \<open>buildCatsCoSessionKey\<close> of \<open>server/user_device_registry.go\<close>: the key under which the server files
  a conversation's device preference and its device grants. The key joins a topic type, the
  escaped topic and the escaped agent with colons; in a group the acting user is part of the
  escaped topic. The lemmas show that escaping is injective and never produces a colon, so a key
  determines everything it was built from.
\<close>

section \<open>Percent escapes\<close>

definition unreserved :: "char \<Rightarrow> bool" where
  "unreserved c \<longleftrightarrow>
     (let n = of_char c :: nat
      in (97 \<le> n \<and> n \<le> 122) \<or> (65 \<le> n \<and> n \<le> 90) \<or> (48 \<le> n \<and> n \<le> 57) \<or> c \<in> {CHR ''-'', CHR ''_'', CHR ''.'', CHR ''~''})"

definition hex_digit :: "nat \<Rightarrow> char" where
  "hex_digit n = (if n < 10 then char_of (48 + n) else char_of (55 + n))"

definition pct_byte :: "char \<Rightarrow> string" where
  "pct_byte c = [CHR ''%'', hex_digit (of_char c div 16), hex_digit (of_char c mod 16)]"

text \<open>\<open>url.QueryEscape\<close> and \<open>strings.ReplaceAll(_, "+", "%20")\<close>.\<close>

definition queryEscape :: "string \<Rightarrow> string" where
  "queryEscape s =
     concat (map (\<lambda>c. if unreserved c then [c] else if c = CHR 0x20 then ''+'' else pct_byte c) s)"

definition replacePlus :: "string \<Rightarrow> string" where
  "replacePlus s = concat (map (\<lambda>c. if c = CHR ''+'' then ''%20'' else [c]) s)"

definition encodeSessionKeyPart :: "string \<Rightarrow> string" where
  "encodeSessionKeyPart value =
     (let t = trimSpace value in if t = [] then ''unknown_topic'' else replacePlus (queryEscape t))"

definition normalizeTopicTypeForSessionKey :: "string \<Rightarrow> string" where
  "normalizeTopicTypeForSessionKey value = (if value = ''p2p'' \<or> value = ''group'' then value else ''unknown'')"

fun joinColon :: "string list \<Rightarrow> string" where
  "joinColon [] = []"
| "joinColon [p] = p"
| "joinColon (p # q # ps) = p @ '':'' @ joinColon (q # ps)"

definition buildCatsCoSessionKey :: "string \<Rightarrow> string \<Rightarrow> string \<Rightarrow> uid \<Rightarrow> string" where
  "buildCatsCoSessionKey topicID topicType agentID actorUID =
     (let tt = normalizeTopicTypeForSessionKey topicType;
          sessionTopicID = trimSpace topicID;
          sessionTopicID =
            (if tt = ''group'' \<and> actorUID > 0
             then sessionTopicID @ '':actor:'' @ formatUID actorUID else sessionTopicID);
          parts = [''session'', ''v2'', ''catscompany'', tt, encodeSessionKeyPart sessionTopicID];
          parts = (if agentID \<noteq> [] then parts @ [''agent'', encodeSessionKeyPart agentID] else parts)
      in joinColon parts)"

section \<open>Escaping is injective and free of colons\<close>

definition pct :: "char \<Rightarrow> string" where
  "pct c = (if unreserved c then [c] else pct_byte c)"

lemma hex_digit_inj: "m < 16 \<Longrightarrow> n < 16 \<Longrightarrow> hex_digit m = hex_digit n \<Longrightarrow> m = n"
  by (auto simp: hex_digit_def take_bit_eq_mod dest!: arg_cong [of _ _ "of_char :: char \<Rightarrow> nat"] split: if_splits)

lemma hex_digit_plain: "n < 16 \<Longrightarrow> hex_digit n \<notin> {CHR ''+'', CHR '':''}"
  by (auto simp: hex_digit_def take_bit_eq_mod dest!: arg_cong [of _ _ "of_char :: char \<Rightarrow> nat"] split: if_splits)

lemma unreserved_plain: "unreserved c \<Longrightarrow> c \<notin> {CHR ''+'', CHR '':'', CHR ''%'', CHR 0x20}"
  by (auto simp: unreserved_def)

lemma of_char_hex: "(of_char c :: nat) div 16 < 16" "(of_char c :: nat) mod 16 < 16"
  using nat_of_char_less_256 [of c] by (simp_all only: div_less_iff_less_mult zero_less_numeral mod_less_divisor)

lemma pct_code: "pct c @ x = pct d @ y \<Longrightarrow> c = d \<and> x = y"
proof -
  assume eq: "pct c @ x = pct d @ y"
  show ?thesis
  proof (cases "unreserved c \<or> unreserved d")
    case True
    with eq show ?thesis
      by (auto simp: pct_def pct_byte_def split: if_splits dest: unreserved_plain)
  next
    case False
    then have "hex_digit (of_char c div 16) = hex_digit (of_char d div 16)"
      and "hex_digit (of_char c mod 16) = hex_digit (of_char d mod 16)" and "x = y"
      using eq by (simp_all add: pct_def pct_byte_def)
    then have "(of_char c :: nat) div 16 = of_char d div 16" "(of_char c :: nat) mod 16 = of_char d mod 16"
      by (auto intro: hex_digit_inj [OF of_char_hex(1) of_char_hex(1)] hex_digit_inj [OF of_char_hex(2) of_char_hex(2)])
    then have "(of_char c :: nat) = of_char d"
      by (metis div_mult_mod_eq)
    with \<open>x = y\<close> show ?thesis by simp
  qed
qed

lemma pct_neq_Nil: "pct c \<noteq> []"
  by (simp add: pct_def pct_byte_def)

lemma pct_concat_inj: "concat (map pct s) = concat (map pct t) \<Longrightarrow> s = t"
proof (induction s arbitrary: t)
  case Nil
  then show ?case by (cases t) (simp_all add: pct_neq_Nil)
next
  case (Cons c s)
  then obtain d t' where t: "t = d # t'" by (cases t) (auto simp: pct_neq_Nil)
  with Cons.prems have "pct c @ concat (map pct s) = pct d @ concat (map pct t')" by simp
  then have "c = d" and "concat (map pct s) = concat (map pct t')" by (auto dest: pct_code)
  with Cons.IH t show ?case by simp
qed

lemma pct_byte_plain: "CHR ''+'' \<notin> set (pct_byte c) \<and> CHR '':'' \<notin> set (pct_byte c)"
  using hex_digit_plain [OF of_char_hex(1), of c] hex_digit_plain [OF of_char_hex(2), of c]
  by (auto simp: pct_byte_def)

lemma replacePlus_plain: "CHR ''+'' \<notin> set s \<Longrightarrow> replacePlus s = s"
  by (induction s) (auto simp: replacePlus_def)

lemma pct_space: "pct (CHR 0x20) = ''%20''"
  by code_simp

lemma replacePlus_pct: "replacePlus (queryEscape s) = concat (map pct s)"
proof (induction s)
  case Nil
  then show ?case by (simp add: replacePlus_def queryEscape_def)
next
  case (Cons c s)
  let ?e = "if unreserved c then [c] else if c = CHR 0x20 then ''+'' else pct_byte c"
  have "replacePlus ?e = pct c"
  proof (cases "c = CHR 0x20")
    case True
    then show ?thesis by (simp only: pct_space) code_simp
  next
    case False
    then have "CHR ''+'' \<notin> set ?e" using unreserved_plain [of c] pct_byte_plain [of c] by auto
    with False show ?thesis by (simp add: replacePlus_plain pct_def)
  qed
  moreover have "replacePlus (queryEscape (c # s)) = replacePlus ?e @ replacePlus (queryEscape s)"
    by (simp add: replacePlus_def queryEscape_def)
  ultimately show ?case by (simp only: Cons.IH list.map concat.simps)
qed

lemma pct_no_colon: "CHR '':'' \<notin> set (concat (map pct s))"
proof (induction s)
  case (Cons c s)
  moreover have "CHR '':'' \<notin> set (pct c)"
    using unreserved_plain [of c] pct_byte_plain [of c] by (auto simp: pct_def)
  ultimately show ?case by (simp del: set_concat)
qed simp

lemma encode_no_colon: "CHR '':'' \<notin> set (encodeSessionKeyPart s)"
proof (cases "trimSpace s = []")
  case False
  then have "encodeSessionKeyPart s = concat (map pct (trimSpace s))"
    by (simp only: encodeSessionKeyPart_def Let_def replacePlus_pct if_False)
  then show ?thesis by (simp only: pct_no_colon not_False_eq_True)
qed (simp add: encodeSessionKeyPart_def)

lemma encode_inj:
  assumes "trimSpace s \<noteq> []" and "trimSpace t \<noteq> []"
    and "encodeSessionKeyPart s = encodeSessionKeyPart t"
  shows "trimSpace s = trimSpace t"
proof (rule pct_concat_inj)
  show "concat (map pct (trimSpace s)) = concat (map pct (trimSpace t))"
    using assms by (simp only: encodeSessionKeyPart_def Let_def replacePlus_pct if_False)
qed

section \<open>A key determines its parts\<close>

lemma colon_split:
  "CHR '':'' \<notin> set a \<Longrightarrow> CHR '':'' \<notin> set b \<Longrightarrow> a @ CHR '':'' # x = b @ CHR '':'' # y \<Longrightarrow> a = b \<and> x = y"
proof (induction a arbitrary: b)
  case Nil
  then show ?case by (cases b) auto
next
  case (Cons c a)
  then show ?case by (cases b) auto
qed

lemma digits_no_colon: "CHR '':'' \<notin> set (nat_digits n)"
  using nat_digits_all [of "CHR '':''" n] by (simp add: is_digit_def) blast

lemma colon_end:
  assumes "CHR '':'' \<notin> set a" and "CHR '':'' \<notin> set b"
    and "x = [] \<or> hd x = CHR '':''" and "y = [] \<or> hd y = CHR '':''" and "a @ x = b @ y"
  shows "a = b \<and> x = y"
proof -
  have take: "takeWhile (\<lambda>c. c \<noteq> CHR '':'') (w @ z) = w"
    if "CHR '':'' \<notin> set w" and "z = [] \<or> hd z = CHR '':''" for w z :: string
    using that by (cases z) (auto simp: takeWhile_append2 takeWhile_append)
  have "a = b" using take [OF assms(1,3)] take [OF assms(2,4)] assms(5) by metis
  with assms(5) show ?thesis by simp
qed

lemma digits_val_inj: "nat_digits m = nat_digits n \<Longrightarrow> m = n"
proof -
  have val: "foldl (\<lambda>n c. n * 10 + digit_value c) 0 (nat_digits n) = int n" for n
  proof (induction n rule: nat_digits.induct)
    case (1 n)
    show ?case
    proof (cases "n < 10")
      case True
      then show ?thesis by (subst nat_digits.simps) (simp add: digit_char_props)
    next
      case False
      then have IH: "foldl (\<lambda>n c. n * 10 + digit_value c) 0 (nat_digits (n div 10)) = int (n div 10)"
        by (rule 1)
      from False have "nat_digits n = nat_digits (n div 10) @ [digit_char (n mod 10)]"
        by (subst nat_digits.simps) simp
      then have "foldl (\<lambda>n c. n * 10 + digit_value c) 0 (nat_digits n) = int (n div 10) * 10 + int (n mod 10)"
        by (simp only: IH foldl_append foldl.simps digit_char_props mod_less_divisor zero_less_numeral)
      then show ?thesis by presburger
    qed
  qed
  assume "nat_digits m = nat_digits n"
  then have "int m = int n" by (simp only: val [symmetric])
  then show ?thesis by simp
qed

lemma formatUID_inj: "0 \<le> u \<Longrightarrow> 0 \<le> v \<Longrightarrow> formatUID u = formatUID v \<Longrightarrow> u = v"
  by (auto simp: formatUID_def formatInt_def dest: digits_val_inj)

lemma formatUID_no_colon: "0 \<le> u \<Longrightarrow> CHR '':'' \<notin> set (formatUID u)"
  by (simp add: formatUID_def formatInt_def digits_no_colon)

definition scoped_topic :: "string \<Rightarrow> string \<Rightarrow> uid \<Rightarrow> string" where
  "scoped_topic topicID topicType actorUID =
     (if normalizeTopicTypeForSessionKey topicType = ''group'' \<and> actorUID > 0
      then trimSpace topicID @ '':actor:'' @ formatUID actorUID else trimSpace topicID)"

lemma key_shape:
  "buildCatsCoSessionKey topicID topicType agentID actorUID =
     ''session:v2:catscompany:'' @ normalizeTopicTypeForSessionKey topicType @ CHR '':'' #
     (encodeSessionKeyPart (scoped_topic topicID topicType actorUID) @
      (if agentID = [] then [] else CHR '':'' # ''agent:'' @ encodeSessionKeyPart agentID))"
  by (simp add: buildCatsCoSessionKey_def scoped_topic_def Let_def)

lemma no_colon_in_space: "e \<in> set space_runes \<Longrightarrow> CHR '':'' \<notin> set e"
  by (auto simp: space_runes_def)

lemma prefix_before_colon: "e @ r = s @ CHR '':'' # w \<Longrightarrow> CHR '':'' \<notin> set e \<Longrightarrow> \<exists>r'. s = e @ r'"
proof (induction e arbitrary: s)
  case (Cons c e)
  then show ?case by (cases s) auto
qed simp

lemma trim_scoped: "trimSpace (scoped_topic t ty u) = scoped_topic t ty u"
proof (cases "normalizeTopicTypeForSessionKey ty = ''group'' \<and> u > 0")
  case True
  let ?s = "trimSpace t @ '':actor:'' @ formatUID u"
  have "strip_one space_runes ?s = None"
  proof -
    have "\<not> hasPrefix ?s e" if "e \<in> set space_runes" "e \<noteq> []" for e
    proof
      assume "hasPrefix ?s e"
      then obtain r where "e @ r = trimSpace t @ CHR '':'' # (''actor:'' @ formatUID u)"
        by (auto simp: hasPrefix_iff)
      from prefix_before_colon [OF this no_colon_in_space [OF that(1)]] have "hasPrefix (trimSpace t) e"
        by (auto simp: hasPrefix_iff)
      with trimSpace_stuck [of t] that show False by (auto simp: strip_one_None)
    qed
    then show ?thesis by (simp add: strip_one_None)
  qed
  moreover have "is_digit (last ?s)"
    using True nat_digits_all [OF last_in_set [OF nat_digits_neq_Nil]]
    by (simp add: formatUID_def formatInt_def)
  then have "strip_one (map rev space_runes) (rev ?s) = None"
    using is_digit_not_space by (fastforce simp: strip_one_None hasPrefix_iff dest: arg_cong [of _ _ hd] simp: hd_rev)
  ultimately have "trimSpace ?s = ?s" by (simp add: trimSpace_def strip_all_id del: rev_append)
  with True show ?thesis by (simp add: scoped_topic_def)
qed (auto simp: scoped_topic_def)

lemma scoped_topic_inj:
  assumes "0 < u" and "0 < v" and "normalizeTopicTypeForSessionKey ty = normalizeTopicTypeForSessionKey ty'"
    and eq: "scoped_topic s ty u = scoped_topic t ty' v"
  shows "trimSpace s = trimSpace t \<and> (normalizeTopicTypeForSessionKey ty = ''group'' \<longrightarrow> u = v)"
proof (cases "normalizeTopicTypeForSessionKey ty = ''group''")
  case True
  with assms have "trimSpace s @ '':actor:'' @ formatUID u = trimSpace t @ '':actor:'' @ formatUID v"
    by (simp add: scoped_topic_def)
  then have "rev (formatUID u) @ CHR '':'' # rev (trimSpace s @ '':actor'') =
      rev (formatUID v) @ CHR '':'' # rev (trimSpace t @ '':actor'')"
    by (drule_tac arg_cong [of _ _ rev]) simp
  from colon_split [OF _ _ this] have "formatUID u = formatUID v" and "trimSpace s = trimSpace t"
    using assms(1,2) by (auto simp: formatUID_no_colon)
  with assms(1,2) formatUID_inj [of u v] show ?thesis by simp
qed (use eq in \<open>auto simp: scoped_topic_def assms(3)\<close>)

lemma session_key_parts:
  assumes "trimSpace t \<noteq> []" and "trimSpace t' \<noteq> []" and "0 < u" and "0 < u'"
    and eq: "buildCatsCoSessionKey t ty a u = buildCatsCoSessionKey t' ty' a' u'"
  shows "normalizeTopicTypeForSessionKey ty = normalizeTopicTypeForSessionKey ty'"
    and "trimSpace t = trimSpace t'"
    and "normalizeTopicTypeForSessionKey ty = ''group'' \<Longrightarrow> u = u'"
    and "a = [] \<longleftrightarrow> a' = []"
    and "a \<noteq> [] \<Longrightarrow> encodeSessionKeyPart a = encodeSessionKeyPart a'"
proof -
  let ?tail = "\<lambda>a. if a = [] then [] else CHR '':'' # ''agent:'' @ encodeSessionKeyPart a"
  have nc: "CHR '':'' \<notin> set (normalizeTopicTypeForSessionKey ty)" for ty
    by (simp add: normalizeTopicTypeForSessionKey_def)
  from eq have "normalizeTopicTypeForSessionKey ty @ CHR '':'' # (encodeSessionKeyPart (scoped_topic t ty u) @ ?tail a) =
      normalizeTopicTypeForSessionKey ty' @ CHR '':'' # (encodeSessionKeyPart (scoped_topic t' ty' u') @ ?tail a')"
    by (simp only: key_shape same_append_eq)
  from colon_split [OF nc nc this] have ty: "normalizeTopicTypeForSessionKey ty = normalizeTopicTypeForSessionKey ty'"
    and rest: "encodeSessionKeyPart (scoped_topic t ty u) @ ?tail a = encodeSessionKeyPart (scoped_topic t' ty' u') @ ?tail a'"
    by simp_all
  from colon_end [OF encode_no_colon encode_no_colon _ _ rest]
  have enc: "encodeSessionKeyPart (scoped_topic t ty u) = encodeSessionKeyPart (scoped_topic t' ty' u')"
    and tail: "?tail a = ?tail a'" by auto
  have ne: "trimSpace s \<noteq> [] \<Longrightarrow> trimSpace (scoped_topic s ty v) \<noteq> []" for s ty v
    by (simp only: trim_scoped) (simp add: scoped_topic_def)
  from encode_inj [OF ne [OF assms(1)] ne [OF assms(2)] enc]
  have "scoped_topic t ty u = scoped_topic t' ty' u'" by (simp only: trim_scoped)
  from scoped_topic_inj [OF assms(3,4) ty this] ty tail
  show "normalizeTopicTypeForSessionKey ty = normalizeTopicTypeForSessionKey ty'"
    and "trimSpace t = trimSpace t'" and "normalizeTopicTypeForSessionKey ty = ''group'' \<Longrightarrow> u = u'"
    and "a = [] \<longleftrightarrow> a' = []" and "a \<noteq> [] \<Longrightarrow> encodeSessionKeyPart a = encodeSessionKeyPart a'"
    by (auto split: if_splits)
qed

section \<open>The key of an agent's conversation\<close>

text \<open>The agent part of a key: \<open>agentID := ""; if agentUID > 0 { agentID = formatUID(agentUID) }\<close>.\<close>

definition agentIDOf :: "uid \<Rightarrow> string" where
  "agentIDOf agentUID = (if agentUID > 0 then formatUID agentUID else [])"

lemma trim_agentID: "trimSpace (agentIDOf g) = agentIDOf g"
  by (simp add: agentIDOf_def trimSpace_formatUID)

lemma encode_agent_inj:
  assumes "0 \<le> g" and "0 \<le> h" and "agentIDOf g = [] \<longleftrightarrow> agentIDOf h = []"
    and "agentIDOf g \<noteq> [] \<Longrightarrow> encodeSessionKeyPart (agentIDOf g) = encodeSessionKeyPart (agentIDOf h)"
  shows "g = h"
proof (cases "g = 0 \<or> h = 0")
  case True
  with assms(1-3) show ?thesis by (auto simp: agentIDOf_def split: if_splits)
next
  case False
  with assms(1,2) have "agentIDOf g = formatUID g" and "agentIDOf h = formatUID h"
    by (simp_all add: agentIDOf_def)
  with assms(4) encode_inj [of "agentIDOf g" "agentIDOf h"] have "formatUID g = formatUID h"
    by (simp add: trimSpace_formatUID assms(1,2))
  with assms(1,2) show ?thesis by (simp add: formatUID_inj)
qed

lemma session_key_congruence:
  "trimSpace t = trimSpace t' \<Longrightarrow> normalizeTopicTypeForSessionKey ty = normalizeTopicTypeForSessionKey ty' \<Longrightarrow>
   (normalizeTopicTypeForSessionKey ty = ''group'' \<Longrightarrow> u = u') \<Longrightarrow>
   buildCatsCoSessionKey t ty a u = buildCatsCoSessionKey t' ty' a u'"
  by (cases "normalizeTopicTypeForSessionKey ty = ''group''") (simp_all add: key_shape scoped_topic_def)

text \<open>
  C10: two conversations of the server share a session key exactly when they are the same one: the
  same kind of topic, the same topic up to surrounding white space, the same agent and, in a group,
  the same acting user. So a device preference or a device grant filed under a key is never found
  for another topic, another agent, or another member of a group.
\<close>

theorem session_key_injective:
  assumes "trimSpace t \<noteq> []" and "trimSpace t' \<noteq> []" and "0 < u" and "0 < u'" and "0 \<le> g" and "0 \<le> g'"
  shows "buildCatsCoSessionKey t ty (agentIDOf g) u = buildCatsCoSessionKey t' ty' (agentIDOf g') u' \<longleftrightarrow>
    normalizeTopicTypeForSessionKey ty = normalizeTopicTypeForSessionKey ty' \<and>
    trimSpace t = trimSpace t' \<and> g = g' \<and>
    (normalizeTopicTypeForSessionKey ty = ''group'' \<longrightarrow> u = u')"
    (is "?same \<longleftrightarrow> ?parts")
proof
  assume ?same
  from session_key_parts [OF assms(1-4) this] encode_agent_inj [OF assms(5,6)] show ?parts by blast
next
  assume ?parts
  then show ?same by (auto intro: session_key_congruence)
qed

theorem session_key_injective_witness:
  "buildCatsCoSessionKey ''grp_7'' ''group'' (agentIDOf 12) 5 \<noteq> buildCatsCoSessionKey '' grp_7'' ''group'' (agentIDOf 12) 6"
proof -
  have "trimSpace ''grp_7'' \<noteq> []" and "trimSpace '' grp_7'' \<noteq> []" and "normalizeTopicTypeForSessionKey ''group'' = ''group''"
    by code_simp+
  with session_key_injective [of "''grp_7''" "'' grp_7''" 5 6 12 12 "''group''" "''group''"] show ?thesis by simp
qed

end
