(* ===== verification/RuntimeTypes.thy ===== *)
theory RuntimeTypes
  imports SessionKey
begin

text \<open>
  The data of the runtime state: the structs of \<open>server/user_device_registry.go\<close>,
  \<open>server/runtime_state.go\<close>, \<open>server/bot_body_lease.go\<close> and \<open>server/device_connector.go\<close>. A field of
  a struct is a field of the record with the struct's prefix; JSON tags, mutexes, the clock and the
  table of connected hubs (\<open>nodes\<close>, whose entries are live network connections) are left out. A
  pointer that may be nil is an option.
\<close>

section \<open>Devices, grants and selections\<close>

text \<open>An operation a device offers is a string constant; \<open>DeviceGrantOperation\<close> is a defined string type.\<close>

type_synonym DeviceGrantOperation = string

record DeviceModelStatus =
  ms_Source :: string
  ms_Model :: string
  ms_ReasoningEffort :: string
  ms_UpdatedAt :: int

record UserDevice =
  ud_Kind :: string
  ud_Source :: string
  ud_OwnerUID :: uid
  ud_OwnerUserID :: string
  ud_BotUID :: uid
  ud_DeviceID :: string
  ud_DisplayName :: string
  ud_OS :: string
  ud_BodyID :: string
  ud_InstallationID :: string
  ud_RuntimeRole :: string
  ud_Status :: string
  ud_Active :: bool
  ud_RouteConnected :: bool
  ud_Routable :: bool
  ud_UnavailableReason :: string
  ud_Capabilities :: "DeviceGrantOperation list"
  ud_ModelStatus :: "DeviceModelStatus option"
  ud_RegisteredAt :: int
  ud_LastSeenAt :: int

record ScopedDeviceGrant =
  gr_TargetScope :: string
  gr_SelectionRevision :: string
  gr_Kind :: string
  gr_Source :: string
  gr_GrantID :: string
  gr_Status :: string
  gr_IdentityTrust :: string
  gr_IdentitySource :: string
  gr_DeviceID :: string
  gr_DeviceRegisteredAt :: int
  gr_DeviceDisplayName :: string
  gr_DeviceBodyID :: string
  gr_DeviceInstallationID :: string
  gr_DeviceActive :: bool
  gr_DeviceRouteConnected :: bool
  gr_DeviceRoutable :: bool
  gr_OwnerUserID :: string
  gr_SessionKey :: string
  gr_TopicID :: string
  gr_TopicType :: string
  gr_ActorUserID :: string
  gr_AgentID :: string
  gr_AgentBodyID :: string
  gr_Operations :: "DeviceGrantOperation list"
  gr_CreatedAt :: int
  gr_ExpiresAt :: int
  gr_Permanent :: bool
  gr_RenewableUntil :: int

record DeviceSelectionDevice =
  sd_DeviceID :: string
  sd_DisplayName :: string
  sd_BodyID :: string
  sd_InstallationID :: string
  sd_Status :: string
  sd_Active :: bool
  sd_RouteConnected :: bool
  sd_Routable :: bool
  sd_UnavailableReason :: string
  sd_Operations :: "DeviceGrantOperation list"
  sd_LastSeenAt :: int

record DeviceSelectionCandidate =
  sc_OS :: string
  sc_DeviceID :: string
  sc_DisplayName :: string
  sc_Status :: string
  sc_Active :: bool
  sc_RouteConnected :: bool
  sc_Routable :: bool
  sc_UnavailableReason :: string
  sc_Operations :: "DeviceGrantOperation list"
  sc_LastSeenAt :: int

datatype DeviceSelectionStatus = DeviceSelectionSelected | DeviceSelectionNeedsSelection | DeviceSelectionUnavailable

record DeviceSelection =
  sel_Revision :: string
  sel_Kind :: string
  sel_Source :: string
  sel_SchemaVersion :: int
  sel_Status :: DeviceSelectionStatus
  sel_SelectionSource :: string
  sel_SessionKey :: string
  sel_TopicID :: string
  sel_TopicType :: string
  sel_ActorUserID :: string
  sel_OwnerUserID :: string
  sel_AgentID :: string
  sel_SelectedDevice :: "DeviceSelectionDevice option"
  sel_Candidates :: "DeviceSelectionCandidate list"
  sel_CandidateCount :: int
  sel_CreatedAt :: int

record DeviceTurnContext =
  tc_Grants :: "ScopedDeviceGrant list"
  tc_ExplicitGrants :: "ScopedDeviceGrant list"
  tc_Selection :: "DeviceSelection option"

record deviceSelectionPreference =
  pref_Durable :: bool
  pref_Revision :: string
  pref_DeviceID :: string
  pref_Source :: string
  pref_UpdatedAt :: int
  pref_ExpiresAt :: int

record RegisterUserDeviceRequest =
  rq_BotUID :: uid
  rq_DeviceID :: string
  rq_DisplayName :: string
  rq_OS :: string
  rq_BodyID :: string
  rq_InstallationID :: string
  rq_RuntimeRole :: string
  rq_Status :: string
  rq_Capabilities :: "string list"
  rq_ModelStatus :: "DeviceModelStatus option"

text \<open>The zero values Go returns beside \<open>false\<close> or an error.\<close>

definition no_preference :: deviceSelectionPreference where
  "no_preference = \<lparr>pref_Durable = False, pref_Revision = [], pref_DeviceID = [], pref_Source = [],
     pref_UpdatedAt = 0, pref_ExpiresAt = 0\<rparr>"

section \<open>Routes, leases and pending calls\<close>

record runtimeRoute =
  rt_NodeID :: string
  rt_ConnectionID :: string
  rt_ExpiresAt :: go_time

record messagingClientAttention =
  att_SubscriptionID :: string
  att_ActiveTopic :: string
  att_Visible :: bool
  att_Focused :: bool

record messagingClientAttentionLease =
  al_route :: runtimeRoute
  al_attention :: messagingClientAttention

record botBodyLease =
  bl_botUID :: uid
  bl_bodyID :: string
  bl_connectionID :: string
  bl_nodeID :: string
  bl_acquiredAt :: go_time
  bl_expiresAt :: go_time

record botBodyLeaseResult =
  br_Lease :: botBodyLease
  br_Replaced :: bool

record deviceRPCPendingRecord =
  rpc_requestID :: string
  rpc_requesterRoute :: runtimeRoute
  rpc_targetRoute :: runtimeRoute
  rpc_agentUID :: uid
  rpc_agentID :: string
  rpc_agentBodyID :: string
  rpc_actorUID :: uid
  rpc_actorUserID :: string
  rpc_ownerUID :: uid
  rpc_ownerUserID :: string
  rpc_identitySource :: string
  rpc_sessionKey :: string
  rpc_topicID :: string
  rpc_topicType :: string
  rpc_grantID :: string
  rpc_deviceID :: string
  rpc_deviceBodyID :: string
  rpc_deviceInstallID :: string
  rpc_operation :: string
  rpc_toolName :: string
  rpc_createdAt :: go_time
  rpc_expiresAt :: go_time

section \<open>The device connector\<close>

record deviceConnectorPairing =
  cp_PairingID :: string
  cp_PairingCode :: string
  cp_OwnerUID :: uid
  cp_Username :: string
  cp_DeviceName :: string
  cp_Capabilities :: "string list"
  cp_CreatedAt :: go_time
  cp_ExpiresAt :: go_time
  cp_ConsumedAt :: go_time

record DeviceAuditEvent =
  ev_ID :: string
  ev_OwnerUserID :: string
  ev_ActorUserID :: string
  ev_AgentID :: string
  ev_DeviceID :: string
  ev_SessionKey :: string
  ev_Operation :: string
  ev_ToolName :: string
  ev_Command :: string
  ev_Phase :: string
  ev_Result :: string
  ev_Reason :: string
  ev_CreatedAt :: int

text \<open>Of the registered JWT claims the model keeps the ones the code reads: \<open>ID\<close>, \<open>IssuedAt\<close>, \<open>ExpiresAt\<close>.\<close>

record DeviceConnectorClaims =
  cl_TokenType :: string
  cl_UID :: uid
  cl_Username :: string
  cl_DeviceID :: string
  cl_InstallationID :: string
  cl_DisplayName :: string
  cl_Capabilities :: "string list"
  cl_Scopes :: "string list"
  cl_ID :: string
  cl_IssuedAt :: "go_time option"
  cl_ExpiresAt :: "go_time option"

section \<open>The shared runtime state\<close>

record sharedMemoryRuntimeState =
  sh_messagingClientAttention :: "(uid, string, messagingClientAttentionLease) nmap"
  sh_botLeases :: "(uid, botBodyLease) gomap"
  sh_devices :: "(uid, string, UserDevice) nmap"
  sh_deviceRoutes :: "(uid, string, runtimeRoute) nmap"
  sh_grants :: "(string, ScopedDeviceGrant) gomap"
  sh_preferences :: "(uid, string, deviceSelectionPreference) nmap"
  sh_deviceRPC :: "(string, deviceRPCPendingRecord) gomap"
  sh_connectorPairingsByID :: "(string, deviceConnectorPairing) gomap"
  sh_connectorPairingCodeIDs :: "(string, string) gomap"
  sh_deviceAuditEvents :: "DeviceAuditEvent list"
  sh_revokedConnectorDevices :: "(uid, string, go_time) nmap"
  sh_revokedConnectorTokens :: "(string, go_time) gomap"

definition newSharedMemoryRuntimeState :: sharedMemoryRuntimeState where
  "newSharedMemoryRuntimeState =
     \<lparr>sh_messagingClientAttention = [], sh_botLeases = [], sh_devices = [], sh_deviceRoutes = [],
      sh_grants = [], sh_preferences = [], sh_deviceRPC = [], sh_connectorPairingsByID = [],
      sh_connectorPairingCodeIDs = [], sh_deviceAuditEvents = [], sh_revokedConnectorDevices = [],
      sh_revokedConnectorTokens = []\<rparr>"

text \<open>Every map has distinct keys, and no inner map of a user is empty.\<close>

definition shared_ok :: "sharedMemoryRuntimeState \<Rightarrow> bool" where
  "shared_ok s \<longleftrightarrow>
     nm_ok (sh_messagingClientAttention s) \<and> gm_ok (sh_botLeases s) \<and> nm_ok (sh_devices s) \<and>
     nm_ok (sh_deviceRoutes s) \<and> gm_ok (sh_grants s) \<and> nm_ok (sh_preferences s) \<and> gm_ok (sh_deviceRPC s) \<and>
     gm_ok (sh_connectorPairingsByID s) \<and> gm_ok (sh_connectorPairingCodeIDs s) \<and>
     nm_ok (sh_revokedConnectorDevices s) \<and> gm_ok (sh_revokedConnectorTokens s)"

section \<open>Routes\<close>

definition validAt :: "runtimeRoute \<Rightarrow> go_time \<Rightarrow> bool" where
  "validAt r now \<longleftrightarrow>
     rt_NodeID r \<noteq> [] \<and> rt_ConnectionID r \<noteq> [] \<and> (is_zero_time (rt_ExpiresAt r) \<or> now < rt_ExpiresAt r)"

definition route_matches :: "runtimeRoute \<Rightarrow> runtimeRoute \<Rightarrow> bool" where
  "route_matches r other \<longleftrightarrow>
     rt_NodeID r \<noteq> [] \<and> rt_ConnectionID r \<noteq> [] \<and>
     rt_NodeID r = rt_NodeID other \<and> rt_ConnectionID r = rt_ConnectionID other"

lemma validAt_mono: "validAt r now' \<Longrightarrow> now \<le> now' \<Longrightarrow> validAt r now"
  by (auto simp: validAt_def)

lemma route_matches_sym: "route_matches r q \<longleftrightarrow> route_matches q r"
  by (auto simp: route_matches_def)

end
