(* ===== verification/Attention.thy ===== *)
theory Attention
  imports RuntimeTypes GoStrings
begin

text \<open>
  Messaging attention in the shared state (\<open>server/runtime_state.go\<close>): a connection whose page shows
  one conversation, visible and focused, advertises it for a while; a push to that subscription about
  that conversation is then suppressed. The section on the specification says what the state promises:
  the last advertisement of every connection, as if nothing were ever swept.
\<close>

section \<open>Attention\<close>

definition messagingClientAttentionIdentity :: "runtimeRoute \<Rightarrow> string" where
  "messagingClientAttentionIdentity route =
     (if rt_NodeID route = [] \<or> rt_ConnectionID route = [] then []
      else rt_NodeID route @ [CHR 0x00] @ rt_ConnectionID route)"

text \<open>\<open>strings.Cut\<close> at the first zero byte, and the route an identity stands for.\<close>

fun cut_nul :: "string \<Rightarrow> (string \<times> string) option" where
  "cut_nul [] = None"
| "cut_nul (c # cs) =
     (if c = CHR 0x00 then Some ([], cs)
      else case cut_nul cs of None \<Rightarrow> None | Some (a, b) \<Rightarrow> Some (c # a, b))"

definition messagingClientAttentionRoute :: "string \<Rightarrow> runtimeRoute" where
  "messagingClientAttentionRoute identity =
     (case cut_nul identity of
        Some (nodeID, connectionID) \<Rightarrow>
          if nodeID = [] \<or> connectionID = [] then \<lparr>rt_NodeID = [], rt_ConnectionID = [], rt_ExpiresAt = zero_time\<rparr>
          else \<lparr>rt_NodeID = nodeID, rt_ConnectionID = connectionID, rt_ExpiresAt = zero_time\<rparr>
      | None \<Rightarrow> \<lparr>rt_NodeID = [], rt_ConnectionID = [], rt_ExpiresAt = zero_time\<rparr>)"

definition normalized :: "messagingClientAttention \<Rightarrow> messagingClientAttention" where
  "normalized a =
     (let a = a\<lparr>att_SubscriptionID := trimSpace (att_SubscriptionID a), att_ActiveTopic := trimSpace (att_ActiveTopic a)\<rparr>;
          a = (if length (att_SubscriptionID a) > 128 then a\<lparr>att_SubscriptionID := []\<rparr> else a)
      in if length (att_ActiveTopic a) > 512 then a\<lparr>att_ActiveTopic := []\<rparr> else a)"

definition suppresses :: "messagingClientAttention \<Rightarrow> string \<Rightarrow> string \<Rightarrow> bool" where
  "suppresses a subscriptionID topic \<longleftrightarrow>
     (let a = normalized a; subscriptionID = trimSpace subscriptionID; topic = trimSpace topic
      in att_Visible a \<and> att_Focused a \<and>
         att_SubscriptionID a \<noteq> [] \<and> subscriptionID \<noteq> [] \<and> att_SubscriptionID a = subscriptionID \<and>
         att_ActiveTopic a \<noteq> [] \<and> topic \<noteq> [] \<and> att_ActiveTopic a = topic)"

definition suppressible :: "messagingClientAttention \<Rightarrow> bool" where
  "suppressible a \<longleftrightarrow>
     (let a = normalized a in att_Visible a \<and> att_Focused a \<and> att_SubscriptionID a \<noteq> [] \<and> att_ActiveTopic a \<noteq> [])"

definition setMessagingClientAttention ::
  "uid \<Rightarrow> runtimeRoute \<Rightarrow> messagingClientAttention \<Rightarrow> go_time \<Rightarrow> duration \<Rightarrow> sharedMemoryRuntimeState \<Rightarrow>
   sharedMemoryRuntimeState" where
  "setMessagingClientAttention u route attention now ttl s =
     (if u \<le> 0 \<or> messagingClientAttentionIdentity route = [] then s
      else let identity = messagingClientAttentionIdentity route; attention = normalized attention
      in if \<not> suppressible attention \<or> ttl \<le> 0
         then s\<lparr>sh_messagingClientAttention := nm_del u identity (sh_messagingClientAttention s)\<rparr>
         else if \<not> validAt route now then s
         else s\<lparr>sh_messagingClientAttention := nm_put u identity
                  \<lparr>al_route = route\<lparr>rt_ExpiresAt := now + ttl\<rparr>, al_attention = attention\<rparr> (sh_messagingClientAttention s)\<rparr>)"

definition clearMessagingClientAttention :: "uid \<Rightarrow> runtimeRoute \<Rightarrow> sharedMemoryRuntimeState \<Rightarrow> sharedMemoryRuntimeState" where
  "clearMessagingClientAttention u route s =
     (if u \<le> 0 \<or> messagingClientAttentionIdentity route = [] then s
      else let identity = messagingClientAttentionIdentity route
      in case nm_get (sh_messagingClientAttention s) u identity of
           None \<Rightarrow> s
         | Some current \<Rightarrow>
             if \<not> route_matches (al_route current) route then s
             else s\<lparr>sh_messagingClientAttention := nm_del u identity (sh_messagingClientAttention s)\<rparr>)"

text \<open>
  The loop stops at the first lease that suppresses and deletes the expired leases it passed. Go
  visits the map in any order; the answer does not depend on it (below).
\<close>

fun attention_scan ::
  "string \<Rightarrow> string \<Rightarrow> go_time \<Rightarrow> (string, messagingClientAttentionLease) gomap \<Rightarrow> string list \<times> bool" where
  "attention_scan subscriptionID topic now [] = ([], False)"
| "attention_scan subscriptionID topic now ((identity, lease) # ls) =
     (if validAt (al_route lease) now
      then if suppresses (al_attention lease) subscriptionID topic then ([], True)
           else attention_scan subscriptionID topic now ls
      else case attention_scan subscriptionID topic now ls of (gone, found) \<Rightarrow> (identity # gone, found))"

definition hasMessagingClientAttention ::
  "uid \<Rightarrow> string \<Rightarrow> string \<Rightarrow> go_time \<Rightarrow> sharedMemoryRuntimeState \<Rightarrow> sharedMemoryRuntimeState \<times> bool" where
  "hasMessagingClientAttention u subscriptionID topic now s =
     (if u \<le> 0 then (s, False)
      else case attention_scan subscriptionID topic now (nm_inner (sh_messagingClientAttention s) u) of
        (gone, found) \<Rightarrow>
          (s\<lparr>sh_messagingClientAttention := fold (nm_del u) gone (sh_messagingClientAttention s)\<rparr>, found))"

section \<open>Specification\<close>

datatype att_op = ASet uid runtimeRoute messagingClientAttention go_time duration
  | AClear uid runtimeRoute go_time | AHas uid string string go_time

fun att_time :: "att_op \<Rightarrow> go_time" where
  "att_time (ASet u r a now ttl) = now"
| "att_time (AClear u r now) = now"
| "att_time (AHas u sub topic now) = now"

fun att_step :: "att_op \<Rightarrow> sharedMemoryRuntimeState \<Rightarrow> sharedMemoryRuntimeState" where
  "att_step (ASet u r a now ttl) s = setMessagingClientAttention u r a now ttl s"
| "att_step (AClear u r now) s = clearMessagingClientAttention u r s"
| "att_step (AHas u sub topic now) s = fst (hasMessagingClientAttention u sub topic now s)"

text \<open>What a connection last advertised; nothing expires here.\<close>

type_synonym att_spec = "uid \<Rightarrow> string \<Rightarrow> messagingClientAttentionLease option"

definition spec_set :: "uid \<Rightarrow> string \<Rightarrow> messagingClientAttentionLease option \<Rightarrow> att_spec \<Rightarrow> att_spec" where
  "spec_set u i v m = (\<lambda>u' i'. if u' = u \<and> i' = i then v else m u' i')"

fun att_spec_step :: "att_op \<Rightarrow> att_spec \<Rightarrow> att_spec" where
  "att_spec_step (ASet u r a now ttl) m =
     (if u \<le> 0 \<or> messagingClientAttentionIdentity r = [] then m
      else if \<not> suppressible a \<or> ttl \<le> 0 then spec_set u (messagingClientAttentionIdentity r) None m
      else if \<not> validAt r now then m
      else spec_set u (messagingClientAttentionIdentity r)
             (Some \<lparr>al_route = r\<lparr>rt_ExpiresAt := now + ttl\<rparr>, al_attention = normalized a\<rparr>) m)"
| "att_spec_step (AClear u r now) m =
     (if u \<le> 0 then m
      else case m u (messagingClientAttentionIdentity r) of
        None \<Rightarrow> m
      | Some l \<Rightarrow> if route_matches (al_route l) r then spec_set u (messagingClientAttentionIdentity r) None m else m)"
| "att_spec_step (AHas u sub topic now) m = m"

definition att_spec_holds :: "att_spec \<Rightarrow> uid \<Rightarrow> string \<Rightarrow> string \<Rightarrow> go_time \<Rightarrow> bool" where
  "att_spec_holds m u sub topic now \<longleftrightarrow>
     (\<exists>i l. m u i = Some l \<and> validAt (al_route l) now \<and> suppresses (al_attention l) sub topic)"

section \<open>The state refines the specification\<close>

lemma normalized_idem [simp]: "normalized (normalized a) = normalized a"
  by (auto simp: normalized_def Let_def)

lemma suppressible_normalized [simp]: "suppressible (normalized a) = suppressible a"
  by (simp add: suppressible_def)

lemma scan_found:
  "snd (attention_scan sub topic now ls) \<longleftrightarrow>
   (\<exists>i l. (i, l) \<in> set ls \<and> validAt (al_route l) now \<and> suppresses (al_attention l) sub topic)"
proof (induction ls)
  case (Cons x ls)
  then show ?case by (cases x) (auto split: prod.split)
qed simp

lemma scan_gone:
  "i \<in> set (fst (attention_scan sub topic now ls)) \<Longrightarrow> \<exists>l. (i, l) \<in> set ls \<and> \<not> validAt (al_route l) now"
proof (induction ls)
  case (Cons x ls)
  then show ?case by (cases x) (fastforce split: if_splits prod.splits)
qed simp

lemma fold_nm_del: "nm_get (fold (nm_del u) ks m) u' k = (if u' = u \<and> k \<in> set ks then None else nm_get m u' k)"
  by (induction ks arbitrary: m) (auto simp: gomap_simps)

lemma nm_ok_fold_del: "nm_ok m \<Longrightarrow> nm_ok (fold (nm_del u) ks m)"
  by (induction ks arbitrary: m) simp_all

text \<open>The state holds the specification's leases, except some that have expired.\<close>

definition att_refines :: "go_time \<Rightarrow> sharedMemoryRuntimeState \<Rightarrow> att_spec \<Rightarrow> bool" where
  "att_refines now s m \<longleftrightarrow> nm_ok (sh_messagingClientAttention s) \<and> (\<forall>u. m u [] = None) \<and>
     (\<forall>u i. nm_get (sh_messagingClientAttention s) u i = m u i \<or>
        nm_get (sh_messagingClientAttention s) u i = None \<and> (\<exists>l. m u i = Some l \<and> \<not> validAt (al_route l) now))"

lemma att_refines_later: "att_refines now s m \<Longrightarrow> now \<le> now' \<Longrightarrow> att_refines now' s m"
  unfolding att_refines_def by (metis validAt_mono)

lemma inner_lease: "nm_ok m \<Longrightarrow> (i, l) \<in> set (nm_inner m u) \<longleftrightarrow> nm_get m u i = Some l"
  using nm_ok_inner [of m u] by (simp add: nm_get_def gm_ok_def map_of_eq_Some_iff)

lemma has_refines:
  assumes "att_refines now s m" and "0 < u"
  shows "snd (hasMessagingClientAttention u sub topic now s) \<longleftrightarrow> att_spec_holds m u sub topic now"
proof -
  let ?t = "sh_messagingClientAttention s"
  from assms have "nm_ok ?t" by (simp add: att_refines_def)
  then have "snd (hasMessagingClientAttention u sub topic now s) \<longleftrightarrow>
      (\<exists>i l. nm_get ?t u i = Some l \<and> validAt (al_route l) now \<and> suppresses (al_attention l) sub topic)"
    using assms(2) scan_found [of sub topic now "nm_inner ?t u"]
    by (auto simp: hasMessagingClientAttention_def inner_lease split: prod.splits)
  also have "\<dots> \<longleftrightarrow> att_spec_holds m u sub topic now"
  proof
    assume "\<exists>i l. nm_get ?t u i = Some l \<and> validAt (al_route l) now \<and> suppresses (al_attention l) sub topic"
    then obtain i l where "nm_get ?t u i = Some l" "validAt (al_route l) now" "suppresses (al_attention l) sub topic" by blast
    moreover from this(1) assms(1) have "m u i = Some l" unfolding att_refines_def by (metis option.distinct(1))
    ultimately show "att_spec_holds m u sub topic now" by (auto simp: att_spec_holds_def)
  next
    assume "att_spec_holds m u sub topic now"
    then obtain i l where "m u i = Some l" "validAt (al_route l) now" "suppresses (al_attention l) sub topic"
      by (auto simp: att_spec_holds_def)
    moreover from this(1,2) assms(1) have "nm_get ?t u i = Some l" unfolding att_refines_def by (metis option.inject)
    ultimately show "\<exists>i l. nm_get ?t u i = Some l \<and> validAt (al_route l) now \<and> suppresses (al_attention l) sub topic" by blast
  qed
  finally show ?thesis .
qed

lemma att_refines_step:
  assumes r: "att_refines now s m" and "att_time op = now"
  shows "att_refines now (att_step op s) (att_spec_step op m)"
proof (cases op)
  case (ASet u r a t ttl)
  with assms show ?thesis
    by (auto simp: setMessagingClientAttention_def att_refines_def spec_set_def gomap_simps Let_def)
next
  case (AClear u r t)
  let ?i = "messagingClientAttentionIdentity r"
  from r have none: "m u [] = None" by (simp add: att_refines_def)
  show ?thesis
  proof (cases "nm_get (sh_messagingClientAttention s) u ?i")
    case None
    with AClear r none show ?thesis
      by (auto simp: clearMessagingClientAttention_def att_refines_def spec_set_def Let_def split: option.split)
  next
    case (Some l)
    with r have "m u ?i = Some l" unfolding att_refines_def by (metis option.distinct(1))
    with AClear r none Some show ?thesis
      by (auto simp: clearMessagingClientAttention_def att_refines_def spec_set_def gomap_simps Let_def)
  qed
next
  case (AHas u sub topic t)
  let ?gone = "fst (attention_scan sub topic t (nm_inner (sh_messagingClientAttention s) u))"
  have gone: "\<exists>l. nm_get (sh_messagingClientAttention s) u i = Some l \<and> \<not> validAt (al_route l) t" if "i \<in> set ?gone" for i
    using scan_gone [OF that] r by (auto simp: att_refines_def inner_lease)
  have st: "sh_messagingClientAttention (fst (hasMessagingClientAttention u sub topic t s)) =
      (if u \<le> 0 then sh_messagingClientAttention s else fold (nm_del u) ?gone (sh_messagingClientAttention s))"
    by (simp add: hasMessagingClientAttention_def split: prod.split)
  have get: "nm_get (sh_messagingClientAttention (fst (hasMessagingClientAttention u sub topic t s))) v i =
      (if 0 < u \<and> v = u \<and> i \<in> set ?gone then None else nm_get (sh_messagingClientAttention s) v i)" for v i
    by (simp add: st fold_nm_del)
  have "nm_ok (sh_messagingClientAttention (fst (hasMessagingClientAttention u sub topic t s)))"
    using r by (simp add: st att_refines_def nm_ok_fold_del)
  moreover have "nm_get (sh_messagingClientAttention (fst (hasMessagingClientAttention u sub topic t s))) v i = m v i \<or>
      nm_get (sh_messagingClientAttention (fst (hasMessagingClientAttention u sub topic t s))) v i = None \<and>
      (\<exists>l. m v i = Some l \<and> \<not> validAt (al_route l) now)" for v i
  proof (cases "0 < u \<and> v = u \<and> i \<in> set ?gone")
    case True
    with gone [of i] obtain l where "nm_get (sh_messagingClientAttention s) v i = Some l" "\<not> validAt (al_route l) t" by auto
    with r True AHas assms(2) show ?thesis unfolding att_refines_def get by (metis att_time.simps(3) option.distinct(1))
  next
    case False
    with r show ?thesis unfolding att_refines_def get by auto
  qed
  ultimately show ?thesis using r by (simp add: att_refines_def AHas)
qed

lemma att_refines_run:
  "att_refines now s m \<Longrightarrow> sorted (map att_time ops) \<Longrightarrow> \<forall>op\<in>set ops. now \<le> att_time op \<and> att_time op \<le> later \<Longrightarrow> now \<le> later \<Longrightarrow>
   att_refines later (fold att_step ops s) (fold att_spec_step ops m)"
proof (induction ops arbitrary: now s m)
  case Nil
  then show ?case by (simp add: att_refines_later)
next
  case (Cons op ops)
  then have "att_refines (att_time op) s m" by (auto intro: att_refines_later)
  from att_refines_step [OF this refl] Cons.IH [of "att_time op" "att_step op s" "att_spec_step op m"] Cons.prems
  show ?case by auto
qed

text \<open>
  a push is suppressed exactly when some connection of the user last advertised that very
  subscription and conversation, visible and focused, and its advertisement is still alive. What the
  state forgets while it answers, and the order in which it visits the connections, never change the
  answer.
\<close>

theorem attention_is_last_advertised:
  assumes "0 < u" and "sorted (map att_time ops)" and "\<forall>op\<in>set ops. att_time op \<le> now"
  shows "snd (hasMessagingClientAttention u sub topic now (fold att_step ops newSharedMemoryRuntimeState)) \<longleftrightarrow>
    att_spec_holds (fold att_spec_step ops (\<lambda>_ _. None)) u sub topic now"
proof (rule has_refines [OF _ assms(1)], cases ops)
  case Nil
  then show "att_refines now (fold att_step ops newSharedMemoryRuntimeState) (fold att_spec_step ops (\<lambda>_ _. None))"
    by (simp add: att_refines_def newSharedMemoryRuntimeState_def)
next
  case (Cons op ops')
  have "att_refines (att_time op) newSharedMemoryRuntimeState (\<lambda>_ _. None)"
    by (simp add: att_refines_def newSharedMemoryRuntimeState_def)
  with Cons assms(2,3) show "att_refines now (fold att_step ops newSharedMemoryRuntimeState) (fold att_spec_step ops (\<lambda>_ _. None))"
    by (intro att_refines_run) auto
qed

definition sample_attention :: messagingClientAttention where
  "sample_attention = \<lparr>att_SubscriptionID = ''sub'', att_ActiveTopic = '' p2p '', att_Visible = True, att_Focused = True\<rparr>"

theorem attention_is_last_advertised_witness:
  "let r = \<lparr>rt_NodeID = ''n'', rt_ConnectionID = ''c'', rt_ExpiresAt = zero_time\<rparr>;
       ops = [ASet 5 r sample_attention 10 100, AHas 5 ''sub'' ''x'' 20, AClear 5 (r\<lparr>rt_ConnectionID := ''d''\<rparr>) 30]
   in snd (hasMessagingClientAttention 5 ''sub'' ''p2p'' 40 (fold att_step ops newSharedMemoryRuntimeState)) \<and>
      att_spec_holds (fold att_spec_step ops (\<lambda>_ _. None)) 5 ''sub'' ''p2p'' 40"
proof -
  let ?r = "\<lparr>rt_NodeID = ''n'', rt_ConnectionID = ''c'', rt_ExpiresAt = zero_time\<rparr>"
  let ?ops = "[ASet 5 ?r sample_attention 10 100, AHas 5 ''sub'' ''x'' 20, AClear 5 (?r\<lparr>rt_ConnectionID := ''d''\<rparr>) 30]"
  have "snd (hasMessagingClientAttention 5 ''sub'' ''p2p'' 40 (fold att_step ?ops newSharedMemoryRuntimeState))" by code_simp
  with attention_is_last_advertised [of 5 ?ops 40 "''sub''" "''p2p''"] show ?thesis by (simp only: Let_def) simp
qed

section \<open>Identities\<close>

lemma cut_nul_append: "CHR 0x00 \<notin> set a \<Longrightarrow> cut_nul (a @ CHR 0x00 # b) = Some (a, b)"
  by (induction a) auto

text \<open>An identity stands for exactly one connection of a node whose name has no zero byte.\<close>

lemma attention_identity_roundtrip:
  assumes "rt_NodeID r \<noteq> []" and "rt_ConnectionID r \<noteq> []" and "CHR 0x00 \<notin> set (rt_NodeID r)"
  shows "messagingClientAttentionRoute (messagingClientAttentionIdentity r) = r\<lparr>rt_ExpiresAt := zero_time\<rparr>"
  using assms by (simp add: messagingClientAttentionRoute_def messagingClientAttentionIdentity_def cut_nul_append)

end
