(* ===== verification/BodyLease.thy ===== *)
theory BodyLease
  imports RuntimeTypes
begin

text \<open>
  The body lease of a bot: at most one body (a running instance of the bot) may hold a bot's
  connection. \<open>server/runtime_state.go\<close> keeps the leases in the shared state, where they lapse;
  \<open>server/bot_body_lease.go\<close> keeps them in the process when there is no shared state, and forwards to
  it when there is one. Both are instances of the locale \<open>body_lease\<close>, in which the exclusion
  property is proved once for every sequence of operations.
\<close>

section \<open>Body ids\<close>

text \<open>The error of a conflict carries the lease the code returns beside it.\<close>

datatype lease_error = InvalidBotBodyID | BotBodyLeaseConflict botBodyLease

definition id_first_char :: "char \<Rightarrow> bool" where
  "id_first_char c \<longleftrightarrow>
     (let n = of_char c :: nat in (48 \<le> n \<and> n \<le> 57) \<or> (65 \<le> n \<and> n \<le> 90) \<or> (97 \<le> n \<and> n \<le> 122))"

definition id_char :: "char \<Rightarrow> bool" where
  "id_char c \<longleftrightarrow> id_first_char c \<or> c \<in> {CHR ''.'', CHR ''_'', CHR '':'', CHR ''-''}"

text \<open>The pattern \<open>^[A-Za-z0-9][A-Za-z0-9._:-]{0,127}$\<close> of body ids and of device ids.\<close>

definition id_pattern :: "string \<Rightarrow> bool" where
  "id_pattern s \<longleftrightarrow> s \<noteq> [] \<and> id_first_char (hd s) \<and> list_all id_char (tl s) \<and> length s \<le> 128"

definition normalizeBotBodyID :: "string \<Rightarrow> lease_error + string" where
  "normalizeBotBodyID v =
     (let bodyID = trimSpace v
      in if bodyID = [] \<or> length bodyID > 128 \<or> \<not> id_pattern bodyID then Inl InvalidBotBodyID else Inr bodyID)"

definition legacyBotBodyID :: "uid \<Rightarrow> string" where
  "legacyBotBodyID botUID = ''legacy:'' @ formatInt botUID"

definition isLegacyBotBodyID :: "string \<Rightarrow> bool" where
  "isLegacyBotBodyID bodyID \<longleftrightarrow> hasPrefix bodyID ''legacy:''"

definition botBodyIDStrictMode :: "(string \<Rightarrow> string) \<Rightarrow> bool" where
  "botBodyIDStrictMode getenv \<longleftrightarrow>
     toLower (trimSpace (getenv ''CATSCO_REQUIRE_BOT_BODY_ID'')) \<in> {''1'', ''true'', ''yes'', ''on''}"

section \<open>Leases in the shared state\<close>

definition buildSharedBotBodyLease :: "uid \<Rightarrow> string \<Rightarrow> string \<Rightarrow> string \<Rightarrow> go_time \<Rightarrow> duration \<Rightarrow> botBodyLease" where
  "buildSharedBotBodyLease botUID bodyID connectionID nodeID now ttl =
     \<lparr>bl_botUID = botUID, bl_bodyID = bodyID, bl_connectionID = connectionID, bl_nodeID = nodeID,
      bl_acquiredAt = now, bl_expiresAt = now + ttl\<rparr>"

definition isSharedLeaseActive :: "botBodyLease \<Rightarrow> go_time \<Rightarrow> bool" where
  "isSharedLeaseActive l now \<longleftrightarrow>
     bl_bodyID l \<noteq> [] \<and> (is_zero_time (bl_expiresAt l) \<or> now < bl_expiresAt l)"

definition sh_set_lease :: "uid \<Rightarrow> botBodyLease \<Rightarrow> sharedMemoryRuntimeState \<Rightarrow> sharedMemoryRuntimeState" where
  "sh_set_lease u l s = s\<lparr>sh_botLeases := gm_put u l (sh_botLeases s)\<rparr>"

definition acquireBotBodyLease ::
  "uid \<Rightarrow> string \<Rightarrow> string \<Rightarrow> string \<Rightarrow> go_time \<Rightarrow> duration \<Rightarrow> sharedMemoryRuntimeState \<Rightarrow>
   sharedMemoryRuntimeState \<times> (lease_error + botBodyLeaseResult)" where
  "acquireBotBodyLease botUID bodyID connectionID nodeID now ttl s =
     (let next = buildSharedBotBodyLease botUID bodyID connectionID nodeID now ttl
      in case map_of (sh_botLeases s) botUID of
           Some existing \<Rightarrow>
             if isSharedLeaseActive existing now then
               if bl_bodyID existing \<noteq> bodyID then
                 if isLegacyBotBodyID (bl_bodyID existing) \<and> \<not> isLegacyBotBodyID bodyID
                 then (sh_set_lease botUID next s, Inr \<lparr>br_Lease = next, br_Replaced = True\<rparr>)
                 else (s, Inl (BotBodyLeaseConflict existing))
               else (sh_set_lease botUID next s, Inr \<lparr>br_Lease = next, br_Replaced = True\<rparr>)
             else (sh_set_lease botUID next s, Inr \<lparr>br_Lease = next, br_Replaced = False\<rparr>)
         | None \<Rightarrow> (sh_set_lease botUID next s, Inr \<lparr>br_Lease = next, br_Replaced = False\<rparr>))"

definition botBodyLeaseConflict :: "uid \<Rightarrow> string \<Rightarrow> go_time \<Rightarrow> sharedMemoryRuntimeState \<Rightarrow> botBodyLease option" where
  "botBodyLeaseConflict botUID bodyID now s =
     (if botUID \<le> 0 \<or> bodyID = [] then None
      else case map_of (sh_botLeases s) botUID of
             None \<Rightarrow> None
           | Some existing \<Rightarrow>
               if \<not> isSharedLeaseActive existing now \<or> bl_bodyID existing = bodyID then None
               else if isLegacyBotBodyID (bl_bodyID existing) \<and> \<not> isLegacyBotBodyID bodyID then None
               else Some existing)"

definition botBodyLeaseStatus :: "uid \<Rightarrow> go_time \<Rightarrow> sharedMemoryRuntimeState \<Rightarrow> botBodyLease option" where
  "botBodyLeaseStatus botUID now s =
     (if botUID \<le> 0 then None
      else case map_of (sh_botLeases s) botUID of
             None \<Rightarrow> None
           | Some lease \<Rightarrow> if isSharedLeaseActive lease now then Some lease else None)"

definition botBodyLeaseIsCurrent ::
  "uid \<Rightarrow> string \<Rightarrow> string \<Rightarrow> string \<Rightarrow> go_time \<Rightarrow> sharedMemoryRuntimeState \<Rightarrow> bool" where
  "botBodyLeaseIsCurrent botUID bodyID connectionID nodeID now s \<longleftrightarrow>
     \<not> (botUID \<le> 0 \<or> bodyID = [] \<or> connectionID = []) \<and>
     (case map_of (sh_botLeases s) botUID of
        None \<Rightarrow> False
      | Some lease \<Rightarrow> isSharedLeaseActive lease now \<and> bl_bodyID lease = bodyID \<and>
          bl_connectionID lease = connectionID \<and> bl_nodeID lease = nodeID)"

definition releaseBotBodyLease ::
  "uid \<Rightarrow> string \<Rightarrow> string \<Rightarrow> string \<Rightarrow> sharedMemoryRuntimeState \<Rightarrow> sharedMemoryRuntimeState \<times> bool" where
  "releaseBotBodyLease botUID bodyID connectionID nodeID s =
     (if botUID \<le> 0 \<or> bodyID = [] \<or> connectionID = [] then (s, False)
      else case map_of (sh_botLeases s) botUID of
             None \<Rightarrow> (s, False)
           | Some lease \<Rightarrow>
               if bl_bodyID lease \<noteq> bodyID \<or> bl_connectionID lease \<noteq> connectionID \<or> bl_nodeID lease \<noteq> nodeID
               then (s, False)
               else (s\<lparr>sh_botLeases := gm_del botUID (sh_botLeases s)\<rparr>, True))"

definition renewBotBodyLease ::
  "uid \<Rightarrow> string \<Rightarrow> string \<Rightarrow> string \<Rightarrow> go_time \<Rightarrow> duration \<Rightarrow> sharedMemoryRuntimeState \<Rightarrow> sharedMemoryRuntimeState \<times> bool" where
  "renewBotBodyLease botUID bodyID connectionID nodeID now ttl s =
     (if botUID \<le> 0 \<or> bodyID = [] \<or> connectionID = [] then (s, False)
      else case map_of (sh_botLeases s) botUID of
             None \<Rightarrow> (s, False)
           | Some lease \<Rightarrow>
               if bl_bodyID lease \<noteq> bodyID \<or> bl_connectionID lease \<noteq> connectionID \<or> bl_nodeID lease \<noteq> nodeID
               then (s, False)
               else (sh_set_lease botUID (lease\<lparr>bl_expiresAt := now + ttl\<rparr>) s, True))"

section \<open>Leases in the process\<close>

text \<open>
  The manager of \<open>server/bot_body_lease.go\<close>. Its methods take the shared state, when the server has
  one, and return it beside the manager.
\<close>

record botBodyLeaseManager =
  mg_ttl :: duration
  mg_leases :: "(uid, botBodyLease) gomap"
  mg_nodeID :: string

type_synonym lease_env = "botBodyLeaseManager \<times> sharedMemoryRuntimeState option"

definition newBotBodyLeaseManager :: "duration \<Rightarrow> botBodyLeaseManager" where
  "newBotBodyLeaseManager ttl =
     \<lparr>mg_ttl = (if ttl \<le> 0 then 2 * go_minute else ttl), mg_leases = [], mg_nodeID = []\<rparr>"

definition mg_next :: "botBodyLeaseManager \<Rightarrow> uid \<Rightarrow> string \<Rightarrow> string \<Rightarrow> go_time \<Rightarrow> botBodyLease" where
  "mg_next m botUID bodyID connectionID now =
     \<lparr>bl_botUID = botUID, bl_bodyID = bodyID, bl_connectionID = connectionID, bl_nodeID = mg_nodeID m,
      bl_acquiredAt = now, bl_expiresAt = now + mg_ttl m\<rparr>"

definition mg_set :: "uid \<Rightarrow> botBodyLease \<Rightarrow> botBodyLeaseManager \<Rightarrow> botBodyLeaseManager" where
  "mg_set u l m = m\<lparr>mg_leases := gm_put u l (mg_leases m)\<rparr>"

fun lm_acquire ::
  "uid \<Rightarrow> string \<Rightarrow> string \<Rightarrow> go_time \<Rightarrow> lease_env \<Rightarrow> lease_env \<times> (lease_error + botBodyLeaseResult)" where
  "lm_acquire botUID bodyID connectionID now (m, shared) =
     (if botUID \<le> 0 \<or> bodyID = [] \<or> connectionID = [] then ((m, shared), Inl InvalidBotBodyID)
      else case shared of
        Some s \<Rightarrow>
          (case acquireBotBodyLease botUID bodyID connectionID (mg_nodeID m) now (mg_ttl m) s of
             (s', r) \<Rightarrow> ((m, Some s'), r))
      | None \<Rightarrow>
          (let next = mg_next m botUID bodyID connectionID now
           in case map_of (mg_leases m) botUID of
                Some existing \<Rightarrow>
                  if bl_bodyID existing \<noteq> bodyID then
                    if isLegacyBotBodyID (bl_bodyID existing) \<and> \<not> isLegacyBotBodyID bodyID
                    then ((mg_set botUID next m, None), Inr \<lparr>br_Lease = next, br_Replaced = True\<rparr>)
                    else ((m, None), Inl (BotBodyLeaseConflict existing))
                  else ((mg_set botUID next m, None), Inr \<lparr>br_Lease = next, br_Replaced = True\<rparr>)
              | None \<Rightarrow> ((mg_set botUID next m, None), Inr \<lparr>br_Lease = next, br_Replaced = False\<rparr>)))"

fun lm_conflicts :: "uid \<Rightarrow> string \<Rightarrow> go_time \<Rightarrow> lease_env \<Rightarrow> botBodyLease option" where
  "lm_conflicts botUID bodyID now (m, shared) =
     (if botUID \<le> 0 \<or> bodyID = [] then None
      else case shared of
        Some s \<Rightarrow> botBodyLeaseConflict botUID bodyID now s
      | None \<Rightarrow>
          (case map_of (mg_leases m) botUID of
             None \<Rightarrow> None
           | Some existing \<Rightarrow>
               if bl_bodyID existing = bodyID then None
               else if isLegacyBotBodyID (bl_bodyID existing) \<and> \<not> isLegacyBotBodyID bodyID then None
               else Some existing))"

fun lm_status :: "uid \<Rightarrow> go_time \<Rightarrow> lease_env \<Rightarrow> botBodyLease option" where
  "lm_status botUID now (m, shared) =
     (if botUID \<le> 0 then None
      else case shared of
        Some s \<Rightarrow> botBodyLeaseStatus botUID now s
      | None \<Rightarrow> map_of (mg_leases m) botUID)"

fun lm_isCurrent :: "uid \<Rightarrow> string \<Rightarrow> string \<Rightarrow> go_time \<Rightarrow> lease_env \<Rightarrow> bool" where
  "lm_isCurrent botUID bodyID connectionID now (m, shared) =
     (if botUID \<le> 0 \<or> bodyID = [] \<or> connectionID = [] then False
      else case shared of
        Some s \<Rightarrow> botBodyLeaseIsCurrent botUID bodyID connectionID (mg_nodeID m) now s
      | None \<Rightarrow>
          (case map_of (mg_leases m) botUID of
             None \<Rightarrow> False
           | Some existing \<Rightarrow> bl_bodyID existing = bodyID \<and> bl_connectionID existing = connectionID))"

fun lm_release :: "uid \<Rightarrow> string \<Rightarrow> string \<Rightarrow> lease_env \<Rightarrow> lease_env \<times> bool" where
  "lm_release botUID bodyID connectionID (m, shared) =
     (if botUID \<le> 0 \<or> bodyID = [] \<or> connectionID = [] then ((m, shared), False)
      else case shared of
        Some s \<Rightarrow>
          (case releaseBotBodyLease botUID bodyID connectionID (mg_nodeID m) s of (s', ok) \<Rightarrow> ((m, Some s'), ok))
      | None \<Rightarrow>
          (case map_of (mg_leases m) botUID of
             None \<Rightarrow> ((m, None), False)
           | Some existing \<Rightarrow>
               if bl_bodyID existing \<noteq> bodyID \<or> bl_connectionID existing \<noteq> connectionID then ((m, None), False)
               else ((m\<lparr>mg_leases := gm_del botUID (mg_leases m)\<rparr>, None), True)))"

fun lm_renew :: "uid \<Rightarrow> string \<Rightarrow> string \<Rightarrow> go_time \<Rightarrow> lease_env \<Rightarrow> lease_env \<times> bool" where
  "lm_renew botUID bodyID connectionID now (m, shared) =
     (if botUID \<le> 0 \<or> bodyID = [] \<or> connectionID = [] then ((m, shared), False)
      else case shared of
        Some s \<Rightarrow>
          (case renewBotBodyLease botUID bodyID connectionID (mg_nodeID m) now (mg_ttl m) s of
             (s', ok) \<Rightarrow> ((m, Some s'), ok))
      | None \<Rightarrow>
          (case map_of (mg_leases m) botUID of
             None \<Rightarrow> ((m, None), False)
           | Some existing \<Rightarrow>
               if bl_bodyID existing \<noteq> bodyID \<or> bl_connectionID existing \<noteq> connectionID then ((m, None), False)
               else ((mg_set botUID (existing\<lparr>bl_expiresAt := now + mg_ttl m\<rparr>) m, None), True)))"

definition lm_runtimeMode :: "lease_env \<Rightarrow> string" where
  "lm_runtimeMode env = (case snd env of Some _ \<Rightarrow> ''shared_memory'' | None \<Rightarrow> ''process'')"

section \<open>The interface\<close>

text \<open>
  What a lease keeper promises. A connection is identified by \<open>'c\<close>: its id in the process, its id
  together with the node's in the shared state. \<open>alive\<close> says whether a lease counts at a time.
\<close>

definition takes_over :: "botBodyLease \<Rightarrow> string \<Rightarrow> bool" where
  "takes_over l b \<longleftrightarrow> isLegacyBotBodyID (bl_bodyID l) \<and> \<not> isLegacyBotBodyID b"

datatype 'c lease_op =
    LeaseAcquire uid string 'c go_time
  | LeaseRelease uid string 'c
  | LeaseRenew uid string 'c go_time

text \<open>
  The operations that leave a holder \<open>b\<close>, \<open>c\<close> of bot \<open>u\<close> in place until \<open>D\<close>: other bodies' attempts
  before \<open>D\<close>, releases of anything else, renewals that reach \<open>D\<close>, and whatever happens to other bots.
\<close>

fun leaves :: "uid \<Rightarrow> string \<Rightarrow> 'c \<Rightarrow> go_time \<Rightarrow> duration \<Rightarrow> 'c lease_op \<Rightarrow> bool" where
  "leaves u b c D d (LeaseAcquire v b' c' now) \<longleftrightarrow> (v = u \<longrightarrow> b' \<noteq> b \<and> now < D)"
| "leaves u b c D d (LeaseRelease v b' c') \<longleftrightarrow> (v = u \<longrightarrow> (b', c') \<noteq> (b, c))"
| "leaves u b c D d (LeaseRenew v b' c' now) \<longleftrightarrow> (v = u \<longrightarrow> D \<le> now + d)"

locale body_lease =
  fixes lease_of :: "'s \<Rightarrow> uid \<Rightarrow> botBodyLease option"
    and alive :: "botBodyLease \<Rightarrow> go_time \<Rightarrow> bool"
    and conn_of :: "botBodyLease \<Rightarrow> 'c"
    and ttl :: "'s \<Rightarrow> duration"
    and acquire :: "uid \<Rightarrow> string \<Rightarrow> 'c \<Rightarrow> go_time \<Rightarrow> 's \<Rightarrow> 's \<times> (lease_error + botBodyLeaseResult)"
    and release :: "uid \<Rightarrow> string \<Rightarrow> 'c \<Rightarrow> 's \<Rightarrow> 's \<times> bool"
    and renew :: "uid \<Rightarrow> string \<Rightarrow> 'c \<Rightarrow> go_time \<Rightarrow> 's \<Rightarrow> 's \<times> bool"
  assumes acquire_refused:
      "lease_of s u = Some l \<Longrightarrow> alive l now \<Longrightarrow> bl_bodyID l \<noteq> b \<Longrightarrow> \<not> takes_over l b \<Longrightarrow>
       \<exists>e. acquire u b c now s = (s, Inl e)"
    and acquire_frame: "v \<noteq> u \<Longrightarrow> lease_of (fst (acquire u b c now s)) v = lease_of s v"
    and release_other:
      "lease_of s v = Some l \<Longrightarrow> v \<noteq> u \<or> bl_bodyID l \<noteq> b \<or> conn_of l \<noteq> c \<Longrightarrow> lease_of (fst (release u b c s)) v = Some l"
    and renew_lease:
      "lease_of s v = Some l \<Longrightarrow>
       lease_of (fst (renew u b c now s)) v = Some l \<or>
       u = v \<and> lease_of (fst (renew u b c now s)) v = Some (l\<lparr>bl_expiresAt := now + ttl s\<rparr>)"
    and ttl_const: "ttl (fst (acquire u b c now s)) = ttl s" "ttl (fst (release u b c s)) = ttl s"
      "ttl (fst (renew u b c now s)) = ttl s"
    and conn_of_expiry: "conn_of (l\<lparr>bl_expiresAt := t\<rparr>) = conn_of l"
    and alive_until_expiry: "bl_bodyID l \<noteq> [] \<Longrightarrow> now < bl_expiresAt l \<Longrightarrow> alive l now"
begin

fun step :: "'c lease_op \<Rightarrow> 's \<Rightarrow> 's" where
  "step (LeaseAcquire u b c now) s = fst (acquire u b c now s)"
| "step (LeaseRelease u b c) s = fst (release u b c s)"
| "step (LeaseRenew u b c now) s = fst (renew u b c now s)"

definition holds :: "uid \<Rightarrow> string \<Rightarrow> 'c \<Rightarrow> go_time \<Rightarrow> 's \<Rightarrow> bool" where
  "holds u b c D s \<longleftrightarrow>
     (\<exists>l. lease_of s u = Some l \<and> bl_bodyID l = b \<and> conn_of l = c \<and> D \<le> bl_expiresAt l)"

lemma step_ttl: "ttl (step op s) = ttl s"
  by (cases op) (simp_all add: ttl_const)

lemma step_holds:
  assumes "holds u b c D s" and "b \<noteq> []" and "\<not> isLegacyBotBodyID b" and "leaves u b c D (ttl s) op"
  shows "holds u b c D (step op s)"
proof -
  from assms(1) obtain l where l: "lease_of s u = Some l" "bl_bodyID l = b" "conn_of l = c" "D \<le> bl_expiresAt l"
    by (auto simp: holds_def)
  show ?thesis
  proof (cases op)
    case (LeaseAcquire v b' c' now)
    show ?thesis
    proof (cases "v = u")
      case True
      with assms(4) LeaseAcquire have "b' \<noteq> b" and "now < D" by simp_all
      with l assms(2) have "alive l now" by (intro alive_until_expiry) auto
      with l \<open>b' \<noteq> b\<close> assms(3) obtain e where "acquire u b' c' now s = (s, Inl e)"
        using acquire_refused [of s u l now b' c'] by (auto simp: takes_over_def)
      with True LeaseAcquire assms(1) show ?thesis by simp
    next
      case False
      with LeaseAcquire l show ?thesis by (auto simp: holds_def acquire_frame)
    qed
  next
    case (LeaseRelease v b' c')
    with assms(4) l have "lease_of (step op s) u = Some l" by (auto intro!: release_other)
    with l show ?thesis by (auto simp: holds_def)
  next
    case (LeaseRenew v b' c' now)
    with renew_lease [OF l(1), of v b' c' now] assms(4) l show ?thesis
      by (auto simp: holds_def conn_of_expiry)
  qed
qed

lemma run_holds:
  assumes "holds u b c D s" and "b \<noteq> []" and "\<not> isLegacyBotBodyID b" and "\<forall>op \<in> set ops. leaves u b c D (ttl s) op"
  shows "holds u b c D (fold step ops s)"
  using assms(1,4)
proof (induction ops arbitrary: s)
  case (Cons op ops)
  from step_holds [OF Cons.prems(1) assms(2,3)] Cons.prems(2) have "holds u b c D (step op s)" by simp
  with Cons show ?case by (simp add: step_ttl)
qed simp

lemma held_refuses:
  assumes "holds u b c D s" and "b \<noteq> []" and "\<not> isLegacyBotBodyID b" and "now < D" and "b' \<noteq> b"
  shows "\<exists>e. acquire u b' c' now s = (s, Inl e)"
proof -
  from assms(1) obtain l where "lease_of s u = Some l" "bl_bodyID l = b" "D \<le> bl_expiresAt l"
    by (auto simp: holds_def)
  with assms show ?thesis
    by (intro acquire_refused [of s u l]) (auto simp: takes_over_def alive_until_expiry)
qed

end

section \<open>The shared state and the process keep leases\<close>

lemma set_lease_simps [simp]:
  "map_of (sh_botLeases (sh_set_lease u l s)) v = (if v = u then Some l else map_of (sh_botLeases s) v)"
  "map_of (mg_leases (mg_set u l m)) v = (if v = u then Some l else map_of (mg_leases m) v)"
  "mg_ttl (mg_set u l m) = mg_ttl m" "mg_nodeID (mg_set u l m) = mg_nodeID m"
  by (simp_all add: sh_set_lease_def mg_set_def gomap_simps)

interpretation shl: body_lease "\<lambda>s. map_of (sh_botLeases s)" isSharedLeaseActive
  "\<lambda>l. (bl_connectionID l, bl_nodeID l)" "\<lambda>_. ttl"
  "\<lambda>u b c now. acquireBotBodyLease u b (fst c) (snd c) now ttl"
  "\<lambda>u b c. releaseBotBodyLease u b (fst c) (snd c)"
  "\<lambda>u b c now. renewBotBodyLease u b (fst c) (snd c) now ttl" for ttl
  by unfold_locales
     (auto simp: acquireBotBodyLease_def releaseBotBodyLease_def renewBotBodyLease_def takes_over_def
        isSharedLeaseActive_def Let_def gomap_simps split: option.splits if_splits)

text \<open>Without a shared state every stored lease counts, whatever the time.\<close>

definition lm_local :: "(lease_env \<Rightarrow> lease_env \<times> 'r) \<Rightarrow> botBodyLeaseManager \<Rightarrow> botBodyLeaseManager \<times> 'r" where
  "lm_local f m = (case f (m, None) of ((m', _), r) \<Rightarrow> (m', r))"

interpretation lml: body_lease "\<lambda>m. map_of (mg_leases m)" "\<lambda>_ _. True" bl_connectionID mg_ttl
  "\<lambda>u b c now. lm_local (lm_acquire u b c now)" "\<lambda>u b c. lm_local (lm_release u b c)"
  "\<lambda>u b c now. lm_local (lm_renew u b c now)"
  by unfold_locales
     (auto simp: lm_local_def takes_over_def Let_def gomap_simps split: option.splits if_splits)

section \<open>Exclusion\<close>

fun shared_lease_step ::
  "duration \<Rightarrow> (string \<times> string) lease_op \<Rightarrow> sharedMemoryRuntimeState \<Rightarrow> sharedMemoryRuntimeState" where
  "shared_lease_step ttl (LeaseAcquire u b c now) s = fst (acquireBotBodyLease u b (fst c) (snd c) now ttl s)"
| "shared_lease_step ttl (LeaseRelease u b c) s = fst (releaseBotBodyLease u b (fst c) (snd c) s)"
| "shared_lease_step ttl (LeaseRenew u b c now) s = fst (renewBotBodyLease u b (fst c) (snd c) now ttl s)"

lemma shared_lease_step_eq: "shared_lease_step ttl = shl.step ttl"
proof (intro ext)
  show "shared_lease_step ttl op s = shl.step ttl op s" for op s by (cases op) simp_all
qed

lemma acquired_holds:
  "acquireBotBodyLease u b c n t0 ttl s = (s1, Inr r) \<Longrightarrow> shl.holds u b (c, n) (t0 + ttl) s1"
  by (auto simp: acquireBotBodyLease_def shl.holds_def buildSharedBotBodyLease_def Let_def
      split: option.splits if_splits)

lemma holds_is_current:
  "shl.holds u b (c, n) D s \<Longrightarrow> now < D \<Longrightarrow> 0 < u \<Longrightarrow> b \<noteq> [] \<Longrightarrow> c \<noteq> [] \<Longrightarrow> botBodyLeaseIsCurrent u b c n now s"
  by (auto simp: shl.holds_def botBodyLeaseIsCurrent_def isSharedLeaseActive_def)



section \<open>The process agrees with the shared state\<close>

fun lm_step :: "string lease_op \<Rightarrow> lease_env \<Rightarrow> lease_env \<times> (lease_error + botBodyLeaseResult) option \<times> bool" where
  "lm_step (LeaseAcquire u b c now) env = (case lm_acquire u b c now env of (env', r) \<Rightarrow> (env', Some r, False))"
| "lm_step (LeaseRelease u b c) env = (case lm_release u b c env of (env', ok) \<Rightarrow> (env', None, ok))"
| "lm_step (LeaseRenew u b c now) env = (case lm_renew u b c now env of (env', ok) \<Rightarrow> (env', None, ok))"

fun lm_run :: "string lease_op list \<Rightarrow> lease_env \<Rightarrow> ((lease_error + botBodyLeaseResult) option \<times> bool) list" where
  "lm_run [] env = []"
| "lm_run (op # ops) env = (case lm_step op env of (env', out) \<Rightarrow> out # lm_run ops env')"

fun op_within :: "go_time \<Rightarrow> go_time \<Rightarrow> 'c lease_op \<Rightarrow> bool" where
  "op_within t0 t1 (LeaseAcquire _ _ _ now) \<longleftrightarrow> t0 \<le> now \<and> now < t1"
| "op_within t0 t1 (LeaseRelease _ _ _) \<longleftrightarrow> True"
| "op_within t0 t1 (LeaseRenew _ _ _ now) \<longleftrightarrow> t0 \<le> now \<and> now < t1"

text \<open>The leases of the process are the shared ones, all made by this node and none of them lapsed.\<close>

definition lease_sim :: "go_time \<Rightarrow> botBodyLeaseManager \<Rightarrow> sharedMemoryRuntimeState \<Rightarrow> bool" where
  "lease_sim D m s \<longleftrightarrow>
     mg_leases m = sh_botLeases s \<and>
     (\<forall>u l. map_of (mg_leases m) u = Some l \<longrightarrow>
        bl_nodeID l = mg_nodeID m \<and> bl_bodyID l \<noteq> [] \<and> D \<le> bl_expiresAt l)"

lemma lease_sim_put:
  "lease_sim D m s \<Longrightarrow> bl_nodeID l = mg_nodeID m \<Longrightarrow> bl_bodyID l \<noteq> [] \<Longrightarrow> D \<le> bl_expiresAt l \<Longrightarrow>
   lease_sim D (mg_set u l m) (sh_set_lease u l s)"
  by (simp add: lease_sim_def) (simp add: mg_set_def sh_set_lease_def)

lemma lease_sim_del:
  "lease_sim D m s \<Longrightarrow>
   lease_sim D (m\<lparr>mg_leases := gm_del u (mg_leases m)\<rparr>) (s\<lparr>sh_botLeases := gm_del u (sh_botLeases s)\<rparr>)"
  by (simp add: lease_sim_def gomap_simps)

lemma lease_sim_active:
  "lease_sim D m s \<Longrightarrow> map_of (sh_botLeases s) u = Some l \<Longrightarrow> now < D \<Longrightarrow>
   isSharedLeaseActive l now \<and> bl_nodeID l = mg_nodeID m \<and> bl_bodyID l \<noteq> [] \<and> D \<le> bl_expiresAt l"
  unfolding lease_sim_def isSharedLeaseActive_def by (metis order_less_le_trans)

lemma mg_next_shared: "mg_next m u b c now = buildSharedBotBodyLease u b c (mg_nodeID m) now (mg_ttl m)"
  by (simp add: mg_next_def buildSharedBotBodyLease_def)

definition lease_agree :: "go_time \<Rightarrow> lease_env \<Rightarrow> lease_env \<Rightarrow> bool" where
  "lease_agree D local env \<longleftrightarrow>
     snd local = None \<and> mg_ttl (fst env) = mg_ttl (fst local) \<and> mg_nodeID (fst env) = mg_nodeID (fst local) \<and>
     (\<exists>s. snd env = Some s \<and> lease_sim D (fst local) s)"

lemma agree_acquire:
  assumes "lease_agree D (m, None) (m0, Some s)" and "now < D" and "D \<le> now + mg_ttl m"
  shows "snd (lm_acquire u b c now (m, None)) = snd (lm_acquire u b c now (m0, Some s)) \<and>
    lease_agree D (fst (lm_acquire u b c now (m, None))) (fst (lm_acquire u b c now (m0, Some s))) \<and>
    mg_ttl (fst (fst (lm_acquire u b c now (m, None)))) = mg_ttl m"
proof -
  have sim: "lease_sim D m s" and m0: "mg_ttl m0 = mg_ttl m" "mg_nodeID m0 = mg_nodeID m"
    using assms(1) by (auto simp: lease_agree_def)
  have eq: "map_of (sh_botLeases s) u = map_of (mg_leases m) u" using sim by (simp add: lease_sim_def)
  have put: "b \<noteq> [] \<Longrightarrow> lease_sim D (mg_set u (buildSharedBotBodyLease u b c (mg_nodeID m) now (mg_ttl m)) m)
      (sh_set_lease u (buildSharedBotBodyLease u b c (mg_nodeID m) now (mg_ttl m)) s)"
    using assms(3) by (intro lease_sim_put [OF sim]) (simp_all add: buildSharedBotBodyLease_def)
  show ?thesis
    using lease_sim_active [OF sim _ assms(2), of u] sim
    by (auto simp: acquireBotBodyLease_def mg_next_shared lease_agree_def Let_def eq m0 put split: option.splits)
qed

lemma agree_release:
  assumes "lease_agree D (m, None) (m0, Some s)"
  shows "snd (lm_release u b c (m, None)) = snd (lm_release u b c (m0, Some s)) \<and>
    lease_agree D (fst (lm_release u b c (m, None))) (fst (lm_release u b c (m0, Some s))) \<and>
    mg_ttl (fst (fst (lm_release u b c (m, None)))) = mg_ttl m"
proof -
  have sim: "lease_sim D m s" and m0: "mg_ttl m0 = mg_ttl m" "mg_nodeID m0 = mg_nodeID m"
    using assms(1) by (auto simp: lease_agree_def)
  have eq: "map_of (sh_botLeases s) u = map_of (mg_leases m) u" using sim by (simp add: lease_sim_def)
  have node: "map_of (mg_leases m) u = Some l \<Longrightarrow> bl_nodeID l = mg_nodeID m" for l
    using sim by (auto simp: lease_sim_def)
  show ?thesis
    using sim lease_sim_del [OF sim, of u] node
    by (auto simp: releaseBotBodyLease_def lease_agree_def eq m0 split: option.splits)
qed

lemma agree_renew:
  assumes "lease_agree D (m, None) (m0, Some s)" and "D \<le> now + mg_ttl m"
  shows "snd (lm_renew u b c now (m, None)) = snd (lm_renew u b c now (m0, Some s)) \<and>
    lease_agree D (fst (lm_renew u b c now (m, None))) (fst (lm_renew u b c now (m0, Some s))) \<and>
    mg_ttl (fst (fst (lm_renew u b c now (m, None)))) = mg_ttl m"
proof -
  have sim: "lease_sim D m s" and m0: "mg_ttl m0 = mg_ttl m" "mg_nodeID m0 = mg_nodeID m"
    using assms(1) by (auto simp: lease_agree_def)
  have eq: "map_of (sh_botLeases s) u = map_of (mg_leases m) u" using sim by (simp add: lease_sim_def)
  have put: "map_of (mg_leases m) u = Some l \<Longrightarrow>
      bl_nodeID l = mg_nodeID m \<and>
      lease_sim D (mg_set u (l\<lparr>bl_expiresAt := now + mg_ttl m\<rparr>) m) (sh_set_lease u (l\<lparr>bl_expiresAt := now + mg_ttl m\<rparr>) s)" for l
    using sim assms(2) lease_sim_put [OF sim, of "l\<lparr>bl_expiresAt := now + mg_ttl m\<rparr>" u]
    unfolding lease_sim_def [of D m s] by simp
  show ?thesis
    using sim put by (auto simp: renewBotBodyLease_def lease_agree_def eq m0 split: option.splits)
qed

lemma agree_step:
  assumes "lease_agree (t0 + mg_ttl (fst local)) local env" and "op_within t0 (t0 + mg_ttl (fst local)) op"
  shows "snd (lm_step op local) = snd (lm_step op env) \<and>
    lease_agree (t0 + mg_ttl (fst local)) (fst (lm_step op local)) (fst (lm_step op env)) \<and>
    mg_ttl (fst (fst (lm_step op local))) = mg_ttl (fst local)"
proof -
  obtain m m0 s where [simp]: "local = (m, None)" "env = (m0, Some s)"
    using assms(1) by (cases local; cases env) (auto simp: lease_agree_def)
  show ?thesis
  proof (cases op)
    case (LeaseAcquire u b c now)
    with assms agree_acquire [of "t0 + mg_ttl m" m m0 s now u b c] show ?thesis by (simp add: case_prod_beta)
  next
    case (LeaseRelease u b c)
    with assms agree_release [of "t0 + mg_ttl m" m m0 s u b c] show ?thesis by (simp add: case_prod_beta)
  next
    case (LeaseRenew u b c now)
    with assms agree_renew [of "t0 + mg_ttl m" m m0 s now u b c] show ?thesis by (simp add: case_prod_beta)
  qed
qed

lemma agree_run:
  assumes "lease_agree (t0 + mg_ttl (fst local)) local env" and "\<forall>op \<in> set ops. op_within t0 (t0 + mg_ttl (fst local)) op"
  shows "lm_run ops local = lm_run ops env"
  using assms
proof (induction ops arbitrary: local env)
  case (Cons op ops)
  from agree_step [of t0 local env op] Cons.prems
  have step: "snd (lm_step op local) = snd (lm_step op env)"
      "lease_agree (t0 + mg_ttl (fst local)) (fst (lm_step op local)) (fst (lm_step op env))"
      "mg_ttl (fst (fst (lm_step op local))) = mg_ttl (fst local)"
    by simp_all
  with Cons.IH [of "fst (lm_step op local)" "fst (lm_step op env)"] Cons.prems(2) show ?case
    by (simp add: case_prod_beta)
qed simp

text \<open>
  C29: a process without a shared state and one with a fresh shared state answer every sequence of
  acquisitions, releases and renewals alike, refusals included, as long as no lease can lapse: the
  operations fall within one time to live. Past that the two differ, because the process never looks
  at \<open>expiresAt\<close>.
\<close>

theorem process_leases_refine_shared:
  assumes "\<forall>op \<in> set ops. op_within t0 (t0 + mg_ttl (newBotBodyLeaseManager ttl)) op"
  shows "lm_run ops (newBotBodyLeaseManager ttl, None) =
    lm_run ops (newBotBodyLeaseManager ttl, Some newSharedMemoryRuntimeState)"
proof (rule agree_run)
  show "lease_agree (t0 + mg_ttl (fst (newBotBodyLeaseManager ttl, None)))
      (newBotBodyLeaseManager ttl, None) (newBotBodyLeaseManager ttl, Some newSharedMemoryRuntimeState)"
    by (simp add: lease_agree_def lease_sim_def newBotBodyLeaseManager_def newSharedMemoryRuntimeState_def)
qed (use assms in simp)

theorem process_leases_refine_shared_witness:
  "lm_run [LeaseAcquire 9 ''a'' ''c1'' 5, LeaseAcquire 9 ''b'' ''c2'' 6, LeaseRelease 9 ''a'' ''c1''] (newBotBodyLeaseManager 0, None) =
   lm_run [LeaseAcquire 9 ''a'' ''c1'' 5, LeaseAcquire 9 ''b'' ''c2'' 6, LeaseRelease 9 ''a'' ''c1'']
     (newBotBodyLeaseManager 0, Some newSharedMemoryRuntimeState)"
  by (rule process_leases_refine_shared [of _ 0]) (simp add: newBotBodyLeaseManager_def go_minute_def go_second_def)

text \<open>
  a body that stops renewing keeps a process-local bot for ever: whatever the time, other bodies
  are refused until this very connection releases the lease, although its \<open>expiresAt\<close> has passed;
  the shared state hands the bot over at the expiry.
\<close>

theorem process_lease_outlives_ttl:
  assumes "map_of (mg_leases m) u = Some l" and "bl_bodyID l \<noteq> b" and "\<not> isLegacyBotBodyID (bl_bodyID l)"
    and "0 < u" and "b \<noteq> []" and "c \<noteq> []" and "map_of (sh_botLeases s) u = Some l"
    and "bl_expiresAt l \<le> now" and "\<not> is_zero_time (bl_expiresAt l)"
  shows "lm_acquire u b c now (m, None) = ((m, None), Inl (BotBodyLeaseConflict l)) \<and>
    (\<exists>s' r. lm_acquire u b c now (m, Some s) = ((m, Some s'), Inr r) \<and> bl_bodyID (br_Lease r) = b)"
  using assms
  by (simp add: acquireBotBodyLease_def isSharedLeaseActive_def buildSharedBotBodyLease_def Let_def)

theorem process_lease_outlives_ttl_witness:
  "let l = \<lparr>bl_botUID = 9, bl_bodyID = ''a'', bl_connectionID = ''c1'', bl_nodeID = [], bl_acquiredAt = 0, bl_expiresAt = 5\<rparr>;
       m = (newBotBodyLeaseManager 5)\<lparr>mg_leases := [(9, l)]\<rparr>
   in lm_acquire 9 ''b'' ''c2'' 1000000 (m, None) = ((m, None), Inl (BotBodyLeaseConflict l))"
proof -
  have "\<not> isLegacyBotBodyID ''a''" by code_simp
  then show ?thesis
    using process_lease_outlives_ttl [of "(newBotBodyLeaseManager 5)\<lparr>mg_leases := [(9, \<lparr>bl_botUID = 9, bl_bodyID = ''a'',
        bl_connectionID = ''c1'', bl_nodeID = [], bl_acquiredAt = 0, bl_expiresAt = 5\<rparr>)]\<rparr>" 9
      "\<lparr>bl_botUID = 9, bl_bodyID = ''a'', bl_connectionID = ''c1'', bl_nodeID = [], bl_acquiredAt = 0, bl_expiresAt = 5\<rparr>"
      "''b''" "''c2''" "newSharedMemoryRuntimeState\<lparr>sh_botLeases := [(9, \<lparr>bl_botUID = 9, bl_bodyID = ''a'',
        bl_connectionID = ''c1'', bl_nodeID = [], bl_acquiredAt = 0, bl_expiresAt = 5\<rparr>)]\<rparr>" 1000000]
    by (simp add: Let_def is_zero_time_def zero_time_def)
qed

end
