(* ===== verification/DeviceOps.thy ===== *)
theory DeviceOps
  imports BodyLease
begin

text \<open>
  Devices: how a registration is normalised (\<open>server/user_device_registry.go\<close>), the device and
  route tables of the shared runtime state (\<open>server/runtime_state.go\<close>), and the tables of the
  process-local registry. The lemmas state the invariant of a device table and what every operation
  does to a lookup.
\<close>

section \<open>Operations of a device\<close>

definition DeviceCapabilitySkillHubWorkspacePagination :: DeviceGrantOperation where
  "DeviceCapabilitySkillHubWorkspacePagination = ''skillhub.localWorkspace.pagination.v1''"

definition isAllowedDeviceGrantRuntimeOperation :: "DeviceGrantOperation \<Rightarrow> bool" where
  "isAllowedDeviceGrantRuntimeOperation operation \<longleftrightarrow>
     operation \<in> {''read_file'', ''resolve_common_directory'', ''glob'', ''grep'', ''write_file'', ''edit_file'',
       ''send_file'', ''execute_shell'', ''skillhub.localWorkspace.get'', ''skillhub.localWorkspace.syncToAgent'',
       ''skillhub.localSkill.share'', ''skillhub.localSkill.finalize'', ''skillhub.localSkill.delete'',
       ''skillhub.localBot.switch'', ''knowledge.document.list'', ''knowledge.document.read''}"

definition isAllowedDeviceGrantOperation :: "DeviceGrantOperation \<Rightarrow> bool" where
  "isAllowedDeviceGrantOperation operation \<longleftrightarrow>
     operation \<in> {''read_file'', ''resolve_common_directory'', ''write_file'', ''edit_file'', ''send_file'',
       ''execute_shell'', ''glob'', ''grep'', ''browser_control'', ''desktop_control'',
       ''skillhub.localWorkspace.get'', ''skillhub.localWorkspace.applyDefinition'',
       ''skillhub.localWorkspace.pagination.v1'', ''skillhub.publication.sourceProbe.v1'',
       ''skillhub.publication.capture.v1'', ''skillhub.publication.verifyRepairSource.v1'',
       ''skillhub.publication.upload.v1'', ''skillhub.localWorkspace.syncToAgent'', ''skillhub.localSkill.share'',
       ''skillhub.localSkill.finalize'', ''skillhub.localSkill.delete'', ''skillhub.localBot.switch'',
       ''knowledge.document.list'', ''knowledge.document.read''}"

text \<open>A loop that keeps the first occurrence of every value that passes a test.\<close>

fun keep_first :: "('a \<Rightarrow> bool) \<Rightarrow> 'a list \<Rightarrow> 'a list \<Rightarrow> 'a list" where
  "keep_first P seen [] = []"
| "keep_first P seen (x # xs) =
     (if \<not> P x then keep_first P seen xs
      else if x \<in> set seen then keep_first P seen xs
      else x # keep_first P (x # seen) xs)"

definition deviceGrantOperations :: "DeviceGrantOperation list \<Rightarrow> DeviceGrantOperation list" where
  "deviceGrantOperations capabilities =
     (if capabilities = [] then [] else keep_first isAllowedDeviceGrantRuntimeOperation [] capabilities)"

definition normalizeDeviceCapabilities :: "string list \<Rightarrow> DeviceGrantOperation list" where
  "normalizeDeviceCapabilities values =
     (if values = [] then [''read_file'', ''send_file'']
      else keep_first isAllowedDeviceGrantOperation [] (map trimSpace values))"

section \<open>Normalisation of a registration\<close>

definition normalizeUserDeviceID :: "string \<Rightarrow> string option" where
  "normalizeUserDeviceID v =
     (let deviceID = trimSpace v
      in if deviceID = [] \<or> length deviceID > 128 \<or> \<not> id_pattern deviceID then None else Some deviceID)"

definition normalizeDeviceText :: "string \<Rightarrow> string" where
  "normalizeDeviceText value = trimSpace value"

definition normalizeDeviceBotUID :: "uid \<Rightarrow> uid" where
  "normalizeDeviceBotUID value = (if value > 0 then value else 0)"

definition normalizeDeviceRuntimeRole :: "string \<Rightarrow> string" where
  "normalizeDeviceRuntimeRole value =
     (let v = toLower (trimSpace value)
      in if v = ''desktop'' then ''desktop'' else if v = ''server'' then ''server'' else [])"

definition normalizeDeviceStatus :: "string \<Rightarrow> string" where
  "normalizeDeviceStatus value =
     (let v = toLower (trimSpace value)
      in if v = ''offline'' then ''offline'' else if v = ''online'' \<or> v = [] then ''online'' else ''unknown'')"

definition normalizeDeviceOS :: "string \<Rightarrow> string" where
  "normalizeDeviceOS value =
     (let v = toLower (trimSpace value)
      in if v = ''windows'' then ''windows'' else if v = ''macos'' then ''macos'' else if v = ''linux'' then ''linux''
         else if v = ''win32'' then ''windows'' else if v = ''darwin'' then ''macos'' else ''unknown'')"

text \<open>The five characters of the default name of a custom model, in UTF-8.\<close>

definition custom_model_name :: string where
  "custom_model_name =
     [CHR 0xE8, CHR 0x87, CHR 0xAA, CHR 0xE5, CHR 0xAE, CHR 0x9A, CHR 0xE4, CHR 0xB9, CHR 0x89,
      CHR 0xE6, CHR 0xA8, CHR 0xA1, CHR 0xE5, CHR 0x9E, CHR 0x8B]"

definition normalizeDeviceModelStatus :: "DeviceModelStatus option \<Rightarrow> go_time \<Rightarrow> DeviceModelStatus option" where
  "normalizeDeviceModelStatus inp now =
     (case inp of
        None \<Rightarrow> None
      | Some i \<Rightarrow>
          (let source = toLower (trimSpace (ms_Source i));
               model = normalizeDeviceText (ms_Model i);
               updatedAt = (if ms_UpdatedAt i \<le> 0 then unixMillis now else ms_UpdatedAt i);
               result = (\<lambda>model. Some \<lparr>ms_Source = source, ms_Model = model,
                 ms_ReasoningEffort = normalizeDeviceText (ms_ReasoningEffort i), ms_UpdatedAt = updatedAt\<rparr>)
           in if source = ''relay'' then (if model = [] then None else result model)
              else if source = ''custom'' then result (if model = [] then custom_model_name else model)
              else None))"

definition isActiveDevice :: "UserDevice \<Rightarrow> go_time \<Rightarrow> duration \<Rightarrow> bool" where
  "isActiveDevice device now ttl \<longleftrightarrow>
     ud_Status device = ''online'' \<and>
     (let lastSeen = unix_milli (ud_LastSeenAt device) in \<not> is_zero_time lastSeen \<and> \<not> now > lastSeen + ttl)"

text \<open>The device a registration request stands for, before the registration time of an earlier one is kept.\<close>

definition device_of_request :: "uid \<Rightarrow> RegisterUserDeviceRequest \<Rightarrow> string \<Rightarrow> go_time \<Rightarrow> UserDevice" where
  "device_of_request ownerUID req deviceID now =
     \<lparr>ud_Kind = ''user_device'', ud_Source = ''catscompany'', ud_OwnerUID = ownerUID,
      ud_OwnerUserID = formatUID ownerUID, ud_BotUID = normalizeDeviceBotUID (rq_BotUID req),
      ud_DeviceID = deviceID, ud_DisplayName = normalizeDeviceText (rq_DisplayName req),
      ud_OS = normalizeDeviceOS (rq_OS req), ud_BodyID = normalizeDeviceText (rq_BodyID req),
      ud_InstallationID = normalizeDeviceText (rq_InstallationID req),
      ud_RuntimeRole = normalizeDeviceRuntimeRole (rq_RuntimeRole req),
      ud_Status = normalizeDeviceStatus (rq_Status req), ud_Active = False, ud_RouteConnected = False,
      ud_Routable = False, ud_UnavailableReason = [],
      ud_Capabilities = normalizeDeviceCapabilities (rq_Capabilities req),
      ud_ModelStatus = normalizeDeviceModelStatus (rq_ModelStatus req) now,
      ud_RegisteredAt = unixMillis now, ud_LastSeenAt = unixMillis now\<rparr>"

datatype register_error = InvalidOwner | InvalidDeviceID

section \<open>Tables of devices\<close>

text \<open>
  What the shared state and the process-local registry do alike to their \<open>map[int64]map[string]UserDevice\<close>.
\<close>

type_synonym device_table = "(uid, string, UserDevice) nmap"

definition table_register ::
  "uid \<Rightarrow> RegisterUserDeviceRequest \<Rightarrow> go_time \<Rightarrow> device_table \<Rightarrow> device_table \<times> (register_error + UserDevice)" where
  "table_register ownerUID req now t =
     (if ownerUID \<le> 0 then (t, Inl InvalidOwner)
      else case normalizeUserDeviceID (rq_DeviceID req) of
             None \<Rightarrow> (t, Inl InvalidDeviceID)
           | Some deviceID \<Rightarrow>
               (let device = device_of_request ownerUID req deviceID now;
                    device = (case nm_get t ownerUID deviceID of
                        Some existing \<Rightarrow>
                          if ud_RegisteredAt existing > 0 then device\<lparr>ud_RegisteredAt := ud_RegisteredAt existing\<rparr> else device
                      | None \<Rightarrow> device)
                in (nm_put ownerUID deviceID device t, Inr device)))"

datatype device_sort_key = DeviceSortKey (key_seen: int) (key_device: string)

instantiation device_sort_key :: linorder
begin

definition less_eq_device_sort_key :: "device_sort_key \<Rightarrow> device_sort_key \<Rightarrow> bool" where
  "less_eq_device_sort_key a b \<longleftrightarrow>
     key_seen a > key_seen b \<or> (key_seen a = key_seen b \<and> key_device a \<le> key_device b)"

definition less_device_sort_key :: "device_sort_key \<Rightarrow> device_sort_key \<Rightarrow> bool" where
  "less_device_sort_key a b \<longleftrightarrow>
     key_seen a > key_seen b \<or> (key_seen a = key_seen b \<and> key_device a < key_device b)"

instance
  by standard
     (auto simp: less_eq_device_sort_key_def less_device_sort_key_def intro: device_sort_key.expand)

end

definition device_order :: "UserDevice \<Rightarrow> device_sort_key" where
  "device_order d = DeviceSortKey (ud_LastSeenAt d) (ud_DeviceID d)"

definition table_list :: "uid \<Rightarrow> device_table \<Rightarrow> UserDevice list" where
  "table_list ownerUID t =
     (if ownerUID \<le> 0 then [] else sort_key device_order (gm_values (nm_inner t ownerUID)))"

definition table_touch :: "uid \<Rightarrow> string \<Rightarrow> go_time \<Rightarrow> device_table \<Rightarrow> device_table" where
  "table_touch ownerUID deviceID now t =
     (if ownerUID \<le> 0 then t
      else case normalizeUserDeviceID deviceID of
             None \<Rightarrow> t
           | Some d \<Rightarrow>
               (case nm_get t ownerUID d of
                  None \<Rightarrow> t
                | Some device \<Rightarrow>
                    nm_put ownerUID d (device\<lparr>ud_Status := ''online'', ud_LastSeenAt := unixMillis now\<rparr>) t))"

definition table_active :: "uid \<Rightarrow> string \<Rightarrow> go_time \<Rightarrow> duration \<Rightarrow> device_table \<Rightarrow> UserDevice option" where
  "table_active ownerUID deviceID now ttl t =
     (if ownerUID \<le> 0 then None
      else case normalizeUserDeviceID deviceID of
             None \<Rightarrow> None
           | Some d \<Rightarrow>
               (case nm_get t ownerUID d of
                  None \<Rightarrow> None
                | Some device \<Rightarrow> if isActiveDevice device now ttl then Some device else None))"

definition table_unregister :: "uid \<Rightarrow> string \<Rightarrow> device_table \<Rightarrow> device_table" where
  "table_unregister ownerUID deviceID t =
     (if ownerUID \<le> 0 then t
      else case normalizeUserDeviceID deviceID of None \<Rightarrow> t | Some d \<Rightarrow> nm_del ownerUID d t)"

section \<open>Devices and routes of the shared state\<close>

definition registerUserDevice ::
  "uid \<Rightarrow> RegisterUserDeviceRequest \<Rightarrow> go_time \<Rightarrow> sharedMemoryRuntimeState \<Rightarrow>
   sharedMemoryRuntimeState \<times> (register_error + UserDevice)" where
  "registerUserDevice ownerUID req now s =
     (case table_register ownerUID req now (sh_devices s) of (t, r) \<Rightarrow> (s\<lparr>sh_devices := t\<rparr>, r))"

definition unregisterUserDevice :: "uid \<Rightarrow> string \<Rightarrow> sharedMemoryRuntimeState \<Rightarrow> sharedMemoryRuntimeState" where
  "unregisterUserDevice ownerUID deviceID s =
     (if ownerUID \<le> 0 then s
      else case normalizeUserDeviceID deviceID of
             None \<Rightarrow> s
           | Some d \<Rightarrow> s\<lparr>sh_devices := nm_del ownerUID d (sh_devices s),
                        sh_deviceRoutes := nm_del ownerUID d (sh_deviceRoutes s)\<rparr>)"

definition listUserDevices :: "uid \<Rightarrow> sharedMemoryRuntimeState \<Rightarrow> UserDevice list" where
  "listUserDevices ownerUID s = table_list ownerUID (sh_devices s)"

definition activeUserDevice :: "uid \<Rightarrow> string \<Rightarrow> go_time \<Rightarrow> duration \<Rightarrow> sharedMemoryRuntimeState \<Rightarrow> UserDevice option" where
  "activeUserDevice ownerUID deviceID now ttl s = table_active ownerUID deviceID now ttl (sh_devices s)"

definition touchUserDevice :: "uid \<Rightarrow> string \<Rightarrow> go_time \<Rightarrow> sharedMemoryRuntimeState \<Rightarrow> sharedMemoryRuntimeState" where
  "touchUserDevice ownerUID deviceID now s = s\<lparr>sh_devices := table_touch ownerUID deviceID now (sh_devices s)\<rparr>"

definition bindUserDeviceRoute ::
  "uid \<Rightarrow> UserDevice \<Rightarrow> runtimeRoute \<Rightarrow> go_time \<Rightarrow> sharedMemoryRuntimeState \<Rightarrow> sharedMemoryRuntimeState" where
  "bindUserDeviceRoute ownerUID device route now s =
     (if ownerUID \<le> 0 \<or> ud_DeviceID device = [] \<or> \<not> validAt route now then s
      else s\<lparr>sh_deviceRoutes := nm_put ownerUID (ud_DeviceID device) route (sh_deviceRoutes s)\<rparr>)"

definition clearUserDeviceRoute ::
  "uid \<Rightarrow> string \<Rightarrow> runtimeRoute \<Rightarrow> sharedMemoryRuntimeState \<Rightarrow> sharedMemoryRuntimeState" where
  "clearUserDeviceRoute ownerUID deviceID route s =
     (if ownerUID \<le> 0 \<or> deviceID = [] then s
      else case nm_get (sh_deviceRoutes s) ownerUID deviceID of
             None \<Rightarrow> s
           | Some current \<Rightarrow>
               if \<not> route_matches current route then s
               else s\<lparr>sh_deviceRoutes := nm_del ownerUID deviceID (sh_deviceRoutes s)\<rparr>)"

definition userDeviceRoute :: "uid \<Rightarrow> string \<Rightarrow> go_time \<Rightarrow> sharedMemoryRuntimeState \<Rightarrow> runtimeRoute option" where
  "userDeviceRoute ownerUID deviceID now s =
     (if ownerUID \<le> 0 \<or> deviceID = [] then None
      else case nm_get (sh_deviceRoutes s) ownerUID deviceID of
             None \<Rightarrow> None
           | Some route \<Rightarrow> if validAt route now then Some route else None)"

section \<open>What normalisation guarantees\<close>

lemma keep_first_set: "set (keep_first P seen xs) = {x \<in> set xs. P x} - set seen"
  by (induction P seen xs rule: keep_first.induct) auto

lemma keep_first_distinct: "distinct (keep_first P seen xs)"
  by (induction P seen xs rule: keep_first.induct) (auto simp: keep_first_set)

lemma deviceGrantOperations_set:
  "set (deviceGrantOperations caps) = {c \<in> set caps. isAllowedDeviceGrantRuntimeOperation c}"
  by (simp add: deviceGrantOperations_def keep_first_set)

lemma deviceGrantOperations_distinct: "distinct (deviceGrantOperations caps)"
  by (simp add: deviceGrantOperations_def keep_first_distinct)

lemma capabilities_allowed:
  "distinct (normalizeDeviceCapabilities vs) \<and> list_all isAllowedDeviceGrantOperation (normalizeDeviceCapabilities vs)"
  by (auto simp: normalizeDeviceCapabilities_def keep_first_distinct keep_first_set list_all_iff
      isAllowedDeviceGrantOperation_def)

lemma runtime_operation_allowed: "isAllowedDeviceGrantRuntimeOperation c \<Longrightarrow> isAllowedDeviceGrantOperation c"
  by (auto simp: isAllowedDeviceGrantRuntimeOperation_def isAllowedDeviceGrantOperation_def)

lemma normalize_device_id_SomeD: "normalizeUserDeviceID v = Some d \<Longrightarrow> d = trimSpace v \<and> d \<noteq> [] \<and> length d \<le> 128 \<and> id_pattern d"
  by (auto simp: normalizeUserDeviceID_def Let_def split: if_splits)

lemma normalize_device_id_idem: "normalizeUserDeviceID v = Some d \<Longrightarrow> normalizeUserDeviceID d = Some d"
  by (auto simp: normalizeUserDeviceID_def Let_def split: if_splits)

section \<open>The invariant of a device table\<close>

definition device_ok :: "uid \<Rightarrow> string \<Rightarrow> UserDevice \<Rightarrow> bool" where
  "device_ok u k d \<longleftrightarrow>
     0 < u \<and> ud_OwnerUID d = u \<and> ud_OwnerUserID d = formatUID u \<and> ud_DeviceID d = k \<and>
     normalizeUserDeviceID k = Some k \<and> ud_Status d \<in> {''online'', ''offline'', ''unknown''} \<and>
     ud_OS d \<in> {''windows'', ''macos'', ''linux'', ''unknown''} \<and> 0 \<le> ud_BotUID d \<and>
     distinct (ud_Capabilities d) \<and> list_all isAllowedDeviceGrantOperation (ud_Capabilities d)"

definition device_table_ok :: "device_table \<Rightarrow> bool" where
  "device_table_ok t \<longleftrightarrow> nm_ok t \<and> (\<forall>u k d. nm_get t u k = Some d \<longrightarrow> device_ok u k d)"

lemma device_of_request_ok:
  "0 < u \<Longrightarrow> normalizeUserDeviceID v = Some k \<Longrightarrow> device_ok u k (device_of_request u req k now)"
  using capabilities_allowed [of "rq_Capabilities req"]
  by (auto simp: device_ok_def device_of_request_def normalize_device_id_idem normalizeDeviceStatus_def
      normalizeDeviceOS_def normalizeDeviceBotUID_def Let_def)

lemma device_ok_fields [simp]:
  "device_ok u k (d\<lparr>ud_RegisteredAt := r\<rparr>) \<longleftrightarrow> device_ok u k d"
  "device_ok u k d \<Longrightarrow> device_ok u k (d\<lparr>ud_Status := ''online'', ud_LastSeenAt := ls\<rparr>)"
  by (simp_all add: device_ok_def)

lemma table_ok_put: "device_table_ok t \<Longrightarrow> device_ok u k d \<Longrightarrow> device_table_ok (nm_put u k d t)"
  by (auto simp: device_table_ok_def gomap_simps)

lemma table_ok_del: "device_table_ok t \<Longrightarrow> device_table_ok (nm_del u k t)"
  by (auto simp: device_table_ok_def gomap_simps)

lemma table_ok_register: "device_table_ok t \<Longrightarrow> device_table_ok (fst (table_register u req now t))"
  using device_of_request_ok [of u "rq_DeviceID req" _ req now]
  by (auto simp: table_register_def Let_def intro!: table_ok_put split: option.splits)

lemma table_ok_touch: "device_table_ok t \<Longrightarrow> device_table_ok (table_touch u k now t)"
  by (auto simp: table_touch_def intro!: table_ok_put split: option.splits) (simp add: device_table_ok_def)

lemma table_ok_unregister: "device_table_ok t \<Longrightarrow> device_table_ok (table_unregister u k t)"
  by (auto simp: table_unregister_def table_ok_del split: option.splits)

section \<open>Lookups after an operation\<close>

lemma table_get_touch:
  "nm_get (table_touch u v now t) u' k =
     (if 0 < u \<and> u' = u \<and> normalizeUserDeviceID v = Some k
      then map_option (\<lambda>d. d\<lparr>ud_Status := ''online'', ud_LastSeenAt := unixMillis now\<rparr>) (nm_get t u k)
      else nm_get t u' k)"
  by (auto simp: table_touch_def gomap_simps split: option.splits)

lemma table_get_unregister:
  "nm_get (table_unregister u v t) u' k =
     (if 0 < u \<and> u' = u \<and> normalizeUserDeviceID v = Some k then None else nm_get t u' k)"
  by (auto simp: table_unregister_def gomap_simps split: option.splits)

lemma table_get_register_other:
  "u' \<noteq> u \<or> normalizeUserDeviceID (rq_DeviceID req) \<noteq> Some k \<Longrightarrow>
   nm_get (fst (table_register u req now t)) u' k = nm_get t u' k"
  by (auto simp: table_register_def Let_def gomap_simps split: option.splits)

lemma table_register_get:
  "table_register u req now t = (t', Inr d) \<Longrightarrow>
   0 < u \<and> normalizeUserDeviceID (rq_DeviceID req) = Some (ud_DeviceID d) \<and> nm_get t' u (ud_DeviceID d) = Some d \<and>
   ud_LastSeenAt d = unixMillis now \<and> ud_Status d = normalizeDeviceStatus (rq_Status req)"
  by (auto simp: table_register_def Let_def gomap_simps device_of_request_def split: option.splits if_splits)

section \<open>Every sequence of device operations\<close>

datatype device_op =
    DRegister uid RegisterUserDeviceRequest go_time
  | DUnregister uid string
  | DTouch uid string go_time
  | DBindRoute uid UserDevice runtimeRoute go_time
  | DClearRoute uid string runtimeRoute

fun device_step :: "device_op \<Rightarrow> sharedMemoryRuntimeState \<Rightarrow> sharedMemoryRuntimeState" where
  "device_step (DRegister u req now) s = fst (registerUserDevice u req now s)"
| "device_step (DUnregister u v) s = unregisterUserDevice u v s"
| "device_step (DTouch u v now) s = touchUserDevice u v now s"
| "device_step (DBindRoute u d r now) s = bindUserDeviceRoute u d r now s"
| "device_step (DClearRoute u v r) s = clearUserDeviceRoute u v r s"

lemma shared_devices_after [simp]:
  "sh_devices (fst (registerUserDevice u req now s)) = fst (table_register u req now (sh_devices s))"
  "sh_devices (unregisterUserDevice u v s) = table_unregister u v (sh_devices s)"
  "sh_devices (touchUserDevice u v now s) = table_touch u v now (sh_devices s)"
  "sh_devices (bindUserDeviceRoute u d r now s) = sh_devices s"
  "sh_devices (clearUserDeviceRoute u v r s) = sh_devices s"
  by (simp_all add: registerUserDevice_def unregisterUserDevice_def table_unregister_def touchUserDevice_def
      bindUserDeviceRoute_def clearUserDeviceRoute_def split: prod.split option.split)

text \<open>A route in the table names a node and a connection.\<close>

definition routes_ok :: "(uid, string, runtimeRoute) nmap \<Rightarrow> bool" where
  "routes_ok m \<longleftrightarrow> nm_ok m \<and>
     (\<forall>u k r. nm_get m u k = Some r \<longrightarrow> 0 < u \<and> k \<noteq> [] \<and> rt_NodeID r \<noteq> [] \<and> rt_ConnectionID r \<noteq> [])"

definition devices_inv :: "sharedMemoryRuntimeState \<Rightarrow> bool" where
  "devices_inv s \<longleftrightarrow> device_table_ok (sh_devices s) \<and> routes_ok (sh_deviceRoutes s)"

lemma routes_ok_put: "routes_ok m \<Longrightarrow> 0 < u \<Longrightarrow> k \<noteq> [] \<Longrightarrow> validAt r now \<Longrightarrow> routes_ok (nm_put u k r m)"
  by (auto simp: routes_ok_def validAt_def gomap_simps)

lemma routes_ok_del: "routes_ok m \<Longrightarrow> routes_ok (nm_del u k m)"
  by (auto simp: routes_ok_def gomap_simps)

lemma routes_ok_step: "routes_ok (sh_deviceRoutes s) \<Longrightarrow> routes_ok (sh_deviceRoutes (device_step op s))"
  by (cases op)
     (auto simp: registerUserDevice_def unregisterUserDevice_def touchUserDevice_def bindUserDeviceRoute_def
        clearUserDeviceRoute_def intro: routes_ok_put routes_ok_del split: prod.split option.split)

lemma device_table_ok_step: "device_table_ok (sh_devices s) \<Longrightarrow> device_table_ok (sh_devices (device_step op s))"
  by (cases op) (simp_all add: table_ok_register table_ok_unregister table_ok_touch)

text \<open>
  C36: whatever sequence of registrations, unlinks, heartbeats and route changes the server performs, its
  device table stays well formed: a device is filed under the user who owns it and under its own,
  normalised id, its status and system are among the known ones, its capabilities are distinct and
  all of them grantable, and every route names a node and a connection.
\<close>

theorem device_state_invariant: "devices_inv (fold device_step ops newSharedMemoryRuntimeState)"
proof -
  have "devices_inv s \<Longrightarrow> devices_inv (fold device_step ops s)" for s
    by (induction ops arbitrary: s) (simp_all add: devices_inv_def device_table_ok_step routes_ok_step)
  moreover have "devices_inv newSharedMemoryRuntimeState"
    by (simp add: devices_inv_def newSharedMemoryRuntimeState_def device_table_ok_def routes_ok_def)
  ultimately show ?thesis by simp
qed

text \<open>What a sequence of operations makes of one device: later registrations replace it, heartbeats
  mark it as seen, an unlink removes it, everything else leaves it alone.\<close>

fun track :: "uid \<Rightarrow> string \<Rightarrow> device_op list \<Rightarrow> UserDevice option \<Rightarrow> UserDevice option" where
  "track u k [] d = d"
| "track u k (op # ops) d =
     track u k ops
       (case op of
          DRegister v req now \<Rightarrow>
            if v = u \<and> normalizeUserDeviceID (rq_DeviceID req) = Some k
            then (let d' = device_of_request u req k now
                  in Some (case d of Some e \<Rightarrow> if ud_RegisteredAt e > 0 then d'\<lparr>ud_RegisteredAt := ud_RegisteredAt e\<rparr> else d'
                                   | None \<Rightarrow> d'))
            else d
        | DUnregister v i \<Rightarrow> if v = u \<and> normalizeUserDeviceID i = Some k then None else d
        | DTouch v i now \<Rightarrow>
            if v = u \<and> normalizeUserDeviceID i = Some k
            then map_option (\<lambda>d. d\<lparr>ud_Status := ''online'', ud_LastSeenAt := unixMillis now\<rparr>) d else d
        | _ \<Rightarrow> d)"

lemma track_step:
  assumes "0 < u"
  shows "nm_get (sh_devices (device_step op s)) u k = track u k [op] (nm_get (sh_devices s) u k)"
proof (cases op)
  case (DRegister v req now)
  show ?thesis
  proof (cases "v = u \<and> normalizeUserDeviceID (rq_DeviceID req) = Some k")
    case True
    with assms DRegister show ?thesis
      by (simp add: table_register_def Let_def gomap_simps split: option.split)
  next
    case False
    then have "nm_get (fst (table_register v req now (sh_devices s))) u k = nm_get (sh_devices s) u k"
      by (intro table_get_register_other) auto
    with False DRegister show ?thesis by auto
  qed
qed (use assms in \<open>auto simp: table_get_touch table_get_unregister\<close>)

lemma track_run:
  "0 < u \<Longrightarrow> nm_get (sh_devices (fold device_step ops s)) u k = track u k ops (nm_get (sh_devices s) u k)"
  by (induction ops arbitrary: s) (simp_all add: track_step del: track.simps(2), simp)

text \<open>
  a device answers as active exactly while it is online and was registered or heard from within
  the time to live: after any sequence of operations of all users' devices, the lookup returns what
  this device's own registrations, heartbeats and unlinks make of it, under every spelling of its id.
\<close>

theorem active_device_after_any_history:
  assumes "0 < u" and "normalizeUserDeviceID v = Some k"
  shows "activeUserDevice u v now ttl (fold device_step ops newSharedMemoryRuntimeState) =
    (case track u k ops None of
       None \<Rightarrow> None
     | Some d \<Rightarrow>
         if ud_Status d = ''online'' \<and> unix_milli (ud_LastSeenAt d) \<noteq> zero_time \<and>
            now \<le> unix_milli (ud_LastSeenAt d) + ttl
         then Some d else None)"
  using assms
  by (simp add: activeUserDevice_def table_active_def track_run isActiveDevice_def is_zero_time_def Let_def
      newSharedMemoryRuntimeState_def not_less split: option.split)

theorem active_device_after_any_history_witness:
  "activeUserDevice 7 '' pc'' 100 50 (fold device_step [DUnregister 7 ''pc''] newSharedMemoryRuntimeState) = None"
proof -
  have "normalizeUserDeviceID '' pc'' = Some ''pc''" and "normalizeUserDeviceID ''pc'' = Some ''pc''" by code_simp+
  then show ?thesis
    using active_device_after_any_history [of 7 "'' pc''" "''pc''" 100 50 "[DUnregister 7 ''pc'']"] by simp
qed

section \<open>Listing\<close>

lemma device_order_inj: "device_table_ok t \<Longrightarrow> inj_on device_order (set (gm_values (nm_inner t u)))"
proof (rule inj_onI)
  fix d e
  assume ok: "device_table_ok t" and d: "d \<in> set (gm_values (nm_inner t u))" and e: "e \<in> set (gm_values (nm_inner t u))"
    and eq: "device_order d = device_order e"
  from ok have gm: "gm_ok (nm_inner t u)" by (simp add: device_table_ok_def nm_ok_inner)
  with d e obtain k l where "nm_get t u k = Some d" "nm_get t u l = Some e"
    by (auto simp: gm_values_set nm_get_def)
  moreover from this ok have "ud_DeviceID d = k" "ud_DeviceID e = l"
    by (auto simp: device_table_ok_def device_ok_def)
  ultimately show "d = e" using eq by (auto simp: device_order_def)
qed

lemma gm_values_mset:
  assumes "gm_ok m" and "gm_ok m'" and "map_of m = map_of m'"
  shows "mset (gm_values m) = mset (gm_values m')"
proof -
  have "set m = set m'" using assms by (rule map_of_ext_set)
  moreover have "distinct m" "distinct m'" using assms by (simp_all add: gm_ok_def distinct_map)
  ultimately have "mset m = mset m'" by (simp add: set_eq_iff_mset_eq_distinct)
  then show ?thesis by (simp add: gm_values_def)
qed

text \<open>
  the device list of a user is determined by the devices alone, most recently seen first and by id
  among those seen at the same time; the unspecified order in which Go walks a map never shows.
\<close>

theorem device_list_order_independent:
  assumes "device_table_ok (sh_devices s)" and "device_table_ok (sh_devices s')"
    and "\<forall>k. nm_get (sh_devices s) u k = nm_get (sh_devices s') u k" and "0 < u"
  shows "listUserDevices u s = listUserDevices u s' \<and>
    sorted_wrt (\<lambda>a b. ud_LastSeenAt a > ud_LastSeenAt b \<or>
      ud_LastSeenAt a = ud_LastSeenAt b \<and> ud_DeviceID a \<le> ud_DeviceID b) (listUserDevices u s) \<and>
    (\<forall>d. d \<in> set (listUserDevices u s) \<longleftrightarrow> (\<exists>k. nm_get (sh_devices s) u k = Some d))"
proof -
  let ?m = "nm_inner (sh_devices s) u" and ?m' = "nm_inner (sh_devices s') u"
  have ok: "gm_ok ?m" "gm_ok ?m'" using assms(1,2) by (simp_all add: device_table_ok_def nm_ok_inner)
  have "map_of ?m = map_of ?m'" using assms(3) by (auto simp: nm_get_def)
  with ok have "mset (gm_values ?m) = mset (gm_values ?m')" by (rule gm_values_mset)
  then have "mset (gm_values ?m) = mset (sort_key device_order (gm_values ?m'))" by simp
  from sort_key_inj_key_eq [OF this device_order_inj [OF assms(1)]]
  have "sort_key device_order (gm_values ?m) = sort_key device_order (gm_values ?m')" by simp
  then have eq: "listUserDevices u s = listUserDevices u s'" by (simp add: listUserDevices_def table_list_def)
  have "sorted (map device_order (listUserDevices u s))" by (simp add: listUserDevices_def table_list_def)
  then have "sorted_wrt (\<lambda>a b. device_order a \<le> device_order b) (listUserDevices u s)" by (simp add: sorted_wrt_map)
  moreover have "d \<in> set (listUserDevices u s) \<longleftrightarrow> (\<exists>k. nm_get (sh_devices s) u k = Some d)" for d
    using assms(4) gm_values_set [OF ok(1)] by (simp add: listUserDevices_def table_list_def nm_get_def)
  ultimately show ?thesis using eq by (simp add: device_order_def less_eq_device_sort_key_def)
qed

theorem device_list_order_independent_witness:
  "let dev = (\<lambda>x. device_of_request 7 \<lparr>rq_BotUID = 0, rq_DeviceID = x, rq_DisplayName = [], rq_OS = ''linux'', rq_BodyID = [],
             rq_InstallationID = [], rq_RuntimeRole = [], rq_Status = [], rq_Capabilities = [], rq_ModelStatus = None\<rparr> x 1000)
   in listUserDevices 7 (newSharedMemoryRuntimeState\<lparr>sh_devices := nm_put 7 ''a'' (dev ''a'') (nm_put 7 ''b'' (dev ''b'') [])\<rparr>) =
      listUserDevices 7 (newSharedMemoryRuntimeState\<lparr>sh_devices := nm_put 7 ''b'' (dev ''b'') (nm_put 7 ''a'' (dev ''a'') [])\<rparr>)"
proof -
  have a: "normalizeUserDeviceID ''a'' = Some ''a''" and b: "normalizeUserDeviceID ''b'' = Some ''b''" by code_simp+
  have "device_table_ok []" by (simp add: device_table_ok_def)
  then have "device_table_ok (nm_put 7 ''a'' (device_of_request 7 q ''a'' 1000) (nm_put 7 ''b'' (device_of_request 7 r ''b'' 1000) []))"
    and "device_table_ok (nm_put 7 ''b'' (device_of_request 7 r ''b'' 1000) (nm_put 7 ''a'' (device_of_request 7 q ''a'' 1000) []))" for q r
    by (auto intro!: table_ok_put device_of_request_ok a b)
  then show ?thesis
    unfolding Let_def by (intro conjunct1 [OF device_list_order_independent]) (simp_all add: gomap_simps)
qed

end
