(* ===== verification/RegistryState.thy ===== *)
theory RegistryState
  imports DeviceOps
begin

text \<open>
  The state of \<open>userDeviceRegistry\<close> (\<open>server/user_device_registry.go\<close>) and what it is connected to:
  the shared runtime state, the authorization store (a Go interface, here its method table and the
  store's own state \<open>'a\<close>), the durable selection table of \<open>server/db/postgres\<close>, the process
  environment, and the random identifiers to come. An operation takes the time as an argument and
  reads it once.

  The methods that choose between the shared state and the registry's own maps follow, together with
  the rollout switches of \<open>server/device_rollout_compat.go\<close>.
\<close>

section \<open>The durable selection table\<close>

record ConversationDeviceSelection =
  cs_DeviceID :: string
  cs_Revision :: string
  cs_Source :: string
  cs_UpdatedAt :: int

text \<open>
  The table \<open>conversation_device_selections\<close>, keyed by actor and session, and the outcome of the
  statements to come: a statement succeeds, or its error reaches the server although the statement did
  or did not take effect. When the list is used up, statements succeed.
\<close>

datatype db_outcome = DbOk | DbLost | DbUnknown

record selection_db =
  db_rows :: "(uid \<times> string, ConversationDeviceSelection) gomap"
  db_outcomes :: "db_outcome list"

datatype selection_error = SelectionConflict | SelectionScopeInvalid | SelectionRecordInvalid | SelectionDBError | RandomSourceFailed

section \<open>The registry\<close>

record 'a deviceGrantStore =
  ds_rememberDeviceGrants :: "ScopedDeviceGrant list \<Rightarrow> int \<Rightarrow> 'a \<Rightarrow> 'a"
  ds_lookupDeviceGrant :: "string \<Rightarrow> int \<Rightarrow> 'a \<Rightarrow> 'a \<times> ScopedDeviceGrant option"
  ds_revokeDeviceGrant :: "ScopedDeviceGrant \<Rightarrow> 'a \<Rightarrow> 'a"
  ds_revokeDeviceGrantsForSelection :: "uid \<Rightarrow> string \<Rightarrow> 'a \<Rightarrow> 'a"
  ds_revokeDeviceGrantsForDevice :: "uid \<Rightarrow> string \<Rightarrow> 'a \<Rightarrow> 'a"

record 'a userDeviceRegistry =
  rg_selectionStore :: "selection_db option"
  rg_authorization :: "('a deviceGrantStore \<times> 'a) option"
  rg_ttl :: duration
  rg_grantTT :: duration
  rg_preferenceTTL :: duration
  rg_shared :: "sharedMemoryRuntimeState option"
  rg_devices :: device_table
  rg_preferences :: "(uid, string, deviceSelectionPreference) nmap"
  rg_grants :: "(string, ScopedDeviceGrant) gomap"
  rg_getenv :: "string \<Rightarrow> string"
  rg_random :: "string option list"

definition newUserDeviceRegistry :: "duration \<Rightarrow> (string \<Rightarrow> string) \<Rightarrow> string option list \<Rightarrow> 'a userDeviceRegistry" where
  "newUserDeviceRegistry ttl getenv random =
     \<lparr>rg_selectionStore = None, rg_authorization = None,
      rg_ttl = (if ttl \<le> 0 then 5 * go_minute else ttl), rg_grantTT = 10 * go_minute,
      rg_preferenceTTL = 30 * go_minute, rg_shared = None, rg_devices = [], rg_preferences = [], rg_grants = [],
      rg_getenv = getenv, rg_random = random\<rparr>"

text \<open>\<open>randomHex\<close>: the next random identifier, or the failure of the random source.\<close>

definition randomHex :: "'a userDeviceRegistry \<Rightarrow> 'a userDeviceRegistry \<times> string option" where
  "randomHex r = (case rg_random r of [] \<Rightarrow> (r, None) | x # xs \<Rightarrow> (r\<lparr>rg_random := xs\<rparr>, x))"

section \<open>Rollout switches\<close>

fun splitOn :: "char \<Rightarrow> string \<Rightarrow> string list" where
  "splitOn c [] = [[]]"
| "splitOn c (x # xs) =
     (if x = c then [] # splitOn c xs
      else case splitOn c xs of [] \<Rightarrow> [[x]] | y # ys \<Rightarrow> (x # y) # ys)"

definition xiaobaRuntimeV2Enabled :: "(string \<Rightarrow> string) \<Rightarrow> bool" where
  "xiaobaRuntimeV2Enabled getenv \<longleftrightarrow>
     toLower (trimSpace (getenv ''CATSCO_XIAOBA_RUNTIME_V2_ENABLED'')) \<in>
       {''1'', ''true'', ''yes'', ''on'', ''enabled'', ''required''}"

definition xiaobaRuntimeV2EnabledForBot :: "(string \<Rightarrow> string) \<Rightarrow> uid \<Rightarrow> bool" where
  "xiaobaRuntimeV2EnabledForBot getenv botUID \<longleftrightarrow>
     (if xiaobaRuntimeV2Enabled getenv then True
      else if botUID \<le> 0 then False
      else list_ex (\<lambda>entry. trimSpace entry = formatInt botUID)
             (splitOn (CHR '','') (getenv ''CATSCO_XIAOBA_RUNTIME_V2_BOT_UIDS'')))"

definition deviceGrantEnforcementRequired :: "(string \<Rightarrow> string) \<Rightarrow> bool" where
  "deviceGrantEnforcementRequired getenv \<longleftrightarrow>
     toLower (trimSpace (getenv ''CATSCO_DEVICE_GRANT_ENFORCEMENT'')) \<in>
       {''1'', ''true'', ''yes'', ''on'', ''enabled'', ''required'', ''strict''}"

section \<open>Devices of the registry\<close>

definition rg_register ::
  "uid \<Rightarrow> RegisterUserDeviceRequest \<Rightarrow> go_time \<Rightarrow> 'a userDeviceRegistry \<Rightarrow>
   'a userDeviceRegistry \<times> (register_error + UserDevice)" where
  "rg_register ownerUID req now r =
     (if ownerUID \<le> 0 then (r, Inl InvalidOwner)
      else case rg_shared r of
        Some s \<Rightarrow> (case registerUserDevice ownerUID req now s of (s', res) \<Rightarrow> (r\<lparr>rg_shared := Some s'\<rparr>, res))
      | None \<Rightarrow> (case table_register ownerUID req now (rg_devices r) of (t, res) \<Rightarrow> (r\<lparr>rg_devices := t\<rparr>, res)))"

definition rg_unregister :: "uid \<Rightarrow> string \<Rightarrow> 'a userDeviceRegistry \<Rightarrow> 'a userDeviceRegistry" where
  "rg_unregister ownerUID deviceID r =
     (if ownerUID \<le> 0 \<or> trimSpace deviceID = [] then r
      else case rg_shared r of
        Some s \<Rightarrow> r\<lparr>rg_shared := Some (unregisterUserDevice ownerUID deviceID s)\<rparr>
      | None \<Rightarrow> r\<lparr>rg_devices := table_unregister ownerUID deviceID (rg_devices r)\<rparr>)"

definition rg_list :: "uid \<Rightarrow> 'a userDeviceRegistry \<Rightarrow> UserDevice list" where
  "rg_list ownerUID r =
     (if ownerUID \<le> 0 then []
      else case rg_shared r of
        Some s \<Rightarrow> listUserDevices ownerUID s
      | None \<Rightarrow> table_list ownerUID (rg_devices r))"

definition rg_activeDevices :: "uid \<Rightarrow> go_time \<Rightarrow> 'a userDeviceRegistry \<Rightarrow> UserDevice list" where
  "rg_activeDevices ownerUID now r = filter (\<lambda>d. isActiveDevice d now (rg_ttl r)) (rg_list ownerUID r)"

definition rg_activeDevice :: "uid \<Rightarrow> string \<Rightarrow> go_time \<Rightarrow> 'a userDeviceRegistry \<Rightarrow> UserDevice option" where
  "rg_activeDevice ownerUID deviceID now r =
     (if ownerUID \<le> 0 \<or> trimSpace deviceID = [] then None
      else case rg_shared r of
        Some s \<Rightarrow> activeUserDevice ownerUID deviceID now (rg_ttl r) s
      | None \<Rightarrow> table_active ownerUID deviceID now (rg_ttl r) (rg_devices r))"

definition rg_registeredDevice :: "uid \<Rightarrow> string \<Rightarrow> 'a userDeviceRegistry \<Rightarrow> UserDevice option" where
  "rg_registeredDevice ownerUID deviceID r =
     (if ownerUID \<le> 0 \<or> trimSpace deviceID = [] then None
      else case normalizeUserDeviceID deviceID of
        None \<Rightarrow> None
      | Some d \<Rightarrow> List.find (\<lambda>device. ud_DeviceID device = d) (rg_list ownerUID r))"

definition rg_touch :: "uid \<Rightarrow> string \<Rightarrow> go_time \<Rightarrow> 'a userDeviceRegistry \<Rightarrow> 'a userDeviceRegistry" where
  "rg_touch ownerUID deviceID now r =
     (if ownerUID \<le> 0 \<or> trimSpace deviceID = [] then r
      else case rg_shared r of
        Some s \<Rightarrow> r\<lparr>rg_shared := Some (touchUserDevice ownerUID deviceID now s)\<rparr>
      | None \<Rightarrow> r\<lparr>rg_devices := table_touch ownerUID deviceID now (rg_devices r)\<rparr>)"

text \<open>The model a user's devices report: the most recent usable status, later ones in the list winning ties.\<close>

definition usable_model_status :: "DeviceModelStatus \<Rightarrow> bool" where
  "usable_model_status st \<longleftrightarrow>
     \<not> (ms_Source st \<noteq> ''relay'' \<and> ms_Source st \<noteq> ''custom'') \<and>
     \<not> (ms_Source st = ''relay'' \<and> trimSpace (ms_Model st) = [])"

fun latest_loop ::
  "(UserDevice \<Rightarrow> bool) \<Rightarrow> UserDevice list \<Rightarrow> DeviceModelStatus option \<times> int \<Rightarrow> DeviceModelStatus option \<times> int" where
  "latest_loop inc [] best = best"
| "latest_loop inc (d # ds) best =
     latest_loop inc ds
       (if \<not> inc d then best
        else case ud_ModelStatus d of
          None \<Rightarrow> best
        | Some st \<Rightarrow>
            if \<not> usable_model_status st then best
            else (let seenAt = (if ms_UpdatedAt st \<le> 0 then ud_LastSeenAt d else ms_UpdatedAt st)
                  in if seenAt \<le> 0 then best else if seenAt \<ge> snd best then (Some st, seenAt) else best))"

definition latestDeviceModelStatus :: "UserDevice list \<Rightarrow> (UserDevice \<Rightarrow> bool) \<Rightarrow> DeviceModelStatus option" where
  "latestDeviceModelStatus devices inc =
     (case latest_loop inc devices (None, 0) of (best, seen) \<Rightarrow> if seen > 0 then best else None)"

definition LatestDeviceModelStatus :: "uid \<Rightarrow> go_time \<Rightarrow> 'a userDeviceRegistry \<Rightarrow> DeviceModelStatus option" where
  "LatestDeviceModelStatus ownerUID now r =
     (if ownerUID \<le> 0 then None else latestDeviceModelStatus (rg_activeDevices ownerUID now r) (\<lambda>_. True))"

definition DeviceModelStatusForBody :: "uid \<Rightarrow> string \<Rightarrow> go_time \<Rightarrow> 'a userDeviceRegistry \<Rightarrow> DeviceModelStatus option" where
  "DeviceModelStatusForBody ownerUID bodyID now r =
     (let bodyID = trimSpace bodyID
      in if ownerUID \<le> 0 \<or> bodyID = [] then None
         else latestDeviceModelStatus (rg_activeDevices ownerUID now r)
                (\<lambda>d. trimSpace (ud_BodyID d) = bodyID \<or> trimSpace (ud_DeviceID d) = bodyID))"

end
