(* ===== verification/Selection.thy ===== *)
theory Selection
  imports RegistryState
begin

text \<open>
  The device a conversation is routed to: \<open>server/device_selection_state.go\<close> over the durable table of
  \<open>server/db/postgres/conversation_device_selection.go\<close>, the shared runtime state, or the
  registry's own map. A selection carries a random revision; every change is a compare-and-set on it.
  The locale \<open>revision_store\<close> states what the three stores have in common.
\<close>

section \<open>The durable table\<close>

text \<open>\<open>server/store/conversation_device_selection.go\<close>. A byte above 127 belongs to a rune above 127.\<close>

definition ValidateDeviceSelectionScope :: "uid \<Rightarrow> string \<Rightarrow> bool" where
  "ValidateDeviceSelectionScope actorUID sessionKey \<longleftrightarrow>
     \<not> (actorUID \<le> 0 \<or> sessionKey = [] \<or> length sessionKey > 768) \<and>
     list_all (\<lambda>c. (of_char c :: nat) \<le> 127) sessionKey"

definition ValidateDeviceSelectionRecord :: "string \<Rightarrow> ConversationDeviceSelection \<Rightarrow> bool" where
  "ValidateDeviceSelectionRecord expected next \<longleftrightarrow>
     \<not> (length expected > 64 \<or> cs_Revision next = [] \<or> length (cs_Revision next) > 64 \<or>
        length (cs_DeviceID next) > 128 \<or> length (cs_Source next) > 64 \<or> cs_UpdatedAt next \<le> 0)"

definition db_outcome :: "selection_db \<Rightarrow> selection_db \<times> db_outcome" where
  "db_outcome b = (case db_outcomes b of [] \<Rightarrow> (b, DbOk) | x # xs \<Rightarrow> (b\<lparr>db_outcomes := xs\<rparr>, x))"

definition GetConversationDeviceSelection ::
  "uid \<Rightarrow> string \<Rightarrow> selection_db \<Rightarrow> selection_db \<times> (selection_error + ConversationDeviceSelection option)" where
  "GetConversationDeviceSelection actor session b =
     (if \<not> ValidateDeviceSelectionScope actor session then (b, Inl SelectionScopeInvalid)
      else case db_outcome b of
        (b, DbOk) \<Rightarrow> (b, Inr (map_of (db_rows b) (actor, session)))
      | (b, _) \<Rightarrow> (b, Inl SelectionDBError))"

text \<open>The statement itself: an insert that does nothing on a conflict, or an update that names the revision.\<close>

definition selection_statement ::
  "uid \<Rightarrow> string \<Rightarrow> string \<Rightarrow> ConversationDeviceSelection \<Rightarrow> selection_db \<Rightarrow> selection_db \<times> nat" where
  "selection_statement actor session expected next b =
     (let row = map_of (db_rows b) (actor, session);
          hit = (if expected = [] then row = None else (case row of None \<Rightarrow> False | Some rec \<Rightarrow> cs_Revision rec = expected))
      in if hit then (b\<lparr>db_rows := gm_put (actor, session) next (db_rows b)\<rparr>, 1) else (b, 0))"

definition CompareConversationDeviceSelection ::
  "uid \<Rightarrow> string \<Rightarrow> string \<Rightarrow> ConversationDeviceSelection \<Rightarrow> selection_db \<Rightarrow> selection_db \<times> (selection_error + bool)" where
  "CompareConversationDeviceSelection actor session expected next b =
     (if \<not> ValidateDeviceSelectionScope actor session then (b, Inl SelectionScopeInvalid)
      else if \<not> ValidateDeviceSelectionRecord expected next then (b, Inl SelectionRecordInvalid)
      else case db_outcome b of
        (b, DbLost) \<Rightarrow> (b, Inl SelectionDBError)
      | (b, DbUnknown) \<Rightarrow> (fst (selection_statement actor session expected next b), Inl SelectionDBError)
      | (b, DbOk) \<Rightarrow> (case selection_statement actor session expected next b of (b, n) \<Rightarrow> (b, Inr (n = 1))))"

section \<open>The runtime stores\<close>

definition pref_at :: "(uid, string, deviceSelectionPreference) nmap \<Rightarrow> uid \<Rightarrow> string \<Rightarrow> deviceSelectionPreference" where
  "pref_at m actor session = (case nm_get m actor session of None \<Rightarrow> no_preference | Some p \<Rightarrow> p)"

definition pref_active :: "deviceSelectionPreference \<Rightarrow> int \<Rightarrow> bool" where
  "pref_active p now \<longleftrightarrow> pref_DeviceID p \<noteq> [] \<and> (pref_Durable p \<or> pref_ExpiresAt p > now)"

definition deviceSelectionRecord :: "uid \<Rightarrow> string \<Rightarrow> sharedMemoryRuntimeState \<Rightarrow> deviceSelectionPreference" where
  "deviceSelectionRecord actor session s = pref_at (sh_preferences s) actor session"

definition compareDeviceSelection ::
  "uid \<Rightarrow> string \<Rightarrow> string \<Rightarrow> deviceSelectionPreference \<Rightarrow> sharedMemoryRuntimeState \<Rightarrow>
   sharedMemoryRuntimeState \<times> selection_error option" where
  "compareDeviceSelection actor session expected next s =
     (if pref_Revision (pref_at (sh_preferences s) actor session) \<noteq> expected then (s, Some SelectionConflict)
      else (s\<lparr>sh_preferences := nm_put actor session next (sh_preferences s)\<rparr>, None))"

text \<open>Two further methods of the shared state, which the registry does not use.\<close>

definition sh_deviceSelectionPreference :: "uid \<Rightarrow> string \<Rightarrow> int \<Rightarrow> sharedMemoryRuntimeState \<Rightarrow> string option" where
  "sh_deviceSelectionPreference actorUID sessionKey now s =
     (if actorUID \<le> 0 \<or> sessionKey = [] then None
      else case nm_get (sh_preferences s) actorUID sessionKey of
        None \<Rightarrow> None
      | Some p \<Rightarrow> if pref_DeviceID p = [] \<or> pref_ExpiresAt p \<le> now then None else Some (pref_DeviceID p))"

definition sh_rememberDeviceSelection ::
  "uid \<Rightarrow> string \<Rightarrow> deviceSelectionPreference \<Rightarrow> sharedMemoryRuntimeState \<Rightarrow> sharedMemoryRuntimeState" where
  "sh_rememberDeviceSelection actorUID sessionKey p s =
     (if actorUID \<le> 0 \<or> sessionKey = [] \<or> pref_DeviceID p = [] then s
      else s\<lparr>sh_preferences := nm_put actorUID sessionKey p (sh_preferences s)\<rparr>)"

section \<open>Selections of the registry\<close>

definition durablePreference :: "ConversationDeviceSelection \<Rightarrow> deviceSelectionPreference" where
  "durablePreference rec =
     \<lparr>pref_Durable = True, pref_Revision = cs_Revision rec, pref_DeviceID = cs_DeviceID rec,
      pref_Source = cs_Source rec, pref_UpdatedAt = cs_UpdatedAt rec, pref_ExpiresAt = 0\<rparr>"

definition runtimeSelectionRecord :: "uid \<Rightarrow> string \<Rightarrow> 'a userDeviceRegistry \<Rightarrow> deviceSelectionPreference" where
  "runtimeSelectionRecord actor session r =
     (case rg_shared r of
        Some s \<Rightarrow> deviceSelectionRecord actor session s
      | None \<Rightarrow> pref_at (rg_preferences r) actor session)"

definition selectionRecord ::
  "uid \<Rightarrow> string \<Rightarrow> go_time \<Rightarrow> 'a userDeviceRegistry \<Rightarrow>
   'a userDeviceRegistry \<times> (selection_error + deviceSelectionPreference)" where
  "selectionRecord actor session now r =
     (case rg_selectionStore r of
        None \<Rightarrow> (r, Inr (runtimeSelectionRecord actor session r))
      | Some b \<Rightarrow>
          (case GetConversationDeviceSelection actor session b of
             (b, Inl e) \<Rightarrow> (r\<lparr>rg_selectionStore := Some b\<rparr>, Inl e)
           | (b, Inr (Some rec)) \<Rightarrow> (r\<lparr>rg_selectionStore := Some b\<rparr>, Inr (durablePreference rec))
           | (b, Inr None) \<Rightarrow>
               (let r = r\<lparr>rg_selectionStore := Some b\<rparr>;
                    legacy = runtimeSelectionRecord actor session r
                in if pref_DeviceID legacy = [] \<and> pref_Revision legacy = [] then (r, Inr no_preference)
                   else case randomHex r of
                     (r, None) \<Rightarrow> (r, Inl RandomSourceFailed)
                   | (r, Some revision) \<Rightarrow>
                       (let next = \<lparr>cs_DeviceID = pref_DeviceID legacy, cs_Revision = revision,
                                    cs_Source = ''legacy_selection'', cs_UpdatedAt = unixMillis now\<rparr>
                        in case CompareConversationDeviceSelection actor session [] next b of
                             (b, Inl e) \<Rightarrow> (r\<lparr>rg_selectionStore := Some b\<rparr>, Inl e)
                           | (b, Inr True) \<Rightarrow> (r\<lparr>rg_selectionStore := Some b\<rparr>, Inr (durablePreference next))
                           | (b, Inr False) \<Rightarrow>
                               (case GetConversationDeviceSelection actor session b of
                                  (b, Inl e) \<Rightarrow> (r\<lparr>rg_selectionStore := Some b\<rparr>, Inl e)
                                | (b, Inr None) \<Rightarrow> (r\<lparr>rg_selectionStore := Some b\<rparr>, Inl SelectionConflict)
                                | (b, Inr (Some rec)) \<Rightarrow>
                                    (r\<lparr>rg_selectionStore := Some b\<rparr>, Inr (durablePreference rec)))))))"

definition compareSelection ::
  "uid \<Rightarrow> string \<Rightarrow> string \<Rightarrow> deviceSelectionPreference \<Rightarrow> 'a userDeviceRegistry \<Rightarrow>
   'a userDeviceRegistry \<times> selection_error option" where
  "compareSelection actor session expected next r =
     (case rg_selectionStore r of
        Some b \<Rightarrow>
          (case CompareConversationDeviceSelection actor session expected
                  \<lparr>cs_DeviceID = pref_DeviceID next, cs_Revision = pref_Revision next,
                   cs_Source = pref_Source next, cs_UpdatedAt = pref_UpdatedAt next\<rparr> b of
             (b, Inl e) \<Rightarrow> (r\<lparr>rg_selectionStore := Some b\<rparr>, Some e)
           | (b, Inr won) \<Rightarrow> (r\<lparr>rg_selectionStore := Some b\<rparr>, if \<not> won then Some SelectionConflict else None))
      | None \<Rightarrow>
          (case rg_shared r of
             Some s \<Rightarrow> (case compareDeviceSelection actor session expected next s of
                          (s, e) \<Rightarrow> (r\<lparr>rg_shared := Some s\<rparr>, e))
           | None \<Rightarrow>
               if pref_Revision (pref_at (rg_preferences r) actor session) \<noteq> expected then (r, Some SelectionConflict)
               else (r\<lparr>rg_preferences := nm_put actor session next (rg_preferences r)\<rparr>, None)))"

definition refreshDeviceSelection ::
  "uid \<Rightarrow> string \<Rightarrow> deviceSelectionPreference \<Rightarrow> go_time \<Rightarrow> 'a userDeviceRegistry \<Rightarrow> 'a userDeviceRegistry" where
  "refreshDeviceSelection actor session current now r =
     (if pref_Durable current then r
      else fst (compareSelection actor session (pref_Revision current)
                  (current\<lparr>pref_ExpiresAt := unixMillis (now + rg_preferenceTTL r)\<rparr>) r))"

end
