(* ===== verification/Grants.thy ===== *)
theory Grants
  imports Selection
begin

text \<open>
  Device grants: the capability of one agent, acting for one user in one conversation, to use one
  device. The shared runtime state (\<open>server/runtime_state.go\<close>) and the process-local registry
  (\<open>server/user_device_registry.go\<close>) store them; both are instances of the locale
  \<open>device_grant_store\<close>. A registry with an authorization store forwards to that instead. The
  confirmation of a selection and the check of a grant against the current selection
  (\<open>server/device_selection_state.go\<close>) use both the grants and the selections.
\<close>

section \<open>Stored grants\<close>

definition grant_live :: "ScopedDeviceGrant \<Rightarrow> int \<Rightarrow> bool" where
  "grant_live g now \<longleftrightarrow> \<not> (\<not> gr_Permanent g \<and> gr_ExpiresAt g \<le> now)"

type_synonym grant_table = "(string, ScopedDeviceGrant) gomap"

definition cleanupExpiredGrantsLocked :: "int \<Rightarrow> grant_table \<Rightarrow> grant_table" where
  "cleanupExpiredGrantsLocked now m = gm_keep (\<lambda>g. grant_live g now) m"

definition put_grants :: "ScopedDeviceGrant list \<Rightarrow> int \<Rightarrow> grant_table \<Rightarrow> grant_table" where
  "put_grants grants now m =
     fold (\<lambda>g m. if gr_GrantID g = [] \<or> \<not> grant_live g now then m else gm_put (gr_GrantID g) g m) grants m"

definition grants_without_selection :: "uid \<Rightarrow> string \<Rightarrow> grant_table \<Rightarrow> grant_table" where
  "grants_without_selection actorUID sessionKey m =
     gm_keep (\<lambda>g. \<not> (gr_ActorUserID g = formatUID actorUID \<and> gr_SessionKey g = sessionKey)) m"

definition grants_without_device :: "uid \<Rightarrow> string \<Rightarrow> grant_table \<Rightarrow> grant_table" where
  "grants_without_device ownerUID deviceID m =
     gm_keep (\<lambda>g. \<not> (gr_OwnerUserID g = formatUID ownerUID \<and> gr_DeviceID g = deviceID)) m"

text \<open>The methods of the shared state.\<close>

definition sh_rememberDeviceGrants :: "ScopedDeviceGrant list \<Rightarrow> int \<Rightarrow> sharedMemoryRuntimeState \<Rightarrow> sharedMemoryRuntimeState" where
  "sh_rememberDeviceGrants grants now s =
     (if grants = [] then s
      else s\<lparr>sh_grants := put_grants grants now (cleanupExpiredGrantsLocked now (sh_grants s))\<rparr>)"

definition sh_lookupDeviceGrant ::
  "string \<Rightarrow> int \<Rightarrow> sharedMemoryRuntimeState \<Rightarrow> sharedMemoryRuntimeState \<times> ScopedDeviceGrant option" where
  "sh_lookupDeviceGrant grantID now s =
     (if grantID = [] then (s, None)
      else let s = s\<lparr>sh_grants := cleanupExpiredGrantsLocked now (sh_grants s)\<rparr>
           in case map_of (sh_grants s) grantID of
                None \<Rightarrow> (s, None)
              | Some g \<Rightarrow> if gr_Status g \<noteq> ''active'' \<or> \<not> grant_live g now then (s, None) else (s, Some g))"

definition sh_revokeDeviceGrant :: "ScopedDeviceGrant \<Rightarrow> sharedMemoryRuntimeState \<Rightarrow> sharedMemoryRuntimeState" where
  "sh_revokeDeviceGrant g s =
     (if gr_GrantID g = [] then s else s\<lparr>sh_grants := gm_del (gr_GrantID g) (sh_grants s)\<rparr>)"

definition sh_revokeDeviceGrantsForSelection :: "uid \<Rightarrow> string \<Rightarrow> sharedMemoryRuntimeState \<Rightarrow> sharedMemoryRuntimeState" where
  "sh_revokeDeviceGrantsForSelection actorUID sessionKey s =
     (if actorUID \<le> 0 \<or> trimSpace sessionKey = [] then s
      else s\<lparr>sh_grants := grants_without_selection actorUID sessionKey (sh_grants s)\<rparr>)"

definition sh_revokeDeviceGrantsForDevice :: "uid \<Rightarrow> string \<Rightarrow> sharedMemoryRuntimeState \<Rightarrow> sharedMemoryRuntimeState" where
  "sh_revokeDeviceGrantsForDevice ownerUID deviceID s =
     (if ownerUID \<le> 0 \<or> trimSpace deviceID = [] then s
      else s\<lparr>sh_grants := grants_without_device ownerUID deviceID (sh_grants s)\<rparr>)"

section \<open>Grants of the registry\<close>

definition rg_rememberGrants :: "ScopedDeviceGrant list \<Rightarrow> go_time \<Rightarrow> 'a userDeviceRegistry \<Rightarrow> 'a userDeviceRegistry" where
  "rg_rememberGrants grants t r =
     (if grants = [] then r
      else let now = unixMillis t
           in case rg_authorization r of
                Some (ops, a) \<Rightarrow> r\<lparr>rg_authorization := Some (ops, ds_rememberDeviceGrants ops grants now a)\<rparr>
              | None \<Rightarrow>
                  (case rg_shared r of
                     Some s \<Rightarrow> r\<lparr>rg_shared := Some (sh_rememberDeviceGrants grants now s)\<rparr>
                   | None \<Rightarrow> r\<lparr>rg_grants := put_grants grants now (cleanupExpiredGrantsLocked now (rg_grants r))\<rparr>))"

definition rg_revokeDeviceGrant :: "ScopedDeviceGrant \<Rightarrow> 'a userDeviceRegistry \<Rightarrow> 'a userDeviceRegistry" where
  "rg_revokeDeviceGrant g r =
     (if gr_GrantID g = [] then r
      else case rg_authorization r of
             Some (ops, a) \<Rightarrow> r\<lparr>rg_authorization := Some (ops, ds_revokeDeviceGrant ops g a)\<rparr>
           | None \<Rightarrow>
               (case rg_shared r of
                  Some s \<Rightarrow> r\<lparr>rg_shared := Some (sh_revokeDeviceGrant g s)\<rparr>
                | None \<Rightarrow> r\<lparr>rg_grants := gm_del (gr_GrantID g) (rg_grants r)\<rparr>))"

definition rg_revokeDeviceGrantsForSelection :: "uid \<Rightarrow> string \<Rightarrow> 'a userDeviceRegistry \<Rightarrow> 'a userDeviceRegistry" where
  "rg_revokeDeviceGrantsForSelection actorUID sessionKey r =
     (if actorUID \<le> 0 \<or> trimSpace sessionKey = [] then r
      else case rg_authorization r of
             Some (ops, a) \<Rightarrow> r\<lparr>rg_authorization := Some (ops, ds_revokeDeviceGrantsForSelection ops actorUID sessionKey a)\<rparr>
           | None \<Rightarrow>
               (case rg_shared r of
                  Some s \<Rightarrow> r\<lparr>rg_shared := Some (sh_revokeDeviceGrantsForSelection actorUID sessionKey s)\<rparr>
                | None \<Rightarrow> r\<lparr>rg_grants := grants_without_selection actorUID sessionKey (rg_grants r)\<rparr>))"

definition rg_revokeDeviceGrantsForDevice :: "uid \<Rightarrow> string \<Rightarrow> 'a userDeviceRegistry \<Rightarrow> 'a userDeviceRegistry" where
  "rg_revokeDeviceGrantsForDevice ownerUID deviceID r =
     (if ownerUID \<le> 0 \<or> trimSpace deviceID = [] then r
      else case rg_authorization r of
             Some (ops, a) \<Rightarrow> r\<lparr>rg_authorization := Some (ops, ds_revokeDeviceGrantsForDevice ops ownerUID deviceID a)\<rparr>
           | None \<Rightarrow>
               (case rg_shared r of
                  Some s \<Rightarrow> r\<lparr>rg_shared := Some (sh_revokeDeviceGrantsForDevice ownerUID deviceID s)\<rparr>
                | None \<Rightarrow> r\<lparr>rg_grants := grants_without_device ownerUID deviceID (rg_grants r)\<rparr>))"

definition confirmDeviceSelection ::
  "uid \<Rightarrow> string \<Rightarrow> string \<Rightarrow> string \<Rightarrow> string \<Rightarrow> go_time \<Rightarrow> 'a userDeviceRegistry \<Rightarrow>
   'a userDeviceRegistry \<times> (selection_error + deviceSelectionPreference)" where
  "confirmDeviceSelection actor session device source expected now r =
     (case randomHex r of
        (r, None) \<Rightarrow> (r, Inl RandomSourceFailed)
      | (r, Some revision) \<Rightarrow>
          (let next = \<lparr>pref_Durable = (rg_selectionStore r \<noteq> None), pref_Revision = revision, pref_DeviceID = device,
                       pref_Source = source, pref_UpdatedAt = unixMillis now,
                       pref_ExpiresAt = unixMillis (now + rg_preferenceTTL r)\<rparr>
           in case compareSelection actor session expected next r of
                (r, Some e) \<Rightarrow> (r, Inl e)
              | (r, None) \<Rightarrow> (rg_revokeDeviceGrantsForSelection actor session r, Inr next)))"

definition rg_rememberDeviceSelection ::
  "uid \<Rightarrow> string \<Rightarrow> string \<Rightarrow> string \<Rightarrow> go_time \<Rightarrow> 'a userDeviceRegistry \<Rightarrow> 'a userDeviceRegistry" where
  "rg_rememberDeviceSelection actorUID sessionKey deviceID source now r =
     (if actorUID \<le> 0 \<or> sessionKey = [] \<or> deviceID = [] then r
      else case selectionRecord actorUID sessionKey now r of
        (r, Inl _) \<Rightarrow> r
      | (r, Inr current) \<Rightarrow>
          if pref_DeviceID current \<noteq> [] \<and> pref_DeviceID current \<noteq> deviceID then r
          else if pref_DeviceID current = deviceID \<and> pref_active current (unixMillis now)
          then refreshDeviceSelection actorUID sessionKey current now r
          else fst (confirmDeviceSelection actorUID sessionKey deviceID source (pref_Revision current) now r))"

definition grantSelectionCurrent :: "ScopedDeviceGrant \<Rightarrow> go_time \<Rightarrow> 'a userDeviceRegistry \<Rightarrow> 'a userDeviceRegistry \<times> bool" where
  "grantSelectionCurrent g now r =
     (case selectionRecord (parseFormattedUID (gr_ActorUserID g)) (gr_SessionKey g) now r of
        (r, Inl _) \<Rightarrow> (r, False)
      | (r, Inr current) \<Rightarrow>
          if pref_Revision current \<noteq> gr_SelectionRevision g then (rg_revokeDeviceGrant g r, False)
          else if gr_TargetScope g = ''explicit_device''
          then (r, xiaobaRuntimeV2EnabledForBot (rg_getenv r) (parseFormattedUID (gr_AgentID g)) \<and>
                   gr_OwnerUserID g = gr_ActorUserID g)
          else if pref_DeviceID current = [] then (r, gr_SelectionRevision g = [])
          else (r, pref_DeviceID current = gr_DeviceID g \<and> pref_active current (unixMillis now)))"

text \<open>The lookup, with the result Go returns beside \<open>true\<close>; where it returns \<open>false\<close> the grant is not used.\<close>

definition rg_lookupGrant :: "string \<Rightarrow> go_time \<Rightarrow> 'a userDeviceRegistry \<Rightarrow> 'a userDeviceRegistry \<times> ScopedDeviceGrant option" where
  "rg_lookupGrant grantID t r =
     (if trimSpace grantID = [] then (r, None)
      else let now = unixMillis t;
               found = (case rg_authorization r of
                   Some (ops, a) \<Rightarrow>
                     (case ds_lookupDeviceGrant ops (trimSpace grantID) now a of
                        (a, g) \<Rightarrow> (r\<lparr>rg_authorization := Some (ops, a)\<rparr>, g))
                 | None \<Rightarrow>
                     (case rg_shared r of
                        Some s \<Rightarrow> (case sh_lookupDeviceGrant (trimSpace grantID) now s of (s, g) \<Rightarrow> (r\<lparr>rg_shared := Some s\<rparr>, g))
                      | None \<Rightarrow>
                          (let r = r\<lparr>rg_grants := cleanupExpiredGrantsLocked now (rg_grants r)\<rparr>
                           in case map_of (rg_grants r) (trimSpace grantID) of
                                None \<Rightarrow> (r, None)
                              | Some g \<Rightarrow> if gr_Status g \<noteq> ''active'' \<or> \<not> grant_live g now then (r, None) else (r, Some g))))
           in case found of
                (r, None) \<Rightarrow> (r, None)
              | (r, Some g) \<Rightarrow> (case grantSelectionCurrent g t r of (r, ok) \<Rightarrow> (r, if ok then Some g else None)))"

end
