(* ===== verification/SelectionSafety.thy ===== *)
theory SelectionSafety
  imports Grants
begin

text \<open>
  What the revisions of a selection are for: a confirmed selection is never lost to a concurrent one,
  and it makes every grant issued under an earlier revision useless for good. The lemmas follow the
  current revision of a conversation through every operation of the registry, whichever of the three
  stores holds the selections and whatever the authorization store answers.
\<close>

section \<open>The current revision\<close>

definition run_prefs :: "'a userDeviceRegistry \<Rightarrow> (uid, string, deviceSelectionPreference) nmap" where
  "run_prefs r = (case rg_shared r of Some s \<Rightarrow> sh_preferences s | None \<Rightarrow> rg_preferences r)"

definition db_revision :: "selection_db \<Rightarrow> uid \<Rightarrow> string \<Rightarrow> string" where
  "db_revision b a k = (case map_of (db_rows b) (a, k) of None \<Rightarrow> [] | Some rec \<Rightarrow> cs_Revision rec)"

definition cur_rev :: "'a userDeviceRegistry \<Rightarrow> uid \<Rightarrow> string \<Rightarrow> string" where
  "cur_rev r a k =
     (case rg_selectionStore r of
        None \<Rightarrow> pref_Revision (pref_at (run_prefs r) a k)
      | Some b \<Rightarrow> db_revision b a k)"

text \<open>The selection in force, as the store of the registry has it.\<close>

definition current_selection :: "'a userDeviceRegistry \<Rightarrow> uid \<Rightarrow> string \<Rightarrow> deviceSelectionPreference" where
  "current_selection r a k =
     (case rg_selectionStore r of
        None \<Rightarrow> pref_at (run_prefs r) a k
      | Some b \<Rightarrow> (case map_of (db_rows b) (a, k) of None \<Rightarrow> no_preference | Some rec \<Rightarrow> durablePreference rec))"

lemma current_revision: "cur_rev r a k = pref_Revision (current_selection r a k)"
  by (simp add: cur_rev_def current_selection_def db_revision_def no_preference_def durablePreference_def split: option.split)

text \<open>
  From one state to a later one the random identifiers \<open>xs\<close> are consumed, and the revision of every
  conversation is the same or one of them.
\<close>

definition evolves :: "'a userDeviceRegistry \<Rightarrow> 'a userDeviceRegistry \<Rightarrow> bool" where
  "evolves r r' \<longleftrightarrow>
     (\<exists>xs. rg_random r = xs @ rg_random r' \<and> (\<forall>a k. cur_rev r' a k = cur_rev r a k \<or> Some (cur_rev r' a k) \<in> set xs))"

definition sel_view :: "'a userDeviceRegistry \<Rightarrow> _" where
  "sel_view r = (map_option db_rows (rg_selectionStore r), run_prefs r, rg_random r)"

lemma evolves_refl [simp]: "evolves r r"
  by (simp add: evolves_def)

lemma evolves_trans:
  assumes "evolves r r'" and "evolves r' r''"
  shows "evolves r r''"
proof -
  from assms(1) obtain xs where xs: "rg_random r = xs @ rg_random r'"
      "\<And>a k. cur_rev r' a k = cur_rev r a k \<or> Some (cur_rev r' a k) \<in> set xs"
    by (auto simp: evolves_def)
  from assms(2) obtain ys where ys: "rg_random r' = ys @ rg_random r''"
      "\<And>a k. cur_rev r'' a k = cur_rev r' a k \<or> Some (cur_rev r'' a k) \<in> set ys"
    by (auto simp: evolves_def)
  have "cur_rev r'' a k = cur_rev r a k \<or> Some (cur_rev r'' a k) \<in> set (xs @ ys)" for a k
    using xs(2) [of a k] ys(2) [of a k] by auto
  with xs(1) ys(1) show ?thesis unfolding evolves_def by (intro exI [of _ "xs @ ys"]) simp
qed

lemma view_rev: "sel_view r = sel_view r' \<Longrightarrow> cur_rev r = cur_rev r' \<and> rg_random r = rg_random r'"
  by (cases "rg_selectionStore r"; cases "rg_selectionStore r'")
     (simp_all add: sel_view_def cur_rev_def db_revision_def fun_eq_iff)

lemma evolves_view: "sel_view r = sel_view r' \<Longrightarrow> evolves r r'"
  by (drule view_rev) (simp add: evolves_def)

section \<open>The three stores\<close>

lemma pref_at_put [simp]:
  "pref_at (nm_put a k p m) a' k' = (if a' = a \<and> k' = k then p else pref_at m a' k')"
  by (simp add: pref_at_def gomap_simps)

lemma db_outcome_rows [simp]: "db_outcome b = (b', x) \<Longrightarrow> db_rows b' = db_rows b"
  by (auto simp: db_outcome_def split: list.splits)

lemma get_rows: "GetConversationDeviceSelection a k b = (b', res) \<Longrightarrow> db_rows b' = db_rows b"
  by (auto simp: GetConversationDeviceSelection_def split: if_splits prod.splits db_outcome.splits)

lemma get_result: "GetConversationDeviceSelection a k b = (b', Inr res) \<Longrightarrow> res = map_of (db_rows b) (a, k)"
  by (auto simp: GetConversationDeviceSelection_def split: if_splits prod.splits db_outcome.splits)

lemma statement_rev:
  assumes "selection_statement a k e next b = (b', n)"
  shows "if n = 1 then db_revision b a k = e \<and>
      (\<forall>a' k'. db_revision b' a' k' = (if a' = a \<and> k' = k then cs_Revision next else db_revision b a' k'))
    else b' = b \<and> n = 0"
  using assms
  by (auto simp: selection_statement_def db_revision_def gomap_simps Let_def split: if_splits option.splits)

lemma compare_db_rev:
  assumes "CompareConversationDeviceSelection a k e next b = (b', res)"
  shows "db_revision b' = db_revision b \<and> res \<noteq> Inr True \<or>
    db_revision b a k = e \<and> res \<noteq> Inr False \<and> cs_Revision next \<noteq> [] \<and>
    (\<forall>a' k'. db_revision b' a' k' = (if a' = a \<and> k' = k then cs_Revision next else db_revision b a' k'))"
proof -
  obtain b0 x where out: "db_outcome b = (b0, x)" by fastforce
  then have rows: "db_revision b0 = db_revision b" by (intro ext) (simp add: db_revision_def)
  obtain b1 n where st: "selection_statement a k e next b0 = (b1, n)" by fastforce
  from statement_rev [OF st] assms out st rows show ?thesis
    by (cases x) (auto simp: CompareConversationDeviceSelection_def ValidateDeviceSelectionRecord_def split: if_splits)
qed

lemma compare_db_row:
  "CompareConversationDeviceSelection a k e next b = (b', Inr True) \<Longrightarrow> map_of (db_rows b') (a, k) = Some next"
  by (auto simp: CompareConversationDeviceSelection_def selection_statement_def gomap_simps Let_def
      split: if_splits prod.splits db_outcome.splits option.splits)

lemma compareSelection_rev:
  assumes "compareSelection a k e p r = (r', res)"
  shows "rg_random r' = rg_random r \<and>
    (cur_rev r' = cur_rev r \<and> res \<noteq> None \<or>
     cur_rev r a k = e \<and> res \<noteq> Some SelectionConflict \<and>
     (\<forall>a' k'. cur_rev r' a' k' = (if a' = a \<and> k' = k then pref_Revision p else cur_rev r a' k')))"
proof (cases "rg_selectionStore r")
  case (Some b)
  obtain b' res' where cmp: "CompareConversationDeviceSelection a k e
      \<lparr>cs_DeviceID = pref_DeviceID p, cs_Revision = pref_Revision p, cs_Source = pref_Source p, cs_UpdatedAt = pref_UpdatedAt p\<rparr> b =
      (b', res')" by fastforce
  have err: "res' \<noteq> Inl SelectionConflict"
    using cmp by (auto simp: CompareConversationDeviceSelection_def split: if_splits prod.splits db_outcome.splits)
  have "cur_rev r = db_revision b" and "cur_rev (r\<lparr>rg_selectionStore := Some b'\<rparr>) = db_revision b'"
    using Some by (simp_all add: cur_rev_def fun_eq_iff)
  with compare_db_rev [OF cmp] err Some cmp assms show ?thesis
    by (auto simp: compareSelection_def split: sum.splits if_splits)
next
  case None
  with assms show ?thesis
    by (auto simp: compareSelection_def cur_rev_def run_prefs_def compareDeviceSelection_def fun_eq_iff
        split: option.splits if_splits)
qed

section \<open>Every operation of the registry\<close>

lemma randomHex_view:
  "randomHex r = (r', x) \<Longrightarrow>
   cur_rev r' = cur_rev r \<and> rg_selectionStore r' = rg_selectionStore r \<and> run_prefs r' = run_prefs r \<and>
   (rg_random r = rg_random r' \<and> x = None \<or> rg_random r = x # rg_random r')"
  by (auto simp: randomHex_def cur_rev_def run_prefs_def fun_eq_iff split: list.splits option.splits)

lemma evolves_random: "randomHex r = (r', x) \<Longrightarrow> evolves r r'"
  by (drule randomHex_view) (auto simp: evolves_def)

lemma grants_view [simp]:
  "sel_view (rg_rememberGrants gs t r) = sel_view r"
  "sel_view (rg_revokeDeviceGrant g r) = sel_view r"
  "sel_view (rg_revokeDeviceGrantsForSelection a k r) = sel_view r"
  "sel_view (rg_revokeDeviceGrantsForDevice u d r) = sel_view r"
  by (auto simp: sel_view_def run_prefs_def rg_rememberGrants_def rg_revokeDeviceGrant_def
      rg_revokeDeviceGrantsForSelection_def rg_revokeDeviceGrantsForDevice_def sh_rememberDeviceGrants_def
      sh_revokeDeviceGrant_def sh_revokeDeviceGrantsForSelection_def sh_revokeDeviceGrantsForDevice_def
      Let_def split: option.splits)

lemma evolves_refresh: "evolves r (refreshDeviceSelection a k p now r)"
proof (cases "pref_Durable p")
  case False
  let ?p = "p\<lparr>pref_ExpiresAt := unixMillis (now + rg_preferenceTTL r)\<rparr>"
  obtain r' res where cmp: "compareSelection a k (pref_Revision p) ?p r = (r', res)" by fastforce
  from compareSelection_rev [OF cmp] False cmp show ?thesis
    by (auto simp: refreshDeviceSelection_def evolves_def)
qed (simp add: refreshDeviceSelection_def)

lemma evolves_confirm:
  assumes "confirmDeviceSelection a k d src e now r = (r', res)"
  shows "evolves r r' \<and>
    (\<forall>p. res = Inr p \<longrightarrow> cur_rev r a k = e \<and> cur_rev r' a k = pref_Revision p \<and> pref_DeviceID p = d \<and>
       (\<exists>ys. rg_random r = Some (pref_Revision p) # ys \<and> rg_random r' = ys))"
proof -
  obtain r1 x where rnd: "randomHex r = (r1, x)" by fastforce
  show ?thesis
  proof (cases x)
    case None
    with assms rnd show ?thesis by (auto simp: confirmDeviceSelection_def evolves_random)
  next
    case (Some revision)
    let ?p = "\<lparr>pref_Durable = (rg_selectionStore r1 \<noteq> None), pref_Revision = revision, pref_DeviceID = d,
      pref_Source = src, pref_UpdatedAt = unixMillis now, pref_ExpiresAt = unixMillis (now + rg_preferenceTTL r1)\<rparr>"
    obtain r2 c where cmp: "compareSelection a k e ?p r1 = (r2, c)" by fastforce
    have res: "(r', res) = (case c of None \<Rightarrow> (rg_revokeDeviceGrantsForSelection a k r2, Inr ?p) | Some e \<Rightarrow> (r2, Inl e))"
      using assms rnd Some cmp by (auto simp: confirmDeviceSelection_def Let_def split: option.splits)
    have v: "cur_rev r' = cur_rev r2 \<and> rg_random r' = rg_random r2"
      using res view_rev [OF grants_view(3)] by (auto split: option.splits)
    from randomHex_view [OF rnd] compareSelection_rev [OF cmp] Some v res show ?thesis
      by (auto simp: evolves_def split: option.splits)
  qed
qed

lemma store_view:
  "rg_selectionStore r = Some b \<Longrightarrow> db_rows b' = db_rows b \<Longrightarrow> sel_view (r\<lparr>rg_selectionStore := Some b'\<rparr>) = sel_view r"
  by (simp add: sel_view_def run_prefs_def split: option.split)

lemma selectionRecord_none:
  "rg_selectionStore r = None \<Longrightarrow> selectionRecord a k now r = (r, Inr (pref_at (run_prefs r) a k))"
  by (simp add: selectionRecord_def runtimeSelectionRecord_def deviceSelectionRecord_def run_prefs_def split: option.split)

text \<open>The migration of a selection made before the durable table existed.\<close>

lemma migration_rev:
  assumes rnd: "randomHex (r\<lparr>rg_selectionStore := Some b\<rparr>) = (r1, Some revision)"
    and row: "map_of (db_rows b) (a, k) = None" and rev: "cs_Revision next = revision"
    and cmp: "CompareConversationDeviceSelection a k [] next b = (b1, res)"
  shows "evolves (r\<lparr>rg_selectionStore := Some b\<rparr>) (r1\<lparr>rg_selectionStore := Some b1\<rparr>) \<and>
    (res = Inr True \<longrightarrow> current_selection (r1\<lparr>rg_selectionStore := Some b1\<rparr>) a k = durablePreference next)"
proof -
  let ?r = "r\<lparr>rg_selectionStore := Some b\<rparr>" and ?r1 = "r1\<lparr>rg_selectionStore := Some b1\<rparr>"
  from randomHex_view [OF rnd] have rand: "rg_random ?r = Some revision # rg_random ?r1" by simp
  have rs: "cur_rev ?r = db_revision b" "cur_rev ?r1 = db_revision b1" by (simp_all add: cur_rev_def fun_eq_iff)
  have "cur_rev ?r1 a' k' = cur_rev ?r a' k' \<or> Some (cur_rev ?r1 a' k') \<in> set [Some revision]" for a' k'
    using compare_db_rev [OF cmp] rev rs by auto
  with rand have "evolves ?r ?r1" unfolding evolves_def by (intro exI [of _ "[Some revision]"]) simp
  with compare_db_row [of a k "[]" _ b b1] cmp show ?thesis by (auto simp: current_selection_def)
qed

lemma selectionRecord_rev:
  assumes "selectionRecord a k now r = (r', res)"
  shows "evolves r r' \<and> (\<forall>p. res = Inr p \<longrightarrow> p = current_selection r' a k)"
proof (cases "rg_selectionStore r")
  case None
  with assms show ?thesis by (auto simp: selectionRecord_none current_selection_def)
next
  case (Some b)
  obtain b1 g where get: "GetConversationDeviceSelection a k b = (b1, g)" by fastforce
  let ?r1 = "r\<lparr>rg_selectionStore := Some b1\<rparr>"
  have e1: "evolves r ?r1" using store_view [OF Some get_rows [OF get]] by (intro evolves_view) simp
  show ?thesis
  proof (cases "\<exists>row. g = Inr row")
    case False
    then obtain e where "g = Inl e" by (cases g) auto
    with assms Some get e1 show ?thesis by (auto simp: selectionRecord_def)
  next
    case True
    then obtain row where g: "g = Inr row" by blast
    with get_result get get_rows [OF get] have row: "row = map_of (db_rows b1) (a, k)" by simp
    show ?thesis
    proof (cases row)
      case (Some rec)
      then have "map_of (db_rows b1) (a, k) = Some rec" and "GetConversationDeviceSelection a k b = (b1, Inr (Some rec))"
        using row get g by simp_all
      with assms \<open>rg_selectionStore r = Some b\<close> e1 show ?thesis
        by (auto simp: selectionRecord_def current_selection_def)
    next
      case None
      then have row0: "map_of (db_rows b1) (a, k) = None" and get0: "GetConversationDeviceSelection a k b = (b1, Inr None)"
        using row get g by simp_all
      let ?l = "runtimeSelectionRecord a k ?r1"
      obtain r2 x where rnd: "randomHex ?r1 = (r2, x)" by fastforce
      have e2: "evolves r r2" using evolves_trans [OF e1 evolves_random [OF rnd]] .
      consider "pref_DeviceID ?l = []" "pref_Revision ?l = []" | "pref_DeviceID ?l \<noteq> [] \<or> pref_Revision ?l \<noteq> []" "x = None"
        | revision where "pref_DeviceID ?l \<noteq> [] \<or> pref_Revision ?l \<noteq> []" "x = Some revision" by blast
      then show ?thesis
      proof cases
        case 1
        with assms Some get0 row0 e1 show ?thesis
          by (auto simp: selectionRecord_def Let_def current_selection_def)
      next
        case 2
        with assms Some get0 rnd e2 show ?thesis by (auto simp: selectionRecord_def Let_def)
      next
        case (3 revision)
        let ?next = "\<lparr>cs_DeviceID = pref_DeviceID ?l, cs_Revision = revision, cs_Source = ''legacy_selection'',
          cs_UpdatedAt = unixMillis now\<rparr>"
        obtain b2 c where cmp: "CompareConversationDeviceSelection a k [] ?next b1 = (b2, c)" by fastforce
        let ?r2 = "r2\<lparr>rg_selectionStore := Some b2\<rparr>"
        have mig: "evolves r ?r2" "c = Inr True \<longrightarrow> current_selection ?r2 a k = durablePreference ?next"
          using migration_rev [OF rnd [unfolded 3(2)] row0 _ cmp] evolves_trans [OF e1] by simp_all
        obtain b3 h where get2: "GetConversationDeviceSelection a k b2 = (b3, h)" by fastforce
        let ?r3 = "r2\<lparr>rg_selectionStore := Some b3\<rparr>"
        have "sel_view ?r3 = sel_view ?r2" using get_rows [OF get2] by (simp add: sel_view_def run_prefs_def split: option.split)
        with mig(1) have e3: "evolves r ?r3" by (metis evolves_trans evolves_view)
        have r': "(r', res) = (case c of Inl e \<Rightarrow> (?r2, Inl e)
            | Inr won \<Rightarrow> if won then (?r2, Inr (durablePreference ?next))
                else (?r3, case h of Inl e \<Rightarrow> Inl e | Inr None \<Rightarrow> Inl SelectionConflict
                             | Inr (Some rec) \<Rightarrow> Inr (durablePreference rec)))"
          using assms Some get0 rnd 3 cmp get2
          by (auto simp: selectionRecord_def Let_def split: sum.splits bool.splits option.splits)
        have "h = Inr (Some rec) \<Longrightarrow> current_selection ?r3 a k = durablePreference rec" for rec
          using get_result [of a k b2 b3] get2 get_rows [OF get2] by (auto simp: current_selection_def split: option.split)
        with r' mig e3 show ?thesis
          by (auto split: sum.splits bool.splits option.splits if_splits)
      qed
    qed
  qed
qed

lemma evolves_record: "selectionRecord a k now r = (r', res) \<Longrightarrow> evolves r r'"
  by (drule selectionRecord_rev) blast

lemma evolves_remember: "evolves r (rg_rememberDeviceSelection a k d src now r)"
proof -
  obtain r1 res where rec: "selectionRecord a k now r = (r1, res)" by fastforce
  have "evolves r1 (fst (confirmDeviceSelection a k d src e now r1))" for e
    using evolves_confirm [of a k d src e now r1] by (metis prod.collapse)
  with evolves_record [OF rec] rec show ?thesis
    by (auto simp: rg_rememberDeviceSelection_def intro: evolves_trans evolves_refresh split: sum.split)
qed

text \<open>What makes a stored grant usable under a selection.\<close>

definition grant_matches :: "ScopedDeviceGrant \<Rightarrow> go_time \<Rightarrow> (string \<Rightarrow> string) \<Rightarrow> deviceSelectionPreference \<Rightarrow> bool" where
  "grant_matches g now getenv current \<longleftrightarrow>
     gr_SelectionRevision g = pref_Revision current \<and>
     (if gr_TargetScope g = ''explicit_device''
      then xiaobaRuntimeV2EnabledForBot getenv (parseFormattedUID (gr_AgentID g)) \<and> gr_OwnerUserID g = gr_ActorUserID g
      else if pref_DeviceID current = [] then gr_SelectionRevision g = []
      else pref_DeviceID current = gr_DeviceID g \<and> pref_active current (unixMillis now))"

lemma grantSelectionCurrent_rev:
  assumes "grantSelectionCurrent g now r = (r', ok)"
  shows "evolves r r' \<and>
    (ok \<longrightarrow> cur_rev r' (parseFormattedUID (gr_ActorUserID g)) (gr_SessionKey g) = gr_SelectionRevision g \<and>
      grant_matches g now (rg_getenv r') (current_selection r' (parseFormattedUID (gr_ActorUserID g)) (gr_SessionKey g)))"
proof -
  obtain r1 res where rec: "selectionRecord (parseFormattedUID (gr_ActorUserID g)) (gr_SessionKey g) now r = (r1, res)"
    by fastforce
  have "evolves r1 (rg_revokeDeviceGrant g r1)" by (intro evolves_view) simp
  with selectionRecord_rev [OF rec] rec assms show ?thesis
    by (auto simp: grantSelectionCurrent_def grant_matches_def current_revision split: sum.splits if_splits intro: evolves_trans)
qed

text \<open>The stored grant a lookup finds, before it is checked against the selection.\<close>

definition stored_grant :: "string \<Rightarrow> go_time \<Rightarrow> 'a userDeviceRegistry \<Rightarrow> 'a userDeviceRegistry \<times> ScopedDeviceGrant option" where
  "stored_grant grantID t r =
     (let now = unixMillis t
      in case rg_authorization r of
           Some (ops, a) \<Rightarrow>
             (case ds_lookupDeviceGrant ops (trimSpace grantID) now a of (a, g) \<Rightarrow> (r\<lparr>rg_authorization := Some (ops, a)\<rparr>, g))
         | None \<Rightarrow>
             (case rg_shared r of
                Some s \<Rightarrow> (case sh_lookupDeviceGrant (trimSpace grantID) now s of (s, g) \<Rightarrow> (r\<lparr>rg_shared := Some s\<rparr>, g))
              | None \<Rightarrow>
                  (let r = r\<lparr>rg_grants := cleanupExpiredGrantsLocked now (rg_grants r)\<rparr>
                   in case map_of (rg_grants r) (trimSpace grantID) of
                        None \<Rightarrow> (r, None)
                      | Some g \<Rightarrow> if gr_Status g \<noteq> ''active'' \<or> \<not> grant_live g now then (r, None) else (r, Some g))))"

lemma lookup_stored:
  "rg_lookupGrant grantID t r =
     (if trimSpace grantID = [] then (r, None)
      else case stored_grant grantID t r of
             (r, None) \<Rightarrow> (r, None)
           | (r, Some g) \<Rightarrow> (case grantSelectionCurrent g t r of (r, ok) \<Rightarrow> (r, if ok then Some g else None)))"
  by (simp add: rg_lookupGrant_def stored_grant_def Let_def)

lemma stored_view: "stored_grant grantID t r = (r', g) \<Longrightarrow> sel_view r' = sel_view r"
  by (auto simp: stored_grant_def sh_lookupDeviceGrant_def sel_view_def run_prefs_def Let_def
      split: option.splits prod.splits if_splits)

lemma lookup_rev:
  assumes "rg_lookupGrant grantID t r = (r', res)"
  shows "evolves r r' \<and>
    (\<forall>g. res = Some g \<longrightarrow>
      cur_rev r' (parseFormattedUID (gr_ActorUserID g)) (gr_SessionKey g) = gr_SelectionRevision g \<and>
      grant_matches g t (rg_getenv r') (current_selection r' (parseFormattedUID (gr_ActorUserID g)) (gr_SessionKey g)) \<and>
      trimSpace grantID \<noteq> [] \<and> snd (stored_grant grantID t r) = Some g)"
proof -
  obtain r1 st where st: "stored_grant grantID t r = (r1, st)" by fastforce
  have e: "evolves r r1" using stored_view [OF st] by (intro evolves_view) simp
  show ?thesis
  proof (cases st)
    case None
    with e st assms show ?thesis by (auto simp: lookup_stored split: if_splits)
  next
    case (Some g)
    obtain r2 ok where cur: "grantSelectionCurrent g t r1 = (r2, ok)" by fastforce
    from grantSelectionCurrent_rev [OF cur] e st Some cur assms show ?thesis
      by (auto simp: lookup_stored intro: evolves_trans split: if_splits)
  qed
qed

section \<open>Compare and set\<close>

text \<open>
  The contract of the three selection stores. An attempt reports whether it won; one whose outcome is
  unknown may have taken effect without reporting it.
\<close>

locale revision_store =
  fixes revision :: "'s \<Rightarrow> uid \<Rightarrow> string \<Rightarrow> string"
    and cas :: "uid \<Rightarrow> string \<Rightarrow> string \<Rightarrow> deviceSelectionPreference \<Rightarrow> 's \<Rightarrow> 's \<times> bool"
  assumes cas_effect:
    "cas a k e p s = (s', won) \<Longrightarrow>
     revision s' = revision s \<and> \<not> won \<or>
     revision s a k = e \<and>
     (\<forall>a' k'. revision s' a' k' = (if a' = a \<and> k' = k then pref_Revision p else revision s a' k'))"
begin

fun outcomes :: "(uid \<times> string \<times> string \<times> deviceSelectionPreference) list \<Rightarrow> 's \<Rightarrow> bool list" where
  "outcomes [] s = []"
| "outcomes ((a, k, e, p) # xs) s = (case cas a k e p s of (s', won) \<Rightarrow> won # outcomes xs s')"

definition wins :: "uid \<Rightarrow> string \<Rightarrow> string \<Rightarrow> (uid \<times> string \<times> string \<times> deviceSelectionPreference) list \<Rightarrow> 's \<Rightarrow> nat" where
  "wins a k e xs s = length (filter (\<lambda>(x, won). won \<and> fst x = a \<and> fst (snd x) = k \<and> fst (snd (snd x)) = e) (zip xs (outcomes xs s)))"

lemma no_win_elsewhere:
  assumes "revision s a k \<noteq> e" and "\<forall>(a', k', e', p) \<in> set xs. pref_Revision p \<noteq> e"
  shows "wins a k e xs s = 0"
  using assms
proof (induction xs arbitrary: s)
  case (Cons x xs)
  obtain a' k' e' p where x: "x = (a', k', e', p)" by (cases x)
  obtain s' won where cas: "cas a' k' e' p s = (s', won)" by fastforce
  have "pref_Revision p \<noteq> e" using Cons.prems(2) x by simp
  with cas_effect [OF cas] Cons.prems(1) have "revision s' a k \<noteq> e" by metis
  with Cons.IH [of s'] Cons.prems have "wins a k e xs s' = 0" by simp
  moreover have "\<not> (won \<and> a' = a \<and> k' = k \<and> e' = e)" using cas_effect [OF cas] Cons.prems(1) by auto
  ultimately show ?case using x cas by (simp add: wins_def)
qed (simp add: wins_def)

lemma one_winner:
  assumes "\<forall>(a', k', e', p) \<in> set xs. pref_Revision p \<noteq> e"
  shows "wins a k e xs s \<le> 1"
  using assms
proof (induction xs arbitrary: s)
  case (Cons x xs)
  obtain a' k' e' p where x: "x = (a', k', e', p)" by (cases x)
  obtain s' won where cas: "cas a' k' e' p s = (s', won)" by fastforce
  show ?case
  proof (cases "won \<and> a' = a \<and> k' = k \<and> e' = e")
    case True
    moreover have "pref_Revision p \<noteq> e" using Cons.prems x by simp
    ultimately have "revision s' a k \<noteq> e" using cas_effect [OF cas] by simp
    from no_win_elsewhere [OF this] Cons.prems True x cas show ?thesis by (simp add: wins_def)
  next
    case False
    with Cons.IH [of s'] Cons.prems x cas show ?thesis by (auto simp: wins_def)
  qed
qed (simp add: wins_def)

end

interpretation shs: revision_store "\<lambda>s a k. pref_Revision (pref_at (sh_preferences s) a k)"
  "\<lambda>a k e p s. case compareDeviceSelection a k e p s of (s', err) \<Rightarrow> (s', err = None)"
  by unfold_locales (auto simp: compareDeviceSelection_def split: if_splits)

interpretation dbs: revision_store db_revision
  "\<lambda>a k e p b. case CompareConversationDeviceSelection a k e
     \<lparr>cs_DeviceID = pref_DeviceID p, cs_Revision = pref_Revision p, cs_Source = pref_Source p, cs_UpdatedAt = pref_UpdatedAt p\<rparr> b of
     (b', res) \<Rightarrow> (b', res = Inr True)"
proof unfold_locales
  fix a k e p b b' won
  assume "(case CompareConversationDeviceSelection a k e
     \<lparr>cs_DeviceID = pref_DeviceID p, cs_Revision = pref_Revision p, cs_Source = pref_Source p, cs_UpdatedAt = pref_UpdatedAt p\<rparr> b of
     (b', res) \<Rightarrow> (b', res = Inr True)) = (b', won)"
  then obtain res where "CompareConversationDeviceSelection a k e
     \<lparr>cs_DeviceID = pref_DeviceID p, cs_Revision = pref_Revision p, cs_Source = pref_Source p, cs_UpdatedAt = pref_UpdatedAt p\<rparr> b =
     (b', res)" and won: "won = (res = Inr True)" by (auto split: prod.splits)
  from compare_db_rev [OF this(1)] won
  show "db_revision b' = db_revision b \<and> \<not> won \<or>
     db_revision b a k = e \<and>
     (\<forall>a' k'. db_revision b' a' k' = (if a' = a \<and> k' = k then pref_Revision p else db_revision b a' k'))"
    by auto
qed

interpretation rgs: revision_store cur_rev "\<lambda>a k e p r. case compareSelection a k e p r of (r', err) \<Rightarrow> (r', err = None)"
proof unfold_locales
  fix a k e p and r r' :: "'a userDeviceRegistry" and won
  assume "(case compareSelection a k e p r of (r', err) \<Rightarrow> (r', err = None)) = (r', won)"
  then obtain res where "compareSelection a k e p r = (r', res)" and "won = (res = None)" by (auto split: prod.splits)
  with compareSelection_rev [of a k e p r r' res]
  show "cur_rev r' = cur_rev r \<and> \<not> won \<or>
     cur_rev r a k = e \<and> (\<forall>a' k'. cur_rev r' a' k' = (if a' = a \<and> k' = k then pref_Revision p else cur_rev r a' k'))"
    by auto
qed

text \<open>One confirmation in a race: who asks, for which conversation, with which expected and which new revision.\<close>

type_synonym selection_attempt = "uid \<times> string \<times> string \<times> deviceSelectionPreference"

fun attempt_outcomes :: "selection_attempt list \<Rightarrow> 'a userDeviceRegistry \<Rightarrow> selection_error option list" where
  "attempt_outcomes [] r = []"
| "attempt_outcomes ((a, k, e, p) # xs) r =
     (case compareSelection a k e p r of (r', err) \<Rightarrow> err # attempt_outcomes xs r')"

lemma attempt_outcomes_won: "map (\<lambda>err. err = None) (attempt_outcomes xs r) = rgs.outcomes xs r"
  by (induction xs r rule: attempt_outcomes.induct) (simp_all split: prod.split)

text \<open>
  C2: of any number of confirmations that race from the same revision of a conversation, on any nodes
  and in any order, at most one succeeds, whichever store keeps the selections and even when the
  database loses answers; all others get an error.
\<close>

theorem racing_confirmations_one_winner:
  assumes "\<forall>(a', k', e', p) \<in> set xs. pref_Revision p \<noteq> e"
  shows "length (filter (\<lambda>((a', k', e', p), err). err = None \<and> a' = a \<and> k' = k \<and> e' = e)
      (zip xs (attempt_outcomes xs r))) \<le> 1"
proof -
  have "zip xs (rgs.outcomes xs r) = map (\<lambda>(x, err). (x, err = None)) (zip xs (attempt_outcomes xs r))"
    unfolding attempt_outcomes_won [symmetric] by (simp add: zip_map2)
  then have "rgs.wins a k e xs r = length (filter (\<lambda>((a', k', e', p), err). err = None \<and> a' = a \<and> k' = k \<and> e' = e)
      (zip xs (attempt_outcomes xs r)))"
    unfolding rgs.wins_def by (simp only: filter_map length_map) (auto intro!: arg_cong [of _ _ length] filter_cong)
  with rgs.one_winner [OF assms, of a k r] show ?thesis by simp
qed

theorem racing_confirmations_one_winner_witness:
  "let p = (\<lambda>v. \<lparr>pref_Durable = False, pref_Revision = v, pref_DeviceID = ''pc'', pref_Source = [], pref_UpdatedAt = 1,
             pref_ExpiresAt = 9\<rparr>);
       xs = [(5, ''s'', [], p ''a''), (5, ''s'', [], p ''b''), (5, ''s'', ''a'', p ''c'')]
   in length (filter (\<lambda>((a', k', e', p), err). err = None \<and> a' = 5 \<and> k' = ''s'' \<and> e' = [])
        (zip xs (attempt_outcomes xs (newUserDeviceRegistry 0 (\<lambda>_. []) [] :: unit userDeviceRegistry)))) \<le> 1"
  unfolding Let_def by (rule racing_confirmations_one_winner) simp

end
