(* ===== verification/TurnContext.thy ===== *)
theory TurnContext
  imports SelectionSafety
begin

text \<open>
  What the server hands an agent at the start of a turn (\<open>server/user_device_registry.go\<close>): the
  selected device of the conversation with the grants to use it, and one grant per device for
  tools that name their target. The digest of a grant's scope (the hexadecimal SHA-256 of its JSON)
  is the parameter \<open>digest\<close>.
\<close>

section \<open>Grant ids\<close>

record grant_scope =
  gs_OwnerUserID :: string
  gs_ActorUserID :: string
  gs_SessionKey :: string
  gs_TopicID :: string
  gs_TopicType :: string
  gs_AgentID :: string
  gs_AgentBodyID :: string
  gs_DeviceID :: string
  gs_DeviceRegisteredAt :: int
  gs_DeviceBodyID :: string
  gs_DeviceInstallationID :: string
  gs_TargetScope :: string
  gs_SelectionRevision :: string

definition scope_of :: "ScopedDeviceGrant \<Rightarrow> grant_scope" where
  "scope_of g =
     \<lparr>gs_OwnerUserID = gr_OwnerUserID g, gs_ActorUserID = gr_ActorUserID g, gs_SessionKey = gr_SessionKey g,
      gs_TopicID = gr_TopicID g, gs_TopicType = gr_TopicType g, gs_AgentID = gr_AgentID g,
      gs_AgentBodyID = gr_AgentBodyID g, gs_DeviceID = gr_DeviceID g,
      gs_DeviceRegisteredAt = gr_DeviceRegisteredAt g, gs_DeviceBodyID = gr_DeviceBodyID g,
      gs_DeviceInstallationID = gr_DeviceInstallationID g, gs_TargetScope = gr_TargetScope g,
      gs_SelectionRevision = gr_SelectionRevision g\<rparr>"

definition persistentDeviceGrantID :: "(grant_scope \<Rightarrow> string) \<Rightarrow> ScopedDeviceGrant \<Rightarrow> string" where
  "persistentDeviceGrantID digest g = ''device_grant_'' @ digest (scope_of g)"

section \<open>Issuing\<close>

definition devicesForOwner :: "uid \<Rightarrow> UserDevice list \<Rightarrow> UserDevice list" where
  "devicesForOwner ownerUID devices =
     (if ownerUID \<le> 0 \<or> devices = [] then [] else filter (\<lambda>d. ud_OwnerUID d = ownerUID) devices)"

definition permanentDeviceGrantExpiresAt :: int where
  "permanentDeviceGrantExpiresAt = 253402300799999"

text \<open>The body of the loop over the devices: the grant for one device, if it gets one.\<close>

definition grant_for_device ::
  "(grant_scope \<Rightarrow> string) \<Rightarrow> uid \<Rightarrow> uid \<Rightarrow> string \<Rightarrow> string \<Rightarrow> uid \<Rightarrow> string \<Rightarrow> bool \<Rightarrow> int \<Rightarrow>
   deviceSelectionPreference \<Rightarrow> UserDevice \<Rightarrow> ScopedDeviceGrant option" where
  "grant_for_device digest actorUID ownerUID topicID topicType agentUID agentBodyID explicit createdAt preference device =
     (if ud_OwnerUID device \<noteq> ownerUID then None
      else if \<not> explicit \<and> pref_DeviceID preference \<noteq> [] \<and>
              (pref_DeviceID preference \<noteq> ud_DeviceID device \<or> \<not> pref_active preference createdAt) then None
      else let ops = deviceGrantOperations (ud_Capabilities device)
      in if ops = [] then None
         else let grant =
           \<lparr>gr_TargetScope = (if explicit then ''explicit_device'' else []),
            gr_SelectionRevision = pref_Revision preference, gr_Kind = ''user_device_grant'',
            gr_Source = ''catscompany'', gr_GrantID = [], gr_Status = ''active'',
            gr_IdentityTrust = ''server_canonical'',
            gr_IdentitySource = (if ownerUID \<noteq> actorUID then ''channel_identity_link'' else ''metadata.catsco_identity''),
            gr_DeviceID = ud_DeviceID device, gr_DeviceRegisteredAt = ud_RegisteredAt device,
            gr_DeviceDisplayName = ud_DisplayName device, gr_DeviceBodyID = ud_BodyID device,
            gr_DeviceInstallationID = ud_InstallationID device, gr_DeviceActive = False,
            gr_DeviceRouteConnected = ud_RouteConnected device, gr_DeviceRoutable = ud_Routable device,
            gr_OwnerUserID = formatUID ownerUID,
            gr_SessionKey = buildCatsCoSessionKey topicID topicType (agentIDOf agentUID) actorUID,
            gr_TopicID = topicID, gr_TopicType = topicType, gr_ActorUserID = formatUID actorUID,
            gr_AgentID = agentIDOf agentUID, gr_AgentBodyID = agentBodyID, gr_Operations = ops,
            gr_CreatedAt = createdAt, gr_ExpiresAt = permanentDeviceGrantExpiresAt, gr_Permanent = True,
            gr_RenewableUntil = 0\<rparr>
         in Some (grant\<lparr>gr_GrantID := persistentDeviceGrantID digest grant\<rparr>))"

definition issueDeviceGrants ::
  "(grant_scope \<Rightarrow> string) \<Rightarrow> uid \<Rightarrow> uid \<Rightarrow> string \<Rightarrow> string \<Rightarrow> uid \<Rightarrow> string \<Rightarrow> UserDevice list \<Rightarrow> bool \<Rightarrow>
   string option \<Rightarrow> go_time \<Rightarrow> 'a userDeviceRegistry \<Rightarrow> 'a userDeviceRegistry \<times> ScopedDeviceGrant list" where
  "issueDeviceGrants digest actorUID ownerUID topicID topicType agentUID agentBodyID devices explicit selectedRevision now r =
     (if actorUID \<le> 0 \<or> trimSpace topicID = [] \<or> devices = [] then (r, [])
      else if ownerUID \<le> 0 then (r, [])
      else case selectionRecord actorUID (buildCatsCoSessionKey topicID topicType (agentIDOf agentUID) actorUID) now r of
        (r, Inl _) \<Rightarrow> (r, [])
      | (r, Inr preference) \<Rightarrow>
          if (case selectedRevision of None \<Rightarrow> False | Some v \<Rightarrow> v \<noteq> pref_Revision preference) then (r, [])
          else let grants = List.map_filter
                     (grant_for_device digest actorUID ownerUID topicID topicType agentUID agentBodyID explicit
                        (unixMillis now) preference) devices
               in (rg_rememberGrants grants now r, grants))"

section \<open>Selecting\<close>

definition findDeviceByID :: "UserDevice list \<Rightarrow> string \<Rightarrow> UserDevice option" where
  "findDeviceByID devices deviceID = List.find (\<lambda>d. ud_DeviceID d = deviceID) devices"

definition deviceSelectionDevice :: "UserDevice \<Rightarrow> DeviceSelectionDevice" where
  "deviceSelectionDevice d =
     \<lparr>sd_DeviceID = ud_DeviceID d, sd_DisplayName = ud_DisplayName d, sd_BodyID = ud_BodyID d,
      sd_InstallationID = ud_InstallationID d, sd_Status = ud_Status d, sd_Active = False,
      sd_RouteConnected = ud_RouteConnected d, sd_Routable = ud_Routable d,
      sd_UnavailableReason = ud_UnavailableReason d, sd_Operations = deviceGrantOperations (ud_Capabilities d),
      sd_LastSeenAt = ud_LastSeenAt d\<rparr>"

definition deviceSelectionCandidates :: "UserDevice list \<Rightarrow> DeviceSelectionCandidate list" where
  "deviceSelectionCandidates devices =
     map (\<lambda>d. \<lparr>sc_OS = ud_OS d, sc_DeviceID = ud_DeviceID d, sc_DisplayName = ud_DisplayName d, sc_Status = ud_Status d,
       sc_Active = ud_Active d, sc_RouteConnected = ud_RouteConnected d, sc_Routable = ud_Routable d,
       sc_UnavailableReason = ud_UnavailableReason d, sc_Operations = deviceGrantOperations (ud_Capabilities d),
       sc_LastSeenAt = ud_LastSeenAt d\<rparr>) devices"

definition unavailable_selected :: "string \<Rightarrow> UserDevice list \<Rightarrow> DeviceSelectionDevice" where
  "unavailable_selected deviceID known =
     (case findDeviceByID known deviceID of
        Some d \<Rightarrow> deviceSelectionDevice d
      | None \<Rightarrow>
          \<lparr>sd_DeviceID = deviceID, sd_DisplayName = [], sd_BodyID = [], sd_InstallationID = [], sd_Status = [],
           sd_Active = False, sd_RouteConnected = False, sd_Routable = False,
           sd_UnavailableReason = ''route_unavailable'', sd_Operations = [], sd_LastSeenAt = 0\<rparr>)"

definition rg_deviceSelectionPreference :: "uid \<Rightarrow> string \<Rightarrow> go_time \<Rightarrow> 'a userDeviceRegistry \<Rightarrow> 'a userDeviceRegistry \<times> string option" where
  "rg_deviceSelectionPreference actorUID sessionKey now r =
     (if actorUID \<le> 0 \<or> sessionKey = [] then (r, None)
      else case selectionRecord actorUID sessionKey now r of
        (r, Inl _) \<Rightarrow> (r, None)
      | (r, Inr p) \<Rightarrow> (r, if pref_active p (unixMillis now) then Some (pref_DeviceID p) else None))"

definition selection_base ::
  "uid \<Rightarrow> string \<Rightarrow> string \<Rightarrow> uid \<Rightarrow> UserDevice list \<Rightarrow> int \<Rightarrow> DeviceSelectionStatus \<Rightarrow> string \<Rightarrow> string \<Rightarrow>
   DeviceSelectionDevice option \<Rightarrow> DeviceSelection" where
  "selection_base actorUID topicID topicType agentUID known createdAt status source revision selected =
     \<lparr>sel_Revision = revision, sel_Kind = ''user_device_selection'', sel_Source = ''catscompany'',
      sel_SchemaVersion = 1, sel_Status = status, sel_SelectionSource = source,
      sel_SessionKey = buildCatsCoSessionKey topicID topicType (agentIDOf agentUID) actorUID,
      sel_TopicID = topicID, sel_TopicType = topicType, sel_ActorUserID = formatUID actorUID,
      sel_OwnerUserID = [], sel_AgentID = agentIDOf agentUID, sel_SelectedDevice = selected,
      sel_Candidates = deviceSelectionCandidates known, sel_CandidateCount = int (length known),
      sel_CreatedAt = createdAt\<rparr>"

definition selectDeviceForTurn ::
  "uid \<Rightarrow> string \<Rightarrow> string \<Rightarrow> uid \<Rightarrow> UserDevice list \<Rightarrow> UserDevice list \<Rightarrow> go_time \<Rightarrow> 'a userDeviceRegistry \<Rightarrow>
   'a userDeviceRegistry \<times> DeviceSelection option \<times> UserDevice option" where
  "selectDeviceForTurn actorUID topicID topicType agentUID devices unavailableSet now r =
     (if actorUID \<le> 0 \<or> trimSpace topicID = [] then (r, None, None)
      else
        let createdAt = unixMillis now;
            sessionKey = buildCatsCoSessionKey topicID topicType (agentIDOf agentUID) actorUID;
            known = devices @ unavailableSet;
            base = selection_base actorUID topicID topicType agentUID known createdAt
        in case selectionRecord actorUID sessionKey now r of
          (r, Inl _) \<Rightarrow>
            (r, Some (base DeviceSelectionUnavailable ''selection_store_unavailable'' [] None), None)
        | (r, Inr preference) \<Rightarrow>
            if devices = [] then
              (case rg_deviceSelectionPreference actorUID sessionKey now r of
                 (r, preferred) \<Rightarrow>
                   (r, Some (base DeviceSelectionUnavailable ''no_routable_devices'' (pref_Revision preference)
                              (map_option (\<lambda>d. unavailable_selected d known) preferred)), None))
            else if pref_active preference createdAt then
              (case findDeviceByID devices (pref_DeviceID preference) of
                 Some selected \<Rightarrow>
                   (refreshDeviceSelection actorUID sessionKey preference now r,
                    Some (base DeviceSelectionSelected ''conversation_preference'' (pref_Revision preference)
                            (Some (deviceSelectionDevice selected))), Some selected)
               | None \<Rightarrow>
                   (r, Some (base DeviceSelectionUnavailable ''selected_device_unavailable'' (pref_Revision preference)
                              (Some (unavailable_selected (pref_DeviceID preference) known))), None))
            else if length known > 1 then
              (r, Some (base DeviceSelectionNeedsSelection ''multiple_devices'' (pref_Revision preference) None), None)
            else
              let selected = hd devices;
                  r = rg_rememberDeviceSelection actorUID sessionKey (ud_DeviceID selected) ''single_active_device'' now r
              in case selectionRecord actorUID sessionKey now r of
                (r, res) \<Rightarrow>
                  (case res of
                     Inr current \<Rightarrow>
                       if pref_DeviceID current \<noteq> ud_DeviceID selected \<or> \<not> pref_active current createdAt
                       then (r, Some (base DeviceSelectionNeedsSelection ''selection_changed'' (pref_Revision preference) None), None)
                       else (r, Some (base DeviceSelectionSelected ''single_active_device'' (pref_Revision current)
                                       (Some (deviceSelectionDevice selected))), Some selected)
                   | Inl _ \<Rightarrow>
                       (r, Some (base DeviceSelectionNeedsSelection ''selection_changed'' (pref_Revision preference) None), None)))"

section \<open>The context of a turn\<close>

definition no_turn :: DeviceTurnContext where
  "no_turn = \<lparr>tc_Grants = [], tc_ExplicitGrants = [], tc_Selection = None\<rparr>"

definition turnContextForOwnerDevicesWithExplicitTargets ::
  "(grant_scope \<Rightarrow> string) \<Rightarrow> uid \<Rightarrow> uid \<Rightarrow> string \<Rightarrow> string \<Rightarrow> uid \<Rightarrow> string \<Rightarrow> UserDevice list \<Rightarrow> UserDevice list \<Rightarrow>
   bool \<Rightarrow> go_time \<Rightarrow> 'a userDeviceRegistry \<Rightarrow> 'a userDeviceRegistry \<times> DeviceTurnContext" where
  "turnContextForOwnerDevicesWithExplicitTargets digest actorUID ownerUID topicID topicType agentUID agentBodyID
     devices unavailableCandidates explicitTargetsEnabled now r =
     (if actorUID \<le> 0 \<or> trimSpace topicID = [] then (r, no_turn)
      else if ownerUID \<le> 0 then (r, no_turn)
      else
        let devices = devicesForOwner ownerUID devices;
            unavailableCandidates = devicesForOwner ownerUID unavailableCandidates
        in case selectDeviceForTurn actorUID topicID topicType agentUID devices unavailableCandidates now r of
          (r, selection, selected) \<Rightarrow>
            let selection = map_option (\<lambda>s. s\<lparr>sel_OwnerUserID := formatUID ownerUID\<rparr>) selection
            in case
              (case (selected, selection) of
                 (Some d, Some s) \<Rightarrow>
                   if sel_Status s = DeviceSelectionSelected
                   then issueDeviceGrants digest actorUID ownerUID topicID topicType agentUID agentBodyID [d] False
                          (Some (sel_Revision s)) now r
                   else (r, [])
               | _ \<Rightarrow> (r, [])) of
              (r, grants) \<Rightarrow>
                (case
                  (case selection of
                     Some s \<Rightarrow>
                       if ownerUID = actorUID \<and> explicitTargetsEnabled \<and>
                          sel_SelectionSource s \<noteq> ''selection_store_unavailable'' \<and> sel_SelectionSource s \<noteq> ''selection_changed''
                       then issueDeviceGrants digest actorUID actorUID topicID topicType agentUID agentBodyID devices True
                              (Some (sel_Revision s)) now r
                       else (r, [])
                   | None \<Rightarrow> (r, [])) of
                  (r, explicitGrants) \<Rightarrow>
                    (r, \<lparr>tc_Grants = grants, tc_ExplicitGrants = explicitGrants, tc_Selection = selection\<rparr>)))"

definition turnContextForOwnerDevices ::
  "(grant_scope \<Rightarrow> string) \<Rightarrow> uid \<Rightarrow> uid \<Rightarrow> string \<Rightarrow> string \<Rightarrow> uid \<Rightarrow> string \<Rightarrow> UserDevice list \<Rightarrow> UserDevice list \<Rightarrow>
   go_time \<Rightarrow> 'a userDeviceRegistry \<Rightarrow> 'a userDeviceRegistry \<times> DeviceTurnContext" where
  "turnContextForOwnerDevices digest actorUID ownerUID topicID topicType agentUID agentBodyID devices unavailable now r =
     turnContextForOwnerDevicesWithExplicitTargets digest actorUID ownerUID topicID topicType agentUID agentBodyID
       devices unavailable (xiaobaRuntimeV2EnabledForBot (rg_getenv r) agentUID) now r"

definition turnContext ::
  "(grant_scope \<Rightarrow> string) \<Rightarrow> uid \<Rightarrow> string \<Rightarrow> string \<Rightarrow> uid \<Rightarrow> string \<Rightarrow> go_time \<Rightarrow> 'a userDeviceRegistry \<Rightarrow>
   'a userDeviceRegistry \<times> DeviceTurnContext" where
  "turnContext digest actorUID topicID topicType agentUID agentBodyID now r =
     (if actorUID \<le> 0 \<or> trimSpace topicID = [] then (r, no_turn)
      else turnContextForOwnerDevices digest actorUID actorUID topicID topicType agentUID agentBodyID
             (rg_activeDevices actorUID now r) [] now r)"

definition grantsForTurn ::
  "(grant_scope \<Rightarrow> string) \<Rightarrow> uid \<Rightarrow> string \<Rightarrow> string \<Rightarrow> uid \<Rightarrow> string \<Rightarrow> go_time \<Rightarrow> 'a userDeviceRegistry \<Rightarrow>
   'a userDeviceRegistry \<times> ScopedDeviceGrant list" where
  "grantsForTurn digest actorUID topicID topicType agentUID agentBodyID now r =
     (if actorUID \<le> 0 \<or> trimSpace topicID = [] then (r, [])
      else let devices = rg_activeDevices actorUID now r
           in if devices = [] then (r, [])
              else issueDeviceGrants digest actorUID actorUID topicID topicType agentUID agentBodyID devices False None now r)"

section \<open>Issuing and selecting follow the revision\<close>

lemma evolves_issue:
  "evolves r (fst (issueDeviceGrants digest a u t ty g b ds ex sr now r))"
proof -
  let ?k = "buildCatsCoSessionKey t ty (agentIDOf g) a"
  obtain r1 res where rec: "selectionRecord a ?k now r = (r1, res)" by fastforce
  have "evolves r1 (rg_rememberGrants gs now r1)" for gs by (intro evolves_view) simp
  with evolves_record [OF rec] rec show ?thesis
    by (auto simp: issueDeviceGrants_def Let_def intro: evolves_trans split: sum.split)
qed

lemma evolves_preference: "evolves r (fst (rg_deviceSelectionPreference a k now r))"
proof -
  obtain r1 res where rec: "selectionRecord a k now r = (r1, res)" by fastforce
  with evolves_record [OF rec] show ?thesis
    by (auto simp: rg_deviceSelectionPreference_def split: sum.split)
qed

lemma evolves_select: "evolves r (fst (selectDeviceForTurn a t ty g ds us now r))"
proof -
  let ?k = "buildCatsCoSessionKey t ty (agentIDOf g) a"
  obtain r1 res where rec: "selectionRecord a ?k now r = (r1, res)" by fastforce
  obtain r2 q where pref: "rg_deviceSelectionPreference a ?k now r1 = (r2, q)" by fastforce
  let ?r3 = "rg_rememberDeviceSelection a ?k (ud_DeviceID (hd ds)) ''single_active_device'' now r1"
  obtain r4 res4 where rec4: "selectionRecord a ?k now ?r3 = (r4, res4)" by fastforce
  have "evolves r r1" by (rule evolves_record [OF rec])
  moreover have "evolves r1 r2" using evolves_preference [of r1 a ?k now] pref by simp
  moreover have "evolves r1 r4"
    using evolves_remember evolves_record [OF rec4] by (rule evolves_trans)
  moreover have "evolves r1 (refreshDeviceSelection a ?k p now r1)" for p by (rule evolves_refresh)
  ultimately show ?thesis
    using rec pref rec4
    by (auto simp: selectDeviceForTurn_def Let_def intro: evolves_trans split: sum.split option.split)
qed

lemma evolves_turn:
  "evolves r (fst (turnContextForOwnerDevicesWithExplicitTargets digest a u t ty g b ds us ex now r))"
proof -
  let ?ds = "devicesForOwner u ds"
  obtain r1 sel chosen where s: "selectDeviceForTurn a t ty g ?ds (devicesForOwner u us) now r = (r1, sel, chosen)"
    by (metis prod_cases3)
  have e1: "evolves r r1" using evolves_select [of r a t ty g ?ds "devicesForOwner u us" now] s by simp
  have e2: "evolves r (fst (issueDeviceGrants digest a v t ty g b ds' x sr now r1))" for v ds' x sr
    using e1 evolves_issue by (rule evolves_trans)
  have e3: "evolves r (fst (issueDeviceGrants digest a v t ty g b ds' x sr now
      (fst (issueDeviceGrants digest a v' t ty g b ds'' x' sr' now r1))))" for v ds' x sr v' ds'' x' sr'
    using e2 evolves_issue by (rule evolves_trans)
  show ?thesis
    using s e1 e2 e3
    by (auto simp: turnContextForOwnerDevicesWithExplicitTargets_def Let_def case_prod_beta split: option.split)
qed

end
