(* ===== verification/Authority.thy ===== *)
theory Authority
  imports TurnContext
begin

text \<open>
  Which grants an agent can use. The moves of a registry interleave every operation of every node
  with whatever the authorization store and the environment do on their own; the properties say that a
  confirmed selection puts an end to all earlier grants of its conversation, and exactly when a
  stored grant is usable.
\<close>

section \<open>Every move of a registry\<close>

datatype registry_op =
    RTurn uid uid string string uid string "UserDevice list" "UserDevice list" bool go_time
  | RIssue uid uid string string uid string "UserDevice list" bool "string option" go_time
  | RConfirm uid string string string string go_time
  | RPrefer uid string string string go_time
  | RRecord uid string go_time
  | RLookup string go_time
  | RRemember "ScopedDeviceGrant list" go_time
  | RRevokeGrant ScopedDeviceGrant
  | RRevokeSelection uid string
  | RRevokeDevice uid string
  | RRegister uid RegisterUserDeviceRequest go_time
  | RUnregister uid string
  | RTouch uid string go_time

fun registry_step :: "(grant_scope \<Rightarrow> string) \<Rightarrow> registry_op \<Rightarrow> 'a userDeviceRegistry \<Rightarrow> 'a userDeviceRegistry" where
  "registry_step digest (RTurn a u t ty g b ds us ex now) r =
     fst (turnContextForOwnerDevicesWithExplicitTargets digest a u t ty g b ds us ex now r)"
| "registry_step digest (RIssue a u t ty g b ds ex sr now) r = fst (issueDeviceGrants digest a u t ty g b ds ex sr now r)"
| "registry_step digest (RConfirm a k d src e now) r = fst (confirmDeviceSelection a k d src e now r)"
| "registry_step digest (RPrefer a k d src now) r = rg_rememberDeviceSelection a k d src now r"
| "registry_step digest (RRecord a k now) r = fst (selectionRecord a k now r)"
| "registry_step digest (RLookup i now) r = fst (rg_lookupGrant i now r)"
| "registry_step digest (RRemember gs now) r = rg_rememberGrants gs now r"
| "registry_step digest (RRevokeGrant g) r = rg_revokeDeviceGrant g r"
| "registry_step digest (RRevokeSelection a k) r = rg_revokeDeviceGrantsForSelection a k r"
| "registry_step digest (RRevokeDevice u d) r = rg_revokeDeviceGrantsForDevice u d r"
| "registry_step digest (RRegister u req now) r = fst (rg_register u req now r)"
| "registry_step digest (RUnregister u d) r = rg_unregister u d r"
| "registry_step digest (RTouch u d now) r = rg_touch u d now r"

text \<open>
  The states a registry can move to: any operation, and any change of the authorization store
  (another node's writes, expiry, eviction, even corruption) or of the process-local grants.
\<close>

inductive registry_moves :: "(grant_scope \<Rightarrow> string) \<Rightarrow> 'a userDeviceRegistry \<Rightarrow> 'a userDeviceRegistry \<Rightarrow> bool"
  for digest :: "grant_scope \<Rightarrow> string" where
  stay: "registry_moves digest r r"
| operate: "registry_moves digest r r' \<Longrightarrow> registry_moves digest r (registry_step digest op r')"
| authorization_changes: "registry_moves digest r r' \<Longrightarrow> registry_moves digest r (r'\<lparr>rg_authorization := auth\<rparr>)"
| grants_change: "registry_moves digest r r' \<Longrightarrow> registry_moves digest r (r'\<lparr>rg_grants := gs\<rparr>)"
| environment_changes: "registry_moves digest r r' \<Longrightarrow> registry_moves digest r (r'\<lparr>rg_getenv := env\<rparr>)"

lemma devices_view [simp]:
  "sel_view (fst (rg_register u req now r)) = sel_view r"
  "sel_view (rg_unregister u d r) = sel_view r"
  "sel_view (rg_touch u d now r) = sel_view r"
  by (auto simp: sel_view_def run_prefs_def rg_register_def rg_unregister_def rg_touch_def registerUserDevice_def
      unregisterUserDevice_def touchUserDevice_def split: option.split prod.split)

lemma environment_view [simp]:
  "sel_view (r\<lparr>rg_authorization := auth\<rparr>) = sel_view r" "sel_view (r\<lparr>rg_grants := gs\<rparr>) = sel_view r"
  "sel_view (r\<lparr>rg_getenv := env\<rparr>) = sel_view r"
  by (auto simp: sel_view_def run_prefs_def split: option.split)

lemma evolves_step: "evolves r (registry_step digest op r)"
proof (cases op)
  case (RConfirm a k d src e now)
  then show ?thesis using evolves_confirm [of a k d src e now r] by (metis prod.collapse registry_step.simps(3))
next
  case (RLookup i now)
  then show ?thesis using lookup_rev [of i now r] by (metis prod.collapse registry_step.simps(6))
next
  case (RRecord a k now)
  then show ?thesis using evolves_record [of a k now r] by (metis prod.collapse registry_step.simps(5))
qed (auto intro: evolves_turn evolves_issue evolves_remember evolves_view)

lemma evolves_moves: "registry_moves digest r r' \<Longrightarrow> evolves r r'"
proof (induction rule: registry_moves.induct)
  case (operate r r' op)
  then show ?case by (blast intro: evolves_trans evolves_step)
qed (simp, (rule evolves_trans, assumption, rule evolves_view, simp)+)

lemma evolves_stays_fresh:
  "evolves r r' \<Longrightarrow> cur_rev r a k \<noteq> old \<Longrightarrow> Some old \<notin> set (rg_random r) \<Longrightarrow>
   cur_rev r' a k \<noteq> old \<and> Some old \<notin> set (rg_random r')"
  by (force simp: evolves_def)

section \<open>A confirmed selection ends earlier grants\<close>

text \<open>
  C1: after a user's device selection for a conversation has been confirmed, no grant issued under an
  earlier revision of that conversation is usable ever again. It does not matter what happens in
  between: turns, other confirmations, lookups and migrations on all nodes, a node that stores a
  grant it issued before the confirmation, database answers that get lost, or an authorization store
  that returns whatever it likes. The one hypothesis is that the random identifiers still to come do
  not repeat the earlier revision.
\<close>

theorem confirmed_selection_ends_earlier_grants:
  assumes "confirmDeviceSelection a k d src e t0 r0 = (r1, Inr p)"
    and "Some old \<notin> set (rg_random r0)"
    and "registry_moves digest r1 r2"
    and "rg_lookupGrant i t r2 = (r3, Some g)"
    and "parseFormattedUID (gr_ActorUserID g) = a" and "gr_SessionKey g = k"
  shows "gr_SelectionRevision g \<noteq> old"
proof -
  from evolves_confirm [OF assms(1)] obtain ys where
    "cur_rev r1 a k = pref_Revision p" "rg_random r0 = Some (pref_Revision p) # ys" "rg_random r1 = ys" by blast
  with assms(2) have "cur_rev r1 a k \<noteq> old" "Some old \<notin> set (rg_random r1)" by auto
  from evolves_stays_fresh [OF evolves_moves [OF assms(3)] this]
  have "cur_rev r2 a k \<noteq> old" "Some old \<notin> set (rg_random r2)" by blast+
  with evolves_stays_fresh [of r2 r3 a k old] lookup_rev [OF assms(4)] assms(5,6) show ?thesis by auto
qed

definition sample_grant :: ScopedDeviceGrant where
  "sample_grant =
     \<lparr>gr_TargetScope = [], gr_SelectionRevision = ''r2'', gr_Kind = [], gr_Source = [], gr_GrantID = ''g1'',
      gr_Status = ''active'', gr_IdentityTrust = [], gr_IdentitySource = [], gr_DeviceID = ''pc'', gr_DeviceRegisteredAt = 0,
      gr_DeviceDisplayName = [], gr_DeviceBodyID = [], gr_DeviceInstallationID = [], gr_DeviceActive = False,
      gr_DeviceRouteConnected = False, gr_DeviceRoutable = False, gr_OwnerUserID = ''usr5'', gr_SessionKey = ''s'',
      gr_TopicID = [], gr_TopicType = [], gr_ActorUserID = ''usr5'', gr_AgentID = [], gr_AgentBodyID = [],
      gr_Operations = [], gr_CreatedAt = 0, gr_ExpiresAt = 0, gr_Permanent = True, gr_RenewableUntil = 0\<rparr>"

definition sample_preference :: deviceSelectionPreference where
  "sample_preference = \<lparr>pref_Durable = False, pref_Revision = ''r1'', pref_DeviceID = ''mac'', pref_Source = [],
     pref_UpdatedAt = 0, pref_ExpiresAt = 99\<rparr>"

theorem confirmed_selection_ends_earlier_grants_witness:
  "let r0 = (newUserDeviceRegistry 0 (\<lambda>_. []) [Some ''r2'', Some ''r3''])
              \<lparr>rg_preferences := [(5, [(''s'', sample_preference)])]\<rparr> :: unit userDeviceRegistry;
       r1 = fst (confirmDeviceSelection 5 ''s'' ''pc'' [] ''r1'' 0 r0);
       r2 = registry_step (\<lambda>_. []) (RRemember [sample_grant] 0) r1
   in snd (rg_lookupGrant ''g1'' 0 r2) = Some sample_grant \<and> gr_SelectionRevision sample_grant \<noteq> ''r1''"
proof -
  let ?r0 = "(newUserDeviceRegistry 0 (\<lambda>_. []) [Some ''r2'', Some ''r3''])
              \<lparr>rg_preferences := [(5, [(''s'', sample_preference)])]\<rparr> :: unit userDeviceRegistry"
  let ?c = "confirmDeviceSelection 5 ''s'' ''pc'' [] ''r1'' 0 ?r0"
  let ?r2 = "registry_step (\<lambda>_. []) (RRemember [sample_grant] 0) (fst ?c)"
  have "\<not> isl (snd ?c)" by code_simp
  then obtain p where "snd ?c = Inr p" by (cases "snd ?c") auto
  then have p: "confirmDeviceSelection 5 ''s'' ''pc'' [] ''r1'' 0 ?r0 = (fst ?c, Inr p)" by (metis prod.collapse)
  have l: "snd (rg_lookupGrant ''g1'' 0 ?r2) = Some sample_grant" by code_simp
  then have l2: "rg_lookupGrant ''g1'' 0 ?r2 = (fst (rg_lookupGrant ''g1'' 0 ?r2), Some sample_grant)" by (metis prod.collapse)
  have a: "parseFormattedUID (gr_ActorUserID sample_grant) = 5" "gr_SessionKey sample_grant = ''s''" by code_simp+
  have "gr_SelectionRevision sample_grant \<noteq> ''r1''"
    using confirmed_selection_ends_earlier_grants [OF p _ registry_moves.operate [OF registry_moves.stay] l2 a, of "''r1''"]
    by (simp add: newUserDeviceRegistry_def)
  with l show ?thesis by (simp only: Let_def simp_thms)
qed

section \<open>When a grant is usable\<close>

lemma stored_live:
  "stored_grant i t r = (r', Some g) \<Longrightarrow> rg_authorization r = None \<Longrightarrow> gr_Status g = ''active'' \<and> grant_live g (unixMillis t)"
  by (auto simp: stored_grant_def sh_lookupDeviceGrant_def Let_def split: option.splits prod.splits if_splits)

text \<open>
  C13: a grant the server lets an agent use is one that is stored under the id the agent names; it
  carries the revision of the selection in force after the check; one for the selected device names
  that device while the selection is active, one for an explicit target is the actor's own and its
  agent is in the rollout. When the registry keeps the grants itself or in the shared state, the grant
  is also active and has not expired.
\<close>

theorem usable_grant_is_authorized:
  assumes "rg_lookupGrant i t r = (r', Some g)"
  shows "snd (stored_grant i t r) = Some g \<and>
    grant_matches g t (rg_getenv r') (current_selection r' (parseFormattedUID (gr_ActorUserID g)) (gr_SessionKey g)) \<and>
    (rg_authorization r = None \<longrightarrow> gr_Status g = ''active'' \<and> grant_live g (unixMillis t))"
  using lookup_rev [OF assms] stored_live [of i t r "fst (stored_grant i t r)" g] by (metis prod.collapse)

theorem usable_grant_is_authorized_witness:
  "let r = (newUserDeviceRegistry 0 (\<lambda>_. []) [])
             \<lparr>rg_preferences := [(5, [(''s'', sample_preference\<lparr>pref_Revision := ''r2'', pref_DeviceID := ''pc''\<rparr>)])],
              rg_grants := [(''g1'', sample_grant)]\<rparr> :: unit userDeviceRegistry
   in snd (rg_lookupGrant '' g1'' 0 r) = Some sample_grant \<and> gr_Status sample_grant = ''active''"
proof -
  let ?r = "(newUserDeviceRegistry 0 (\<lambda>_. []) [])
             \<lparr>rg_preferences := [(5, [(''s'', sample_preference\<lparr>pref_Revision := ''r2'', pref_DeviceID := ''pc''\<rparr>)])],
              rg_grants := [(''g1'', sample_grant)]\<rparr> :: unit userDeviceRegistry"
  have l: "snd (rg_lookupGrant '' g1'' 0 ?r) = Some sample_grant" by code_simp
  then have "rg_lookupGrant '' g1'' 0 ?r = (fst (rg_lookupGrant '' g1'' 0 ?r), Some sample_grant)" by (metis prod.collapse)
  from usable_grant_is_authorized [OF this] have "gr_Status sample_grant = ''active''" by (simp add: newUserDeviceRegistry_def)
  with l show ?thesis by (simp only: Let_def simp_thms)
qed

lemma current_without_store:
  "rg_selectionStore r = None \<Longrightarrow>
   grantSelectionCurrent g t r =
     (if gr_SelectionRevision g \<noteq> pref_Revision (current_selection r (parseFormattedUID (gr_ActorUserID g)) (gr_SessionKey g))
      then rg_revokeDeviceGrant g r else r,
      grant_matches g t (rg_getenv r) (current_selection r (parseFormattedUID (gr_ActorUserID g)) (gr_SessionKey g)))"
  by (auto simp: grantSelectionCurrent_def selectionRecord_none grant_matches_def current_selection_def)

text \<open>
  without a durable selection table the check is exact: the stored grant is handed out if and only
  if it matches the selection in force, and a grant of another revision is deleted by the lookup, so
  that a second lookup finds nothing.
\<close>

theorem grant_lookup_exact:
  assumes "rg_selectionStore r = None" and "rg_authorization r = None" and "trimSpace i \<noteq> []"
    and "stored_grant i t r = (r1, found)"
  shows "rg_lookupGrant i t r =
    (case found of
       None \<Rightarrow> (r1, None)
     | Some g \<Rightarrow>
         (let current = current_selection r (parseFormattedUID (gr_ActorUserID g)) (gr_SessionKey g)
          in if gr_SelectionRevision g \<noteq> pref_Revision current then (rg_revokeDeviceGrant g r1, None)
             else if grant_matches g t (rg_getenv r) current then (r1, Some g) else (r1, None)))"
proof -
  have view: "sel_view r1 = sel_view r" using stored_view [OF assms(4)] .
  have env: "rg_getenv r1 = rg_getenv r" "rg_selectionStore r1 = None"
    using assms by (auto simp: stored_grant_def Let_def split: option.splits prod.splits if_splits)
  have "current_selection r1 = current_selection r"
    using view env(2) assms(1) by (simp add: fun_eq_iff current_selection_def sel_view_def)
  with assms env show ?thesis
    by (auto simp: lookup_stored current_without_store grant_matches_def Let_def split: option.split)
qed

theorem grant_lookup_exact_witness:
  "let r = (newUserDeviceRegistry 0 (\<lambda>_. []) [])\<lparr>rg_grants := [(''g1'', sample_grant)]\<rparr> :: unit userDeviceRegistry
   in snd (rg_lookupGrant ''g1'' 0 r) = None"
proof -
  let ?r = "(newUserDeviceRegistry 0 (\<lambda>_. []) [])\<lparr>rg_grants := [(''g1'', sample_grant)]\<rparr> :: unit userDeviceRegistry"
  have found: "stored_grant ''g1'' 0 ?r = (fst (stored_grant ''g1'' 0 ?r), Some sample_grant)"
  proof -
    have "snd (stored_grant ''g1'' 0 ?r) = Some sample_grant" by code_simp
    then show ?thesis by (metis prod.collapse)
  qed
  have id: "trimSpace ''g1'' \<noteq> []" by code_simp
  have rev: "gr_SelectionRevision sample_grant \<noteq> pref_Revision (current_selection ?r
      (parseFormattedUID (gr_ActorUserID sample_grant)) (gr_SessionKey sample_grant))" by code_simp
  show ?thesis
    unfolding Let_def using grant_lookup_exact [OF _ _ id found] rev by (simp add: newUserDeviceRegistry_def Let_def)
qed

section \<open>What a turn hands out\<close>

lemma grant_for_device_fields:
  assumes "grant_for_device digest a u t ty g b ex now pref d = Some gr"
  shows "gr_ActorUserID gr = formatUID a \<and> gr_OwnerUserID gr = formatUID u \<and> gr_AgentID gr = agentIDOf g \<and>
    gr_AgentBodyID gr = b \<and> gr_SessionKey gr = buildCatsCoSessionKey t ty (agentIDOf g) a \<and>
    gr_SelectionRevision gr = pref_Revision pref \<and> gr_TargetScope gr = (if ex then ''explicit_device'' else []) \<and>
    ud_OwnerUID d = u \<and> gr_DeviceID gr = ud_DeviceID d \<and> gr_Operations gr = deviceGrantOperations (ud_Capabilities d) \<and>
    gr_Operations gr \<noteq> []"
  using assms by (auto simp: grant_for_device_def Let_def split: if_splits)

lemma issue_sound:
  assumes "issueDeviceGrants digest a u t ty g b ds ex sr now r = (r', gs)" and "gr \<in> set gs"
  shows "\<exists>d \<in> set ds. \<exists>pref. grant_for_device digest a u t ty g b ex (unixMillis now) pref d = Some gr \<and>
    (\<forall>v. sr = Some v \<longrightarrow> pref_Revision pref = v)"
proof -
  have mf: "gr \<in> set (List.map_filter f xs) \<longleftrightarrow> (\<exists>x \<in> set xs. f x = Some gr)" for f :: "UserDevice \<Rightarrow> ScopedDeviceGrant option" and xs
    by (force simp: List.map_filter_def)
  from assms show ?thesis
    by (simp add: issueDeviceGrants_def Let_def split: if_splits prod.splits sum.splits option.splits)
       (clarsimp simp: mf, blast)+
qed

lemma select_sound:
  assumes "selectDeviceForTurn a t ty g ds us now r = (r', sel, Some d)"
  shows "d \<in> set ds \<and> (\<exists>s. sel = Some s \<and> sel_Status s = DeviceSelectionSelected \<and>
    sel_SelectedDevice s = Some (deviceSelectionDevice d))"
  using assms
  by (auto simp: selectDeviceForTurn_def Let_def selection_base_def findDeviceByID_def dest!: find_SomeD
      split: if_splits prod.splits sum.splits option.splits)

lemma turn_parts:
  fixes r r1 :: "'a userDeviceRegistry"
  assumes turn: "turnContextForOwnerDevicesWithExplicitTargets digest a u t ty g b ds us ex now r = (r', tc)"
    and sel: "selectDeviceForTurn a t ty g (devicesForOwner u ds) (devicesForOwner u us) now r = (r1, sel, chosen)"
    and "0 < a" and "trimSpace t \<noteq> []" and "0 < u"
  shows "tc_Selection tc = map_option (\<lambda>s. s\<lparr>sel_OwnerUserID := formatUID u\<rparr>) sel \<and>
    (tc_Grants tc \<noteq> [] \<longrightarrow> (\<exists>d s r2. chosen = Some d \<and> sel = Some s \<and>
       issueDeviceGrants digest a u t ty g b [d] False (Some (sel_Revision s)) now r1 = (r2, tc_Grants tc))) \<and>
    (tc_ExplicitGrants tc \<noteq> [] \<longrightarrow> u = a \<and> ex \<and> (\<exists>s (r2 :: 'a userDeviceRegistry) r3. sel = Some s \<and>
       issueDeviceGrants digest a a t ty g b (devicesForOwner u ds) True (Some (sel_Revision s)) now r2 = (r3, tc_ExplicitGrants tc)))"
  using assms
  by (auto simp: turnContextForOwnerDevicesWithExplicitTargets_def Let_def
      split: if_splits prod.splits option.splits) ((rule exI)+, assumption)+

lemma turn_nonempty:
  assumes "turnContextForOwnerDevicesWithExplicitTargets digest a u t ty g b ds us ex now r = (r', tc)"
    and "gr \<in> set (tc_Grants tc) \<union> set (tc_ExplicitGrants tc)"
  shows "0 < a \<and> trimSpace t \<noteq> [] \<and> 0 < u"
proof (rule ccontr)
  assume "\<not> ?thesis"
  with assms(1) have "tc = no_turn"
    by (auto simp: turnContextForOwnerDevicesWithExplicitTargets_def not_less split: if_splits)
  with assms(2) show False by (simp add: no_turn_def)
qed

lemma issued_grant_scope:
  assumes "issueDeviceGrants digest a u t ty g b ds ex (Some v) now r = (r', gs)" and "gr \<in> set gs"
  shows "gr_ActorUserID gr = formatUID a \<and> gr_OwnerUserID gr = formatUID u \<and> gr_AgentID gr = agentIDOf g \<and>
    gr_SessionKey gr = buildCatsCoSessionKey t ty (agentIDOf g) a \<and> gr_SelectionRevision gr = v \<and>
    gr_TargetScope gr = (if ex then ''explicit_device'' else []) \<and>
    (\<exists>d \<in> set ds. ud_OwnerUID d = u \<and> gr_DeviceID gr = ud_DeviceID d \<and> gr_Operations gr \<noteq> [] \<and>
       set (gr_Operations gr) = {c \<in> set (ud_Capabilities d). isAllowedDeviceGrantRuntimeOperation c})"
proof -
  from issue_sound [OF assms] obtain d pref where d: "d \<in> set ds" "pref_Revision pref = v"
    "grant_for_device digest a u t ty g b ex (unixMillis now) pref d = Some gr" by blast
  from grant_for_device_fields [OF d(3)] d(1,2) deviceGrantOperations_set [of "ud_Capabilities d"]
  show ?thesis by auto
qed

text \<open>
  C4: every grant in an agent's turn is for the acting user, the owner, the agent and the conversation of
  that turn, for a device of that owner among the given ones, for operations that device offers and the
  server allows, and it carries the revision of the selection sent with it. Ordinary grants exist only for
  the one selected device; grants for explicit targets only when the actor owns the devices and the
  client negotiated them.
\<close>

theorem turn_grants_scoped:
  fixes r :: "'a userDeviceRegistry"
  assumes turn: "turnContextForOwnerDevicesWithExplicitTargets digest a u t ty g b ds us ex now r = (r', tc)"
    and gr: "gr \<in> set (tc_Grants tc) \<union> set (tc_ExplicitGrants tc)"
  shows "gr_ActorUserID gr = formatUID a \<and> gr_OwnerUserID gr = formatUID u \<and> gr_AgentID gr = agentIDOf g \<and>
    gr_SessionKey gr = buildCatsCoSessionKey t ty (agentIDOf g) a \<and>
    (\<exists>d \<in> set ds. ud_OwnerUID d = u \<and> gr_DeviceID gr = ud_DeviceID d \<and> gr_Operations gr \<noteq> [] \<and>
       set (gr_Operations gr) = {c \<in> set (ud_Capabilities d). isAllowedDeviceGrantRuntimeOperation c}) \<and>
    (\<exists>s. tc_Selection tc = Some s \<and> gr_SelectionRevision gr = sel_Revision s \<and>
       (gr \<in> set (tc_Grants tc) \<longrightarrow> gr_TargetScope gr = [] \<and> sel_Status s = DeviceSelectionSelected \<and>
          (\<exists>sd. sel_SelectedDevice s = Some sd \<and> sd_DeviceID sd = gr_DeviceID gr)) \<and>
       (gr \<in> set (tc_ExplicitGrants tc) \<longrightarrow> gr_TargetScope gr = ''explicit_device'' \<and> u = a \<and> ex))"
proof -
  obtain r1 sel chosen where s: "selectDeviceForTurn a t ty g (devicesForOwner u ds) (devicesForOwner u us) now r = (r1, sel, chosen)"
    by (metis prod_cases3)
  from turn_nonempty [OF turn gr] have "0 < a" "trimSpace t \<noteq> []" "0 < u" by blast+
  note parts = turn_parts [OF turn s this]
  have sub: "d \<in> set (devicesForOwner u ds) \<Longrightarrow> d \<in> set ds" for d by (auto simp: devicesForOwner_def split: if_splits)
  have plain: "?thesis" if g: "gr \<in> set (tc_Grants tc)" "gr \<notin> set (tc_ExplicitGrants tc)"
  proof -
    from g(1) have "tc_Grants tc \<noteq> []" by auto
    with parts obtain d s0 r2 where d: "chosen = Some d" "sel = Some s0"
      "issueDeviceGrants digest a u t ty g b [d] False (Some (sel_Revision s0)) now r1 = (r2, tc_Grants tc)"
      by blast
    from select_sound [OF s [unfolded d(1)]] d(2) sub have sd: "d \<in> set ds" "sel_Status s0 = DeviceSelectionSelected"
      "sel_SelectedDevice s0 = Some (deviceSelectionDevice d)" by auto
    from issued_grant_scope [OF d(3) g(1)] sd parts d(2) g(2) show ?thesis
      by (auto simp: deviceSelectionDevice_def)
  qed
  have expl: "?thesis" if g: "gr \<in> set (tc_ExplicitGrants tc)" "gr \<notin> set (tc_Grants tc)"
  proof -
    from g(1) have "tc_ExplicitGrants tc \<noteq> []" by auto
    with parts obtain s0 and r2 r3 :: "'a userDeviceRegistry" where e: "u = a" "ex" "sel = Some s0"
      "issueDeviceGrants digest a a t ty g b (devicesForOwner u ds) True (Some (sel_Revision s0)) now r2 = (r3, tc_ExplicitGrants tc)"
      by blast
    from issued_grant_scope [OF e(4) g(1)] sub parts e(1-3) g(2) show ?thesis by auto
  qed
  have "\<not> (gr \<in> set (tc_Grants tc) \<and> gr \<in> set (tc_ExplicitGrants tc))"
  proof
    assume g: "gr \<in> set (tc_Grants tc) \<and> gr \<in> set (tc_ExplicitGrants tc)"
    then have ne: "tc_Grants tc \<noteq> []" "tc_ExplicitGrants tc \<noteq> []" by auto
    from parts ne(1) obtain d r2 and s0 :: DeviceSelection where "issueDeviceGrants digest a u t ty g b [d] False (Some (sel_Revision s0)) now r1 = (r2, tc_Grants tc)"
      by blast
    with g have "gr_TargetScope gr = []" using issued_grant_scope by fastforce
    moreover from parts ne(2) obtain s1 :: DeviceSelection and r4 r3 :: "'a userDeviceRegistry" where
      "issueDeviceGrants digest a a t ty g b (devicesForOwner u ds) True (Some (sel_Revision s1)) now r4 = (r3, tc_ExplicitGrants tc)"
      by blast
    with g have "gr_TargetScope gr = ''explicit_device''" using issued_grant_scope by fastforce
    ultimately show False by simp
  qed
  with gr plain expl show ?thesis by blast
qed

definition sample_device :: UserDevice where
  "sample_device =
     \<lparr>ud_Kind = ''user_device'', ud_Source = ''catscompany'', ud_OwnerUID = 7, ud_OwnerUserID = ''usr7'', ud_BotUID = 0,
      ud_DeviceID = ''pc'', ud_DisplayName = [], ud_OS = ''linux'', ud_BodyID = ''pc'', ud_InstallationID = [],
      ud_RuntimeRole = [], ud_Status = ''online'', ud_Active = False, ud_RouteConnected = True, ud_Routable = True,
      ud_UnavailableReason = [], ud_Capabilities = [''read_file'', ''browser_control''], ud_ModelStatus = None,
      ud_RegisteredAt = 1, ud_LastSeenAt = 1\<rparr>"

definition sample_turn :: "unit userDeviceRegistry \<times> DeviceTurnContext" where
  "sample_turn =
     turnContextForOwnerDevicesWithExplicitTargets (\<lambda>_. ''d'') 7 7 ''t'' ''p2p'' 0 ''body'' [sample_device] [] True 2000000
       (newUserDeviceRegistry 0 (\<lambda>_. []) [Some ''r1''])"

theorem turn_grants_scoped_witness:
  "(map gr_Operations (tc_Grants (snd sample_turn)), map gr_Operations (tc_ExplicitGrants (snd sample_turn))) =
     ([[''read_file'']], [[''read_file'']]) \<and>
   gr_OwnerUserID (hd (tc_Grants (snd sample_turn))) = formatUID 7"
proof -
  have ops: "(map gr_Operations (tc_Grants (snd sample_turn)), map gr_Operations (tc_ExplicitGrants (snd sample_turn))) =
     ([[''read_file'']], [[''read_file'']])"
    by code_simp
  then have "tc_Grants (snd sample_turn) \<noteq> []" by auto
  then have "hd (tc_Grants (snd sample_turn)) \<in> set (tc_Grants (snd sample_turn)) \<union> set (tc_ExplicitGrants (snd sample_turn))"
    by simp
  moreover have "turnContextForOwnerDevicesWithExplicitTargets (\<lambda>_. ''d'') 7 7 ''t'' ''p2p'' 0 ''body'' [sample_device] [] True
      2000000 (newUserDeviceRegistry 0 (\<lambda>_. []) [Some ''r1'']) = (fst sample_turn, snd sample_turn)"
    by (simp add: sample_turn_def)
  ultimately
  have "gr_OwnerUserID (hd (tc_Grants (snd sample_turn))) = formatUID 7" using turn_grants_scoped by blast
  with ops show ?thesis by blast
qed

end
