(* ===== verification/GrantStores.thy ===== *)
theory GrantStores
  imports Authority
begin

text \<open>
  The contract of a store of device grants, as the locale \<open>device_grant_store\<close>: what a lookup finds
  after grants were remembered, looked up or revoked. The shared runtime state, the process-local table
  and the registry over either of them satisfy it; the properties say that a revocation is final and
  that a grant lives until it is revoked or expires.
\<close>

datatype grant_op =
    GRemember "ScopedDeviceGrant list" int
  | GLookup string int
  | GRevoke ScopedDeviceGrant
  | GRevokeSelection uid string
  | GRevokeDevice uid string

text \<open>The operations that leave a grant usable.\<close>

fun spares :: "ScopedDeviceGrant \<Rightarrow> grant_op \<Rightarrow> bool" where
  "spares g (GRemember gs now) \<longleftrightarrow> grant_live g now \<and> (\<forall>g' \<in> set gs. gr_GrantID g' \<noteq> gr_GrantID g)"
| "spares g (GLookup i now) \<longleftrightarrow> grant_live g now"
| "spares g (GRevoke g') \<longleftrightarrow> gr_GrantID g' \<noteq> gr_GrantID g"
| "spares g (GRevokeSelection a k) \<longleftrightarrow> \<not> (gr_ActorUserID g = formatUID a \<and> gr_SessionKey g = k)"
| "spares g (GRevokeDevice u d) \<longleftrightarrow> \<not> (gr_OwnerUserID g = formatUID u \<and> gr_DeviceID g = d)"

locale device_grant_store =
  fixes get :: "'s \<Rightarrow> string \<Rightarrow> ScopedDeviceGrant option"
    and inv :: "'s \<Rightarrow> bool"
    and remember :: "ScopedDeviceGrant list \<Rightarrow> int \<Rightarrow> 's \<Rightarrow> 's"
    and lookup :: "string \<Rightarrow> int \<Rightarrow> 's \<Rightarrow> 's \<times> ScopedDeviceGrant option"
    and revoke :: "ScopedDeviceGrant \<Rightarrow> 's \<Rightarrow> 's"
    and revoke_selection :: "uid \<Rightarrow> string \<Rightarrow> 's \<Rightarrow> 's"
    and revoke_device :: "uid \<Rightarrow> string \<Rightarrow> 's \<Rightarrow> 's"
  assumes inv_ops: "inv s \<Longrightarrow> inv (remember gs now s)" "inv s \<Longrightarrow> inv (fst (lookup i now s))" "inv s \<Longrightarrow> inv (revoke g s)"
      "inv s \<Longrightarrow> inv (revoke_selection a k s)" "inv s \<Longrightarrow> inv (revoke_device u d s)"
    and lookup_result: "inv s \<Longrightarrow> i \<noteq> [] \<Longrightarrow>
      snd (lookup i now s) =
        (case get s i of None \<Rightarrow> None | Some g \<Rightarrow> if gr_Status g = ''active'' \<and> grant_live g now then Some g else None)"
    and lookup_get: "inv s \<Longrightarrow> i \<noteq> [] \<Longrightarrow>
      get (fst (lookup i now s)) j = (case get s j of None \<Rightarrow> None | Some g \<Rightarrow> if grant_live g now then Some g else None)"
    and lookup_blank: "lookup [] now s = (s, None)"
    and remember_get: "inv s \<Longrightarrow> get (remember gs now s) j = Some g \<Longrightarrow> get s j = Some g \<or> g \<in> set gs"
    and remember_one: "inv s \<Longrightarrow> grant_live g now \<Longrightarrow> gr_GrantID g \<noteq> [] \<Longrightarrow>
      get (remember [g] now s) (gr_GrantID g) = Some g"
    and remember_keeps: "inv s \<Longrightarrow> get s j = Some g \<Longrightarrow> grant_live g now \<Longrightarrow> \<forall>g' \<in> set gs. gr_GrantID g' \<noteq> j \<Longrightarrow>
      get (remember gs now s) j = Some g"
    and revoke_get: "inv s \<Longrightarrow> get (revoke g s) j = (if gr_GrantID g \<noteq> [] \<and> j = gr_GrantID g then None else get s j)"
    and revoke_selection_get: "inv s \<Longrightarrow>
      get (revoke_selection a k s) j =
        (case get s j of None \<Rightarrow> None
         | Some g \<Rightarrow> if 0 < a \<and> trimSpace k \<noteq> [] \<and> gr_ActorUserID g = formatUID a \<and> gr_SessionKey g = k then None else Some g)"
    and revoke_device_get: "inv s \<Longrightarrow>
      get (revoke_device u d s) j =
        (case get s j of None \<Rightarrow> None
         | Some g \<Rightarrow> if 0 < u \<and> trimSpace d \<noteq> [] \<and> gr_OwnerUserID g = formatUID u \<and> gr_DeviceID g = d then None else Some g)"
begin

fun step :: "grant_op \<Rightarrow> 's \<Rightarrow> 's" where
  "step (GRemember gs now) s = remember gs now s"
| "step (GLookup i now) s = fst (lookup i now s)"
| "step (GRevoke g) s = revoke g s"
| "step (GRevokeSelection a k) s = revoke_selection a k s"
| "step (GRevokeDevice u d) s = revoke_device u d s"

definition absent :: "(ScopedDeviceGrant \<Rightarrow> bool) \<Rightarrow> 's \<Rightarrow> bool" where
  "absent P s \<longleftrightarrow> inv s \<and> (\<forall>j g. get s j = Some g \<longrightarrow> \<not> P g)"

lemma step_inv: "inv s \<Longrightarrow> inv (step op s)"
  by (cases op) (simp_all add: inv_ops)

lemma step_get: "inv s \<Longrightarrow> get (step op s) j = Some g \<Longrightarrow> get s j = Some g \<or> (\<exists>gs now. op = GRemember gs now \<and> g \<in> set gs)"
proof (cases op)
  case (GLookup i now)
  assume "inv s" and "get (step op s) j = Some g"
  with GLookup show ?thesis
    by (cases "i = []") (auto simp: lookup_blank lookup_get split: option.splits if_splits)
qed (auto simp: revoke_get revoke_selection_get revoke_device_get dest: remember_get split: option.splits if_splits)

lemma absent_run:
  assumes "absent P s" and "\<forall>gs now. GRemember gs now \<in> set ops \<longrightarrow> (\<forall>g \<in> set gs. \<not> P g)"
  shows "absent P (fold step ops s)"
  using assms
proof (induction ops arbitrary: s)
  case (Cons op ops)
  have inv: "inv s" using Cons.prems by (simp add: absent_def)
  have "\<not> P g" if "get (step op s) j = Some g" for j g
    using step_get [OF inv that] Cons.prems by (auto simp: absent_def)
  with step_inv [OF inv] have "absent P (step op s)" by (simp add: absent_def)
  moreover have "\<forall>gs now. GRemember gs now \<in> set ops \<longrightarrow> (\<forall>g \<in> set gs. \<not> P g)" using Cons.prems(2) by auto
  ultimately show ?case using Cons.IH by simp
qed simp

lemma absent_lookup: "absent P s \<Longrightarrow> snd (lookup i now s) = Some g \<Longrightarrow> \<not> P g"
  by (cases "i = []") (auto simp: absent_def lookup_blank lookup_result split: option.splits if_splits)

lemma device_revoked:
  "inv s \<Longrightarrow> 0 < u \<Longrightarrow> trimSpace d \<noteq> [] \<Longrightarrow> absent (\<lambda>g. gr_OwnerUserID g = formatUID u \<and> gr_DeviceID g = d) (revoke_device u d s)"
  by (auto simp: absent_def inv_ops revoke_device_get split: option.splits if_splits)

lemma spared_step: "inv s \<Longrightarrow> get s (gr_GrantID g) = Some g \<Longrightarrow> spares g op \<Longrightarrow> get (step op s) (gr_GrantID g) = Some g"
proof (cases op)
  case (GLookup i now)
  assume "inv s" and "get s (gr_GrantID g) = Some g" and "spares g op"
  with GLookup show ?thesis by (cases "i = []") (simp_all add: lookup_blank lookup_get)
qed (auto simp: revoke_get revoke_selection_get revoke_device_get remember_keeps)

lemma spared_run:
  "inv s \<Longrightarrow> get s (gr_GrantID g) = Some g \<Longrightarrow> \<forall>op \<in> set ops. spares g op \<Longrightarrow>
   inv (fold step ops s) \<and> get (fold step ops s) (gr_GrantID g) = Some g"
  by (induction ops arbitrary: s) (simp_all add: spared_step step_inv)

end

section \<open>The stores\<close>

lemma keep_get:
  "gm_ok m \<Longrightarrow> map_of (gm_keep P m) j = (case map_of m j of None \<Rightarrow> None | Some v \<Rightarrow> if P v then Some v else None)"
  by (rule gm_get_keep)

lemma put_grants_ok: "gm_ok m \<Longrightarrow> gm_ok (put_grants gs now m)"
  unfolding put_grants_def by (induction gs arbitrary: m) simp_all

lemma put_grants_other: "\<forall>g \<in> set gs. gr_GrantID g \<noteq> j \<Longrightarrow> map_of (put_grants gs now m) j = map_of m j"
  unfolding put_grants_def by (induction gs arbitrary: m) (auto simp: gomap_simps)

lemma put_grants_get: "map_of (put_grants gs now m) j = Some g \<Longrightarrow> map_of m j = Some g \<or> g \<in> set gs"
  unfolding put_grants_def
proof (induction gs arbitrary: m)
  case (Cons x gs)
  from Cons.prems have "map_of (fold (\<lambda>g m. if gr_GrantID g = [] \<or> \<not> grant_live g now then m else gm_put (gr_GrantID g) g m) gs
      (if gr_GrantID x = [] \<or> \<not> grant_live x now then m else gm_put (gr_GrantID x) x m)) j = Some g" by simp
  from Cons.IH [OF this] show ?case by (auto simp: gomap_simps split: if_splits)
qed simp

lemma table_remember:
  assumes "gm_ok m"
  shows "map_of (put_grants gs now (cleanupExpiredGrantsLocked now m)) j = Some g \<Longrightarrow> map_of m j = Some g \<or> g \<in> set gs"
    and "grant_live g now \<Longrightarrow> gr_GrantID g \<noteq> [] \<Longrightarrow>
      map_of (put_grants [g] now (cleanupExpiredGrantsLocked now m)) (gr_GrantID g) = Some g"
    and "map_of m j = Some g \<Longrightarrow> grant_live g now \<Longrightarrow> \<forall>g' \<in> set gs. gr_GrantID g' \<noteq> j \<Longrightarrow>
      map_of (put_grants gs now (cleanupExpiredGrantsLocked now m)) j = Some g"
  using assms put_grants_get [of gs now "cleanupExpiredGrantsLocked now m" j g]
  by (auto simp: cleanupExpiredGrantsLocked_def keep_get put_grants_other put_grants_def [of "[_]"] gomap_simps split: option.splits if_splits)

definition reg_table :: "'a userDeviceRegistry \<Rightarrow> grant_table" where
  "reg_table r = (case rg_shared r of Some s \<Rightarrow> sh_grants s | None \<Rightarrow> rg_grants r)"

interpretation shg: device_grant_store "\<lambda>s. map_of (sh_grants s)" "\<lambda>s. gm_ok (sh_grants s)"
  sh_rememberDeviceGrants sh_lookupDeviceGrant sh_revokeDeviceGrant sh_revokeDeviceGrantsForSelection sh_revokeDeviceGrantsForDevice
proof unfold_locales
  show "gm_ok (sh_grants (sh_rememberDeviceGrants gs now s))" if "gm_ok (sh_grants s)" for gs now s
    using that by (simp add: sh_rememberDeviceGrants_def put_grants_ok cleanupExpiredGrantsLocked_def)
  show "map_of (sh_grants (sh_rememberDeviceGrants [g] now s)) (gr_GrantID g) = Some g"
    if "gm_ok (sh_grants s)" "grant_live g now" "gr_GrantID g \<noteq> []" for s g now
    using that table_remember(2) by (simp add: sh_rememberDeviceGrants_def)
  show "map_of (sh_grants s) j = Some g \<or> g \<in> set gs"
    if "gm_ok (sh_grants s)" "map_of (sh_grants (sh_rememberDeviceGrants gs now s)) j = Some g" for s gs now j g
    using that table_remember(1) by (auto simp: sh_rememberDeviceGrants_def split: if_splits)
  show "map_of (sh_grants (sh_rememberDeviceGrants gs now s)) j = Some g"
    if "gm_ok (sh_grants s)" "map_of (sh_grants s) j = Some g" "grant_live g now" "\<forall>g' \<in> set gs. gr_GrantID g' \<noteq> j" for s gs now j g
    using that table_remember(3) by (auto simp: sh_rememberDeviceGrants_def)
qed (auto simp: sh_lookupDeviceGrant_def cleanupExpiredGrantsLocked_def sh_revokeDeviceGrant_def gomap_simps Let_def
    sh_revokeDeviceGrantsForSelection_def sh_revokeDeviceGrantsForDevice_def grants_without_selection_def
    grants_without_device_def keep_get split: option.splits)

text \<open>The process-local table, with its own methods written out.\<close>

interpretation tbl: device_grant_store map_of gm_ok
  "\<lambda>gs now m. if gs = [] then m else put_grants gs now (cleanupExpiredGrantsLocked now m)"
  "\<lambda>i now m. if i = [] then (m, None) else
     (cleanupExpiredGrantsLocked now m,
      case map_of (cleanupExpiredGrantsLocked now m) i of
        None \<Rightarrow> None | Some g \<Rightarrow> if gr_Status g \<noteq> ''active'' \<or> \<not> grant_live g now then None else Some g)"
  "\<lambda>g m. if gr_GrantID g = [] then m else gm_del (gr_GrantID g) m"
  "\<lambda>a k m. if a \<le> 0 \<or> trimSpace k = [] then m else grants_without_selection a k m"
  "\<lambda>u d m. if u \<le> 0 \<or> trimSpace d = [] then m else grants_without_device u d m"
proof unfold_locales
  show "gm_ok (if gs = [] then m else put_grants gs now (cleanupExpiredGrantsLocked now m))" if "gm_ok m" for gs now and m :: grant_table
    using that by (simp add: put_grants_ok cleanupExpiredGrantsLocked_def)
  show "map_of m j = Some g \<or> g \<in> set gs"
    if "gm_ok m" "map_of (if gs = [] then m else put_grants gs now (cleanupExpiredGrantsLocked now m)) j = Some g" for m gs now j g
    using that table_remember(1) by (auto split: if_splits)
  show "map_of (if [g] = [] then m else put_grants [g] now (cleanupExpiredGrantsLocked now m)) (gr_GrantID g) = Some g"
    if "gm_ok m" "grant_live g now" "gr_GrantID g \<noteq> []" for m g now
    using that table_remember(2) by simp
  show "map_of (if gs = [] then m else put_grants gs now (cleanupExpiredGrantsLocked now m)) j = Some g"
    if "gm_ok m" "map_of m j = Some g" "grant_live g now" "\<forall>g' \<in> set gs. gr_GrantID g' \<noteq> j" for m gs now j g
    using that table_remember(3) by auto
qed (auto simp: cleanupExpiredGrantsLocked_def gomap_simps grants_without_selection_def
    grants_without_device_def keep_get split: option.splits)

section \<open>The registry without an authorization store\<close>

fun rg_grant_step :: "grant_op \<Rightarrow> 'a userDeviceRegistry \<Rightarrow> 'a userDeviceRegistry" where
  "rg_grant_step (GRemember gs now) r = rg_rememberGrants gs (unix_milli now) r"
| "rg_grant_step (GLookup i now) r = fst (stored_grant i (unix_milli now) r)"
| "rg_grant_step (GRevoke g) r = rg_revokeDeviceGrant g r"
| "rg_grant_step (GRevokeSelection a k) r = rg_revokeDeviceGrantsForSelection a k r"
| "rg_grant_step (GRevokeDevice u d) r = rg_revokeDeviceGrantsForDevice u d r"

text \<open>Times in milliseconds, as grants carry them, within the range of Go's nanosecond clock.\<close>

fun grant_op_time_ok :: "grant_op \<Rightarrow> bool" where
  "grant_op_time_ok (GRemember _ now) \<longleftrightarrow> 0 \<le> now \<and> now \<le> 9223372036854"
| "grant_op_time_ok (GLookup i now) \<longleftrightarrow> 0 \<le> now \<and> now \<le> 9223372036854 \<and> trimSpace i \<noteq> []"
| "grant_op_time_ok _ \<longleftrightarrow> True"

lemma millis_round: "0 \<le> now \<Longrightarrow> now \<le> 9223372036854 \<Longrightarrow> unixMillis (unix_milli now) = now"
  by (simp add: unix_milli_def unixMillis_nonneg)

fun trim_op :: "grant_op \<Rightarrow> grant_op" where
  "trim_op (GLookup i now) = GLookup (trimSpace i) now"
| "trim_op op = op"

lemma rg_step_table:
  assumes "rg_authorization r = None" and "grant_op_time_ok op"
  shows "reg_table (rg_grant_step op r) = tbl.step (trim_op op) (reg_table r) \<and> rg_authorization (rg_grant_step op r) = None"
  using assms
  by (cases op)
     (auto simp: reg_table_def rg_rememberGrants_def stored_grant_def rg_revokeDeviceGrant_def
        rg_revokeDeviceGrantsForSelection_def rg_revokeDeviceGrantsForDevice_def sh_rememberDeviceGrants_def
        sh_lookupDeviceGrant_def sh_revokeDeviceGrant_def sh_revokeDeviceGrantsForSelection_def
        sh_revokeDeviceGrantsForDevice_def millis_round Let_def split: option.splits)

lemma rg_run_table:
  assumes "rg_authorization r = None" and "\<forall>op \<in> set ops. grant_op_time_ok op"
  shows "reg_table (fold rg_grant_step ops r) = fold tbl.step (map trim_op ops) (reg_table r) \<and>
    rg_authorization (fold rg_grant_step ops r) = None"
  using assms by (induction ops arbitrary: r) (simp_all add: rg_step_table)

lemma stored_from_table:
  assumes "rg_authorization r = None" and "gm_ok (reg_table r)" and "trimSpace i \<noteq> []"
  shows "snd (stored_grant i t r) =
    (case map_of (reg_table r) (trimSpace i) of
       None \<Rightarrow> None | Some g \<Rightarrow> if gr_Status g = ''active'' \<and> grant_live g (unixMillis t) then Some g else None)"
  using assms
  by (cases "rg_shared r"; cases "map_of (reg_table r) (trimSpace i)")
     (auto simp: stored_grant_def reg_table_def sh_lookupDeviceGrant_def cleanupExpiredGrantsLocked_def keep_get Let_def)

lemma remember_in_ops:
  "\<forall>gs now. GRemember gs now \<in> set ops \<longrightarrow> Q gs \<Longrightarrow> \<forall>gs now. GRemember gs now \<in> set (map trim_op ops) \<longrightarrow> Q gs"
proof (intro allI impI)
  fix gs now
  assume all: "\<forall>gs now. GRemember gs now \<in> set ops \<longrightarrow> Q gs" and "GRemember gs now \<in> set (map trim_op ops)"
  then obtain op where "op \<in> set ops" and trim: "trim_op op = GRemember gs now" by auto
  from trim have "op = GRemember gs now" by (cases op) simp_all
  with all \<open>op \<in> set ops\<close> show "Q gs" by blast
qed



text \<open>
  an issued grant lasts: once stored it is found under its id after every sequence of operations
  that neither revokes it nor stores another grant under its id, for as long as it is live; permanent
  grants are live for ever.
\<close>

theorem issued_grant_lasts:
  assumes "rg_authorization r = None" and "gm_ok (reg_table r)" and "gr_Status g = ''active''"
    and "gr_GrantID g \<noteq> []" and "trimSpace (gr_GrantID g) = gr_GrantID g"
    and "0 \<le> now" and "now \<le> 9223372036854" and "grant_live g now" and "grant_live g (unixMillis t)"
    and "\<forall>op \<in> set ops. grant_op_time_ok op \<and> spares g op"
  shows "snd (stored_grant (gr_GrantID g) t (fold rg_grant_step ops (rg_rememberGrants [g] (unix_milli now) r))) = Some g"
proof -
  let ?r1 = "rg_rememberGrants [g] (unix_milli now) r"
  have "rg_grant_step (GRemember [g] now) r = ?r1" by simp
  with rg_step_table [of r "GRemember [g] now"] assms(1,2,6,7)
  have t1: "reg_table ?r1 = tbl.step (GRemember [g] now) (reg_table r)" and a1: "rg_authorization ?r1 = None" by simp_all
  have inv1: "gm_ok (reg_table ?r1)" unfolding t1 by (rule tbl.step_inv [OF assms(2)])
  have get1: "map_of (reg_table ?r1) (gr_GrantID g) = Some g"
    unfolding t1 using tbl.remember_one [OF assms(2,8,4)] by simp
  have "\<forall>op \<in> set (map trim_op ops). spares g op"
  proof
    fix op' assume "op' \<in> set (map trim_op ops)"
    then obtain op where "op \<in> set ops" "op' = trim_op op" by auto
    with assms(10) show "spares g op'" by (cases op) auto
  qed
  from tbl.spared_run [OF inv1 get1 this] rg_run_table [OF a1, of ops] assms(10)
  show ?thesis using assms(3,4,5,9) by (simp add: stored_from_table)
qed

theorem issued_grant_lasts_witness:
  "snd (stored_grant ''g1'' 5000000 (fold rg_grant_step [GRevokeDevice 6 ''pc'', GRevokeSelection 5 ''other'']
     (rg_rememberGrants [sample_grant] (unix_milli 1) (newUserDeviceRegistry 0 (\<lambda>_. []) [] :: unit userDeviceRegistry)))) = Some sample_grant"
proof -
  have id: "trimSpace (gr_GrantID sample_grant) = gr_GrantID sample_grant" and u: "formatUID 6 \<noteq> gr_OwnerUserID sample_grant"
    by code_simp+
  have "snd (stored_grant (gr_GrantID sample_grant) 5000000 (fold rg_grant_step [GRevokeDevice 6 ''pc'', GRevokeSelection 5 ''other'']
     (rg_rememberGrants [sample_grant] (unix_milli 1) (newUserDeviceRegistry 0 (\<lambda>_. []) [] :: unit userDeviceRegistry)))) = Some sample_grant"
    using u by (intro issued_grant_lasts [OF _ _ _ _ id])
      (simp_all add: newUserDeviceRegistry_def reg_table_def sample_grant_def grant_live_def)
  then show ?thesis by (simp add: sample_grant_def)
qed

end
