(* ===== verification/Connector.thy ===== *)
theory Connector
  imports GrantStores
begin

text \<open>
  The device connector (\<open>server/device_connector.go\<close> and its part of \<open>server/runtime_state.go\<close>): the
  capabilities and scopes of its tokens, one-time pairing codes, the audit log, and revocation. Each
  store exists in the shared runtime state and in the process; the hub uses the first when it has it.
  Signing and verifying a JWT are the parameters \<open>sign\<close> and \<open>verify\<close>; the issue and expiry times of a
  token are cut to whole seconds, as the JWT package does.
\<close>

section \<open>Capabilities and scopes\<close>

definition isAllowedDeviceRPCOperation :: "DeviceGrantOperation \<Rightarrow> bool" where
  "isAllowedDeviceRPCOperation operation \<longleftrightarrow>
     operation \<in> {''read_file'', ''resolve_common_directory'', ''glob'', ''grep'', ''write_file'', ''edit_file'', ''execute_shell''}"

definition isSkillHubThinToolOperation :: "DeviceGrantOperation \<Rightarrow> bool" where
  "isSkillHubThinToolOperation operation \<longleftrightarrow>
     operation \<in> {''skillhub.localWorkspace.get'', ''skillhub.localWorkspace.applyDefinition'',
       ''skillhub.localWorkspace.syncToAgent'', ''skillhub.localSkill.share'', ''skillhub.localSkill.finalize'',
       ''skillhub.localSkill.delete'', ''skillhub.localBot.switch'', ''knowledge.document.list'', ''knowledge.document.read''}"

definition isAllowedDeviceConnectorCapability :: "DeviceGrantOperation \<Rightarrow> bool" where
  "isAllowedDeviceConnectorCapability operation \<longleftrightarrow>
     operation = DeviceCapabilitySkillHubWorkspacePagination \<or> isAllowedDeviceRPCOperation operation \<or>
     isSkillHubThinToolOperation operation"

definition normalizeDeviceConnectorCapabilityStrings :: "string list \<Rightarrow> string list" where
  "normalizeDeviceConnectorCapabilityStrings values =
     (let values = (if values = [] then [''read_file'', ''resolve_common_directory'', ''glob'', ''grep''] else values);
          out = filter (\<lambda>op. isAllowedDeviceConnectorCapability op \<or> op = ''send_file'') (normalizeDeviceCapabilities values)
      in if out = [] then [''read_file''] else out)"

definition defaultDeviceConnectorScopes :: "string list" where
  "defaultDeviceConnectorScopes = [''device:ws'', ''device:register'', ''device:rpc_result'', ''device:refresh'']"

definition normalizeDeviceConnectorScopes :: "string list \<Rightarrow> string list" where
  "normalizeDeviceConnectorScopes scopes =
     (if scopes = [] then defaultDeviceConnectorScopes
      else let out = keep_first
             (\<lambda>t. t \<in> {''device:ws'', ''device:register'', ''device:rpc_result'', ''device:refresh'', ''device:upload''})
             [] (map trimSpace scopes)
           in if out = [] then defaultDeviceConnectorScopes else out)"

definition containsDeviceCapability :: "string list \<Rightarrow> string \<Rightarrow> bool" where
  "containsDeviceCapability capabilities expected \<longleftrightarrow> list_ex (\<lambda>c. trimSpace c = expected) capabilities"

definition appendDeviceScope :: "string list \<Rightarrow> string \<Rightarrow> string list" where
  "appendDeviceScope scopes v = (if list_ex (\<lambda>s. trimSpace s = v) scopes then scopes else scopes @ [v])"

definition deviceConnectorHasScope :: "DeviceConnectorClaims \<Rightarrow> string \<Rightarrow> bool" where
  "deviceConnectorHasScope claims scope \<longleftrightarrow> scope \<in> set (cl_Scopes claims)"

definition limitConnectorCapabilities :: "string list \<Rightarrow> string list \<Rightarrow> string list" where
  "limitConnectorCapabilities requested allowed =
     (let allowedSet = set (map trimSpace allowed);
          out = filter (\<lambda>v. v \<in> allowedSet) (normalizeDeviceConnectorCapabilityStrings requested)
      in if out = [] then allowed else out)"

definition containsAllConnectorCapabilities :: "string list \<Rightarrow> DeviceGrantOperation list \<Rightarrow> bool" where
  "containsAllConnectorCapabilities values required \<longleftrightarrow>
     list_all (\<lambda>q. q \<in> set (normalizeDeviceConnectorCapabilityStrings values)) required"

fun upgrade_loop :: "string list \<Rightarrow> string list \<Rightarrow> string list \<Rightarrow> string list" where
  "upgrade_loop allowed [] limited = limited"
| "upgrade_loop allowed (capability # cs) limited =
     (let allowUpgrade =
            (if capability = ''skillhub.localWorkspace.syncToAgent''
             then containsAllConnectorCapabilities allowed
               [''skillhub.localWorkspace.get'', ''skillhub.localSkill.share'', ''skillhub.localSkill.finalize'']
             else capability = DeviceCapabilitySkillHubWorkspacePagination)
      in if \<not> allowUpgrade then upgrade_loop allowed cs limited
         else if capability \<in> set limited then upgrade_loop allowed cs limited
         else upgrade_loop allowed cs (limited @ [capability]))"

definition limitConnectorRegistrationCapabilities :: "string list \<Rightarrow> string list \<Rightarrow> string list" where
  "limitConnectorRegistrationCapabilities requested allowed =
     upgrade_loop allowed (normalizeDeviceConnectorCapabilityStrings requested)
       (limitConnectorCapabilities requested allowed)"

section \<open>Tokens\<close>

record DeviceConnectorTokenInput =
  ti_UID :: uid
  ti_Username :: string
  ti_DeviceID :: string
  ti_InstallationID :: string
  ti_DisplayName :: string
  ti_Capabilities :: "string list"
  ti_Scopes :: "string list"
  ti_TTL :: duration

datatype connector_error = UserIDRequired | ConnectorDeviceID | ConnectorRandom | SigningFailed | TokenRejected
  | TokenTypeInvalid | TokenInvalid

definition deviceConnectorTokenTTL :: duration where
  "deviceConnectorTokenTTL = 30 * 24 * 60 * go_minute"

definition numericDate :: "go_time \<Rightarrow> go_time" where
  "numericDate t = (t div go_second) * go_second"

definition connector_claims :: "DeviceConnectorTokenInput \<Rightarrow> string \<Rightarrow> string \<Rightarrow> go_time \<Rightarrow> DeviceConnectorClaims" where
  "connector_claims inp deviceID jti now =
     \<lparr>cl_TokenType = ''device_connector'', cl_UID = ti_UID inp, cl_Username = normalizeDeviceText (ti_Username inp),
      cl_DeviceID = deviceID,
      cl_InstallationID = normalizeDeviceText (firstNonEmpty [ti_InstallationID inp, deviceID]),
      cl_DisplayName = normalizeDeviceText (ti_DisplayName inp),
      cl_Capabilities = normalizeDeviceConnectorCapabilityStrings (ti_Capabilities inp),
      cl_Scopes = normalizeDeviceConnectorScopes (ti_Scopes inp), cl_ID = ''dev_'' @ jti,
      cl_IssuedAt = Some (numericDate now),
      cl_ExpiresAt = Some (numericDate (now + (if ti_TTL inp \<le> 0 then deviceConnectorTokenTTL else ti_TTL inp)))\<rparr>"

definition GenerateDeviceConnectorToken ::
  "(DeviceConnectorClaims \<Rightarrow> string option) \<Rightarrow> DeviceConnectorTokenInput \<Rightarrow> string option \<Rightarrow> go_time \<Rightarrow> connector_error + string" where
  "GenerateDeviceConnectorToken sign inp random now =
     (if ti_UID inp \<le> 0 then Inl UserIDRequired
      else case normalizeUserDeviceID (ti_DeviceID inp) of
        None \<Rightarrow> Inl ConnectorDeviceID
      | Some deviceID \<Rightarrow>
          (case random of
             None \<Rightarrow> Inl ConnectorRandom
           | Some jti \<Rightarrow>
               (case sign (connector_claims inp deviceID jti now) of
                  None \<Rightarrow> Inl SigningFailed
                | Some token \<Rightarrow> Inr token)))"

definition ParseDeviceConnectorToken ::
  "(string \<Rightarrow> go_time \<Rightarrow> DeviceConnectorClaims option) \<Rightarrow> string \<Rightarrow> go_time \<Rightarrow> connector_error + DeviceConnectorClaims" where
  "ParseDeviceConnectorToken verify token now =
     (case verify token now of
        None \<Rightarrow> Inl TokenRejected
      | Some claims \<Rightarrow>
          if cl_TokenType claims \<noteq> ''device_connector'' then Inl TokenTypeInvalid
          else if cl_UID claims \<le> 0 \<or> trimSpace (cl_DeviceID claims) = [] then Inl TokenInvalid
          else Inr claims)"

section \<open>Pairing codes\<close>

definition newDeviceConnectorPairing ::
  "uid \<Rightarrow> string \<Rightarrow> string \<Rightarrow> string list \<Rightarrow> go_time \<Rightarrow> duration \<Rightarrow> string option \<Rightarrow> string option \<Rightarrow> deviceConnectorPairing option" where
  "newDeviceConnectorPairing ownerUID username deviceName capabilities now ttl idRandom codeRandom =
     (if ownerUID \<le> 0 then None
      else let ttl = (if ttl \<le> 0 then 5 * go_minute else ttl)
      in case (idRandom, codeRandom) of
        (Some idSuffix, Some codeSuffix) \<Rightarrow>
          Some \<lparr>cp_PairingID = ''pair_'' @ idSuffix, cp_PairingCode = toUpper codeSuffix, cp_OwnerUID = ownerUID,
                cp_Username = normalizeDeviceText username, cp_DeviceName = normalizeDeviceText deviceName,
                cp_Capabilities = normalizeDeviceConnectorCapabilityStrings capabilities,
                cp_CreatedAt = now, cp_ExpiresAt = now + ttl, cp_ConsumedAt = zero_time\<rparr>
      | _ \<Rightarrow> None)"

text \<open>The shared state keeps pairings by id and the id of a code.\<close>

definition sh_drop_expired ::
  "go_time \<Rightarrow> string \<times> deviceConnectorPairing \<Rightarrow> sharedMemoryRuntimeState \<Rightarrow> sharedMemoryRuntimeState" where
  "sh_drop_expired now ip s =
     (if now < cp_ExpiresAt (snd ip) then s
      else s\<lparr>sh_connectorPairingsByID := gm_del (fst ip) (sh_connectorPairingsByID s),
             sh_connectorPairingCodeIDs := gm_del (cp_PairingCode (snd ip)) (sh_connectorPairingCodeIDs s)\<rparr>)"

definition cleanupConnectorPairingsLocked :: "go_time \<Rightarrow> sharedMemoryRuntimeState \<Rightarrow> sharedMemoryRuntimeState" where
  "cleanupConnectorPairingsLocked now s = fold (sh_drop_expired now) (sh_connectorPairingsByID s) s"

definition saveDeviceConnectorPairing :: "deviceConnectorPairing \<Rightarrow> go_time \<Rightarrow> sharedMemoryRuntimeState \<Rightarrow> sharedMemoryRuntimeState \<times> bool" where
  "saveDeviceConnectorPairing p now s =
     (if cp_PairingID p = [] \<or> cp_PairingCode p = [] then (s, False)
      else let s = cleanupConnectorPairingsLocked now s
           in (s\<lparr>sh_connectorPairingsByID := gm_put (cp_PairingID p) p (sh_connectorPairingsByID s),
                 sh_connectorPairingCodeIDs := gm_put (cp_PairingCode p) (cp_PairingID p) (sh_connectorPairingCodeIDs s)\<rparr>, True))"

definition getDeviceConnectorPairing ::
  "string \<Rightarrow> go_time \<Rightarrow> sharedMemoryRuntimeState \<Rightarrow> sharedMemoryRuntimeState \<times> deviceConnectorPairing option" where
  "getDeviceConnectorPairing pairingID now s =
     (if pairingID = [] then (s, None)
      else let s = cleanupConnectorPairingsLocked now s
           in case map_of (sh_connectorPairingsByID s) pairingID of
                None \<Rightarrow> (s, None)
              | Some p \<Rightarrow> if \<not> now < cp_ExpiresAt p then (s, None) else (s, Some p))"

definition consumeDeviceConnectorPairing ::
  "string \<Rightarrow> go_time \<Rightarrow> sharedMemoryRuntimeState \<Rightarrow> sharedMemoryRuntimeState \<times> deviceConnectorPairing option" where
  "consumeDeviceConnectorPairing code now s =
     (if code = [] then (s, None)
      else let normalized = toUpper (trimSpace code);
               s = cleanupConnectorPairingsLocked now s;
               pairingID = (case map_of (sh_connectorPairingCodeIDs s) normalized of None \<Rightarrow> [] | Some i \<Rightarrow> i)
           in case map_of (sh_connectorPairingsByID s) pairingID of
                None \<Rightarrow> (s, None)
              | Some p \<Rightarrow>
                  if \<not> now < cp_ExpiresAt p \<or> \<not> is_zero_time (cp_ConsumedAt p) then (s, None)
                  else let p = p\<lparr>cp_ConsumedAt := now\<rparr>
                       in (s\<lparr>sh_connectorPairingsByID := gm_put (cp_PairingID p) p (sh_connectorPairingsByID s),
                             sh_connectorPairingCodeIDs := gm_del normalized (sh_connectorPairingCodeIDs s)\<rparr>, Some p))"

text \<open>
  The process keeps pointers to the pairings, under their ids and under their codes: a cell of
  \<open>ps_heap\<close> is a pairing, the two maps hold its address.
\<close>

record deviceConnectorPairingStore =
  ps_heap :: "deviceConnectorPairing list"
  ps_byID :: "(string, nat) gomap"
  ps_byCode :: "(string, nat) gomap"
  ps_ttl :: duration

definition newDeviceConnectorPairingStore :: "duration \<Rightarrow> deviceConnectorPairingStore" where
  "newDeviceConnectorPairingStore ttl =
     \<lparr>ps_heap = [], ps_byID = [], ps_byCode = [], ps_ttl = (if ttl \<le> 0 then 5 * go_minute else ttl)\<rparr>"

definition ps_drop_expired :: "go_time \<Rightarrow> string \<times> nat \<Rightarrow> deviceConnectorPairingStore \<Rightarrow> deviceConnectorPairingStore" where
  "ps_drop_expired now ia s =
     (let p = ps_heap s ! snd ia
      in if now < cp_ExpiresAt p then s
         else s\<lparr>ps_byID := gm_del (fst ia) (ps_byID s), ps_byCode := gm_del (cp_PairingCode p) (ps_byCode s)\<rparr>)"

definition ps_cleanupLocked :: "go_time \<Rightarrow> deviceConnectorPairingStore \<Rightarrow> deviceConnectorPairingStore" where
  "ps_cleanupLocked now s = fold (ps_drop_expired now) (ps_byID s) s"

definition ps_insert :: "deviceConnectorPairing \<Rightarrow> go_time \<Rightarrow> deviceConnectorPairingStore \<Rightarrow> deviceConnectorPairingStore" where
  "ps_insert p now s =
     (let s = ps_cleanupLocked now s; a = length (ps_heap s)
      in s\<lparr>ps_heap := ps_heap s @ [p], ps_byID := gm_put (cp_PairingID p) a (ps_byID s),
           ps_byCode := gm_put (cp_PairingCode p) a (ps_byCode s)\<rparr>)"

definition ps_create ::
  "uid \<Rightarrow> string \<Rightarrow> string \<Rightarrow> string list \<Rightarrow> go_time \<Rightarrow> string option \<Rightarrow> string option \<Rightarrow> deviceConnectorPairingStore \<Rightarrow>
   deviceConnectorPairingStore \<times> deviceConnectorPairing option" where
  "ps_create ownerUID username deviceName capabilities now idRandom codeRandom s =
     (if ownerUID \<le> 0 then (s, None)
      else case newDeviceConnectorPairing ownerUID username deviceName capabilities now (ps_ttl s) idRandom codeRandom of
        None \<Rightarrow> (s, None)
      | Some p \<Rightarrow> (ps_insert p now s, Some p))"

definition ps_get :: "string \<Rightarrow> go_time \<Rightarrow> deviceConnectorPairingStore \<Rightarrow> deviceConnectorPairingStore \<times> deviceConnectorPairing option" where
  "ps_get pairingID now s =
     (if trimSpace pairingID = [] then (s, None)
      else let s = ps_cleanupLocked now s
           in case map_of (ps_byID s) (trimSpace pairingID) of
                None \<Rightarrow> (s, None)
              | Some a \<Rightarrow> if \<not> now < cp_ExpiresAt (ps_heap s ! a) then (s, None) else (s, Some (ps_heap s ! a)))"

definition ps_consume :: "string \<Rightarrow> go_time \<Rightarrow> deviceConnectorPairingStore \<Rightarrow> deviceConnectorPairingStore \<times> deviceConnectorPairing option" where
  "ps_consume code now s =
     (if trimSpace code = [] then (s, None)
      else let normalized = toUpper (trimSpace code);
               s = ps_cleanupLocked now s
           in case map_of (ps_byCode s) normalized of
                None \<Rightarrow> (s, None)
              | Some a \<Rightarrow>
                  (let p = ps_heap s ! a
                   in if \<not> now < cp_ExpiresAt p \<or> \<not> is_zero_time (cp_ConsumedAt p) then (s, None)
                      else (s\<lparr>ps_heap := (ps_heap s)[a := p\<lparr>cp_ConsumedAt := now\<rparr>],
                              ps_byCode := gm_del normalized (ps_byCode s)\<rparr>, Some (p\<lparr>cp_ConsumedAt := now\<rparr>))))"

definition pairingStatus :: "deviceConnectorPairing \<Rightarrow> go_time \<Rightarrow> string" where
  "pairingStatus p now =
     (if \<not> is_zero_time (cp_ConsumedAt p) then ''consumed''
      else if now > cp_ExpiresAt p then ''expired'' else ''pending'')"

text \<open>The handler: the shared state when there is one, the process otherwise.\<close>

type_synonym pairing_env = "sharedMemoryRuntimeState option \<times> deviceConnectorPairingStore"

fun createPairing ::
  "uid \<Rightarrow> string \<Rightarrow> string \<Rightarrow> string list \<Rightarrow> go_time \<Rightarrow> string option \<Rightarrow> string option \<Rightarrow> pairing_env \<Rightarrow>
   pairing_env \<times> deviceConnectorPairing option" where
  "createPairing ownerUID username deviceName capabilities now idRandom codeRandom (Some s, l) =
     (case newDeviceConnectorPairing ownerUID username deviceName capabilities now (5 * go_minute) idRandom codeRandom of
        None \<Rightarrow> ((Some s, l), None)
      | Some p \<Rightarrow> (case saveDeviceConnectorPairing p now s of (s', ok) \<Rightarrow> ((Some s', l), if ok then Some p else None)))"
| "createPairing ownerUID username deviceName capabilities now idRandom codeRandom (None, l) =
     (case ps_create ownerUID username deviceName capabilities now idRandom codeRandom l of (l', r) \<Rightarrow> ((None, l'), r))"

fun getPairing :: "string \<Rightarrow> go_time \<Rightarrow> pairing_env \<Rightarrow> pairing_env \<times> deviceConnectorPairing option" where
  "getPairing pairingID now (Some s, l) = (case getDeviceConnectorPairing pairingID now s of (s', r) \<Rightarrow> ((Some s', l), r))"
| "getPairing pairingID now (None, l) = (case ps_get pairingID now l of (l', r) \<Rightarrow> ((None, l'), r))"

fun consumePairing :: "string \<Rightarrow> go_time \<Rightarrow> pairing_env \<Rightarrow> pairing_env \<times> deviceConnectorPairing option" where
  "consumePairing code now (Some s, l) = (case consumeDeviceConnectorPairing code now s of (s', r) \<Rightarrow> ((Some s', l), r))"
| "consumePairing code now (None, l) = (case ps_consume code now l of (l', r) \<Rightarrow> ((None, l'), r))"

section \<open>A pairing code is used once\<close>

definition code_key :: "string \<Rightarrow> string" where
  "code_key code = toUpper (trimSpace code)"

datatype pairing_op = PSave deviceConnectorPairing go_time | PGet string go_time | PConsume string go_time

locale pairing_store =
  fixes has_code :: "'s \<Rightarrow> string \<Rightarrow> bool"
    and inv :: "'s \<Rightarrow> bool"
    and save :: "deviceConnectorPairing \<Rightarrow> go_time \<Rightarrow> 's \<Rightarrow> 's"
    and get :: "string \<Rightarrow> go_time \<Rightarrow> 's \<Rightarrow> 's \<times> deviceConnectorPairing option"
    and consume :: "string \<Rightarrow> go_time \<Rightarrow> 's \<Rightarrow> 's \<times> deviceConnectorPairing option"
  assumes inv_ops: "inv s \<Longrightarrow> inv (save p now s)" "inv s \<Longrightarrow> inv (fst (get i now s))" "inv s \<Longrightarrow> inv (fst (consume c now s))"
    and consumed: "inv s \<Longrightarrow> consume c now s = (s', Some p) \<Longrightarrow>
      has_code s (code_key c) \<and> \<not> has_code s' (code_key c) \<and> now < cp_ExpiresAt p \<and> cp_ConsumedAt p = now"
    and codes_only_saved: "has_code (save p now s) k \<Longrightarrow> has_code s k \<or> k = cp_PairingCode p"
      "has_code (fst (get i now s)) k \<Longrightarrow> has_code s k" "has_code (fst (consume c now s)) k \<Longrightarrow> has_code s k"
begin

fun step :: "pairing_op \<Rightarrow> 's \<Rightarrow> 's" where
  "step (PSave p now) s = save p now s"
| "step (PGet i now) s = fst (get i now s)"
| "step (PConsume c now) s = fst (consume c now s)"

lemma step_inv: "inv s \<Longrightarrow> inv (step op s)"
  by (cases op) (simp_all add: inv_ops)

lemma run_inv: "inv s \<Longrightarrow> inv (fold step ops s)"
  by (induction ops arbitrary: s) (simp_all add: step_inv)

lemma code_stays_gone:
  "\<not> has_code s k \<Longrightarrow> \<forall>p now. PSave p now \<in> set ops \<longrightarrow> cp_PairingCode p \<noteq> k \<Longrightarrow> \<not> has_code (fold step ops s) k"
proof (induction ops arbitrary: s)
  case (Cons op ops)
  have "\<not> has_code (step op s) k"
    using Cons.prems by (cases op) (auto dest: codes_only_saved)
  moreover have "\<forall>p now. PSave p now \<in> set ops \<longrightarrow> cp_PairingCode p \<noteq> k" using Cons.prems(2) by auto
  ultimately show ?case using Cons.IH by simp
qed simp

lemma single_use:
  assumes "inv s" and "consume c now s = (s1, Some p)"
    and "\<forall>q t. PSave q t \<in> set ops \<longrightarrow> cp_PairingCode q \<noteq> code_key c" and "code_key c' = code_key c"
  shows "snd (consume c' now' (fold step ops s1)) = None"
proof (rule ccontr)
  assume "snd (consume c' now' (fold step ops s1)) \<noteq> None"
  then obtain s2 q where con: "consume c' now' (fold step ops s1) = (s2, Some q)"
    by (metis not_None_eq prod.collapse)
  have "inv s1" using inv_ops(3) [OF assms(1), of c now] assms(2) by simp
  from consumed [OF run_inv [OF this] con] have "has_code (fold step ops s1) (code_key c)" by (simp add: assms(4))
  moreover from consumed [OF assms(1,2)] have "\<not> has_code s1 (code_key c)" by blast
  ultimately show False using code_stays_gone assms(3) by blast
qed

end

section \<open>The pairing stores\<close>

definition sh_has_code :: "sharedMemoryRuntimeState \<Rightarrow> string \<Rightarrow> bool" where
  "sh_has_code s k \<longleftrightarrow> map_of (sh_connectorPairingCodeIDs s) k \<noteq> None"

definition sh_pairings_ok :: "sharedMemoryRuntimeState \<Rightarrow> bool" where
  "sh_pairings_ok s \<longleftrightarrow> (\<forall>i p. map_of (sh_connectorPairingsByID s) i = Some p \<longrightarrow> cp_PairingID p = i \<and> i \<noteq> [])"

lemma sh_drop:
  "map_of (sh_connectorPairingsByID (sh_drop_expired now x s)) i = Some p \<Longrightarrow> map_of (sh_connectorPairingsByID s) i = Some p"
  "sh_has_code (sh_drop_expired now x s) k \<Longrightarrow> sh_has_code s k"
  by (auto simp: sh_drop_expired_def sh_has_code_def gomap_simps split: if_splits)

lemma sh_cleanup:
  "map_of (sh_connectorPairingsByID (cleanupConnectorPairingsLocked now s)) i = Some p \<Longrightarrow>
   map_of (sh_connectorPairingsByID s) i = Some p"
  "sh_has_code (cleanupConnectorPairingsLocked now s) k \<Longrightarrow> sh_has_code s k"
proof -
  have "map_of (sh_connectorPairingsByID (fold (sh_drop_expired now) xs s)) i = Some p \<Longrightarrow>
      map_of (sh_connectorPairingsByID s) i = Some p" for xs s
    by (induction xs arbitrary: s) (auto dest: sh_drop(1))
  then show "map_of (sh_connectorPairingsByID (cleanupConnectorPairingsLocked now s)) i = Some p \<Longrightarrow>
      map_of (sh_connectorPairingsByID s) i = Some p" by (simp add: cleanupConnectorPairingsLocked_def)
  have "sh_has_code (fold (sh_drop_expired now) xs s) k \<Longrightarrow> sh_has_code s k" for xs s
    by (induction xs arbitrary: s) (auto dest: sh_drop(2))
  then show "sh_has_code (cleanupConnectorPairingsLocked now s) k \<Longrightarrow> sh_has_code s k"
    by (simp add: cleanupConnectorPairingsLocked_def)
qed

lemma sh_cleanup_ok: "sh_pairings_ok s \<Longrightarrow> sh_pairings_ok (cleanupConnectorPairingsLocked now s)"
  unfolding sh_pairings_ok_def by (blast dest: sh_cleanup(1))

interpretation shp: pairing_store sh_has_code sh_pairings_ok "\<lambda>p now s. fst (saveDeviceConnectorPairing p now s)"
  getDeviceConnectorPairing consumeDeviceConnectorPairing
proof unfold_locales
  show "sh_pairings_ok (fst (saveDeviceConnectorPairing p now s))" if "sh_pairings_ok s" for p now s
    using that sh_cleanup_ok [OF that, of now]
    by (auto simp: saveDeviceConnectorPairing_def sh_pairings_ok_def gomap_simps Let_def)
  show "sh_pairings_ok (fst (getDeviceConnectorPairing i now s))" if "sh_pairings_ok s" for i now s
    using that sh_cleanup_ok [OF that, of now] by (simp add: getDeviceConnectorPairing_def Let_def split: option.split)
  show "sh_pairings_ok (fst (consumeDeviceConnectorPairing c now s))" if "sh_pairings_ok s" for c now s
    using that sh_cleanup_ok [OF that, of now]
    by (auto simp: consumeDeviceConnectorPairing_def Let_def sh_pairings_ok_def gomap_simps split: option.split)
  show "sh_has_code s (code_key c) \<and> \<not> sh_has_code s' (code_key c) \<and> now < cp_ExpiresAt p \<and> cp_ConsumedAt p = now"
    if "sh_pairings_ok s" "consumeDeviceConnectorPairing c now s = (s', Some p)" for s c now s' p
  proof -
    let ?s = "cleanupConnectorPairingsLocked now s"
    from that(2) obtain i q where iq: "i = (case map_of (sh_connectorPairingCodeIDs ?s) (code_key c) of None \<Rightarrow> [] | Some i \<Rightarrow> i)"
      "map_of (sh_connectorPairingsByID ?s) i = Some q"
      by (auto simp: consumeDeviceConnectorPairing_def Let_def code_key_def split: if_splits option.splits)
    with sh_cleanup_ok [OF that(1), of now] have "i \<noteq> []" by (auto simp: sh_pairings_ok_def)
    with iq(1) have "sh_has_code ?s (code_key c)" by (auto simp: sh_has_code_def split: option.splits)
    with sh_cleanup(2) have "sh_has_code s (code_key c)" by blast
    with that(2) show ?thesis
      by (auto simp: consumeDeviceConnectorPairing_def Let_def code_key_def sh_has_code_def gomap_simps split: if_splits option.splits)
  qed
  show "sh_has_code (fst (saveDeviceConnectorPairing p now s)) k \<Longrightarrow> sh_has_code s k \<or> k = cp_PairingCode p" for p now s k
    using sh_cleanup(2) [of now s k]
    by (auto simp: saveDeviceConnectorPairing_def Let_def sh_has_code_def gomap_simps split: if_splits)
  show "sh_has_code (fst (getDeviceConnectorPairing i now s)) k \<Longrightarrow> sh_has_code s k" for i now s k
    using sh_cleanup(2) [of now s k] by (auto simp: getDeviceConnectorPairing_def Let_def split: if_splits option.splits)
  show "sh_has_code (fst (consumeDeviceConnectorPairing c now s)) k \<Longrightarrow> sh_has_code s k" for c now s k
    using sh_cleanup(2) [of now s k]
    by (auto simp: consumeDeviceConnectorPairing_def Let_def sh_has_code_def gomap_simps split: if_splits option.splits)
qed

definition ps_has_code :: "deviceConnectorPairingStore \<Rightarrow> string \<Rightarrow> bool" where
  "ps_has_code s k \<longleftrightarrow> map_of (ps_byCode s) k \<noteq> None"

lemma ps_drop: "ps_has_code (ps_drop_expired now x s) k \<Longrightarrow> ps_has_code s k"
  by (auto simp: ps_drop_expired_def ps_has_code_def gomap_simps Let_def split: if_splits)

lemma ps_cleanup: "ps_has_code (ps_cleanupLocked now s) k \<Longrightarrow> ps_has_code s k"
proof -
  have "ps_has_code (fold (ps_drop_expired now) xs s) k \<Longrightarrow> ps_has_code s k" for xs s
    by (induction xs arbitrary: s) (auto dest: ps_drop)
  then show "ps_has_code (ps_cleanupLocked now s) k \<Longrightarrow> ps_has_code s k" by (simp add: ps_cleanupLocked_def)
qed

interpretation psp: pairing_store ps_has_code "\<lambda>_. True" ps_insert ps_get ps_consume
proof unfold_locales
  show "ps_has_code s (code_key c) \<and> \<not> ps_has_code s' (code_key c) \<and> now < cp_ExpiresAt p \<and> cp_ConsumedAt p = now"
    if "ps_consume c now s = (s', Some p)" for s c now s' p
  proof -
    have "ps_has_code (ps_cleanupLocked now s) (code_key c)"
      using that by (auto simp: ps_consume_def Let_def code_key_def ps_has_code_def split: if_splits option.splits)
    with ps_cleanup have "ps_has_code s (code_key c)" by blast
    with that show ?thesis
      by (auto simp: ps_consume_def Let_def code_key_def ps_has_code_def gomap_simps split: if_splits option.splits)
  qed
  show "ps_has_code (ps_insert p now s) k \<Longrightarrow> ps_has_code s k \<or> k = cp_PairingCode p" for p now s k
    using ps_cleanup [of now s k] by (auto simp: ps_insert_def Let_def ps_has_code_def gomap_simps split: if_splits)
  show "ps_has_code (fst (ps_get i now s)) k \<Longrightarrow> ps_has_code s k" for i now s k
    using ps_cleanup [of now s k] by (auto simp: ps_get_def Let_def split: if_splits option.splits)
  show "ps_has_code (fst (ps_consume c now s)) k \<Longrightarrow> ps_has_code s k" for c now s k
    using ps_cleanup [of now s k]
    by (auto simp: ps_consume_def Let_def ps_has_code_def gomap_simps split: if_splits option.splits)
qed simp_all

fun env_save :: "deviceConnectorPairing \<Rightarrow> go_time \<Rightarrow> pairing_env \<Rightarrow> pairing_env" where
  "env_save p now (Some s, l) = (Some (fst (saveDeviceConnectorPairing p now s)), l)"
| "env_save p now (None, l) = (None, ps_insert p now l)"

fun env_has_code :: "pairing_env \<Rightarrow> string \<Rightarrow> bool" where
  "env_has_code (Some s, l) k = sh_has_code s k"
| "env_has_code (None, l) k = ps_has_code l k"

definition env_pairings_ok :: "pairing_env \<Rightarrow> bool" where
  "env_pairings_ok env \<longleftrightarrow> (case fst env of Some s \<Rightarrow> sh_pairings_ok s | None \<Rightarrow> True)"

lemma createPairing_save:
  "createPairing u n dn caps now x y env = (env', Some p) \<Longrightarrow> env' = env_save p now env"
  by (cases env; cases "fst env") (auto simp: ps_create_def split: option.splits prod.splits if_splits)

interpretation enp: pairing_store env_has_code env_pairings_ok env_save getPairing consumePairing
proof unfold_locales
  show "env_pairings_ok (env_save p now env)" if "env_pairings_ok env" for p now env
    using that shp.inv_ops(1) by (cases env; cases "fst env") (auto simp: env_pairings_ok_def)
  show "env_pairings_ok (fst (getPairing i now env))" if "env_pairings_ok env" for i now env
    using that shp.inv_ops(2) by (cases env; cases "fst env") (auto simp: env_pairings_ok_def case_prod_beta)
  show "env_pairings_ok (fst (consumePairing c now env))" if "env_pairings_ok env" for c now env
    using that shp.inv_ops(3) by (cases env; cases "fst env") (auto simp: env_pairings_ok_def case_prod_beta)
  show "env_has_code env (code_key c) \<and> \<not> env_has_code env' (code_key c) \<and> now < cp_ExpiresAt p \<and> cp_ConsumedAt p = now"
    if "env_pairings_ok env" "consumePairing c now env = (env', Some p)" for env c now env' p
    using that shp.consumed psp.consumed
    by (cases env; cases "fst env") (fastforce simp: env_pairings_ok_def split: prod.splits)+
  show "env_has_code (env_save p now env) k \<Longrightarrow> env_has_code env k \<or> k = cp_PairingCode p" for p now env k
    using shp.codes_only_saved(1) psp.codes_only_saved(1) by (cases env; cases "fst env") auto
  show "env_has_code (fst (getPairing i now env)) k \<Longrightarrow> env_has_code env k" for i now env k
    using shp.codes_only_saved(2) psp.codes_only_saved(2) by (cases env; cases "fst env") (auto simp: case_prod_beta)
  show "env_has_code (fst (consumePairing c now env)) k \<Longrightarrow> env_has_code env k" for c now env k
    using shp.codes_only_saved(3) psp.codes_only_saved(3) by (cases env; cases "fst env") (auto simp: case_prod_beta)
qed

fun pairing_step :: "pairing_op \<Rightarrow> pairing_env \<Rightarrow> pairing_env" where
  "pairing_step (PSave p now) env = env_save p now env"
| "pairing_step (PGet i now) env = fst (getPairing i now env)"
| "pairing_step (PConsume c now) env = fst (consumePairing c now env)"

lemma pairing_step_eq: "pairing_step = enp.step"
proof (intro ext)
  show "pairing_step op env = enp.step op env" for op env by (cases op) simp_all
qed

text \<open>
  C14: a pairing code enrols one device: a code that was redeemed, before its expiry, is refused from
  then on in every spelling (upper or lower case, with blanks around it), whatever other pairings are
  created, read or redeemed, until a new pairing happens to draw the same code. This holds for the
  shared state and for the process.
\<close>

theorem pairing_code_single_use:
  assumes "env_pairings_ok env" and "consumePairing c now env = (env1, Some p)"
    and "\<forall>q t. PSave q t \<in> set ops \<longrightarrow> cp_PairingCode q \<noteq> code_key c" and "code_key c' = code_key c"
  shows "now < cp_ExpiresAt p \<and> snd (consumePairing c' now' (fold pairing_step ops env1)) = None"
  using enp.single_use [OF assms] enp.consumed [OF assms(1,2)] by (simp add: pairing_step_eq)

definition sample_pairing :: deviceConnectorPairing where
  "sample_pairing = \<lparr>cp_PairingID = ''pair_1'', cp_PairingCode = ''AB'', cp_OwnerUID = 5, cp_Username = [], cp_DeviceName = [],
     cp_Capabilities = [''read_file''], cp_CreatedAt = 0, cp_ExpiresAt = 100, cp_ConsumedAt = zero_time\<rparr>"

theorem pairing_code_single_use_witness:
  "let env0 = env_save sample_pairing 0 (Some newSharedMemoryRuntimeState, newDeviceConnectorPairingStore 0);
       env1 = fst (consumePairing '' ab '' 7 env0)
   in snd (consumePairing '' ab '' 7 env0) \<noteq> None \<and> snd (consumePairing ''Ab'' 8 (fold pairing_step [PGet ''pair_1'' 8] env1)) = None"
proof -
  let ?env0 = "env_save sample_pairing 0 (Some newSharedMemoryRuntimeState, newDeviceConnectorPairingStore 0)"
  let ?con = "consumePairing '' ab '' 7 ?env0"
  have "snd ?con = Some (sample_pairing\<lparr>cp_ConsumedAt := 7\<rparr>)" by code_simp
  then have con: "?con = (fst ?con, Some (sample_pairing\<lparr>cp_ConsumedAt := 7\<rparr>))" by (metis prod.collapse)
  have key: "code_key ''Ab'' = code_key '' ab ''" by code_simp
  have "env_pairings_ok (Some newSharedMemoryRuntimeState, newDeviceConnectorPairingStore 0)"
    by (simp add: env_pairings_ok_def sh_pairings_ok_def newSharedMemoryRuntimeState_def)
  then have "env_pairings_ok ?env0" by (rule enp.inv_ops(1))
  from pairing_code_single_use [OF this con _ key, of "[PGet ''pair_1'' 8]" 8] \<open>snd ?con = _\<close>
  show ?thesis by (simp only: Let_def option.distinct) simp
qed

end
