(* ===== verification/Revocation.thy ===== *)
theory Revocation
  imports Connector
begin

text \<open>
  The audit log and the revocations of the device connector, in the shared state, in the process and
  behind the hub (\<open>server/device_connector.go\<close>, \<open>server/runtime_state.go\<close>), and the request
  handlers of the connector built from all of its parts. An authorization store, when the hub has one,
  is a Go interface: its method table and its state \<open>'b\<close>.
\<close>

section \<open>Audit log\<close>

definition maxDeviceAuditEvents :: nat where
  "maxDeviceAuditEvents = 500"

definition audit_append :: "DeviceAuditEvent \<Rightarrow> DeviceAuditEvent list \<Rightarrow> DeviceAuditEvent list" where
  "audit_append e es =
     (let es = es @ [e]
      in if length es > maxDeviceAuditEvents then drop (length es - maxDeviceAuditEvents) es else es)"

definition audit_list :: "uid \<Rightarrow> int \<Rightarrow> DeviceAuditEvent list \<Rightarrow> DeviceAuditEvent list" where
  "audit_list ownerUID limit es =
     (if ownerUID \<le> 0 then []
      else let limit = (if limit \<le> 0 \<or> limit > 100 then 100 else limit)
           in take (nat limit) (filter (\<lambda>e. ev_OwnerUserID e = formatUID ownerUID) (rev es)))"

definition appendDeviceAudit :: "uid \<Rightarrow> DeviceAuditEvent \<Rightarrow> go_time \<Rightarrow> sharedMemoryRuntimeState \<Rightarrow> sharedMemoryRuntimeState" where
  "appendDeviceAudit ownerUID event now s =
     (if ownerUID \<le> 0 then s
      else let event = event\<lparr>ev_OwnerUserID := formatUID ownerUID\<rparr>;
               event = (if ev_CreatedAt event = 0 then event\<lparr>ev_CreatedAt := unixMillis now\<rparr> else event)
           in s\<lparr>sh_deviceAuditEvents := audit_append event (sh_deviceAuditEvents s)\<rparr>)"

definition listDeviceAudit :: "uid \<Rightarrow> int \<Rightarrow> sharedMemoryRuntimeState \<Rightarrow> DeviceAuditEvent list" where
  "listDeviceAudit ownerUID limit s = audit_list ownerUID limit (sh_deviceAuditEvents s)"

text \<open>The log of the process gives an event an id when it has none and the random source works.\<close>

definition al_add :: "uid \<Rightarrow> DeviceAuditEvent \<Rightarrow> string option \<Rightarrow> go_time \<Rightarrow> DeviceAuditEvent list \<Rightarrow> DeviceAuditEvent list" where
  "al_add ownerUID event random now es =
     (if ownerUID \<le> 0 then es
      else let event = (if ev_ID event = []
                 then (case random of Some rnd \<Rightarrow> event\<lparr>ev_ID := ''audit_'' @ rnd\<rparr> | None \<Rightarrow> event) else event);
               event = (if ev_CreatedAt event = 0 then event\<lparr>ev_CreatedAt := unixMillis now\<rparr> else event)
           in audit_append (event\<lparr>ev_OwnerUserID := formatUID ownerUID\<rparr>) es)"

section \<open>Revocations\<close>

definition cleanupConnectorTokenRevokesLocked :: "go_time \<Rightarrow> (string, go_time) gomap \<Rightarrow> (string, go_time) gomap" where
  "cleanupConnectorTokenRevokesLocked now m = gm_keep (\<lambda>e. \<not> (\<not> is_zero_time e \<and> now > e)) m"

definition sh_revokeDeviceConnectorDevice :: "uid \<Rightarrow> string \<Rightarrow> go_time \<Rightarrow> sharedMemoryRuntimeState \<Rightarrow> sharedMemoryRuntimeState" where
  "sh_revokeDeviceConnectorDevice ownerUID deviceID revokedAt s =
     (if ownerUID \<le> 0 \<or> deviceID = [] then s
      else s\<lparr>sh_revokedConnectorDevices := nm_put ownerUID deviceID revokedAt (sh_revokedConnectorDevices s),
             sh_grants := grants_without_device ownerUID deviceID (sh_grants s)\<rparr>)"

definition sh_revokeDeviceConnectorToken :: "string \<Rightarrow> go_time \<Rightarrow> go_time \<Rightarrow> sharedMemoryRuntimeState \<Rightarrow> sharedMemoryRuntimeState" where
  "sh_revokeDeviceConnectorToken tokenID expiresAt now s =
     (if tokenID = [] then s
      else s\<lparr>sh_revokedConnectorTokens :=
               cleanupConnectorTokenRevokesLocked now (gm_put tokenID expiresAt (sh_revokedConnectorTokens s))\<rparr>)"

definition sh_isDeviceConnectorRevoked ::
  "DeviceConnectorClaims \<Rightarrow> go_time \<Rightarrow> sharedMemoryRuntimeState \<Rightarrow> sharedMemoryRuntimeState \<times> bool" where
  "sh_isDeviceConnectorRevoked claims now s =
     (let s = s\<lparr>sh_revokedConnectorTokens := cleanupConnectorTokenRevokesLocked now (sh_revokedConnectorTokens s)\<rparr>
      in (s,
          (case map_of (sh_revokedConnectorTokens s) (cl_ID claims) of Some e \<Rightarrow> now < e | None \<Rightarrow> False) \<or>
          (case nm_get (sh_revokedConnectorDevices s) (cl_UID claims) (cl_DeviceID claims) of
             None \<Rightarrow> False
           | Some revokedAt \<Rightarrow> (case cl_IssuedAt claims of None \<Rightarrow> True | Some issued \<Rightarrow> \<not> issued > revokedAt))))"

record deviceConnectorRevocationList =
  rl_devices :: "(uid, string, go_time) nmap"
  rl_tokens :: "(string, go_time) gomap"

definition rl_revokeDevice :: "uid \<Rightarrow> string \<Rightarrow> go_time \<Rightarrow> deviceConnectorRevocationList \<Rightarrow> deviceConnectorRevocationList" where
  "rl_revokeDevice ownerUID deviceID now r =
     (if ownerUID \<le> 0 then r
      else case normalizeUserDeviceID deviceID of
        None \<Rightarrow> r
      | Some d \<Rightarrow> r\<lparr>rl_devices := nm_put ownerUID d now (rl_devices r)\<rparr>)"

definition rl_revokeToken :: "string \<Rightarrow> go_time \<Rightarrow> go_time \<Rightarrow> deviceConnectorRevocationList \<Rightarrow> deviceConnectorRevocationList" where
  "rl_revokeToken tokenID expiresAt now r =
     (if trimSpace tokenID = [] then r
      else r\<lparr>rl_tokens := cleanupConnectorTokenRevokesLocked now (gm_put (trimSpace tokenID) expiresAt (rl_tokens r))\<rparr>)"

definition rl_isRevoked :: "DeviceConnectorClaims \<Rightarrow> go_time \<Rightarrow> deviceConnectorRevocationList \<Rightarrow> deviceConnectorRevocationList \<times> bool" where
  "rl_isRevoked claims now r =
     (let r = r\<lparr>rl_tokens := cleanupConnectorTokenRevokesLocked now (rl_tokens r)\<rparr>
      in (r,
          (case map_of (rl_tokens r) (cl_ID claims) of Some e \<Rightarrow> now < e | None \<Rightarrow> False) \<or>
          (case nm_get (rl_devices r) (cl_UID claims) (cl_DeviceID claims) of
             None \<Rightarrow> False
           | Some revokedAt \<Rightarrow>
               (let issuedAt = (case cl_IssuedAt claims of None \<Rightarrow> zero_time | Some t \<Rightarrow> t)
                in is_zero_time issuedAt \<or> \<not> issuedAt > revokedAt))))"

section \<open>The hub\<close>

record 'b deviceAuthorizationStore =
  da_revokeDevice :: "uid \<Rightarrow> string \<Rightarrow> go_time \<Rightarrow> 'b \<Rightarrow> 'b \<times> bool"
  da_revokeToken :: "string \<Rightarrow> go_time \<Rightarrow> 'b \<Rightarrow> 'b \<times> bool"
  da_isDeviceConnectorRevoked :: "DeviceConnectorClaims \<Rightarrow> go_time \<Rightarrow> 'b \<Rightarrow> bool"

text \<open>The part of the hub the connector uses. The shared state is the registry's.\<close>

record ('a, 'b) connector_hub =
  hb_userDevices :: "'a userDeviceRegistry"
  hb_deviceAuthorization :: "('b deviceAuthorizationStore \<times> 'b) option"
  hb_deviceAudit :: "DeviceAuditEvent list"
  hb_deviceRevokes :: deviceConnectorRevocationList

definition connectorRuntime :: "('a, 'b) connector_hub \<Rightarrow> sharedMemoryRuntimeState option" where
  "connectorRuntime h = rg_shared (hb_userDevices h)"

definition hub_set_shared :: "sharedMemoryRuntimeState \<Rightarrow> ('a, 'b) connector_hub \<Rightarrow> ('a, 'b) connector_hub" where
  "hub_set_shared s h = h\<lparr>hb_userDevices := (hb_userDevices h)\<lparr>rg_shared := Some s\<rparr>\<rparr>"

definition addDeviceAudit ::
  "uid \<Rightarrow> DeviceAuditEvent \<Rightarrow> string option \<Rightarrow> go_time \<Rightarrow> ('a, 'b) connector_hub \<Rightarrow> ('a, 'b) connector_hub" where
  "addDeviceAudit ownerUID event random now h =
     (if ownerUID \<le> 0 then h
      else case connectorRuntime h of
        Some s \<Rightarrow> hub_set_shared (appendDeviceAudit ownerUID event now s) h
      | None \<Rightarrow> h\<lparr>hb_deviceAudit := al_add ownerUID event random now (hb_deviceAudit h)\<rparr>)"

definition hub_listDeviceAudit :: "uid \<Rightarrow> int \<Rightarrow> ('a, 'b) connector_hub \<Rightarrow> DeviceAuditEvent list" where
  "hub_listDeviceAudit ownerUID limit h =
     (if ownerUID \<le> 0 then []
      else case connectorRuntime h of
        Some s \<Rightarrow> listDeviceAudit ownerUID limit s
      | None \<Rightarrow> audit_list ownerUID limit (hb_deviceAudit h))"

definition hub_revokeDeviceConnectorDevice ::
  "uid \<Rightarrow> string \<Rightarrow> go_time \<Rightarrow> ('a, 'b) connector_hub \<Rightarrow> ('a, 'b) connector_hub \<times> bool" where
  "hub_revokeDeviceConnectorDevice ownerUID deviceID now h =
     (if ownerUID \<le> 0 \<or> trimSpace deviceID = [] then (h, True)
      else case hb_deviceAuthorization h of
        Some (ops, b) \<Rightarrow>
          (case da_revokeDevice ops ownerUID deviceID now b of (b, ok) \<Rightarrow> (h\<lparr>hb_deviceAuthorization := Some (ops, b)\<rparr>, ok))
      | None \<Rightarrow>
          (case connectorRuntime h of
             Some s \<Rightarrow> (hub_set_shared (sh_revokeDeviceConnectorDevice ownerUID deviceID now s) h, True)
           | None \<Rightarrow>
               (h\<lparr>hb_userDevices := rg_revokeDeviceGrantsForDevice ownerUID deviceID (hb_userDevices h),
                  hb_deviceRevokes := rl_revokeDevice ownerUID deviceID now (hb_deviceRevokes h)\<rparr>, True)))"

definition hub_revokeDeviceConnectorToken ::
  "string \<Rightarrow> go_time \<Rightarrow> go_time \<Rightarrow> ('a, 'b) connector_hub \<Rightarrow> ('a, 'b) connector_hub \<times> bool" where
  "hub_revokeDeviceConnectorToken tokenID expiresAt now h =
     (if trimSpace tokenID = [] then (h, True)
      else case hb_deviceAuthorization h of
        Some (ops, b) \<Rightarrow>
          (case da_revokeToken ops tokenID expiresAt b of (b, ok) \<Rightarrow> (h\<lparr>hb_deviceAuthorization := Some (ops, b)\<rparr>, ok))
      | None \<Rightarrow>
          (case connectorRuntime h of
             Some s \<Rightarrow> (hub_set_shared (sh_revokeDeviceConnectorToken tokenID expiresAt now s) h, True)
           | None \<Rightarrow> (h\<lparr>hb_deviceRevokes := rl_revokeToken tokenID expiresAt now (hb_deviceRevokes h)\<rparr>, True)))"

definition hub_isDeviceConnectorRevoked ::
  "DeviceConnectorClaims \<Rightarrow> go_time \<Rightarrow> ('a, 'b) connector_hub \<Rightarrow> ('a, 'b) connector_hub \<times> bool" where
  "hub_isDeviceConnectorRevoked claims now h =
     (case hb_deviceAuthorization h of
        Some (ops, b) \<Rightarrow> (h, da_isDeviceConnectorRevoked ops claims now b)
      | None \<Rightarrow>
          (case connectorRuntime h of
             Some s \<Rightarrow> (case sh_isDeviceConnectorRevoked claims now s of (s, v) \<Rightarrow> (hub_set_shared s h, v))
           | None \<Rightarrow> (case rl_isRevoked claims now (hb_deviceRevokes h) of (l, v) \<Rightarrow> (h\<lparr>hb_deviceRevokes := l\<rparr>, v))))"

section \<open>Requests of a connector\<close>

text \<open>Of a user the model keeps the fields the connector reads.\<close>

datatype AccountType = AccountHuman | AccountBot | AccountService

record User =
  us_ID :: uid
  us_Username :: string
  us_AccountType :: AccountType
  us_State :: int

text \<open>The answer of \<open>GetUser\<close>: an error, nothing, or a user. A response other than 200 is a status and a message.\<close>

type_synonym user_lookup = "uid \<Rightarrow> unit + User option"

definition activeUserByID :: "uid \<Rightarrow> user_lookup \<Rightarrow> (nat \<times> string) + User" where
  "activeUserByID u lookupUser =
     (case lookupUser u of
        Inl _ \<Rightarrow> Inl (500, ''authentication service unavailable'')
      | Inr None \<Rightarrow> Inl (401, ''invalid or expired token'')
      | Inr (Some user) \<Rightarrow> if us_State user \<noteq> 0 then Inl (403, ''user account is disabled'') else Inr user)"

definition verifyConnectorRequest ::
  "(string \<Rightarrow> go_time \<Rightarrow> DeviceConnectorClaims option) \<Rightarrow> user_lookup \<Rightarrow> string \<Rightarrow> string \<Rightarrow> go_time \<Rightarrow>
   ('a, 'b) connector_hub \<Rightarrow> ('a, 'b) connector_hub \<times> ((nat \<times> string) + DeviceConnectorClaims)" where
  "verifyConnectorRequest verify getUser token scope now h =
     (if token = [] then (h, Inl (401, ''missing device connector token''))
      else case ParseDeviceConnectorToken verify token now of
        Inl _ \<Rightarrow> (h, Inl (401, ''invalid device connector token''))
      | Inr claims \<Rightarrow>
          if \<not> deviceConnectorHasScope claims scope
          then (h, Inl (403, ''device connector token does not allow this action''))
          else case hub_isDeviceConnectorRevoked claims now h of
            (h, True) \<Rightarrow> (h, Inl (403, ''device connector token has been revoked''))
          | (h, False) \<Rightarrow>
              (case activeUserByID (cl_UID claims) getUser of
                 Inl e \<Rightarrow> (h, Inl e)
               | Inr _ \<Rightarrow> (h, Inr claims)))"

text \<open>
  \<open>DeviceConnectorUploadAuthWithDB\<close> for a request with a connector token: the user it acts for, or the
  refusal. Without such a token the ordinary authentication decides.
\<close>

definition DeviceConnectorUploadAuthWithDB ::
  "(string \<Rightarrow> go_time \<Rightarrow> DeviceConnectorClaims option) \<Rightarrow> user_lookup \<Rightarrow> string \<Rightarrow> go_time \<Rightarrow>
   ('a, 'b) connector_hub \<Rightarrow> ('a, 'b) connector_hub \<times> ((nat \<times> string) + (uid \<times> string))" where
  "DeviceConnectorUploadAuthWithDB verify getUser token now h =
     (case ParseDeviceConnectorToken verify token now of
        Inl _ \<Rightarrow> (h, Inl (401, ''invalid device connector token''))
      | Inr claims \<Rightarrow>
          if \<not> deviceConnectorHasScope claims ''device:upload'' \<or> \<not> containsDeviceCapability (cl_Capabilities claims) ''send_file''
          then (h, Inl (403, ''device connector token does not allow file uploads''))
          else case hub_isDeviceConnectorRevoked claims now h of
            (h, True) \<Rightarrow> (h, Inl (403, ''device connector token has been revoked''))
          | (h, False) \<Rightarrow>
              (case activeUserByID (cl_UID claims) getUser of
                 Inl e \<Rightarrow> (h, Inl e)
               | Inr user \<Rightarrow>
                   if us_AccountType user \<noteq> AccountHuman
                   then (h, Inl (403, ''file upload requires a human-owned device connector''))
                   else (h, Inr (cl_UID claims, cl_Username claims))))"

definition pairing_created_event :: "string \<Rightarrow> DeviceAuditEvent" where
  "pairing_created_event pairingID =
     \<lparr>ev_ID = [], ev_OwnerUserID = [], ev_ActorUserID = [], ev_AgentID = [], ev_DeviceID = [], ev_SessionKey = [],
      ev_Operation = [], ev_ToolName = [], ev_Command = [], ev_Phase = ''pairing_created'', ev_Result = ''ok'',
      ev_Reason = pairingID, ev_CreatedAt = 0\<rparr>"

definition HandleCreatePairing ::
  "uid \<Rightarrow> user_lookup \<Rightarrow> string \<Rightarrow> string list \<Rightarrow> string option \<Rightarrow> string option \<Rightarrow> string option \<Rightarrow> go_time \<Rightarrow>
   ('a, 'b) connector_hub \<times> deviceConnectorPairingStore \<Rightarrow>
   (('a, 'b) connector_hub \<times> deviceConnectorPairingStore) \<times> ((nat \<times> string) + deviceConnectorPairing)" where
  "HandleCreatePairing u getUser deviceName capabilities idRandom codeRandom auditRandom now hp =
     (case hp of (h, pairings) \<Rightarrow>
        case activeUserByID u getUser of
          Inl e \<Rightarrow> (hp, Inl e)
        | Inr user \<Rightarrow>
            if us_AccountType user \<noteq> AccountHuman then (hp, Inl (403, ''device pairing requires a human user token''))
            else case createPairing u (us_Username user) deviceName capabilities now idRandom codeRandom (connectorRuntime h, pairings) of
              ((sh, pairings), created) \<Rightarrow>
                let h = (case sh of Some s \<Rightarrow> hub_set_shared s h | None \<Rightarrow> h)
                in case created of
                  None \<Rightarrow> ((h, pairings), Inl (500, ''failed to create pairing''))
                | Some p \<Rightarrow> ((addDeviceAudit u (pairing_created_event (cp_PairingID p)) auditRandom now h, pairings), Inr p))"

text \<open>\<open>HandlePairingByID\<close>: a pairing is shown to its owner only, with its status.\<close>

definition HandlePairingByID ::
  "uid \<Rightarrow> string \<Rightarrow> go_time \<Rightarrow> ('a, 'b) connector_hub \<times> deviceConnectorPairingStore \<Rightarrow>
   (('a, 'b) connector_hub \<times> deviceConnectorPairingStore) \<times> ((nat \<times> string) + (deviceConnectorPairing \<times> string))" where
  "HandlePairingByID u pairingID now hp =
     (case hp of (h, pairings) \<Rightarrow>
        case getPairing pairingID now (connectorRuntime h, pairings) of
          ((sh, pairings), found) \<Rightarrow>
            let h = (case sh of Some s \<Rightarrow> hub_set_shared s h | None \<Rightarrow> h)
            in case found of
              None \<Rightarrow> ((h, pairings), Inl (404, ''pairing not found''))
            | Some p \<Rightarrow>
                if cp_OwnerUID p \<noteq> u then ((h, pairings), Inl (404, ''pairing not found''))
                else ((h, pairings), Inr (p, pairingStatus p now)))"

record enroll_request =
  en_PairingCode :: string
  en_DeviceID :: string
  en_InstallationID :: string
  en_DeviceName :: string
  en_OS :: string
  en_Capabilities :: "string list"

definition device_enrolled_event :: "string \<Rightarrow> DeviceAuditEvent" where
  "device_enrolled_event deviceID =
     \<lparr>ev_ID = [], ev_OwnerUserID = [], ev_ActorUserID = [], ev_AgentID = [], ev_DeviceID = deviceID, ev_SessionKey = [],
      ev_Operation = [], ev_ToolName = [], ev_Command = [], ev_Phase = ''device_enrolled'', ev_Result = ''ok'',
      ev_Reason = [], ev_CreatedAt = 0\<rparr>"

definition register_message :: "register_error \<Rightarrow> string" where
  "register_message e = (case e of InvalidOwner \<Rightarrow> ''invalid owner'' | InvalidDeviceID \<Rightarrow> ''invalid device_id'')"

text \<open>\<open>HandleEnroll\<close> after its body was decoded: the random values it may draw are arguments.\<close>

definition enroll_capabilities :: "enroll_request \<Rightarrow> deviceConnectorPairing \<Rightarrow> string list" where
  "enroll_capabilities req pairing =
     (if en_Capabilities req = [] then cp_Capabilities pairing
      else limitConnectorCapabilities (en_Capabilities req) (cp_Capabilities pairing))"

definition enroll_registration :: "enroll_request \<Rightarrow> string \<Rightarrow> deviceConnectorPairing \<Rightarrow> RegisterUserDeviceRequest" where
  "enroll_registration req idSuffix pairing =
     (let deviceID = (if trimSpace (en_DeviceID req) = [] then ''device_'' @ toLower idSuffix else trimSpace (en_DeviceID req))
      in \<lparr>rq_BotUID = 0, rq_DeviceID = deviceID,
          rq_DisplayName = firstNonEmpty [en_DeviceName req, cp_DeviceName pairing, deviceID],
          rq_OS = en_OS req, rq_BodyID = deviceID,
          rq_InstallationID = firstNonEmpty [en_InstallationID req, deviceID], rq_RuntimeRole = [],
          rq_Status = ''online'', rq_Capabilities = enroll_capabilities req pairing, rq_ModelStatus = None\<rparr>)"

definition enroll_token_input :: "deviceConnectorPairing \<Rightarrow> string list \<Rightarrow> UserDevice \<Rightarrow> DeviceConnectorTokenInput" where
  "enroll_token_input pairing capabilities device =
     \<lparr>ti_UID = cp_OwnerUID pairing, ti_Username = cp_Username pairing, ti_DeviceID = ud_DeviceID device,
      ti_InstallationID = ud_InstallationID device, ti_DisplayName = ud_DisplayName device, ti_Capabilities = capabilities,
      ti_Scopes = (let scopes = normalizeDeviceConnectorScopes []
                   in if containsDeviceCapability capabilities ''send_file''
                      then appendDeviceScope scopes ''device:upload'' else scopes),
      ti_TTL = 0\<rparr>"

definition enroll_paired ::
  "(DeviceConnectorClaims \<Rightarrow> string option) \<Rightarrow> enroll_request \<Rightarrow> string \<Rightarrow> string option \<Rightarrow> string option \<Rightarrow> go_time \<Rightarrow>
   deviceConnectorPairing \<Rightarrow> ('a, 'b) connector_hub \<Rightarrow> ('a, 'b) connector_hub \<times> ((nat \<times> string) + (string \<times> UserDevice))" where
  "enroll_paired sign req idSuffix tokenRandom auditRandom now pairing h =
     (case rg_register (cp_OwnerUID pairing) (enroll_registration req idSuffix pairing) now (hb_userDevices h) of
        (reg, Inl e) \<Rightarrow> (h\<lparr>hb_userDevices := reg\<rparr>, Inl (400, register_message e))
      | (reg, Inr device) \<Rightarrow>
          (case GenerateDeviceConnectorToken sign
                  (enroll_token_input pairing (enroll_capabilities req pairing) device) tokenRandom now of
             Inl _ \<Rightarrow> (h\<lparr>hb_userDevices := reg\<rparr>, Inl (500, ''failed to issue device token''))
           | Inr token \<Rightarrow>
               (addDeviceAudit (cp_OwnerUID pairing) (device_enrolled_event (ud_DeviceID device)) auditRandom now
                  (h\<lparr>hb_userDevices := reg\<rparr>), Inr (token, device))))"

definition HandleEnroll ::
  "(DeviceConnectorClaims \<Rightarrow> string option) \<Rightarrow> enroll_request \<Rightarrow> string \<Rightarrow> string option \<Rightarrow> string option \<Rightarrow> go_time \<Rightarrow>
   ('a, 'b) connector_hub \<times> deviceConnectorPairingStore \<Rightarrow>
   (('a, 'b) connector_hub \<times> deviceConnectorPairingStore) \<times> ((nat \<times> string) + (string \<times> UserDevice))" where
  "HandleEnroll sign req idSuffix tokenRandom auditRandom now hp =
     (case hp of (h, pairings) \<Rightarrow>
        case consumePairing (en_PairingCode req) now (connectorRuntime h, pairings) of
          ((sh, pairings), found) \<Rightarrow>
            let h = (case sh of Some s \<Rightarrow> hub_set_shared s h | None \<Rightarrow> h)
            in case found of
              None \<Rightarrow> ((h, pairings), Inl (403, ''invalid or expired pairing code''))
            | Some pairing \<Rightarrow>
                (case enroll_paired sign req idSuffix tokenRandom auditRandom now pairing h of
                   (h, res) \<Rightarrow> ((h, pairings), res)))"

definition HandleRefreshToken ::
  "(string \<Rightarrow> go_time \<Rightarrow> DeviceConnectorClaims option) \<Rightarrow> (DeviceConnectorClaims \<Rightarrow> string option) \<Rightarrow> user_lookup \<Rightarrow> string \<Rightarrow>
   string option \<Rightarrow> go_time \<Rightarrow> ('a, 'b) connector_hub \<Rightarrow> ('a, 'b) connector_hub \<times> ((nat \<times> string) + string)" where
  "HandleRefreshToken verify sign getUser token random now h =
     (case verifyConnectorRequest verify getUser token ''device:refresh'' now h of
        (h, Inl e) \<Rightarrow> (h, Inl e)
      | (h, Inr claims) \<Rightarrow>
          (let scopes = (if containsDeviceCapability (cl_Capabilities claims) ''send_file''
                         then appendDeviceScope (cl_Scopes claims) ''device:upload'' else cl_Scopes claims)
           in case GenerateDeviceConnectorToken sign
                \<lparr>ti_UID = cl_UID claims, ti_Username = cl_Username claims, ti_DeviceID = cl_DeviceID claims,
                 ti_InstallationID = cl_InstallationID claims, ti_DisplayName = cl_DisplayName claims,
                 ti_Capabilities = cl_Capabilities claims, ti_Scopes = scopes, ti_TTL = 0\<rparr> random now of
              Inl _ \<Rightarrow> (h, Inl (500, ''failed to refresh token''))
            | Inr t \<Rightarrow> (h, Inr t)))"

definition HandleConnectorRegisterDevice ::
  "(string \<Rightarrow> go_time \<Rightarrow> DeviceConnectorClaims option) \<Rightarrow> user_lookup \<Rightarrow> string \<Rightarrow> RegisterUserDeviceRequest option \<Rightarrow>
   go_time \<Rightarrow> ('a, 'b) connector_hub \<Rightarrow> ('a, 'b) connector_hub \<times> ((nat \<times> string) + UserDevice)" where
  "HandleConnectorRegisterDevice verify getUser token body now h =
     (case verifyConnectorRequest verify getUser token ''device:register'' now h of
        (h, Inl e) \<Rightarrow> (h, Inl e)
      | (h, Inr claims) \<Rightarrow>
          (case body of
             None \<Rightarrow> (h, Inl (400, ''invalid request''))
           | Some req \<Rightarrow>
               (let req = req\<lparr>rq_DeviceID := cl_DeviceID claims, rq_BodyID := cl_DeviceID claims,
                              rq_InstallationID := firstNonEmpty [cl_InstallationID claims, cl_DeviceID claims],
                              rq_DisplayName := (if trimSpace (rq_DisplayName req) = [] then cl_DisplayName claims else rq_DisplayName req),
                              rq_Capabilities := (if rq_Capabilities req = [] then cl_Capabilities claims
                                 else limitConnectorRegistrationCapabilities (rq_Capabilities req) (cl_Capabilities claims))\<rparr>
                in case rg_register (cl_UID claims) req now (hb_userDevices h) of
                  (reg, Inl e) \<Rightarrow> (h\<lparr>hb_userDevices := reg\<rparr>, Inl (400, register_message e))
                | (reg, Inr device) \<Rightarrow> (h\<lparr>hb_userDevices := reg\<rparr>, Inr device))))"

section \<open>The audit log keeps the last events\<close>

lemma audit_fold:
  "length es \<le> maxDeviceAuditEvents \<Longrightarrow>
   fold audit_append xs es = drop (length (es @ xs) - maxDeviceAuditEvents) (es @ xs)"
proof (induction xs arbitrary: es)
  case (Cons x xs)
  have short: "length (audit_append x es) \<le> maxDeviceAuditEvents"
    using Cons.prems by (auto simp: audit_append_def Let_def)
  show ?case
  proof (cases "length es < maxDeviceAuditEvents")
    case True
    then have "audit_append x es = es @ [x]" by (simp add: audit_append_def)
    with Cons.IH [OF short] show ?thesis by simp
  next
    case False
    with Cons.prems have len: "length es = maxDeviceAuditEvents" by simp
    then have ne: "es \<noteq> []" by (auto simp: maxDeviceAuditEvents_def)
    with len have "audit_append x es = tl es @ [x]" 
      by (simp add: audit_append_def Let_def drop_Suc) (simp add: maxDeviceAuditEvents_def)
    moreover have "Suc (maxDeviceAuditEvents - Suc 0 + k) - maxDeviceAuditEvents = k"
        "k - (maxDeviceAuditEvents - Suc 0) = Suc k - maxDeviceAuditEvents" for k
      by (simp_all add: maxDeviceAuditEvents_def)
    ultimately show ?thesis using Cons.IH [OF short] ne len by (simp add: drop_Suc Suc_diff_le)
  qed
qed (simp add: audit_append_def)

text \<open>
  the shared audit log is exactly the last 500 events, in order and stamped with their owner: no
  event is lost before that many later ones, and a user's listing is the newest of their own events
  only, newest first, at most a hundred.
\<close>

theorem audit_log_keeps_last_events:
  fixes s :: sharedMemoryRuntimeState
  assumes "sh_deviceAuditEvents s = []" and "0 < u" and "0 < n" and "n \<le> 100"
  shows "listDeviceAudit u n (fold (\<lambda>(v, e, now). appendDeviceAudit v e now) xs s) =
    (let stamped = map (\<lambda>(v, e, now). e\<lparr>ev_OwnerUserID := formatUID v,
             ev_CreatedAt := (if ev_CreatedAt e = 0 then unixMillis now else ev_CreatedAt e)\<rparr>) (filter (\<lambda>(v, e, now). 0 < v) xs)
     in take (nat n) (filter (\<lambda>e. ev_OwnerUserID e = formatUID u) (rev (drop (length stamped - 500) stamped))))"
proof -
  let ?stamp = "\<lambda>(v, e, now). e\<lparr>ev_OwnerUserID := formatUID v,
             ev_CreatedAt := (if ev_CreatedAt e = 0 then unixMillis now else ev_CreatedAt e)\<rparr>"
  have "sh_deviceAuditEvents (fold (\<lambda>(v, e, now). appendDeviceAudit v e now) xs s) =
      fold audit_append (map ?stamp (filter (\<lambda>(v, e, now). 0 < v) xs)) (sh_deviceAuditEvents s)" for s :: sharedMemoryRuntimeState
    by (induction xs arbitrary: s) (auto simp: appendDeviceAudit_def Let_def)
  with assms audit_fold [of "[]"] show ?thesis
    by (simp add: listDeviceAudit_def audit_list_def maxDeviceAuditEvents_def)
qed

theorem audit_log_keeps_last_events_witness:
  "let e = device_enrolled_event ''pc'';
       s = fold (\<lambda>(v, e, now). appendDeviceAudit v e now) [(5, e, 1000000), (6, e, 2000000)] newSharedMemoryRuntimeState
   in map ev_OwnerUserID (listDeviceAudit 5 10 s) = [''usr5'']"
proof -
  have u: "formatUID 5 = ''usr5''" "formatUID 6 = ''usr6''" by code_simp+
  have "sh_deviceAuditEvents newSharedMemoryRuntimeState = []" by (simp add: newSharedMemoryRuntimeState_def)
  from audit_log_keeps_last_events [OF this, of 5 10
      "[(5, device_enrolled_event ''pc'', 1000000), (6, device_enrolled_event ''pc'', 2000000)]"]
  show ?thesis by (simp add: u)
qed

section \<open>Capabilities never grow\<close>

lemma allowed_trimmed:
  "isAllowedDeviceGrantOperation c \<Longrightarrow> trimSpace c = c"
proof -
  have "trimSpace ''read_file'' = ''read_file''" "trimSpace ''resolve_common_directory'' = ''resolve_common_directory''"
    "trimSpace ''write_file'' = ''write_file''" "trimSpace ''edit_file'' = ''edit_file''" "trimSpace ''send_file'' = ''send_file''"
    "trimSpace ''execute_shell'' = ''execute_shell''" "trimSpace ''glob'' = ''glob''" "trimSpace ''grep'' = ''grep''"
    "trimSpace ''browser_control'' = ''browser_control''" "trimSpace ''desktop_control'' = ''desktop_control''"
    "trimSpace ''skillhub.localWorkspace.get'' = ''skillhub.localWorkspace.get''"
    "trimSpace ''skillhub.localWorkspace.applyDefinition'' = ''skillhub.localWorkspace.applyDefinition''"
    "trimSpace ''skillhub.localWorkspace.pagination.v1'' = ''skillhub.localWorkspace.pagination.v1''"
    "trimSpace ''skillhub.publication.sourceProbe.v1'' = ''skillhub.publication.sourceProbe.v1''"
    "trimSpace ''skillhub.publication.capture.v1'' = ''skillhub.publication.capture.v1''"
    "trimSpace ''skillhub.publication.verifyRepairSource.v1'' = ''skillhub.publication.verifyRepairSource.v1''"
    "trimSpace ''skillhub.publication.upload.v1'' = ''skillhub.publication.upload.v1''"
    "trimSpace ''skillhub.localWorkspace.syncToAgent'' = ''skillhub.localWorkspace.syncToAgent''"
    "trimSpace ''skillhub.localSkill.share'' = ''skillhub.localSkill.share''"
    "trimSpace ''skillhub.localSkill.finalize'' = ''skillhub.localSkill.finalize''"
    "trimSpace ''skillhub.localSkill.delete'' = ''skillhub.localSkill.delete''"
    "trimSpace ''skillhub.localBot.switch'' = ''skillhub.localBot.switch''"
    "trimSpace ''knowledge.document.list'' = ''knowledge.document.list''"
    "trimSpace ''knowledge.document.read'' = ''knowledge.document.read''"
    by (intro trimSpace_id; simp add: space_runes_def)+
  then show "isAllowedDeviceGrantOperation c \<Longrightarrow> trimSpace c = c"
    unfolding isAllowedDeviceGrantOperation_def by (elim insertE emptyE) simp_all
qed

lemma keep_first_id: "distinct xs \<Longrightarrow> list_all P xs \<Longrightarrow> set xs \<inter> set seen = {} \<Longrightarrow> keep_first P seen xs = xs"
  by (induction P seen xs rule: keep_first.induct) auto

definition connector_caps_normal :: "string list \<Rightarrow> bool" where
  "connector_caps_normal cs \<longleftrightarrow> cs \<noteq> [] \<and> distinct cs \<and>
     list_all (\<lambda>c. isAllowedDeviceGrantOperation c \<and> (isAllowedDeviceConnectorCapability c \<or> c = ''send_file'')) cs"

lemma connector_caps_normalized: "connector_caps_normal (normalizeDeviceConnectorCapabilityStrings cs)"
proof -
  have "connector_caps_normal [''read_file'']"
    by (simp add: connector_caps_normal_def isAllowedDeviceGrantOperation_def isAllowedDeviceConnectorCapability_def
        isAllowedDeviceRPCOperation_def)
  then show ?thesis
    using capabilities_allowed
    by (auto simp: normalizeDeviceConnectorCapabilityStrings_def Let_def connector_caps_normal_def list_all_iff
        simp del: filter_empty_conv)
qed

lemma connector_caps_id: "connector_caps_normal cs \<Longrightarrow> normalizeDeviceConnectorCapabilityStrings cs = cs"
proof -
  assume n: "connector_caps_normal cs"
  then have "map trimSpace cs = cs"
    using allowed_trimmed by (auto simp: connector_caps_normal_def list_all_iff intro!: map_idI)
  with n have "normalizeDeviceCapabilities cs = cs"
    by (auto simp: normalizeDeviceCapabilities_def connector_caps_normal_def list_all_iff intro!: keep_first_id)
  with n show ?thesis
    by (simp add: normalizeDeviceConnectorCapabilityStrings_def connector_caps_normal_def list_all_iff filter_id_conv)
qed

lemma limit_subset: "c \<in> set (limitConnectorCapabilities req allowed) \<Longrightarrow> trimSpace c \<in> trimSpace ` set allowed"
proof -
  assume c: "c \<in> set (limitConnectorCapabilities req allowed)"
  have "trimSpace v = v" if "v \<in> set (normalizeDeviceConnectorCapabilityStrings req)" for v
    using connector_caps_normalized [of req] that allowed_trimmed by (auto simp: connector_caps_normal_def list_all_iff)
  with c show ?thesis
    by (auto simp: limitConnectorCapabilities_def Let_def split: if_splits)
qed

lemma upgrade_loop_set:
  "c \<in> set (upgrade_loop allowed cs limited) \<Longrightarrow> c \<in> set limited \<or> c = DeviceCapabilitySkillHubWorkspacePagination \<or>
   (c = ''skillhub.localWorkspace.syncToAgent'' \<and> containsAllConnectorCapabilities allowed
      [''skillhub.localWorkspace.get'', ''skillhub.localSkill.share'', ''skillhub.localSkill.finalize''])"
proof (induction allowed cs limited rule: upgrade_loop.induct)
  case (2 allowed capability cs limited)
  then show ?case by (auto simp: Let_def split: if_splits)
qed simp

text \<open>
  C30: a device that registers again with its connector token gets no capability the user did not approve
  when pairing it: everything it ends up with is one of the token's capabilities, the protocol marker for
  paging, or the workspace synchronisation, and the last only when the token already allows reading,
  sharing and finalising the same workspace.
\<close>

theorem registration_never_escalates:
  assumes "c \<in> set (limitConnectorRegistrationCapabilities requested allowed)"
  shows "trimSpace c \<in> trimSpace ` set allowed \<or> c = DeviceCapabilitySkillHubWorkspacePagination \<or>
    (c = ''skillhub.localWorkspace.syncToAgent'' \<and>
      {''skillhub.localWorkspace.get'', ''skillhub.localSkill.share'', ''skillhub.localSkill.finalize''} \<subseteq>
        set (normalizeDeviceConnectorCapabilityStrings allowed))"
  using upgrade_loop_set assms limit_subset
  by (fastforce simp: limitConnectorRegistrationCapabilities_def containsAllConnectorCapabilities_def)

theorem registration_never_escalates_witness:
  "''glob'' \<in> set (limitConnectorRegistrationCapabilities [''execute_shell'', ''glob''] [''glob'']) \<and>
   trimSpace ''glob'' \<in> trimSpace ` set [''glob'']"
proof -
  have mem: "''glob'' \<in> set (limitConnectorRegistrationCapabilities [''execute_shell'', ''glob''] [''glob''])" by code_simp
  have "''glob'' \<noteq> DeviceCapabilitySkillHubWorkspacePagination" by (simp add: DeviceCapabilitySkillHubWorkspacePagination_def)
  with registration_never_escalates [OF mem] mem show ?thesis by simp
qed

section \<open>Enrolment\<close>

lemma limit_normal:
  assumes "connector_caps_normal allowed"
  shows "connector_caps_normal (limitConnectorCapabilities req allowed) \<and> set (limitConnectorCapabilities req allowed) \<subseteq> set allowed"
proof -
  have "trimSpace v = v" if "v \<in> set allowed" for v
    using assms that allowed_trimmed by (auto simp: connector_caps_normal_def list_all_iff)
  then have "set (map trimSpace allowed) = set allowed" by (force simp: image_iff)
  with assms connector_caps_normalized [of req] show ?thesis
    by (auto simp: limitConnectorCapabilities_def Let_def connector_caps_normal_def list_all_iff)
qed

lemma register_result:
  "rg_register u req now r = (r', Inr d) \<Longrightarrow> 0 < u \<and> ud_OwnerUID d = u \<and>
   normalizeUserDeviceID (rq_DeviceID req) = Some (ud_DeviceID d)"
  by (auto simp: rg_register_def registerUserDevice_def table_register_def device_of_request_def Let_def
      split: if_splits option.splits prod.splits)

lemma enroll_paired_result:
  fixes h :: "('a, 'b) connector_hub"
  assumes "enroll_paired sign req idSuffix tr ar now p h = (h', Inr (token, device))"
  obtains reg where "rg_register (cp_OwnerUID p) (enroll_registration req idSuffix p) now (hb_userDevices h) = (reg, Inr device)"
    and "GenerateDeviceConnectorToken sign (enroll_token_input p (enroll_capabilities req p) device) tr now = Inr token"
proof -
  obtain reg res where r: "rg_register (cp_OwnerUID p) (enroll_registration req idSuffix p) now (hb_userDevices h) = (reg, res)"
    by (metis prod.collapse)
  show ?thesis
  proof (cases res)
    case (Inl e)
    with assms r show ?thesis by (simp add: enroll_paired_def)
  next
    case (Inr d)
    with assms r show ?thesis
      using that by (cases "GenerateDeviceConnectorToken sign (enroll_token_input p (enroll_capabilities req p) d) tr now")
        (auto simp: enroll_paired_def)
  qed
qed

definition sample_claims :: DeviceConnectorClaims where
  "sample_claims = connector_claims
     \<lparr>ti_UID = 5, ti_Username = [], ti_DeviceID = ''pc'', ti_InstallationID = [], ti_DisplayName = [],
      ti_Capabilities = [''read_file''], ti_Scopes = [], ti_TTL = 0\<rparr> ''pc'' ''a1'' 1000000000"

definition sample_connector_hub :: "(unit, unit) connector_hub" where
  "sample_connector_hub =
     \<lparr>hb_userDevices =
        (newUserDeviceRegistry 0 (\<lambda>_. []) [])\<lparr>rg_shared := Some newSharedMemoryRuntimeState\<rparr>,
      hb_deviceAuthorization = None, hb_deviceAudit = [], hb_deviceRevokes = \<lparr>rl_devices = [], rl_tokens = []\<rparr>\<rparr>"

text \<open>
  C33: a successful enrolment redeems exactly one pairing and mints a token for the pairing's owner and
  for the very device it registers for that owner, and the token's capabilities are among those the
  owner approved when the pairing was created.
\<close>

theorem enrolment_within_pairing:
  fixes h :: "('a, 'b) connector_hub"
  assumes "HandleEnroll sign req idSuffix tr ar now (h, ps) = (hp', Inr (token, device))"
    and "\<forall>p. snd (consumePairing (en_PairingCode req) now (connectorRuntime h, ps)) = Some p \<longrightarrow>
      (\<exists>caps. cp_Capabilities p = normalizeDeviceConnectorCapabilityStrings caps)"
  shows "\<exists>p claims. snd (consumePairing (en_PairingCode req) now (connectorRuntime h, ps)) = Some p \<and>
    sign claims = Some token \<and> cl_TokenType claims = ''device_connector'' \<and> cl_UID claims = cp_OwnerUID p \<and>
    ud_OwnerUID device = cp_OwnerUID p \<and> cl_DeviceID claims = ud_DeviceID device \<and>
    set (cl_Capabilities claims) \<subseteq> set (cp_Capabilities p)"
proof -
  obtain sh ps' found where con: "consumePairing (en_PairingCode req) now (connectorRuntime h, ps) = ((sh, ps'), found)"
    by (metis prod.collapse)
  then obtain p where p: "found = Some p" using assms(1) by (cases found) (auto simp: HandleEnroll_def Let_def)
  with assms(2) con have pn: "connector_caps_normal (cp_Capabilities p)" using connector_caps_normalized by auto
  let ?caps = "enroll_capabilities req p"
  have caps: "connector_caps_normal ?caps" "set ?caps \<subseteq> set (cp_Capabilities p)"
    using limit_normal [OF pn] pn by (auto simp: enroll_capabilities_def)
  obtain h1 h2 :: "('a, 'b) connector_hub" where "enroll_paired sign req idSuffix tr ar now p h1 = (h2, Inr (token, device))"
    using assms(1) con p by (auto simp: HandleEnroll_def Let_def split: prod.splits)
  then obtain r reg :: "'a userDeviceRegistry" where
      reg: "rg_register (cp_OwnerUID p) (enroll_registration req idSuffix p) now r = (reg, Inr device)"
      and gen: "GenerateDeviceConnectorToken sign (enroll_token_input p ?caps device) tr now = Inr token"
    by (elim enroll_paired_result)
  from gen obtain jti where "sign (connector_claims (enroll_token_input p ?caps device) (ud_DeviceID device) jti now) = Some token"
    using normalize_device_id_idem [of _ "ud_DeviceID device"] register_result [OF reg]
    by (auto simp: GenerateDeviceConnectorToken_def enroll_token_input_def split: if_splits option.splits)
  with register_result [OF reg] con p caps connector_caps_id [OF caps(1)] show ?thesis
    by (intro exI [of _ p] exI [of _ "connector_claims (enroll_token_input p ?caps device) (ud_DeviceID device) jti now"])
       (simp add: connector_claims_def enroll_token_input_def)
qed

definition sample_enrolment :: "(unit, unit) connector_hub \<times> deviceConnectorPairingStore" where
  "sample_enrolment = fst (HandleCreatePairing 5
     (\<lambda>u. Inr (Some \<lparr>us_ID = u, us_Username = ''ann'', us_AccountType = AccountHuman, us_State = 0\<rparr>))
     ''laptop'' [''glob'', ''read_file''] (Some ''1'') (Some ''ab'') None 1000000000
     (sample_connector_hub, newDeviceConnectorPairingStore 0))"

theorem enrolment_within_pairing_witness:
  "let res = HandleEnroll (\<lambda>c. Some (cl_ID c))
       \<lparr>en_PairingCode = ''AB'', en_DeviceID = ''pc'', en_InstallationID = [], en_DeviceName = [], en_OS = ''linux'',
        en_Capabilities = [''execute_shell'', ''glob'']\<rparr> [] (Some ''a1'') None 2000000000 sample_enrolment
   in \<exists>device. snd res = Inr (''dev_a1'', device) \<and> ud_OwnerUID device = 5"
proof -
  let ?req = "\<lparr>en_PairingCode = ''AB'', en_DeviceID = ''pc'', en_InstallationID = [], en_DeviceName = [], en_OS = ''linux'',
        en_Capabilities = [''execute_shell'', ''glob'']\<rparr>"
  let ?res = "HandleEnroll (\<lambda>c. Some (cl_ID c)) ?req [] (Some ''a1'') None 2000000000 sample_enrolment"
  let ?con = "consumePairing (en_PairingCode ?req) 2000000000 (connectorRuntime (fst sample_enrolment), snd sample_enrolment)"
  have "(case snd ?res of Inr (token, _) \<Rightarrow> token = ''dev_a1'' | Inl _ \<Rightarrow> False)" by code_simp
  then obtain device where "snd ?res = Inr (''dev_a1'', device)" by (cases "snd ?res") auto
  then have res: "HandleEnroll (\<lambda>c. Some (cl_ID c)) ?req [] (Some ''a1'') None 2000000000 (fst sample_enrolment, snd sample_enrolment) =
      (fst ?res, Inr (''dev_a1'', device))" by (metis prod.collapse)
  have "case snd ?con of Some p \<Rightarrow> cp_OwnerUID p = 5 \<and>
      cp_Capabilities p = normalizeDeviceConnectorCapabilityStrings [''glob'', ''read_file''] | None \<Rightarrow> False" by code_simp
  then obtain p where p: "snd ?con = Some p" "cp_OwnerUID p = 5"
      "cp_Capabilities p = normalizeDeviceConnectorCapabilityStrings [''glob'', ''read_file'']"
    by (cases "snd ?con") auto
  then have "\<forall>p. snd ?con = Some p \<longrightarrow> (\<exists>caps. cp_Capabilities p = normalizeDeviceConnectorCapabilityStrings caps)" by auto
  from enrolment_within_pairing [OF res this] p \<open>snd ?res = _\<close> show ?thesis by auto
qed

section \<open>A revoked device stays revoked\<close>

datatype hub_op = HRevokeDevice uid string go_time | HRevokeToken string go_time go_time
  | HCheck DeviceConnectorClaims go_time | HAudit uid DeviceAuditEvent "string option" go_time
  | HRegister uid RegisterUserDeviceRequest go_time | HUnregister uid string

fun hub_step :: "hub_op \<Rightarrow> ('a, 'b) connector_hub \<Rightarrow> ('a, 'b) connector_hub" where
  "hub_step (HRevokeDevice u d now) h = fst (hub_revokeDeviceConnectorDevice u d now h)"
| "hub_step (HRevokeToken t e now) h = fst (hub_revokeDeviceConnectorToken t e now h)"
| "hub_step (HCheck claims now) h = fst (hub_isDeviceConnectorRevoked claims now h)"
| "hub_step (HAudit u e rnd now) h = addDeviceAudit u e rnd now h"
| "hub_step (HRegister u req now) h = h\<lparr>hb_userDevices := fst (rg_register u req now (hb_userDevices h))\<rparr>"
| "hub_step (HUnregister u d) h = h\<lparr>hb_userDevices := rg_unregister u d (hb_userDevices h)\<rparr>"

fun hub_op_not_before :: "go_time \<Rightarrow> hub_op \<Rightarrow> bool" where
  "hub_op_not_before t (HRevokeDevice u d now) \<longleftrightarrow> t \<le> now"
| "hub_op_not_before t op \<longleftrightarrow> True"

text \<open>The revocation time on file for a device, in the place the hub looks it up.\<close>

definition revoked_at :: "('a, 'b) connector_hub \<Rightarrow> uid \<Rightarrow> string \<Rightarrow> go_time option" where
  "revoked_at h u d =
     (case connectorRuntime h of
        Some s \<Rightarrow> nm_get (sh_revokedConnectorDevices s) u d
      | None \<Rightarrow> nm_get (rl_devices (hb_deviceRevokes h)) u d)"

lemma hub_set_shared_simps [simp]:
  "connectorRuntime (hub_set_shared s h) = Some s" "hb_deviceAuthorization (hub_set_shared s h) = hb_deviceAuthorization h"
  by (simp_all add: hub_set_shared_def connectorRuntime_def)

lemma hub_step_authorization: "hb_deviceAuthorization h = None \<Longrightarrow> hb_deviceAuthorization (hub_step op h) = None"
  by (cases op) (simp_all add: hub_revokeDeviceConnectorDevice_def hub_revokeDeviceConnectorToken_def
      hub_isDeviceConnectorRevoked_def addDeviceAudit_def split: option.split prod.split)

lemma rg_shared_revokes:
  "map_option sh_revokedConnectorDevices (rg_shared (fst (rg_register u req now r))) =
   map_option sh_revokedConnectorDevices (rg_shared r)"
  "map_option sh_revokedConnectorDevices (rg_shared (rg_unregister u d r)) = map_option sh_revokedConnectorDevices (rg_shared r)"
  "map_option sh_revokedConnectorDevices (rg_shared (rg_revokeDeviceGrantsForDevice u d r)) =
   map_option sh_revokedConnectorDevices (rg_shared r)"
  by (simp_all add: rg_register_def rg_unregister_def rg_revokeDeviceGrantsForDevice_def registerUserDevice_def
      unregisterUserDevice_def sh_revokeDeviceGrantsForDevice_def Let_def split: option.split prod.split)

lemma revoked_at_alt:
  "revoked_at h u d =
     (case map_option sh_revokedConnectorDevices (connectorRuntime h) of
        Some m \<Rightarrow> nm_get m u d | None \<Rightarrow> nm_get (rl_devices (hb_deviceRevokes h)) u d)"
  by (simp add: revoked_at_def split: option.split)

lemma revoked_at_runtime:
  "revoked_at (h\<lparr>hb_userDevices := fst (rg_register v req now (hb_userDevices h))\<rparr>) u d = revoked_at h u d"
  "revoked_at (h\<lparr>hb_userDevices := rg_unregister v e (hb_userDevices h)\<rparr>) u d = revoked_at h u d"
  using rg_shared_revokes(1) [of v req now "hb_userDevices h"] rg_shared_revokes(2) [of v e "hb_userDevices h"]
  unfolding revoked_at_alt connectorRuntime_def by (simp_all cong: option.case_cong)

lemma revoked_at_step:
  assumes auth: "hb_deviceAuthorization h = None" and "hub_op_not_before t op"
    and r: "revoked_at h u d = Some r" "t \<le> r"
  shows "\<exists>r'. revoked_at (hub_step op h) u d = Some r' \<and> t \<le> r'"
proof (cases op)
  case (HRevokeDevice v e now)
  with assms show ?thesis
  proof (cases "connectorRuntime h")
    case None
    with assms HRevokeDevice rg_shared_revokes(3) [of v e "hb_userDevices h"] show ?thesis
      by (auto simp: hub_revokeDeviceConnectorDevice_def revoked_at_def connectorRuntime_def rl_revokeDevice_def gomap_simps
          split: option.splits)
  next
    case (Some s)
    with assms HRevokeDevice show ?thesis
      by (auto simp: hub_revokeDeviceConnectorDevice_def revoked_at_def sh_revokeDeviceConnectorDevice_def gomap_simps)
  qed
next
  case (HRevokeToken k e now)
  with assms show ?thesis
    by (cases "connectorRuntime h")
       (auto simp: hub_revokeDeviceConnectorToken_def revoked_at_def sh_revokeDeviceConnectorToken_def rl_revokeToken_def
         connectorRuntime_def hub_set_shared_def)
next
  case (HCheck c now)
  with assms show ?thesis
    by (cases "connectorRuntime h")
       (auto simp: hub_isDeviceConnectorRevoked_def revoked_at_def sh_isDeviceConnectorRevoked_def rl_isRevoked_def
         connectorRuntime_def hub_set_shared_def Let_def)
next
  case (HAudit v e rnd now)
  with assms show ?thesis
    by (cases "connectorRuntime h")
       (auto simp: addDeviceAudit_def revoked_at_def appendDeviceAudit_def connectorRuntime_def hub_set_shared_def Let_def)
next
  case (HRegister v req now)
  with r show ?thesis by (simp add: revoked_at_runtime)
next
  case (HUnregister v e)
  with r show ?thesis by (simp add: revoked_at_runtime)
qed

lemma revoked_at_run:
  assumes "hb_deviceAuthorization h = None" and "\<forall>op\<in>set ops. hub_op_not_before t op"
    and "revoked_at h u d = Some r" "t \<le> r"
  shows "hb_deviceAuthorization (fold hub_step ops h) = None \<and>
    (\<exists>r'. revoked_at (fold hub_step ops h) u d = Some r' \<and> t \<le> r')"
  using assms
proof (induction ops arbitrary: h r)
  case (Cons op ops)
  from Cons.prems obtain r' where r': "revoked_at (hub_step op h) u d = Some r'" "t \<le> r'"
    using revoked_at_step [of h t op u d r] by auto
  have "hb_deviceAuthorization (hub_step op h) = None" using Cons.prems(1) by (rule hub_step_authorization)
  from Cons.IH [OF this _ r'] Cons.prems(2) show ?case by simp
qed simp

lemma revoked_check:
  assumes "hb_deviceAuthorization h = None" and "revoked_at h (cl_UID claims) (cl_DeviceID claims) = Some r"
    and "case cl_IssuedAt claims of None \<Rightarrow> True | Some i \<Rightarrow> i \<le> r"
  shows "snd (hub_isDeviceConnectorRevoked claims now h)"
  using assms
  by (cases "connectorRuntime h")
     (auto simp: hub_isDeviceConnectorRevoked_def revoked_at_def sh_isDeviceConnectorRevoked_def rl_isRevoked_def is_zero_time_def
       Let_def split: option.splits)

lemma revoked_at_revoke:
  assumes "hb_deviceAuthorization h = None" and "0 < u" and "normalizeUserDeviceID d = Some d"
  shows "hb_deviceAuthorization (fst (hub_revokeDeviceConnectorDevice u d t h)) = None \<and>
    revoked_at (fst (hub_revokeDeviceConnectorDevice u d t h)) u d = Some t"
proof -
  from assms(3) have ne: "trimSpace d \<noteq> [] \<and> d \<noteq> []"
    by (auto simp: normalizeUserDeviceID_def Let_def split: if_splits)
  show ?thesis
  proof (cases "connectorRuntime h")
    case None
    with assms ne rg_shared_revokes(3) [of u d "hb_userDevices h"] show ?thesis
      by (auto simp: hub_revokeDeviceConnectorDevice_def revoked_at_def connectorRuntime_def rl_revokeDevice_def gomap_simps
          split: option.splits)
  qed (use assms ne in \<open>simp add: hub_revokeDeviceConnectorDevice_def revoked_at_def sh_revokeDeviceConnectorDevice_def gomap_simps\<close>)
qed

lemma verified_not_revoked:
  assumes "snd (verifyConnectorRequest verify getUser token scope now h) = Inr claims"
  shows "\<not> snd (hub_isDeviceConnectorRevoked claims now h)"
proof -
  from assms obtain c where c: "ParseDeviceConnectorToken verify token now = Inr c"
    by (auto simp: verifyConnectorRequest_def split: if_splits sum.splits)
  obtain h1 v where v: "hub_isDeviceConnectorRevoked c now h = (h1, v)" by (metis prod.collapse)
  with assms c show ?thesis
    by (cases v; cases "activeUserByID (cl_UID c) getUser") (auto simp: verifyConnectorRequest_def split: if_splits)
qed



text \<open>
  the normal form of the id matters, a defect of the shared state: unlinking a device under an id that
  is not in normal form takes the device off the owner's list, because unregistering normalises the id,
  but files the revocation under the raw id, so the device's connector token stays as valid as before.
\<close>

theorem untrimmed_revocation_lost:
  assumes "hb_deviceAuthorization h = None" and "connectorRuntime h = Some s" and "0 < u"
    and "normalizeUserDeviceID raw = Some d" and "raw \<noteq> d"
  shows "revoked_at (hub_step (HUnregister u raw) (hub_step (HRevokeDevice u raw t) h)) u d = revoked_at h u d \<and>
    nm_get (sh_devices (the (connectorRuntime (hub_step (HUnregister u raw) (hub_step (HRevokeDevice u raw t) h))))) u d = None"
proof -
  from assms(4) have ne: "trimSpace raw \<noteq> [] \<and> raw \<noteq> [] \<and> normalizeUserDeviceID d = Some d"
    using normalize_device_id_idem [OF assms(4)] by (auto simp: normalizeUserDeviceID_def Let_def split: if_splits)
  let ?s = "sh_revokeDeviceConnectorDevice u raw t s"
  have rev: "hub_revokeDeviceConnectorDevice u raw t h = (hub_set_shared ?s h, True)"
    using assms(1-3) ne by (simp add: hub_revokeDeviceConnectorDevice_def)
  have un: "connectorRuntime ((hub_set_shared ?s h)\<lparr>hb_userDevices := rg_unregister u raw (hb_userDevices (hub_set_shared ?s h))\<rparr>) =
      Some (unregisterUserDevice u raw ?s)"
    using assms(3) ne by (simp add: connectorRuntime_def hub_set_shared_def rg_unregister_def)
  have "hub_step (HUnregister u raw) (hub_step (HRevokeDevice u raw t) h) =
      (hub_set_shared ?s h)\<lparr>hb_userDevices := rg_unregister u raw (hb_userDevices (hub_set_shared ?s h))\<rparr>"
    by (simp add: rev)
  with un assms ne show ?thesis
    unfolding revoked_at_def by (simp add: sh_revokeDeviceConnectorDevice_def unregisterUserDevice_def gomap_simps)
qed

theorem untrimmed_revocation_lost_witness:
  "revoked_at (hub_step (HUnregister 5 '' pc'') (hub_step (HRevokeDevice 5 '' pc'' 2000000000) sample_connector_hub)) 5 ''pc'' = None"
proof -
  have "hb_deviceAuthorization sample_connector_hub = None" "connectorRuntime sample_connector_hub = Some newSharedMemoryRuntimeState"
    by (simp_all add: sample_connector_hub_def connectorRuntime_def)
  moreover have "normalizeUserDeviceID '' pc'' = Some ''pc''" by code_simp
  moreover have "revoked_at sample_connector_hub 5 ''pc'' = None" by code_simp
  ultimately show ?thesis
    using untrimmed_revocation_lost [of sample_connector_hub newSharedMemoryRuntimeState 5 "'' pc''" "''pc''" 2000000000] by simp
qed

end
