(* ===== verification/TaskLedger.thy ===== *)
theory TaskLedger
  imports RuntimeTypes "HOL-Library.Product_Lexorder" "HOL-Library.List_Lexorder" "HOL-Library.Char_ord"
begin

text \<open>
  The ledger of agent runs (\<open>server/db/taskstatus\<close>): every run of every agent in a topic, the projections
  that older clients read, the outbox of notifications, and the connection generations of bots. The tables
  are what the SQL statements make of them; the two dialects differ in the update time of a source projection
  only, which is MySQL's here. Strings are compared byte by byte. An operation runs in one
  transaction with one reading of the clock; \<open>works\<close> says whether all its statements and the commit
  succeed, and when they do not nothing is changed.
\<close>

section \<open>Task states\<close>

record ConversationTaskStatus =
  ts_TopicID :: string
  ts_RunID :: string
  ts_State :: string
  ts_Summary :: string
  ts_Error :: string
  ts_SourceUID :: uid
  ts_UpdatedAt :: go_time
  ts_EventUpdatedAt :: go_time
  ts_ExpiresAt :: "go_time option"

definition IsTerminalConversationTaskState :: "string \<Rightarrow> bool" where
  "IsTerminalConversationTaskState state \<longleftrightarrow> state \<in> {''completed'', ''failed'', ''cancelled'', ''stale''}"

definition active_state :: "string \<Rightarrow> bool" where
  "active_state state \<longleftrightarrow> state = ''running'' \<or> state = ''waiting''"

definition unexpired :: "go_time \<Rightarrow> ConversationTaskStatus \<Rightarrow> bool" where
  "unexpired now s \<longleftrightarrow> (case ts_ExpiresAt s of None \<Rightarrow> True | Some e \<Rightarrow> e > now)"

datatype task_error = TaskInvalid | TaskStale | TaskRunTerminal | TaskRunSuperseded | TaskDatabase

definition ValidateConversationTaskStatusTransition ::
  "ConversationTaskStatus \<Rightarrow> ConversationTaskStatus \<Rightarrow> go_time \<Rightarrow> task_error option" where
  "ValidateConversationTaskStatusTransition current new now =
     (if \<not> is_zero_time (ts_EventUpdatedAt current) \<and> \<not> is_zero_time (ts_EventUpdatedAt new) \<and>
         ts_EventUpdatedAt new < ts_EventUpdatedAt current then Some TaskStale
      else if ts_RunID current = ts_RunID new \<and> IsTerminalConversationTaskState (ts_State current) \<and>
         \<not> IsTerminalConversationTaskState (ts_State new) then Some TaskRunTerminal
      else if ts_RunID current \<noteq> [] \<and> ts_RunID current \<noteq> ts_RunID new \<and> IsTerminalConversationTaskState (ts_State new) \<and>
         active_state (ts_State current) \<and> unexpired now current then Some TaskRunSuperseded
      else None)"

definition maxConversationTaskStatusFutureClockSkew :: duration where
  "maxConversationTaskStatusFutureClockSkew = 5 * go_minute"

definition BoundConversationTaskStatusEventTime :: "go_time \<Rightarrow> go_time \<Rightarrow> go_time" where
  "BoundConversationTaskStatusEventTime eventAt receivedAt =
     (if eventAt > receivedAt + maxConversationTaskStatusFutureClockSkew then receivedAt else eventAt)"

definition microseconds :: "go_time \<Rightarrow> go_time" where
  "microseconds t = t - t mod 1000"

definition PrepareConversationTaskStatusForStore :: "ConversationTaskStatus \<Rightarrow> go_time \<Rightarrow> ConversationTaskStatus" where
  "PrepareConversationTaskStatusForStore s receivedAt =
     (let event = (if is_zero_time (ts_EventUpdatedAt s) then receivedAt else ts_EventUpdatedAt s)
      in s\<lparr>ts_EventUpdatedAt := microseconds (BoundConversationTaskStatusEventTime event receivedAt), ts_UpdatedAt := receivedAt\<rparr>)"

section \<open>Tables\<close>

text \<open>
  A row of \<open>conversation_task_statuses\<close> has a state and the revision the ledger stamped it with; a source
  of 0 is NULL. The JSON of an event leaves out the publisher's time.
\<close>

record topic_row =
  tr_status :: ConversationTaskStatus
  tr_ledger :: "go_time option"

record outbox_row =
  ob_id :: nat
  ob_status :: ConversationTaskStatus
  ob_claim :: string
  ob_available :: go_time

record task_db =
  td_runs :: "(nat \<times> ConversationTaskStatus) list"
  td_nextRun :: nat
  td_sources :: "(string \<times> uid, ConversationTaskStatus) gomap"
  td_topics :: "(string, topic_row) gomap"
  td_outbox :: "outbox_row list"
  td_nextEvent :: nat
  td_generations :: "(uid, nat) gomap"

definition run_key :: "ConversationTaskStatus \<Rightarrow> string \<times> uid \<times> string" where
  "run_key s = (ts_TopicID s, ts_SourceUID s, ts_RunID s)"

definition find_run :: "string \<times> uid \<times> string \<Rightarrow> task_db \<Rightarrow> ConversationTaskStatus option" where
  "find_run k db = map_option snd (List.find (\<lambda>r. run_key (snd r) = k) (td_runs db))"

text \<open>\<open>INSERT ... ON CONFLICT (topic_id, source_uid, run_id) DO UPDATE\<close>, when \<open>upd\<close> says so.\<close>

definition put_run :: "(ConversationTaskStatus \<Rightarrow> bool) \<Rightarrow> ConversationTaskStatus \<Rightarrow> task_db \<Rightarrow> task_db" where
  "put_run upd s db =
     (if find_run (run_key s) db \<noteq> None
      then db\<lparr>td_runs := map (\<lambda>(i, r). (i, if run_key r = run_key s \<and> upd r then s else r)) (td_runs db)\<rparr>
      else db\<lparr>td_runs := td_runs db @ [(td_nextRun db, s)], td_nextRun := Suc (td_nextRun db)\<rparr>)"

text \<open>\<open>ORDER BY ... DESC LIMIT 1\<close>.\<close>

fun first_by :: "('a \<Rightarrow> 'k::linorder) \<Rightarrow> 'a list \<Rightarrow> 'a option" where
  "first_by key [] = None"
| "first_by key (x # xs) =
     (case first_by key xs of None \<Rightarrow> Some x | Some y \<Rightarrow> if key x < key y then Some y else Some x)"

section \<open>Statements\<close>

definition idle_status :: "string \<Rightarrow> go_time \<Rightarrow> ConversationTaskStatus" where
  "idle_status topic now =
     \<lparr>ts_TopicID = topic, ts_RunID = [], ts_State = ''idle'', ts_Summary = [], ts_Error = [], ts_SourceUID = 0,
      ts_UpdatedAt = now, ts_EventUpdatedAt = zero_time, ts_ExpiresAt = None\<rparr>"

definition import_newer :: "ConversationTaskStatus \<Rightarrow> ConversationTaskStatus \<Rightarrow> bool" where
  "import_newer src run \<longleftrightarrow>
     ts_EventUpdatedAt src > ts_EventUpdatedAt run \<and>
     \<not> (IsTerminalConversationTaskState (ts_State run) \<and> \<not> IsTerminalConversationTaskState (ts_State src))"

definition importRuns :: "(string \<Rightarrow> bool) \<Rightarrow> task_db \<Rightarrow> task_db" where
  "importRuns topics db =
     fold (\<lambda>src. put_run (import_newer src) src) (filter (\<lambda>src. topics (ts_TopicID src)) (gm_values (td_sources db))) db"

text \<open>What an older binary wrote to a topic's row goes to the source projection, unless that is ahead of it.\<close>

definition legacy_behind :: "ConversationTaskStatus \<Rightarrow> ConversationTaskStatus \<Rightarrow> go_time \<Rightarrow> bool" where
  "legacy_behind src new now \<longleftrightarrow>
     (active_state (ts_State src) \<and> unexpired now src \<and> ts_RunID src \<noteq> ts_RunID new \<and> \<not> active_state (ts_State new)) \<or>
     (ts_RunID src = ts_RunID new \<and> IsTerminalConversationTaskState (ts_State src) \<and>
      \<not> IsTerminalConversationTaskState (ts_State new)) \<or>
     (ts_RunID src, ts_State src, ts_Summary src, ts_Error src, ts_ExpiresAt src) =
     (ts_RunID new, ts_State new, ts_Summary new, ts_Error new, ts_ExpiresAt new)"

definition reconcileLegacyConversationTaskStatuses :: "go_time \<Rightarrow> string \<Rightarrow> task_db \<Rightarrow> task_db" where
  "reconcileLegacyConversationTaskStatuses now topic db =
     (case map_of (td_topics db) topic of
        None \<Rightarrow> db
      | Some row \<Rightarrow>
          let s = tr_status row; key = (topic, ts_SourceUID s);
              new = s\<lparr>ts_TopicID := topic, ts_EventUpdatedAt := ts_UpdatedAt s, ts_UpdatedAt := now\<rparr>
          in if ts_SourceUID s = 0 \<or> tr_ledger row = Some (ts_UpdatedAt s) then db
             else case map_of (td_sources db) key of
               None \<Rightarrow> db\<lparr>td_sources := gm_put key new (td_sources db)\<rparr>
             | Some src \<Rightarrow> if legacy_behind src new now then db else db\<lparr>td_sources := gm_put key new (td_sources db)\<rparr>)"

type_synonym ledger = "(go_time \<Rightarrow> string \<Rightarrow> task_db \<Rightarrow> task_db) option"

definition taskLedger :: ledger where
  "taskLedger = Some reconcileLegacyConversationTaskStatuses"

definition lockTopic :: "ledger \<Rightarrow> go_time \<Rightarrow> string \<Rightarrow> task_db \<Rightarrow> task_db" where
  "lockTopic l now topic db =
     (let db = (if map_of (td_topics db) topic \<noteq> None then db
                else db\<lparr>td_topics := gm_put topic \<lparr>tr_status = idle_status topic now, tr_ledger = None\<rparr> (td_topics db)\<rparr>);
          db = (case l of None \<Rightarrow> db | Some reconcile \<Rightarrow> reconcile now topic db)
      in importRuns (\<lambda>t. t = topic) db)"

definition run_order :: "nat \<times> ConversationTaskStatus \<Rightarrow> bool \<times> int \<times> int \<times> nat" where
  "run_order r = (active_state (ts_State (snd r)), ts_EventUpdatedAt (snd r), ts_SourceUID (snd r), fst r)"

definition source_order :: "nat \<times> ConversationTaskStatus \<Rightarrow> bool \<times> int \<times> nat" where
  "source_order r = (active_state (ts_State (snd r)), ts_EventUpdatedAt (snd r), fst r)"

definition ledger_aggregate :: "string \<Rightarrow> go_time \<Rightarrow> task_db \<Rightarrow> ConversationTaskStatus" where
  "ledger_aggregate topic now db =
     (case first_by run_order (filter (\<lambda>r. ts_TopicID (snd r) = topic \<and> unexpired now (snd r)) (td_runs db)) of
        None \<Rightarrow> idle_status topic now
      | Some r \<Rightarrow> snd r)"

definition source_projection :: "ConversationTaskStatus \<Rightarrow> go_time \<Rightarrow> task_db \<Rightarrow> ConversationTaskStatus" where
  "source_projection s now db =
     (case first_by source_order (filter (\<lambda>r. ts_TopicID (snd r) = ts_TopicID s \<and> ts_SourceUID (snd r) = ts_SourceUID s \<and>
              unexpired now (snd r)) (td_runs db)) of
        None \<Rightarrow> s
      | Some r \<Rightarrow> snd r)"

text \<open>The revision of a topic is later than the one before, whatever the clock says.\<close>

definition next_revision :: "go_time \<Rightarrow> go_time option \<Rightarrow> go_time" where
  "next_revision now old = (case old of None \<Rightarrow> now | Some t \<Rightarrow> max now (t + 1000))"

definition topic_revision :: "string \<Rightarrow> task_db \<Rightarrow> go_time option" where
  "topic_revision topic db = map_option (\<lambda>row. ts_UpdatedAt (tr_status row)) (map_of (td_topics db) topic)"

definition outbox_event :: "nat \<Rightarrow> ConversationTaskStatus \<Rightarrow> go_time \<Rightarrow> outbox_row" where
  "outbox_event i s now = \<lparr>ob_id = i, ob_status = s\<lparr>ts_EventUpdatedAt := zero_time\<rparr>, ob_claim = [], ob_available = now\<rparr>"

definition ledger_write :: "ConversationTaskStatus \<Rightarrow> go_time \<Rightarrow> task_db \<Rightarrow> task_db \<times> ConversationTaskStatus" where
  "ledger_write s now db =
     (let db = put_run (\<lambda>_. True) s db;
          projection = source_projection s now db;
          db = db\<lparr>td_sources := gm_put (ts_TopicID projection, ts_SourceUID projection) projection (td_sources db)\<rparr>;
          aggregate = ledger_aggregate (ts_TopicID s) now db;
          revision = next_revision now (topic_revision (ts_TopicID s) db);
          aggregate = aggregate\<lparr>ts_UpdatedAt := revision\<rparr>;
          db = db\<lparr>td_topics := gm_put (ts_TopicID s) \<lparr>tr_status = aggregate, tr_ledger = Some revision\<rparr> (td_topics db),
                  td_outbox := td_outbox db @ [outbox_event (td_nextEvent db) s now], td_nextEvent := Suc (td_nextEvent db)\<rparr>
      in (db, aggregate))"

section \<open>Operations\<close>

definition sameReceipt :: "ConversationTaskStatus \<Rightarrow> ConversationTaskStatus \<Rightarrow> bool" where
  "sameReceipt a b \<longleftrightarrow> ts_State a = ts_State b \<and> ts_Summary a = ts_Summary b \<and> ts_Error a = ts_Error b \<and>
     ts_ExpiresAt a = ts_ExpiresAt b"

text \<open>The result is the topic's state and the receipt as it is stored.\<close>

definition Upsert ::
  "ledger \<Rightarrow> bool \<Rightarrow> go_time \<Rightarrow> ConversationTaskStatus \<Rightarrow> task_db \<Rightarrow>
   task_db \<times> (task_error + ConversationTaskStatus \<times> ConversationTaskStatus)" where
  "Upsert l works clock inp db =
     (if ts_TopicID inp = [] \<or> ts_SourceUID inp \<le> 0 then (db, Inl TaskInvalid)
      else if \<not> works then (db, Inl TaskDatabase)
      else let now = microseconds clock;
               locked = lockTopic l now (ts_TopicID inp) db;
               implicitEventTime = is_zero_time (ts_EventUpdatedAt inp);
               s = PrepareConversationTaskStatusForStore inp now
           in case find_run (run_key s) locked of
             None \<Rightarrow> (case ledger_write s now locked of (db, aggregate) \<Rightarrow> (db, Inr (aggregate, s)))
           | Some current \<Rightarrow>
               (case ValidateConversationTaskStatusTransition current s now of
                  Some e \<Rightarrow> (db, Inl e)
                | None \<Rightarrow>
                    if sameReceipt current s \<and>
                       (ts_EventUpdatedAt current = ts_EventUpdatedAt s \<or>
                        (implicitEventTime \<and> IsTerminalConversationTaskState (ts_State s)))
                    then (locked, Inr ((ledger_aggregate (ts_TopicID s) now locked)
                            \<lparr>ts_UpdatedAt := (case topic_revision (ts_TopicID s) locked of None \<Rightarrow> now | Some t \<Rightarrow> t)\<rparr>, current))
                    else (case ledger_write s now locked of (db, aggregate) \<Rightarrow> (db, Inr (aggregate, s)))))"

definition bot_generation :: "uid \<Rightarrow> task_db \<Rightarrow> nat" where
  "bot_generation u db = (case map_of (td_generations db) u of None \<Rightarrow> 0 | Some g \<Rightarrow> g)"

definition BumpBotConnectionGeneration :: "bool \<Rightarrow> uid \<Rightarrow> task_db \<Rightarrow> task_db \<times> nat option" where
  "BumpBotConnectionGeneration works u db =
     (if u \<le> 0 \<or> \<not> works then (db, None)
      else let g = bot_generation u db + 1 in (db\<lparr>td_generations := gm_put u g (td_generations db)\<rparr>, Some g))"

text \<open>The run's state after its bot was lost; the summary is the message in the source, as its UTF-8 bytes.\<close>

definition lost_run :: "string \<Rightarrow> ConversationTaskStatus \<Rightarrow> go_time \<Rightarrow> ConversationTaskStatus" where
  "lost_run summary s now =
     s\<lparr>ts_State := ''stale'', ts_Summary := summary, ts_Error := ''bot disconnected before terminal task status'',
       ts_ExpiresAt := None, ts_UpdatedAt := now,
       ts_EventUpdatedAt := (if ts_EventUpdatedAt s < now then now else ts_EventUpdatedAt s)\<rparr>"

definition MarkStale ::
  "ledger \<Rightarrow> string \<Rightarrow> bool \<Rightarrow> go_time \<Rightarrow> string \<Rightarrow> uid \<Rightarrow> string \<Rightarrow> go_time \<Rightarrow> nat \<Rightarrow> task_db \<Rightarrow>
   task_db \<times> (task_error + ConversationTaskStatus option)" where
  "MarkStale l summary works clock topic source run cutoff generation db =
     (if topic = [] \<or> source \<le> 0 \<or> run = [] then (db, Inl TaskInvalid)
      else if \<not> works then (db, Inl TaskDatabase)
      else if bot_generation source db \<noteq> generation then (db, Inr None)
      else let now = microseconds clock;
               locked = lockTopic l now topic (db\<lparr>td_generations := gm_put source generation (td_generations db)\<rparr>)
           in case find_run (topic, source, run) locked of
             None \<Rightarrow> (db, Inr None)
           | Some s \<Rightarrow>
               if \<not> active_state (ts_State s) \<or> ts_UpdatedAt s > cutoff then (db, Inr None)
               else (case ledger_write (lost_run summary s now) now locked of (db, aggregate) \<Rightarrow> (db, Inr (Some aggregate))))"

text \<open>Rows another worker holds a lock on are skipped: \<open>skip\<close> says which.\<close>

definition claim_limit :: "int \<Rightarrow> nat" where
  "claim_limit n = (if n \<le> 0 \<or> n > 100 then 100 else nat n)"

definition claim_lease :: "duration \<Rightarrow> duration" where
  "claim_lease d = (if d < go_second then 30 * go_second else d)"

definition ClaimEvents ::
  "string \<Rightarrow> (nat \<Rightarrow> bool) \<Rightarrow> bool \<Rightarrow> go_time \<Rightarrow> int \<Rightarrow> duration \<Rightarrow> task_db \<Rightarrow> task_db \<times> outbox_row list option" where
  "ClaimEvents token skip works clock limit lease db =
     (if \<not> works then (db, None)
      else let now = microseconds clock;
               events = take (claim_limit limit) (filter (\<lambda>e. ob_available e \<le> now \<and> \<not> skip (ob_id e)) (td_outbox db));
               taken = map ob_id events;
               claim = (\<lambda>e. e\<lparr>ob_claim := token, ob_available := now + claim_lease lease\<rparr>)
           in (db\<lparr>td_outbox := map (\<lambda>e. if ob_id e \<in> set taken then claim e else e) (td_outbox db)\<rparr>,
               Some (map (\<lambda>e. e\<lparr>ob_claim := token\<rparr>) events)))"

definition CompleteEvent :: "bool \<Rightarrow> nat \<Rightarrow> string \<Rightarrow> task_db \<Rightarrow> task_db \<times> bool" where
  "CompleteEvent works i claim db =
     (if claim = [] \<or> \<not> works then (db, False)
      else (db\<lparr>td_outbox := filter (\<lambda>e. \<not> (ob_id e = i \<and> ob_claim e = claim)) (td_outbox db)\<rparr>, True))"

section \<open>Queries\<close>

definition ListRuns :: "string \<Rightarrow> int \<Rightarrow> int \<Rightarrow> task_db \<Rightarrow> (nat \<times> ConversationTaskStatus) list" where
  "ListRuns topic before limit db =
     take (claim_limit limit) (rev (sort_key fst
       (filter (\<lambda>r. ts_TopicID (snd r) = topic \<and> (before > 0 \<longrightarrow> int (fst r) < before)) (td_runs db))))"

definition latest_order :: "go_time \<Rightarrow> nat \<times> ConversationTaskStatus \<Rightarrow> bool \<times> int \<times> nat" where
  "latest_order now r = (active_state (ts_State (snd r)) \<and> unexpired now (snd r), ts_EventUpdatedAt (snd r), fst r)"

definition ForSource :: "go_time \<Rightarrow> string \<Rightarrow> uid \<Rightarrow> task_db \<Rightarrow> task_db \<times> ConversationTaskStatus option" where
  "ForSource now topic source db =
     (let db = importRuns (\<lambda>t. t = topic) db
      in (db, map_option snd (first_by (latest_order now)
                (filter (\<lambda>r. ts_TopicID (snd r) = topic \<and> ts_SourceUID (snd r) = source) (td_runs db)))))"

definition topic_summary :: "go_time \<Rightarrow> task_db \<Rightarrow> string \<Rightarrow> ConversationTaskStatus option" where
  "topic_summary now db topic =
     map_option (\<lambda>r. (snd r)\<lparr>ts_UpdatedAt :=
         (case topic_revision topic db of None \<Rightarrow> ts_UpdatedAt (snd r) | Some t \<Rightarrow> max (ts_UpdatedAt (snd r)) t)\<rparr>)
       (first_by run_order (filter (\<lambda>r. ts_TopicID (snd r) = topic \<and> unexpired now (snd r)) (td_runs db)))"

definition Summaries :: "go_time \<Rightarrow> string list \<Rightarrow> task_db \<Rightarrow> task_db \<times> (string \<Rightarrow> ConversationTaskStatus option)" where
  "Summaries now topics db =
     (if topics = [] then (db, \<lambda>_. None)
      else let db = importRuns (\<lambda>t. t \<in> set topics) db
           in (db, \<lambda>t. if t \<in> set topics then topic_summary now db t else None))"

definition ActiveSources :: "go_time \<Rightarrow> string \<Rightarrow> task_db \<Rightarrow> uid list" where
  "ActiveSources now topic db =
     remdups (map ts_SourceUID (filter (\<lambda>s. ts_TopicID s = topic \<and> active_state (ts_State s) \<and> unexpired now s)
       (map snd (td_runs db) @ gm_values (td_sources db))))"

definition ActiveBefore :: "go_time \<Rightarrow> uid \<Rightarrow> go_time \<Rightarrow> task_db \<Rightarrow> ConversationTaskStatus list" where
  "ActiveBefore now source cutoff db =
     sort_key (\<lambda>s. (ts_UpdatedAt s, ts_TopicID s, ts_SourceUID s, ts_RunID s)) (filter (\<lambda>s. active_state (ts_State s) \<and> ts_UpdatedAt s \<le> cutoff \<and> unexpired now s \<and>
         (source > 0 \<longrightarrow> ts_SourceUID s = source))
       (map snd (td_runs db) @ filter (\<lambda>s. find_run (run_key s) db = None) (gm_values (td_sources db))))"

end
