(* ===== verification/Hub.thy ===== *)
theory Hub
  imports Attention Revocation TaskLedger
begin

text \<open>
  The connections of one server (\<open>server/wshandler.go\<close>, \<open>server/wspump.go\<close>): which clients are
  registered, which connection serves which device, and what happens when a connection comes, is
  replaced, overflows or goes. A pointer to a client is an address; \<open>hub_memory\<close> is what it points to.
  The bytes a client would be sent are the messages themselves (JSON marshalling does not fail on
  them). Calls to components that are not modelled are recorded in order: cancellations handed to the
  thin tool router, presence notices, and the timers that recover the tasks of a bot.
\<close>

section \<open>Messages\<close>

datatype json = JNull | JBool bool | JNum int | JStr string | JArr "json list" | JObj "(string \<times> json) list"

record MsgDeviceRPCError =
  er_Code :: string
  er_Message :: string

record MsgDeviceRPC =
  mr_TargetScope :: string
  mr_ID :: string
  mr_Type :: string
  mr_RequestID :: string
  mr_GrantID :: string
  mr_SessionKey :: string
  mr_TopicID :: string
  mr_TopicType :: string
  mr_ActorUserID :: string
  mr_OwnerUserID :: string
  mr_IdentitySource :: string
  mr_AgentID :: string
  mr_AgentBodyID :: string
  mr_DeviceID :: string
  mr_DeviceBodyID :: string
  mr_DeviceInstallationID :: string
  mr_Operation :: string
  mr_ToolName :: string
  mr_Payload :: "(string \<times> json) list"
  mr_Result :: json
  mr_Error :: "MsgDeviceRPCError option"
  mr_CreatedAt :: int
  mr_ExpiresAt :: int

type_synonym metadata = "(string \<times> json) list"

text \<open>Of a content block only its type matters here.\<close>

record MsgServerData =
  sd_Topic :: string
  sd_From :: string
  sd_SeqID :: int
  sd_Type :: string
  sd_MsgType :: string
  sd_Content :: json
  sd_Metadata :: metadata
  sd_BlockTypes :: "string list"

text \<open>
  A control message is an acknowledgement: id, code, text, parameters; the topic it may repeat is left out. A
  notice has a topic, an author, what happened and a message number; the status of agent work is the topic's, the
  reporting run's and the number of the event.
\<close>

datatype ServerMessage =
    CtrlMessage string nat string "(string \<times> json) list"
  | DeviceRPCMessage MsgDeviceRPC
  | DeviceGrantRenewalMessage string string "ScopedDeviceGrant option"
  | InfoMessage string string string int
  | DataMessage MsgServerData
  | TaskStatusMessage ConversationTaskStatus "ConversationTaskStatus option" nat

section \<open>Clients and the hub\<close>

type_synonym client_ref = nat

record Client =
  wc_uid :: uid
  wc_accountType :: AccountType
  wc_bodyID :: string
  wc_installationID :: string
  wc_connectionID :: string
  wc_deviceOwnerUID :: uid
  wc_deviceID :: string
  wc_deviceBodyID :: string
  wc_deviceInstallationID :: string
  wc_deviceConnector :: "DeviceConnectorClaims option"
  wc_wikiAgentUID :: uid
  wc_runtimeCapabilities :: "string list"
  wc_messagingAttention :: messagingClientAttention
  wc_send :: "ServerMessage list"
  wc_sendCapacity :: nat
  wc_sendClosed :: bool

text \<open>A call that waits for the result of a device.\<close>

record deviceRPCPending =
  dp_record :: deviceRPCPendingRecord
  dp_requester :: "client_ref option"
  dp_target :: "client_ref option"

datatype thin_tool_call = CancelByRequesterRoute runtimeRoute | CancelByTargetRoute runtimeRoute

record ('a, 'b) Hub =
  hub_nodeID :: string
  hub_connector :: "('a, 'b) connector_hub"
  hub_bodyLeases :: botBodyLeaseManager
  hub_memory :: "client_ref \<Rightarrow> Client"
  hub_clients :: "(uid, client_ref list) gomap"
  hub_clientsByConn :: "(string, client_ref) gomap"
  hub_deviceClients :: "(uid, string, client_ref) nmap"
  hub_deviceRPC :: "(string, deviceRPCPending) gomap"
  hub_rpcTTL :: duration
  hub_botConnectionEpochs :: "(uid, nat) gomap"
  hub_thinToolCalls :: "thin_tool_call list"
  hub_presence :: "(uid \<times> string) list"
  hub_recoveries :: "(uid \<times> go_time) list"
  hub_peers :: "runtimeRoute \<Rightarrow> bool"
  hub_peerSent :: "(runtimeRoute \<times> MsgDeviceRPC) list"

definition hub_client :: "('a, 'b) Hub \<Rightarrow> client_ref \<Rightarrow> Client" where
  "hub_client h c = hub_memory h c"

definition hub_set_client :: "client_ref \<Rightarrow> Client \<Rightarrow> ('a, 'b) Hub \<Rightarrow> ('a, 'b) Hub" where
  "hub_set_client c v h = h\<lparr>hub_memory := (hub_memory h)(c := v)\<rparr>"

definition hub_sharedRuntime :: "('a, 'b) Hub \<Rightarrow> sharedMemoryRuntimeState option" where
  "hub_sharedRuntime h = connectorRuntime (hub_connector h)"

definition hub_with_shared :: "(sharedMemoryRuntimeState \<Rightarrow> sharedMemoryRuntimeState) \<Rightarrow> ('a, 'b) Hub \<Rightarrow> ('a, 'b) Hub" where
  "hub_with_shared f h =
     (case hub_sharedRuntime h of
        None \<Rightarrow> h
      | Some s \<Rightarrow> h\<lparr>hub_connector := hub_set_shared (f s) (hub_connector h)\<rparr>)"

definition defaultUserDeviceTTL :: duration where
  "defaultUserDeviceTTL = 5 * go_minute"

text \<open>Twice the 60 seconds after which a silent connection is dropped.\<close>

definition pageVisibilityLeaseTTL :: duration where
  "pageVisibilityLeaseTTL = 2 * (60 * go_second)"

definition no_route :: runtimeRoute where
  "no_route = \<lparr>rt_NodeID = [], rt_ConnectionID = [], rt_ExpiresAt = zero_time\<rparr>"

definition clientRoute :: "client_ref \<Rightarrow> go_time \<Rightarrow> ('a, 'b) Hub \<Rightarrow> runtimeRoute" where
  "clientRoute c now h =
     (if wc_connectionID (hub_client h c) = [] then no_route
      else \<lparr>rt_NodeID = hub_nodeID h, rt_ConnectionID = wc_connectionID (hub_client h c),
            rt_ExpiresAt = now + defaultUserDeviceTTL\<rparr>)"

definition hub_clients_of :: "uid \<Rightarrow> ('a, 'b) Hub \<Rightarrow> client_ref list" where
  "hub_clients_of u h = (case map_of (hub_clients h) u of None \<Rightarrow> [] | Some cs \<Rightarrow> cs)"

definition isClientRegistered :: "client_ref \<Rightarrow> ('a, 'b) Hub \<Rightarrow> bool" where
  "isClientRegistered c h \<longleftrightarrow> c \<in> set (hub_clients_of (wc_uid (hub_client h c)) h)"

definition getClientByConnectionID :: "string \<Rightarrow> ('a, 'b) Hub \<Rightarrow> client_ref option" where
  "getClientByConnectionID connectionID h =
     (if connectionID = [] then None else map_of (hub_clientsByConn h) connectionID)"

definition getDeviceClient :: "uid \<Rightarrow> string \<Rightarrow> ('a, 'b) Hub \<Rightarrow> client_ref option" where
  "getDeviceClient ownerUID deviceID h =
     (if ownerUID \<le> 0 \<or> deviceID = [] then None else nm_get (hub_deviceClients h) ownerUID deviceID)"

definition hasMessagingClient :: "client_ref list \<Rightarrow> ('a, 'b) Hub \<Rightarrow> bool" where
  "hasMessagingClient cs h \<longleftrightarrow> list_ex (\<lambda>c. wc_deviceConnector (hub_client h c) = None) cs"

definition enqueuePresence :: "uid \<Rightarrow> string \<Rightarrow> ('a, 'b) Hub \<Rightarrow> ('a, 'b) Hub" where
  "enqueuePresence u what h = h\<lparr>hub_presence := hub_presence h @ [(u, what)]\<rparr>"

definition hub_thin_tool :: "thin_tool_call \<Rightarrow> ('a, 'b) Hub \<Rightarrow> ('a, 'b) Hub" where
  "hub_thin_tool call h = h\<lparr>hub_thinToolCalls := hub_thinToolCalls h @ [call]\<rparr>"

section \<open>Attention of a client\<close>

definition syncClientMessagingAttention :: "client_ref \<Rightarrow> go_time \<Rightarrow> ('a, 'b) Hub \<Rightarrow> ('a, 'b) Hub" where
  "syncClientMessagingAttention c now h =
     (if wc_deviceConnector (hub_client h c) \<noteq> None \<or> \<not> isClientRegistered c h then h
      else hub_with_shared
             (setMessagingClientAttention (wc_uid (hub_client h c)) (clientRoute c now h)
                (wc_messagingAttention (hub_client h c)) now pageVisibilityLeaseTTL) h)"

definition setClientPageVisibility :: "client_ref \<Rightarrow> string \<Rightarrow> go_time \<Rightarrow> ('a, 'b) Hub \<Rightarrow> ('a, 'b) Hub" where
  "setClientPageVisibility c visibility now h =
     (let v = hub_client h c
      in syncClientMessagingAttention c now
           (hub_set_client c (v\<lparr>wc_messagingAttention :=
              (wc_messagingAttention v)\<lparr>att_Visible := (visibility = ''visible'')\<rparr>\<rparr>) h))"

definition setClientMessagingAttention :: "client_ref \<Rightarrow> messagingClientAttention \<Rightarrow> go_time \<Rightarrow> ('a, 'b) Hub \<Rightarrow> ('a, 'b) Hub" where
  "setClientMessagingAttention c attention now h =
     syncClientMessagingAttention c now
       (hub_set_client c ((hub_client h c)\<lparr>wc_messagingAttention := normalized attention\<rparr>) h)"

definition hub_hasMessagingClientAttention ::
  "uid \<Rightarrow> string \<Rightarrow> string \<Rightarrow> go_time \<Rightarrow> ('a, 'b) Hub \<Rightarrow> ('a, 'b) Hub \<times> bool" where
  "hub_hasMessagingClientAttention u subscriptionID topic now h =
     (if u \<le> 0 then (h, False)
      else if list_ex (\<lambda>c. wc_deviceConnector (hub_client h c) = None \<and>
                suppresses (wc_messagingAttention (hub_client h c)) subscriptionID topic) (hub_clients_of u h)
      then (h, True)
      else case hub_sharedRuntime h of
        None \<Rightarrow> (h, False)
      | Some s \<Rightarrow> (case hasMessagingClientAttention u subscriptionID topic now s of
                     (s, found) \<Rightarrow> (hub_with_shared (\<lambda>_. s) h, found)))"

section \<open>Connections come and go\<close>

definition bindClientRuntimeRoute :: "client_ref \<Rightarrow> go_time \<Rightarrow> ('a, 'b) Hub \<Rightarrow> ('a, 'b) Hub" where
  "bindClientRuntimeRoute c now h = syncClientMessagingAttention c now h"

definition clearClientRuntimeRoute :: "client_ref \<Rightarrow> go_time \<Rightarrow> ('a, 'b) Hub \<Rightarrow> ('a, 'b) Hub" where
  "clearClientRuntimeRoute c now h =
     hub_with_shared (clearMessagingClientAttention (wc_uid (hub_client h c)) (clientRoute c now h)) h"

definition hub_unbindable :: "client_ref \<Rightarrow> ('a, 'b) Hub \<Rightarrow> bool" where
  "hub_unbindable c h \<longleftrightarrow> 0 < wc_deviceOwnerUID (hub_client h c) \<and> wc_deviceID (hub_client h c) \<noteq> []"

definition forget_device :: "Client \<Rightarrow> Client" where
  "forget_device v = v\<lparr>wc_deviceOwnerUID := 0, wc_deviceID := [], wc_deviceBodyID := [], wc_deviceInstallationID := []\<rparr>"

definition unbindDeviceClient :: "client_ref \<Rightarrow> go_time \<Rightarrow> ('a, 'b) Hub \<Rightarrow> ('a, 'b) Hub" where
  "unbindDeviceClient c now h =
     (if \<not> hub_unbindable c h then h
      else let owner = wc_deviceOwnerUID (hub_client h c); device = wc_deviceID (hub_client h c);
               h = (if nm_get (hub_deviceClients h) owner device = Some c
                    then h\<lparr>hub_deviceClients := nm_del owner device (hub_deviceClients h)\<rparr> else h);
               h = hub_with_shared (clearUserDeviceRoute owner device (clientRoute c now h)) h
           in hub_set_client c (forget_device (hub_client h c)) h)"

text \<open>A client that is bound again leaves the device it served before; the device's earlier connection forgets it.\<close>

definition leave_previous_device :: "uid \<Rightarrow> string \<Rightarrow> client_ref \<Rightarrow> ('a, 'b) Hub \<Rightarrow> ('a, 'b) Hub" where
  "leave_previous_device ownerUID deviceID c h =
     (let v = hub_client h c
      in if hub_unbindable c h \<and> (wc_deviceOwnerUID v \<noteq> ownerUID \<or> wc_deviceID v \<noteq> deviceID) \<and>
            nm_get (hub_deviceClients h) (wc_deviceOwnerUID v) (wc_deviceID v) = Some c
         then h\<lparr>hub_deviceClients := nm_del (wc_deviceOwnerUID v) (wc_deviceID v) (hub_deviceClients h)\<rparr> else h)"

definition replaced_route :: "uid \<Rightarrow> string \<Rightarrow> client_ref \<Rightarrow> go_time \<Rightarrow> ('a, 'b) Hub \<Rightarrow> runtimeRoute" where
  "replaced_route ownerUID deviceID c now h =
     (case nm_get (hub_deviceClients h) ownerUID deviceID of
        Some e \<Rightarrow> if e \<noteq> c then clientRoute e now h else no_route
      | None \<Rightarrow> no_route)"

definition forget_existing :: "uid \<Rightarrow> string \<Rightarrow> client_ref \<Rightarrow> ('a, 'b) Hub \<Rightarrow> ('a, 'b) Hub" where
  "forget_existing ownerUID deviceID c h =
     (case nm_get (hub_deviceClients h) ownerUID deviceID of
        Some e \<Rightarrow> if e \<noteq> c then hub_set_client e (forget_device (hub_client h e)) h else h
      | None \<Rightarrow> h)"

definition serve_device :: "uid \<Rightarrow> UserDevice \<Rightarrow> client_ref \<Rightarrow> ('a, 'b) Hub \<Rightarrow> ('a, 'b) Hub" where
  "serve_device ownerUID device c h =
     hub_set_client c ((hub_client h c)\<lparr>wc_deviceOwnerUID := ownerUID, wc_deviceID := ud_DeviceID device,
         wc_deviceBodyID := ud_BodyID device, wc_deviceInstallationID := ud_InstallationID device\<rparr>)
       (h\<lparr>hub_deviceClients := nm_put ownerUID (ud_DeviceID device) c (hub_deviceClients h)\<rparr>)"

definition bindDeviceClient :: "uid \<Rightarrow> UserDevice \<Rightarrow> client_ref \<Rightarrow> go_time \<Rightarrow> ('a, 'b) Hub \<Rightarrow> ('a, 'b) Hub" where
  "bindDeviceClient ownerUID device c now h =
     (if ownerUID \<le> 0 \<or> ud_DeviceID device = [] then h
      else let h = leave_previous_device ownerUID (ud_DeviceID device) c h;
               replacedRoute = replaced_route ownerUID (ud_DeviceID device) c now h;
               h = serve_device ownerUID device c (forget_existing ownerUID (ud_DeviceID device) c h);
               h = hub_with_shared (bindUserDeviceRoute ownerUID device
                     ((clientRoute c now h)\<lparr>rt_ExpiresAt := now + defaultUserDeviceTTL\<rparr>) now) h
           in if rt_NodeID replacedRoute \<noteq> [] \<and> rt_ConnectionID replacedRoute \<noteq> []
              then hub_thin_tool (CancelByTargetRoute replacedRoute) h else h)"

definition hub_releaseBotBodyLease :: "client_ref \<Rightarrow> ('a, 'b) Hub \<Rightarrow> ('a, 'b) Hub" where
  "hub_releaseBotBodyLease c h =
     (let v = hub_client h c
      in if wc_accountType v \<noteq> AccountBot then h
         else case lm_release (wc_uid v) (wc_bodyID v) (wc_connectionID v) (hub_bodyLeases h, hub_sharedRuntime h) of
           ((m, sh), _) \<Rightarrow> hub_with_shared (\<lambda>s. case sh of Some s' \<Rightarrow> s' | None \<Rightarrow> s) (h\<lparr>hub_bodyLeases := m\<rparr>))"

definition hub_renewBotBodyLease :: "client_ref \<Rightarrow> go_time \<Rightarrow> ('a, 'b) Hub \<Rightarrow> ('a, 'b) Hub" where
  "hub_renewBotBodyLease c now h =
     (let v = hub_client h c
      in if wc_accountType v \<noteq> AccountBot then h
         else case lm_renew (wc_uid v) (wc_bodyID v) (wc_connectionID v) now (hub_bodyLeases h, hub_sharedRuntime h) of
           ((m, sh), _) \<Rightarrow> hub_with_shared (\<lambda>s. case sh of Some s' \<Rightarrow> s' | None \<Rightarrow> s) (h\<lparr>hub_bodyLeases := m\<rparr>))"

definition closeSend :: "client_ref \<Rightarrow> ('a, 'b) Hub \<Rightarrow> ('a, 'b) Hub" where
  "closeSend c h = hub_set_client c ((hub_client h c)\<lparr>wc_sendClosed := True\<rparr>) h"

text \<open>Whether the client was there, and whether it was the last of its user.\<close>

definition removeClient :: "client_ref \<Rightarrow> ('a, 'b) Hub \<Rightarrow> ('a, 'b) Hub \<times> bool \<times> bool" where
  "removeClient c h =
     (let v = hub_client h c
      in case map_of (hub_clients h) (wc_uid v) of
           None \<Rightarrow> (h, False, False)
         | Some cs \<Rightarrow>
             if c \<notin> set cs then (h, False, False)
             else let rest = removeAll c cs;
                      h = h\<lparr>hub_clients := (if rest = [] then gm_del (wc_uid v) (hub_clients h)
                              else gm_put (wc_uid v) rest (hub_clients h)),
                            hub_clientsByConn := (if wc_connectionID v \<noteq> [] \<and>
                                map_of (hub_clientsByConn h) (wc_connectionID v) = Some c
                              then gm_del (wc_connectionID v) (hub_clientsByConn h) else hub_clientsByConn h)\<rparr>
                  in (h, True, wc_deviceConnector v = None \<and> (rest = [] \<or> \<not> hasMessagingClient rest h)))"

definition disconnectClient :: "client_ref \<Rightarrow> go_time \<Rightarrow> ('a, 'b) Hub \<Rightarrow> ('a, 'b) Hub" where
  "disconnectClient c now h =
     (case removeClient c h of (h, removed, lastConn) \<Rightarrow>
        let h = closeSend c h
        in if \<not> removed then h
           else let h = unbindDeviceClient c now
                      (clearClientRuntimeRoute c now
                        (hub_releaseBotBodyLease c
                          (hub_thin_tool (CancelByRequesterRoute (clientRoute c now h)) h)))
                in if lastConn then enqueuePresence (wc_uid (hub_client h c)) ''off'' h else h)"

text \<open>The hub's loop takes a client off its \<open>unregister\<close> channel.\<close>

definition hub_unregister :: "client_ref \<Rightarrow> go_time \<Rightarrow> ('a, 'b) Hub \<Rightarrow> ('a, 'b) Hub" where
  "hub_unregister c now h =
     (case removeClient c h of (h, removed, lastConn) \<Rightarrow>
        if \<not> removed then h
        else let h = unbindDeviceClient c now
                   (clearClientRuntimeRoute c now
                     (hub_releaseBotBodyLease c
                       (closeSend c
                         (hub_thin_tool (CancelByRequesterRoute (clientRoute c now h)) h))));
                 v = hub_client h c
             in if \<not> lastConn then h
                else let h = enqueuePresence (wc_uid v) ''off'' h
                     in if wc_accountType v = AccountBot
                        then h\<lparr>hub_recoveries := hub_recoveries h @ [(wc_uid v, now)]\<rparr> else h)"

definition sendRawToClient :: "client_ref \<Rightarrow> ServerMessage \<Rightarrow> go_time \<Rightarrow> ('a, 'b) Hub \<Rightarrow> ('a, 'b) Hub \<times> bool" where
  "sendRawToClient c m now h =
     (let v = hub_client h c
      in if \<not> wc_sendClosed v \<and> length (wc_send v) < wc_sendCapacity v
         then (hub_set_client c (v\<lparr>wc_send := wc_send v @ [m]\<rparr>) h, True)
         else (disconnectClient c now h, False))"

definition SendToClient :: "client_ref option \<Rightarrow> ServerMessage \<Rightarrow> go_time \<Rightarrow> ('a, 'b) Hub \<Rightarrow> ('a, 'b) Hub" where
  "SendToClient c m now h = (case c of None \<Rightarrow> h | Some c \<Rightarrow> fst (sendRawToClient c m now h))"

definition hub_replaces :: "Client \<Rightarrow> Client \<Rightarrow> bool" where
  "hub_replaces client existing \<longleftrightarrow>
     wc_accountType existing = AccountBot \<and>
     (wc_bodyID existing = wc_bodyID client \<or> (isLegacyBotBodyID (wc_bodyID existing) \<and> \<not> isLegacyBotBodyID (wc_bodyID client)))"

text \<open>The connection id is the argument \<open>fresh\<close> when the client has none yet.\<close>

definition addRegisteredClient ::
  "client_ref \<Rightarrow> string \<Rightarrow> ('a, 'b) Hub \<Rightarrow> ('a, 'b) Hub \<times> bool \<times> client_ref list" where
  "addRegisteredClient c fresh h =
     (let h = (if wc_connectionID (hub_client h c) = []
               then hub_set_client c ((hub_client h c)\<lparr>wc_connectionID := fresh\<rparr>) h else h);
          v = hub_client h c;
          cs = hub_clients_of (wc_uid v) h;
          firstConn = (wc_deviceConnector v = None \<and> \<not> hasMessagingClient cs h);
          replaced = (if wc_accountType v = AccountBot \<and> wc_bodyID v \<noteq> []
                      then filter (\<lambda>e. hub_replaces v (hub_client h e)) cs else []);
          kept = filter (\<lambda>e. e \<notin> set replaced) cs
      in (h\<lparr>hub_clients := gm_put (wc_uid v) (if c \<in> set kept then kept else kept @ [c]) (hub_clients h),
            hub_clientsByConn := (if wc_connectionID v \<noteq> [] then gm_put (wc_connectionID v) c (hub_clientsByConn h)
                                  else hub_clientsByConn h)\<rparr>,
          firstConn, replaced))"

definition retire_replaced :: "go_time \<Rightarrow> client_ref \<Rightarrow> ('a, 'b) Hub \<Rightarrow> ('a, 'b) Hub" where
  "retire_replaced now stale h =
     (let staleRoute = clientRoute stale now h
      in closeSend stale
           (hub_thin_tool (CancelByTargetRoute staleRoute)
             (unbindDeviceClient stale now
               (clearClientRuntimeRoute stale now
                 (hub_thin_tool (CancelByRequesterRoute staleRoute) h)))))"

text \<open>
  The durable connection generation of a bot: no store for it, a failed write, or the new number.
\<close>

datatype generation_bump = NoGenerationStore | BumpFailed | Bumped nat

definition admitClient :: "client_ref \<Rightarrow> string \<Rightarrow> go_time \<Rightarrow> ('a, 'b) Hub \<Rightarrow> ('a, 'b) Hub" where
  "admitClient c fresh now h =
     (case addRegisteredClient c fresh h of (h, firstConn, replaced) \<Rightarrow>
        let h = fold (retire_replaced now) replaced h;
            h = (if firstConn then enqueuePresence (wc_uid (hub_client h c)) ''on'' h else h)
        in bindClientRuntimeRoute c now h)"

definition registerClient ::
  "client_ref \<Rightarrow> string \<Rightarrow> generation_bump \<Rightarrow> go_time \<Rightarrow> ('a, 'b) Hub \<Rightarrow> ('a, 'b) Hub \<times> bool" where
  "registerClient c fresh bump now h =
     (let v = hub_client h c; bot = (wc_accountType v = AccountBot)
      in if bot \<and> \<not> lm_isCurrent (wc_uid v) (wc_bodyID v) (wc_connectionID v) now (hub_bodyLeases h, hub_sharedRuntime h)
         then (closeSend c h, False)
         else if bot \<and> bump = BumpFailed then (closeSend c h, False)
         else let epochs = hub_botConnectionEpochs h;
                  old = (case map_of epochs (wc_uid v) of None \<Rightarrow> 0 | Some n \<Rightarrow> n);
                  h = (if \<not> bot then h
                       else h\<lparr>hub_botConnectionEpochs :=
                              gm_put (wc_uid v) (case bump of Bumped n \<Rightarrow> n | _ \<Rightarrow> old + 1) epochs\<rparr>)
              in (admitClient c fresh now h, True))"

definition disconnectDeviceConnector :: "uid \<Rightarrow> string \<Rightarrow> go_time \<Rightarrow> ('a, 'b) Hub \<Rightarrow> ('a, 'b) Hub" where
  "disconnectDeviceConnector ownerUID deviceID now h =
     (if ownerUID \<le> 0 \<or> trimSpace deviceID = [] then h
      else case nm_get (hub_deviceClients h) ownerUID deviceID of
        None \<Rightarrow> h
      | Some c \<Rightarrow> if wc_deviceConnector (hub_client h c) = None then h else disconnectClient c now h)"

section \<open>Which connection serves a device\<close>

text \<open>
  A device is served by the connection that says so itself, and by no other; the index by connection id
  and the users' sets name the clients they are filed under; a body of a bot has one connection.
\<close>

definition binding_ok :: "('a, 'b) Hub \<Rightarrow> bool" where
  "binding_ok h \<longleftrightarrow> (\<forall>u d c. nm_get (hub_deviceClients h) u d = Some c \<longleftrightarrow>
     0 < u \<and> d \<noteq> [] \<and> wc_deviceOwnerUID (hub_client h c) = u \<and> wc_deviceID (hub_client h c) = d)"

definition index_ok :: "('a, 'b) Hub \<Rightarrow> bool" where
  "index_ok h \<longleftrightarrow>
     (\<forall>k c. map_of (hub_clientsByConn h) k = Some c \<longrightarrow> k \<noteq> [] \<and> wc_connectionID (hub_client h c) = k) \<and>
     (\<forall>u c. c \<in> set (hub_clients_of u h) \<longrightarrow> wc_uid (hub_client h c) = u)"

definition same_bot_body :: "Client \<Rightarrow> Client \<Rightarrow> bool" where
  "same_bot_body v w \<longleftrightarrow> wc_accountType v = AccountBot \<and> wc_accountType w = AccountBot \<and>
     wc_bodyID v = wc_bodyID w \<and> wc_bodyID v \<noteq> []"

definition bodies_ok :: "('a, 'b) Hub \<Rightarrow> bool" where
  "bodies_ok h \<longleftrightarrow> (\<forall>u. \<forall>c \<in> set (hub_clients_of u h). \<forall>e \<in> set (hub_clients_of u h).
     same_bot_body (hub_client h c) (hub_client h e) \<longrightarrow> c = e)"

definition hub_ok :: "('a, 'b) Hub \<Rightarrow> bool" where
  "hub_ok h \<longleftrightarrow> binding_ok h \<and> index_ok h \<and> bodies_ok h"

named_theorems hub_simps \<open>what an update of a hub leaves alone\<close>

lemma with_shared_frame [hub_simps]:
  "hub_memory (hub_with_shared f h) = hub_memory h" "hub_clients (hub_with_shared f h) = hub_clients h"
  "hub_clientsByConn (hub_with_shared f h) = hub_clientsByConn h"
  "hub_deviceClients (hub_with_shared f h) = hub_deviceClients h" "hub_client (hub_with_shared f h) c = hub_client h c"
  "hub_clients_of u (hub_with_shared f h) = hub_clients_of u h" "hub_nodeID (hub_with_shared f h) = hub_nodeID h"
  "hub_deviceRPC (hub_with_shared f h) = hub_deviceRPC h" "clientRoute e t (hub_with_shared f h) = clientRoute e t h"
  by (simp_all add: hub_with_shared_def hub_client_def hub_clients_of_def clientRoute_def split: option.split)

lemma hub_ok_with_shared [hub_simps]: "hub_ok (hub_with_shared f h) = hub_ok h"
  by (simp add: hub_ok_def binding_ok_def index_ok_def bodies_ok_def hub_simps)

lemma other_fields_frame [hub_simps]:
  "hub_client (hub_thin_tool x h) c = hub_client h c" "hub_clients_of u (hub_thin_tool x h) = hub_clients_of u h"
  "hub_deviceClients (hub_thin_tool x h) = hub_deviceClients h" "hub_clientsByConn (hub_thin_tool x h) = hub_clientsByConn h"
  "hub_client (enqueuePresence v w h) c = hub_client h c" "hub_clients_of u (enqueuePresence v w h) = hub_clients_of u h"
  "hub_deviceClients (enqueuePresence v w h) = hub_deviceClients h"
  "hub_clientsByConn (enqueuePresence v w h) = hub_clientsByConn h"
  by (simp_all add: hub_thin_tool_def enqueuePresence_def hub_client_def hub_clients_of_def)

lemma hub_ok_cong:
  "hub_memory h = hub_memory h' \<Longrightarrow> hub_clients h = hub_clients h' \<Longrightarrow> hub_clientsByConn h = hub_clientsByConn h' \<Longrightarrow>
   hub_deviceClients h = hub_deviceClients h' \<Longrightarrow> hub_ok h = hub_ok h'"
  by (simp add: hub_ok_def binding_ok_def index_ok_def bodies_ok_def hub_client_def hub_clients_of_def)

lemma hub_ok_events [hub_simps]:
  "hub_ok (hub_thin_tool x h) = hub_ok h" "hub_ok (enqueuePresence v w h) = hub_ok h"
  "hub_ok (h\<lparr>hub_recoveries := rs\<rparr>) = hub_ok h" "hub_ok (h\<lparr>hub_bodyLeases := m\<rparr>) = hub_ok h"
  "hub_ok (h\<lparr>hub_botConnectionEpochs := ep\<rparr>) = hub_ok h" "hub_ok (h\<lparr>hub_deviceRPC := rpc\<rparr>) = hub_ok h"
  "hub_ok (h\<lparr>hub_connector := k\<rparr>) = hub_ok h" "hub_ok (h\<lparr>hub_peerSent := ps\<rparr>) = hub_ok h"
  by (rule hub_ok_cong; simp add: hub_thin_tool_def enqueuePresence_def)+

lemma set_client_frame [hub_simps]:
  "hub_client (hub_set_client c v h) e = (if e = c then v else hub_client h e)"
  "hub_clients_of u (hub_set_client c v h) = hub_clients_of u h"
  "hub_deviceClients (hub_set_client c v h) = hub_deviceClients h"
  "hub_clientsByConn (hub_set_client c v h) = hub_clientsByConn h" "hub_clients (hub_set_client c v h) = hub_clients h"
  by (simp_all add: hub_set_client_def hub_client_def hub_clients_of_def)

lemma hub_ok_leases:
  "hub_ok (hub_releaseBotBodyLease c h) = hub_ok h" "hub_ok (hub_renewBotBodyLease c now h) = hub_ok h"
  by (simp_all add: hub_releaseBotBodyLease_def hub_renewBotBodyLease_def Let_def hub_simps split: prod.split)

text \<open>What never changes about a client that is connected.\<close>

definition client_identity :: "Client \<Rightarrow> uid \<times> AccountType \<times> string \<times> string" where
  "client_identity v = (wc_uid v, wc_accountType v, wc_bodyID v, wc_connectionID v)"

lemma index_bodies_identity:
  assumes "index_ok h \<and> bodies_ok h" and "\<And>c. client_identity (hub_client h' c) = client_identity (hub_client h c)"
    and "hub_clients h' = hub_clients h" and "hub_clientsByConn h' = hub_clientsByConn h"
  shows "index_ok h' \<and> bodies_ok h'"
proof -
  from assms(2) have id: "wc_uid (hub_client h' c) = wc_uid (hub_client h c)"
    "wc_accountType (hub_client h' c) = wc_accountType (hub_client h c)"
    "wc_bodyID (hub_client h' c) = wc_bodyID (hub_client h c)"
    "wc_connectionID (hub_client h' c) = wc_connectionID (hub_client h c)" for c
    by (simp_all add: client_identity_def)
  have cs: "hub_clients_of u h' = hub_clients_of u h" for u by (simp add: hub_clients_of_def assms(3))
  from assms(1) show ?thesis unfolding index_ok_def bodies_ok_def same_bot_body_def id cs assms(4) .
qed

definition same_client :: "Client \<Rightarrow> Client \<Rightarrow> bool" where
  "same_client v w \<longleftrightarrow> client_identity v = client_identity w \<and>
     wc_deviceOwnerUID v = wc_deviceOwnerUID w \<and> wc_deviceID v = wc_deviceID w"

lemma hub_ok_set_client:
  assumes "hub_ok h" and "same_client v (hub_client h c)"
  shows "hub_ok (hub_set_client c v h)"
proof -
  have id: "client_identity (hub_client (hub_set_client c v h) e) = client_identity (hub_client h e)"
    "wc_deviceOwnerUID (hub_client (hub_set_client c v h) e) = wc_deviceOwnerUID (hub_client h e)"
    "wc_deviceID (hub_client (hub_set_client c v h) e) = wc_deviceID (hub_client h e)" for e
    using assms(2) by (simp_all add: same_client_def hub_simps)
  have "index_ok (hub_set_client c v h) \<and> bodies_ok (hub_set_client c v h)"
    by (rule index_bodies_identity [of h]) (use assms(1) in \<open>simp_all only: id set_client_frame(3-) hub_ok_def\<close>)
  moreover have "binding_ok (hub_set_client c v h)"
    using assms(1) unfolding hub_ok_def binding_ok_def id set_client_frame(3-) by blast
  ultimately show ?thesis by (simp add: hub_ok_def)
qed

lemma hub_ok_closeSend: "hub_ok h \<Longrightarrow> hub_ok (closeSend c h)"
  by (simp add: closeSend_def hub_ok_set_client same_client_def client_identity_def)

lemma identity_forget [simp]: "client_identity (forget_device v) = client_identity v"
  by (simp add: client_identity_def forget_device_def)

lemma forgotten [simp]: "wc_deviceOwnerUID (forget_device v) = 0" "wc_deviceID (forget_device v) = []"
  by (simp_all add: forget_device_def)

lemma binding_inj:
  "binding_ok h \<Longrightarrow> 0 < wc_deviceOwnerUID (hub_client h c) \<Longrightarrow> wc_deviceID (hub_client h c) \<noteq> [] \<Longrightarrow>
   wc_deviceOwnerUID (hub_client h e) = wc_deviceOwnerUID (hub_client h c) \<Longrightarrow>
   wc_deviceID (hub_client h e) = wc_deviceID (hub_client h c) \<Longrightarrow> e = c"
  unfolding binding_ok_def by (metis option.inject)

lemma hub_ok_unbind:
  assumes "hub_ok h"
  shows "hub_ok (unbindDeviceClient c now h)"
proof (cases "hub_unbindable c h")
  case True
  let ?u = "wc_deviceOwnerUID (hub_client h c)" and ?d = "wc_deviceID (hub_client h c)"
  let ?h = "unbindDeviceClient c now h"
  from True assms have bound: "nm_get (hub_deviceClients h) ?u ?d = Some c"
    by (simp add: hub_ok_def binding_ok_def hub_unbindable_def)
  have dc: "hub_deviceClients ?h = nm_del ?u ?d (hub_deviceClients h)"
    using True bound by (simp add: unbindDeviceClient_def Let_def hub_simps)
  have cl: "hub_client ?h e = (if e = c then forget_device (hub_client h c) else hub_client h e)" for e
    using True bound by (simp add: unbindDeviceClient_def Let_def hub_simps) (simp add: hub_client_def)
  have rest: "hub_clients ?h = hub_clients h" "hub_clientsByConn ?h = hub_clientsByConn h"
    using True bound by (simp_all add: unbindDeviceClient_def Let_def hub_simps hub_set_client_def)
  have "binding_ok ?h"
    using assms binding_inj [of h c] unfolding hub_ok_def binding_ok_def dc cl by (auto simp: gomap_simps)
  moreover have "index_ok ?h \<and> bodies_ok ?h"
    using assms by (intro index_bodies_identity [OF _ _ rest]) (simp_all add: hub_ok_def cl)
  ultimately show ?thesis by (simp add: hub_ok_def)
qed (use assms in \<open>simp add: unbindDeviceClient_def\<close>)

lemma bind_frame:
  "hub_clients (leave_previous_device u d c h) = hub_clients h" "hub_clientsByConn (leave_previous_device u d c h) = hub_clientsByConn h"
  "hub_client (leave_previous_device u d c h) e = hub_client h e"
  "hub_clients (forget_existing u d c h) = hub_clients h" "hub_clientsByConn (forget_existing u d c h) = hub_clientsByConn h"
  "hub_deviceClients (forget_existing u d c h) = hub_deviceClients h"
  "hub_clients (serve_device u dev c h) = hub_clients h" "hub_clientsByConn (serve_device u dev c h) = hub_clientsByConn h"
  "hub_deviceClients (serve_device u dev c h) = nm_put u (ud_DeviceID dev) c (hub_deviceClients h)"
  by (simp_all add: leave_previous_device_def forget_existing_def serve_device_def hub_set_client_def hub_client_def Let_def
      split: option.split)

lemma bind_clients:
  "hub_client (forget_existing u d c h) e =
     (if nm_get (hub_deviceClients h) u d = Some e \<and> e \<noteq> c then forget_device (hub_client h e) else hub_client h e)"
  "hub_client (serve_device u dev c h) e =
     (if e = c then (hub_client h c)\<lparr>wc_deviceOwnerUID := u, wc_deviceID := ud_DeviceID dev,
         wc_deviceBodyID := ud_BodyID dev, wc_deviceInstallationID := ud_InstallationID dev\<rparr> else hub_client h e)"
  by (auto simp: forget_existing_def serve_device_def hub_set_client_def hub_client_def split: option.split)

text \<open>After leaving, the index is right for every other connection and has nothing for this one elsewhere.\<close>

lemma leave_binding:
  assumes "binding_ok h" and "0 < u" and "d \<noteq> []"
  shows "nm_get (hub_deviceClients (leave_previous_device u d c h)) w x = Some e \<longleftrightarrow>
    0 < w \<and> x \<noteq> [] \<and> wc_deviceOwnerUID (hub_client h e) = w \<and> wc_deviceID (hub_client h e) = x \<and> (e = c \<longrightarrow> w = u \<and> x = d)"
proof -
  from assms(1) have b: "nm_get (hub_deviceClients h) w x = Some e \<longleftrightarrow>
      0 < w \<and> x \<noteq> [] \<and> wc_deviceOwnerUID (hub_client h e) = w \<and> wc_deviceID (hub_client h e) = x" for w x e
    by (simp add: binding_ok_def)
  then show ?thesis
    using binding_inj [OF assms(1), of c e]
    by (auto simp: leave_previous_device_def Let_def hub_unbindable_def gomap_simps)
qed

lemma hub_ok_bind:
  assumes ok: "hub_ok h"
  shows "hub_ok (bindDeviceClient u device c now h)"
proof (cases "u \<le> 0 \<or> ud_DeviceID device = []")
  case False
  let ?d = "ud_DeviceID device"
  let ?l = "leave_previous_device u ?d c h"
  let ?h = "serve_device u device c (forget_existing u ?d c ?l)"
  have l: "nm_get (hub_deviceClients ?l) w x = Some e \<longleftrightarrow>
    0 < w \<and> x \<noteq> [] \<and> wc_deviceOwnerUID (hub_client h e) = w \<and> wc_deviceID (hub_client h e) = x \<and> (e = c \<longrightarrow> w = u \<and> x = ?d)" for w x e
    using leave_binding [of h u ?d c] ok False by (auto simp: hub_ok_def)
  have "binding_ok ?h"
    using False unfolding binding_ok_def bind_frame bind_clients by (auto simp: gomap_simps l)
  moreover have id: "client_identity (hub_client ?h e) = client_identity (hub_client h e)" for e
    by (simp add: bind_frame bind_clients client_identity_def forget_device_def)
  have "index_ok ?h \<and> bodies_ok ?h"
    by (rule index_bodies_identity [of h]) (use ok id in \<open>simp_all only: bind_frame hub_ok_def\<close>)
  ultimately have "hub_ok ?h" by (simp add: hub_ok_def)
  with False show ?thesis by (simp add: bindDeviceClient_def Let_def hub_simps)
qed (use ok in \<open>auto simp: bindDeviceClient_def\<close>)

lemma remove_core:
  "hub_client (fst (removeClient c h)) e = hub_client h e" "hub_deviceClients (fst (removeClient c h)) = hub_deviceClients h"
  "set (hub_clients_of u (fst (removeClient c h))) \<subseteq> set (hub_clients_of u h)"
  "map_of (hub_clientsByConn (fst (removeClient c h))) k = Some e \<Longrightarrow> map_of (hub_clientsByConn h) k = Some e"
  by (auto simp: removeClient_def hub_client_def hub_clients_of_def Let_def gomap_simps split: option.splits if_splits)

lemma hub_ok_remove:
  assumes "hub_ok h"
  shows "hub_ok (fst (removeClient c h))"
proof -
  from remove_core(3) [of _ c h] have sub: "e \<in> set (hub_clients_of u (fst (removeClient c h))) \<Longrightarrow> e \<in> set (hub_clients_of u h)" for u e
    by blast
  from assms have "index_ok (fst (removeClient c h))"
    unfolding hub_ok_def index_ok_def remove_core(1) by (blast dest: sub remove_core(4))
  moreover from assms have "bodies_ok (fst (removeClient c h))"
    unfolding hub_ok_def bodies_ok_def remove_core(1) by (blast dest: sub)
  moreover from assms have "binding_ok (fst (removeClient c h))"
    by (simp add: hub_ok_def binding_ok_def remove_core(1,2))
  ultimately show ?thesis by (simp add: hub_ok_def)
qed

lemma hub_ok_clear: "hub_ok (clearClientRuntimeRoute c now h) = hub_ok h"
  by (simp add: clearClientRuntimeRoute_def hub_simps)

lemma hub_ok_sync: "hub_ok (syncClientMessagingAttention c now h) = hub_ok h"
  by (simp add: syncClientMessagingAttention_def hub_simps)

lemma hub_ok_disconnect: "hub_ok h \<Longrightarrow> hub_ok (disconnectClient c now h)"
  using hub_ok_remove [of h c]
  by (auto simp: disconnectClient_def Let_def hub_simps hub_ok_clear hub_ok_leases intro!: hub_ok_unbind hub_ok_closeSend
      split: prod.split)

lemma hub_ok_unregister: "hub_ok h \<Longrightarrow> hub_ok (hub_unregister c now h)"
  using hub_ok_remove [of h c]
  by (auto simp: hub_unregister_def Let_def hub_simps hub_ok_clear hub_ok_leases intro!: hub_ok_unbind hub_ok_closeSend
      split: prod.split)

lemma hub_ok_send: "hub_ok h \<Longrightarrow> hub_ok (fst (sendRawToClient c m now h))"
  by (simp add: sendRawToClient_def Let_def hub_ok_disconnect hub_ok_set_client same_client_def client_identity_def)

lemma hub_ok_SendToClient: "hub_ok h \<Longrightarrow> hub_ok (SendToClient c m now h)"
  by (simp add: SendToClient_def hub_ok_send split: option.split)

text \<open>The kept clients of a user and the new one are on different bodies.\<close>

lemma hub_ok_add:
  assumes "hub_ok h" and "wc_connectionID (hub_client h c) \<noteq> []"
  shows "hub_ok (fst (addRegisteredClient c fresh h))"
proof -
  let ?h = "fst (addRegisteredClient c fresh h)" and ?v = "hub_client h c"
  let ?cs = "hub_clients_of (wc_uid ?v) h"
  let ?replaced = "if wc_accountType ?v = AccountBot \<and> wc_bodyID ?v \<noteq> [] then filter (\<lambda>e. hub_replaces ?v (hub_client h e)) ?cs else []"
  let ?kept = "filter (\<lambda>e. e \<notin> set ?replaced) ?cs"
  have cl: "hub_client ?h e = hub_client h e" "hub_deviceClients ?h = hub_deviceClients h" for e
    using assms(2) by (simp_all add: addRegisteredClient_def Let_def hub_client_def)
  have byconn: "map_of (hub_clientsByConn ?h) k = (if k = wc_connectionID ?v then Some c else map_of (hub_clientsByConn h) k)" for k
    using assms(2) by (simp add: addRegisteredClient_def Let_def gomap_simps)
  have of: "set (hub_clients_of u ?h) = (if u = wc_uid ?v then insert c (set ?kept) else set (hub_clients_of u h))" for u
    using assms(2) by (auto simp: addRegisteredClient_def Let_def hub_clients_of_def gomap_simps)
  from assms(1) have ok: "index_ok h" "bodies_ok h" "binding_ok h" by (simp_all add: hub_ok_def)
  have "index_ok ?h"
    using ok(1) assms(2) by (auto simp: index_ok_def cl byconn of split: if_splits)
  moreover have "bodies_ok ?h"
  proof -
    have kept: "e \<in> set ?kept \<Longrightarrow> e \<in> set ?cs \<and> \<not> same_bot_body ?v (hub_client h e)" for e
      by (auto simp: hub_replaces_def same_bot_body_def)
    have sym: "same_bot_body v w = same_bot_body w v" for v w by (auto simp: same_bot_body_def)
    define K where "K = insert c (set ?kept)"
    have "\<forall>x \<in> K. \<forall>e \<in> K. same_bot_body (hub_client h x) (hub_client h e) \<longrightarrow> x = e"
      using kept ok(2) sym unfolding bodies_ok_def K_def by blast
    moreover have "set (hub_clients_of u ?h) = (if u = wc_uid ?v then K else set (hub_clients_of u h))" for u
      unfolding of K_def by simp
    ultimately show ?thesis using ok(2) unfolding bodies_ok_def cl by (auto split: if_splits)
  qed
  moreover have "binding_ok ?h" using ok(3) by (simp add: binding_ok_def cl)
  ultimately show ?thesis by (simp add: hub_ok_def)
qed

lemma hub_ok_retire: "hub_ok h \<Longrightarrow> hub_ok (retire_replaced now c h)"
  by (simp add: retire_replaced_def Let_def hub_simps hub_ok_clear hub_ok_closeSend hub_ok_unbind)

lemma hub_ok_retire_all: "hub_ok h \<Longrightarrow> hub_ok (fold (retire_replaced now) cs h)"
  by (induction cs arbitrary: h) (simp_all add: hub_ok_retire)

lemma hub_ok_disconnect_device: "hub_ok h \<Longrightarrow> hub_ok (disconnectDeviceConnector u d now h)"
  by (simp add: disconnectDeviceConnector_def hub_ok_disconnect split: option.split)

text \<open>
  What can happen to the connections of a server: a client object is made for a new connection, the hub
  registers it or takes it off, a device is bound, anything is sent, the write pump drains a queue, a
  device is unlinked, attention and leases are renewed.
\<close>

definition unused_client :: "client_ref \<Rightarrow> ('a, 'b) Hub \<Rightarrow> bool" where
  "unused_client c h \<longleftrightarrow> (\<forall>u. c \<notin> set (hub_clients_of u h)) \<and> c \<notin> snd ` set (hub_clientsByConn h) \<and>
     (\<forall>u d. nm_get (hub_deviceClients h) u d \<noteq> Some c)"

inductive hub_moves :: "('a, 'b) Hub \<Rightarrow> ('a, 'b) Hub \<Rightarrow> bool" where
  stay: "hub_moves h h"
| accept: "hub_moves h h' \<Longrightarrow> unused_client c h' \<Longrightarrow> wc_deviceOwnerUID v = 0 \<Longrightarrow> wc_connectionID v \<noteq> [] \<Longrightarrow>
    hub_moves h (hub_set_client c v h')"
| enter: "hub_moves h h' \<Longrightarrow> wc_connectionID (hub_client h' c) \<noteq> [] \<Longrightarrow> hub_moves h (fst (registerClient c fresh bump now h'))"
| leave: "hub_moves h h' \<Longrightarrow> hub_moves h (hub_unregister c now h')"
| bind: "hub_moves h h' \<Longrightarrow> hub_moves h (bindDeviceClient u device c now h')"
| send: "hub_moves h h' \<Longrightarrow> hub_moves h (SendToClient to m now h')"
| drain: "hub_moves h h' \<Longrightarrow> wc_send (hub_client h' c) = m # ms \<Longrightarrow>
    hub_moves h (hub_set_client c ((hub_client h' c)\<lparr>wc_send := ms\<rparr>) h')"
| unlink: "hub_moves h h' \<Longrightarrow> hub_moves h (disconnectDeviceConnector u d now h')"
| attend: "hub_moves h h' \<Longrightarrow> hub_moves h (setClientMessagingAttention c a now h')"
| look: "hub_moves h h' \<Longrightarrow> hub_moves h (setClientPageVisibility c vis now h')"
| renew: "hub_moves h h' \<Longrightarrow> hub_moves h (hub_renewBotBodyLease c now h')"
| elsewhere: "hub_moves h h' \<Longrightarrow> hub_moves h (hub_with_shared f h')"

lemma hub_ok_accept:
  assumes "hub_ok h" and "unused_client c h" and "wc_deviceOwnerUID v = 0"
  shows "hub_ok (hub_set_client c v h)"
proof -
  have "map_of (hub_clientsByConn h) k \<noteq> Some c" for k
    using assms(2) by (force simp: unused_client_def dest: map_of_SomeD)
  with assms show ?thesis
    by (auto simp: hub_ok_def binding_ok_def index_ok_def bodies_ok_def unused_client_def hub_simps)
qed

lemma hub_ok_admit:
  assumes "hub_ok h" and "wc_connectionID (hub_client h c) \<noteq> []"
  shows "hub_ok (admitClient c fresh now h)"
  using hub_ok_add [OF assms, of fresh]
  by (auto simp: admitClient_def Let_def bindClientRuntimeRoute_def hub_ok_sync hub_simps intro!: hub_ok_retire_all split: prod.split)

lemma hub_ok_register:
  assumes "hub_ok h" and "wc_connectionID (hub_client h c) \<noteq> []"
  shows "hub_ok (fst (registerClient c fresh bump now h))"
proof -
  have "wc_connectionID (hub_client (h\<lparr>hub_botConnectionEpochs := e\<rparr>) c) \<noteq> []" for e
    using assms(2) by (simp add: hub_client_def)
  with assms show ?thesis
    by (simp add: registerClient_def Let_def hub_ok_closeSend hub_ok_admit hub_simps)
qed

lemma hub_ok_moves: "hub_moves h h' \<Longrightarrow> hub_ok h \<Longrightarrow> hub_ok h'"
proof (induction rule: hub_moves.induct)
  case (attend h h' c a now)
  then show ?case
    by (simp add: setClientMessagingAttention_def hub_ok_sync hub_ok_set_client same_client_def client_identity_def)
next
  case (look h h' c vis now)
  then show ?case
    by (simp add: setClientPageVisibility_def Let_def hub_ok_sync hub_ok_set_client same_client_def client_identity_def)
qed (simp_all add: hub_ok_register hub_ok_unregister hub_ok_bind hub_ok_SendToClient hub_ok_accept hub_ok_disconnect_device
    hub_ok_set_client same_client_def client_identity_def hub_ok_leases hub_simps)

text \<open>\<open>newHubWithState\<close>: the parts of a fresh hub that are modelled.\<close>

definition newHubWithState ::
  "string \<Rightarrow> sharedMemoryRuntimeState option \<Rightarrow> selection_db option \<Rightarrow> ('a deviceGrantStore \<times> 'a) option \<Rightarrow>
   ('b deviceAuthorizationStore \<times> 'b) option \<Rightarrow> (string \<Rightarrow> string) \<Rightarrow> string option list \<Rightarrow> (runtimeRoute \<Rightarrow> bool) \<Rightarrow>
   (client_ref \<Rightarrow> Client) \<Rightarrow> ('a, 'b) Hub" where
  "newHubWithState nodeID shared db grants auth getenv random peers memory =
     \<lparr>hub_nodeID = nodeID,
      hub_connector =
        \<lparr>hb_userDevices = (newUserDeviceRegistry defaultUserDeviceTTL getenv random)
           \<lparr>rg_shared := shared, rg_selectionStore := db, rg_authorization := grants\<rparr>,
         hb_deviceAuthorization = auth, hb_deviceAudit = [], hb_deviceRevokes = \<lparr>rl_devices = [], rl_tokens = []\<rparr>\<rparr>,
      hub_bodyLeases = (newBotBodyLeaseManager (2 * go_minute))\<lparr>mg_nodeID := nodeID\<rparr>,
      hub_memory = memory, hub_clients = [], hub_clientsByConn = [], hub_deviceClients = [], hub_deviceRPC = [],
      hub_rpcTTL = 60 * go_second, hub_botConnectionEpochs = [], hub_thinToolCalls = [], hub_presence = [], hub_recoveries = [],
      hub_peers = peers, hub_peerSent = []\<rparr>"

lemma hub_ok_new:
  "(\<forall>c. wc_deviceOwnerUID (memory c) = 0) \<Longrightarrow> hub_ok (newHubWithState nodeID shared db grants auth getenv random peers memory)"
  by (auto simp: newHubWithState_def hub_ok_def binding_ok_def index_ok_def bodies_ok_def hub_client_def hub_clients_of_def)

definition no_client :: Client where
  "no_client = \<lparr>wc_uid = 0, wc_accountType = AccountHuman, wc_bodyID = [], wc_installationID = [], wc_connectionID = [],
     wc_deviceOwnerUID = 0, wc_deviceID = [], wc_deviceBodyID = [], wc_deviceInstallationID = [], wc_deviceConnector = None,
     wc_wikiAgentUID = 0, wc_runtimeCapabilities = [], 
     wc_messagingAttention = \<lparr>att_SubscriptionID = [], att_ActiveTopic = [], att_Visible = False, att_Focused = False\<rparr>,
     wc_send = [], wc_sendCapacity = 256, wc_sendClosed = False\<rparr>"

text \<open>
  C26: whatever connects, reconnects, binds devices, is unlinked, overflows or leaves, a device is served
  by exactly the connection that claims it, so by at most one; a client found by its connection id has
  that id; and of the connections of a bot registered on a server at most one has a given body.
\<close>

theorem device_has_one_connection:
  assumes "hub_moves (newHubWithState nodeID shared db grants auth getenv random peers (\<lambda>_. no_client)) h"
  shows "(getDeviceClient u d h = Some c \<longleftrightarrow>
            0 < u \<and> d \<noteq> [] \<and> wc_deviceOwnerUID (hub_client h c) = u \<and> wc_deviceID (hub_client h c) = d) \<and>
    (getClientByConnectionID k h = Some e \<longrightarrow> wc_connectionID (hub_client h e) = k) \<and>
    (x \<in> set (hub_clients_of u h) \<and> y \<in> set (hub_clients_of u h) \<and> same_bot_body (hub_client h x) (hub_client h y) \<longrightarrow> x = y)"
proof -
  have "hub_ok h" by (rule hub_ok_moves [OF assms hub_ok_new]) (simp add: no_client_def)
  then show ?thesis
    by (auto simp: hub_ok_def binding_ok_def index_ok_def bodies_ok_def getDeviceClient_def getClientByConnectionID_def)
qed

definition sample_hub :: "(unit, unit) Hub" where
  "sample_hub = newHubWithState ''n'' (Some newSharedMemoryRuntimeState) None None None (\<lambda>_. []) [] (\<lambda>_. False) (\<lambda>_. no_client)"

definition sample_phone :: Client where
  "sample_phone = no_client\<lparr>wc_uid := 5, wc_connectionID := ''c1''\<rparr>"

theorem device_has_one_connection_witness:
  "let h1 = hub_set_client 1 sample_phone sample_hub;
       h2 = fst (registerClient 1 [] NoGenerationStore 10 h1);
       h3 = bindDeviceClient 5 sample_device 1 20 h2
   in getDeviceClient 5 ''pc'' h3 = Some 1 \<and> wc_deviceID (hub_client h3 1) = ''pc''"
proof -
  let ?h1 = "hub_set_client 1 sample_phone sample_hub"
  let ?h2 = "fst (registerClient 1 [] NoGenerationStore 10 ?h1)"
  let ?h3 = "bindDeviceClient 5 sample_device 1 20 ?h2"
  have new: "unused_client 1 sample_hub" "wc_deviceOwnerUID sample_phone = 0" "wc_connectionID sample_phone \<noteq> []"
    by (simp_all add: unused_client_def hub_clients_of_def sample_hub_def newHubWithState_def sample_phone_def no_client_def)
  then have "hub_moves sample_hub ?h1" by (intro hub_moves.accept hub_moves.stay)
  then have "hub_moves sample_hub ?h2" by (rule hub_moves.enter) (simp add: hub_simps new)
  then have "hub_moves sample_hub ?h3" by (rule hub_moves.bind)
  then have "hub_moves (newHubWithState ''n'' (Some newSharedMemoryRuntimeState) None None None (\<lambda>_. []) [] (\<lambda>_. False) (\<lambda>_. no_client)) ?h3"
    unfolding sample_hub_def .
  then have "getDeviceClient 5 ''pc'' ?h3 = Some 1 \<longleftrightarrow>
      0 < (5::uid) \<and> ''pc'' \<noteq> [] \<and> wc_deviceOwnerUID (hub_client ?h3 1) = 5 \<and> wc_deviceID (hub_client ?h3 1) = ''pc''"
    by (rule device_has_one_connection [THEN conjunct1])
  moreover have "wc_deviceOwnerUID (hub_client ?h3 1) = 5 \<and> wc_deviceID (hub_client ?h3 1) = ''pc''" by code_simp
  ultimately show ?thesis by (simp add: Let_def)
qed

section \<open>A replaced connection stays in the index\<close>

lemma index_frame [hub_simps]:
  "hub_clientsByConn (closeSend c h) = hub_clientsByConn h" "hub_clientsByConn (clearClientRuntimeRoute c now h) = hub_clientsByConn h"
  "hub_clientsByConn (unbindDeviceClient c now h) = hub_clientsByConn h"
  "hub_clientsByConn (syncClientMessagingAttention c now h) = hub_clientsByConn h"
  by (simp_all add: closeSend_def clearClientRuntimeRoute_def unbindDeviceClient_def syncClientMessagingAttention_def Let_def hub_simps)

lemma clients_frame [hub_simps]:
  "hub_clients_of u (closeSend c h) = hub_clients_of u h" "hub_clients_of u (clearClientRuntimeRoute c now h) = hub_clients_of u h"
  "hub_clients_of u (unbindDeviceClient c now h) = hub_clients_of u h"
  "hub_clients_of u (syncClientMessagingAttention c now h) = hub_clients_of u h"
  by (simp_all add: closeSend_def clearClientRuntimeRoute_def unbindDeviceClient_def syncClientMessagingAttention_def Let_def hub_simps)
     (simp_all add: hub_clients_of_def)

lemma retire_frame [hub_simps]:
  "hub_clientsByConn (fold (retire_replaced now) cs h) = hub_clientsByConn h"
  "hub_clients_of u (fold (retire_replaced now) cs h) = hub_clients_of u h"
  by (induction cs arbitrary: h) (simp_all add: retire_replaced_def Let_def hub_simps)

lemma unbind_identity [hub_simps]: "client_identity (hub_client (unbindDeviceClient c now h) e) = client_identity (hub_client h e)"
  by (auto simp: unbindDeviceClient_def Let_def hub_simps) (simp_all add: hub_client_def)

lemma retire_identity: "client_identity (hub_client (fold (retire_replaced now) cs h) e) = client_identity (hub_client h e)"
proof (induction cs arbitrary: h)
  case (Cons c cs)
  have close: "client_identity (hub_client (closeSend c g) e) = client_identity (hub_client g e)" for g :: "('a, 'b) Hub"
    by (simp add: closeSend_def hub_simps client_identity_def)
  have "client_identity (hub_client (retire_replaced now c h) e) = client_identity (hub_client h e)"
    by (simp add: retire_replaced_def Let_def hub_simps close clearClientRuntimeRoute_def)
  with Cons show ?case by simp
qed simp

lemma admit_frame:
  "hub_clientsByConn (admitClient c fresh now h) = hub_clientsByConn (fst (addRegisteredClient c fresh h))"
  "hub_clients_of u (admitClient c fresh now h) = hub_clients_of u (fst (addRegisteredClient c fresh h))"
  by (simp_all add: admitClient_def bindClientRuntimeRoute_def Let_def hub_simps split: prod.split)

lemma clients_of_put:
  "hub_clients_of u (h\<lparr>hub_clients := gm_put v cs (hub_clients h), hub_clientsByConn := idx\<rparr>) =
   (if u = v then cs else hub_clients_of u h)"
  by (simp add: hub_clients_of_def gomap_simps)

lemma admit_identity:
  "wc_connectionID (hub_client h c) \<noteq> [] \<Longrightarrow>
   client_identity (hub_client (admitClient c fresh now h) e) = client_identity (hub_client h e)"
proof -
  assume "wc_connectionID (hub_client h c) \<noteq> []"
  then have same: "hub_client (fst (addRegisteredClient c fresh h)) e = hub_client h e"
    by (simp add: addRegisteredClient_def Let_def hub_client_def)
  have sync: "hub_client (syncClientMessagingAttention c now g) e = hub_client g e" for g :: "('a, 'b) Hub"
    by (simp add: syncClientMessagingAttention_def hub_simps)
  show ?thesis
    by (cases "addRegisteredClient c fresh h")
       (use same in \<open>simp add: admitClient_def bindClientRuntimeRoute_def Let_def hub_simps sync retire_identity\<close>)
qed

text \<open>
  a defect of reconnecting: a bot's new connection takes over from an earlier one of the same body. The
  earlier one leaves the user's set, but not the index by connection id, and taking it off later does
  nothing, because only a client of the set is taken out of the index: \<open>getClientByConnectionID\<close>
  finds the closed connection for as long as the server runs.
\<close>

theorem replaced_connection_stays_indexed:
  assumes ok: "hub_ok h" and c: "wc_accountType (hub_client h c) = AccountBot" "wc_connectionID (hub_client h c) \<noteq> []"
    and e: "e \<in> set (hub_clients_of (wc_uid (hub_client h c)) h)" "same_bot_body (hub_client h c) (hub_client h e)" "e \<noteq> c"
    and idx: "getClientByConnectionID k h = Some e" "k \<noteq> wc_connectionID (hub_client h c)"
  shows "getClientByConnectionID k (admitClient c fresh now h) = Some e \<and> \<not> isClientRegistered e (admitClient c fresh now h) \<and>
    hub_unregister e later (admitClient c fresh now h) = admitClient c fresh now h"
proof -
  let ?h = "admitClient c fresh now h"
  have u: "wc_uid (hub_client ?h e) = wc_uid (hub_client h c)"
    using admit_identity [OF c(2), of fresh now e] ok e(1) by (simp add: client_identity_def hub_ok_def index_ok_def)
  have "getClientByConnectionID k ?h = Some e"
    using idx c(2) by (simp add: getClientByConnectionID_def admit_frame addRegisteredClient_def Let_def gomap_simps split: if_splits)
  moreover have out: "e \<notin> set (hub_clients_of (wc_uid (hub_client h c)) ?h)"
  proof -
    have "hub_replaces (hub_client h c) (hub_client h e)" "wc_bodyID (hub_client h c) \<noteq> []"
      using e by (auto simp: hub_replaces_def same_bot_body_def)
    with c e(3) show ?thesis
      unfolding admit_frame by (simp add: addRegisteredClient_def Let_def clients_of_put)
  qed
  ultimately show ?thesis
    using u by (auto simp: isClientRegistered_def hub_unregister_def removeClient_def hub_clients_of_def Let_def split: option.splits)
qed

definition sample_bot :: "string \<Rightarrow> Client" where
  "sample_bot connection = no_client\<lparr>wc_uid := 7, wc_accountType := AccountBot, wc_bodyID := ''b'', wc_connectionID := connection\<rparr>"

definition sample_bots :: "(unit, unit) Hub" where
  "sample_bots = admitClient 1 [] 10 (hub_set_client 2 (sample_bot ''c2'') (hub_set_client 1 (sample_bot ''c1'') sample_hub))"

lemma sample_bots_ok: "hub_ok sample_bots"
proof -
  have "hub_ok sample_hub" by (simp add: sample_hub_def hub_ok_new no_client_def)
  moreover have "unused_client c sample_hub" for c
    by (simp add: unused_client_def hub_clients_of_def sample_hub_def newHubWithState_def)
  moreover have "unused_client 2 (hub_set_client 1 (sample_bot ''c1'') sample_hub)"
    by (simp add: unused_client_def hub_simps) (simp add: hub_clients_of_def sample_hub_def newHubWithState_def)
  ultimately have "hub_ok (hub_set_client 2 (sample_bot ''c2'') (hub_set_client 1 (sample_bot ''c1'') sample_hub))"
    by (intro hub_ok_accept) (simp_all add: sample_bot_def no_client_def)
  then show ?thesis
    unfolding sample_bots_def by (rule hub_ok_admit) (simp add: hub_simps sample_bot_def)
qed

theorem replaced_connection_stays_indexed_witness:
  "getClientByConnectionID ''c1'' (admitClient 2 [] 20 sample_bots) = Some 1 \<and> \<not> isClientRegistered 1 (admitClient 2 [] 20 sample_bots)"
proof -
  have c: "wc_accountType (hub_client sample_bots 2) = AccountBot" "wc_connectionID (hub_client sample_bots 2) \<noteq> []"
    and e: "1 \<in> set (hub_clients_of (wc_uid (hub_client sample_bots 2)) sample_bots)"
      "same_bot_body (hub_client sample_bots 2) (hub_client sample_bots 1)"
    and i: "getClientByConnectionID ''c1'' sample_bots = Some 1" "''c1'' \<noteq> wc_connectionID (hub_client sample_bots 2)"
    by code_simp+
  from replaced_connection_stays_indexed [OF sample_bots_ok c e _ i, of "[]" 20 30] show ?thesis by simp
qed

end
