(* ===== verification/RpcRouter.thy ===== *)
theory RpcRouter
  imports Hub
begin

text \<open>
  The table of device calls that wait for their result (\<open>server/device_rpc.go\<close>), kept by the hub's
  router or in the shared state (\<open>server/runtime_state.go\<close>). The locale \<open>rpc_store\<close> is what a caller
  may rely on; both tables and the router that chooses between them are instances of it.
\<close>

section \<open>The two tables\<close>

definition defaultDeviceRPCTTL :: duration where
  "defaultDeviceRPCTTL = 60 * go_second"

definition maxDeviceRPCPendingPerAgent :: nat where
  "maxDeviceRPCPendingPerAgent = 64"

definition maxDeviceRPCPendingPerDevice :: nat where
  "maxDeviceRPCPendingPerDevice = 32"

datatype rpc_refusal = RpcInvalid | RpcDuplicate | RpcAgentLimit | RpcDeviceLimit

definition live_at :: "go_time \<Rightarrow> deviceRPCPendingRecord \<Rightarrow> bool" where
  "live_at now p \<longleftrightarrow> now < rpc_expiresAt p"

definition same_agent :: "deviceRPCPendingRecord \<Rightarrow> deviceRPCPendingRecord \<Rightarrow> bool" where
  "same_agent p q \<longleftrightarrow> rpc_agentUID q = rpc_agentUID p"

definition same_device :: "deviceRPCPendingRecord \<Rightarrow> deviceRPCPendingRecord \<Rightarrow> bool" where
  "same_device p q \<longleftrightarrow> rpc_ownerUID q = rpc_ownerUID p \<and> rpc_deviceID q = rpc_deviceID p"

text \<open>The loop that counts, and what it decides about a new call.\<close>

definition rpc_count :: "(deviceRPCPendingRecord \<Rightarrow> bool) \<Rightarrow> go_time \<Rightarrow> deviceRPCPendingRecord list \<Rightarrow> nat" where
  "rpc_count P now ps = length (filter (\<lambda>q. live_at now q \<and> P q) ps)"

definition rpc_admit ::
  "deviceRPCPendingRecord \<Rightarrow> go_time \<Rightarrow> (string, deviceRPCPendingRecord) gomap \<Rightarrow> rpc_refusal option" where
  "rpc_admit p now t =
     (if map_of t (rpc_requestID p) \<noteq> None then Some RpcDuplicate
      else if rpc_count (same_agent p) now (gm_values t) \<ge> maxDeviceRPCPendingPerAgent then Some RpcAgentLimit
      else if rpc_count (same_device p) now (gm_values t) \<ge> maxDeviceRPCPendingPerDevice then Some RpcDeviceLimit
      else None)"

definition rpc_invalid :: "deviceRPCPendingRecord \<Rightarrow> bool" where
  "rpc_invalid p \<longleftrightarrow> rpc_requestID p = [] \<or> is_zero_time (rpc_expiresAt p)"

definition addDeviceRPCPending ::
  "deviceRPCPendingRecord \<Rightarrow> go_time \<Rightarrow> sharedMemoryRuntimeState \<Rightarrow> sharedMemoryRuntimeState \<times> rpc_refusal option" where
  "addDeviceRPCPending p now s =
     (if rpc_invalid p then (s, Some RpcInvalid)
      else case rpc_admit p now (sh_deviceRPC s) of
        Some r \<Rightarrow> (s, Some r)
      | None \<Rightarrow> (s\<lparr>sh_deviceRPC := gm_put (rpc_requestID p) p (sh_deviceRPC s)\<rparr>, None))"

definition getDeviceRPCPending :: "string \<Rightarrow> go_time \<Rightarrow> sharedMemoryRuntimeState \<Rightarrow> deviceRPCPendingRecord option" where
  "getDeviceRPCPending requestID now s =
     (if requestID = [] then None
      else case map_of (sh_deviceRPC s) requestID of
        None \<Rightarrow> None
      | Some p \<Rightarrow> if \<not> live_at now p then None else Some p)"

definition finishDeviceRPCPending :: "string \<Rightarrow> sharedMemoryRuntimeState \<Rightarrow> sharedMemoryRuntimeState" where
  "finishDeviceRPCPending requestID s =
     (if requestID = [] then s else s\<lparr>sh_deviceRPC := gm_del requestID (sh_deviceRPC s)\<rparr>)"

definition listDeviceRPCPendingByOwner :: "uid \<Rightarrow> sharedMemoryRuntimeState \<Rightarrow> deviceRPCPendingRecord list" where
  "listDeviceRPCPendingByOwner ownerUID s =
     (if ownerUID \<le> 0 then []
      else sort_key rpc_createdAt (filter (\<lambda>p. rpc_ownerUID p = ownerUID) (gm_values (sh_deviceRPC s))))"

definition expireDeviceRPCPending ::
  "go_time \<Rightarrow> sharedMemoryRuntimeState \<Rightarrow> sharedMemoryRuntimeState \<times> deviceRPCPendingRecord list" where
  "expireDeviceRPCPending now s =
     (s\<lparr>sh_deviceRPC := gm_keep (live_at now) (sh_deviceRPC s)\<rparr>,
      filter (\<lambda>p. \<not> live_at now p) (gm_values (sh_deviceRPC s)))"

text \<open>
  The router's own table holds the same calls with pointers to the two clients; the shared state cannot
  hold pointers, so a call read from it has none.
\<close>

type_synonym rpc_table = "(string, deviceRPCPending) gomap"

definition deviceRPCRecordFromPending :: "deviceRPCPending \<Rightarrow> deviceRPCPendingRecord" where
  "deviceRPCRecordFromPending p = dp_record p"

definition pendingFromDeviceRPCRecord :: "deviceRPCPendingRecord \<Rightarrow> deviceRPCPending" where
  "pendingFromDeviceRPCRecord r = \<lparr>dp_record = r, dp_requester = None, dp_target = None\<rparr>"

definition rpc_records :: "rpc_table \<Rightarrow> (string, deviceRPCPendingRecord) gomap" where
  "rpc_records t = map (\<lambda>(k, p). (k, deviceRPCRecordFromPending p)) t"

definition pt_add :: "deviceRPCPending \<Rightarrow> go_time \<Rightarrow> rpc_table \<Rightarrow> rpc_table \<times> rpc_refusal option" where
  "pt_add p now t =
     (case rpc_admit (deviceRPCRecordFromPending p) now (rpc_records t) of
        Some r \<Rightarrow> (t, Some r)
      | None \<Rightarrow> (gm_put (rpc_requestID (dp_record p)) p t, None))"

definition pt_get :: "string \<Rightarrow> go_time \<Rightarrow> rpc_table \<Rightarrow> deviceRPCPending option" where
  "pt_get requestID now t =
     (case map_of t requestID of
        None \<Rightarrow> None
      | Some p \<Rightarrow> if \<not> live_at now (dp_record p) then None else Some p)"

definition pt_list :: "uid \<Rightarrow> rpc_table \<Rightarrow> deviceRPCPending list" where
  "pt_list ownerUID t =
     sort_key (\<lambda>p. rpc_createdAt (dp_record p)) (filter (\<lambda>p. rpc_ownerUID (dp_record p) = ownerUID) (gm_values t))"

definition pt_expire :: "go_time \<Rightarrow> rpc_table \<Rightarrow> rpc_table \<times> deviceRPCPending list" where
  "pt_expire now t =
     (gm_keep (\<lambda>p. live_at now (dp_record p)) t, filter (\<lambda>p. \<not> live_at now (dp_record p)) (gm_values t))"

text \<open>The router: its shared state when it has one, its own table otherwise.\<close>

type_synonym rpc_env = "rpc_table \<times> sharedMemoryRuntimeState option"

fun rpc_add :: "deviceRPCPending \<Rightarrow> go_time \<Rightarrow> rpc_env \<Rightarrow> rpc_env \<times> rpc_refusal option" where
  "rpc_add p now (t, shared) =
     (if rpc_invalid (dp_record p) then ((t, shared), Some RpcInvalid)
      else case shared of
        Some s \<Rightarrow> (case addDeviceRPCPending (deviceRPCRecordFromPending p) now s of (s', r) \<Rightarrow> ((t, Some s'), r))
      | None \<Rightarrow> (case pt_add p now t of (t', r) \<Rightarrow> ((t', None), r)))"

fun rpc_get :: "string \<Rightarrow> go_time \<Rightarrow> rpc_env \<Rightarrow> deviceRPCPending option" where
  "rpc_get requestID now (t, shared) =
     (if requestID = [] then None
      else case shared of
        Some s \<Rightarrow> map_option pendingFromDeviceRPCRecord (getDeviceRPCPending requestID now s)
      | None \<Rightarrow> pt_get requestID now t)"

fun rpc_finish :: "string \<Rightarrow> rpc_env \<Rightarrow> rpc_env" where
  "rpc_finish requestID (t, shared) =
     (if requestID = [] then (t, shared)
      else case shared of
        Some s \<Rightarrow> (t, Some (finishDeviceRPCPending requestID s))
      | None \<Rightarrow> (gm_del requestID t, None))"

fun rpc_listByOwner :: "uid \<Rightarrow> rpc_env \<Rightarrow> deviceRPCPending list" where
  "rpc_listByOwner ownerUID (t, shared) =
     (if ownerUID \<le> 0 then []
      else case shared of
        Some s \<Rightarrow> map pendingFromDeviceRPCRecord (listDeviceRPCPendingByOwner ownerUID s)
      | None \<Rightarrow> pt_list ownerUID t)"

fun rpc_expire :: "go_time \<Rightarrow> rpc_env \<Rightarrow> rpc_env \<times> deviceRPCPending list" where
  "rpc_expire now (t, Some s) =
     (case expireDeviceRPCPending now s of (s', ps) \<Rightarrow> ((t, Some s'), map pendingFromDeviceRPCRecord ps))"
| "rpc_expire now (t, None) = (case pt_expire now t of (t', ps) \<Rightarrow> ((t', None), ps))"

section \<open>What a caller relies on\<close>

definition call_count :: "(string \<Rightarrow> deviceRPCPendingRecord option) \<Rightarrow> (deviceRPCPendingRecord \<Rightarrow> bool) \<Rightarrow> go_time \<Rightarrow> nat" where
  "call_count m P now = card {i. \<exists>p. m i = Some p \<and> live_at now p \<and> P p}"

text \<open>A store may keep more about a call than its record, as the router's own table does.\<close>

datatype 'p rpc_op = OpAdd 'p go_time | OpFinish string go_time | OpExpire go_time

fun rpc_time :: "'p rpc_op \<Rightarrow> go_time" where
  "rpc_time (OpAdd p now) = now"
| "rpc_time (OpFinish i now) = now"
| "rpc_time (OpExpire now) = now"

locale rpc_store =
  fixes record_of :: "'p \<Rightarrow> deviceRPCPendingRecord"
    and look :: "'s \<Rightarrow> string \<Rightarrow> deviceRPCPendingRecord option"
    and inv :: "'s \<Rightarrow> bool"
    and add :: "'p \<Rightarrow> go_time \<Rightarrow> 's \<Rightarrow> 's \<times> rpc_refusal option"
    and get :: "string \<Rightarrow> go_time \<Rightarrow> 's \<Rightarrow> 'p option"
    and finish :: "string \<Rightarrow> 's \<Rightarrow> 's"
    and expire :: "go_time \<Rightarrow> 's \<Rightarrow> 's \<times> 'p list"
  assumes inv_ops: "inv s \<Longrightarrow> inv (fst (add p now s))" "inv s \<Longrightarrow> inv (finish i s)" "inv s \<Longrightarrow> inv (fst (expire now s))"
    and finite_calls: "inv s \<Longrightarrow> finite (dom (look s))"
    and add_ok: "inv s \<Longrightarrow> add p now s = (s', None) \<Longrightarrow>
      look s (rpc_requestID (record_of p)) = None \<and> look s' = (look s)(rpc_requestID (record_of p) \<mapsto> record_of p) \<and>
      call_count (look s) (same_agent (record_of p)) now < maxDeviceRPCPendingPerAgent \<and>
      call_count (look s) (same_device (record_of p)) now < maxDeviceRPCPendingPerDevice"
    and add_refused: "inv s \<Longrightarrow> add p now s = (s', Some r) \<Longrightarrow> look s' = look s"
    and get_live: "inv s \<Longrightarrow> i \<noteq> [] \<Longrightarrow> map_option record_of (get i now s) =
      (case look s i of None \<Rightarrow> None | Some p \<Rightarrow> if live_at now p then Some p else None)"
    and finished: "inv s \<Longrightarrow> i \<noteq> [] \<Longrightarrow> look (finish i s) = (look s)(i := None)"
    and finished_none: "inv s \<Longrightarrow> look (finish [] s) = look s"
    and expired: "inv s \<Longrightarrow> look (fst (expire now s)) =
      (\<lambda>i. case look s i of None \<Rightarrow> None | Some p \<Rightarrow> if live_at now p then Some p else None)"
begin

fun step :: "'p rpc_op \<Rightarrow> 's \<Rightarrow> 's" where
  "step (OpAdd p now) s = fst (add p now s)"
| "step (OpFinish i now) s = finish i s"
| "step (OpExpire now) s = fst (expire now s)"

lemma step_inv: "inv s \<Longrightarrow> inv (step op s)"
  by (cases op) (simp_all add: inv_ops)

lemma finite_count: "inv s \<Longrightarrow> finite {i. \<exists>p. look s i = Some p \<and> live_at now p \<and> P p}"
  by (rule finite_subset [OF _ finite_calls]) auto

lemma count_shrinks:
  assumes "inv s" and "\<And>i p. look s' i = Some p \<Longrightarrow> look s i = Some p" and "now \<le> now'"
  shows "call_count (look s') P now' \<le> call_count (look s) P now"
  unfolding call_count_def using assms by (intro card_mono finite_count) (auto simp: live_at_def)

lemma count_add:
  assumes "inv s" and "look s' = (look s)(i \<mapsto> p)"
  shows "call_count (look s') P now \<le> (if P p then Suc (call_count (look s) P now) else call_count (look s) P now)"
proof -
  let ?A = "{j. \<exists>q. look s j = Some q \<and> live_at now q \<and> P q}" and ?B = "{j. \<exists>q. look s' j = Some q \<and> live_at now q \<and> P q}"
  have "?B \<subseteq> (if P p then insert i ?A else ?A)" using assms(2) by auto
  then have "card ?B \<le> card (if P p then insert i ?A else ?A)"
    using finite_count [OF assms(1)] by (intro card_mono) auto
  then show ?thesis
    using finite_count [OF assms(1), of now P] by (auto simp: call_count_def card_insert_if split: if_splits)
qed

text \<open>The bounds at a time stay the bounds at every later time.\<close>

definition bounded :: "go_time \<Rightarrow> 's \<Rightarrow> bool" where
  "bounded now s \<longleftrightarrow> (\<forall>p. call_count (look s) (same_agent p) now \<le> maxDeviceRPCPendingPerAgent \<and>
     call_count (look s) (same_device p) now \<le> maxDeviceRPCPendingPerDevice)"

lemma bounded_shrinks: "inv s \<Longrightarrow> bounded now s \<Longrightarrow> (\<And>i p. look s' i = Some p \<Longrightarrow> look s i = Some p) \<Longrightarrow> now \<le> now' \<Longrightarrow> bounded now' s'"
  unfolding bounded_def by (meson count_shrinks order_trans)

lemma bounded_later: "inv s \<Longrightarrow> bounded now s \<Longrightarrow> now \<le> now' \<Longrightarrow> bounded now' s"
  by (rule bounded_shrinks) auto

lemma same_congruent: "same_agent p q \<Longrightarrow> same_agent p = same_agent q" "same_device p q \<Longrightarrow> same_device p = same_device q"
  by (auto simp: same_agent_def same_device_def fun_eq_iff)

lemma bounded_step:
  assumes "inv s" and "bounded now s" and "rpc_time op = now"
  shows "bounded now (step op s)"
proof (cases op)
  case (OpAdd p t)
  obtain s' r where a: "add p t s = (s', r)" by (metis prod.collapse)
  show ?thesis
  proof (cases r)
    case None
    let ?p = "record_of p"
    from None add_ok [OF assms(1)] a have new: "look s' = (look s)(rpc_requestID ?p \<mapsto> ?p)"
      "call_count (look s) (same_agent ?p) t < maxDeviceRPCPendingPerAgent"
      "call_count (look s) (same_device ?p) t < maxDeviceRPCPendingPerDevice" by auto
    have "call_count (look s') (same_agent q) now \<le> maxDeviceRPCPendingPerAgent \<and>
        call_count (look s') (same_device q) now \<le> maxDeviceRPCPendingPerDevice" for q
      using count_add [OF assms(1) new(1), of "same_agent q" now] count_add [OF assms(1) new(1), of "same_device q" now]
        assms(2,3) new(2,3) OpAdd same_congruent [of q ?p]
      unfolding bounded_def by (auto split: if_splits) (metis order_trans Suc_leI)+
    with OpAdd a show ?thesis by (simp add: bounded_def)
  next
    case (Some x)
    with add_refused [OF assms(1)] a assms(2) OpAdd show ?thesis by (simp add: bounded_def)
  qed
next
  case (OpFinish i t)
  have "look s j = Some p" if "look (finish i s) j = Some p" for j p
    using that finished [OF assms(1), of i] finished_none [OF assms(1)] by (cases "i = []") (auto split: if_splits)
  with OpFinish assms show ?thesis by (auto intro: bounded_shrinks [OF assms(1,2)])
next
  case (OpExpire t)
  have "look s j = Some p" if "look (fst (expire t s)) j = Some p" for j p
    using that by (auto simp: expired [OF assms(1)] split: option.splits if_splits)
  with OpExpire assms show ?thesis by (auto intro: bounded_shrinks [OF assms(1,2)])
qed

lemma bounded_run:
  "inv s \<Longrightarrow> bounded t0 s \<Longrightarrow> sorted (map rpc_time ops) \<Longrightarrow> \<forall>op\<in>set ops. t0 \<le> rpc_time op \<and> rpc_time op \<le> now \<Longrightarrow> t0 \<le> now \<Longrightarrow>
   bounded now (fold step ops s)"
proof (induction ops arbitrary: s t0)
  case Nil
  then show ?case by (auto intro: bounded_later)
next
  case (Cons op ops)
  then have "bounded (rpc_time op) s" by (auto intro: bounded_later)
  from bounded_step [OF Cons.prems(1) this refl] Cons step_inv [of s op] show ?case by simp
qed

text \<open>A call that was answered is over, until it is added again.\<close>

lemma answered_once:
  assumes "inv s" and "i \<noteq> []" and "\<forall>p t. OpAdd p t \<in> set ops \<longrightarrow> rpc_requestID (record_of p) \<noteq> i"
  shows "get i now (fold step ops (finish i s)) = None"
proof -
  have gone: "look s i = None \<Longrightarrow> inv s \<Longrightarrow> \<forall>p t. op = OpAdd p t \<longrightarrow> rpc_requestID (record_of p) \<noteq> i \<Longrightarrow> look (step op s) i = None" for op s
  proof (cases op)
    case (OpAdd p t)
    assume "look s i = None" "inv s" "\<forall>p t. op = OpAdd p t \<longrightarrow> rpc_requestID (record_of p) \<noteq> i"
    with OpAdd add_ok [of s p t] add_refused [of s p t] show ?thesis
      by (cases "add p t s"; cases "snd (add p t s)") auto
  next
    case (OpFinish j t)
    assume "look s i = None" "inv s"
    with OpFinish finished [of s j] finished_none [of s] show ?thesis by (cases "j = []") auto
  qed (simp add: expired split: option.split)
  have "inv s \<Longrightarrow> look s i = None \<Longrightarrow> look (fold step ops s) i = None \<and> inv (fold step ops s)" for s
    using assms(3)
  proof (induction ops arbitrary: s)
    case (Cons op ops)
    from Cons.prems gone [of s op] step_inv [of s op] Cons.IH [of "step op s"] show ?case by auto
  qed simp
  moreover have "look (finish i s) i = None" by (simp add: finished [OF assms(1,2)])
  ultimately have "inv (fold step ops (finish i s))" "look (fold step ops (finish i s)) i = None"
    using inv_ops(2) [OF assms(1)] by blast+
  then have "map_option record_of (get i now (fold step ops (finish i s))) = None"
    using assms(2) by (simp add: get_live)
  then show ?thesis by simp
qed

end

section \<open>The tables keep the contract\<close>

lemma count_values: "gm_ok m \<Longrightarrow> rpc_count P now (gm_values m) = call_count (map_of m) P now"
proof (induction m)
  case Nil
  then show ?case by (simp add: rpc_count_def gm_values_def call_count_def)
next
  case (Cons kp m)
  obtain k p where kp: "kp = (k, p)" by (cases kp)
  with Cons.prems have ok: "gm_ok m" and new: "map_of m k = None"
    by (auto simp: gm_ok_def map_of_eq_None_iff)
  let ?A = "{i. \<exists>q. map_of m i = Some q \<and> live_at now q \<and> P q}"
  have fin: "finite ?A" by (rule finite_subset [of _ "dom (map_of m)"]) (auto simp: finite_dom_map_of)
  have "{i. \<exists>q. map_of (kp # m) i = Some q \<and> live_at now q \<and> P q} = (if live_at now p \<and> P p then insert k ?A else ?A)"
    using new by (auto simp: kp)
  moreover have "k \<notin> ?A" using new by simp
  ultimately show ?case
    using Cons.IH [OF ok] fin by (simp add: kp rpc_count_def gm_values_def call_count_def)
qed

lemma admitted:
  "gm_ok m \<Longrightarrow> rpc_admit p now m = None \<longleftrightarrow>
     map_of m (rpc_requestID p) = None \<and> call_count (map_of m) (same_agent p) now < maxDeviceRPCPendingPerAgent \<and>
     call_count (map_of m) (same_device p) now < maxDeviceRPCPendingPerDevice"
  by (auto simp: rpc_admit_def count_values)

definition sh_calls_ok :: "sharedMemoryRuntimeState \<Rightarrow> bool" where
  "sh_calls_ok s \<longleftrightarrow> gm_ok (sh_deviceRPC s) \<and> map_of (sh_deviceRPC s) [] = None"

lemma del_fun: "map_of (gm_del k m) = (map_of m)(k := None)" and put_fun: "map_of (gm_put k v m) = (map_of m)(k \<mapsto> v)"
  by (auto simp: gomap_simps)

interpretation shr: rpc_store "\<lambda>p. p" "\<lambda>s. map_of (sh_deviceRPC s)" sh_calls_ok addDeviceRPCPending getDeviceRPCPending
  finishDeviceRPCPending expireDeviceRPCPending
  by unfold_locales
     (auto simp: sh_calls_ok_def addDeviceRPCPending_def getDeviceRPCPending_def finishDeviceRPCPending_def expireDeviceRPCPending_def
       rpc_invalid_def del_fun put_fun admitted finite_dom_map_of gm_get_keep fun_eq_iff split: option.splits if_splits)

lemma records_of: "map_of (rpc_records t) i = map_option deviceRPCRecordFromPending (map_of t i)"
  by (induction t) (auto simp: rpc_records_def)

lemma records_ok: "gm_ok (rpc_records t) = gm_ok t"
  by (simp add: gm_ok_def rpc_records_def comp_def case_prod_beta)

lemma records_put: "rpc_records (gm_put k p t) = gm_put k (deviceRPCRecordFromPending p) (rpc_records t)"
  by (induction t) (auto simp: rpc_records_def)

lemma records_del: "rpc_records (gm_del k t) = gm_del k (rpc_records t)"
proof (induction t)
  case (Cons x t)
  then show ?case by (cases x) (simp add: rpc_records_def)
qed (simp add: rpc_records_def)

lemma records_keep: "rpc_records (gm_keep (\<lambda>p. Q (dp_record p)) t) = gm_keep Q (rpc_records t)"
  by (induction t) (auto simp: rpc_records_def gm_keep_def deviceRPCRecordFromPending_def)

lemma records_values: "gm_values (rpc_records t) = map dp_record (gm_values t)"
  by (simp add: rpc_records_def gm_values_def deviceRPCRecordFromPending_def case_prod_beta)

fun env_look :: "rpc_env \<Rightarrow> string \<Rightarrow> deviceRPCPendingRecord option" where
  "env_look (t, Some s) = map_of (sh_deviceRPC s)"
| "env_look (t, None) = map_of (rpc_records t)"

fun env_calls_ok :: "rpc_env \<Rightarrow> bool" where
  "env_calls_ok (t, Some s) = sh_calls_ok s"
| "env_calls_ok (t, None) = (gm_ok t \<and> map_of t [] = None)"

interpretation enr: rpc_store dp_record env_look env_calls_ok rpc_add rpc_get rpc_finish rpc_expire
proof unfold_locales
  show "env_calls_ok env \<Longrightarrow> env_calls_ok (fst (rpc_add p now env))" for p now env
  proof (cases "snd env")
    case None
    then show "env_calls_ok env \<Longrightarrow> env_calls_ok (fst (rpc_add p now env))"
      by (cases env) (auto simp: pt_add_def rpc_invalid_def gomap_simps split: option.splits)
  next
    case (Some s)
    with shr.inv_ops(1) [of s "dp_record p" now] show "env_calls_ok env \<Longrightarrow> env_calls_ok (fst (rpc_add p now env))"
      by (cases env) (auto simp: deviceRPCRecordFromPending_def split: prod.split)
  qed
  show "env_calls_ok env \<Longrightarrow> env_calls_ok (rpc_finish i env)" for i env
    using shr.inv_ops(2) by (cases env; cases "snd env") (auto simp: gomap_simps)
  show "env_calls_ok env \<Longrightarrow> env_calls_ok (fst (rpc_expire now env))" for now env
  proof (cases "snd env")
    case None
    then show "env_calls_ok env \<Longrightarrow> env_calls_ok (fst (rpc_expire now env))"
      by (cases env) (auto simp: pt_expire_def gm_get_keep split: option.splits)
  next
    case (Some s)
    with shr.inv_ops(3) [of s now] show "env_calls_ok env \<Longrightarrow> env_calls_ok (fst (rpc_expire now env))"
      by (cases env) (auto split: prod.split)
  qed
  show "env_calls_ok env \<Longrightarrow> finite (dom (env_look env))" for env
    by (cases env; cases "snd env") (auto simp: finite_dom_map_of)
  show "rpc_add p now env = (env', None) \<Longrightarrow>
      env_look env (rpc_requestID (dp_record p)) = None \<and> env_look env' = (env_look env)(rpc_requestID (dp_record p) \<mapsto> dp_record p) \<and>
      call_count (env_look env) (same_agent (dp_record p)) now < maxDeviceRPCPendingPerAgent \<and>
      call_count (env_look env) (same_device (dp_record p)) now < maxDeviceRPCPendingPerDevice"
    if "env_calls_ok env" for p now env env'
    using that shr.add_ok
    by (cases env; cases "snd env")
       (fastforce simp: pt_add_def records_put put_fun admitted records_ok deviceRPCRecordFromPending_def
         split: if_splits option.splits prod.splits)+
  show "rpc_add p now env = (env', Some r) \<Longrightarrow> env_look env' = env_look env" if "env_calls_ok env" for p now env env' r
    using that shr.add_refused
    by (cases env; cases "snd env") (fastforce simp: pt_add_def split: if_splits option.splits prod.splits)+
  show "map_option dp_record (rpc_get i now env) =
      (case env_look env i of None \<Rightarrow> None | Some p \<Rightarrow> if live_at now p then Some p else None)" if "env_calls_ok env" "i \<noteq> []" for env i now
    using that shr.get_live
    by (cases env; cases "snd env")
       (auto simp: pt_get_def records_of deviceRPCRecordFromPending_def pendingFromDeviceRPCRecord_def option.map_comp comp_def
         option.map_ident split: option.splits)
  show "env_look (rpc_finish i env) = (env_look env)(i := None)" if "env_calls_ok env" "i \<noteq> []" for env i
    using that shr.finished by (cases env; cases "snd env") (auto simp: records_del del_fun)
  show "env_look (rpc_finish [] env) = env_look env" for env by (cases env) simp
  show "env_look (fst (rpc_expire now env)) =
      (\<lambda>i. case env_look env i of None \<Rightarrow> None | Some p \<Rightarrow> if live_at now p then Some p else None)" if "env_calls_ok env" for env now
  proof (cases "snd env")
    case None
    with that show ?thesis
      by (cases env) (auto simp: pt_expire_def records_keep gm_get_keep records_ok fun_eq_iff)
  next
    case (Some s)
    with that shr.expired [of s now] show ?thesis
      by (cases env) (auto simp: case_prod_beta)
  qed
qed

fun rpc_step :: "deviceRPCPending rpc_op \<Rightarrow> rpc_env \<Rightarrow> rpc_env" where
  "rpc_step (OpAdd p now) env = fst (rpc_add p now env)"
| "rpc_step (OpFinish i now) env = rpc_finish i env"
| "rpc_step (OpExpire now) env = fst (rpc_expire now env)"

lemma rpc_step_eq: "rpc_step = enr.step"
proof (intro ext)
  show "rpc_step op env = enr.step op env" for op env by (cases op) simp_all
qed

definition agent_load :: "uid \<Rightarrow> go_time \<Rightarrow> rpc_env \<Rightarrow> nat" where
  "agent_load u now env = card {i. \<exists>p. env_look env i = Some p \<and> now < rpc_expiresAt p \<and> rpc_agentUID p = u}"

definition device_load :: "uid \<Rightarrow> string \<Rightarrow> go_time \<Rightarrow> rpc_env \<Rightarrow> nat" where
  "device_load u d now env =
     card {i. \<exists>p. env_look env i = Some p \<and> now < rpc_expiresAt p \<and> rpc_ownerUID p = u \<and> rpc_deviceID p = d}"

text \<open>
  C34: the calls in flight are bounded: whatever is added, finished and expired in time order, at no time
  does an agent have more than 64 live calls or a device more than 32, in the shared state and in the
  process.
\<close>

theorem calls_in_flight_bounded:
  assumes "sorted (map rpc_time ops)" and "\<forall>op\<in>set ops. 0 \<le> rpc_time op \<and> rpc_time op \<le> now" and "0 \<le> now"
    and "env = ([], None) \<or> env = ([], Some newSharedMemoryRuntimeState)"
  shows "agent_load u now (fold rpc_step ops env) \<le> 64 \<and> device_load w d now (fold rpc_step ops env) \<le> 32"
proof -
  from assms(4) have empty: "env_look env = (\<lambda>_. None)" and ok: "env_calls_ok env"
    by (auto simp: rpc_records_def newSharedMemoryRuntimeState_def sh_calls_ok_def)
  then have "enr.bounded 0 env"
    by (simp add: enr.bounded_def call_count_def maxDeviceRPCPendingPerAgent_def maxDeviceRPCPendingPerDevice_def)
  from enr.bounded_run [OF ok this assms(1,2,3)] have "enr.bounded now (fold rpc_step ops env)" by (simp add: rpc_step_eq)
  then have b: "call_count (env_look (fold rpc_step ops env)) (same_agent p) now \<le> 64 \<and>
      call_count (env_look (fold rpc_step ops env)) (same_device p) now \<le> 32" for p
    by (simp add: enr.bounded_def maxDeviceRPCPendingPerAgent_def maxDeviceRPCPendingPerDevice_def)
  obtain p :: deviceRPCPendingRecord where "rpc_agentUID p = u" by (metis deviceRPCPendingRecord.select_convs(4))
  moreover obtain q :: deviceRPCPendingRecord where "rpc_ownerUID q = w" "rpc_deviceID q = d"
    by (metis deviceRPCPendingRecord.select_convs(9) deviceRPCPendingRecord.select_convs(16))
  ultimately show ?thesis
    using b [of p] b [of q] by (simp add: agent_load_def device_load_def call_count_def live_at_def same_agent_def same_device_def)
qed

definition sample_call :: "string \<Rightarrow> string \<Rightarrow> go_time \<Rightarrow> deviceRPCPending" where
  "sample_call i d expires = \<lparr>dp_record = deviceRPCPendingRecord.make i no_route no_route 7 ''usr7'' ''body'' 5 ''usr5'' 5 ''usr5''
     ''server_canonical'' ''s'' ''p2p_5_7'' ''p2p'' ''g'' d ''b'' ''inst'' ''read_file'' [] 1 expires,
     dp_requester = None, dp_target = None\<rparr>"

theorem calls_in_flight_bounded_witness:
  "agent_load 7 20 (fold rpc_step [OpAdd (sample_call ''r1'' ''d'' 30) 5, OpAdd (sample_call ''r2'' ''d'' 12) 5, OpFinish ''r1'' 9,
      OpAdd (sample_call ''r3'' ''e'' 40) 10, OpExpire 15] ([], None)) \<le> 64 \<and>
   device_load 5 ''d'' 20 (fold rpc_step [OpAdd (sample_call ''r1'' ''d'' 30) 5, OpAdd (sample_call ''r2'' ''d'' 12) 5, OpFinish ''r1'' 9,
      OpAdd (sample_call ''r3'' ''e'' 40) 10, OpExpire 15] ([], None)) \<le> 32"
  by (rule calls_in_flight_bounded) simp_all

text \<open>
  C37: a call is answered at most once: after its id is finished no later request finds it, whatever other
  calls are added, finished and expired in between, unless the id itself is taken again.
\<close>

theorem call_answered_at_most_once:
  assumes "env_calls_ok env" and "i \<noteq> []" and "\<forall>p t. OpAdd p t \<in> set ops \<longrightarrow> rpc_requestID (dp_record p) \<noteq> i"
  shows "rpc_get i now (fold rpc_step ops (rpc_finish i env)) = None"
  unfolding rpc_step_eq by (rule enr.answered_once [OF assms])

theorem call_answered_at_most_once_witness:
  "rpc_get ''r1'' 20 (fold rpc_step [OpAdd (sample_call ''r2'' ''d'' 12) 5, OpExpire 15]
     (rpc_finish ''r1'' (fst (rpc_add (sample_call ''r1'' ''d'' 30) 5 ([], None))))) = None"
proof (rule call_answered_at_most_once)
  show "env_calls_ok (fst (rpc_add (sample_call ''r1'' ''d'' 30) 5 ([], None)))"
    by (rule enr.inv_ops(1)) simp
qed (auto simp: sample_call_def deviceRPCPendingRecord.make_def)

section \<open>The process's table refines the shared one\<close>

datatype rpc_request = CallAdd deviceRPCPending go_time | CallGet string go_time | CallFinish string | CallList uid | CallExpire go_time

text \<open>What a caller sees of an answer: a refusal, or the records of the calls it was given.\<close>

fun rpc_ask :: "rpc_request \<Rightarrow> rpc_env \<Rightarrow> rpc_env \<times> (rpc_refusal option + deviceRPCPendingRecord list)" where
  "rpc_ask (CallAdd p now) env = map_prod id Inl (rpc_add p now env)"
| "rpc_ask (CallGet i now) env = (env, Inr (case rpc_get i now env of None \<Rightarrow> [] | Some p \<Rightarrow> [dp_record p]))"
| "rpc_ask (CallFinish i) env = (rpc_finish i env, Inr [])"
| "rpc_ask (CallList u) env = (env, Inr (map dp_record (rpc_listByOwner u env)))"
| "rpc_ask (CallExpire now) env = map_prod id (\<lambda>ps. Inr (map dp_record ps)) (rpc_expire now env)"

fun rpc_answers :: "rpc_request list \<Rightarrow> rpc_env \<Rightarrow> (rpc_refusal option + deviceRPCPendingRecord list) list" where
  "rpc_answers [] env = []"
| "rpc_answers (c # cs) env = (case rpc_ask c env of (env', a) \<Rightarrow> a # rpc_answers cs env')"

fun rpc_agree :: "rpc_env \<Rightarrow> rpc_env \<Rightarrow> bool" where
  "rpc_agree (t, None) (t', Some s) \<longleftrightarrow> rpc_records t = sh_deviceRPC s"
| "rpc_agree _ _ \<longleftrightarrow> False"

lemma sort_key_map: "sort_key f (map g xs) = map g (sort_key (\<lambda>x. f (g x)) xs)"
proof -
  have "insort_key f (g x) (map g ys) = map g (insort_key (\<lambda>x. f (g x)) x ys)" for x ys by (induction ys) auto
  then show ?thesis by (induction xs) (simp_all add: sort_key_def)
qed

lemma dp_pending [simp]: "dp_record (pendingFromDeviceRPCRecord r) = r" "dp_record \<circ> pendingFromDeviceRPCRecord = id"
  by (auto simp: pendingFromDeviceRPCRecord_def)

lemma rpc_ask_agree:
  assumes "rpc_agree (t, None) (t', Some s)"
  shows "\<exists>u s'. fst (rpc_ask c (t, None)) = (u, None) \<and> fst (rpc_ask c (t', Some s)) = (t', Some s') \<and>
    rpc_agree (u, None) (t', Some s') \<and> snd (rpc_ask c (t, None)) = snd (rpc_ask c (t', Some s))"
proof (cases c)
  case (CallAdd p now)
  with assms show ?thesis
    by (auto simp: addDeviceRPCPending_def pt_add_def records_put deviceRPCRecordFromPending_def split: option.split)
next
  case (CallGet i now)
  with assms records_of [of t i] show ?thesis
    by (auto simp: getDeviceRPCPending_def pt_get_def deviceRPCRecordFromPending_def split: option.split)
next
  case (CallFinish i)
  with assms show ?thesis by (auto simp: finishDeviceRPCPending_def records_del)
next
  case (CallList u)
  with assms records_values [of t] show ?thesis
    by (auto simp: listDeviceRPCPendingByOwner_def pt_list_def sort_key_map filter_map comp_def)
next
  case (CallExpire now)
  with assms records_values [of t] records_keep [of "live_at now" t] show ?thesis
    by (auto simp: expireDeviceRPCPending_def pt_expire_def filter_map comp_def)
qed

lemma rpc_answers_agree: "rpc_agree (t, None) (t', Some s) \<Longrightarrow> rpc_answers cs (t, None) = rpc_answers cs (t', Some s)"
proof (induction cs arbitrary: t s)
  case (Cons c cs)
  from rpc_ask_agree [OF Cons.prems, of c] obtain u s' where
    "fst (rpc_ask c (t, None)) = (u, None)" "fst (rpc_ask c (t', Some s)) = (t', Some s')"
    "rpc_agree (u, None) (t', Some s')" "snd (rpc_ask c (t, None)) = snd (rpc_ask c (t', Some s))" by blast
  with Cons.IH [of u s'] show ?case by (simp add: case_prod_beta)
qed simp

text \<open>
  it makes no difference to a caller where the calls are kept: any sequence of requests to the router,
  with any clock, gets the same refusals and the same records from the process's table as from the shared
  state.
\<close>

theorem router_tables_equivalent:
  "rpc_answers cs ([], None) = rpc_answers cs ([], Some newSharedMemoryRuntimeState)"
  by (rule rpc_answers_agree) (simp add: rpc_records_def newSharedMemoryRuntimeState_def)

end
