(* ===== verification/CallRouting.thy ===== *)
theory CallRouting
  imports RpcRouter
begin

text \<open>
  Where a device call goes (\<open>server/device_rpc.go\<close>): the connection that serves a device, the delivery of
  a call to a connection of this server or of another one, and which of a user's devices can be reached.
  A set of connections is walked in the order of the list that stands for it.
\<close>

section \<open>Targets\<close>

definition findDeviceRPCTarget :: "uid \<Rightarrow> string \<Rightarrow> go_time \<Rightarrow> ('a, 'b) Hub \<Rightarrow> runtimeRoute \<times> client_ref option" where
  "findDeviceRPCTarget ownerUID deviceID now h =
     (if ownerUID \<le> 0 \<or> deviceID = [] then (no_route, None)
      else case hub_sharedRuntime h of
        Some s \<Rightarrow>
          (case userDeviceRoute ownerUID deviceID now s of
             None \<Rightarrow> (no_route, None)
           | Some route \<Rightarrow> (route, getClientByConnectionID (rt_ConnectionID route) h))
      | None \<Rightarrow>
          (case getDeviceClient ownerUID deviceID h of
             None \<Rightarrow> (no_route, None)
           | Some c \<Rightarrow> (clientRoute c now h, Some c)))"

definition findAgentRPCClient :: "uid \<Rightarrow> string \<Rightarrow> ('a, 'b) Hub \<Rightarrow> client_ref option" where
  "findAgentRPCClient agentUID agentBodyID h =
     (if agentUID \<le> 0 then None
      else List.find (\<lambda>c. agentBodyID = [] \<or> wc_bodyID (hub_client h c) = agentBodyID) (hub_clients_of agentUID h))"

definition sendDeviceRPCToLocalRoute :: "runtimeRoute \<Rightarrow> MsgDeviceRPC \<Rightarrow> go_time \<Rightarrow> ('a, 'b) Hub \<Rightarrow> ('a, 'b) Hub \<times> bool" where
  "sendDeviceRPCToLocalRoute route msg now h =
     (if rt_ConnectionID route = [] then (h, False)
      else case getClientByConnectionID (rt_ConnectionID route) h of
        None \<Rightarrow> (h, False)
      | Some c \<Rightarrow> (SendToClient (Some c) (DeviceRPCMessage msg) now h, True))"

text \<open>The shared state hands the call to the hub of the other node, if that has the connection.\<close>

definition deliverDeviceRPC :: "runtimeRoute \<Rightarrow> MsgDeviceRPC \<Rightarrow> go_time \<Rightarrow> ('a, 'b) Hub \<Rightarrow> ('a, 'b) Hub \<times> bool" where
  "deliverDeviceRPC route msg now h =
     (if \<not> validAt route now \<or> \<not> hub_peers h route then (h, False)
      else (h\<lparr>hub_peerSent := hub_peerSent h @ [(route, msg)]\<rparr>, True))"

definition sendDeviceRPCToRoute :: "runtimeRoute \<Rightarrow> MsgDeviceRPC \<Rightarrow> go_time \<Rightarrow> ('a, 'b) Hub \<Rightarrow> ('a, 'b) Hub \<times> bool" where
  "sendDeviceRPCToRoute route msg now h =
     (if \<not> validAt route now then (h, False)
      else if rt_NodeID route = [] \<or> rt_NodeID route = hub_nodeID h then sendDeviceRPCToLocalRoute route msg now h
      else if hub_sharedRuntime h \<noteq> None then deliverDeviceRPC route msg now h
      else (h, False))"

definition routeConnected :: "runtimeRoute \<Rightarrow> go_time \<Rightarrow> ('a, 'b) Hub \<Rightarrow> bool" where
  "routeConnected route now h \<longleftrightarrow>
     validAt route now \<and>
     (if rt_NodeID route = [] \<or> rt_NodeID route = hub_nodeID h
      then getClientByConnectionID (rt_ConnectionID route) h \<noteq> None
      else hub_sharedRuntime h \<noteq> None \<and> hub_peers h route)"

definition pendingMatchesDeviceClient :: "deviceRPCPending \<Rightarrow> client_ref \<Rightarrow> go_time \<Rightarrow> ('a, 'b) Hub \<Rightarrow> bool" where
  "pendingMatchesDeviceClient p c now h =
     (let r = dp_record p; v = hub_client h c; route = clientRoute c now h;
          serves = (wc_deviceOwnerUID v = rpc_ownerUID r \<and> wc_deviceID v = rpc_deviceID r)
      in if rpc_ownerUID r \<le> 0 \<or> rpc_deviceID r = [] then False
         else if rt_NodeID (rpc_targetRoute r) \<noteq> [] \<or> rt_ConnectionID (rpc_targetRoute r) \<noteq> []
         then route_matches (rpc_targetRoute r) route \<and>
              (let current = fst (findDeviceRPCTarget (rpc_ownerUID r) (rpc_deviceID r) now h)
               in \<not> (validAt current now \<and> \<not> route_matches current route)) \<and> serves
         else getDeviceClient (rpc_ownerUID r) (rpc_deviceID r) h = Some c \<and> serves)"

section \<open>Reachable devices\<close>

definition humanToolTargetDevices :: "UserDevice list \<Rightarrow> UserDevice list" where
  "humanToolTargetDevices devices = filter (\<lambda>d. normalizeDeviceRuntimeRole (ud_RuntimeRole d) \<noteq> ''server'') devices"

definition classify_device :: "uid \<Rightarrow> go_time \<Rightarrow> duration \<Rightarrow> ('a, 'b) Hub \<Rightarrow> UserDevice \<Rightarrow> UserDevice" where
  "classify_device ownerUID now ttl h d =
     (let active = isActiveDevice d now ttl;
          (route, target) = findDeviceRPCTarget ownerUID (ud_DeviceID d) now h;
          connected = (validAt route now \<and> (routeConnected route now h \<or> target \<noteq> None))
      in d\<lparr>ud_Active := active, ud_RouteConnected := connected, ud_Routable := active \<and> connected,
           ud_UnavailableReason := (if \<not> active then ''not_active'' else if \<not> connected then ''route_unavailable'' else [])\<rparr>)"

definition userDevicesTTL :: "('a, 'b) Hub \<Rightarrow> duration" where
  "userDevicesTTL h =
     (let ttl = rg_ttl (hb_userDevices (hub_connector h)) in if ttl \<le> 0 then Hub.defaultUserDeviceTTL else ttl)"

definition classifyUserDevices :: "uid \<Rightarrow> UserDevice list \<Rightarrow> go_time \<Rightarrow> ('a, 'b) Hub \<Rightarrow> UserDevice list \<times> UserDevice list" where
  "classifyUserDevices ownerUID devices now h =
     (if ownerUID \<le> 0 \<or> devices = [] then (devices, [])
      else let classified = map (classify_device ownerUID now (userDevicesTTL h) h) devices
           in (classified, filter (\<lambda>d. \<not> ud_Routable d) classified))"

definition routableDevices :: "UserDevice list \<Rightarrow> UserDevice list" where
  "routableDevices devices = filter ud_Routable devices"

definition unavailableDevices :: "UserDevice list \<Rightarrow> UserDevice list" where
  "unavailableDevices devices = filter (\<lambda>d. \<not> ud_Routable d) devices"

definition userDeviceRouteCandidates :: "uid \<Rightarrow> go_time \<Rightarrow> ('a, 'b) Hub \<Rightarrow> UserDevice list \<times> UserDevice list" where
  "userDeviceRouteCandidates ownerUID now h =
     (if ownerUID \<le> 0 then ([], [])
      else let devices = humanToolTargetDevices (rg_activeDevices ownerUID now (hb_userDevices (hub_connector h)));
               (routable, unavailable) = classifyUserDevices ownerUID devices now h
           in (routableDevices routable, unavailableDevices unavailable))"

section \<open>The calls of a hub\<close>

definition hub_calls :: "('a, 'b) Hub \<Rightarrow> rpc_env" where
  "hub_calls h = (hub_deviceRPC h, hub_sharedRuntime h)"

definition hub_set_calls :: "rpc_env \<Rightarrow> ('a, 'b) Hub \<Rightarrow> ('a, 'b) Hub" where
  "hub_set_calls env h =
     hub_with_shared (\<lambda>s. case snd env of Some s' \<Rightarrow> s' | None \<Rightarrow> s) (h\<lparr>hub_deviceRPC := fst env\<rparr>)"

record DeviceRPCPendingStatus =
  ps_call :: deviceRPCPendingRecord
  ps_CreatedAt :: int
  ps_ExpiresAt :: int
  ps_TTLMS :: int
  ps_RequesterConnected :: bool
  ps_TargetConnected :: bool

text \<open>\<open>Duration.Milliseconds\<close> divides the nanoseconds and drops the rest, towards zero.\<close>

definition milliseconds :: "duration \<Rightarrow> int" where
  "milliseconds d = go_quot d 1000000"

definition DeviceRPCStatus :: "uid \<Rightarrow> string list \<Rightarrow> go_time \<Rightarrow> ('a, 'b) Hub \<Rightarrow> DeviceRPCPendingStatus list" where
  "DeviceRPCStatus ownerUID agentIDFilter now h =
     (if ownerUID \<le> 0 then []
      else let wanted = (case agentIDFilter of [] \<Rightarrow> [] | f # _ \<Rightarrow> trimSpace f);
               calls = filter (\<lambda>p. wanted = [] \<or> rpc_agentID (dp_record p) = wanted) (rpc_listByOwner ownerUID (hub_calls h))
           in map (\<lambda>p. let r = dp_record p in
                \<lparr>ps_call = r, ps_CreatedAt = unixMillis (rpc_createdAt r), ps_ExpiresAt = unixMillis (rpc_expiresAt r),
                 ps_TTLMS = max 0 (milliseconds (rpc_expiresAt r - now)),
                 ps_RequesterConnected =
                   (routeConnected (rpc_requesterRoute r) now h \<or>
                    (case dp_requester p of None \<Rightarrow> False | Some c \<Rightarrow> isClientRegistered c h) \<or>
                    findAgentRPCClient (rpc_agentUID r) (rpc_agentBodyID r) h \<noteq> None),
                 ps_TargetConnected =
                   (routeConnected (rpc_targetRoute r) now h \<or>
                    (case dp_target p of None \<Rightarrow> False | Some c \<Rightarrow> pendingMatchesDeviceClient p c now h))\<rparr>) calls)"

end
