(* ===== verification/DeviceRpc.thy ===== *)
theory DeviceRpc
  imports CallRouting
begin

text \<open>
  Device calls (\<open>server/device_rpc.go\<close>): a bot asks for an operation on a user's device under a grant, the
  hub checks the grant and forwards the call to the connection that serves the device, the device answers,
  and the hub hands the result to the bot. A refusal is written to the audit log and acknowledged to the
  sender with an HTTP status code. A handler reads the clock once.
\<close>

section \<open>Checks\<close>

definition maxDeviceRPCRequestIDLength :: nat where
  "maxDeviceRPCRequestIDLength = 128"

definition maxDeviceAuditCommandLen :: nat where
  "maxDeviceAuditCommandLen = 2048"

definition normalizeDeviceRPCRequestID :: "string \<Rightarrow> string option" where
  "normalizeDeviceRPCRequestID v =
     (let requestID = trimSpace v
      in if requestID = [] \<or> maxDeviceRPCRequestIDLength < length requestID then None else Some requestID)"

definition hasRuntimeCapability :: "Client \<Rightarrow> string \<Rightarrow> bool" where
  "hasRuntimeCapability v capability \<longleftrightarrow> capability \<noteq> [] \<and> capability \<in> set (wc_runtimeCapabilities v)"

definition hub_getenv :: "('a, 'b) Hub \<Rightarrow> string \<Rightarrow> string" where
  "hub_getenv h = rg_getenv (hb_userDevices (hub_connector h))"

definition xiaobaRuntimeV2EnabledForClient :: "client_ref \<Rightarrow> ('a, 'b) Hub \<Rightarrow> bool" where
  "xiaobaRuntimeV2EnabledForClient c h \<longleftrightarrow>
     wc_accountType (hub_client h c) = AccountBot \<and>
     xiaobaRuntimeV2EnabledForBot (hub_getenv h) (wc_uid (hub_client h c)) \<and>
     hasRuntimeCapability (hub_client h c) ''device-targets.v1''"

text \<open>A field of the message that is given must be the grant's; the result is the reason of a refusal.\<close>

definition differs :: "string \<Rightarrow> string \<Rightarrow> bool" where
  "differs given granted \<longleftrightarrow> trimSpace given \<noteq> [] \<and> trimSpace given \<noteq> granted"

definition validateDeviceRPCGrant ::
  "Client \<Rightarrow> MsgDeviceRPC \<Rightarrow> ScopedDeviceGrant \<Rightarrow> DeviceGrantOperation \<Rightarrow> string option" where
  "validateDeviceRPCGrant v msg g operation =
     (if gr_TargetScope g \<noteq> mr_TargetScope msg then Some ''target_scope does not match grant''
      else if gr_TargetScope g = ''explicit_device'' \<and>
          (trimSpace (mr_DeviceID msg) \<noteq> gr_DeviceID g \<or> gr_OwnerUserID g \<noteq> gr_ActorUserID g)
        then Some ''explicit device authorization requires an exact same-account device_id''
      else if gr_Status g \<noteq> ''active'' \<or> gr_IdentityTrust g \<noteq> ''server_canonical'' then Some ''device grant is not trusted''
      else if gr_AgentID g \<noteq> [] \<and> parseFormattedUID (gr_AgentID g) \<noteq> wc_uid v then Some ''agent does not match grant''
      else if differs (mr_AgentID msg) (gr_AgentID g) then Some ''agent_id does not match grant''
      else if gr_AgentBodyID g \<noteq> [] \<and> wc_bodyID v \<noteq> [] \<and> wc_bodyID v \<noteq> gr_AgentBodyID g
        then Some ''agent body does not match grant''
      else if differs (mr_AgentBodyID msg) (gr_AgentBodyID g) then Some ''agent_body_id does not match grant''
      else if differs (mr_ActorUserID msg) (gr_ActorUserID g) then Some ''actor_user_id does not match grant''
      else if differs (mr_SessionKey msg) (gr_SessionKey g) then Some ''session_key does not match grant''
      else if differs (mr_TopicID msg) (gr_TopicID g) then Some ''topic_id does not match grant''
      else if differs (mr_TopicType msg) (gr_TopicType g) then Some ''topic_type does not match grant''
      else if differs (mr_DeviceID msg) (gr_DeviceID g) then Some ''device_id does not match grant''
      else if operation \<in> set (gr_Operations g) then None
      else Some ''operation is not allowed by grant'')"

section \<open>The audit log\<close>

text \<open>The command of a shell call, from the payload or one level below; what is longer is cut.\<close>

fun shell_command :: "string list \<Rightarrow> (string \<times> json) list \<Rightarrow> string" where
  "shell_command [] values = []"
| "shell_command (k # ks) values =
     (case map_of values k of Some (JStr s) \<Rightarrow> take maxDeviceAuditCommandLen (trimSpace s) | _ \<Rightarrow> shell_command ks values)"

definition deviceRPCShellCommandFromMap :: "(string \<times> json) list \<Rightarrow> string" where
  "deviceRPCShellCommandFromMap values = shell_command [''command'', ''cmd''] values"

fun nested_command :: "string list \<Rightarrow> (string \<times> json) list \<Rightarrow> string" where
  "nested_command [] payload = []"
| "nested_command (k # ks) payload =
     (case map_of payload k of
        Some (JObj nested) \<Rightarrow>
          if deviceRPCShellCommandFromMap nested \<noteq> [] then deviceRPCShellCommandFromMap nested else nested_command ks payload
      | _ \<Rightarrow> nested_command ks payload)"

definition deviceRPCShellCommand :: "(string \<times> json) list \<Rightarrow> string" where
  "deviceRPCShellCommand payload =
     (if payload = [] then []
      else if deviceRPCShellCommandFromMap payload \<noteq> [] then deviceRPCShellCommandFromMap payload
      else nested_command [''args'', ''input'', ''tool_input''] payload)"

definition device_rpc_event :: "string \<Rightarrow> string \<Rightarrow> string \<Rightarrow> MsgDeviceRPC \<Rightarrow> ScopedDeviceGrant \<Rightarrow> DeviceAuditEvent" where
  "device_rpc_event phase res reason msg g =
     (let operation = firstNonEmpty [mr_Operation msg, mr_Operation msg]
      in \<lparr>ev_ID = [], ev_OwnerUserID = [], ev_ActorUserID = gr_ActorUserID g, ev_AgentID = gr_AgentID g,
          ev_DeviceID = firstNonEmpty [gr_DeviceID g, mr_DeviceID msg],
          ev_SessionKey = firstNonEmpty [gr_SessionKey g, mr_SessionKey msg], ev_Operation = operation,
          ev_ToolName = trimSpace (mr_ToolName msg),
          ev_Command = (if operation = ''execute_shell'' then deviceRPCShellCommand (mr_Payload msg) else []),
          ev_Phase = phase, ev_Result = res, ev_Reason = reason, ev_CreatedAt = 0\<rparr>)"

text \<open>\<open>random\<close> is the next identifier of the random source, if that works.\<close>

definition auditDeviceRPC ::
  "uid \<Rightarrow> string \<Rightarrow> string \<Rightarrow> string \<Rightarrow> MsgDeviceRPC \<Rightarrow> ScopedDeviceGrant \<Rightarrow> string option \<Rightarrow> go_time \<Rightarrow>
   ('a, 'b) Hub \<Rightarrow> ('a, 'b) Hub" where
  "auditDeviceRPC ownerUID phase res reason msg g random now h =
     (if ownerUID \<le> 0 then h
      else h\<lparr>hub_connector := addDeviceAudit ownerUID (device_rpc_event phase res reason msg g) random now (hub_connector h)\<rparr>)"

definition sendDeviceRPCAck ::
  "client_ref \<Rightarrow> string \<Rightarrow> nat \<Rightarrow> string \<Rightarrow> (string \<times> json) list \<Rightarrow> go_time \<Rightarrow> ('a, 'b) Hub \<Rightarrow> ('a, 'b) Hub" where
  "sendDeviceRPCAck c i code text params now h = SendToClient (Some c) (CtrlMessage i code text params) now h"

section \<open>A call\<close>

text \<open>The stored grant, and whether its device was revoked after the grant was first issued.\<close>

definition hub_lookupGrant :: "string \<Rightarrow> go_time \<Rightarrow> ('a, 'b) Hub \<Rightarrow> ('a, 'b) Hub \<times> ScopedDeviceGrant option" where
  "hub_lookupGrant grantID now h =
     (case rg_lookupGrant grantID now (hb_userDevices (hub_connector h)) of
        (r, g) \<Rightarrow> (h\<lparr>hub_connector := (hub_connector h)\<lparr>hb_userDevices := r\<rparr>\<rparr>, g))"

definition hub_connector_revoked :: "DeviceConnectorClaims \<Rightarrow> go_time \<Rightarrow> ('a, 'b) Hub \<Rightarrow> ('a, 'b) Hub \<times> bool" where
  "hub_connector_revoked claims now h =
     (case hub_isDeviceConnectorRevoked claims now (hub_connector h) of (k, v) \<Rightarrow> (h\<lparr>hub_connector := k\<rparr>, v))"

definition grant_claims :: "ScopedDeviceGrant \<Rightarrow> DeviceConnectorClaims" where
  "grant_claims g =
     \<lparr>cl_TokenType = [], cl_UID = parseFormattedUID (gr_OwnerUserID g), cl_Username = [], cl_DeviceID = gr_DeviceID g,
      cl_InstallationID = [], cl_DisplayName = [], cl_Capabilities = [], cl_Scopes = [], cl_ID = [],
      cl_IssuedAt = Some (unix_milli (gr_CreatedAt g)), cl_ExpiresAt = None\<rparr>"

definition deviceGrantWasRevoked :: "ScopedDeviceGrant \<Rightarrow> go_time \<Rightarrow> ('a, 'b) Hub \<Rightarrow> ('a, 'b) Hub \<times> bool" where
  "deviceGrantWasRevoked g now h = hub_connector_revoked (grant_claims g) now h"

text \<open>A refusal: what is audited (owner, result, reason, grant), and the acknowledgement.\<close>

datatype call_refusal = CallRefusal "(uid \<times> string \<times> string \<times> ScopedDeviceGrant) option" nat string "(string \<times> json) list"

record authorized_call =
  ac_requestID :: string
  ac_operation :: DeviceGrantOperation
  ac_grant :: ScopedDeviceGrant
  ac_actorUID :: uid
  ac_ownerUID :: uid
  ac_ownerUserID :: string
  ac_device :: UserDevice
  ac_targetRoute :: runtimeRoute
  ac_target :: "client_ref option"

definition refuse_call ::
  "client_ref \<Rightarrow> MsgDeviceRPC \<Rightarrow> call_refusal \<Rightarrow> string option \<Rightarrow> go_time \<Rightarrow> ('a, 'b) Hub \<Rightarrow> ('a, 'b) Hub" where
  "refuse_call c msg refusal random now h =
     (case refusal of CallRefusal audit code text params \<Rightarrow>
        sendDeviceRPCAck c (mr_ID msg) code text params now
          (case audit of
             None \<Rightarrow> h
           | Some (ownerUID, res, reason, g) \<Rightarrow> auditDeviceRPC ownerUID ''rpc_rejected'' res reason msg g random now h))"

text \<open>From the grant to the connection: the second half of the checks, on a grant that is not revoked.\<close>

definition incarnation_changed :: "ScopedDeviceGrant \<Rightarrow> UserDevice \<Rightarrow> bool" where
  "incarnation_changed g device \<longleftrightarrow>
     (gr_DeviceBodyID g \<noteq> [] \<and> gr_DeviceBodyID g \<noteq> ud_BodyID device) \<or>
     (gr_DeviceInstallationID g \<noteq> [] \<and> gr_DeviceInstallationID g \<noteq> ud_InstallationID device)"

definition resolve_call ::
  "uid \<Rightarrow> uid \<Rightarrow> string \<Rightarrow> string \<Rightarrow> DeviceGrantOperation \<Rightarrow> ScopedDeviceGrant \<Rightarrow> go_time \<Rightarrow> ('a, 'b) Hub \<Rightarrow>
   call_refusal + authorized_call" where
  "resolve_call actorUID ownerUID ownerUserID requestID operation g now h =
     (let params = [(''request_id'', JStr requestID), (''device_id'', JStr (gr_DeviceID g))]
      in case rg_activeDevice ownerUID (gr_DeviceID g) now (hb_userDevices (hub_connector h)) of
           None \<Rightarrow> Inl (CallRefusal (Some (ownerUID, ''offline'', ''device offline'', g)) 404 ''device offline'' params)
         | Some device \<Rightarrow>
             if incarnation_changed g device
             then Inl (CallRefusal (Some (ownerUID, ''denied'', ''device incarnation changed since authorization'', g)) 403
                    ''device incarnation changed since authorization'' params)
             else (case findDeviceRPCTarget ownerUID (ud_DeviceID device) now h of (route, target) \<Rightarrow>
               if \<not> validAt route now
               then Inl (CallRefusal (Some (ownerUID, ''unavailable'', ''device connection unavailable'', g)) 404
                      ''device connection unavailable'' params)
               else Inr \<lparr>ac_requestID = requestID, ac_operation = operation, ac_grant = g, ac_actorUID = actorUID,
                      ac_ownerUID = ownerUID, ac_ownerUserID = ownerUserID, ac_device = device,
                      ac_targetRoute = route, ac_target = target\<rparr>))"

definition explicit_needs_upgrade :: string where
  "explicit_needs_upgrade = ''explicit device authorization requires a negotiated client upgrade''"

definition check_grant ::
  "client_ref \<Rightarrow> MsgDeviceRPC \<Rightarrow> string \<Rightarrow> DeviceGrantOperation \<Rightarrow> ScopedDeviceGrant \<Rightarrow> go_time \<Rightarrow> ('a, 'b) Hub \<Rightarrow>
   call_refusal + authorized_call" where
  "check_grant c msg requestID operation g now h =
     (let params = [(''request_id'', JStr requestID)]
      in if gr_TargetScope g = ''explicit_device'' \<and> \<not> xiaobaRuntimeV2EnabledForClient c h
         then Inl (CallRefusal (Some (parseFormattedUID (firstNonEmpty [gr_OwnerUserID g, gr_ActorUserID g]), ''denied'',
                explicit_needs_upgrade, g)) 403 explicit_needs_upgrade params)
         else let actorUID = parseFormattedUID (gr_ActorUserID g)
         in if actorUID \<le> 0
            then Inl (CallRefusal (Some (0, ''denied'', ''invalid actor user'', g)) 403 ''invalid actor user'' params)
            else let ownerUID = (if parseFormattedUID (gr_OwnerUserID g) \<le> 0 then actorUID
                                 else parseFormattedUID (gr_OwnerUserID g));
                     ownerUserID = (if trimSpace (gr_OwnerUserID g) = [] then formatUID ownerUID
                                    else trimSpace (gr_OwnerUserID g));
                     g = (if trimSpace (gr_OwnerUserID g) = [] then g\<lparr>gr_OwnerUserID := ownerUserID\<rparr> else g)
            in case validateDeviceRPCGrant (hub_client h c) msg g operation of
                 Some err \<Rightarrow> Inl (CallRefusal (Some (ownerUID, ''denied'', err, g)) 403 err params)
               | None \<Rightarrow> resolve_call actorUID ownerUID ownerUserID requestID operation g now h)"

definition authorizeDeviceRPC ::
  "client_ref \<Rightarrow> MsgDeviceRPC \<Rightarrow> go_time \<Rightarrow> ('a, 'b) Hub \<Rightarrow> ('a, 'b) Hub \<times> (call_refusal + authorized_call)" where
  "authorizeDeviceRPC c msg now h =
     (case normalizeDeviceRPCRequestID (mr_RequestID msg) of
        None \<Rightarrow> (h, Inl (CallRefusal None 400 ''request_id required'' []))
      | Some requestID \<Rightarrow>
          let grantID = trimSpace (mr_GrantID msg); operation = trimSpace (mr_Operation msg);
              params = [(''request_id'', JStr requestID)]
          in if grantID = [] then (h, Inl (CallRefusal None 400 ''grant_id required'' params))
             else if operation = [] then (h, Inl (CallRefusal None 400 ''operation required'' params))
             else if \<not> isAllowedDeviceRPCOperation operation
             then (h, Inl (CallRefusal None 403 ''operation is not supported by device rpc'' params))
             else case hub_lookupGrant grantID now h of
               (h, None) \<Rightarrow> (h, Inl (CallRefusal None 403 ''device grant is not active'' params))
             | (h, Some g) \<Rightarrow>
                 (case deviceGrantWasRevoked g now h of (h, revoked) \<Rightarrow>
                    if revoked then (h, Inl (CallRefusal None 403 ''device grant is not active'' params))
                    else (h, check_grant c msg requestID operation g now h)))"

definition call_expiry :: "authorized_call \<Rightarrow> go_time \<Rightarrow> duration \<Rightarrow> go_time" where
  "call_expiry call now ttl =
     (let e = gr_ExpiresAt (ac_grant call)
      in if 0 < e \<and> unix_milli e < now + ttl then unix_milli e else now + ttl)"

definition forwarded_request :: "MsgDeviceRPC \<Rightarrow> authorized_call \<Rightarrow> go_time \<Rightarrow> go_time \<Rightarrow> MsgDeviceRPC" where
  "forwarded_request msg call now expiresAt =
     (let g = ac_grant call; device = ac_device call
      in msg\<lparr>mr_ID := [], mr_Type := ''request'', mr_RequestID := ac_requestID call, mr_GrantID := gr_GrantID g,
         mr_SessionKey := gr_SessionKey g, mr_TopicID := gr_TopicID g, mr_TopicType := gr_TopicType g,
         mr_ActorUserID := gr_ActorUserID g, mr_OwnerUserID := ac_ownerUserID call, mr_IdentitySource := gr_IdentitySource g,
         mr_AgentID := gr_AgentID g, mr_AgentBodyID := gr_AgentBodyID g, mr_DeviceID := ud_DeviceID device,
         mr_DeviceBodyID := firstNonEmpty [ud_BodyID device, gr_DeviceBodyID g],
         mr_DeviceInstallationID := firstNonEmpty [ud_InstallationID device, gr_DeviceInstallationID g],
         mr_Operation := ac_operation call, mr_CreatedAt := unixMillis now, mr_ExpiresAt := unixMillis expiresAt\<rparr>)"

definition pending_call ::
  "client_ref \<Rightarrow> MsgDeviceRPC \<Rightarrow> authorized_call \<Rightarrow> go_time \<Rightarrow> go_time \<Rightarrow> ('a, 'b) Hub \<Rightarrow> deviceRPCPending" where
  "pending_call c msg call now expiresAt h =
     (let g = ac_grant call; device = ac_device call
      in \<lparr>dp_record =
            \<lparr>rpc_requestID = ac_requestID call, rpc_requesterRoute = (clientRoute c now h)\<lparr>rt_ExpiresAt := expiresAt\<rparr>,
             rpc_targetRoute = ac_targetRoute call, rpc_agentUID = wc_uid (hub_client h c), rpc_agentID = gr_AgentID g,
             rpc_agentBodyID = gr_AgentBodyID g, rpc_actorUID = ac_actorUID call, rpc_actorUserID = gr_ActorUserID g,
             rpc_ownerUID = ac_ownerUID call, rpc_ownerUserID = ac_ownerUserID call, rpc_identitySource = gr_IdentitySource g,
             rpc_sessionKey = gr_SessionKey g, rpc_topicID = gr_TopicID g, rpc_topicType = gr_TopicType g,
             rpc_grantID = gr_GrantID g, rpc_deviceID = ud_DeviceID device,
             rpc_deviceBodyID = firstNonEmpty [ud_BodyID device, gr_DeviceBodyID g],
             rpc_deviceInstallID = firstNonEmpty [ud_InstallationID device, gr_DeviceInstallationID g],
             rpc_operation = ac_operation call, rpc_toolName = trimSpace (mr_ToolName msg), rpc_createdAt = now,
             rpc_expiresAt = expiresAt\<rparr>,
          dp_requester = Some c, dp_target = ac_target call\<rparr>)"

definition full_refusal :: "authorized_call \<Rightarrow> rpc_refusal \<Rightarrow> call_refusal" where
  "full_refusal call r =
     (let params = [(''request_id'', JStr (ac_requestID call))]
      in if r = RpcAgentLimit \<or> r = RpcDeviceLimit
         then CallRefusal (Some (ac_ownerUID call, ''rate_limited'', ''too many pending device rpc requests'', ac_grant call))
                429 ''too many pending device rpc requests'' params
         else CallRefusal (Some (ac_ownerUID call, ''duplicate'', ''request_id is already pending'', ac_grant call))
                409 ''request_id is already pending'' params)"

definition forward_call ::
  "client_ref \<Rightarrow> MsgDeviceRPC \<Rightarrow> authorized_call \<Rightarrow> string option \<Rightarrow> go_time \<Rightarrow> ('a, 'b) Hub \<Rightarrow> ('a, 'b) Hub" where
  "forward_call c msg call random now h =
     (let expiresAt = call_expiry call now (hub_rpcTTL h); forward = forwarded_request msg call now expiresAt
      in case rpc_add (pending_call c msg call now expiresAt h) now (hub_calls h) of
           (env, Some r) \<Rightarrow> refuse_call c msg (full_refusal call r) random now (hub_set_calls env h)
         | (env, None) \<Rightarrow>
             (case sendDeviceRPCToRoute (ac_targetRoute call) forward now (hub_set_calls env h) of
                (h, False) \<Rightarrow>
                  refuse_call c msg (CallRefusal
                      (Some (ac_ownerUID call, ''unavailable'', ''device connection unavailable'', ac_grant call)) 404
                      ''device connection unavailable''
                      [(''request_id'', JStr (ac_requestID call)), (''device_id'', JStr (gr_DeviceID (ac_grant call)))])
                    random now (hub_set_calls (rpc_finish (ac_requestID call) (hub_calls h)) h)
              | (h, True) \<Rightarrow>
                  sendDeviceRPCAck c (mr_ID msg) 200 ''ok''
                    [(''request_id'', JStr (ac_requestID call)), (''device_id'', JStr (ud_DeviceID (ac_device call))),
                     (''device_body_id'', JStr (mr_DeviceBodyID forward)),
                     (''device_installation_id'', JStr (mr_DeviceInstallationID forward)),
                     (''operation'', JStr (ac_operation call)), (''tool_name'', JStr (mr_ToolName forward)),
                     (''expires_at'', JNum (unixMillis expiresAt))] now
                    (auditDeviceRPC (ac_ownerUID call) ''rpc_forwarded'' ''ok'' [] forward (ac_grant call) random now h)))"

definition handleDeviceRPCRequest ::
  "client_ref \<Rightarrow> MsgDeviceRPC \<Rightarrow> string option \<Rightarrow> go_time \<Rightarrow> ('a, 'b) Hub \<Rightarrow> ('a, 'b) Hub" where
  "handleDeviceRPCRequest c msg random now h =
     (if wc_accountType (hub_client h c) \<noteq> AccountBot
      then sendDeviceRPCAck c (mr_ID msg) 403 ''device rpc requests require bot connection'' [] now h
      else case authorizeDeviceRPC c msg now h of
        (h, Inl refusal) \<Rightarrow> refuse_call c msg refusal random now h
      | (h, Inr call) \<Rightarrow> forward_call c msg call random now h)"

section \<open>A result\<close>

text \<open>The connection the agent has now, when the one that asked is no longer valid.\<close>

definition requester_route :: "deviceRPCPending \<Rightarrow> go_time \<Rightarrow> ('a, 'b) Hub \<Rightarrow> runtimeRoute" where
  "requester_route p now h =
     (let r = dp_record p; route = rpc_requesterRoute r
      in if validAt route now then route
         else case dp_requester p of
           Some c \<Rightarrow> if isClientRegistered c h then clientRoute c now h
                     else (case findAgentRPCClient (rpc_agentUID r) (rpc_agentBodyID r) h of
                             Some e \<Rightarrow> clientRoute e now h | None \<Rightarrow> route)
         | None \<Rightarrow> (case findAgentRPCClient (rpc_agentUID r) (rpc_agentBodyID r) h of
                      Some e \<Rightarrow> clientRoute e now h | None \<Rightarrow> route))"

definition empty_grant :: ScopedDeviceGrant where
  "empty_grant =
     \<lparr>gr_TargetScope = [], gr_SelectionRevision = [], gr_Kind = [], gr_Source = [], gr_GrantID = [], gr_Status = [],
      gr_IdentityTrust = [], gr_IdentitySource = [], gr_DeviceID = [], gr_DeviceRegisteredAt = 0, gr_DeviceDisplayName = [],
      gr_DeviceBodyID = [], gr_DeviceInstallationID = [], gr_DeviceActive = False, gr_DeviceRouteConnected = False,
      gr_DeviceRoutable = False, gr_OwnerUserID = [], gr_SessionKey = [], gr_TopicID = [], gr_TopicType = [],
      gr_ActorUserID = [], gr_AgentID = [], gr_AgentBodyID = [], gr_Operations = [], gr_CreatedAt = 0, gr_ExpiresAt = 0,
      gr_Permanent = False, gr_RenewableUntil = 0\<rparr>"

definition pending_grant :: "deviceRPCPendingRecord \<Rightarrow> ScopedDeviceGrant" where
  "pending_grant r =
     empty_grant\<lparr>gr_GrantID := rpc_grantID r, gr_SessionKey := rpc_sessionKey r, gr_ActorUserID := rpc_actorUserID r,
       gr_OwnerUserID := rpc_ownerUserID r, gr_AgentID := rpc_agentID r, gr_DeviceID := rpc_deviceID r\<rparr>"

definition with_call :: "string \<Rightarrow> deviceRPCPendingRecord \<Rightarrow> MsgDeviceRPC \<Rightarrow> MsgDeviceRPC" where
  "with_call requestID r msg =
     msg\<lparr>mr_ID := [], mr_Type := ''result'', mr_RequestID := requestID, mr_GrantID := rpc_grantID r,
       mr_SessionKey := rpc_sessionKey r, mr_TopicID := rpc_topicID r, mr_TopicType := rpc_topicType r,
       mr_ActorUserID := rpc_actorUserID r, mr_OwnerUserID := rpc_ownerUserID r,
       mr_IdentitySource := rpc_identitySource r, mr_AgentID := rpc_agentID r, mr_AgentBodyID := rpc_agentBodyID r,
       mr_DeviceID := rpc_deviceID r, mr_DeviceBodyID := rpc_deviceBodyID r,
       mr_DeviceInstallationID := rpc_deviceInstallID r\<rparr>"

text \<open>A device that holds a connector token needs the scope, and a token that is not revoked.\<close>

definition result_token_refusal :: "client_ref \<Rightarrow> go_time \<Rightarrow> ('a, 'b) Hub \<Rightarrow> ('a, 'b) Hub \<times> string option" where
  "result_token_refusal c now h =
     (case wc_deviceConnector (hub_client h c) of
        None \<Rightarrow> (h, None)
      | Some claims \<Rightarrow>
          if \<not> deviceConnectorHasScope claims ''device:rpc_result''
          then (h, Some ''device connector token does not allow device_rpc results'')
          else case hub_connector_revoked claims now h of
            (h, revoked) \<Rightarrow> (h, if revoked then Some ''device connector token has been revoked'' else None))"

definition deliver_result ::
  "client_ref \<Rightarrow> MsgDeviceRPC \<Rightarrow> string \<Rightarrow> deviceRPCPending \<Rightarrow> string option \<Rightarrow> go_time \<Rightarrow> ('a, 'b) Hub \<Rightarrow> ('a, 'b) Hub" where
  "deliver_result c msg requestID p random now h =
     (let r = dp_record p; params = [(''request_id'', JStr requestID)]; route = requester_route p now h;
          forward = with_call requestID r msg
      in if \<not> validAt route now then sendDeviceRPCAck c (mr_ID msg) 410 ''requester offline'' params now h
         else case sendDeviceRPCToRoute route forward now h of
           (h, False) \<Rightarrow>
             sendDeviceRPCAck c (mr_ID msg) 410 ''requester offline'' params now
               (auditDeviceRPC (rpc_ownerUID r) ''rpc_result_rejected'' ''gone'' ''requester offline'' forward
                 (pending_grant r) random now h)
         | (h, True) \<Rightarrow>
             sendDeviceRPCAck c (mr_ID msg) 200 ''ok'' params now
               (auditDeviceRPC (rpc_ownerUID r) ''rpc_result''
                 (case mr_Error forward of None \<Rightarrow> ''ok'' | Some e \<Rightarrow> ''error'')
                 (case mr_Error forward of None \<Rightarrow> [] | Some e \<Rightarrow> er_Code e) forward (pending_grant r) random now h))"

definition handleDeviceRPCResult ::
  "client_ref \<Rightarrow> MsgDeviceRPC \<Rightarrow> string option \<Rightarrow> go_time \<Rightarrow> ('a, 'b) Hub \<Rightarrow> ('a, 'b) Hub" where
  "handleDeviceRPCResult c msg random now h =
     (case result_token_refusal c now h of
        (h, Some err) \<Rightarrow> sendDeviceRPCAck c (mr_ID msg) 403 err [] now h
      | (h, None) \<Rightarrow>
          (case normalizeDeviceRPCRequestID (mr_RequestID msg) of
             None \<Rightarrow> sendDeviceRPCAck c (mr_ID msg) 400 ''request_id required'' [] now h
           | Some requestID \<Rightarrow>
               (case rpc_get requestID now (hub_calls h) of
                  None \<Rightarrow> sendDeviceRPCAck c (mr_ID msg) 404 ''request not pending'' [(''request_id'', JStr requestID)] now h
                | Some p \<Rightarrow>
                    if \<not> pendingMatchesDeviceClient p c now h
                    then sendDeviceRPCAck c (mr_ID msg) 403 ''result source does not match target device''
                           [(''request_id'', JStr requestID)] now
                           (auditDeviceRPC (rpc_ownerUID (dp_record p)) ''rpc_result_rejected'' ''denied''
                             ''result source does not match target device'' msg (pending_grant (dp_record p)) random now h)
                    else deliver_result c msg requestID p random now (hub_set_calls (rpc_finish requestID (hub_calls h)) h))))"

definition handleDeviceRPC :: "client_ref \<Rightarrow> MsgDeviceRPC \<Rightarrow> string option \<Rightarrow> go_time \<Rightarrow> ('a, 'b) Hub \<Rightarrow> ('a, 'b) Hub" where
  "handleDeviceRPC c msg random now h =
     (let kind = toLower (trimSpace (mr_Type msg))
      in if kind = ''request'' then handleDeviceRPCRequest c msg random now h
         else if kind = ''result'' then handleDeviceRPCResult c msg random now h
         else sendDeviceRPCAck c (mr_ID msg) 400 ''unknown device_rpc type'' [] now h)"

section \<open>Timeouts\<close>

definition empty_rpc_message :: MsgDeviceRPC where
  "empty_rpc_message =
     \<lparr>mr_TargetScope = [], mr_ID = [], mr_Type = [], mr_RequestID = [], mr_GrantID = [], mr_SessionKey = [], mr_TopicID = [],
      mr_TopicType = [], mr_ActorUserID = [], mr_OwnerUserID = [], mr_IdentitySource = [], mr_AgentID = [], mr_AgentBodyID = [],
      mr_DeviceID = [], mr_DeviceBodyID = [], mr_DeviceInstallationID = [], mr_Operation = [], mr_ToolName = [],
      mr_Payload = [], mr_Result = JNull, mr_Error = None, mr_CreatedAt = 0, mr_ExpiresAt = 0\<rparr>"

definition timeout_message :: "deviceRPCPendingRecord \<Rightarrow> MsgDeviceRPC" where
  "timeout_message r =
     (with_call (rpc_requestID r) r empty_rpc_message)\<lparr>mr_Operation := rpc_operation r, mr_ToolName := rpc_toolName r,
       mr_Error := Some \<lparr>er_Code = ''device_rpc_timeout'',
         er_Message = ''device did not return a result before the request expired''\<rparr>,
       mr_CreatedAt := unixMillis (rpc_createdAt r), mr_ExpiresAt := unixMillis (rpc_expiresAt r)\<rparr>"

definition notifyDeviceRPCTimeout :: "go_time \<Rightarrow> deviceRPCPending \<Rightarrow> ('a, 'b) Hub \<Rightarrow> ('a, 'b) Hub" where
  "notifyDeviceRPCTimeout now p h =
     (let r = dp_record p; route = requester_route p now h
      in if rpc_requestID r = [] then h
         else if \<not> validAt route now then h
         else fst (sendDeviceRPCToRoute route (timeout_message r) now h))"

definition expireDeviceRPCRequests :: "go_time \<Rightarrow> ('a, 'b) Hub \<Rightarrow> ('a, 'b) Hub \<times> nat" where
  "expireDeviceRPCRequests now h =
     (case rpc_expire now (hub_calls h) of
        (env, expired) \<Rightarrow> (fold (notifyDeviceRPCTimeout now) expired (hub_set_calls env h), length expired))"

end
