(* ===== verification/DeviceCallSafety.thy ===== *)
theory DeviceCallSafety
  imports DeviceRpc
begin

text \<open>
  What device calls guarantee: a call reaches only the connection that serves the granted device, and says
  what the grant says; a result comes from that connection only and is handed over at most once.
\<close>

section \<open>What a handler may show of a call\<close>

definition rpc_mail :: "client_ref \<Rightarrow> ('a, 'b) Hub \<Rightarrow> MsgDeviceRPC list" where
  "rpc_mail e h = List.map_filter (\<lambda>m. case m of DeviceRPCMessage x \<Rightarrow> Some x | _ \<Rightarrow> None) (wc_send (hub_client h e))"

text \<open>The device calls every connection and every other server was sent.\<close>

definition rpc_sent :: "('a, 'b) Hub \<Rightarrow> (client_ref \<Rightarrow> MsgDeviceRPC list) \<times> (runtimeRoute \<times> MsgDeviceRPC) list" where
  "rpc_sent h = ((\<lambda>e. rpc_mail e h), hub_peerSent h)"

definition rpc_pending :: "('a, 'b) Hub \<Rightarrow> rpc_table \<times> (string, deviceRPCPendingRecord) gomap option" where
  "rpc_pending h = (hub_deviceRPC h, map_option sh_deviceRPC (hub_sharedRuntime h))"

named_theorems rpc_frame \<open>operations that send no device call and leave the table of calls alone\<close>

lemma sent_set_client [rpc_frame]:
  "wc_send v = wc_send (hub_client h c) \<Longrightarrow> rpc_sent (hub_set_client c v h) = rpc_sent h"
  "rpc_pending (hub_set_client c v h) = rpc_pending h"
  by (auto simp: rpc_sent_def rpc_mail_def rpc_pending_def hub_simps hub_sharedRuntime_def) (simp_all add: hub_set_client_def)

lemma shared_of_set [simp]: "connectorRuntime (hub_set_shared s k) = Some s"
  by (simp add: connectorRuntime_def hub_set_shared_def)

lemma sent_with_shared [rpc_frame]: "rpc_sent (hub_with_shared f h) = rpc_sent h"
  by (simp add: rpc_sent_def rpc_mail_def hub_simps) (simp add: hub_with_shared_def split: option.split)

lemma pending_with_shared [rpc_frame]:
  "(\<And>s. hub_sharedRuntime h = Some s \<Longrightarrow> sh_deviceRPC (f s) = sh_deviceRPC s) \<Longrightarrow>
   rpc_pending (hub_with_shared f h) = rpc_pending h"
  by (auto simp: rpc_pending_def hub_with_shared_def hub_sharedRuntime_def split: option.split)

lemma sent_other [rpc_frame]:
  "rpc_sent (hub_thin_tool x h) = rpc_sent h" "rpc_pending (hub_thin_tool x h) = rpc_pending h"
  "rpc_sent (enqueuePresence u w h) = rpc_sent h" "rpc_pending (enqueuePresence u w h) = rpc_pending h"
  "rpc_sent (h\<lparr>hub_deviceClients := dc\<rparr>) = rpc_sent h" "rpc_pending (h\<lparr>hub_deviceClients := dc\<rparr>) = rpc_pending h"
  "rpc_sent (h\<lparr>hub_clients := cs\<rparr>) = rpc_sent h" "rpc_pending (h\<lparr>hub_clients := cs\<rparr>) = rpc_pending h"
  "rpc_sent (h\<lparr>hub_clientsByConn := bc\<rparr>) = rpc_sent h" "rpc_pending (h\<lparr>hub_clientsByConn := bc\<rparr>) = rpc_pending h"
  "rpc_sent (h\<lparr>hub_bodyLeases := bl\<rparr>) = rpc_sent h" "rpc_pending (h\<lparr>hub_bodyLeases := bl\<rparr>) = rpc_pending h"
  "rpc_sent (h\<lparr>hub_connector := k\<rparr>) = rpc_sent h" "rpc_sent (h\<lparr>hub_deviceRPC := t\<rparr>) = rpc_sent h"
  by (simp_all add: rpc_sent_def rpc_mail_def rpc_pending_def hub_client_def hub_thin_tool_def enqueuePresence_def hub_sharedRuntime_def)

lemma shared_calls_frame [simp]:
  "sh_deviceRPC (clearUserDeviceRoute u d r s) = sh_deviceRPC s"
  "sh_deviceRPC (clearMessagingClientAttention u r s) = sh_deviceRPC s"
  by (simp_all add: clearUserDeviceRoute_def clearMessagingClientAttention_def Let_def split: option.split)

lemma sent_close [rpc_frame]: "rpc_sent (closeSend c h) = rpc_sent h" "rpc_pending (closeSend c h) = rpc_pending h"
  by (simp_all add: closeSend_def rpc_frame)

lemma sent_unbind [rpc_frame]:
  "rpc_sent (unbindDeviceClient c now h) = rpc_sent h" "rpc_pending (unbindDeviceClient c now h) = rpc_pending h"
  by (simp_all add: unbindDeviceClient_def Let_def rpc_frame forget_device_def hub_simps)

lemma sent_clear [rpc_frame]:
  "rpc_sent (clearClientRuntimeRoute c now h) = rpc_sent h" "rpc_pending (clearClientRuntimeRoute c now h) = rpc_pending h"
  by (simp_all add: clearClientRuntimeRoute_def rpc_frame)

lemma lm_release_calls:
  "lm_release u b k (m, sh) = ((m', sh'), ok) \<Longrightarrow> map_option sh_deviceRPC sh' = map_option sh_deviceRPC sh"
  by (auto simp: releaseBotBodyLease_def Let_def split: if_splits option.splits prod.splits)

lemma sent_release [rpc_frame]:
  "rpc_sent (hub_releaseBotBodyLease c h) = rpc_sent h" "rpc_pending (hub_releaseBotBodyLease c h) = rpc_pending h"
proof -
  show "rpc_sent (hub_releaseBotBodyLease c h) = rpc_sent h"
    by (simp add: hub_releaseBotBodyLease_def Let_def rpc_frame split: prod.split)
  obtain m sh ok where l: "lm_release (wc_uid (hub_client h c)) (wc_bodyID (hub_client h c)) (wc_connectionID (hub_client h c))
      (hub_bodyLeases h, hub_sharedRuntime h) = ((m, sh), ok)" by (metis prod.collapse)
  have "rpc_pending (hub_with_shared (\<lambda>s. case sh of Some s' \<Rightarrow> s' | None \<Rightarrow> s) (h\<lparr>hub_bodyLeases := m\<rparr>)) = rpc_pending h"
    using lm_release_calls [OF l] by (auto simp: rpc_pending_def hub_with_shared_def hub_sharedRuntime_def split: option.split)
  with l show "rpc_pending (hub_releaseBotBodyLease c h) = rpc_pending h"
    by (simp add: hub_releaseBotBodyLease_def Let_def)
qed

lemma sent_remove [rpc_frame]:
  "rpc_sent (fst (removeClient c h)) = rpc_sent h" "rpc_pending (fst (removeClient c h)) = rpc_pending h"
  by (simp_all add: removeClient_def Let_def rpc_frame split: option.split)

lemma removed_frame: "removeClient c h = (h', b) \<Longrightarrow> rpc_sent h' = rpc_sent h \<and> rpc_pending h' = rpc_pending h"
  by (metis fst_conv sent_remove)

lemma sent_disconnect [rpc_frame]:
  "rpc_sent (disconnectClient c now h) = rpc_sent h" "rpc_pending (disconnectClient c now h) = rpc_pending h"
  by (auto simp: disconnectClient_def Let_def rpc_frame dest: removed_frame split: prod.split)

text \<open>What a message does to the mail.\<close>

definition connection_room :: "client_ref \<Rightarrow> ('a, 'b) Hub \<Rightarrow> bool" where
  "connection_room c h \<longleftrightarrow> \<not> wc_sendClosed (hub_client h c) \<and> length (wc_send (hub_client h c)) < wc_sendCapacity (hub_client h c)"

lemma mail_set_client:
  "rpc_mail e (hub_set_client c (v\<lparr>wc_send := wc_send (hub_client h c) @ [m]\<rparr>) h) =
     (if e = c then rpc_mail c h @ (case m of DeviceRPCMessage x \<Rightarrow> [x] | _ \<Rightarrow> []) else rpc_mail e h)"
  "hub_peerSent (hub_set_client c w h) = hub_peerSent h"
  by (auto simp: rpc_mail_def hub_simps List.map_filter_def split: ServerMessage.split) (simp add: hub_set_client_def)

lemma sent_ctrl [rpc_frame]:
  "rpc_sent (SendToClient c (CtrlMessage i code text params) now h) = rpc_sent h"
  "rpc_pending (SendToClient c m now h) = rpc_pending h"
  by (auto simp: SendToClient_def sendRawToClient_def Let_def rpc_frame split: option.split)
     (auto simp: rpc_sent_def mail_set_client)

lemma sent_rpc:
  "rpc_sent (SendToClient (Some c) (DeviceRPCMessage m) now h) =
     (if connection_room c h then (\<lambda>e. if e = c then rpc_mail c h @ [m] else rpc_mail e h, hub_peerSent h) else rpc_sent h)"
  by (auto simp: SendToClient_def sendRawToClient_def Let_def rpc_frame connection_room_def)
     (auto simp: rpc_sent_def mail_set_client)

lemma sent_ack [rpc_frame]:
  "rpc_sent (sendDeviceRPCAck c i code text params now h) = rpc_sent h"
  "rpc_pending (sendDeviceRPCAck c i code text params now h) = rpc_pending h"
  by (simp_all add: sendDeviceRPCAck_def rpc_frame)

lemma audit_calls: "map_option sh_deviceRPC (connectorRuntime (addDeviceAudit u ev rnd now k)) = map_option sh_deviceRPC (connectorRuntime k)"
  by (simp add: addDeviceAudit_def appendDeviceAudit_def Let_def connectorRuntime_def hub_set_shared_def split: option.split)

lemma sent_audit [rpc_frame]:
  "rpc_sent (auditDeviceRPC u phase res reason msg g rnd now h) = rpc_sent h"
  "rpc_pending (auditDeviceRPC u phase res reason msg g rnd now h) = rpc_pending h"
  by (simp_all add: auditDeviceRPC_def rpc_frame) (simp add: rpc_pending_def hub_sharedRuntime_def audit_calls)

lemma sent_refuse [rpc_frame]:
  "rpc_sent (refuse_call c msg r rnd now h) = rpc_sent h" "rpc_pending (refuse_call c msg r rnd now h) = rpc_pending h"
  by (simp_all add: refuse_call_def rpc_frame split: call_refusal.split option.split)

text \<open>A delivery adds the one message, to one connection of this server or to one other server.\<close>

definition sent_to_client :: "client_ref \<Rightarrow> MsgDeviceRPC \<Rightarrow> ('a, 'b) Hub \<Rightarrow> ('a, 'b) Hub \<Rightarrow> bool" where
  "sent_to_client c m h h' \<longleftrightarrow> rpc_sent h' = (\<lambda>e. if e = c then rpc_mail c h @ [m] else rpc_mail e h, hub_peerSent h)"

definition sent_to_peer :: "runtimeRoute \<Rightarrow> MsgDeviceRPC \<Rightarrow> ('a, 'b) Hub \<Rightarrow> ('a, 'b) Hub \<Rightarrow> bool" where
  "sent_to_peer route m h h' \<longleftrightarrow> rpc_sent h' = (\<lambda>e. rpc_mail e h, hub_peerSent h @ [(route, m)])"

lemma sent_cong: "rpc_sent h = rpc_sent g \<Longrightarrow> rpc_sent h' = rpc_sent g' \<Longrightarrow>
    sent_to_client c m h h' = sent_to_client c m g g' \<and> sent_to_peer route m h h' = sent_to_peer route m g g'"
  by (auto simp: sent_to_client_def sent_to_peer_def rpc_sent_def fun_eq_iff)

lemma route_send:
  assumes "sendDeviceRPCToRoute route m now h = (h', ok)"
  shows "rpc_pending h' = rpc_pending h \<and>
    (rpc_sent h' = rpc_sent h \<or>
     (\<exists>e. rt_NodeID route = hub_nodeID h \<and> getClientByConnectionID (rt_ConnectionID route) h = Some e \<and> sent_to_client e m h h') \<or>
     (rt_NodeID route \<noteq> hub_nodeID h \<and> sent_to_peer route m h h'))"
proof -
  have peer: "rpc_pending (h\<lparr>hub_peerSent := ps\<rparr>) = rpc_pending h" "rpc_sent (h\<lparr>hub_peerSent := ps\<rparr>) = (\<lambda>e. rpc_mail e h, ps)" for ps
    by (simp_all add: rpc_pending_def rpc_sent_def rpc_mail_def hub_client_def hub_sharedRuntime_def)
  from assms show ?thesis
    by (auto simp: sendDeviceRPCToRoute_def sendDeviceRPCToLocalRoute_def deliverDeviceRPC_def sent_rpc rpc_frame validAt_def
        sent_to_client_def sent_to_peer_def peer split: if_splits option.splits)
qed

section \<open>Looking a grant up leaves devices, routes and calls alone\<close>

definition device_view :: "'a userDeviceRegistry \<Rightarrow> _" where
  "device_view r = (rg_devices r, rg_ttl r, map_option (\<lambda>s. (sh_devices s, sh_deviceRoutes s, sh_deviceRPC s)) (rg_shared r))"

lemma view_updates [simp]:
  "device_view (r\<lparr>rg_selectionStore := x\<rparr>) = device_view r" "device_view (r\<lparr>rg_random := y\<rparr>) = device_view r"
  "device_view (r\<lparr>rg_grants := z\<rparr>) = device_view r" "device_view (r\<lparr>rg_authorization := w\<rparr>) = device_view r"
  by (simp_all add: device_view_def)

lemma view_revoke [simp]: "device_view (rg_revokeDeviceGrant g r) = device_view r"
  by (auto simp: rg_revokeDeviceGrant_def sh_revokeDeviceGrant_def device_view_def Let_def split: option.split prod.split)

lemma view_record: "selectionRecord a k now r = (r', res) \<Longrightarrow> device_view r' = device_view r"
  by (auto simp: selectionRecord_def randomHex_def Let_def split: option.splits sum.splits prod.splits if_splits bool.splits list.splits)

lemma view_current: "grantSelectionCurrent g now r = (r', ok) \<Longrightarrow> device_view r' = device_view r"
  by (auto simp: grantSelectionCurrent_def dest: view_record split: prod.splits sum.splits if_splits)

lemma view_lookup: "rg_lookupGrant i t r = (r', g) \<Longrightarrow> device_view r' = device_view r"
  by (auto simp: rg_lookupGrant_def sh_lookupDeviceGrant_def device_view_def Let_def dest!: view_current
      split: prod.splits option.splits if_splits)

definition call_view :: "('a, 'b) Hub \<Rightarrow> _" where
  "call_view h = (hub_memory h, hub_clients h, hub_clientsByConn h, hub_deviceClients h, hub_nodeID h, hub_deviceRPC h, hub_rpcTTL h,
     hub_peerSent h, device_view (hb_userDevices (hub_connector h)))"

lemma view_hub_lookup: "hub_lookupGrant i now h = (h', g) \<Longrightarrow> call_view h' = call_view h"
  by (auto simp: hub_lookupGrant_def call_view_def dest: view_lookup split: prod.splits)

lemma view_revoked: "hub_connector_revoked claims now h = (h', v) \<Longrightarrow> call_view h' = call_view h"
  by (auto simp: hub_connector_revoked_def hub_isDeviceConnectorRevoked_def sh_isDeviceConnectorRevoked_def call_view_def
      device_view_def connectorRuntime_def hub_set_shared_def Let_def split: prod.splits option.splits if_splits)

lemma view_client: "call_view h' = call_view h \<Longrightarrow> hub_client h' c = hub_client h c"
  by (simp add: call_view_def hub_client_def)

lemma view_shared: "call_view h' = call_view h \<Longrightarrow>
    map_option (\<lambda>s. (sh_devices s, sh_deviceRoutes s, sh_deviceRPC s)) (hub_sharedRuntime h') =
    map_option (\<lambda>s. (sh_devices s, sh_deviceRoutes s, sh_deviceRPC s)) (hub_sharedRuntime h)"
  by (simp add: call_view_def device_view_def hub_sharedRuntime_def connectorRuntime_def)

lemma view_target:
  assumes "call_view h' = call_view h"
  shows "findDeviceRPCTarget u d now h' = findDeviceRPCTarget u d now h"
proof -
  have "getClientByConnectionID i h' = getClientByConnectionID i h" "getDeviceClient u d h' = getDeviceClient u d h"
    "clientRoute e now h' = clientRoute e now h" for i e
    using assms by (simp_all add: call_view_def getClientByConnectionID_def getDeviceClient_def clientRoute_def hub_client_def)
  then show ?thesis
    using view_shared [OF assms]
    by (auto simp: findDeviceRPCTarget_def userDeviceRoute_def split: option.splits)
qed

lemma view_active:
  "device_view r' = device_view r \<Longrightarrow> rg_activeDevice u d now r' = rg_activeDevice u d now r"
  by (auto simp: device_view_def rg_activeDevice_def activeUserDevice_def split: option.splits)

lemma view_sent: "call_view h' = call_view h \<Longrightarrow> rpc_sent h' = rpc_sent h"
  by (simp add: call_view_def rpc_sent_def rpc_mail_def hub_client_def)

lemma view_pending: "call_view h' = call_view h \<Longrightarrow> rpc_pending h' = rpc_pending h"
  using view_shared [of h' h]
  by (auto simp: call_view_def rpc_pending_def) (cases "hub_sharedRuntime h"; cases "hub_sharedRuntime h'"; simp)

section \<open>A forwarded call says what the grant says\<close>

definition call_owner :: "ScopedDeviceGrant \<Rightarrow> uid" where
  "call_owner g = (if parseFormattedUID (gr_OwnerUserID g) \<le> 0 then parseFormattedUID (gr_ActorUserID g)
                   else parseFormattedUID (gr_OwnerUserID g))"

text \<open>The grant as it is stored, and what it allows.\<close>

definition usable_grant :: "client_ref \<Rightarrow> MsgDeviceRPC \<Rightarrow> go_time \<Rightarrow> ('a, 'b) Hub \<Rightarrow> ScopedDeviceGrant \<Rightarrow> bool" where
  "usable_grant c msg now h g \<longleftrightarrow>
     (case hub_lookupGrant (trimSpace (mr_GrantID msg)) now h of
        (h1, found) \<Rightarrow> found = Some g \<and> \<not> snd (deviceGrantWasRevoked g now h1)) \<and>
     gr_Status g = ''active'' \<and> gr_IdentityTrust g = ''server_canonical'' \<and>
     (gr_AgentID g = [] \<or> parseFormattedUID (gr_AgentID g) = wc_uid (hub_client h c)) \<and>
     wc_accountType (hub_client h c) = AccountBot \<and> 0 < parseFormattedUID (gr_ActorUserID g)"

definition says_grant :: "ScopedDeviceGrant \<Rightarrow> UserDevice \<Rightarrow> MsgDeviceRPC \<Rightarrow> bool" where
  "says_grant g d m \<longleftrightarrow>
     mr_Operation m \<in> set (gr_Operations g) \<and> isAllowedDeviceRPCOperation (mr_Operation m) \<and>
     mr_GrantID m = gr_GrantID g \<and> mr_SessionKey m = gr_SessionKey g \<and> mr_TopicID m = gr_TopicID g \<and>
     mr_TopicType m = gr_TopicType g \<and> mr_ActorUserID m = gr_ActorUserID g \<and> mr_AgentID m = gr_AgentID g \<and>
     mr_AgentBodyID m = gr_AgentBodyID g \<and> mr_IdentitySource m = gr_IdentitySource g \<and> mr_DeviceID m = ud_DeviceID d"

lemma resolve_ok:
  "resolve_call a u uid i operation g now h = Inr call \<Longrightarrow>
     ac_requestID call = i \<and> ac_operation call = operation \<and> ac_grant call = g \<and> ac_ownerUID call = u \<and>
     rg_activeDevice u (gr_DeviceID g) now (hb_userDevices (hub_connector h)) = Some (ac_device call) \<and>
     \<not> incarnation_changed g (ac_device call) \<and>
     findDeviceRPCTarget u (ud_DeviceID (ac_device call)) now h = (ac_targetRoute call, ac_target call) \<and>
     validAt (ac_targetRoute call) now"
  by (auto simp: resolve_call_def Let_def split: option.splits if_splits prod.splits)

lemma validated:
  "validateDeviceRPCGrant v msg g operation = None \<Longrightarrow>
     gr_Status g = ''active'' \<and> gr_IdentityTrust g = ''server_canonical'' \<and> operation \<in> set (gr_Operations g) \<and>
     (gr_AgentID g = [] \<or> parseFormattedUID (gr_AgentID g) = wc_uid v)"
  by (auto simp: validateDeviceRPCGrant_def split: if_splits)

text \<open>The grant of an authorised call is the stored one but for an owner that was not written down.\<close>

lemma check_ok:
  assumes "check_grant c msg i operation g now h = Inr call"
  shows "\<exists>owner. ac_grant call = g\<lparr>gr_OwnerUserID := owner\<rparr> \<and> ac_requestID call = i \<and> ac_operation call = operation \<and>
     validateDeviceRPCGrant (hub_client h c) msg (ac_grant call) operation = None \<and> 0 < parseFormattedUID (gr_ActorUserID g) \<and>
     rg_activeDevice (call_owner g) (gr_DeviceID g) now (hb_userDevices (hub_connector h)) = Some (ac_device call) \<and>
     \<not> incarnation_changed g (ac_device call) \<and>
     findDeviceRPCTarget (call_owner g) (ud_DeviceID (ac_device call)) now h = (ac_targetRoute call, ac_target call) \<and>
     validAt (ac_targetRoute call) now"
proof -
  let ?o = "if trimSpace (gr_OwnerUserID g) = [] then formatUID (call_owner g) else gr_OwnerUserID g"
  let ?g = "g\<lparr>gr_OwnerUserID := ?o\<rparr>"
  have g: "(if trimSpace (gr_OwnerUserID g) = [] then g\<lparr>gr_OwnerUserID := formatUID (call_owner g)\<rparr> else g) = ?g" by simp
  have inc: "incarnation_changed ?g d = incarnation_changed g d" for d by (simp add: incarnation_changed_def)
  from assms obtain ou where pos: "0 < parseFormattedUID (gr_ActorUserID g)"
    and val: "validateDeviceRPCGrant (hub_client h c) msg ?g operation = None"
    and res: "resolve_call (parseFormattedUID (gr_ActorUserID g)) (call_owner g) ou i operation ?g now h = Inr call"
    by (auto simp: check_grant_def Let_def call_owner_def split: if_splits option.splits)
  from resolve_ok [OF res] val pos show ?thesis unfolding inc by (intro exI [of _ ?o]) simp
qed

lemma authorized:
  assumes "authorizeDeviceRPC c msg now h = (h', Inr call)" and "wc_accountType (hub_client h c) = AccountBot"
  shows "call_view h' = call_view h \<and> (\<exists>g. usable_grant c msg now h g \<and> \<not> incarnation_changed g (ac_device call) \<and>
     rg_activeDevice (call_owner g) (gr_DeviceID g) now (hb_userDevices (hub_connector h)) = Some (ac_device call) \<and>
     findDeviceRPCTarget (call_owner g) (ud_DeviceID (ac_device call)) now h = (ac_targetRoute call, ac_target call) \<and>
     validAt (ac_targetRoute call) now \<and> (\<forall>t e. says_grant g (ac_device call) (forwarded_request msg call t e)))"
proof -
  let ?op = "trimSpace (mr_Operation msg)" and ?i = "trimSpace (mr_GrantID msg)"
  from assms(1) obtain i h1 g where i: "normalizeDeviceRPCRequestID (mr_RequestID msg) = Some i"
    and op: "isAllowedDeviceRPCOperation ?op" and look: "hub_lookupGrant ?i now h = (h1, Some g)"
    and rev: "deviceGrantWasRevoked g now h1 = (h', False)" and check: "check_grant c msg i ?op g now h' = Inr call"
    by (auto simp: authorizeDeviceRPC_def Let_def split: option.splits if_splits prod.splits)
  have view: "call_view h' = call_view h"
    using view_hub_lookup [OF look] view_revoked [OF rev [unfolded deviceGrantWasRevoked_def]] by simp
  from check_ok [OF check] obtain owner where call: "ac_grant call = g\<lparr>gr_OwnerUserID := owner\<rparr>" "ac_operation call = ?op"
    and val: "validateDeviceRPCGrant (hub_client h' c) msg (ac_grant call) ?op = None" "0 < parseFormattedUID (gr_ActorUserID g)"
    and rest: "rg_activeDevice (call_owner g) (gr_DeviceID g) now (hb_userDevices (hub_connector h')) = Some (ac_device call)"
      "\<not> incarnation_changed g (ac_device call)"
      "findDeviceRPCTarget (call_owner g) (ud_DeviceID (ac_device call)) now h' = (ac_targetRoute call, ac_target call)"
      "validAt (ac_targetRoute call) now" by blast
  note v = validated [OF val(1)]
  have "usable_grant c msg now h g"
    using v look rev val(2) assms(2) call(1) by (simp add: usable_grant_def view_client [OF view])
  moreover have "says_grant g (ac_device call) (forwarded_request msg call t e)" for t e
    using v op call by (simp add: says_grant_def forwarded_request_def Let_def)
  moreover have "device_view (hb_userDevices (hub_connector h')) = device_view (hb_userDevices (hub_connector h))"
    using view by (simp add: call_view_def)
  ultimately show ?thesis
    using rest view view_target [OF view] view_active by metis
qed

lemma view_authorize: "authorizeDeviceRPC c msg now h = (h', r) \<Longrightarrow> call_view h' = call_view h"
  by (auto simp: authorizeDeviceRPC_def Let_def deviceGrantWasRevoked_def dest!: view_hub_lookup view_revoked
      split: option.splits if_splits prod.splits)

lemma set_calls_frame [rpc_frame]:
  "rpc_sent (hub_set_calls env h) = rpc_sent h" "getClientByConnectionID i (hub_set_calls env h) = getClientByConnectionID i h"
  "hub_nodeID (hub_set_calls env h) = hub_nodeID h"
  by (simp_all add: hub_set_calls_def rpc_frame getClientByConnectionID_def hub_simps)

lemma refuse_after_send [rpc_frame]:
  "rpc_sent (refuse_call c msg r rnd now (hub_set_calls env h)) = rpc_sent h"
  by (simp add: rpc_frame)

text \<open>A message reached a connection of this server, or was handed to another.\<close>

definition sent_along :: "runtimeRoute \<Rightarrow> MsgDeviceRPC \<Rightarrow> ('a, 'b) Hub \<Rightarrow> ('a, 'b) Hub \<Rightarrow> bool" where
  "sent_along route m h h' \<longleftrightarrow>
     (\<exists>e. rt_NodeID route = hub_nodeID h \<and> getClientByConnectionID (rt_ConnectionID route) h = Some e \<and> sent_to_client e m h h') \<or>
     (rt_NodeID route \<noteq> hub_nodeID h \<and> sent_to_peer route m h h')"

lemma along_cong:
  "rpc_sent h = rpc_sent g \<Longrightarrow> rpc_sent h' = rpc_sent g' \<Longrightarrow> hub_clientsByConn h = hub_clientsByConn g \<Longrightarrow> hub_nodeID h = hub_nodeID g \<Longrightarrow>
   sent_along route m h h' = sent_along route m g g'"
  using sent_cong [of h g h' g'] by (simp add: sent_along_def getClientByConnectionID_def)

lemma set_calls_by_conn [rpc_frame]: "hub_clientsByConn (hub_set_calls env h) = hub_clientsByConn h"
  by (simp add: hub_set_calls_def hub_simps)

lemma send_along:
  "sendDeviceRPCToRoute route m now h = (h', ok) \<Longrightarrow> rpc_sent h' = rpc_sent h \<or> sent_along route m h h'"
  using route_send [of route m now h h' ok] by (auto simp: sent_along_def)

lemma forward_sent:
  "rpc_sent (forward_call c msg call rnd now h) = rpc_sent h \<or>
   (\<exists>e. sent_along (ac_targetRoute call) (forwarded_request msg call now e) h (forward_call c msg call rnd now h))"
proof -
  let ?e = "call_expiry call now (hub_rpcTTL h)" and ?h' = "forward_call c msg call rnd now h"
  let ?m = "forwarded_request msg call now ?e" and ?route = "ac_targetRoute call"
  obtain env r where add: "rpc_add (pending_call c msg call now ?e h) now (hub_calls h) = (env, r)" by fastforce
  show ?thesis
  proof (cases r)
    case (Some x)
    with add show ?thesis by (simp add: forward_call_def Let_def rpc_frame)
  next
    case None
    obtain h2 ok where send: "sendDeviceRPCToRoute ?route ?m now (hub_set_calls env h) = (h2, ok)" by fastforce
    have same: "rpc_sent ?h' = rpc_sent h2"
      using add None send by (cases ok) (simp_all add: forward_call_def Let_def rpc_frame)
    from send_along [OF send] have "rpc_sent h2 = rpc_sent h \<or> sent_along ?route ?m (hub_set_calls env h) h2"
      by (simp add: rpc_frame)
    moreover have "sent_along ?route ?m (hub_set_calls env h) h2 = sent_along ?route ?m h ?h'"
      by (rule along_cong) (simp_all add: rpc_frame same)
    ultimately show ?thesis using same by auto
  qed
qed

text \<open>
  C3: a bot's request makes the hub send at most one device call, and only under a stored, active,
  unrevoked grant issued to that bot: the call carries the identity, session and topic of the grant
  whatever the bot wrote, an operation the grant allows, and it goes to the connection that serves the
  granted device of the granted owner, which is active and still the same installation.
\<close>

theorem forwarded_call_authorised:
  "rpc_sent (handleDeviceRPCRequest c msg rnd now h) = rpc_sent h \<or>
   (\<exists>g d route target m. usable_grant c msg now h g \<and>
     rg_activeDevice (call_owner g) (gr_DeviceID g) now (hb_userDevices (hub_connector h)) = Some d \<and> \<not> incarnation_changed g d \<and>
     findDeviceRPCTarget (call_owner g) (ud_DeviceID d) now h = (route, target) \<and> validAt route now \<and>
     says_grant g d m \<and> sent_along route m h (handleDeviceRPCRequest c msg rnd now h))"
proof (cases "wc_accountType (hub_client h c) = AccountBot")
  case False
  then show ?thesis by (simp add: handleDeviceRPCRequest_def rpc_frame)
next
  case True
  let ?h' = "handleDeviceRPCRequest c msg rnd now h"
  obtain h1 r where a: "authorizeDeviceRPC c msg now h = (h1, r)" by fastforce
  have view: "call_view h1 = call_view h" by (rule view_authorize [OF a])
  show ?thesis
  proof (cases r)
    case (Inl x)
    with a True show ?thesis by (simp add: handleDeviceRPCRequest_def rpc_frame view_sent [OF view])
  next
    case (Inr call)
    with a have auth: "authorizeDeviceRPC c msg now h = (h1, Inr call)" by simp
    have h': "?h' = forward_call c msg call rnd now h1" using auth True by (simp add: handleDeviceRPCRequest_def)
    have along: "sent_along route m h1 ?h' = sent_along route m h ?h'" for route m
      by (rule along_cong [OF view_sent [OF view] refl]) (use view in \<open>simp_all add: call_view_def\<close>)
    from authorized [OF auth True] obtain g where g: "usable_grant c msg now h g" "\<not> incarnation_changed g (ac_device call)"
      "rg_activeDevice (call_owner g) (gr_DeviceID g) now (hb_userDevices (hub_connector h)) = Some (ac_device call)"
      "findDeviceRPCTarget (call_owner g) (ud_DeviceID (ac_device call)) now h = (ac_targetRoute call, ac_target call)"
      "validAt (ac_targetRoute call) now" "\<And>t e. says_grant g (ac_device call) (forwarded_request msg call t e)" by blast
    from forward_sent [of c msg call rnd now h1] consider "rpc_sent ?h' = rpc_sent h"
      | e where "sent_along (ac_targetRoute call) (forwarded_request msg call now e) h ?h'"
      unfolding h' [symmetric] along view_sent [OF view] by blast
    then show ?thesis
    proof cases
      case (2 e)
      with g show ?thesis by (intro disjI2 exI conjI) assumption+
    qed simp
  qed
qed

section \<open>A result comes from the device that was asked\<close>

lemma calls_lookup: "rpc_pending h' = rpc_pending h \<Longrightarrow> rpc_get i t (hub_calls h') = rpc_get i t (hub_calls h)"
  by (cases "hub_sharedRuntime h"; cases "hub_sharedRuntime h'")
     (auto simp: rpc_pending_def hub_calls_def getDeviceRPCPending_def)

lemma calls_of_set [simp]: "(hub_sharedRuntime h = None \<longleftrightarrow> snd env = None) \<Longrightarrow> hub_calls (hub_set_calls env h) = env"
  by (cases env) (auto simp: hub_calls_def hub_set_calls_def hub_with_shared_def hub_sharedRuntime_def split: option.splits)

lemma finished_gone: "rpc_get i t (hub_calls (hub_set_calls (rpc_finish i (hub_calls h)) h)) = None"
proof -
  have "hub_calls (hub_set_calls (rpc_finish i (hub_calls h)) h) = rpc_finish i (hub_calls h)"
    by (rule calls_of_set) (simp add: hub_calls_def split: option.split)
  moreover have "rpc_get i t (rpc_finish i (hub_calls h)) = None"
    by (cases "hub_sharedRuntime h") (simp_all add: hub_calls_def pt_get_def getDeviceRPCPending_def finishDeviceRPCPending_def gomap_simps)
  ultimately show ?thesis by simp
qed

lemma view_matches: "call_view h' = call_view h \<Longrightarrow> pendingMatchesDeviceClient p c now h' = pendingMatchesDeviceClient p c now h"
proof -
  assume v: "call_view h' = call_view h"
  then have "clientRoute e now h' = clientRoute e now h" "getDeviceClient u d h' = getDeviceClient u d h" for e u d
    by (simp_all add: call_view_def getDeviceClient_def clientRoute_def hub_client_def)
  then show ?thesis
    by (simp only: pendingMatchesDeviceClient_def Let_def view_target [OF v] view_client [OF v])
qed

lemma deliver_sent:
  "rpc_pending (deliver_result c msg i p rnd now h) = rpc_pending h \<and>
   (rpc_sent (deliver_result c msg i p rnd now h) = rpc_sent h \<or>
    sent_along (requester_route p now h) (with_call i (dp_record p) msg) h (deliver_result c msg i p rnd now h))"
proof (cases "validAt (requester_route p now h) now")
  case False
  then show ?thesis by (simp add: deliver_result_def Let_def rpc_frame)
next
  case True
  let ?route = "requester_route p now h" and ?m = "with_call i (dp_record p) msg" and ?h' = "deliver_result c msg i p rnd now h"
  obtain h2 ok where send: "sendDeviceRPCToRoute ?route ?m now h = (h2, ok)" by fastforce
  have same: "rpc_sent ?h' = rpc_sent h2" "rpc_pending ?h' = rpc_pending h2"
    using True send by (cases ok; simp add: deliver_result_def Let_def rpc_frame)+
  have "sent_along ?route ?m h h2 = sent_along ?route ?m h ?h'" by (rule along_cong) (simp_all add: same)
  with same send_along [OF send] route_send [OF send] show ?thesis by auto
qed


end
