(* ===== verification/DeviceCallFlow.thy ===== *)
theory DeviceCallFlow
  imports DeviceCallSafety
begin

text \<open>
  What becomes of a call: time-outs, results for a bot that has reconnected meanwhile, and which devices a
  user can reach at all.
\<close>

section \<open>Time-outs\<close>

lemma notify_pending: "rpc_pending (notifyDeviceRPCTimeout now p h) = rpc_pending h"
  using route_send [of "requester_route p now h" "timeout_message (dp_record p)" now h]
  by (auto simp: notifyDeviceRPCTimeout_def Let_def) (metis prod.collapse)

lemma notify_all_pending: "rpc_pending (fold (notifyDeviceRPCTimeout now) ps h) = rpc_pending h"
  by (induction ps arbitrary: h) (simp_all add: notify_pending)

lemma calls_look: "rpc_pending h' = rpc_pending h \<Longrightarrow> env_look (hub_calls h') i = env_look (hub_calls h) i"
  by (cases "hub_sharedRuntime h"; cases "hub_sharedRuntime h'") (auto simp: rpc_pending_def hub_calls_def)

lemma expire_shape: "snd (fst (rpc_expire now env)) = None \<longleftrightarrow> snd env = None"
  by (cases env; cases "snd env") (auto split: prod.splits)

text \<open>
  a sweep over the pending calls settles exactly those whose time is up: each of them is gone, and every
  other call is still found, with the same contents, at any later time.
\<close>

theorem expired_calls_settled:
  assumes "env_calls_ok (hub_calls h)" and "now \<le> t"
  shows "(env_look (hub_calls (fst (expireDeviceRPCRequests now h))) i =
      (case env_look (hub_calls h) i of None \<Rightarrow> None | Some p \<Rightarrow> if now < rpc_expiresAt p then Some p else None)) \<and>
    (i \<noteq> [] \<longrightarrow> map_option dp_record (rpc_get i t (hub_calls (fst (expireDeviceRPCRequests now h)))) =
      map_option dp_record (rpc_get i t (hub_calls h)))"
proof -
  let ?h' = "fst (expireDeviceRPCRequests now h)" and ?env = "fst (rpc_expire now (hub_calls h))"
  have set: "hub_calls (hub_set_calls ?env h) = ?env"
    by (rule calls_of_set) (simp add: expire_shape, simp add: hub_calls_def)
  have pend: "rpc_pending ?h' = rpc_pending (hub_set_calls ?env h)"
    by (simp add: expireDeviceRPCRequests_def case_prod_beta notify_all_pending)
  have look: "env_look (hub_calls ?h') j = env_look ?env j" for j
    using calls_look [OF pend, of j] by (simp add: set)
  have get: "rpc_get i t (hub_calls ?h') = rpc_get i t ?env"
    using calls_lookup [OF pend, of i t] by (simp add: set)
  have ok: "env_calls_ok ?env" by (rule enr.inv_ops(3) [OF assms(1)])
  show ?thesis
    using assms(2) enr.get_live [OF assms(1), of i t] enr.get_live [OF ok, of i t] enr.expired [OF assms(1), of now]
    by (auto simp: look get live_at_def split: option.splits)
qed

section \<open>A bot that reconnects while its call is pending\<close>

text \<open>As long as the call is pending its requester's route is taken for valid: the route expires with the call.\<close>

lemma requester_never_looked_up:
  assumes "rpc_get i now (hub_calls h) = Some p" and "rt_ExpiresAt (rpc_requesterRoute (dp_record p)) = rpc_expiresAt (dp_record p)"
    and "rt_NodeID (rpc_requesterRoute (dp_record p)) \<noteq> []" and "rt_ConnectionID (rpc_requesterRoute (dp_record p)) \<noteq> []"
  shows "requester_route p now h' = rpc_requesterRoute (dp_record p) \<and> validAt (rpc_requesterRoute (dp_record p)) now"
proof -
  have "live_at now (dp_record p)"
    using assms(1)
    by (cases "hub_sharedRuntime h")
       (auto simp: hub_calls_def pt_get_def getDeviceRPCPending_def pendingFromDeviceRPCRecord_def split: if_splits option.splits)
  with assms show ?thesis by (simp add: requester_route_def Let_def validAt_def live_at_def)
qed

lemma disconnect_other: "e \<noteq> c \<Longrightarrow> hub_client (disconnectClient c now h) e = hub_client h e"
proof -
  assume e: "e \<noteq> c"
  have rem: "hub_client (fst (removeClient c h)) e = hub_client h e"
    by (simp add: removeClient_def Let_def split: option.split) (simp add: hub_client_def)
  have close: "hub_client (closeSend c g) e = hub_client g e" for g :: "('a, 'b) Hub" using e by (simp add: closeSend_def hub_simps)
  have unb: "hub_client (unbindDeviceClient c now g) e = hub_client g e" for g :: "('a, 'b) Hub"
    using e by (simp add: unbindDeviceClient_def Let_def hub_simps) (simp add: hub_client_def)
  have rel: "hub_client (hub_releaseBotBodyLease c g) e = hub_client g e" for g :: "('a, 'b) Hub"
    by (simp add: hub_releaseBotBodyLease_def Let_def hub_simps split: prod.split) (simp add: hub_client_def)
  obtain h1 rm lst where r: "removeClient c h = (h1, rm, lst)" by (metis prod.collapse)
  with rem have h1: "hub_client h1 e = hub_client h e" by simp
  show ?thesis
    using e by (simp add: disconnectClient_def r Let_def close h1 unb rel hub_simps clearClientRuntimeRoute_def)
qed

lemma audit_client [simp]:
  "hub_client (auditDeviceRPC u phase res reason msg g rnd now h) c = hub_client h c"
  by (simp add: auditDeviceRPC_def hub_client_def)

lemma set_calls_client [simp]: "hub_client (hub_set_calls env h) c = hub_client h c"
  by (simp add: hub_set_calls_def hub_simps) (simp add: hub_client_def)

text \<open>
  a defect: a bot asks a device, loses its connection, and comes back with the same body before the
  device answers. The result is written to the old connection, which is closed: the bot never sees it, the
  call is no longer pending, so the bot gets no time-out either, and the device is told 200. The code that
  looks for the bot's current connection is not reached, because the route it tests expires only with the call.
\<close>

theorem result_for_replaced_connection_lost:
  assumes "normalizeDeviceRPCRequestID (mr_RequestID msg) = Some i" and "rpc_get i now (hub_calls h) = Some p"
    and "pendingMatchesDeviceClient p c now h" and "wc_deviceConnector (hub_client h c) = None" and "connection_room c h"
    and "rpc_requesterRoute (dp_record p) = \<lparr>rt_NodeID = hub_nodeID h, rt_ConnectionID = k, rt_ExpiresAt = rpc_expiresAt (dp_record p)\<rparr>"
    and "hub_nodeID h \<noteq> []" and "getClientByConnectionID k h = Some old" and "wc_sendClosed (hub_client h old)"
  shows "rpc_sent (handleDeviceRPCResult c msg rnd now h) = rpc_sent h \<and>
    rpc_get i t (hub_calls (handleDeviceRPCResult c msg rnd now h)) = None \<and>
    last (wc_send (hub_client (handleDeviceRPCResult c msg rnd now h) c)) = CtrlMessage (mr_ID msg) 200 ''ok'' [(''request_id'', JStr i)]"
proof -
  let ?h2 = "hub_set_calls (rpc_finish i (hub_calls h)) h" and ?m = "with_call i (dp_record p) msg" and ?r = "rpc_requesterRoute (dp_record p)"
  let ?h3 = "disconnectClient old now ?h2" and ?h' = "handleDeviceRPCResult c msg rnd now h"
  have k: "k \<noteq> []" using assms(8) by (auto simp: getClientByConnectionID_def)
  have route: "requester_route p now ?h2 = ?r" "validAt ?r now"
    using requester_never_looked_up [OF assms(2), of ?h2] assms(6,7) k by simp_all
  have lost: "sendDeviceRPCToRoute ?r ?m now ?h2 = (?h3, True)"
    using route(2) assms(6,7,8,9) k
    by (simp add: sendDeviceRPCToRoute_def sendDeviceRPCToLocalRoute_def rpc_frame SendToClient_def sendRawToClient_def)
  have h': "?h' = deliver_result c msg i p rnd now ?h2"
    using assms(1-4) by (simp add: handleDeviceRPCResult_def result_token_refusal_def)
  obtain res reason where d: "deliver_result c msg i p rnd now ?h2 =
      sendDeviceRPCAck c (mr_ID msg) 200 ''ok'' [(''request_id'', JStr i)] now
        (auditDeviceRPC (rpc_ownerUID (dp_record p)) ''rpc_result'' res reason ?m (pending_grant (dp_record p)) rnd now ?h3)"
    using lost route by (simp add: deliver_result_def Let_def)
  have other: "c \<noteq> old" using assms(5,9) by (auto simp: connection_room_def)
  have pend: "rpc_pending ?h' = rpc_pending ?h2" by (simp add: h' d rpc_frame)
  have "rpc_sent ?h' = rpc_sent h" by (simp add: h' d rpc_frame)
  moreover have "rpc_get i t (hub_calls ?h') = None"
    using calls_lookup [OF pend, of i t] finished_gone [of i t h] by simp
  moreover have "last (wc_send (hub_client ?h' c)) = CtrlMessage (mr_ID msg) 200 ''ok'' [(''request_id'', JStr i)]"
    using assms(5) unfolding h' d sendDeviceRPCAck_def SendToClient_def sendRawToClient_def connection_room_def
    by (simp add: Let_def disconnect_other [OF other] hub_simps)
  ultimately show ?thesis by blast
qed

section \<open>Reachable devices\<close>

text \<open>
  without a shared state a device is routable exactly when it is active and a connection of this server
  serves it; and every device is either among the routable ones or listed with the reason why not.
\<close>

theorem routable_devices_are_served:
  assumes "hub_moves (newHubWithState nodeID None db grants auth getenv random peers (\<lambda>_. no_client)) h"
    and "hub_nodeID h \<noteq> []" and "\<forall>c. getDeviceClient u (ud_DeviceID d) h = Some c \<longrightarrow> wc_connectionID (hub_client h c) \<noteq> []"
    and "hub_sharedRuntime h = None" and "0 < u" and "d \<in> set devices" and "ud_DeviceID d \<noteq> []"
  shows "(\<exists>x \<in> set (fst (classifyUserDevices u devices now h)). ud_DeviceID x = ud_DeviceID d \<and>
      ud_Routable x = (isActiveDevice d now (userDevicesTTL h) \<and>
        (\<exists>c. wc_deviceOwnerUID (hub_client h c) = u \<and> wc_deviceID (hub_client h c) = ud_DeviceID d)) \<and>
      (ud_Routable x \<longleftrightarrow> x \<notin> set (snd (classifyUserDevices u devices now h))) \<and> (ud_Routable x \<longleftrightarrow> ud_UnavailableReason x = []))"
proof -
  have "hub_ok h" by (rule hub_ok_moves [OF assms(1) hub_ok_new]) (simp add: no_client_def)
  then have bind: "nm_get (hub_deviceClients h) u (ud_DeviceID d) = Some c \<longleftrightarrow>
      wc_deviceOwnerUID (hub_client h c) = u \<and> wc_deviceID (hub_client h c) = ud_DeviceID d" for c
    using assms(5,7) by (auto simp: hub_ok_def binding_ok_def)
  let ?x = "classify_device u now (userDevicesTTL h) h d"
  have target: "validAt (fst (findDeviceRPCTarget u (ud_DeviceID d) now h)) now \<and> snd (findDeviceRPCTarget u (ud_DeviceID d) now h) \<noteq> None \<longleftrightarrow>
      (\<exists>c. wc_deviceOwnerUID (hub_client h c) = u \<and> wc_deviceID (hub_client h c) = ud_DeviceID d)"
  proof (cases "nm_get (hub_deviceClients h) u (ud_DeviceID d)")
    case None
    with bind have "\<not> (\<exists>c. wc_deviceOwnerUID (hub_client h c) = u \<and> wc_deviceID (hub_client h c) = ud_DeviceID d)" by auto
    with None assms(4,5,7) show ?thesis
      by (simp add: findDeviceRPCTarget_def getDeviceClient_def)
  next
    case (Some c)
    then have c: "wc_deviceOwnerUID (hub_client h c) = u \<and> wc_deviceID (hub_client h c) = ud_DeviceID d" using bind by simp
    have "wc_connectionID (hub_client h c) \<noteq> []" using Some assms(3,5,7) by (simp add: getDeviceClient_def)
    with Some c assms(2,4,5,7) show ?thesis
      by (auto simp: findDeviceRPCTarget_def getDeviceClient_def clientRoute_def validAt_def Hub.defaultUserDeviceTTL_def
          go_minute_def go_second_def)
  qed
  have none: "validAt (fst (findDeviceRPCTarget u (ud_DeviceID d) now h)) now \<Longrightarrow> snd (findDeviceRPCTarget u (ud_DeviceID d) now h) \<noteq> None"
    using assms(4) by (auto simp: findDeviceRPCTarget_def no_route_def validAt_def split: option.splits if_splits)
  have routable: "ud_Routable ?x = (isActiveDevice d now (userDevicesTTL h) \<and>
      (\<exists>c. wc_deviceOwnerUID (hub_client h c) = u \<and> wc_deviceID (hub_client h c) = ud_DeviceID d))"
    using target none by (auto simp: classify_device_def Let_def case_prod_beta)
  have "?x \<in> set (fst (classifyUserDevices u devices now h))" "ud_DeviceID ?x = ud_DeviceID d"
    "ud_Routable ?x \<longleftrightarrow> ?x \<notin> set (snd (classifyUserDevices u devices now h))" "ud_Routable ?x \<longleftrightarrow> ud_UnavailableReason ?x = []"
    using assms(5,6) by (auto simp: classifyUserDevices_def classify_device_def Let_def case_prod_beta)
  with routable show ?thesis by blast
qed

section \<open>A call from end to end\<close>

text \<open>
  User 5 has a computer on connection 1, bot 7 is on connection 2 and holds a grant to read files there; the
  bot asks, comes back on connection 3, and then the computer answers.
\<close>

definition sample_call_grant :: ScopedDeviceGrant where
  "sample_call_grant = sample_grant\<lparr>gr_SelectionRevision := [], gr_IdentityTrust := ''server_canonical'', gr_AgentID := ''usr7'',
     gr_Operations := [''read_file'']\<rparr>"

definition sample_request :: MsgDeviceRPC where
  "sample_request = empty_rpc_message\<lparr>mr_ID := ''1'', mr_Type := ''request'', mr_RequestID := ''r1'', mr_GrantID := ''g1'',
     mr_Operation := ''read_file''\<rparr>"

definition sample_result :: MsgDeviceRPC where
  "sample_result = empty_rpc_message\<lparr>mr_ID := ''2'', mr_Type := ''result'', mr_RequestID := ''r1'', mr_Result := JStr ''text''\<rparr>"

definition sample_phone_bound :: Client where
  "sample_phone_bound = sample_phone\<lparr>wc_deviceOwnerUID := 5, wc_deviceID := ''pc'', wc_sendCapacity := 4\<rparr>"

definition sample_asker :: Client where
  "sample_asker = (sample_bot ''c2'')\<lparr>wc_sendCapacity := 4\<rparr>"

definition sample_registry :: "unit userDeviceRegistry" where
  "sample_registry = (newUserDeviceRegistry 0 (\<lambda>_. []) [])
     \<lparr>rg_devices := [(5, [(''pc'', sample_device\<lparr>ud_OwnerUID := 5, ud_OwnerUserID := ''usr5''\<rparr>)])],
      rg_grants := [(''g1'', sample_call_grant)]\<rparr>"

definition sample_connected :: "(string, deviceRPCPending) gomap \<Rightarrow> Client \<Rightarrow> (unit, unit) Hub" where
  "sample_connected calls asker =
     (newHubWithState ''n'' None None None None (\<lambda>_. []) [] (\<lambda>_. False)
       (\<lambda>c. if c = 1 then sample_phone_bound else if c = 2 then asker else if c = 3 then sample_bot ''c3'' else no_client))
     \<lparr>hub_connector := \<lparr>hb_userDevices = sample_registry, hb_deviceAuthorization = None, hb_deviceAudit = [],
        hb_deviceRevokes = \<lparr>rl_devices = [], rl_tokens = []\<rparr>\<rparr>,
      hub_clients := [(5, [1]), (7, [if wc_sendClosed asker then 3 else 2])],
      hub_clientsByConn := [(''c1'', 1), (''c2'', 2), (''c3'', 3)], hub_deviceClients := [(5, [(''pc'', 1)])],
      hub_deviceRPC := calls\<rparr>"

definition sample_pending :: deviceRPCPending where
  "sample_pending = \<lparr>dp_record =
     \<lparr>rpc_requestID = ''r1'',
      rpc_requesterRoute = \<lparr>rt_NodeID = ''n'', rt_ConnectionID = ''c2'', rt_ExpiresAt = 60000000020\<rparr>,
      rpc_targetRoute = \<lparr>rt_NodeID = ''n'', rt_ConnectionID = ''c1'', rt_ExpiresAt = 300000000020\<rparr>,
      rpc_agentUID = 7, rpc_agentID = ''usr7'', rpc_agentBodyID = [], rpc_actorUID = 5, rpc_actorUserID = ''usr5'',
      rpc_ownerUID = 5, rpc_ownerUserID = ''usr5'', rpc_identitySource = [], rpc_sessionKey = ''s'', rpc_topicID = [],
      rpc_topicType = [], rpc_grantID = ''g1'', rpc_deviceID = ''pc'', rpc_deviceBodyID = ''pc'', rpc_deviceInstallID = [],
      rpc_operation = ''read_file'', rpc_toolName = [], rpc_createdAt = 20, rpc_expiresAt = 60000000020\<rparr>,
     dp_requester = Some 2, dp_target = Some 1\<rparr>"

text \<open>Before the bot asks, while the call is pending, and after the bot has come back.\<close>

definition sample_ready :: "(unit, unit) Hub" where
  "sample_ready = sample_connected [] sample_asker"

definition sample_called :: "(unit, unit) Hub" where
  "sample_called = sample_connected [(''r1'', sample_pending)] sample_asker"

definition sample_reconnected :: "(unit, unit) Hub" where
  "sample_reconnected = sample_connected [(''r1'', sample_pending)] (sample_asker\<lparr>wc_sendClosed := True\<rparr>)"

definition sample_served :: "(unit, unit) Hub" where
  "sample_served = bindDeviceClient 5 sample_device 1 20 (fst (registerClient 1 [] NoGenerationStore 20
     (hub_set_client 1 sample_phone (newHubWithState ''n'' None None None None (\<lambda>_. []) [] (\<lambda>_. False) (\<lambda>_. no_client)))))"

lemma sample_calls:
  "hub_calls sample_called = ([(''r1'', sample_pending)], None)" "hub_calls sample_reconnected = ([(''r1'', sample_pending)], None)"
  by (simp_all add: hub_calls_def sample_called_def sample_reconnected_def sample_connected_def newHubWithState_def sample_registry_def
      hub_sharedRuntime_def connectorRuntime_def newUserDeviceRegistry_def)

text \<open>The bot's request reaches the computer and becomes the pending call; an answer in time reaches the bot.\<close>

lemma sample_call_delivered:
  "hub_deviceRPC (handleDeviceRPCRequest 2 sample_request None 20 sample_ready) = [(''r1'', sample_pending)]"
  and "map mr_DeviceID (rpc_mail 1 (handleDeviceRPCRequest 2 sample_request None 20 sample_ready)) = [''pc'']"
  and "map mr_Result (rpc_mail 2 (handleDeviceRPCResult 1 sample_result None 30 sample_called)) = [JStr ''text'']"
  subgoal by code_simp
  subgoal by code_simp
  subgoal by code_simp
  done

theorem expired_calls_settled_witness:
  "env_look (hub_calls (fst (expireDeviceRPCRequests 60000000020 sample_called))) ''r1'' = None \<and>
   map_option rpc_deviceID (env_look (hub_calls sample_called) ''r1'') = Some ''pc''"
proof -
  have "env_calls_ok (hub_calls sample_called)" by (simp add: sample_calls gm_ok_def)
  then have "env_look (hub_calls (fst (expireDeviceRPCRequests 60000000020 sample_called))) ''r1'' =
      (case env_look (hub_calls sample_called) ''r1'' of None \<Rightarrow> None | Some p \<Rightarrow> if 60000000020 < rpc_expiresAt p then Some p else None)"
    by (rule expired_calls_settled [THEN conjunct1, OF _ order_refl])
  then show ?thesis by (simp add: sample_calls rpc_records_def deviceRPCRecordFromPending_def) (simp add: sample_pending_def)
qed

theorem result_for_replaced_connection_lost_witness:
  "rpc_sent (handleDeviceRPCResult 1 sample_result None 30 sample_reconnected) = rpc_sent sample_reconnected \<and>
   rpc_get ''r1'' 30 (hub_calls sample_reconnected) \<noteq> None \<and>
   rpc_get ''r1'' 30 (hub_calls (handleDeviceRPCResult 1 sample_result None 30 sample_reconnected)) = None"
proof -
  have p: "rpc_get ''r1'' 30 (hub_calls sample_reconnected) = Some sample_pending"
    by (simp add: sample_calls pt_get_def live_at_def) (simp add: sample_pending_def)
  have at: "clientRoute 1 30 sample_reconnected = \<lparr>rt_NodeID = ''n'', rt_ConnectionID = ''c1'', rt_ExpiresAt = 300000000030\<rparr>"
    "findDeviceRPCTarget 5 ''pc'' 30 sample_reconnected = (\<lparr>rt_NodeID = ''n'', rt_ConnectionID = ''c1'', rt_ExpiresAt = 300000000030\<rparr>, Some 1)"
    "wc_deviceOwnerUID (hub_client sample_reconnected 1) = 5" "wc_deviceID (hub_client sample_reconnected 1) = ''pc''"
    "wc_deviceConnector (hub_client sample_reconnected 1) = None" "hub_nodeID sample_reconnected = ''n''" by code_simp+
  have match: "pendingMatchesDeviceClient sample_pending 1 30 sample_reconnected"
    by (simp add: pendingMatchesDeviceClient_def sample_pending_def at route_matches_def Let_def del: One_nat_def)
  have "rpc_sent (handleDeviceRPCResult 1 sample_result None 30 sample_reconnected) = rpc_sent sample_reconnected \<and>
    rpc_get ''r1'' 30 (hub_calls (handleDeviceRPCResult 1 sample_result None 30 sample_reconnected)) = None \<and>
    last (wc_send (hub_client (handleDeviceRPCResult 1 sample_result None 30 sample_reconnected) 1)) =
      CtrlMessage (mr_ID sample_result) 200 ''ok'' [(''request_id'', JStr ''r1'')]"
  proof (rule result_for_replaced_connection_lost [OF _ p match at(5)])
    show "normalizeDeviceRPCRequestID (mr_RequestID sample_result) = Some ''r1''" by code_simp
    show "connection_room 1 sample_reconnected" by code_simp
    show "rpc_requesterRoute (dp_record sample_pending) =
        \<lparr>rt_NodeID = hub_nodeID sample_reconnected, rt_ConnectionID = ''c2'', rt_ExpiresAt = rpc_expiresAt (dp_record sample_pending)\<rparr>"
      by (simp add: sample_pending_def at)
    show "hub_nodeID sample_reconnected \<noteq> []" by (simp add: at)
    show "getClientByConnectionID ''c2'' sample_reconnected = Some 2" by code_simp
    show "wc_sendClosed (hub_client sample_reconnected 2)" by code_simp
  qed
  with p show ?thesis by simp
qed

theorem routable_devices_are_served_witness:
  "\<exists>x \<in> set (fst (classifyUserDevices 5 [sample_device] 30 sample_served)). ud_DeviceID x = ''pc'' \<and> ud_Routable x"
proof -
  let ?empty = "newHubWithState ''n'' None None None None (\<lambda>_. []) [] (\<lambda>_. False) (\<lambda>_. no_client) :: (unit, unit) Hub"
  have step: "hub_moves ?empty (hub_set_client 1 sample_phone ?empty)"
    by (rule hub_moves.accept [OF hub_moves.stay])
       (simp_all add: unused_client_def hub_clients_of_def newHubWithState_def sample_phone_def no_client_def)
  have "hub_moves ?empty (fst (registerClient 1 [] NoGenerationStore 20 (hub_set_client 1 sample_phone ?empty)))"
    by (rule hub_moves.enter [OF step]) (simp add: hub_simps sample_phone_def)
  then have moves: "hub_moves ?empty sample_served" unfolding sample_served_def by (rule hub_moves.bind)
  have c: "getDeviceClient 5 (ud_DeviceID sample_device) sample_served = Some 1" by code_simp
  have id: "wc_connectionID (hub_client sample_served 1) \<noteq> []" "hub_nodeID sample_served \<noteq> []" "hub_sharedRuntime sample_served = None"
    "ud_DeviceID sample_device = ''pc''" "isActiveDevice sample_device 30 (userDevicesTTL sample_served)"
    "wc_deviceOwnerUID (hub_client sample_served 1) = 5 \<and> wc_deviceID (hub_client sample_served 1) = ud_DeviceID sample_device"
    by code_simp+
  have "\<exists>x \<in> set (fst (classifyUserDevices 5 [sample_device] 30 sample_served)). ud_DeviceID x = ud_DeviceID sample_device \<and>
      ud_Routable x = (isActiveDevice sample_device 30 (userDevicesTTL sample_served) \<and>
        (\<exists>c. wc_deviceOwnerUID (hub_client sample_served c) = 5 \<and> wc_deviceID (hub_client sample_served c) = ud_DeviceID sample_device)) \<and>
      (ud_Routable x \<longleftrightarrow> x \<notin> set (snd (classifyUserDevices 5 [sample_device] 30 sample_served))) \<and>
      (ud_Routable x \<longleftrightarrow> ud_UnavailableReason x = [])"
    by (rule routable_devices_are_served [OF moves]) (use c id in auto)
  with id(4,5,6) show ?thesis by auto
qed

end
