(* ===== verification/TaskLedgerSafety.thy ===== *)
theory TaskLedgerSafety
  imports TaskLedger
begin

text \<open>
  What the ledger of agent runs guarantees: a finished run stays finished, a topic shows work while there is
  any, a committed receipt is announced once, an announcement is given to one worker at a time, and a
  reconnected bot's runs are not declared lost.
\<close>

section \<open>Runs\<close>

lemma find_put_run:
  "find_run k (put_run upd s db) =
     (if k = run_key s then Some (case find_run k db of None \<Rightarrow> s | Some r \<Rightarrow> if upd r then s else r) else find_run k db)"
proof -
  have upd: "map_option snd (List.find (\<lambda>r. run_key (snd r) = k) (map (\<lambda>(i, r). (i, if run_key r = run_key s \<and> upd r then s else r)) rs)) =
      map_option (\<lambda>r. if run_key r = run_key s \<and> upd r then s else r) (map_option snd (List.find (\<lambda>r. run_key (snd r) = k) rs))" for rs
    by (induction rs) auto
  have new: "map_option snd (List.find (\<lambda>r. run_key (snd r) = k) (rs @ [(i, s)])) =
      (case map_option snd (List.find (\<lambda>r. run_key (snd r) = k) rs) of None \<Rightarrow> if run_key s = k then Some s else None | Some r \<Rightarrow> Some r)" for rs i
    by (induction rs) auto
  have key: "find_run k db = Some r \<Longrightarrow> run_key r = k" for r
    by (auto simp: find_run_def find_Some_iff) (metis snd_conv)
  show ?thesis
  proof (cases "find_run (run_key s) db")
    case None
    then show ?thesis
      by (auto simp: put_run_def find_run_def [of _ "db\<lparr>td_runs := rs, td_nextRun := n\<rparr>" for rs n] new simp flip: find_run_def split: option.split)
  next
    case (Some r)
    then have "find_run k (put_run upd s db) = map_option (\<lambda>r. if run_key r = run_key s \<and> upd r then s else r) (find_run k db)"
      by (simp add: put_run_def find_run_def [of _ "db\<lparr>td_runs := rs\<rparr>" for rs] upd) (simp add: find_run_def)
    with Some key show ?thesis by (cases "find_run k db") auto
  qed
qed

lemma find_run_cong: "td_runs db = td_runs db' \<Longrightarrow> find_run k db = find_run k db'"
  by (simp add: find_run_def)

lemma put_run_frame [simp]:
  "td_sources (put_run u s db) = td_sources db" "td_topics (put_run u s db) = td_topics db"
  "td_outbox (put_run u s db) = td_outbox db" "td_nextEvent (put_run u s db) = td_nextEvent db"
  "td_generations (put_run u s db) = td_generations db"
  by (simp_all add: put_run_def)

lemma import_frame [simp]:
  "td_sources (importRuns t db) = td_sources db" "td_topics (importRuns t db) = td_topics db"
  "td_outbox (importRuns t db) = td_outbox db" "td_nextEvent (importRuns t db) = td_nextEvent db"
  "td_generations (importRuns t db) = td_generations db"
proof -
  have "td_sources (fold (\<lambda>src. put_run (import_newer src) src) xs db) = td_sources db \<and>
      td_topics (fold (\<lambda>src. put_run (import_newer src) src) xs db) = td_topics db \<and>
      td_outbox (fold (\<lambda>src. put_run (import_newer src) src) xs db) = td_outbox db \<and>
      td_nextEvent (fold (\<lambda>src. put_run (import_newer src) src) xs db) = td_nextEvent db \<and>
      td_generations (fold (\<lambda>src. put_run (import_newer src) src) xs db) = td_generations db" for xs
    by (induction xs arbitrary: db) simp_all
  then show "td_sources (importRuns t db) = td_sources db" "td_topics (importRuns t db) = td_topics db"
    "td_outbox (importRuns t db) = td_outbox db" "td_nextEvent (importRuns t db) = td_nextEvent db"
    "td_generations (importRuns t db) = td_generations db"
    by (simp_all add: importRuns_def)
qed

lemma reconcile_frame [simp]:
  "td_runs (reconcileLegacyConversationTaskStatuses now t db) = td_runs db"
  "td_topics (reconcileLegacyConversationTaskStatuses now t db) = td_topics db"
  "td_outbox (reconcileLegacyConversationTaskStatuses now t db) = td_outbox db"
  "td_nextEvent (reconcileLegacyConversationTaskStatuses now t db) = td_nextEvent db"
  "td_generations (reconcileLegacyConversationTaskStatuses now t db) = td_generations db"
  by (simp_all add: reconcileLegacyConversationTaskStatuses_def Let_def split: option.split)

lemma lock_frame [simp]:
  "td_outbox (lockTopic taskLedger now t db) = td_outbox db" "td_nextEvent (lockTopic taskLedger now t db) = td_nextEvent db"
  "td_generations (lockTopic taskLedger now t db) = td_generations db"
  by (simp_all add: lockTopic_def taskLedger_def Let_def)

lemma lock_revision: "topic_revision t db = Some old \<Longrightarrow> topic_revision t (lockTopic taskLedger now u db) = Some old"
  by (auto simp: topic_revision_def lockTopic_def taskLedger_def Let_def gomap_simps)

text \<open>A run that is finished stays so.\<close>

definition finished :: "string \<times> uid \<times> string \<Rightarrow> task_db \<Rightarrow> bool" where
  "finished k db \<longleftrightarrow> (\<exists>r. find_run k db = Some r \<and> IsTerminalConversationTaskState (ts_State r))"

lemma find_key: "find_run k db = Some r \<Longrightarrow> run_key r = k"
  by (auto simp: find_run_def find_Some_iff) (metis snd_conv)

lemma finished_put:
  "finished k db \<Longrightarrow> (\<And>r. find_run (run_key s) db = Some r \<Longrightarrow> upd r \<Longrightarrow> IsTerminalConversationTaskState (ts_State r) \<Longrightarrow>
     IsTerminalConversationTaskState (ts_State s)) \<Longrightarrow> finished k (put_run upd s db)"
  by (auto simp: finished_def find_put_run)

lemma finished_cong: "td_runs db = td_runs db' \<Longrightarrow> finished k db = finished k db'"
  by (simp add: finished_def find_run_def)

lemma finished_import: "finished k db \<Longrightarrow> finished k (importRuns t db)"
proof -
  have "finished k db \<Longrightarrow> finished k (fold (\<lambda>src. put_run (import_newer src) src) xs db)" for xs
  proof (induction xs arbitrary: db)
    case (Cons x xs)
    have "finished k (put_run (import_newer x) x db)"
      by (rule finished_put [OF Cons.prems]) (simp add: import_newer_def)
    then show ?case using Cons.IH by simp
  qed simp
  then show "finished k db \<Longrightarrow> finished k (importRuns t db)" by (simp add: importRuns_def)
qed

lemma finished_lock: "finished k db \<Longrightarrow> finished k (lockTopic taskLedger now t db)"
  unfolding lockTopic_def taskLedger_def Let_def by (rule finished_import) (simp add: finished_def find_run_def)

lemma write_runs: "td_runs (fst (ledger_write s now db)) = td_runs (put_run (\<lambda>_. True) s db)"
  by (simp add: ledger_write_def Let_def)

lemma write_frame:
  "td_generations (fst (ledger_write s now db)) = td_generations db"
  "td_outbox (fst (ledger_write s now db)) = td_outbox db @ [outbox_event (td_nextEvent db) s now]"
  "td_nextEvent (fst (ledger_write s now db)) = Suc (td_nextEvent db)"
  by (simp_all add: ledger_write_def Let_def)

lemma finished_write:
  "finished k db \<Longrightarrow> (\<And>r. find_run (run_key s) db = Some r \<Longrightarrow> IsTerminalConversationTaskState (ts_State r) \<Longrightarrow>
     IsTerminalConversationTaskState (ts_State s)) \<Longrightarrow> finished k (fst (ledger_write s now db))"
  using finished_put [of k db s "\<lambda>_. True"] finished_cong [OF write_runs, of k s now db] by simp

lemma finished_upsert: "finished k db \<Longrightarrow> finished k (fst (Upsert taskLedger works clock inp db))"
proof -
  let ?now = "microseconds clock" and ?s = "PrepareConversationTaskStatusForStore inp (microseconds clock)"
  let ?l = "lockTopic taskLedger ?now (ts_TopicID inp) db"
  assume f: "finished k db"
  note l = finished_lock [OF f, of ?now "ts_TopicID inp"]
  show ?thesis
  proof (cases "find_run (run_key ?s) ?l")
    case None
    with f finished_write [OF l, of ?s ?now] show ?thesis
      by (simp add: Upsert_def Let_def split: prod.split) (metis fst_conv)
  next
    case (Some current)
    then have "run_key current = run_key ?s" by (rule find_key)
    then have run: "ts_RunID current = ts_RunID ?s" by (simp add: run_key_def)
    have "ValidateConversationTaskStatusTransition current ?s ?now = None \<Longrightarrow> finished k (fst (ledger_write ?s ?now ?l))"
      by (rule finished_write [OF l])
         (use Some run in \<open>auto simp: ValidateConversationTaskStatusTransition_def split: if_splits\<close>)
    with f l Some show ?thesis
      by (auto simp: Upsert_def Let_def split: prod.split option.split)
  qed
qed

lemma finished_stale: "finished k db \<Longrightarrow> finished k (fst (MarkStale taskLedger summary works clock t u run cutoff g db))"
proof -
  let ?db = "db\<lparr>td_generations := gm_put u g (td_generations db)\<rparr>" and ?now = "microseconds clock"
  assume f: "finished k db"
  then have "finished k ?db" by (simp add: finished_def find_run_def)
  note l = finished_lock [OF this, of ?now t]
  have "finished k (fst (ledger_write (lost_run summary s ?now) ?now (lockTopic taskLedger ?now t ?db)))" for s
    by (rule finished_write [OF l]) (simp add: lost_run_def IsTerminalConversationTaskState_def)
  with f show ?thesis
    by (auto simp: MarkStale_def Let_def split: prod.split option.split) (metis fst_conv)
qed

text \<open>
  What happens to the tables: the operations of this and other servers, at any time and with any outcome, and
  what older binaries write to the two projections.
\<close>

datatype ledger_op =
    LUpsert bool go_time ConversationTaskStatus
  | LMarkStale string bool go_time string uid string go_time nat
  | LBump bool uid
  | LClaim string "nat \<Rightarrow> bool" bool go_time int duration
  | LComplete bool nat string
  | LRead "string \<Rightarrow> bool"
  | LOldSource "string \<times> uid" ConversationTaskStatus
  | LOldTopic string topic_row

fun ledger_step :: "ledger_op \<Rightarrow> task_db \<Rightarrow> task_db" where
  "ledger_step (LUpsert works clock inp) db = fst (Upsert taskLedger works clock inp db)"
| "ledger_step (LMarkStale summary works clock t u run cutoff g) db = fst (MarkStale taskLedger summary works clock t u run cutoff g db)"
| "ledger_step (LBump works u) db = fst (BumpBotConnectionGeneration works u db)"
| "ledger_step (LClaim token skip works clock limit lease) db = fst (ClaimEvents token skip works clock limit lease db)"
| "ledger_step (LComplete works i claim) db = fst (CompleteEvent works i claim db)"
| "ledger_step (LRead topics) db = importRuns topics db"
| "ledger_step (LOldSource key src) db = db\<lparr>td_sources := gm_put key src (td_sources db)\<rparr>"
| "ledger_step (LOldTopic t row) db = db\<lparr>td_topics := gm_put t row (td_topics db)\<rparr>"

lemma side_runs [simp]:
  "td_runs (fst (BumpBotConnectionGeneration works u db)) = td_runs db"
  "td_runs (fst (ClaimEvents token skip works clock limit lease db)) = td_runs db"
  "td_runs (fst (CompleteEvent works i claim db)) = td_runs db"
  by (simp_all add: BumpBotConnectionGeneration_def ClaimEvents_def CompleteEvent_def Let_def)

lemma finished_step: "finished k db \<Longrightarrow> finished k (ledger_step op db)"
proof (cases op)
  case (LBump works u)
  assume "finished k db"
  with LBump show ?thesis using finished_cong [of "ledger_step op db" db k] by simp
next
  case (LClaim token skip works clock limit lease)
  assume "finished k db"
  with LClaim show ?thesis using finished_cong [of "ledger_step op db" db k] by simp
next
  case (LComplete works i claim)
  assume "finished k db"
  with LComplete show ?thesis using finished_cong [of "ledger_step op db" db k] by simp
qed (simp_all add: finished_upsert finished_stale finished_import, simp_all add: finished_def find_run_def)

text \<open>
  C23: a run that has completed, failed, been cancelled or been declared lost never runs again: whatever
  receipts arrive in whatever order, whatever the recovery does, and whatever older binaries write to the
  projections they still use, the run is still in the ledger and still in a final state.
\<close>

theorem finished_run_stays_finished:
  assumes "find_run k db = Some r" and "IsTerminalConversationTaskState (ts_State r)"
  shows "\<exists>r'. find_run k (fold ledger_step ops db) = Some r' \<and> IsTerminalConversationTaskState (ts_State r')"
proof -
  have "finished k db" using assms by (simp add: finished_def)
  then have "finished k (fold ledger_step ops db)" by (induction ops arbitrary: db) (simp_all add: finished_step)
  then show ?thesis by (simp add: finished_def)
qed

section \<open>What a topic shows\<close>

lemma first_by_None [simp]: "first_by key xs = None \<longleftrightarrow> xs = []"
  by (induction xs) (auto split: option.split)

lemma first_by_best: "first_by key xs = Some x \<Longrightarrow> x \<in> set xs \<and> (\<forall>y \<in> set xs. key y \<le> key x)"
proof (induction xs arbitrary: x)
  case (Cons a xs)
  show ?case
  proof (cases "first_by key xs")
    case None
    with Cons.prems show ?thesis by simp
  next
    case (Some y)
    note y = Cons.IH [OF Some]
    show ?thesis
    proof (cases "key a < key y")
      case True
      with Cons.prems Some y show ?thesis by (auto simp: less_imp_le)
    next
      case False
      then have "z \<in> set xs \<Longrightarrow> key z \<le> key a" for z using y by (meson linorder_not_less order_trans)
      with Cons.prems Some False show ?thesis by auto
    qed
  qed
qed simp

lemma aggregate_active:
  "active_state (ts_State (ledger_aggregate t now db)) \<longleftrightarrow>
     (\<exists>r \<in> set (td_runs db). ts_TopicID (snd r) = t \<and> active_state (ts_State (snd r)) \<and> unexpired now (snd r))"
proof -
  let ?rs = "filter (\<lambda>r. ts_TopicID (snd r) = t \<and> unexpired now (snd r)) (td_runs db)"
  show ?thesis
  proof (cases "first_by run_order ?rs")
    case None
    then show ?thesis by (auto simp: ledger_aggregate_def idle_status_def active_state_def filter_empty_conv)
  next
    case (Some x)
    from first_by_best [OF Some] have x: "x \<in> set ?rs" "\<And>y. y \<in> set ?rs \<Longrightarrow> run_order y \<le> run_order x" by blast+
    have "active_state (ts_State (snd y)) \<Longrightarrow> active_state (ts_State (snd x))" if "y \<in> set ?rs" for y
      using x(2) [OF that] by (auto simp: run_order_def less_eq_prod_def split: prod.splits)
    with x(1) Some show ?thesis by (auto simp: ledger_aggregate_def)
  qed
qed

lemma aggregate_cong: "td_runs db = td_runs db' \<Longrightarrow> ledger_aggregate t now db = ledger_aggregate t now db'"
  by (simp add: ledger_aggregate_def)

lemma write_result:
  "snd (ledger_write s now db) =
     (ledger_aggregate (ts_TopicID s) now (fst (ledger_write s now db)))\<lparr>ts_UpdatedAt := next_revision now (topic_revision (ts_TopicID s) db)\<rparr>"
  by (simp add: ledger_write_def Let_def topic_revision_def) (simp add: ledger_aggregate_def)

lemma write_revision:
  "topic_revision (ts_TopicID s) (fst (ledger_write s now db)) = Some (ts_UpdatedAt (snd (ledger_write s now db)))"
  by (simp add: ledger_write_def Let_def topic_revision_def gomap_simps)

lemma lock_has_topic: "topic_revision t (lockTopic l now t db) \<noteq> None \<or> l \<noteq> taskLedger"
  by (auto simp: topic_revision_def lockTopic_def taskLedger_def Let_def gomap_simps)

text \<open>
  the state a topic is reported in after a receipt shows work exactly when some run of the topic, of any
  agent, is active and not expired: the late end of one run does not hide another that is still running.
  The revision it is reported with is stored, and later than the topic's revision before, except for a
  repeated receipt, which changes nothing that is shown.
\<close>

theorem topic_shows_active_work:
  assumes "Upsert taskLedger works clock inp db = (db', Inr (aggregate, receipt))"
  shows "(active_state (ts_State aggregate) \<longleftrightarrow>
      (\<exists>r \<in> set (td_runs db'). ts_TopicID (snd r) = ts_TopicID inp \<and> active_state (ts_State (snd r)) \<and>
         unexpired (microseconds clock) (snd r))) \<and>
    topic_revision (ts_TopicID inp) db' = Some (ts_UpdatedAt aggregate) \<and>
    (topic_revision (ts_TopicID inp) db = Some old \<longrightarrow>
       old < ts_UpdatedAt aggregate \<or> old = ts_UpdatedAt aggregate \<and> td_outbox db' = td_outbox db)"
proof -
  let ?now = "microseconds clock" and ?t = "ts_TopicID inp" and ?s = "PrepareConversationTaskStatusForStore inp (microseconds clock)"
  let ?l = "lockTopic taskLedger ?now ?t db"
  have t: "ts_TopicID ?s = ?t" by (simp add: PrepareConversationTaskStatusForStore_def Let_def)
  have old: "topic_revision ?t db = Some old \<Longrightarrow> topic_revision ?t ?l = Some old" by (rule lock_revision)
  from assms consider (wrote) "ledger_write ?s ?now ?l = (db', aggregate)"
    | (same) "db' = ?l" "aggregate = (ledger_aggregate ?t ?now ?l)\<lparr>ts_UpdatedAt := (case topic_revision ?t ?l of None \<Rightarrow> ?now | Some r \<Rightarrow> r)\<rparr>"
    by (auto simp: Upsert_def Let_def t split: if_splits option.splits prod.splits)
  then show ?thesis
  proof cases
    case wrote
    then have w: "db' = fst (ledger_write ?s ?now ?l)" "aggregate = snd (ledger_write ?s ?now ?l)" by simp_all
    have "active_state (ts_State aggregate) \<longleftrightarrow> (\<exists>r \<in> set (td_runs db'). ts_TopicID (snd r) = ?t \<and> active_state (ts_State (snd r)) \<and> unexpired ?now (snd r))"
      using aggregate_active [of ?t ?now db'] by (simp add: w write_result t)
    moreover have "topic_revision ?t db' = Some (ts_UpdatedAt aggregate)"
      using write_revision [of ?s ?now ?l] by (simp add: w t)
    moreover have "topic_revision ?t db = Some old \<Longrightarrow> old < ts_UpdatedAt aggregate"
      using old by (simp add: w write_result t next_revision_def)
    ultimately show ?thesis by blast
  next
    case same
    with lock_has_topic [of ?t taskLedger ?now db] obtain r where r: "topic_revision ?t ?l = Some r" by auto
    have "active_state (ts_State aggregate) \<longleftrightarrow> (\<exists>r \<in> set (td_runs db'). ts_TopicID (snd r) = ?t \<and> active_state (ts_State (snd r)) \<and> unexpired ?now (snd r))"
      using aggregate_active [of ?t ?now ?l] by (simp add: same)
    with r old same show ?thesis by auto
  qed
qed

section \<open>Announcements\<close>

lemma find_cong: "td_runs db = td_runs db' \<Longrightarrow> find_run k db = find_run k db'"
  by (simp add: find_run_def)

lemma write_find: "find_run (run_key s) (fst (ledger_write s now db)) = Some s"
  using find_put_run [of "run_key s" "\<lambda>_. True" s db] find_cong [OF write_runs, of "run_key s" s now db]
  by (auto split: option.splits)

text \<open>
  a receipt is all or nothing: when it is refused or the database fails, nothing at all has changed;
  when it is accepted, the run in the ledger is the receipt that is returned, and either exactly one
  announcement of that receipt was added to the outbox, or the ledger already had it and none was.
\<close>

theorem receipt_announced_once:
  "case Upsert taskLedger works clock inp db of
     (db', Inl e) \<Rightarrow> db' = db
   | (db', Inr (aggregate, receipt)) \<Rightarrow>
       find_run (run_key receipt) db' = Some receipt \<and>
       (td_outbox db' = td_outbox db \<or> td_outbox db' = td_outbox db @ [outbox_event (td_nextEvent db) receipt (microseconds clock)])"
proof -
  let ?now = "microseconds clock" and ?s = "PrepareConversationTaskStatusForStore inp (microseconds clock)"
  let ?l = "lockTopic taskLedger ?now (ts_TopicID inp) db"
  have wrote: "(case ledger_write ?s ?now ?l of (db', aggregate) \<Rightarrow>
      find_run (run_key ?s) db' = Some ?s \<and> td_outbox db' = td_outbox db @ [outbox_event (td_nextEvent db) ?s ?now])"
    using write_find [of ?s ?now ?l] write_frame(2) [of ?s ?now ?l] by (simp add: case_prod_beta)
  show ?thesis
  proof (cases "find_run (run_key ?s) ?l")
    case None
    with wrote show ?thesis by (auto simp: Upsert_def Let_def split: prod.splits)
  next
    case (Some current)
    with find_key [OF Some] wrote show ?thesis
      by (auto simp: Upsert_def Let_def split: prod.splits option.splits)
  qed
qed

text \<open>The state after a receipt or a recovery: the old one, the locked one, or what the write made of that.\<close>

lemma upsert_state:
  fixes l clock inp
  defines "now \<equiv> microseconds clock" and "t \<equiv> ts_TopicID inp"
  shows "fst (Upsert l works clock inp db) \<in>
    {db, lockTopic l now t db, fst (ledger_write (PrepareConversationTaskStatusForStore inp now) now (lockTopic l now t db))}"
  by (simp add: Upsert_def Let_def case_prod_beta now_def t_def split: option.split)

lemma stale_state:
  fixes clock
  defines "now \<equiv> microseconds clock"
  shows "fst (MarkStale l summary works clock t u run cutoff g db) = db \<or>
    (let locked = lockTopic l now t (db\<lparr>td_generations := gm_put u g (td_generations db)\<rparr>)
     in bot_generation u db = g \<and> (\<exists>s. fst (MarkStale l summary works clock t u run cutoff g db) = fst (ledger_write s now locked)))"
  by (auto simp: MarkStale_def Let_def case_prod_beta now_def split: option.split)

lemma step_outbox:
  "(td_outbox (ledger_step op db) = td_outbox db \<and> td_nextEvent (ledger_step op db) = td_nextEvent db) \<or>
   (\<exists>s now. td_outbox (ledger_step op db) = td_outbox db @ [outbox_event (td_nextEvent db) s now] \<and>
      td_nextEvent (ledger_step op db) = Suc (td_nextEvent db)) \<or>
   (\<exists>token skip works clock limit lease. op = LClaim token skip works clock limit lease) \<or>
   (\<exists>works i claim. op = LComplete works i claim)"
proof (cases op)
  case (LUpsert works clock inp)
  with upsert_state [of taskLedger works clock inp db] show ?thesis
    by (simp only: insert_iff empty_iff ledger_step.simps) (elim disjE; simp add: write_frame; blast)
next
  case (LMarkStale summary works clock t u run cutoff g)
  with stale_state [of taskLedger summary works clock t u run cutoff g db] show ?thesis
    by (simp only: Let_def ledger_step.simps) (elim disjE exE conjE; simp add: write_frame; blast)
next
  case (LBump works u)
  then show ?thesis by (simp add: BumpBotConnectionGeneration_def Let_def)
qed simp_all

definition outbox_ok :: "task_db \<Rightarrow> bool" where
  "outbox_ok db \<longleftrightarrow> (\<forall>e \<in> set (td_outbox db). ob_id e < td_nextEvent db)"

text \<open>The event has been handed out and may not be taken again before \<open>until\<close>.\<close>

definition reserved :: "nat \<Rightarrow> go_time \<Rightarrow> task_db \<Rightarrow> bool" where
  "reserved i until db \<longleftrightarrow> i < td_nextEvent db \<and> (\<forall>e \<in> set (td_outbox db). ob_id e = i \<longrightarrow> until \<le> ob_available e)"

fun claims_before :: "go_time \<Rightarrow> ledger_op \<Rightarrow> bool" where
  "claims_before until (LClaim token skip works clock limit lease) \<longleftrightarrow> microseconds clock < until"
| "claims_before until _ \<longleftrightarrow> True"

lemma claim_free:
  assumes "reserved i until db" and "microseconds clock < until"
  shows "i \<notin> ob_id ` set (take n (filter (\<lambda>e. ob_available e \<le> microseconds clock \<and> \<not> skip (ob_id e)) (td_outbox db)))"
  using assms by (force simp: reserved_def dest!: in_set_takeD)

lemma reserved_step:
  assumes "reserved i until db" and "claims_before until op"
  shows "reserved i until (ledger_step op db)"
  using step_outbox [of op db]
proof (elim disjE exE conjE)
  fix s now assume "td_outbox (ledger_step op db) = td_outbox db @ [outbox_event (td_nextEvent db) s now]"
    "td_nextEvent (ledger_step op db) = Suc (td_nextEvent db)"
  with assms(1) show ?thesis by (auto simp: reserved_def outbox_event_def)
next
  fix token skip works clock limit lease assume op: "op = LClaim token skip works clock limit lease"
  with assms(2) have "microseconds clock < until" by simp
  from claim_free [OF assms(1) this, of "claim_limit limit" skip] assms(1) show ?thesis
    by (auto simp: op reserved_def ClaimEvents_def Let_def)
qed (use assms(1) in \<open>auto simp: reserved_def CompleteEvent_def\<close>)

lemma reserved_run:
  "reserved i until db \<Longrightarrow> \<forall>op \<in> set ops. claims_before until op \<Longrightarrow> reserved i until (fold ledger_step ops db)"
  by (induction ops arbitrary: db) (simp_all add: reserved_step)

lemma claim_reserves:
  assumes "ClaimEvents token skip works clock limit lease db = (db', Some es)" and "outbox_ok db" and "e \<in> set es"
  shows "reserved (ob_id e) (microseconds clock + claim_lease lease) db'"
proof -
  from assms(1,3) obtain e0 where "e0 \<in> set (td_outbox db)" "ob_id e0 = ob_id e"
    by (auto simp: ClaimEvents_def Let_def dest!: in_set_takeD split: if_splits)
  with assms show ?thesis
    by (force simp: ClaimEvents_def Let_def reserved_def outbox_ok_def split: if_splits)
qed

text \<open>
  an announcement is given to one worker at a time: once a worker has claimed it, no claim by any
  server gets it again before the lease of the first claim is over, whatever receipts, recoveries,
  completions and other claims happen in between.
\<close>

theorem event_claimed_once_per_lease:
  assumes "outbox_ok db" and "ClaimEvents token skip works clock limit lease db = (db1, Some es)" and "e \<in> set es"
    and "\<forall>op \<in> set ops. claims_before (microseconds clock + claim_lease lease) op"
    and "microseconds clock2 < microseconds clock + claim_lease lease"
    and "ClaimEvents token2 skip2 works2 clock2 limit2 lease2 (fold ledger_step ops db1) = (db2, Some fs)" and "f \<in> set fs"
  shows "ob_id f \<noteq> ob_id e"
proof -
  have "reserved (ob_id e) (microseconds clock + claim_lease lease) db1" by (rule claim_reserves [OF assms(2,1,3)])
  then have "reserved (ob_id e) (microseconds clock + claim_lease lease) (fold ledger_step ops db1)"
    by (rule reserved_run [OF _ assms(4)])
  note free = claim_free [OF this assms(5), of "claim_limit limit2" skip2]
  from assms(6,7) obtain f0 where "f0 \<in> set (take (claim_limit limit2) (filter (\<lambda>e. ob_available e \<le> microseconds clock2 \<and> \<not> skip2 (ob_id e))
      (td_outbox (fold ledger_step ops db1))))" "ob_id f0 = ob_id f"
    by (auto simp: ClaimEvents_def Let_def split: if_splits)
  with free show ?thesis by (metis imageI)
qed

section \<open>Recovery\<close>

lemma generation_step: "bot_generation u db \<le> bot_generation u (ledger_step op db)"
proof -
  have cong: "td_generations db' = td_generations db \<Longrightarrow> bot_generation u db' = bot_generation u db" for db'
    by (simp add: bot_generation_def)
  show ?thesis
  proof (cases op)
    case (LUpsert works clock inp)
    have "td_generations (fst (Upsert taskLedger works clock inp db)) = td_generations db"
      using upsert_state [of taskLedger works clock inp db]
      by (simp only: insert_iff empty_iff) (elim disjE; simp add: write_frame)
    from cong [OF this] LUpsert show ?thesis by simp
  next
    case (LMarkStale summary works clock t v run cutoff g)
    from stale_state [of taskLedger summary works clock t v run cutoff g db] LMarkStale show ?thesis
      by (simp only: Let_def ledger_step.simps) (elim disjE exE conjE; simp add: bot_generation_def write_frame gomap_simps)
  next
    case (LBump works v)
    then show ?thesis by (auto simp: BumpBotConnectionGeneration_def Let_def bot_generation_def gomap_simps split: option.splits)
  next
    case (LClaim token skip works clock limit lease)
    then show ?thesis by (simp add: ClaimEvents_def Let_def bot_generation_def)
  next
    case (LComplete works i claim)
    then show ?thesis by (simp add: CompleteEvent_def bot_generation_def)
  qed (simp_all add: bot_generation_def)
qed

lemma generation_run: "bot_generation u db \<le> bot_generation u (fold ledger_step ops db)"
proof (induction ops arbitrary: db)
  case (Cons op ops)
  from generation_step [of u db op] Cons.IH [of "ledger_step op db"] show ?case by simp
qed simp

text \<open>
  C31: a bot that has reconnected keeps its runs: once a new connection has been counted, a recovery that was
  scheduled under an earlier count changes nothing, on any server, however late it comes and whatever has
  happened since.
\<close>

theorem reconnect_fences_recovery:
  assumes "BumpBotConnectionGeneration works u db = (db1, Some g)" and "g0 < g"
  shows "fst (MarkStale taskLedger summary works2 clock t u run cutoff g0 (fold ledger_step ops db1)) = fold ledger_step ops db1 \<and>
    (\<forall>aggregate. snd (MarkStale taskLedger summary works2 clock t u run cutoff g0 (fold ledger_step ops db1)) \<noteq> Inr (Some aggregate))"
proof -
  have "bot_generation u db1 = g"
    using assms(1) by (auto simp: BumpBotConnectionGeneration_def Let_def bot_generation_def gomap_simps split: if_splits)
  moreover have "bot_generation u db1 \<le> bot_generation u (fold ledger_step ops db1)" by (rule generation_run)
  ultimately have "bot_generation u (fold ledger_step ops db1) \<noteq> g0" using assms(2) by simp
  then show ?thesis by (simp add: MarkStale_def)
qed

section \<open>Two runs of one bot\<close>

text \<open>Bot 7 has two runs in a topic; the first one ends, and then reports progress again.\<close>

definition sample_status :: "string \<Rightarrow> string \<Rightarrow> go_time \<Rightarrow> ConversationTaskStatus" where
  "sample_status run state event = \<lparr>ts_TopicID = ''grp_1'', ts_RunID = run, ts_State = state, ts_Summary = [], ts_Error = [],
     ts_SourceUID = 7, ts_UpdatedAt = 0, ts_EventUpdatedAt = event, ts_ExpiresAt = None\<rparr>"

definition sample_db :: task_db where
  "sample_db = \<lparr>td_runs = [], td_nextRun = 1, td_sources = [], td_topics = [], td_outbox = [], td_nextEvent = 1, td_generations = []\<rparr>"

definition sample_ledger :: task_db where
  "sample_ledger = fold ledger_step
     [LUpsert True 1000 (sample_status ''a'' ''running'' 1000), LUpsert True 2000 (sample_status ''b'' ''running'' 2000),
      LUpsert True 3000 (sample_status ''a'' ''failed'' 3000)] sample_db"

theorem finished_run_stays_finished_witness:
  "map_option ts_State (find_run (''grp_1'', 7, ''a'') sample_ledger) = Some ''failed'' \<and>
   (\<exists>r'. find_run (''grp_1'', 7, ''a'') (fold ledger_step [LUpsert True 4000 (sample_status ''a'' ''running'' 4000),
        LOldSource (''grp_1'', 7) (sample_status ''a'' ''running'' 9000), LRead (\<lambda>_. True)] sample_ledger) = Some r' \<and>
      IsTerminalConversationTaskState (ts_State r'))"
proof -
  have a: "map_option ts_State (find_run (''grp_1'', 7, ''a'') sample_ledger) = Some ''failed''" by code_simp
  then obtain r where r: "find_run (''grp_1'', 7, ''a'') sample_ledger = Some r" "ts_State r = ''failed''" by auto
  then have "IsTerminalConversationTaskState (ts_State r)" by (simp add: IsTerminalConversationTaskState_def)
  from finished_run_stays_finished [OF r(1) this] a show ?thesis by blast
qed

theorem topic_shows_active_work_witness:
  "\<exists>db' aggregate receipt.
     Upsert taskLedger True 3000 (sample_status ''a'' ''failed'' 3000) (fold ledger_step
       [LUpsert True 1000 (sample_status ''a'' ''running'' 1000), LUpsert True 2000 (sample_status ''b'' ''running'' 2000)] sample_db) =
       (db', Inr (aggregate, receipt)) \<and> active_state (ts_State aggregate) \<and> topic_revision ''grp_1'' db' = Some (ts_UpdatedAt aggregate)"
proof -
  let ?db = "fold ledger_step [LUpsert True 1000 (sample_status ''a'' ''running'' 1000), LUpsert True 2000 (sample_status ''b'' ''running'' 2000)] sample_db"
  let ?inp = "sample_status ''a'' ''failed'' 3000"
  have "(case Upsert taskLedger True 3000 ?inp ?db of (db', Inr (aggregate, receipt)) \<Rightarrow>
      list_ex (\<lambda>r. ts_TopicID (snd r) = ts_TopicID ?inp \<and> active_state (ts_State (snd r)) \<and> unexpired (microseconds 3000) (snd r)) (td_runs db')
    | (db', Inl e) \<Rightarrow> False)" by code_simp
  then obtain db' aggregate receipt where u: "Upsert taskLedger True 3000 ?inp ?db = (db', Inr (aggregate, receipt))"
    and ex: "\<exists>r \<in> set (td_runs db'). ts_TopicID (snd r) = ts_TopicID ?inp \<and> active_state (ts_State (snd r)) \<and> unexpired (microseconds 3000) (snd r)"
    by (auto simp: list_ex_iff split: prod.splits sum.splits)
  from topic_shows_active_work [OF u, of 0] ex u show ?thesis by (auto simp: sample_status_def)
qed

theorem event_claimed_once_per_lease_witness:
  "\<exists>db1 es. ClaimEvents ''w1'' (\<lambda>_. False) True 5000 10 (30 * go_second) sample_ledger = (db1, Some es) \<and> length es = 3 \<and>
     (\<forall>e \<in> set es. \<forall>f \<in> set (the (snd (ClaimEvents ''w2'' (\<lambda>_. False) True 20000000000 10 (30 * go_second)
        (ledger_step (LUpsert True 6000 (sample_status ''b'' ''completed'' 6000)) db1)))). ob_id f \<noteq> ob_id e)"
proof -
  obtain db1 es where c: "ClaimEvents ''w1'' (\<lambda>_. False) True 5000 10 (30 * go_second) sample_ledger = (db1, Some es)"
    by (simp add: ClaimEvents_def Let_def)
  have "map_option length (snd (ClaimEvents ''w1'' (\<lambda>_. False) True 5000 10 (30 * go_second) sample_ledger)) = Some 3" by code_simp
  with c have len: "length es = 3" by simp
  have ok: "outbox_ok sample_ledger" by code_simp
  let ?db2 = "fold ledger_step [LUpsert True 6000 (sample_status ''b'' ''completed'' 6000)] db1"
  obtain db3 fs where d: "ClaimEvents ''w2'' (\<lambda>_. False) True 20000000000 10 (30 * go_second) ?db2 = (db3, Some fs)"
    by (simp add: ClaimEvents_def Let_def)
  have "ob_id f \<noteq> ob_id e" if "e \<in> set es" "f \<in> set fs" for e f
    by (rule event_claimed_once_per_lease [OF ok c that(1) _ _ d that(2)])
       (simp_all add: microseconds_def claim_lease_def go_second_def)
  with c d len show ?thesis by auto
qed

theorem reconnect_fences_recovery_witness:
  "case BumpBotConnectionGeneration True 7 sample_ledger of (db1, g) \<Rightarrow>
     g = Some 1 \<and> fst (MarkStale taskLedger [] True 9000 ''grp_1'' 7 ''b'' 8000 0 (fold ledger_step [] db1)) = db1"
proof -
  obtain db1 where b: "BumpBotConnectionGeneration True 7 sample_ledger = (db1, Some 1)"
  proof -
    have "snd (BumpBotConnectionGeneration True 7 sample_ledger) = Some 1" by code_simp
    then show ?thesis using that by (metis prod.collapse)
  qed
  from reconnect_fences_recovery [OF b, of 0 "[]" True 9000 "''grp_1''" "''b''" 8000 "[]"] b show ?thesis by simp
qed

end
