(* ===== verification/TaskRefinement.thy ===== *)
theory TaskRefinement
  imports TaskLedgerSafety
begin

text \<open>
  The ledger as its users see it: a map from a run's key to its last receipt, and a count of connections per
  bot. Without writes of older binaries the tables, with their projections and imports, are a refinement
  of that map.
\<close>

section \<open>The abstract ledger\<close>

record run_map =
  rm_runs :: "string \<times> uid \<times> string \<Rightarrow> ConversationTaskStatus option"
  rm_generations :: "uid \<Rightarrow> nat"

definition no_runs :: run_map where
  "no_runs = \<lparr>rm_runs = (\<lambda>_. None), rm_generations = (\<lambda>_. 0)\<rparr>"

definition repeated :: "ConversationTaskStatus \<Rightarrow> ConversationTaskStatus \<Rightarrow> ConversationTaskStatus \<Rightarrow> bool" where
  "repeated inp current s \<longleftrightarrow> sameReceipt current s \<and>
     (ts_EventUpdatedAt current = ts_EventUpdatedAt s \<or>
      (is_zero_time (ts_EventUpdatedAt inp) \<and> IsTerminalConversationTaskState (ts_State s)))"

definition set_run :: "ConversationTaskStatus \<Rightarrow> run_map \<Rightarrow> run_map" where
  "set_run s m = m\<lparr>rm_runs := (rm_runs m)(run_key s \<mapsto> s)\<rparr>"

definition spec_report :: "bool \<Rightarrow> go_time \<Rightarrow> ConversationTaskStatus \<Rightarrow> run_map \<Rightarrow> run_map \<times> task_error option" where
  "spec_report works clock inp m =
     (let now = microseconds clock; s = PrepareConversationTaskStatusForStore inp now
      in if ts_TopicID inp = [] \<or> ts_SourceUID inp \<le> 0 then (m, Some TaskInvalid)
         else if \<not> works then (m, Some TaskDatabase)
         else case rm_runs m (run_key s) of
           None \<Rightarrow> (set_run s m, None)
         | Some current \<Rightarrow>
             (case ValidateConversationTaskStatusTransition current s now of
                Some e \<Rightarrow> (m, Some e)
              | None \<Rightarrow> (if repeated inp current s then m else set_run s m, None)))"

definition silent :: "go_time \<Rightarrow> ConversationTaskStatus \<Rightarrow> bool" where
  "silent cutoff s \<longleftrightarrow> active_state (ts_State s) \<and> ts_UpdatedAt s \<le> cutoff"

definition spec_recover ::
  "string \<Rightarrow> bool \<Rightarrow> go_time \<Rightarrow> string \<Rightarrow> uid \<Rightarrow> string \<Rightarrow> go_time \<Rightarrow> nat \<Rightarrow> run_map \<Rightarrow> run_map" where
  "spec_recover summary works clock t u run cutoff g m =
     (if t = [] \<or> u \<le> 0 \<or> run = [] \<or> \<not> works \<or> rm_generations m u \<noteq> g then m
      else case rm_runs m (t, u, run) of
        None \<Rightarrow> m
      | Some s \<Rightarrow> if silent cutoff s then set_run (lost_run summary s (microseconds clock)) m else m)"

fun spec_step :: "ledger_op \<Rightarrow> run_map \<Rightarrow> run_map" where
  "spec_step (LUpsert works clock inp) m = fst (spec_report works clock inp m)"
| "spec_step (LMarkStale summary works clock t u run cutoff g) m = spec_recover summary works clock t u run cutoff g m"
| "spec_step (LBump works u) m =
     (if u \<le> 0 \<or> \<not> works then m else m\<lparr>rm_generations := (rm_generations m)(u := rm_generations m u + 1)\<rparr>)"
| "spec_step _ m = m"

fun own_op :: "ledger_op \<Rightarrow> bool" where
  "own_op (LOldSource _ _) = False"
| "own_op (LOldTopic _ _) = False"
| "own_op _ = True"

definition runs_of :: "task_db \<Rightarrow> run_map" where
  "runs_of db = \<lparr>rm_runs = (\<lambda>k. find_run k db), rm_generations = (\<lambda>u. bot_generation u db)\<rparr>"

definition empty_db :: task_db where
  "empty_db = \<lparr>td_runs = [], td_nextRun = 1, td_sources = [], td_topics = [], td_outbox = [], td_nextEvent = 1, td_generations = []\<rparr>"

section \<open>Projections that hold nothing new\<close>

definition in_sync :: "task_db \<Rightarrow> bool" where
  "in_sync db \<longleftrightarrow> distinct (map (\<lambda>r. run_key (snd r)) (td_runs db)) \<and> gm_ok (td_sources db) \<and>
     (\<forall>k src. map_of (td_sources db) k = Some src \<longrightarrow>
        k = (ts_TopicID src, ts_SourceUID src) \<and> find_run (run_key src) db = Some src) \<and>
     (\<forall>t row. map_of (td_topics db) t = Some row \<longrightarrow>
        ts_SourceUID (tr_status row) = 0 \<or> tr_ledger row = Some (ts_UpdatedAt (tr_status row)))"

lemma find_run_member:
  "distinct (map (\<lambda>r. run_key (snd r)) (td_runs db)) \<Longrightarrow> find_run k db = Some s \<longleftrightarrow> s \<in> snd ` set (td_runs db) \<and> run_key s = k"
proof -
  have "distinct (map (\<lambda>r. run_key (snd r)) rs) \<Longrightarrow>
      map_option snd (List.find (\<lambda>r. run_key (snd r) = k) rs) = Some s \<longleftrightarrow> s \<in> snd ` set rs \<and> run_key s = k" for rs :: "(nat \<times> ConversationTaskStatus) list"
    by (induction rs) (auto simp: image_iff split: if_splits)
  then show "distinct (map (\<lambda>r. run_key (snd r)) (td_runs db)) \<Longrightarrow> ?thesis" by (simp add: find_run_def)
qed

lemma keys_put_run:
  assumes "distinct (map (\<lambda>r. run_key (snd r)) (td_runs db))"
  shows "distinct (map (\<lambda>r. run_key (snd r)) (td_runs (put_run upd s db)))"
proof (cases "find_run (run_key s) db")
  case None
  then have "run_key (snd r) \<noteq> run_key s" if "r \<in> set (td_runs db)" for r
    using that by (cases r) (auto simp: find_run_def find_None_iff)
  then have "run_key s \<notin> (\<lambda>r. run_key (snd r)) ` set (td_runs db)" by (metis imageE)
  with assms None show ?thesis by (simp add: put_run_def)
next
  case (Some r)
  have "map (\<lambda>r. run_key (snd r)) (map (\<lambda>(i, r). (i, if run_key r = run_key s \<and> upd r then s else r)) (td_runs db)) =
      map (\<lambda>r. run_key (snd r)) (td_runs db)"
    unfolding map_map by (rule map_cong) auto
  with assms Some show ?thesis by (simp add: put_run_def del: map_map)
qed

lemma import_one_same:
  assumes "distinct (map (\<lambda>r. run_key (snd r)) (td_runs db))" and "find_run (run_key src) db = Some src"
  shows "put_run (import_newer src) src db = db"
proof -
  have "\<not> (run_key r = run_key src \<and> import_newer src r)" if "(i, r) \<in> set (td_runs db)" for i r
  proof (cases "run_key r = run_key src")
    case True
    from that have "r \<in> snd ` set (td_runs db)" by force
    with True assms find_run_member [OF assms(1), of "run_key src" r] have "r = src" by simp
    then show ?thesis by (simp add: import_newer_def)
  qed simp
  then have "map (\<lambda>(i, r). (i, if run_key r = run_key src \<and> import_newer src r then src else r)) (td_runs db) = td_runs db"
    by (intro map_idI) auto
  with assms(2) show ?thesis by (simp add: put_run_def)
qed

lemma import_same: "in_sync db \<Longrightarrow> importRuns t db = db"
proof -
  assume sync: "in_sync db"
  have "\<forall>x \<in> set xs. find_run (run_key x) db = Some x \<Longrightarrow> fold (\<lambda>src. put_run (import_newer src) src) xs db = db" for xs
    using sync by (induction xs) (simp_all add: in_sync_def import_one_same)
  moreover have "find_run (run_key x) db = Some x" if "x \<in> set (gm_values (td_sources db))" for x
    using that sync by (auto simp: in_sync_def gm_values_set)
  ultimately show ?thesis by (simp add: importRuns_def)
qed

lemma reconcile_same: "in_sync db \<Longrightarrow> reconcileLegacyConversationTaskStatuses now t db = db"
  by (auto simp: reconcileLegacyConversationTaskStatuses_def in_sync_def Let_def split: option.split)

lemma in_sync_topic: "in_sync db \<Longrightarrow> ts_SourceUID (tr_status row) = 0 \<or> tr_ledger row = Some (ts_UpdatedAt (tr_status row)) \<Longrightarrow>
  in_sync (db\<lparr>td_topics := gm_put t row (td_topics db)\<rparr>)"
  by (auto simp: in_sync_def gomap_simps find_run_def)

lemma lock_same:
  assumes "in_sync db"
  shows "\<exists>ts. lockTopic taskLedger now t db = db\<lparr>td_topics := ts\<rparr>" and "in_sync (lockTopic taskLedger now t db)"
proof -
  let ?db = "if map_of (td_topics db) t \<noteq> None then db
     else db\<lparr>td_topics := gm_put t \<lparr>tr_status = idle_status t now, tr_ledger = None\<rparr> (td_topics db)\<rparr>"
  have sync: "in_sync ?db" using assms by (simp add: in_sync_topic idle_status_def)
  have "lockTopic taskLedger now t db = ?db"
    by (simp only: lockTopic_def taskLedger_def Let_def option.case reconcile_same [OF sync] import_same [OF sync])
  moreover have "?db = db\<lparr>td_topics := if map_of (td_topics db) t \<noteq> None then td_topics db
     else gm_put t \<lparr>tr_status = idle_status t now, tr_ledger = None\<rparr> (td_topics db)\<rparr>" by simp
  ultimately show "\<exists>ts. lockTopic taskLedger now t db = db\<lparr>td_topics := ts\<rparr>" and "in_sync (lockTopic taskLedger now t db)"
    using sync by (metis, simp only:)
qed

lemma lock_find: "in_sync db \<Longrightarrow> find_run k (lockTopic taskLedger now t db) = find_run k db"
  using lock_same(1) [of db now t] by (auto simp: find_run_def)

section \<open>The operations keep the projections in step\<close>

lemma projection_is_run:
  assumes "distinct (map (\<lambda>r. run_key (snd r)) (td_runs db))" and "find_run (run_key s) db = Some s"
  shows "find_run (run_key (source_projection s now db)) db = Some (source_projection s now db) \<and>
    ts_TopicID (source_projection s now db) = ts_TopicID s \<and> ts_SourceUID (source_projection s now db) = ts_SourceUID s"
proof -
  let ?rs = "filter (\<lambda>r. ts_TopicID (snd r) = ts_TopicID s \<and> ts_SourceUID (snd r) = ts_SourceUID s \<and> unexpired now (snd r)) (td_runs db)"
  show ?thesis
  proof (cases "first_by source_order ?rs")
    case None
    with assms show ?thesis by (simp add: source_projection_def)
  next
    case (Some x)
    from first_by_best [OF Some] have "x \<in> set ?rs" by blast
    with find_run_member [OF assms(1)] show ?thesis by (auto simp: source_projection_def Some)
  qed
qed

lemma sync_write: "in_sync db \<Longrightarrow> in_sync (fst (ledger_write s now db))"
proof -
  assume sync: "in_sync db"
  let ?db = "put_run (\<lambda>_. True) s db" and ?db' = "fst (ledger_write s now db)"
  let ?p = "source_projection s now ?db"
  have keys: "distinct (map (\<lambda>r. run_key (snd r)) (td_runs ?db))" using sync by (simp add: in_sync_def keys_put_run)
  have "find_run (run_key s) ?db = Some s" by (simp add: find_put_run split: option.split)
  note p = projection_is_run [OF keys this, of now]
  have find: "find_run k ?db' = find_run k ?db" for k by (rule find_cong) (rule write_runs)
  have sources: "td_sources ?db' = gm_put (ts_TopicID ?p, ts_SourceUID ?p) ?p (td_sources db)" by (simp add: ledger_write_def Let_def)
  have "k = (ts_TopicID src, ts_SourceUID src) \<and> find_run (run_key src) ?db' = Some src" if "map_of (td_sources ?db') k = Some src" for k src
  proof (cases "src = ?p \<and> k = (ts_TopicID ?p, ts_SourceUID ?p)")
    case True
    with p find show ?thesis by simp
  next
    case False
    with that sources have old: "map_of (td_sources db) k = Some src" and k: "k \<noteq> (ts_TopicID s, ts_SourceUID s)"
      by (auto simp: gomap_simps p split: if_splits)
    with sync have src: "k = (ts_TopicID src, ts_SourceUID src)" "find_run (run_key src) db = Some src" by (simp_all only: in_sync_def)
    with k have "run_key src \<noteq> run_key s" by (auto simp: run_key_def)
    with src find show ?thesis by (simp add: find_put_run)
  qed
  moreover have "gm_ok (td_sources ?db')" using sync sources by (simp add: in_sync_def)
  moreover have "distinct (map (\<lambda>r. run_key (snd r)) (td_runs ?db'))" using keys by (simp add: write_runs)
  moreover have "ts_SourceUID (tr_status row) = 0 \<or> tr_ledger row = Some (ts_UpdatedAt (tr_status row))"
    if "map_of (td_topics ?db') t = Some row" for t row
    using that sync by (auto simp: ledger_write_def Let_def in_sync_def gomap_simps split: if_splits)
  ultimately show ?thesis by (auto simp: in_sync_def)
qed

lemma runs_write: "runs_of (fst (ledger_write s now db)) = set_run s (runs_of db)"
proof -
  have "find_run k (fst (ledger_write s now db)) = ((\<lambda>k. find_run k db)(run_key s \<mapsto> s)) k" for k
    using find_cong [OF write_runs, of k s now db] by (simp add: find_put_run split: option.split)
  then show ?thesis by (simp add: runs_of_def set_run_def bot_generation_def write_frame fun_eq_iff)
qed

lemma runs_lock: "in_sync db \<Longrightarrow> runs_of (lockTopic taskLedger now t db) = runs_of db"
  by (simp add: runs_of_def lock_find bot_generation_def)

lemma report_refined:
  assumes "in_sync db"
  shows "in_sync (fst (Upsert taskLedger works clock inp db))"
    and "runs_of (fst (Upsert taskLedger works clock inp db)) = fst (spec_report works clock inp (runs_of db))"
    and "(case snd (Upsert taskLedger works clock inp db) of Inl e \<Rightarrow> Some e | Inr _ \<Rightarrow> None) = snd (spec_report works clock inp (runs_of db))"
proof -
  let ?now = "microseconds clock" and ?s = "PrepareConversationTaskStatusForStore inp (microseconds clock)"
  let ?l = "lockTopic taskLedger ?now (ts_TopicID inp) db"
  note l = lock_same(2) [OF assms, of ?now "ts_TopicID inp"]
  note w = sync_write [OF l, of ?s ?now] runs_write [of ?s ?now ?l] runs_lock [OF assms, of ?now "ts_TopicID inp"]
  obtain db' a where wrote: "ledger_write ?s ?now ?l = (db', a)" by fastforce
  have find: "find_run (run_key ?s) ?l = rm_runs (runs_of db) (run_key ?s)" by (simp add: lock_find [OF assms]) (simp add: runs_of_def)
  have "in_sync (fst (Upsert taskLedger works clock inp db)) \<and>
      runs_of (fst (Upsert taskLedger works clock inp db)) = fst (spec_report works clock inp (runs_of db)) \<and>
      (case snd (Upsert taskLedger works clock inp db) of Inl e \<Rightarrow> Some e | Inr _ \<Rightarrow> None) = snd (spec_report works clock inp (runs_of db))"
    using assms l w
    by (simp add: Upsert_def spec_report_def repeated_def Let_def find wrote split: option.split) blast
  then show "in_sync (fst (Upsert taskLedger works clock inp db))"
    and "runs_of (fst (Upsert taskLedger works clock inp db)) = fst (spec_report works clock inp (runs_of db))"
    and "(case snd (Upsert taskLedger works clock inp db) of Inl e \<Rightarrow> Some e | Inr _ \<Rightarrow> None) = snd (spec_report works clock inp (runs_of db))"
    by blast+
qed

text \<open>A recovery reads the run's generation before it locks the topic; the row it makes sure of is what it read.\<close>

lemma generation_row: "bot_generation u db = g \<Longrightarrow> in_sync db \<Longrightarrow>
  in_sync (db\<lparr>td_generations := gm_put u g (td_generations db)\<rparr>) \<and> runs_of (db\<lparr>td_generations := gm_put u g (td_generations db)\<rparr>) = runs_of db"
  by (auto simp: in_sync_def find_run_def runs_of_def bot_generation_def gomap_simps fun_eq_iff)

lemma recovery_refined:
  assumes "in_sync db"
  shows "in_sync (fst (MarkStale taskLedger summary works clock t u run cutoff g db)) \<and>
    runs_of (fst (MarkStale taskLedger summary works clock t u run cutoff g db)) = spec_recover summary works clock t u run cutoff g (runs_of db)"
proof (cases "bot_generation u db = g")
  case True
  let ?now = "microseconds clock" and ?db = "db\<lparr>td_generations := gm_put u g (td_generations db)\<rparr>"
  let ?l = "lockTopic taskLedger ?now t ?db"
  from generation_row [OF True assms] have g: "in_sync ?db" "runs_of ?db = runs_of db" by blast+
  note l = lock_same(2) [OF g(1), of ?now t]
  have find: "find_run (t, u, run) ?l = rm_runs (runs_of db) (t, u, run)"
    by (simp add: lock_find [OF g(1)] flip: g(2)) (simp add: runs_of_def)
  have w: "in_sync (fst (ledger_write s ?now ?l)) \<and> runs_of (fst (ledger_write s ?now ?l)) = set_run s (runs_of db)" for s
    using sync_write [OF l, of s ?now] runs_write [of s ?now ?l] runs_lock [OF g(1), of ?now t] g(2) by simp
  have "rm_generations (runs_of db) u = g" using True by (simp add: runs_of_def)
  then show ?thesis
    using assms w by (simp add: MarkStale_def spec_recover_def silent_def Let_def True find case_prod_beta not_less split: option.split)
next
  case False
  with assms show ?thesis by (simp add: MarkStale_def spec_recover_def runs_of_def)
qed

lemma step_refined: "in_sync db \<Longrightarrow> own_op op \<Longrightarrow> in_sync (ledger_step op db) \<and> runs_of (ledger_step op db) = spec_step op (runs_of db)"
proof (cases op)
  case (LBump works u)
  assume "in_sync db"
  then show ?thesis
    by (auto simp: LBump BumpBotConnectionGeneration_def Let_def in_sync_def find_run_def runs_of_def bot_generation_def gomap_simps fun_eq_iff)
next
  case (LClaim token skip works clock limit lease)
  assume "in_sync db"
  then show ?thesis by (simp add: LClaim ClaimEvents_def Let_def in_sync_def find_run_def runs_of_def bot_generation_def)
next
  case (LComplete works i claim)
  assume "in_sync db"
  then show ?thesis by (simp add: LComplete CompleteEvent_def in_sync_def find_run_def runs_of_def bot_generation_def)
qed (simp_all add: report_refined recovery_refined import_same)

lemma steps_refined: "\<forall>op \<in> set ops. own_op op \<Longrightarrow> in_sync db \<Longrightarrow>
  in_sync (fold ledger_step ops db) \<and> runs_of (fold ledger_step ops db) = fold spec_step ops (runs_of db)"
  by (induction ops arbitrary: db) (simp_all add: step_refined)

lemma empty_refined: "in_sync empty_db \<and> runs_of empty_db = no_runs"
  by (simp add: in_sync_def empty_db_def runs_of_def no_runs_def find_run_def bot_generation_def)

text \<open>
  C27: without writes of older binaries the ledger is a map of runs: after any history of receipts, recoveries,
  connections, claims, completions and reads, by any number of servers, the runs and the connection counts
  are what the abstract ledger has, and a further receipt is accepted, refused and answered with exactly the
  error that the abstract ledger gives for the run it names. Locks, imports and projections add nothing.
\<close>

theorem ledger_refines_run_map:
  assumes "\<forall>op \<in> set ops. own_op op"
  defines "db \<equiv> fold ledger_step ops empty_db"
  shows "runs_of db = fold spec_step ops no_runs \<and>
    (case snd (Upsert taskLedger works clock inp db) of Inl e \<Rightarrow> Some e | Inr _ \<Rightarrow> None) =
      snd (spec_report works clock inp (fold spec_step ops no_runs))"
proof -
  have "in_sync db \<and> runs_of db = fold spec_step ops no_runs"
    using steps_refined [OF assms(1)] empty_refined by (simp add: db_def)
  with report_refined(3) [of db works clock inp] show ?thesis by simp
qed

theorem ledger_refines_run_map_witness:
  "map_option ts_State (rm_runs (fold spec_step [LUpsert True 1000 (sample_status ''a'' ''running'' 1000),
      LMarkStale [] True 9000 ''grp_1'' 7 ''a'' 8000 0] no_runs) (''grp_1'', 7, ''a'')) = Some ''stale'' \<and>
   runs_of (fold ledger_step [LUpsert True 1000 (sample_status ''a'' ''running'' 1000),
      LMarkStale [] True 9000 ''grp_1'' 7 ''a'' 8000 0] empty_db) =
   fold spec_step [LUpsert True 1000 (sample_status ''a'' ''running'' 1000), LMarkStale [] True 9000 ''grp_1'' 7 ''a'' 8000 0] no_runs"
proof -
  let ?ops = "[LUpsert True 1000 (sample_status ''a'' ''running'' 1000), LMarkStale [] True 9000 ''grp_1'' 7 ''a'' 8000 0]"
  have own: "\<forall>op \<in> set ?ops. own_op op" by simp
  have "map_option ts_State (rm_runs (fold spec_step ?ops no_runs) (''grp_1'', 7, ''a'')) = Some ''stale''" by code_simp
  with ledger_refines_run_map [OF own] show ?thesis by blast
qed

end
