(* ===== verification/TaskRecovery.thy ===== *)
theory TaskRecovery
  imports TaskRefinement Hub
begin

text \<open>
  The recovery of runs whose bot was lost (\<open>server/conversation_task_status.go\<close>): the timer that a
  disconnection starts, and the sweep that finds what timers missed. A bot counts as reachable when this
  hub has a messaging connection of it, or another node holds its body lease. Every call of the database
  reads the database's clock and may fail; notifications are the list of results.
\<close>

section \<open>Who is reachable\<close>

definition hasMessagingClient :: "('a, 'b) Hub \<Rightarrow> client_ref list \<Rightarrow> bool" where
  "hasMessagingClient h cs \<longleftrightarrow> list_ex (\<lambda>c. wc_deviceConnector (hub_client h c) = None) cs"

definition IsOnline :: "uid \<Rightarrow> ('a, 'b) Hub \<Rightarrow> bool" where
  "IsOnline u h \<longleftrightarrow> hasMessagingClient h (hub_clients_of u h)"

definition botOnlineElsewhere :: "uid \<Rightarrow> go_time \<Rightarrow> ('a, 'b) Hub \<Rightarrow> bool" where
  "botOnlineElsewhere u now h \<longleftrightarrow>
     u > 0 \<and> (case lm_status u now (hub_bodyLeases h, hub_sharedRuntime h) of
       None \<Rightarrow> False
     | Some lease \<Rightarrow> bl_nodeID lease \<noteq> [] \<and> bl_nodeID lease \<noteq> hub_nodeID h)"

text \<open>The count in the database when it can be read, otherwise this hub's own.\<close>

definition botConnectionEpoch :: "bool \<Rightarrow> uid \<Rightarrow> ('a, 'b) Hub \<Rightarrow> task_db \<Rightarrow> nat" where
  "botConnectionEpoch readable u h db =
     (if readable \<and> u > 0 then bot_generation u db
      else case map_of (hub_botConnectionEpochs h) u of None \<Rightarrow> 0 | Some n \<Rightarrow> n)"

section \<open>Recovery\<close>

text \<open>The text in the source, as UTF-8.\<close>

definition lost_summary :: string where
  "lost_summary = map char_of [0xE6, 0x9C, 0xBA, 0xE5, 0x99, 0xA8, 0xE4, 0xBA, 0xBA, 0xE8, 0xBF, 0x9E, 0xE6, 0x8E,
     0xA5, 0xE4, 0xB8, 0xAD, 0xE6, 0x96, 0xAD, 0xEF, 0xBC, 0x8C, 0xE6, 0x89, 0xA7, 0xE8, 0xA1, 0x8C, 0xE7, 0xBB, 0x93,
     0xE6, 0x9E, 0x9C, 0xE5, 0xBE, 0x85, 0xE7, 0xA1, 0xAE, 0xE8, 0xAE, 0xA4 :: nat]"

definition recoveredTaskSourceStatus :: "ConversationTaskStatus \<Rightarrow> go_time \<Rightarrow> ConversationTaskStatus" where
  "recoveredTaskSourceStatus candidate recoveredAt =
     candidate\<lparr>ts_State := ''stale'', ts_Summary := lost_summary, ts_Error := ''bot disconnected before terminal task status'',
       ts_ExpiresAt := None, ts_UpdatedAt := recoveredAt,
       ts_EventUpdatedAt := (if ts_EventUpdatedAt candidate < recoveredAt then recoveredAt else ts_EventUpdatedAt candidate)\<rparr>"

text \<open>What surrounds the work on a candidate: this server's clock, the database's, and what fails.\<close>

record sweep_env =
  se_now :: "ConversationTaskStatus \<Rightarrow> go_time"
  se_clock :: "ConversationTaskStatus \<Rightarrow> go_time"
  se_works :: "ConversationTaskStatus \<Rightarrow> bool"
  se_readable :: "ConversationTaskStatus \<Rightarrow> bool"

record recovery_notice =
  rn_observed :: ConversationTaskStatus
  rn_published :: ConversationTaskStatus

definition recover_candidate ::
  "sweep_env \<Rightarrow> uid \<Rightarrow> go_time \<Rightarrow> nat \<Rightarrow> ConversationTaskStatus \<Rightarrow> task_db \<times> recovery_notice list \<Rightarrow>
   task_db \<times> recovery_notice list" where
  "recover_candidate env u cutoff generation c st =
     (case MarkStale taskLedger lost_summary (se_works env c) (se_clock env c) (ts_TopicID c) u (ts_RunID c) cutoff generation (fst st) of
        (db, Inr (Some recovered)) \<Rightarrow>
          (db, snd st @ [\<lparr>rn_observed = recoveredTaskSourceStatus c (se_now env c), rn_published = recovered\<rparr>])
      | (db, _) \<Rightarrow> (db, snd st))"

definition reachable :: "uid \<Rightarrow> go_time \<Rightarrow> ('a, 'b) Hub \<Rightarrow> bool" where
  "reachable u now h \<longleftrightarrow> IsOnline u h \<or> botOnlineElsewhere u now h"

definition recoverDisconnectedBotTasks ::
  "sweep_env \<Rightarrow> ('a, 'b) Hub \<Rightarrow> bool \<Rightarrow> go_time \<Rightarrow> uid \<Rightarrow> go_time \<Rightarrow> nat \<Rightarrow> task_db \<Rightarrow> task_db \<times> recovery_notice list" where
  "recoverDisconnectedBotTasks env h listed now u disconnectedAt generation db =
     (if reachable u now h \<or> \<not> listed then (db, [])
      else fold (recover_candidate env u disconnectedAt generation) (ActiveBefore now u disconnectedAt db) (db, []))"

text \<open>What the timer of a disconnection does when it fires.\<close>

definition recoverDisconnectedBotTasksIfSameGeneration ::
  "sweep_env \<Rightarrow> ('a, 'b) Hub \<Rightarrow> bool \<Rightarrow> bool \<Rightarrow> go_time \<Rightarrow> uid \<Rightarrow> go_time \<Rightarrow> nat \<Rightarrow> task_db \<Rightarrow> task_db \<times> recovery_notice list" where
  "recoverDisconnectedBotTasksIfSameGeneration env h readable listed now u disconnectedAt generation db =
     (if botConnectionEpoch readable u h db \<noteq> generation then (db, [])
      else recoverDisconnectedBotTasks env h listed now u disconnectedAt generation db)"

definition sweep_candidate ::
  "sweep_env \<Rightarrow> ('a, 'b) Hub \<Rightarrow> go_time \<Rightarrow> ConversationTaskStatus \<Rightarrow> task_db \<times> recovery_notice list \<Rightarrow>
   task_db \<times> recovery_notice list" where
  "sweep_candidate env h cutoff c st =
     (if ts_SourceUID c \<le> 0 \<or> reachable (ts_SourceUID c) (se_now env c) h then st
      else recover_candidate env (ts_SourceUID c) cutoff
             (botConnectionEpoch (se_readable env c) (ts_SourceUID c) h (fst st)) c st)"

definition recoverStaleDisconnectedBotTasks ::
  "sweep_env \<Rightarrow> ('a, 'b) Hub \<Rightarrow> bool \<Rightarrow> go_time \<Rightarrow> go_time \<Rightarrow> task_db \<Rightarrow> task_db \<times> recovery_notice list" where
  "recoverStaleDisconnectedBotTasks env h listed now cutoff db =
     (if \<not> listed then (db, []) else fold (sweep_candidate env h cutoff) (ActiveBefore now 0 cutoff db) (db, []))"

section \<open>What a sweep does to the runs\<close>

text \<open>On the map of runs, a sweep with a readable generation marks a candidate whenever it may.\<close>

definition may_recover :: "sweep_env \<Rightarrow> ('a, 'b) Hub \<Rightarrow> ConversationTaskStatus \<Rightarrow> bool" where
  "may_recover env h c \<longleftrightarrow> ts_SourceUID c > 0 \<and> \<not> reachable (ts_SourceUID c) (se_now env c) h \<and>
     ts_TopicID c \<noteq> [] \<and> ts_RunID c \<noteq> [] \<and> se_works env c"

definition spec_candidate :: "sweep_env \<Rightarrow> ('a, 'b) Hub \<Rightarrow> go_time \<Rightarrow> ConversationTaskStatus \<Rightarrow> run_map \<Rightarrow> run_map" where
  "spec_candidate env h cutoff c m =
     (case rm_runs m (run_key c) of
        None \<Rightarrow> m
      | Some s \<Rightarrow> if may_recover env h c \<and> silent cutoff s then set_run (lost_run lost_summary s (microseconds (se_clock env c))) m else m)"

lemma candidate_refined:
  assumes "in_sync db" and "se_readable env c"
  shows "in_sync (fst (sweep_candidate env h cutoff c (db, out))) \<and>
    runs_of (fst (sweep_candidate env h cutoff c (db, out))) = spec_candidate env h cutoff c (runs_of db)"
proof (cases "ts_SourceUID c \<le> 0 \<or> reachable (ts_SourceUID c) (se_now env c) h")
  case True
  with assms show ?thesis by (auto simp: sweep_candidate_def spec_candidate_def may_recover_def split: option.split)
next
  case False
  let ?g = "bot_generation (ts_SourceUID c) db"
  let ?m = "MarkStale taskLedger lost_summary (se_works env c) (se_clock env c) (ts_TopicID c) (ts_SourceUID c) (ts_RunID c) cutoff ?g db"
  have g: "botConnectionEpoch (se_readable env c) (ts_SourceUID c) h db = ?g" using False assms(2) by (simp add: botConnectionEpoch_def)
  have "fst (sweep_candidate env h cutoff c (db, out)) = fst ?m"
    using False by (auto simp: sweep_candidate_def recover_candidate_def g split: prod.split sum.split option.split)
  moreover have "spec_recover lost_summary (se_works env c) (se_clock env c) (ts_TopicID c) (ts_SourceUID c) (ts_RunID c) cutoff ?g (runs_of db) =
      spec_candidate env h cutoff c (runs_of db)"
    using False by (auto simp: spec_recover_def spec_candidate_def may_recover_def run_key_def runs_of_def split: option.split)
  ultimately show ?thesis
    using recovery_refined [OF assms(1), of lost_summary "se_works env c" "se_clock env c" "ts_TopicID c" "ts_SourceUID c" "ts_RunID c" cutoff ?g]
    by simp
qed

lemma candidates_refined:
  "in_sync (fst st) \<Longrightarrow> \<forall>c \<in> set cs. se_readable env c \<Longrightarrow>
   in_sync (fst (fold (sweep_candidate env h cutoff) cs st)) \<and>
   runs_of (fst (fold (sweep_candidate env h cutoff) cs st)) = fold (spec_candidate env h cutoff) cs (runs_of (fst st))"
proof (induction cs arbitrary: st)
  case (Cons c cs)
  from candidate_refined [of "fst st" env c h cutoff "snd st"] Cons.prems
  have "in_sync (fst (sweep_candidate env h cutoff c st)) \<and>
      runs_of (fst (sweep_candidate env h cutoff c st)) = spec_candidate env h cutoff c (runs_of (fst st))" by simp
  with Cons show ?case by simp
qed simp

lemma lost_not_silent: "\<not> silent cutoff (lost_run summary s now)"
  by (simp add: silent_def lost_run_def active_state_def)

lemma lost_key [simp]: "run_key (lost_run summary s now) = run_key s"
  by (simp add: lost_run_def run_key_def)

definition keyed :: "run_map \<Rightarrow> bool" where
  "keyed m \<longleftrightarrow> (\<forall>k s. rm_runs m k = Some s \<longrightarrow> run_key s = k)"

lemma keyed_runs_of: "keyed (runs_of db)"
  by (simp add: keyed_def runs_of_def find_key)

lemma spec_candidate_get:
  assumes "keyed m"
  shows "keyed (spec_candidate env h cutoff c m) \<and>
    rm_runs (spec_candidate env h cutoff c m) k =
      (case rm_runs m k of
         None \<Rightarrow> None
       | Some s \<Rightarrow> Some (if run_key c = k \<and> may_recover env h c \<and> silent cutoff s
           then lost_run lost_summary s (microseconds (se_clock env c)) else s))"
proof (cases "rm_runs m (run_key c)")
  case None
  then show ?thesis using assms by (auto simp: spec_candidate_def split: option.split)
next
  case (Some s)
  with assms have "run_key s = run_key c" unfolding keyed_def by blast
  with Some assms show ?thesis
    by (simp add: spec_candidate_def set_run_def keyed_def del: split_paired_All split: option.split)
qed

definition recovered_value ::
  "sweep_env \<Rightarrow> ('a, 'b) Hub \<Rightarrow> go_time \<Rightarrow> string \<times> uid \<times> string \<Rightarrow> ConversationTaskStatus \<Rightarrow> ConversationTaskStatus \<Rightarrow> ConversationTaskStatus" where
  "recovered_value env h cutoff k c s =
     (if run_key c = k \<and> may_recover env h c \<and> silent cutoff s then lost_run lost_summary s (microseconds (se_clock env c)) else s)"

lemma spec_candidates_value:
  "keyed m \<Longrightarrow> rm_runs (fold (spec_candidate env h cutoff) cs m) k = map_option (fold (recovered_value env h cutoff k) cs) (rm_runs m k)"
proof (induction cs arbitrary: m)
  case Nil
  then show ?case by (simp add: option.map_ident)
next
  case (Cons c cs)
  from spec_candidate_get [OF Cons.prems, of env h cutoff c k]
  have "keyed (spec_candidate env h cutoff c m)"
    and "rm_runs (spec_candidate env h cutoff c m) k = map_option (recovered_value env h cutoff k c) (rm_runs m k)"
    by (simp_all add: recovered_value_def split: option.split)
  with Cons.IH [of "spec_candidate env h cutoff c m"] show ?case by (simp add: option.map_comp o_def)
qed

lemma recovered_once: "\<not> silent cutoff s \<Longrightarrow> fold (recovered_value env h cutoff k) cs s = s"
  by (induction cs) (simp_all add: recovered_value_def)

lemma recovered_values:
  "if silent cutoff s \<and> (\<exists>c \<in> set cs. run_key c = k \<and> may_recover env h c)
   then \<exists>at. fold (recovered_value env h cutoff k) cs s = lost_run lost_summary s at
   else fold (recovered_value env h cutoff k) cs s = s"
proof (induction cs)
  case (Cons c cs)
  show ?case
  proof (cases "run_key c = k \<and> may_recover env h c \<and> silent cutoff s")
    case True
    then have "fold (recovered_value env h cutoff k) (c # cs) s = lost_run lost_summary s (microseconds (se_clock env c))"
      by (simp add: recovered_value_def recovered_once lost_not_silent)
    with True show ?thesis by auto
  next
    case False
    then have "recovered_value env h cutoff k c s = s" by (auto simp: recovered_value_def)
    moreover have "silent cutoff s \<and> (\<exists>x \<in> set (c # cs). run_key x = k \<and> may_recover env h x) \<longleftrightarrow>
        silent cutoff s \<and> (\<exists>x \<in> set cs. run_key x = k \<and> may_recover env h x)" using False by auto
    ultimately show ?thesis using Cons.IH by (simp only: fold_Cons o_apply)
  qed
qed simp

lemma active_before_runs:
  "in_sync db \<Longrightarrow> find_run k db = Some r \<Longrightarrow> silent cutoff r \<Longrightarrow> unexpired now r \<Longrightarrow> r \<in> set (ActiveBefore now 0 cutoff db)"
  using find_run_member [of db k r] by (auto simp: ActiveBefore_def silent_def in_sync_def)

lemma listed_is_run:
  assumes "in_sync db" and "c \<in> set (ActiveBefore now u cutoff db)"
  shows "find_run (run_key c) db = Some c \<and> silent cutoff c \<and> unexpired now c"
proof -
  have "c \<in> snd ` set (td_runs db) \<or> (c \<in> set (gm_values (td_sources db)) \<and> find_run (run_key c) db = None)"
    using assms(2) by (auto simp: ActiveBefore_def)
  then have "find_run (run_key c) db = Some c"
  proof
    assume "c \<in> snd ` set (td_runs db)"
    with assms(1) show ?thesis using find_run_member [of db "run_key c" c] by (simp add: in_sync_def)
  next
    assume c: "c \<in> set (gm_values (td_sources db)) \<and> find_run (run_key c) db = None"
    have "gm_ok (td_sources db)" using assms(1) by (simp add: in_sync_def)
    with c obtain k where "map_of (td_sources db) k = Some c" by (auto simp: gm_values_set)
    with assms(1) have "find_run (run_key c) db = Some c" unfolding in_sync_def by blast
    with c show ?thesis by simp
  qed
  with assms(2) show ?thesis by (simp add: ActiveBefore_def silent_def)
qed

lemma sweep_effect:
  assumes "\<forall>op \<in> set ops. own_op op" and "\<forall>c. se_readable env c"
    and "find_run k (fold ledger_step ops empty_db) = Some r"
  shows "let db' = fst (recoverStaleDisconnectedBotTasks env h True now cutoff (fold ledger_step ops empty_db)) in
    if silent cutoff r \<and> unexpired now r \<and> may_recover env h r
    then \<exists>at. find_run k db' = Some (lost_run lost_summary r at)
    else find_run k db' = Some r"
proof -
  let ?db = "fold ledger_step ops empty_db"
  let ?cs = "ActiveBefore now 0 cutoff ?db"
  have sync: "in_sync ?db" using steps_refined [OF assms(1)] empty_refined by blast
  have key: "run_key r = k" using assms(3) by (rule find_key)
  have listed: "c = r \<and> silent cutoff r \<and> unexpired now r" if "c \<in> set ?cs" "run_key c = k" for c
    using listed_is_run [OF sync that(1)] that(2) assms(3) by simp
  have "r \<in> set ?cs" if "silent cutoff r" "unexpired now r"
    by (rule active_before_runs [OF sync assms(3) that])
  with key have ex: "silent cutoff r \<and> (\<exists>c \<in> set ?cs. run_key c = k \<and> may_recover env h c) \<longleftrightarrow>
      silent cutoff r \<and> unexpired now r \<and> may_recover env h r" using listed by blast
  have "runs_of (fst (recoverStaleDisconnectedBotTasks env h True now cutoff ?db)) = fold (spec_candidate env h cutoff) ?cs (runs_of ?db)"
    using candidates_refined [of "(?db, [])" ?cs env h cutoff] sync assms(2) by (simp add: recoverStaleDisconnectedBotTasks_def)
  then have "rm_runs (runs_of (fst (recoverStaleDisconnectedBotTasks env h True now cutoff ?db))) k =
      map_option (fold (recovered_value env h cutoff k) ?cs) (rm_runs (runs_of ?db) k)"
    by (simp only: spec_candidates_value [OF keyed_runs_of])
  then have "find_run k (fst (recoverStaleDisconnectedBotTasks env h True now cutoff ?db)) = Some (fold (recovered_value env h cutoff k) ?cs r)"
    using assms(3) by (simp add: runs_of_def)
  with recovered_values [of cutoff r ?cs k env h] ex show ?thesis by (simp only: Let_def option.inject)
qed

text \<open>
  a run that went silent is recovered by the next sweep: when the sweep can list the runs and read the
  connection counts, a run with an id that is active, was not heard of since the cutoff, has not expired and
  whose bot is not reachable ends up stale, unless the database failed on it. Every other run in the ledger
  is left exactly as it was: runs of a reachable bot, runs heard of since, and finished ones.
\<close>

theorem silent_run_recovered:
  assumes "\<forall>op \<in> set ops. own_op op" and "\<forall>c. se_readable env c"
    and "find_run k (fold ledger_step ops empty_db) = Some r"
  shows "let db' = fst (recoverStaleDisconnectedBotTasks env h True now cutoff (fold ledger_step ops empty_db)) in
    if silent cutoff r \<and> unexpired now r \<and> may_recover env h r
    then \<exists>at. find_run k db' = Some (lost_run lost_summary r at)
    else find_run k db' = Some r"
  by (rule sweep_effect [OF assms])

text \<open>
  a run that was reported without an id is never recovered: while it is active and silent every sweep
  lists it, the ledger refuses to mark a run without an id and the run stays active, until it expires by
  itself.
\<close>

theorem anonymous_run_never_recovered:
  assumes "\<forall>op \<in> set ops. own_op op" and "\<forall>c. se_readable env c"
  defines "db \<equiv> fold ledger_step ops empty_db"
  assumes "find_run (t, u, []) db = Some r" and "silent cutoff r" and "unexpired now r"
  shows "r \<in> set (ActiveBefore now 0 cutoff db) \<and>
    snd (MarkStale taskLedger lost_summary works clock (ts_TopicID r) (ts_SourceUID r) (ts_RunID r) cutoff g db) = Inl TaskInvalid \<and>
    find_run (t, u, []) (fst (recoverStaleDisconnectedBotTasks env h True now cutoff db)) = Some r"
proof -
  have sync: "in_sync db" using steps_refined [OF assms(1)] empty_refined by (simp add: db_def)
  from assms(4) have run: "ts_RunID r = []" using find_key [of "(t, u, [])" db r] by (simp add: run_key_def)
  then have "\<not> may_recover env h r" by (simp add: may_recover_def)
  with sweep_effect [OF assms(1,2), of "(t, u, [])" r h now cutoff] assms(4)
  have "find_run (t, u, []) (fst (recoverStaleDisconnectedBotTasks env h True now cutoff db)) = Some r" by (simp add: db_def Let_def)
  with active_before_runs [OF sync assms(4-6)] run show ?thesis by (simp add: MarkStale_def)
qed

section \<open>A bot that was lost\<close>

text \<open>Bot 7 reported a run with an id and one without, and never came back.\<close>

definition sample_ops :: "ledger_op list" where
  "sample_ops = [LUpsert True 1000 (sample_status ''a'' ''running'' 1000), LUpsert True 2000 (sample_status [] ''running'' 2000)]"

definition sample_env :: sweep_env where
  "sample_env = \<lparr>se_now = (\<lambda>_. 9000), se_clock = (\<lambda>_. 9000), se_works = (\<lambda>_. True), se_readable = (\<lambda>_. True)\<rparr>"

definition empty_hub :: "(unit, unit) Hub" where
  "empty_hub = newHubWithState ''n1'' None None None None (\<lambda>_. []) [] (\<lambda>_. False) (\<lambda>_. no_client)"

lemma sample_ops_own: "\<forall>op \<in> set sample_ops. own_op op"
  by (simp add: sample_ops_def)

lemma sample_readable: "\<forall>c. se_readable sample_env c"
  by (simp add: sample_env_def)

lemma sample_runs:
  "map_option (\<lambda>r. (ts_State r, ts_UpdatedAt r, ts_ExpiresAt r, run_key r))
      (find_run (''grp_1'', 7, ''a'') (fold ledger_step sample_ops empty_db)) = Some (''running'', 1000, None, ''grp_1'', 7, ''a'')"
  "map_option (\<lambda>r. (ts_State r, ts_UpdatedAt r, ts_ExpiresAt r, run_key r))
      (find_run (''grp_1'', 7, []) (fold ledger_step sample_ops empty_db)) = Some (''running'', 2000, None, ''grp_1'', 7, [])"
  by code_simp+

lemma bot_lost: "\<not> reachable 7 now empty_hub"
  by (simp add: reachable_def IsOnline_def hasMessagingClient_def hub_clients_of_def botOnlineElsewhere_def hub_sharedRuntime_def
      empty_hub_def newHubWithState_def newUserDeviceRegistry_def connectorRuntime_def newBotBodyLeaseManager_def Let_def)

theorem silent_run_recovered_witness:
  "\<exists>r at. find_run (''grp_1'', 7, ''a'') (fold ledger_step sample_ops empty_db) = Some r \<and> ts_State r = ''running'' \<and>
     find_run (''grp_1'', 7, ''a'') (fst (recoverStaleDisconnectedBotTasks sample_env empty_hub True 9000 8000 (fold ledger_step sample_ops empty_db))) =
       Some (lost_run lost_summary r at)"
proof -
  from sample_runs(1) obtain r where r: "find_run (''grp_1'', 7, ''a'') (fold ledger_step sample_ops empty_db) = Some r"
    "ts_State r = ''running''" "ts_UpdatedAt r = 1000" "ts_ExpiresAt r = None" "run_key r = (''grp_1'', 7, ''a'')" by auto
  then have "silent 8000 r \<and> unexpired 9000 r \<and> may_recover sample_env empty_hub r"
    using bot_lost by (simp add: silent_def active_state_def unexpired_def may_recover_def run_key_def sample_env_def)
  with silent_run_recovered [OF sample_ops_own sample_readable r(1), of empty_hub 9000 8000] r show ?thesis
    by (simp add: Let_def)
qed

theorem anonymous_run_never_recovered_witness:
  "\<exists>r. find_run (''grp_1'', 7, []) (fold ledger_step sample_ops empty_db) = Some r \<and>
     find_run (''grp_1'', 7, []) (fst (recoverStaleDisconnectedBotTasks sample_env empty_hub True 9000 8000 (fold ledger_step sample_ops empty_db))) = Some r"
proof -
  from sample_runs(2) obtain r where r: "find_run (''grp_1'', 7, []) (fold ledger_step sample_ops empty_db) = Some r"
    "ts_State r = ''running''" "ts_UpdatedAt r = 2000" "ts_ExpiresAt r = None" by auto
  then have "silent 8000 r" "unexpired 9000 r" by (simp_all add: silent_def active_state_def unexpired_def)
  from anonymous_run_never_recovered [OF sample_ops_own sample_readable r(1) this] r show ?thesis by blast
qed

end
