(* ===== verification/Topics.thy ===== *)
theory Topics
  imports GoStrings
begin

text \<open>
  Texts counted in code points (\<open>truncateUTF8\<close> of \<open>server/conversation_task_status.go\<close>), the ids of
  topics (\<open>server/wshandler.go\<close>, \<open>server/friends.go\<close>) and structured mentions (\<open>server/messages.go\<close>).
\<close>

section \<open>Code points\<close>

text \<open>
  The width in bytes of the code point a string starts with, 0 when it does not start with a valid one. Go
  reads an invalid byte as U+FFFD.
\<close>

definition continues :: "nat \<Rightarrow> nat \<Rightarrow> nat \<Rightarrow> bool" where
  "continues lo hi b \<longleftrightarrow> lo \<le> b \<and> b \<le> hi"

definition second_byte :: "nat \<Rightarrow> nat \<Rightarrow> bool" where
  "second_byte b0 = continues (if b0 = 0xE0 then 0xA0 else if b0 = 0xF0 then 0x90 else 0x80)
     (if b0 = 0xED then 0x9F else if b0 = 0xF4 then 0x8F else 0xBF)"

definition rune_size :: "nat \<Rightarrow> nat" where
  "rune_size b0 =
     (if b0 < 0x80 then 1 else if 0xC2 \<le> b0 \<and> b0 \<le> 0xDF then 2 else if 0xE0 \<le> b0 \<and> b0 \<le> 0xEF then 3
      else if 0xF0 \<le> b0 \<and> b0 \<le> 0xF4 then 4 else 0)"

fun bytes_follow :: "nat \<Rightarrow> nat \<Rightarrow> string \<Rightarrow> bool" where
  "bytes_follow b0 (Suc 0) s = True"
| "bytes_follow b0 n [] = False"
| "bytes_follow b0 0 s = False"
| "bytes_follow b0 (Suc n) (c # s) \<longleftrightarrow> second_byte b0 (of_char c) \<and> bytes_follow 0x80 n s"

definition rune_width :: "string \<Rightarrow> nat" where
  "rune_width s =
     (case s of [] \<Rightarrow> 0
      | c # s \<Rightarrow> if bytes_follow (of_char c) (rune_size (of_char c)) s then rune_size (of_char c) else 0)"

definition replacement_rune :: string where
  "replacement_rune = [CHR 0xEF, CHR 0xBF, CHR 0xBD]"

text \<open>\<open>[]rune(s)\<close>, each code point as its encoding.\<close>

function go_runes :: "string \<Rightarrow> string list" where
  "go_runes s =
     (if s = [] then []
      else if rune_width s = 0 then replacement_rune # go_runes (tl s)
      else take (rune_width s) s # go_runes (drop (rune_width s) s))"
  by auto
termination by (relation "measure length") (auto simp: less_Suc_eq_le)

declare go_runes.simps [simp del]

definition truncateUTF8 :: "string \<Rightarrow> int \<Rightarrow> string" where
  "truncateUTF8 value maxRunes =
     (if maxRunes \<le> 0 \<or> value = [] \<or> int (length (go_runes value)) \<le> maxRunes then value
      else concat (take (nat maxRunes) (go_runes value)))"

definition stripMessageNullBytes :: "string \<Rightarrow> string" where
  "stripMessageNullBytes value = filter (\<lambda>c. c \<noteq> CHR 0x00) value"

lemma rune_size_cases: "rune_size b = 0 \<or> rune_size b = 1 \<or> rune_size b = 2 \<or> rune_size b = 3 \<or> rune_size b = 4"
  by (simp add: rune_size_def)

lemma bytes_follow_0 [simp]: "bytes_follow b 0 s = False"
  by (cases s) simp_all

lemma bytes_follow_length: "bytes_follow b n s \<Longrightarrow> n \<le> Suc (length s)"
  by (induction b n s rule: bytes_follow.induct) auto

lemma rune_width_length: "rune_width s \<le> length s"
  using bytes_follow_length by (auto simp: rune_width_def split: list.split)

lemma bytes_follow_more: "bytes_follow b n s \<Longrightarrow> bytes_follow b n (take (n - 1) s @ t)"
  by (induction b n s rule: bytes_follow.induct) (auto simp: neq_Nil_conv split: if_splits)

lemma rune_width_take:
  assumes "rune_width s \<noteq> 0"
  shows "rune_width (take (rune_width s) s @ t) = rune_width s"
proof (cases s)
  case (Cons c s')
  with assms have f: "bytes_follow (of_char c) (rune_size (of_char c)) s'" and w: "rune_width s = rune_size (of_char c)"
    by (auto simp: rune_width_def split: if_splits)
  with assms obtain n where n: "rune_size (of_char c) = Suc n" by (cases "rune_size (of_char c)") simp_all
  have "rune_width (c # take n s' @ t) = Suc n"
    using bytes_follow_more [OF f, of t] by (simp add: rune_width_def n)
  moreover have "rune_width (c # s') = Suc n" using w n Cons by simp
  ultimately show ?thesis by (simp only: Cons take_Suc_Cons append_Cons)
qed (use assms in \<open>simp add: rune_width_def\<close>)

lemma rune_width_replacement: "rune_width (CHR 0xEF # CHR 0xBF # CHR 0xBD # t) = 3"
proof -
  have "rune_size (of_char (CHR 0xEF)) = Suc (Suc (Suc 0))" by (simp add: rune_size_def)
  moreover have "bytes_follow (of_char (CHR 0xEF)) (Suc (Suc (Suc 0))) (CHR 0xBF # CHR 0xBD # t)"
    by (simp add: second_byte_def continues_def)
  ultimately show ?thesis by (simp only: rune_width_def list.case if_True numeral_3_eq_3)
qed

lemma go_runes_replacement: "go_runes (replacement_rune @ t) = replacement_rune # go_runes t"
proof -
  let ?s = "CHR 0xEF # CHR 0xBF # CHR 0xBD # t"
  have "go_runes ?s = take (rune_width ?s) ?s # go_runes (drop (rune_width ?s) ?s)"
    by (subst go_runes.simps) (simp only: rune_width_replacement list.distinct if_False, simp)
  then show ?thesis by (simp only: rune_width_replacement) (simp add: replacement_rune_def)
qed

lemma go_runes_concat: "go_runes (concat (take n (go_runes s))) = take n (go_runes s)"
proof (induction s arbitrary: n rule: go_runes.induct)
  case (1 s)
  show ?case
  proof (cases n)
    case 0
    then show ?thesis by (simp add: go_runes.simps)
  next
    case (Suc m)
    consider "s = []" | "s \<noteq> []" "rune_width s = 0" | "s \<noteq> []" "rune_width s \<noteq> 0" by blast
    then show ?thesis
    proof cases
      case 1
      then show ?thesis by (simp add: go_runes.simps)
    next
      case 2
      have "go_runes s = replacement_rune # go_runes (tl s)" using 2 by (subst go_runes.simps) simp
      with 1(1) [OF 2, of m] Suc show ?thesis by (simp add: go_runes_replacement)
    next
      case 3
      let ?w = "rune_width s"
      have s: "go_runes s = take ?w s # go_runes (drop ?w s)" using 3 by (subst go_runes.simps) simp
      have len: "length (take ?w s) = ?w" using rune_width_length [of s] by simp
      have "go_runes (take ?w s @ t) = take ?w s # go_runes t" for t
        using rune_width_take [OF 3(2), of t] 3(2) len by (subst go_runes.simps) auto
      with s 1(2) [OF 3, of m] Suc show ?thesis by simp
    qed
  qed
qed

lemma truncateUTF8_bound: "0 < n \<Longrightarrow> int (length (go_runes (truncateUTF8 s n))) \<le> n"
  by (auto simp: truncateUTF8_def go_runes_concat go_runes.simps [of "[]"] min_def)

lemma truncateUTF8_twice: "0 < n \<Longrightarrow> truncateUTF8 (truncateUTF8 s n) n = truncateUTF8 s n"
  using truncateUTF8_bound [of n s] by (subst truncateUTF8_def) simp

section \<open>Topics\<close>

definition isGroupTopic :: "string \<Rightarrow> bool" where
  "isGroupTopic topic \<longleftrightarrow> length topic > 4 \<and> take 4 topic = ''grp_''"

definition extractGroupID :: "string \<Rightarrow> int" where
  "extractGroupID topic = (if \<not> isGroupTopic topic then 0 else parseInt64 (drop 4 topic))"

definition groupTopicID :: "int \<Rightarrow> string" where
  "groupTopicID groupID = (if groupID \<le> 0 then [] else ''grp_'' @ formatInt groupID)"

definition topicTypeForID :: "string \<Rightarrow> string" where
  "topicTypeForID topicID = (if isGroupTopic topicID then ''group'' else ''p2p'')"

definition p2pTopicID :: "uid \<Rightarrow> uid \<Rightarrow> string" where
  "p2pTopicID uid1 uid2 = ''p2p_'' @ formatInt (min uid1 uid2) @ ''_'' @ formatInt (max uid1 uid2)"

definition extractPeerUID :: "string \<Rightarrow> uid \<Rightarrow> uid" where
  "extractPeerUID topic selfUID =
     (if length topic < 5 \<or> take 4 topic \<noteq> ''p2p_'' then 0
      else let rest = drop 4 topic; first = takeWhile (\<lambda>c. c \<noteq> CHR ''_'') rest; after = drop (length first) rest
           in if after = [] then 0
              else let uid1 = parseInt64 first; uid2 = parseInt64 (tl after)
                   in if uid1 = selfUID then uid2 else if uid2 = selfUID then uid1 else 0)"

lemma parse_formatInt: "0 \<le> n \<Longrightarrow> n < 9223372036854775808 \<Longrightarrow> parseInt64 (formatInt n) = n"
  by (simp add: parseInt64_def formatInt_def parse_nat_digits)

lemma formatInt_neq_Nil [simp]: "formatInt n \<noteq> []"
  by (simp add: formatInt_def)

lemma formatInt_no_separator: "0 \<le> n \<Longrightarrow> c \<in> set (formatInt n) \<Longrightarrow> c \<noteq> CHR ''_''"
  using nat_digits_all [of c "nat n"] by (auto simp: formatInt_def is_digit_def)

lemma peer_parts:
  assumes "0 \<le> a" "a < 9223372036854775808" "0 \<le> b" "b < 9223372036854775808"
  shows "extractPeerUID (''p2p_'' @ formatInt a @ ''_'' @ formatInt b) u = (if a = u then b else if b = u then a else 0)"
proof -
  have "takeWhile (\<lambda>c. c \<noteq> CHR ''_'') (formatInt a @ CHR ''_'' # formatInt b) = formatInt a"
    using formatInt_no_separator [OF assms(1)] by (subst takeWhile_append2) auto
  moreover have "length (formatInt a) \<noteq> 0" by simp
  ultimately show ?thesis
    using assms by (simp add: extractPeerUID_def Let_def parse_formatInt del: length_0_conv)
qed

text \<open>
  a topic's id says who is in it: each side of a one-to-one topic finds the other, nobody else finds
  anyone, and the topic is the same whichever side names it; a group's topic gives the group. No id is of both
  kinds.
\<close>

theorem topic_ids_identify:
  assumes "0 < u" "u < 9223372036854775808" "0 < v" "v < 9223372036854775808" "0 < g" "g < 9223372036854775808"
  shows "extractPeerUID (p2pTopicID u v) u = v \<and> extractPeerUID (p2pTopicID u v) v = u \<and>
    (w \<noteq> u \<longrightarrow> w \<noteq> v \<longrightarrow> extractPeerUID (p2pTopicID u v) w = 0) \<and> p2pTopicID u v = p2pTopicID v u \<and>
    extractGroupID (p2pTopicID u v) = 0 \<and>
    isGroupTopic (groupTopicID g) \<and> extractGroupID (groupTopicID g) = g \<and> extractPeerUID (groupTopicID g) w = 0"
proof -
  have "extractPeerUID (p2pTopicID u v) x = (if min u v = x then max u v else if max u v = x then min u v else 0)" for x
    using assms unfolding p2pTopicID_def by (intro peer_parts) auto
  moreover have "extractGroupID (p2pTopicID u v) = 0"
    by (simp add: extractGroupID_def isGroupTopic_def p2pTopicID_def)
  moreover have "isGroupTopic (groupTopicID g) \<and> extractGroupID (groupTopicID g) = g \<and> extractPeerUID (groupTopicID g) w = 0"
    using assms by (simp add: extractGroupID_def isGroupTopic_def groupTopicID_def extractPeerUID_def parse_formatInt)
  ultimately show ?thesis by (auto simp: p2pTopicID_def min.commute max.commute min_def max_def)
qed

theorem topic_ids_identify_witness:
  "extractPeerUID (p2pTopicID 12 7) 12 = 7 \<and> extractPeerUID (p2pTopicID 12 7) 8 = 0 \<and> extractGroupID (groupTopicID 41) = 41"
proof -
  have "0 < (12::uid)" "(12::uid) < 9223372036854775808" "0 < (7::uid)" "(7::uid) < 9223372036854775808"
    "0 < (41::int)" "(41::int) < 9223372036854775808" "(8::uid) \<noteq> 12" "(8::uid) \<noteq> 7" by simp_all
  with topic_ids_identify [of 12 7 41 8] show ?thesis by blast
qed

section \<open>Mentions\<close>

definition structuredMentionAllBots :: string where
  "structuredMentionAllBots = ''all''"

definition isCanonicalMentionTarget :: "string \<Rightarrow> bool" where
  "isCanonicalMentionTarget value \<longleftrightarrow> value = structuredMentionAllBots \<or>
     (hasPrefix value ''usr'' \<and> length value \<noteq> length ''usr'' \<and> list_all is_digit (drop (length ''usr'') value))"

fun keep_new :: "string set \<Rightarrow> string list \<Rightarrow> string list" where
  "keep_new seen [] = []"
| "keep_new seen (x # xs) =
     (if \<not> isCanonicalMentionTarget x \<or> x \<in> seen then keep_new seen xs else x # keep_new (insert x seen) xs)"

definition normalizeStructuredMentions :: "string list \<Rightarrow> string list" where
  "normalizeStructuredMentions values = keep_new {} (map (\<lambda>v. trimSpace (stripMessageNullBytes v)) values)"

end
