(* ===== verification/Messages.thy ===== *)
theory Messages
  imports Topics Hub "HOL-Library.List_Lexorder" "HOL-Library.Char_ord"
begin

text \<open>
  Messages as the hub reads them (\<open>server/messages.go\<close>, \<open>server/message_visibility.go\<close>): the text of a
  content, the values of metadata, and which messages are conversation. A JSON number is a whole number here.
\<close>

section \<open>JSON text\<close>

definition hex_digit :: "nat \<Rightarrow> char" where
  "hex_digit n = (if n < 10 then char_of (48 + n) else char_of (87 + n))"

definition escape_unit :: "nat \<Rightarrow> string" where
  "escape_unit n = CHR 0x5C # ''u'' @ map hex_digit [n div 4096, n div 256 mod 16, n div 16 mod 16, n mod 16]"

text \<open>\<open>encoding/json\<close> escapes quotes, control characters, HTML characters and the two line separators.\<close>

definition escape_rune :: "string \<Rightarrow> string" where
  "escape_rune r =
     (if r = [CHR 0x22] \<or> r = [CHR 0x5C] then CHR 0x5C # r
      else if r = [CHR 0x08] then CHR 0x5C # ''b'' else if r = [CHR 0x0C] then CHR 0x5C # ''f''
      else if r = [CHR 0x0A] then CHR 0x5C # ''n'' else if r = [CHR 0x0D] then CHR 0x5C # ''r''
      else if r = [CHR 0x09] then CHR 0x5C # ''t''
      else if length r = 1 \<and> ((of_char (hd r) :: nat) < 0x20 \<or> hd r \<in> {CHR ''<'', CHR ''>'', CHR ''&''}) then escape_unit (of_char (hd r))
      else if r = [CHR 0xE2, CHR 0x80, CHR 0xA8] then escape_unit 0x2028
      else if r = [CHR 0xE2, CHR 0x80, CHR 0xA9] then escape_unit 0x2029
      else r)"

function marshal_text :: "string \<Rightarrow> string" where
  "marshal_text s =
     (if s = [] then []
      else if rune_width s = 0 then escape_unit 0xFFFD @ marshal_text (tl s)
      else escape_rune (take (rune_width s) s) @ marshal_text (drop (rune_width s) s))"
  by auto
termination by (relation "measure length") (auto simp: less_Suc_eq_le)

declare marshal_text.simps [simp del]

definition marshal_string :: "string \<Rightarrow> string" where
  "marshal_string s = CHR 0x22 # marshal_text s @ [CHR 0x22]"

fun separated :: "string list \<Rightarrow> string" where
  "separated [] = []"
| "separated [x] = x"
| "separated (x # xs) = x @ '','' @ separated xs"

text \<open>A map has each key once; its keys are written in order.\<close>

fun go_marshal :: "json \<Rightarrow> string" where
  "go_marshal JNull = ''null''"
| "go_marshal (JBool b) = (if b then ''true'' else ''false'')"
| "go_marshal (JNum n) = formatInt n"
| "go_marshal (JStr s) = marshal_string s"
| "go_marshal (JArr xs) = ''['' @ separated (map go_marshal xs) @ '']''"
| "go_marshal (JObj kvs) =
     ''{'' @ separated (map (\<lambda>kv. marshal_string (fst kv) @ '':'' @ snd kv) (sort_key fst (map (\<lambda>kv. (fst kv, go_marshal (snd kv))) kvs))) @ ''}''"

definition normalizeContentText :: "json \<Rightarrow> string" where
  "normalizeContentText content =
     stripMessageNullBytes
       (case content of
          JStr value \<Rightarrow> value
        | JObj value \<Rightarrow> (case map_of value ''text'' of Some (JStr text) \<Rightarrow> text | _ \<Rightarrow> go_marshal content)
        | _ \<Rightarrow> go_marshal content)"

section \<open>Metadata\<close>

definition metadata_string :: "metadata \<Rightarrow> string \<Rightarrow> string" where
  "metadata_string m k = (case map_of m k of Some (JStr v) \<Rightarrow> trimSpace v | _ \<Rightarrow> [])"

definition firstMetadataString :: "metadata \<Rightarrow> string list \<Rightarrow> string" where
  "firstMetadataString m ks = (case List.find (\<lambda>v. v \<noteq> []) (map (metadata_string m) ks) of None \<Rightarrow> [] | Some v \<Rightarrow> v)"

text \<open>\<open>strconv.ParseInt(s, 10, 64)\<close>: nothing for an error.\<close>

definition unsigned_value :: "string \<Rightarrow> int option" where
  "unsigned_value s = (if s = [] \<or> \<not> list_all is_digit s then None else Some (fold (\<lambda>c n. n * 10 + digit_value c) s 0))"

definition go_ParseInt :: "string \<Rightarrow> int option" where
  "go_ParseInt s =
     (let negative = (s \<noteq> [] \<and> hd s = CHR ''-''); digits = (if negative \<or> s \<noteq> [] \<and> hd s = CHR ''+'' then tl s else s)
      in case unsigned_value digits of
           None \<Rightarrow> None
         | Some n \<Rightarrow>
             let v = (if negative then - n else n)
             in if v < - 9223372036854775808 \<or> v > 9223372036854775807 then None else Some v)"

definition metadata_int :: "metadata \<Rightarrow> string \<Rightarrow> int" where
  "metadata_int m k =
     (case map_of m k of
        Some (JNum n) \<Rightarrow> (if n > 0 then n else 0)
      | Some (JStr v) \<Rightarrow> (case go_ParseInt (trimSpace v) of Some n \<Rightarrow> if n > 0 then n else 0 | None \<Rightarrow> 0)
      | _ \<Rightarrow> 0)"

definition firstMetadataInt64 :: "metadata \<Rightarrow> string list \<Rightarrow> int" where
  "firstMetadataInt64 m ks = (case List.find (\<lambda>n. n > 0) (map (metadata_int m) ks) of None \<Rightarrow> 0 | Some n \<Rightarrow> n)"

section \<open>Which messages are conversation\<close>

definition block_kind :: "string \<Rightarrow> string" where
  "block_kind t = toLower (trimSpace t)"

definition isUserVisibleMessageType :: "string \<Rightarrow> bool" where
  "isUserVisibleMessageType t \<longleftrightarrow> block_kind t \<in> {''text'', ''image'', ''voice'', ''file'', ''video''}"

definition isDurableAgentContextDisplayType :: "string \<Rightarrow> bool" where
  "isDurableAgentContextDisplayType t \<longleftrightarrow> block_kind t \<in> {''text'', ''image'', ''voice'', ''file''}"

definition isInternalAgentContentBlock :: "string \<Rightarrow> bool" where
  "isInternalAgentContentBlock t \<longleftrightarrow> block_kind t \<in> {''runtime_plan'', ''thinking'', ''tool_use'', ''tool_result'', ''debug''}"

text \<open>The two prefixes of agent text, with an ASCII and a full-width colon, as UTF-8.\<close>

definition agent_text_prefixes :: "string list" where
  "agent_text_prefixes =
     [''AI'' @ [CHR 0xE6, CHR 0x96, CHR 0x87, CHR 0xE6, CHR 0x9C, CHR 0xAC] @ '':'',
      ''AI'' @ [CHR 0xE6, CHR 0x96, CHR 0x87, CHR 0xE6, CHR 0x9C, CHR 0xAC, CHR 0xEF, CHR 0xBC, CHR 0x9A]]"

definition isInternalAgentWorkingMessage :: "string \<Rightarrow> json \<Rightarrow> string list \<Rightarrow> bool" where
  "isInternalAgentWorkingMessage displayType content blocks \<longleftrightarrow>
     block_kind displayType \<in> {''runtime_plan'', ''thinking'', ''tool_use'', ''tool_result'', ''debug'', ''stream_delta'',
       ''stream_cancel'', ''task_status''} \<or>
     list_ex (hasPrefix (trimSpace (normalizeContentText content))) agent_text_prefixes \<or>
     (list_ex isInternalAgentContentBlock blocks \<and>
      \<not> list_ex (\<lambda>t. \<not> isInternalAgentContentBlock t \<and>
           block_kind t \<in> {''text'', ''assistant_text'', ''image'', ''voice'', ''file'', ''video''}) blocks)"

definition display_type :: "MsgServerData \<Rightarrow> string" where
  "display_type d = toLower (trimSpace (firstNonEmpty [sd_Type d, sd_MsgType d]))"

definition isJudgeableActivationMessage :: "MsgServerData option \<Rightarrow> bool" where
  "isJudgeableActivationMessage msg \<longleftrightarrow>
     (case msg of
        None \<Rightarrow> False
      | Some d \<Rightarrow> isDurableAgentContextDisplayType (display_type d) \<and>
          \<not> isInternalAgentWorkingMessage (display_type d) (sd_Content d) (sd_BlockTypes d))"

definition shouldNotifyOfflineForMessage :: "bool \<Rightarrow> MsgServerData option \<Rightarrow> bool" where
  "shouldNotifyOfflineForMessage suppressPushNotification msg \<longleftrightarrow>
     (case msg of
        None \<Rightarrow> False
      | Some d \<Rightarrow> sd_SeqID d > 0 \<and> \<not> suppressPushNotification \<and> isUserVisibleMessageType (display_type d) \<and>
          \<not> isInternalAgentWorkingMessage (display_type d) (sd_Content d) (sd_BlockTypes d))"

definition isGroupAgentTurnRequest :: "MsgServerData option \<Rightarrow> bool" where
  "isGroupAgentTurnRequest msg \<longleftrightarrow>
     (case msg of
        None \<Rightarrow> False
      | Some d \<Rightarrow> sd_SeqID d > 0 \<and> trimSpace (firstNonEmpty [sd_Type d, sd_MsgType d]) = ''text'' \<and>
          trimSpace (normalizeContentText (sd_Content d)) \<noteq> [])"

end
