(* ===== verification/GroupActivation.thy ===== *)
theory GroupActivation
  imports Messages Complex_Main
begin

text \<open>
  Which bots of a group a message wakes (\<open>server/group_activation.go\<close>, \<open>server/group_activation_prompt.go\<close>
  and the rules without a judge in \<open>server/wshandler.go\<close>). The judge is an argument: given the questions it
  answers some of them with a score, or fails. Scores are rationals. The lists of members hold no nil entries.
\<close>

section \<open>Requests and decisions\<close>

record GroupMember =
  me_UserID :: uid
  me_Muted :: bool
  me_Username :: string
  me_DisplayName :: string
  me_IsBot :: bool

record GroupActivationTurn =
  tu_Speaker :: string
  tu_IsBot :: bool
  tu_Text :: string

record GroupJudgeContext =
  jc_GroupName :: string
  jc_RecentTurns :: "GroupActivationTurn list"

text \<open>The two loaders are the values they would give; none when the caller set no loader.\<close>

record GroupActivationRequest =
  aq_SenderUID :: uid
  aq_Members :: "GroupMember list"
  aq_Mentions :: "string list"
  aq_TrustedChannelTrigger :: bool
  aq_NotConversation :: bool
  aq_MutedUIDs :: "uid list"
  aq_WorkingUIDs :: "uid list option"
  aq_DefaultAgentUID :: uid
  aq_JudgeContext :: "GroupJudgeContext option"

record GroupActivationBot =
  ab_UID :: uid
  ab_DisplayName :: string

type_synonym score = rat

record GroupActivationDecision =
  ad_Activated :: "(uid, score) gomap"
  ad_Scores :: "(uid, score) gomap"
  ad_Source :: string
  ad_Degraded :: bool

definition no_activation :: "string \<Rightarrow> GroupActivationDecision" where
  "no_activation source = \<lparr>ad_Activated = [], ad_Scores = [], ad_Source = source, ad_Degraded = False\<rparr>"

definition activate :: "(uid, score) gomap \<Rightarrow> string \<Rightarrow> GroupActivationDecision" where
  "activate scores source = \<lparr>ad_Activated = scores, ad_Scores = [], ad_Source = source, ad_Degraded = False\<rparr>"

definition judging_degraded :: GroupActivationDecision where
  "judging_degraded = \<lparr>ad_Activated = [], ad_Scores = [], ad_Source = ''jev_unavailable'', ad_Degraded = True\<rparr>"

section \<open>Candidates\<close>

definition activationMemberName :: "GroupMember \<Rightarrow> string" where
  "activationMemberName m = (let name = trimSpace (me_DisplayName m) in if name \<noteq> [] then name else trimSpace (me_Username m))"

definition activationBotName :: "GroupActivationBot \<Rightarrow> string" where
  "activationBotName b = (let name = trimSpace (ab_DisplayName b) in if name \<noteq> [] then name else formatUID (ab_UID b))"

definition activationBots :: "GroupMember list \<Rightarrow> GroupActivationBot list" where
  "activationBots members =
     map (\<lambda>m. \<lparr>ab_UID = me_UserID m, ab_DisplayName = activationMemberName m\<rparr>) (filter me_IsBot members)"

definition activationExcludingSender :: "GroupActivationBot list \<Rightarrow> uid \<Rightarrow> GroupActivationBot list" where
  "activationExcludingSender bots senderUID = (if senderUID \<le> 0 then bots else filter (\<lambda>b. ab_UID b \<noteq> senderUID) bots)"

definition activationUIDSet :: "uid list \<Rightarrow> uid list" where
  "activationUIDSet uids = filter (\<lambda>u. u > 0) uids"

definition activationWorkingUIDSet :: "GroupActivationRequest \<Rightarrow> uid list" where
  "activationWorkingUIDSet req = (case aq_WorkingUIDs req of None \<Rightarrow> [] | Some uids \<Rightarrow> activationUIDSet uids)"

definition activationExcludingUIDs :: "GroupActivationBot list \<Rightarrow> uid list \<Rightarrow> GroupActivationBot list" where
  "activationExcludingUIDs bots excluded = filter (\<lambda>b. ab_UID b \<notin> set excluded) bots"

definition activationExcludingScores :: "(uid, score) gomap \<Rightarrow> uid list \<Rightarrow> (uid, score) gomap" where
  "activationExcludingScores selected excluded = filter (\<lambda>kv. fst kv \<notin> set excluded) selected"

definition activationAll :: "GroupActivationBot list \<Rightarrow> (uid, score) gomap" where
  "activationAll bots = fold (\<lambda>b. gm_put (ab_UID b) 1) bots []"

definition activationMentionedBots :: "GroupActivationBot list \<Rightarrow> string list \<Rightarrow> (uid, score) gomap" where
  "activationMentionedBots bots mentions =
     fold (\<lambda>mention. fold (\<lambda>b. gm_put (ab_UID b) 1) (filter (\<lambda>b. formatUID (ab_UID b) = mention) bots))
       (filter (\<lambda>m. m \<noteq> []) (map trimSpace mentions)) []"

definition activationMentionAll :: "string list \<Rightarrow> bool" where
  "activationMentionAll mentions = list_ex (\<lambda>m. trimSpace m = structuredMentionAllBots) mentions"

definition reachable_or_nobody :: "(uid, score) gomap \<Rightarrow> string \<Rightarrow> GroupActivationDecision" where
  "reachable_or_nobody reachable source = (if reachable = [] then no_activation ''no_candidate'' else activate reachable source)"

section \<open>Questions for the judge\<close>

record ActivationPrompt =
  ap_Instructions :: string
  ap_CriteriaTrue :: string
  ap_CriteriaFalse :: string

record promptFileOverride =
  po_Instructions :: "string option"
  po_CriteriaTrue :: "string option"
  po_CriteriaFalse :: "string option"

definition defaultActivationPrompt :: ActivationPrompt where
  "defaultActivationPrompt =
     \<lparr>ap_Instructions = ''Should {name} reply to the latest message?'',
      ap_CriteriaTrue = ''Yes: the message is something {name} would naturally respond to '' @ [CHR 0xE2, CHR 0x80, CHR 0x94] @
        '' it names {name}, continues work {name} is doing, assigns the current step to {name}, or is a request that nobody has '' @
        ''taken yet and {name} is able to handle.'',
      ap_CriteriaFalse = ''No: the message is aimed at another member, {name}'' @ [CHR 0x27] @ ''s part comes later, or '' @
        ''{name} has nothing to add.''\<rparr>"

definition override_field :: "string option \<Rightarrow> string \<Rightarrow> string" where
  "override_field new old = (case new of None \<Rightarrow> old | Some v \<Rightarrow> let value = trimSpace v in if value \<noteq> [] then value else old)"

definition applyPromptOverride :: "ActivationPrompt \<Rightarrow> promptFileOverride \<Rightarrow> ActivationPrompt" where
  "applyPromptOverride p ov =
     \<lparr>ap_Instructions = override_field (po_Instructions ov) (ap_Instructions p),
      ap_CriteriaTrue = override_field (po_CriteriaTrue ov) (ap_CriteriaTrue p),
      ap_CriteriaFalse = override_field (po_CriteriaFalse ov) (ap_CriteriaFalse p)\<rparr>"

record promptCache =
  pc_path :: string
  pc_loadedAt :: go_time
  pc_prompt :: ActivationPrompt

text \<open>\<open>file\<close> is what the file at the path holds, if it can be read and parsed.\<close>

definition loadActivationPrompt ::
  "string \<Rightarrow> promptFileOverride option \<Rightarrow> go_time \<Rightarrow> promptCache \<Rightarrow> promptCache \<times> ActivationPrompt" where
  "loadActivationPrompt env file now cache =
     (let path = trimSpace env
      in if path = [] then (cache, defaultActivationPrompt)
         else if pc_path cache = path \<and> now - pc_loadedAt cache < go_second then (cache, pc_prompt cache)
         else let prompt = (case file of None \<Rightarrow> defaultActivationPrompt | Some ov \<Rightarrow> applyPromptOverride defaultActivationPrompt ov)
              in (\<lparr>pc_path = path, pc_loadedAt = now, pc_prompt = prompt\<rparr>, prompt))"

text \<open>\<open>strings.ReplaceAll\<close> for a non-empty pattern.\<close>

function replaceAll :: "string \<Rightarrow> string \<Rightarrow> string \<Rightarrow> string" where
  "replaceAll s old new =
     (if s = [] \<or> old = [] then s
      else if hasPrefix s old then new @ replaceAll (drop (length old) s) old new
      else hd s # replaceAll (tl s) old new)"
  by auto
termination by (relation "measure (\<lambda>(s, old, new). length s)") auto

definition renderActivationPrompt :: "string \<Rightarrow> string \<Rightarrow> string" where
  "renderActivationPrompt template name = replaceAll template ''{name}'' name"

record JevQuestion =
  jq_Instructions :: string
  jq_CriteriaTrue :: string
  jq_CriteriaFalse :: string

definition activationQuestionKey :: "uid \<Rightarrow> string" where
  "activationQuestionKey u = ''bot_'' @ formatInt u"

definition bot_question :: "ActivationPrompt \<Rightarrow> GroupActivationBot \<Rightarrow> JevQuestion" where
  "bot_question p b =
     (let name = activationBotName b
      in \<lparr>jq_Instructions = renderActivationPrompt (ap_Instructions p) name,
          jq_CriteriaTrue = renderActivationPrompt (ap_CriteriaTrue p) name,
          jq_CriteriaFalse = renderActivationPrompt (ap_CriteriaFalse p) name\<rparr>)"

definition maxActivationContextRunes :: int where
  "maxActivationContextRunes = 600"

text \<open>The newest entry of the result comes last; \<open>merged\<close> holds it first.\<close>

definition merge_turn :: "GroupActivationTurn \<Rightarrow> GroupActivationTurn list \<Rightarrow> GroupActivationTurn list" where
  "merge_turn turn merged =
     (let text = truncateUTF8 (trimSpace (tu_Text turn)) maxActivationContextRunes
      in if trimSpace (tu_Text turn) = [] then merged
         else case merged of
           [] \<Rightarrow> [turn\<lparr>tu_Text := text\<rparr>]
         | newest # rest \<Rightarrow>
             if tu_Speaker newest = tu_Speaker turn \<and> tu_IsBot newest = tu_IsBot turn
             then newest\<lparr>tu_Text := truncateUTF8 (tu_Text newest @ '' '' @ text) maxActivationContextRunes\<rparr> # rest
             else turn\<lparr>tu_Text := text\<rparr> # merged)"

definition mergeActivationTurns :: "GroupActivationTurn list \<Rightarrow> GroupActivationTurn list" where
  "mergeActivationTurns turns = rev (fold merge_turn turns [])"

fun human_names :: "uid list \<Rightarrow> GroupMember list \<Rightarrow> string list" where
  "human_names seen [] = []"
| "human_names seen (m # ms) =
     (if me_IsBot m \<or> me_UserID m \<in> set seen \<or> activationMemberName m = [] then human_names seen ms
      else activationMemberName m # human_names (me_UserID m # seen) ms)"

definition activationState :: "GroupActivationRequest \<Rightarrow> GroupActivationBot list \<Rightarrow> string" where
  "activationState req bots =
     (let context = (case aq_JudgeContext req of None \<Rightarrow> \<lparr>jc_GroupName = [], jc_RecentTurns = []\<rparr> | Some c \<Rightarrow> c);
          group = trimSpace (jc_GroupName context);
          entry = (\<lambda>name kind. JObj [(''name'', JStr name), (''type'', JStr kind)]);
          members = map (\<lambda>b. entry (activationBotName b) ''bot'') bots @
                    map (\<lambda>n. entry n ''user'') (human_names (map ab_UID bots) (aq_Members req));
          turns = map (\<lambda>t. JObj [(''from'', JStr (tu_Speaker t)), (''type'', JStr (if tu_IsBot t then ''bot'' else ''user'')),
                             (''text'', JStr (tu_Text t))]) (mergeActivationTurns (jc_RecentTurns context))
      in go_marshal (JObj ((if group \<noteq> [] then [(''group'', JObj [(''name'', JStr group)])] else []) @
                           (if members \<noteq> [] then [(''members'', JArr members)] else []) @
                           (if turns \<noteq> [] then [(''messages'', JArr turns)] else []))))"

section \<open>Deciding\<close>

text \<open>An answer is a score, or nothing when the judge did not give one.\<close>

type_synonym judge_answers = "(string, score option) gomap"
type_synonym judge_call = "string \<times> (string, JevQuestion) gomap"

record activationJudge =
  aj_Enabled :: bool
  aj_Ask :: "judge_call \<Rightarrow> judge_answers option"

record JevGroupActivationResolver =
  rv_client :: "activationJudge option"
  rv_threshold :: score

definition NewGroupActivationResolver :: "activationJudge option \<Rightarrow> JevGroupActivationResolver" where
  "NewGroupActivationResolver judge = \<lparr>rv_client = judge, rv_threshold = 1 / 2\<rparr>"

definition answered :: "judge_answers \<Rightarrow> GroupActivationBot \<Rightarrow> score option" where
  "answered answers b = (case map_of answers (activationQuestionKey (ab_UID b)) of Some v \<Rightarrow> v | None \<Rightarrow> None)"

definition scoreAnswers :: "JevGroupActivationResolver \<Rightarrow> judge_answers \<Rightarrow> GroupActivationBot list \<Rightarrow> GroupActivationDecision" where
  "scoreAnswers r answers bots =
     fold (\<lambda>b d. case answered answers b of
             None \<Rightarrow> d
           | Some v \<Rightarrow> d\<lparr>ad_Scores := gm_put (ab_UID b) v (ad_Scores d),
               ad_Activated := (if v \<ge> rv_threshold r then gm_put (ab_UID b) v (ad_Activated d) else ad_Activated d)\<rparr>)
       bots (no_activation ''jev'')"

definition judge_questions :: "ActivationPrompt \<Rightarrow> GroupActivationBot list \<Rightarrow> (string, JevQuestion) gomap" where
  "judge_questions p bots = fold (\<lambda>b. gm_put (activationQuestionKey (ab_UID b)) (bot_question p b)) bots []"

text \<open>The decision, and what the judge was asked, if it was.\<close>

definition ask_judge ::
  "JevGroupActivationResolver \<Rightarrow> ActivationPrompt \<Rightarrow> GroupActivationRequest \<Rightarrow> GroupActivationBot list \<Rightarrow>
   GroupActivationDecision \<times> judge_call option" where
  "ask_judge r p req bots =
     (case rv_client r of
        None \<Rightarrow> (judging_degraded, None)
      | Some judge \<Rightarrow>
          if \<not> aj_Enabled judge then (judging_degraded, None)
          else let call = (activationState req bots, judge_questions p bots)
               in ((case aj_Ask judge call of None \<Rightarrow> judging_degraded | Some answers \<Rightarrow> scoreAnswers r answers bots), Some call))"

definition lone_bot :: "GroupActivationRequest \<Rightarrow> GroupActivationBot \<Rightarrow> GroupActivationDecision" where
  "lone_bot req b =
     (if ab_UID b = aq_SenderUID req then no_activation ''bot_sender''
      else if ab_UID b \<in> set (activationUIDSet (aq_MutedUIDs req)) then no_activation ''no_candidate''
      else activate [(ab_UID b, 1)] ''single_bot'')"

definition Resolve ::
  "JevGroupActivationResolver \<Rightarrow> ActivationPrompt \<Rightarrow> GroupActivationRequest \<Rightarrow> GroupActivationDecision \<times> judge_call option" where
  "Resolve r p req =
     (let allBots = activationBots (aq_Members req); muted = activationUIDSet (aq_MutedUIDs req);
          bots = activationExcludingSender allBots (aq_SenderUID req);
          reachable = activationExcludingUIDs bots muted; mentioned = activationMentionedBots bots (aq_Mentions req);
          idle = activationExcludingUIDs reachable (activationWorkingUIDSet req)
      in if aq_NotConversation req then (no_activation ''not_conversation'', None)
         else if allBots = [] then (no_activation ''no_bot'', None)
         else if length allBots = 1 then (lone_bot req (hd allBots), None)
         else if bots = [] then (no_activation ''bot_sender'', None)
         else if aq_TrustedChannelTrigger req then (reachable_or_nobody (activationAll reachable) ''channel_trigger'', None)
         else if mentioned \<noteq> [] then (reachable_or_nobody (activationExcludingScores mentioned muted) ''mention'', None)
         else if activationMentionAll (aq_Mentions req) then (reachable_or_nobody (activationAll reachable) ''mention'', None)
         else if reachable = [] \<or> idle = [] then (no_activation ''no_candidate'', None)
         else ask_judge r p req idle)"

definition deterministicGroupActivation :: "GroupActivationRequest \<Rightarrow> GroupActivationDecision" where
  "deterministicGroupActivation req =
     (let allBots = activationBots (aq_Members req); muted = activationUIDSet (aq_MutedUIDs req);
          bots = activationExcludingSender allBots (aq_SenderUID req);
          reachable = activationExcludingUIDs bots muted; mentioned = activationMentionedBots bots (aq_Mentions req)
      in if aq_NotConversation req then no_activation ''not_conversation''
         else if allBots = [] then no_activation ''no_bot''
         else if length allBots = 1 then lone_bot req (hd allBots)
         else if bots = [] then no_activation ''bot_sender''
         else if aq_TrustedChannelTrigger req then reachable_or_nobody (activationAll reachable) ''channel_trigger''
         else if activationMentionAll (aq_Mentions req) then reachable_or_nobody (activationAll reachable) ''mention''
         else if mentioned \<noteq> [] then reachable_or_nobody (activationExcludingScores mentioned muted) ''mention''
         else if reachable = [] then no_activation ''no_candidate''
         else if aq_DefaultAgentUID req > 0 \<and> aq_DefaultAgentUID req \<in> set (map ab_UID reachable)
         then activate [(aq_DefaultAgentUID req, 1)] ''default_agent''
         else no_activation ''no_mention'')"

section \<open>Who can be woken\<close>

lemma put_bots: "map_of (fold (\<lambda>b. gm_put (ab_UID b) 1) bots m) u = (if u \<in> ab_UID ` set bots then Some 1 else map_of m u)"
  by (induction bots arbitrary: m) (auto simp: gomap_simps)

lemma map_of_activationAll: "map_of (activationAll bots) u = (if u \<in> ab_UID ` set bots then Some 1 else None)"
  by (simp add: activationAll_def put_bots)

lemma mentioned_bots:
  "map_of (activationMentionedBots bots mentions) u =
     (if u \<in> ab_UID ` set bots \<and> formatUID u \<in> trimSpace ` set mentions then Some 1 else None)"
proof -
  have step: "map_of (fold (\<lambda>mention. fold (\<lambda>b. gm_put (ab_UID b) 1) (filter (\<lambda>b. formatUID (ab_UID b) = mention) bots)) ms m) u =
      (if u \<in> ab_UID ` set bots \<and> formatUID u \<in> set ms then Some 1 else map_of m u)" for ms m
    by (induction ms arbitrary: m) (auto simp: put_bots)
  show ?thesis unfolding activationMentionedBots_def step by simp
qed

lemma excluded_scores: "map_of (activationExcludingScores m excluded) u = (if u \<in> set excluded then None else map_of m u)"
  by (induction m) (auto simp: activationExcludingScores_def)

lemma uids_of_bots: "ab_UID ` set (activationBots members) = {me_UserID m | m. m \<in> set members \<and> me_IsBot m}"
  by (force simp: activationBots_def)

lemma uids_except_sender: "ab_UID ` set (activationExcludingSender bots s) = (if s \<le> 0 then ab_UID ` set bots else ab_UID ` set bots - {s})"
  by (auto simp: activationExcludingSender_def)

lemma uids_except: "ab_UID ` set (activationExcludingUIDs bots ex) = ab_UID ` set bots - set ex"
  by (auto simp: activationExcludingUIDs_def)

lemmas candidate_simps = map_of_activationAll mentioned_bots excluded_scores uids_of_bots uids_except_sender uids_except

lemma reachable_activated:
  "map_of (ad_Activated (reachable_or_nobody m source)) u = map_of m u" "ad_Scores (reachable_or_nobody m source) = []"
  by (simp_all add: reachable_or_nobody_def no_activation_def activate_def)

lemma scored:
  "map_of (ad_Activated (scoreAnswers r answers bots)) u = Some s \<Longrightarrow> u \<in> ab_UID ` set bots \<and> rv_threshold r \<le> s"
proof -
  have "map_of (ad_Activated (fold (\<lambda>b d. case answered answers b of
             None \<Rightarrow> d
           | Some v \<Rightarrow> d\<lparr>ad_Scores := gm_put (ab_UID b) v (ad_Scores d),
               ad_Activated := (if v \<ge> rv_threshold r then gm_put (ab_UID b) v (ad_Activated d) else ad_Activated d)\<rparr>) bots d)) u = Some s \<Longrightarrow>
      (u \<in> ab_UID ` set bots \<and> rv_threshold r \<le> s) \<or> map_of (ad_Activated d) u = Some s" for d
    by (induction bots arbitrary: d) (fastforce simp: gomap_simps split: option.splits if_splits)+
  from this [of "no_activation ''jev''"]
  show "map_of (ad_Activated (scoreAnswers r answers bots)) u = Some s \<Longrightarrow> ?thesis"
    by (simp add: scoreAnswers_def no_activation_def)
qed

lemma judged:
  "map_of (ad_Activated (fst (ask_judge r p req bots))) u = Some s \<Longrightarrow> u \<in> ab_UID ` set bots \<and> rv_threshold r \<le> s"
  using scored [of r _ bots u s] by (auto simp: ask_judge_def judging_degraded_def Let_def split: option.splits if_splits)

definition wakeable :: "GroupActivationRequest \<Rightarrow> uid \<Rightarrow> bool" where
  "wakeable req u \<longleftrightarrow> (\<exists>m \<in> set (aq_Members req). me_IsBot m \<and> me_UserID m = u) \<and> u \<notin> set (aq_MutedUIDs req) \<and> u \<noteq> aq_SenderUID req"

definition candidate_bots :: "GroupActivationRequest \<Rightarrow> GroupActivationBot list" where
  "candidate_bots req = activationExcludingSender (activationBots (aq_Members req)) (aq_SenderUID req)"

lemma candidate_wakeable:
  "u \<in> ab_UID ` set (candidate_bots req) \<Longrightarrow> u \<notin> set (activationUIDSet (aq_MutedUIDs req)) \<Longrightarrow> 0 < u \<Longrightarrow> wakeable req u"
  unfolding candidate_bots_def candidate_simps by (simp add: wakeable_def activationUIDSet_def split: if_splits) blast+

lemma lone_wakeable:
  assumes "length (activationBots (aq_Members req)) = 1" and "map_of (ad_Activated (lone_bot req (hd (activationBots (aq_Members req))))) u = Some s" and "0 < u"
  shows "wakeable req u"
proof -
  from assms(1) obtain b where b: "activationBots (aq_Members req) = [b]" by (auto simp: length_Suc_conv)
  with assms(2) have u: "u = ab_UID b" "u \<noteq> aq_SenderUID req" "u \<notin> set (activationUIDSet (aq_MutedUIDs req))"
    by (simp_all add: lone_bot_def no_activation_def activate_def split: if_splits)
  then have "u \<in> ab_UID ` set (candidate_bots req)" by (simp add: candidate_bots_def activationExcludingSender_def b)
  from candidate_wakeable [OF this u(3) assms(3)] show ?thesis .
qed

lemma reachable_wakeable:
  "map_of (ad_Activated (reachable_or_nobody (activationAll (activationExcludingUIDs (candidate_bots req) (activationUIDSet (aq_MutedUIDs req)))) src)) u = Some s \<Longrightarrow>
   0 < u \<Longrightarrow> wakeable req u"
  "map_of (ad_Activated (reachable_or_nobody (activationExcludingScores (activationMentionedBots (candidate_bots req) (aq_Mentions req))
     (activationUIDSet (aq_MutedUIDs req))) src)) u = Some s \<Longrightarrow> 0 < u \<Longrightarrow> wakeable req u"
  using candidate_wakeable [of u req]
  by (simp_all only: reachable_activated map_of_activationAll mentioned_bots excluded_scores uids_except split: if_splits) auto

lemma judge_wakeable:
  "map_of (ad_Activated (fst (ask_judge r p req (activationExcludingUIDs (activationExcludingUIDs (candidate_bots req)
     (activationUIDSet (aq_MutedUIDs req))) (activationWorkingUIDSet req))))) u = Some s \<Longrightarrow> 0 < u \<Longrightarrow> wakeable req u"
  using candidate_wakeable [of u req] by (drule_tac judged) (simp only: uids_except; blast)

lemma default_wakeable:
  "u \<in> set (map ab_UID (activationExcludingUIDs (candidate_bots req) (activationUIDSet (aq_MutedUIDs req)))) \<Longrightarrow> 0 < u \<Longrightarrow> wakeable req u"
  using candidate_wakeable [of u req] by (simp only: set_map uids_except; blast)

lemma nobody_activated [simp]: "map_of (ad_Activated (no_activation x)) u = None"
  by (simp add: no_activation_def)

text \<open>The ways a decision comes about.\<close>

definition plain_decision :: "GroupActivationRequest \<Rightarrow> GroupActivationDecision \<Rightarrow> bool" where
  "plain_decision req d \<longleftrightarrow>
     (\<exists>x. d = no_activation x) \<or>
     (length (activationBots (aq_Members req)) = 1 \<and> d = lone_bot req (hd (activationBots (aq_Members req)))) \<or>
     (\<exists>src. d = reachable_or_nobody (activationAll (activationExcludingUIDs (candidate_bots req) (activationUIDSet (aq_MutedUIDs req)))) src) \<or>
     (\<exists>src. d = reachable_or_nobody (activationExcludingScores (activationMentionedBots (candidate_bots req) (aq_Mentions req))
        (activationUIDSet (aq_MutedUIDs req))) src)"

lemma plain_wakeable:
  assumes "plain_decision req d" and "map_of (ad_Activated d) u = Some s" and "0 < u"
  shows "wakeable req u"
proof -
  from assms(1) consider x where "d = no_activation x"
    | "length (activationBots (aq_Members req)) = 1" "d = lone_bot req (hd (activationBots (aq_Members req)))"
    | src where "d = reachable_or_nobody (activationAll (activationExcludingUIDs (candidate_bots req) (activationUIDSet (aq_MutedUIDs req)))) src"
    | src where "d = reachable_or_nobody (activationExcludingScores (activationMentionedBots (candidate_bots req) (aq_Mentions req))
        (activationUIDSet (aq_MutedUIDs req))) src"
    unfolding plain_decision_def by blast
  then show ?thesis
  proof cases
    case 1
    with assms(2) show ?thesis by simp
  next
    case 2
    with assms(2,3) lone_wakeable show ?thesis by blast
  next
    case 3
    with assms(2,3) reachable_wakeable(1) show ?thesis by blast
  next
    case 4
    with assms(2,3) reachable_wakeable(2) show ?thesis by blast
  qed
qed

lemma plain_intros:
  "plain_decision req (no_activation x)"
  "length (activationBots (aq_Members req)) = 1 \<Longrightarrow> plain_decision req (lone_bot req (hd (activationBots (aq_Members req))))"
  "plain_decision req (reachable_or_nobody (activationAll (activationExcludingUIDs (candidate_bots req) (activationUIDSet (aq_MutedUIDs req)))) src)"
  "plain_decision req (reachable_or_nobody (activationExcludingScores (activationMentionedBots (candidate_bots req) (aq_Mentions req))
        (activationUIDSet (aq_MutedUIDs req))) src)"
  unfolding plain_decision_def by blast+

definition open_message :: "GroupActivationRequest \<Rightarrow> bool" where
  "open_message req \<longleftrightarrow> \<not> aq_NotConversation req \<and> length (activationBots (aq_Members req)) > 1 \<and> \<not> aq_TrustedChannelTrigger req \<and>
     activationMentionedBots (candidate_bots req) (aq_Mentions req) = [] \<and> \<not> activationMentionAll (aq_Mentions req)"

lemma resolve_cases:
  "(snd (Resolve r p req) = None \<and> plain_decision req (fst (Resolve r p req))) \<or>
   (open_message req \<and> Resolve r p req = ask_judge r p req (activationExcludingUIDs (activationExcludingUIDs (candidate_bots req)
     (activationUIDSet (aq_MutedUIDs req))) (activationWorkingUIDSet req)))"
proof -
  have len: "length xs > Suc 0" if "xs \<noteq> []" "length xs \<noteq> Suc 0" for xs :: "GroupActivationBot list"
    using that by (cases xs) auto
  show ?thesis
    unfolding Resolve_def Let_def candidate_bots_def [symmetric] open_message_def
    by (simp only: split: if_split, intro conjI impI, simp_all only: fst_conv snd_conv plain_intros simp_thms, simp add: len)
qed

lemma deterministic_cases:
  "plain_decision req (deterministicGroupActivation req) \<or>
   (aq_DefaultAgentUID req \<in> set (map ab_UID (activationExcludingUIDs (candidate_bots req) (activationUIDSet (aq_MutedUIDs req)))) \<and>
    deterministicGroupActivation req = activate [(aq_DefaultAgentUID req, 1)] ''default_agent'')"
  unfolding deterministicGroupActivation_def Let_def candidate_bots_def [symmetric]
  by (simp only: split: if_split, intro conjI impI, (blast intro: plain_intros)+)

text \<open>
  nobody is woken who must not be: with a judge or without, a bot that a message activates is a bot member
  of the group, is not muted, and is not the author of the message, whatever is mentioned, whatever the judge
  answers and whatever a channel triggers.
\<close>

theorem activated_bot_is_wakeable:
  assumes "d = fst (Resolve r p req) \<or> d = deterministicGroupActivation req"
    and "map_of (ad_Activated d) u = Some s" and "0 < u"
  shows "(\<exists>m \<in> set (aq_Members req). me_IsBot m \<and> me_UserID m = u) \<and> u \<notin> set (aq_MutedUIDs req) \<and> u \<noteq> aq_SenderUID req"
proof -
  have "wakeable req u" using assms(1)
  proof
    assume d: "d = fst (Resolve r p req)"
    from resolve_cases [of r p req] show ?thesis
      using plain_wakeable [OF _ assms(2,3)] judge_wakeable [of r p req u s] assms(2,3) by (auto simp: d)
  next
    assume d: "d = deterministicGroupActivation req"
    from deterministic_cases [of req] show ?thesis
      using plain_wakeable [OF _ assms(2,3)] default_wakeable [of u req] assms(2,3)
      by (auto simp: d activate_def split: if_splits simp del: set_map)
  qed
  then show ?thesis by (simp add: wakeable_def)
qed

section \<open>When the judge is asked\<close>

lemma question_keys: "fst ` set (judge_questions p bots) = activationQuestionKey ` ab_UID ` set bots"
proof -
  have "dom (map_of (fold (\<lambda>b. gm_put (activationQuestionKey (ab_UID b)) (bot_question p b)) bs m)) =
      activationQuestionKey ` ab_UID ` set bs \<union> dom (map_of m)" for bs m
    by (induction bs arbitrary: m) (auto simp: gomap_simps dom_def)
  from this [of bots "[]"] show ?thesis by (simp add: judge_questions_def dom_map_of_conv_image_fst)
qed

lemma ask_cases:
  assumes "snd (ask_judge r p req bots) = Some call"
  shows "snd call = judge_questions p bots"
  using assms by (auto simp: ask_judge_def Let_def split: option.splits if_splits)

lemma no_mention: "activationMentionedBots bots mentions = [] \<Longrightarrow> b \<in> set bots \<Longrightarrow> formatUID (ab_UID b) \<notin> trimSpace ` set mentions"
  using mentioned_bots [of bots mentions "ab_UID b"] by (auto split: if_splits)

lemma asked_questions:
  assumes "snd (Resolve r p req) = Some call" and "\<forall>m \<in> set (aq_Members req). 0 < me_UserID m" and "0 < aq_SenderUID req"
  shows "\<not> aq_NotConversation req \<and> \<not> aq_TrustedChannelTrigger req \<and> 1 < length (filter me_IsBot (aq_Members req)) \<and>
    \<not> activationMentionAll (aq_Mentions req) \<and>
    (\<forall>m \<in> set (aq_Members req). me_IsBot m \<and> me_UserID m \<noteq> aq_SenderUID req \<longrightarrow> formatUID (me_UserID m) \<notin> trimSpace ` set (aq_Mentions req)) \<and>
    fst ` set (snd call) = activationQuestionKey ` {me_UserID m | m. m \<in> set (aq_Members req) \<and> me_IsBot m \<and>
      me_UserID m \<noteq> aq_SenderUID req \<and> me_UserID m \<notin> set (aq_MutedUIDs req) \<and>
      me_UserID m \<notin> set (activationWorkingUIDSet req)} \<and>
    (\<forall>u s. map_of (ad_Activated (fst (Resolve r p req))) u = Some s \<longrightarrow>
       rv_threshold r \<le> s \<and> activationQuestionKey u \<in> fst ` set (snd call))"
proof -
  let ?idle = "activationExcludingUIDs (activationExcludingUIDs (candidate_bots req) (activationUIDSet (aq_MutedUIDs req))) (activationWorkingUIDSet req)"
  from resolve_cases [of r p req] assms(1) have o: "open_message req" and j: "Resolve r p req = ask_judge r p req ?idle" by auto
  from o have m: "activationMentionedBots (candidate_bots req) (aq_Mentions req) = []" by (simp add: open_message_def)
  have uids: "ab_UID ` set (candidate_bots req) = {me_UserID m | m. m \<in> set (aq_Members req) \<and> me_IsBot m \<and> me_UserID m \<noteq> aq_SenderUID req}"
    unfolding candidate_bots_def candidate_simps using assms(3) by auto
  have "formatUID (me_UserID x) \<notin> trimSpace ` set (aq_Mentions req)" if "x \<in> set (aq_Members req)" "me_IsBot x" "me_UserID x \<noteq> aq_SenderUID req" for x
  proof -
    from that uids have "me_UserID x \<in> ab_UID ` set (candidate_bots req)" by auto
    then obtain b where "b \<in> set (candidate_bots req)" "me_UserID x = ab_UID b" by blast
    with no_mention [OF m] show ?thesis by simp
  qed
  moreover have keys: "fst ` set (snd call) = activationQuestionKey ` ab_UID ` set ?idle"
    using ask_cases [of r p req ?idle call] assms(1) by (simp add: j question_keys)
  moreover have "ab_UID ` set ?idle = {me_UserID m | m. m \<in> set (aq_Members req) \<and> me_IsBot m \<and>
      me_UserID m \<noteq> aq_SenderUID req \<and> me_UserID m \<notin> set (aq_MutedUIDs req) \<and> me_UserID m \<notin> set (activationWorkingUIDSet req)}"
    unfolding uids_except uids using assms(2) by (auto simp: activationUIDSet_def)
  moreover have "rv_threshold r \<le> s \<and> activationQuestionKey u \<in> fst ` set (snd call)"
    if "map_of (ad_Activated (fst (Resolve r p req))) u = Some s" for u s
    using judged [of r p req ?idle u s] that unfolding j keys by blast
  ultimately show ?thesis using o by (simp add: open_message_def activationBots_def)
qed

text \<open>
  the judge is asked only about what is open: a message in a group of several bots that is conversation,
  names no bot and comes from no channel trigger. It is asked exactly about the bots that may answer and do not
  work already: not about the author, a muted or a busy bot. And of those it wakes only the ones it scored at
  least the threshold.
\<close>

theorem judge_asked_only_when_needed:
  assumes "snd (Resolve r p req) = Some call" and "\<forall>m \<in> set (aq_Members req). 0 < me_UserID m" and "0 < aq_SenderUID req"
  shows "\<not> aq_NotConversation req \<and> \<not> aq_TrustedChannelTrigger req \<and> 1 < length (filter me_IsBot (aq_Members req)) \<and>
    \<not> activationMentionAll (aq_Mentions req) \<and>
    (\<forall>m \<in> set (aq_Members req). me_IsBot m \<and> me_UserID m \<noteq> aq_SenderUID req \<longrightarrow> formatUID (me_UserID m) \<notin> trimSpace ` set (aq_Mentions req)) \<and>
    fst ` set (snd call) = activationQuestionKey ` {me_UserID m | m. m \<in> set (aq_Members req) \<and> me_IsBot m \<and>
      me_UserID m \<noteq> aq_SenderUID req \<and> me_UserID m \<notin> set (aq_MutedUIDs req) \<and>
      me_UserID m \<notin> set (activationWorkingUIDSet req)} \<and>
    (\<forall>u s. map_of (ad_Activated (fst (Resolve r p req))) u = Some s \<longrightarrow>
       rv_threshold r \<le> s \<and> activationQuestionKey u \<in> fst ` set (snd call))"
  by (rule asked_questions [OF assms])

text \<open>
  the rules with a judge and without agree on every message that needs no judgement: unless the message is
  open, or it mentions a bot and everyone at once, a judge changes nothing, whatever it would answer, and is not
  asked.
\<close>

theorem rules_agree_without_judging:
  assumes "\<not> open_message req"
    and "activationMentionAll (aq_Mentions req) \<Longrightarrow> activationMentionedBots (candidate_bots req) (aq_Mentions req) = []"
  shows "Resolve r p req = (deterministicGroupActivation req, None)"
proof -
  have len: "xs = [] \<or> length xs = 1 \<or> 1 < length xs" for xs :: "GroupActivationBot list" by (cases xs) auto
  show ?thesis
    using assms len [of "activationBots (aq_Members req)"]
    unfolding Resolve_def deterministicGroupActivation_def Let_def candidate_bots_def [symmetric] open_message_def
    by (auto split: if_split simp del: length_greater_0_conv)
qed

text \<open>A message that mentions everyone and a bot by name wakes that bot only when there is a judge.\<close>

lemma named_bot_overrules_all:
  assumes "\<not> aq_NotConversation req" and "1 < length (activationBots (aq_Members req))" and "\<not> aq_TrustedChannelTrigger req"
    and "activationMentionAll (aq_Mentions req)" and "activationMentionedBots (candidate_bots req) (aq_Mentions req) \<noteq> []"
  shows "fst (Resolve r p req) = reachable_or_nobody (activationExcludingScores (activationMentionedBots (candidate_bots req) (aq_Mentions req))
      (activationUIDSet (aq_MutedUIDs req))) ''mention''"
    and "deterministicGroupActivation req =
      reachable_or_nobody (activationAll (activationExcludingUIDs (candidate_bots req) (activationUIDSet (aq_MutedUIDs req)))) ''mention''"
proof -
  obtain kv rest where "activationMentionedBots (candidate_bots req) (aq_Mentions req) = kv # rest"
    using assms(5) by (cases "activationMentionedBots (candidate_bots req) (aq_Mentions req)") auto
  then have "map_of (activationMentionedBots (candidate_bots req) (aq_Mentions req)) (fst kv) \<noteq> None" by simp
  then have "candidate_bots req \<noteq> []" by (auto simp: mentioned_bots)
  with assms show "fst (Resolve r p req) = reachable_or_nobody (activationExcludingScores (activationMentionedBots (candidate_bots req) (aq_Mentions req))
      (activationUIDSet (aq_MutedUIDs req))) ''mention''"
    and "deterministicGroupActivation req =
      reachable_or_nobody (activationAll (activationExcludingUIDs (candidate_bots req) (activationUIDSet (aq_MutedUIDs req)))) ''mention''"
    unfolding Resolve_def deterministicGroupActivation_def Let_def candidate_bots_def [symmetric] by auto
qed

section \<open>A group of three bots\<close>

definition sample_member :: "uid \<Rightarrow> bool \<Rightarrow> GroupMember" where
  "sample_member u b = \<lparr>me_UserID = u, me_Muted = False, me_Username = ''m'', me_DisplayName = [], me_IsBot = b\<rparr>"

definition sample_request :: "string list \<Rightarrow> GroupActivationRequest" where
  "sample_request mentions =
     \<lparr>aq_SenderUID = 4, aq_Members = [sample_member 1 True, sample_member 2 True, sample_member 3 True, sample_member 4 False],
      aq_Mentions = mentions, aq_TrustedChannelTrigger = False, aq_NotConversation = False, aq_MutedUIDs = [2],
      aq_WorkingUIDs = Some [3], aq_DefaultAgentUID = 0, aq_JudgeContext = None\<rparr>"

definition sample_judge :: JevGroupActivationResolver where
  "sample_judge = NewGroupActivationResolver (Some \<lparr>aj_Enabled = True, aj_Ask = (\<lambda>call. Some (map (\<lambda>q. (fst q, Some (3 / 4))) (snd call)))\<rparr>)"

lemma sample_judged:
  "ad_Activated (fst (Resolve sample_judge defaultActivationPrompt (sample_request []))) = [(1, 3 / 4)]"
  "snd (Resolve sample_judge defaultActivationPrompt (sample_request [])) \<noteq> None"
  by (simp_all add: Resolve_def sample_request_def sample_member_def sample_judge_def NewGroupActivationResolver_def activationBots_def
      activationUIDSet_def activationExcludingSender_def activationExcludingUIDs_def activationMentionedBots_def activationMentionAll_def
      activationWorkingUIDSet_def ask_judge_def scoreAnswers_def judge_questions_def answered_def no_activation_def Let_def)

theorem activated_bot_is_wakeable_witness:
  "map_of (ad_Activated (fst (Resolve sample_judge defaultActivationPrompt (sample_request [])))) 1 = Some (3 / 4) \<and>
   (\<exists>m \<in> set (aq_Members (sample_request [])). me_IsBot m \<and> me_UserID m = 1)"
proof -
  have a: "map_of (ad_Activated (fst (Resolve sample_judge defaultActivationPrompt (sample_request [])))) 1 = Some (3 / 4)"
    by (simp add: sample_judged)
  have "fst (Resolve sample_judge defaultActivationPrompt (sample_request [])) = fst (Resolve sample_judge defaultActivationPrompt (sample_request [])) \<or>
      fst (Resolve sample_judge defaultActivationPrompt (sample_request [])) = deterministicGroupActivation (sample_request [])" by simp
  from activated_bot_is_wakeable [OF this a] a show ?thesis by simp
qed

theorem judge_asked_only_when_needed_witness:
  "\<exists>call. snd (Resolve sample_judge defaultActivationPrompt (sample_request [])) = Some call \<and> fst ` set (snd call) = {''bot_1''}"
proof -
  from sample_judged(2) obtain call where c: "snd (Resolve sample_judge defaultActivationPrompt (sample_request [])) = Some call" by auto
  have pos: "\<forall>m \<in> set (aq_Members (sample_request [])). 0 < me_UserID m" "0 < aq_SenderUID (sample_request [])"
    by (simp_all add: sample_request_def sample_member_def)
  have "{me_UserID m | m. m \<in> set (aq_Members (sample_request [])) \<and> me_IsBot m \<and> me_UserID m \<noteq> aq_SenderUID (sample_request []) \<and>
      me_UserID m \<notin> set (aq_MutedUIDs (sample_request [])) \<and> me_UserID m \<notin> set (activationWorkingUIDSet (sample_request []))} = {1}"
    by (auto simp: sample_request_def sample_member_def activationWorkingUIDSet_def activationUIDSet_def intro!: exI [of _ "sample_member 1 True"])
  moreover have "activationQuestionKey 1 = ''bot_1''" by code_simp
  ultimately show ?thesis using judge_asked_only_when_needed [OF c pos] c by simp
qed

theorem rules_agree_without_judging_witness:
  "Resolve sample_judge defaultActivationPrompt (sample_request [''usr3'']) = (activate [(3, 1)] ''mention'', None)"
proof -
  have m: "activationMentionedBots (candidate_bots (sample_request [''usr3''])) (aq_Mentions (sample_request [''usr3''])) = [(3, 1)]"
    by code_simp
  have "\<not> activationMentionAll (aq_Mentions (sample_request [''usr3'']))" by code_simp
  then have "Resolve sample_judge defaultActivationPrompt (sample_request [''usr3'']) = (deterministicGroupActivation (sample_request [''usr3'']), None)"
    using m by (intro rules_agree_without_judging) (simp_all add: open_message_def)
  moreover have "deterministicGroupActivation (sample_request [''usr3'']) = activate [(3, 1)] ''mention''" by code_simp
  ultimately show ?thesis by simp
qed

end
