(* ===== verification/MessageRequests.thy ===== *)
theory MessageRequests
  imports Messages
begin

text \<open>
  What a request to send a message becomes before it is stored or sent (\<open>normalizeMessageRequest\<close> of
  \<open>server/messages.go\<close> and what it calls): NUL bytes go, mentions become canonical, the client's id and the
  display type are settled. Raw content comes with what \<open>encoding/json\<close> reads from it, if it can read it.
\<close>

section \<open>Requests and payloads\<close>

record RawMessage =
  raw_text :: string
  raw_value :: "json option"

record ContentBlock =
  cb_Type :: string
  cb_Text :: string
  cb_Thinking :: string
  cb_Payload :: metadata
  cb_ID :: string
  cb_Name :: string
  cb_Input :: metadata
  cb_ToolUseID :: string
  cb_Content :: string
  cb_IsError :: bool

record SendMessageRequest =
  sm_TopicID :: string
  sm_ClientMsgID :: string
  sm_Content :: RawMessage
  sm_ContentBlocks :: "ContentBlock list"
  sm_Metadata :: metadata
  sm_MsgType :: string
  sm_Type :: string
  sm_Mode :: string
  sm_Role :: string
  sm_ReplyTo :: int
  sm_Mentions :: "string list"

text \<open>The references to artifacts and to file annotations that a payload may carry are left out.\<close>

record normalizedMessagePayload =
  np_StoredContent :: string
  np_DisplayContent :: json
  np_StoredType :: string
  np_DisplayType :: string
  np_ExplicitDisplayType :: bool
  np_ClientMsgID :: string
  np_ContentBlocks :: "ContentBlock list"
  np_Metadata :: metadata
  np_Mode :: string
  np_Role :: string
  np_Mentions :: "string list"

section \<open>Cleaning\<close>

text \<open>Keys that differ in NUL bytes only become one; which value stays is chance in Go, the last one's here.\<close>

fun sanitizeMessageValue :: "json \<Rightarrow> json" where
  "sanitizeMessageValue (JStr s) = JStr (stripMessageNullBytes s)"
| "sanitizeMessageValue (JArr xs) = JArr (map sanitizeMessageValue xs)"
| "sanitizeMessageValue (JObj kvs) =
     JObj (fold (\<lambda>kv m. gm_put (fst kv) (snd kv) m) (map (\<lambda>kv. (stripMessageNullBytes (fst kv), sanitizeMessageValue (snd kv))) kvs) [])"
| "sanitizeMessageValue v = v"

definition sanitizeMessageMap :: "metadata \<Rightarrow> metadata" where
  "sanitizeMessageMap m =
     fold (\<lambda>kv m. gm_put (fst kv) (snd kv) m) (map (\<lambda>kv. (stripMessageNullBytes (fst kv), sanitizeMessageValue (snd kv))) m) []"

definition sanitizeContentBlock :: "ContentBlock \<Rightarrow> ContentBlock" where
  "sanitizeContentBlock b =
     b\<lparr>cb_Type := stripMessageNullBytes (cb_Type b), cb_Text := stripMessageNullBytes (cb_Text b),
       cb_Thinking := stripMessageNullBytes (cb_Thinking b), cb_Payload := sanitizeMessageMap (cb_Payload b),
       cb_ID := stripMessageNullBytes (cb_ID b), cb_Name := stripMessageNullBytes (cb_Name b),
       cb_Input := sanitizeMessageMap (cb_Input b), cb_ToolUseID := stripMessageNullBytes (cb_ToolUseID b),
       cb_Content := stripMessageNullBytes (cb_Content b)\<rparr>"

definition sanitizeContentBlocks :: "ContentBlock list \<Rightarrow> ContentBlock list" where
  "sanitizeContentBlocks = map sanitizeContentBlock"

definition normalizeRawContent :: "RawMessage \<Rightarrow> string \<times> json" where
  "normalizeRawContent raw =
     (let trimmed = trimSpace (raw_text raw); sanitized = stripMessageNullBytes trimmed
      in if trimmed = [] \<or> trimmed = ''null'' then ([], JStr [])
         else case raw_value raw of
           Some (JStr value) \<Rightarrow> (stripMessageNullBytes value, JStr (stripMessageNullBytes value))
         | Some JNull \<Rightarrow> ([], JStr [])
         | Some value \<Rightarrow> (sanitized, sanitizeMessageValue value)
         | None \<Rightarrow> (sanitized, JStr sanitized))"

definition metadataMap :: "metadata \<Rightarrow> string \<Rightarrow> metadata" where
  "metadataMap m k = (case map_of m k of Some (JObj v) \<Rightarrow> v | _ \<Rightarrow> [])"

definition metadataBool :: "metadata \<Rightarrow> string \<Rightarrow> bool" where
  "metadataBool m k = (case map_of m k of Some (JBool b) \<Rightarrow> b | _ \<Rightarrow> False)"

definition metadataWithoutXiaobaRuntime :: "metadata \<Rightarrow> metadata" where
  "metadataWithoutXiaobaRuntime m = filter (\<lambda>kv. fst kv \<noteq> ''xiaoba_runtime'') m"

section \<open>Types\<close>

definition inferDisplayTypeFromContent :: "json \<Rightarrow> string" where
  "inferDisplayTypeFromContent content =
     (case content of JObj rich \<Rightarrow> (case map_of rich ''type'' of Some (JStr value) \<Rightarrow> value | _ \<Rightarrow> []) | _ \<Rightarrow> [])"

definition normalizeStoredMsgType :: "string \<Rightarrow> string" where
  "normalizeStoredMsgType displayType = (if displayType \<in> {''image'', ''voice'', ''file''} then displayType else ''text'')"

definition isTransientRuntimePayload :: "normalizedMessagePayload \<Rightarrow> bool" where
  "isTransientRuntimePayload p \<longleftrightarrow> np_DisplayType p = ''runtime_plan''"

definition isTaskStatusPayload :: "normalizedMessagePayload \<Rightarrow> bool" where
  "isTaskStatusPayload p \<longleftrightarrow> np_ExplicitDisplayType p \<and> np_DisplayType p = ''task_status''"

definition isStructuredDisplayType :: "string \<Rightarrow> bool" where
  "isStructuredDisplayType displayType \<longleftrightarrow> displayType \<in> {''thinking'', ''tool_use'', ''tool_result''}"

definition empty_block :: ContentBlock where
  "empty_block = \<lparr>cb_Type = [], cb_Text = [], cb_Thinking = [], cb_Payload = [], cb_ID = [], cb_Name = [], cb_Input = [],
     cb_ToolUseID = [], cb_Content = [], cb_IsError = False\<rparr>"

definition buildStructuredContentBlocks :: "string \<Rightarrow> json \<Rightarrow> metadata \<Rightarrow> ContentBlock list" where
  "buildStructuredContentBlocks displayType content m =
     (let text = normalizeContentText content
      in if displayType = ''thinking'' then [empty_block\<lparr>cb_Type := ''thinking'', cb_Thinking := text\<rparr>]
         else if displayType = ''tool_use'' then
           [empty_block\<lparr>cb_Type := ''tool_use'', cb_ID := firstMetadataString m [''id'', ''tool_call_id'', ''tool_use_id''],
              cb_Name := text, cb_Input := metadataMap m ''input''\<rparr>]
         else if displayType = ''tool_result'' then
           [empty_block\<lparr>cb_Type := ''tool_result'', cb_ToolUseID := firstMetadataString m [''tool_use_id'', ''id'', ''tool_call_id''],
              cb_Content := text, cb_IsError := metadataBool m ''is_error''\<rparr>]
         else [])"

definition mentions_value :: "string list \<Rightarrow> json" where
  "mentions_value mentions = JArr (map JStr mentions)"

text \<open>The first text block gets the mentions; without one the text of the message becomes a block.\<close>

fun mention_first_text :: "string list \<Rightarrow> ContentBlock list \<Rightarrow> ContentBlock list option" where
  "mention_first_text mentions [] = None"
| "mention_first_text mentions (b # bs) =
     (if cb_Type b = ''text'' then Some (b\<lparr>cb_Payload := gm_put ''mentions'' (mentions_value mentions) (cb_Payload b)\<rparr> # bs)
      else map_option (\<lambda>bs. b # bs) (mention_first_text mentions bs))"

definition withStructuredMentionBlocks :: "ContentBlock list \<Rightarrow> json \<Rightarrow> string list \<Rightarrow> ContentBlock list" where
  "withStructuredMentionBlocks blocks displayContent mentions =
     (if mentions = [] then blocks
      else case mention_first_text mentions blocks of
        Some result \<Rightarrow> result
      | None \<Rightarrow>
          let text = normalizeContentText displayContent
          in if text = [] then blocks
             else empty_block\<lparr>cb_Type := ''text'', cb_Text := text, cb_Payload := [(''mentions'', mentions_value mentions)]\<rparr> # blocks)"

definition normalizeClientMsgID :: "string \<Rightarrow> metadata \<Rightarrow> string" where
  "normalizeClientMsgID raw m =
     (let value = trimSpace (stripMessageNullBytes raw)
      in take 128 (if value = [] then firstMetadataString m [''client_msg_id'', ''clientMessageId'', ''client_message_id''] else value))"

section \<open>The whole request\<close>

definition request_type :: "SendMessageRequest \<Rightarrow> string" where
  "request_type req = stripMessageNullBytes (firstNonEmpty [trimSpace (sm_Type req), trimSpace (sm_MsgType req)])"

definition display_type_of :: "SendMessageRequest \<Rightarrow> json \<Rightarrow> string" where
  "display_type_of req displayContent =
     (let t = (if request_type req = [] then inferDisplayTypeFromContent displayContent else request_type req)
      in if t = [] then ''text'' else t)"

definition request_metadata :: "SendMessageRequest \<Rightarrow> metadata" where
  "request_metadata req =
     (let m = metadataWithoutXiaobaRuntime (sanitizeMessageMap (sm_Metadata req)); mentions = normalizeStructuredMentions (sm_Mentions req)
      in if mentions \<noteq> [] then gm_put ''mentions'' (mentions_value mentions) m else m)"

definition request_payload :: "SendMessageRequest \<Rightarrow> string \<Rightarrow> json \<Rightarrow> normalizedMessagePayload" where
  "request_payload req storedContent displayContent =
     (let displayType = display_type_of req displayContent; m = request_metadata req;
          mentions = normalizeStructuredMentions (sm_Mentions req);
          blocks = sanitizeContentBlocks (sm_ContentBlocks req);
          mode = stripMessageNullBytes (trimSpace (sm_Mode req));
          role = stripMessageNullBytes (trimSpace (sm_Role req));
          build = (blocks = [] \<and> isStructuredDisplayType displayType);
          blocks = (if build then buildStructuredContentBlocks displayType displayContent m else blocks)
      in \<lparr>np_StoredContent = storedContent, np_DisplayContent = displayContent,
          np_StoredType = normalizeStoredMsgType displayType, np_DisplayType = displayType,
          np_ExplicitDisplayType = (request_type req \<noteq> []), np_ClientMsgID = normalizeClientMsgID (sm_ClientMsgID req) m,
          np_ContentBlocks = withStructuredMentionBlocks blocks displayContent mentions, np_Metadata = m,
          np_Mode = (if build \<and> mode = [] then ''code'' else mode),
          np_Role = (if build \<and> role = [] then ''assistant'' else role), np_Mentions = mentions\<rparr>)"

definition normalizeMessageRequest :: "SendMessageRequest \<Rightarrow> string + normalizedMessagePayload" where
  "normalizeMessageRequest req =
     (if trimSpace (sm_TopicID req) = [] then Inl ''topic_id required''
      else case normalizeRawContent (sm_Content req) of (storedContent, displayContent) \<Rightarrow>
        let p = request_payload req storedContent displayContent
        in if storedContent = [] \<and> np_ContentBlocks p = [] then Inl ''topic_id and content/content_blocks required'' else Inr p)"

section \<open>What a payload is\<close>

definition no_nul :: "string \<Rightarrow> bool" where
  "no_nul s \<longleftrightarrow> CHR 0x00 \<notin> set s"

fun json_clean :: "json \<Rightarrow> bool" where
  "json_clean (JStr s) = no_nul s"
| "json_clean (JArr xs) = list_all json_clean xs"
| "json_clean (JObj kvs) = list_all (\<lambda>kv. no_nul (fst kv) \<and> json_clean (snd kv)) kvs"
| "json_clean v = True"

definition metadata_clean :: "metadata \<Rightarrow> bool" where
  "metadata_clean m \<longleftrightarrow> (\<forall>kv \<in> set m. no_nul (fst kv) \<and> json_clean (snd kv))"

definition block_clean :: "ContentBlock \<Rightarrow> bool" where
  "block_clean b \<longleftrightarrow> no_nul (cb_Type b) \<and> no_nul (cb_Text b) \<and> no_nul (cb_Thinking b) \<and> metadata_clean (cb_Payload b) \<and>
     no_nul (cb_ID b) \<and> no_nul (cb_Name b) \<and> metadata_clean (cb_Input b) \<and> no_nul (cb_ToolUseID b) \<and> no_nul (cb_Content b)"

lemma no_nul_strip [simp]: "no_nul (stripMessageNullBytes s)"
  by (simp add: no_nul_def stripMessageNullBytes_def)

lemma no_nul_Nil [simp]: "no_nul []"
  by (simp add: no_nul_def)

lemma set_trimSpace: "set (trimSpace s) \<subseteq> set s"
proof -
  let ?t = "strip_all space_runes s"
  have "set (strip_all (map rev space_runes) (rev ?t)) \<subseteq> set (rev ?t)"
    by (rule set_mono_suffix) (rule strip_all_suffix)
  moreover have "set ?t \<subseteq> set s" by (rule set_mono_suffix) (rule strip_all_suffix)
  ultimately show ?thesis by (simp add: trimSpace_def)
qed

lemma no_nul_trim: "no_nul s \<Longrightarrow> no_nul (trimSpace s)"
  using set_trimSpace [of s] by (auto simp: no_nul_def)

lemma no_nul_literals [simp]: "no_nul ''text''" "no_nul ''mentions''" "no_nul ''thinking''" "no_nul ''tool_use''" "no_nul ''tool_result''" "no_nul ''code''" "no_nul ''assistant''"
  by (simp_all add: no_nul_def)

lemma metadata_clean_simps [simp]: "metadata_clean []" "metadata_clean (kv # m) \<longleftrightarrow> no_nul (fst kv) \<and> json_clean (snd kv) \<and> metadata_clean m"
  by (simp_all add: metadata_clean_def)

lemma json_clean_object [simp]: "json_clean (JObj m) = metadata_clean m"
  by (simp add: metadata_clean_def list_all_iff)

declare json_clean.simps(3) [simp del]

lemma put_clean: "metadata_clean m \<Longrightarrow> no_nul k \<Longrightarrow> json_clean v \<Longrightarrow> metadata_clean (gm_put k v m)"
  by (induction m) auto

lemma put_all_clean: "metadata_clean m \<Longrightarrow> metadata_clean kvs \<Longrightarrow> metadata_clean (fold (\<lambda>kv m. gm_put (fst kv) (snd kv) m) kvs m)"
  by (induction kvs arbitrary: m) (simp_all add: put_clean)

lemma filter_clean: "metadata_clean m \<Longrightarrow> metadata_clean (filter P m)"
  by (induction m) auto

lemma sanitized_clean: "json_clean (sanitizeMessageValue v)"
proof (induction v)
  case (JArr xs)
  then show ?case by (simp add: list_all_iff)
next
  case (JObj kvs)
  have "metadata_clean (map (\<lambda>kv. (stripMessageNullBytes (fst kv), sanitizeMessageValue (snd kv))) kvs)"
    unfolding metadata_clean_def using JObj by (fastforce simp: snds.simps)
  then show ?case by (simp add: put_all_clean)
qed simp_all

lemma sanitized_map_clean: "metadata_clean (sanitizeMessageMap m)"
proof -
  have "metadata_clean (map (\<lambda>kv. (stripMessageNullBytes (fst kv), sanitizeMessageValue (snd kv))) m)"
    by (induction m) (simp_all add: sanitized_clean)
  then show ?thesis by (simp add: sanitizeMessageMap_def put_all_clean)
qed

lemma block_sanitized: "block_clean (sanitizeContentBlock b)"
  by (simp add: block_clean_def sanitizeContentBlock_def sanitized_map_clean)

lemma map_clean_get: "metadata_clean m \<Longrightarrow> map_of m k = Some v \<Longrightarrow> json_clean v"
  by (induction m) (auto split: if_splits)

lemma metadata_string_clean: "metadata_clean m \<Longrightarrow> no_nul (metadata_string m k)"
  using map_clean_get [of m k] by (auto simp: metadata_string_def split: option.split json.split intro!: no_nul_trim)

lemma firstMetadataString_clean: "metadata_clean m \<Longrightarrow> no_nul (firstMetadataString m ks)"
  using metadata_string_clean [of m] by (auto simp: firstMetadataString_def find_Some_iff split: option.split)

lemma metadataMap_clean: "metadata_clean m \<Longrightarrow> metadata_clean (metadataMap m k)"
  using map_clean_get [of m k] by (auto simp: metadataMap_def split: option.split json.split)

lemma content_text_clean [simp]: "no_nul (normalizeContentText c)"
  by (simp add: normalizeContentText_def)

lemma empty_block_clean: "block_clean empty_block"
  by (simp add: block_clean_def empty_block_def)

lemma structured_clean:
  assumes "metadata_clean m"
  shows "\<forall>b \<in> set (buildStructuredContentBlocks t c m). block_clean b"
proof -
  note m = firstMetadataString_clean [OF assms] metadataMap_clean [OF assms]
  show ?thesis unfolding buildStructuredContentBlocks_def Let_def using m by (simp add: block_clean_def empty_block_def)
qed

lemma kept_mentions:
  "set (keep_new seen xs) \<subseteq> set xs - seen \<and> distinct (keep_new seen xs) \<and> (\<forall>x \<in> set (keep_new seen xs). isCanonicalMentionTarget x)"
proof (induction seen xs rule: keep_new.induct)
  case (2 seen x xs)
  show ?case
  proof (cases "\<not> isCanonicalMentionTarget x \<or> x \<in> seen")
    case True
    then have "keep_new seen (x # xs) = keep_new seen xs" by simp
    with 2(1) [OF True] show ?thesis by auto
  next
    case False
    then have "keep_new seen (x # xs) = x # keep_new (insert x seen) xs" by simp
    with 2(2) [OF False] False show ?thesis by auto
  qed
qed simp

lemma mentions_clean: "json_clean (mentions_value (normalizeStructuredMentions vs))"
proof -
  have "no_nul (trimSpace (stripMessageNullBytes v))" for v by (simp add: no_nul_trim)
  then have "\<forall>x \<in> set (normalizeStructuredMentions vs). no_nul x"
    using kept_mentions [of "{}" "map (\<lambda>v. trimSpace (stripMessageNullBytes v)) vs"] by (auto simp: normalizeStructuredMentions_def)
  then show ?thesis by (simp add: mentions_value_def list_all_iff)
qed

lemma first_text_clean:
  "mention_first_text ms bs = Some bs' \<Longrightarrow> \<forall>b \<in> set bs. block_clean b \<Longrightarrow> json_clean (mentions_value ms) \<Longrightarrow> \<forall>b \<in> set bs'. block_clean b"
  by (induction bs arbitrary: bs') (auto simp: block_clean_def put_clean split: if_splits)

lemma mention_blocks_clean:
  "\<forall>b \<in> set bs. block_clean b \<Longrightarrow> json_clean (mentions_value ms) \<Longrightarrow> \<forall>b \<in> set (withStructuredMentionBlocks bs c ms). block_clean b"
  by (auto simp: withStructuredMentionBlocks_def Let_def dest: first_text_clean split: option.splits if_splits)
     (simp add: block_clean_def empty_block_def metadata_clean_def)

lemma raw_clean: "normalizeRawContent raw = (s, d) \<Longrightarrow> no_nul s \<and> json_clean d"
  using sanitized_clean [of "the (raw_value raw)"]
  by (auto simp: normalizeRawContent_def Let_def simp del: sanitizeMessageValue.simps split: if_splits option.splits json.splits)

lemma runtime_gone: "map_of (metadataWithoutXiaobaRuntime m) ''xiaoba_runtime'' = None"
  by (auto simp: metadataWithoutXiaobaRuntime_def map_of_eq_None_iff)

text \<open>Everything a payload promises.\<close>

definition payload_ok :: "normalizedMessagePayload \<Rightarrow> bool" where
  "payload_ok p \<longleftrightarrow>
     no_nul (np_StoredContent p) \<and> json_clean (np_DisplayContent p) \<and> metadata_clean (np_Metadata p) \<and>
     (\<forall>b \<in> set (np_ContentBlocks p). block_clean b) \<and> no_nul (np_ClientMsgID p) \<and> no_nul (np_Mode p) \<and> no_nul (np_Role p) \<and>
     np_DisplayType p \<noteq> [] \<and> no_nul (np_DisplayType p) \<and> np_StoredType p \<in> {''text'', ''image'', ''voice'', ''file''} \<and>
     length (np_ClientMsgID p) \<le> 128 \<and> distinct (np_Mentions p) \<and> (\<forall>x \<in> set (np_Mentions p). isCanonicalMentionTarget x) \<and>
     map_of (np_Metadata p) ''xiaoba_runtime'' = None \<and> (np_StoredContent p \<noteq> [] \<or> np_ContentBlocks p \<noteq> [])"

lemma inferred_clean: "json_clean d \<Longrightarrow> no_nul (inferDisplayTypeFromContent d)"
  by (auto simp: inferDisplayTypeFromContent_def dest!: map_clean_get split: json.split option.split)

lemma client_id_ok: "metadata_clean m \<Longrightarrow> no_nul (normalizeClientMsgID raw m) \<and> length (normalizeClientMsgID raw m) \<le> 128"
proof -
  have take: "no_nul s \<Longrightarrow> no_nul (take n s)" for n s by (auto simp: no_nul_def dest: in_set_takeD)
  assume "metadata_clean m"
  then show ?thesis by (simp add: normalizeClientMsgID_def Let_def take no_nul_trim firstMetadataString_clean)
qed

lemma request_metadata_ok: "metadata_clean (request_metadata req)" "map_of (request_metadata req) ''xiaoba_runtime'' = None"
proof -
  have "metadata_clean (metadataWithoutXiaobaRuntime (sanitizeMessageMap (sm_Metadata req)))"
    by (simp add: metadataWithoutXiaobaRuntime_def filter_clean sanitized_map_clean)
  then show "metadata_clean (request_metadata req)" by (simp add: request_metadata_def Let_def put_clean mentions_clean)
  show "map_of (request_metadata req) ''xiaoba_runtime'' = None"
    by (simp add: request_metadata_def Let_def gm_get_put runtime_gone)
qed

lemma stored_type: "normalizeStoredMsgType t \<in> {''text'', ''image'', ''voice'', ''file''}"
  by (simp add: normalizeStoredMsgType_def)

lemma request_type_ok: "json_clean d \<Longrightarrow> no_nul (display_type_of req d) \<and> display_type_of req d \<noteq> []"
  using no_nul_strip by (simp add: display_type_of_def Let_def inferred_clean request_type_def)

lemma request_blocks_clean: "\<forall>b \<in> set (np_ContentBlocks (request_payload req s d)). block_clean b"
proof -
  have "\<forall>b \<in> set (sanitizeContentBlocks (sm_ContentBlocks req)). block_clean b"
    by (auto simp: sanitizeContentBlocks_def block_sanitized)
  moreover have "\<forall>b \<in> set (buildStructuredContentBlocks t d (request_metadata req)). block_clean b" for t
    by (rule structured_clean) (rule request_metadata_ok)
  ultimately have "\<forall>b \<in> set (if c then buildStructuredContentBlocks t d (request_metadata req) else sanitizeContentBlocks (sm_ContentBlocks req)).
      block_clean b" for c t by simp
  from mention_blocks_clean [OF this mentions_clean] show ?thesis by (simp only: request_payload_def Let_def normalizedMessagePayload.simps)
qed

text \<open>
  C38: whatever a client sends, a request is either refused or becomes a payload that is fit to be stored: no NUL byte is
  left anywhere in it, its client id fits the column, its stored type is one the readers know, its mentions are canonical
  and name nobody twice, the server's own device directory is not among its metadata, and there is something to store.
\<close>

theorem normalized_request_is_payload:
  assumes "normalizeMessageRequest req = Inr p"
  shows "payload_ok p"
proof -
  obtain s d where raw: "normalizeRawContent (sm_Content req) = (s, d)" by fastforce
  from assms have p: "p = request_payload req s d" and some: "s \<noteq> [] \<or> np_ContentBlocks p \<noteq> []"
    by (auto simp: normalizeMessageRequest_def raw Let_def split: if_splits)
  have some: "s \<noteq> [] \<or> np_ContentBlocks (request_payload req s d) \<noteq> []" using some p by simp
  from raw_clean [OF raw] have clean: "no_nul s" "json_clean d" by simp_all
  note m = request_metadata_ok [of req]
  have ms: "distinct (normalizeStructuredMentions (sm_Mentions req))" "\<forall>x \<in> set (normalizeStructuredMentions (sm_Mentions req)). isCanonicalMentionTarget x"
    using kept_mentions [of "{}" "map (\<lambda>v. trimSpace (stripMessageNullBytes v)) (sm_Mentions req)"] by (auto simp: normalizeStructuredMentions_def)
  show ?thesis
    unfolding p payload_ok_def
    using some clean m ms request_type_ok [OF clean(2), of req] client_id_ok [OF m(1)] request_blocks_clean [of req s d]
      stored_type [of "display_type_of req d"]
    by (simp add: request_payload_def Let_def)
qed

text \<open>A message with a NUL byte, two mentions of one bot and an id that is too long.\<close>

definition sample_send :: SendMessageRequest where
  "sample_send = \<lparr>sm_TopicID = ''p2p_2_7'', sm_ClientMsgID = replicate 200 (CHR ''x''),
     sm_Content = \<lparr>raw_text = CHR 0x22 # ''hi'' @ [CHR 0x22], raw_value = Some (JStr (''hi'' @ [CHR 0x00]))\<rparr>, sm_ContentBlocks = [],
     sm_Metadata = [(''xiaoba_runtime'', JNum 1)], sm_MsgType = [], sm_Type = [], sm_Mode = [], sm_Role = [], sm_ReplyTo = 0,
     sm_Mentions = [''usr7'', '' usr7'', ''bob'']\<rparr>"

theorem normalized_request_is_payload_witness:
  "\<exists>p. normalizeMessageRequest sample_send = Inr p \<and> payload_ok p \<and> np_StoredContent p = ''hi'' \<and> np_Mentions p = [''usr7'']"
proof -
  have r: "(case normalizeMessageRequest sample_send of Inl e \<Rightarrow> False
      | Inr p \<Rightarrow> np_StoredContent p = ''hi'' \<and> np_Mentions p = [''usr7''])" by code_simp
  then obtain p where p: "normalizeMessageRequest sample_send = Inr p" by (auto split: sum.splits)
  with r normalized_request_is_payload [OF p] show ?thesis by simp
qed

end
