(* ===== verification/GroupTurns.thy ===== *)
theory GroupTurns
  imports GroupActivation TaskRecovery MessageRequests
begin

text \<open>
  Turns of bots in a group (\<open>server/group_stream_cancel.go\<close>): the first request a person makes of a bot
  reserves its turn, task statuses of the bot bind it to a run and end it, and only the person who started
  a turn may stop it. With it the parts of \<open>server/wshandler.go\<close> that open turns and that stop them. What
  the database says of a group and of users is an argument; messages that are sent are the list of their
  recipients.
\<close>

section \<open>The tracker\<close>

record groupAgentTurn =
  gt_initiatorUID :: uid
  gt_requestSeqID :: int
  gt_runID :: string
  gt_updatedAt :: go_time

record groupAgentTurnTracker =
  tt_ttl :: duration
  tt_turns :: "(int, uid, groupAgentTurn) nmap"

definition defaultGroupAgentTurnTTL :: duration where
  "defaultGroupAgentTurnTTL = 30 * go_minute"

definition newGroupAgentTurnTracker :: "duration \<Rightarrow> groupAgentTurnTracker" where
  "newGroupAgentTurnTracker ttl = \<lparr>tt_ttl = (if ttl \<le> 0 then defaultGroupAgentTurnTTL else ttl), tt_turns = []\<rparr>"

definition nm_keep :: "('v \<Rightarrow> bool) \<Rightarrow> ('o, 'k, 'v) nmap \<Rightarrow> ('o, 'k, 'v) nmap" where
  "nm_keep P m = filter (\<lambda>gi. snd gi \<noteq> []) (map (\<lambda>gi. (fst gi, gm_keep P (snd gi))) m)"

definition pruneExpiredLocked :: "go_time \<Rightarrow> groupAgentTurnTracker \<Rightarrow> groupAgentTurnTracker" where
  "pruneExpiredLocked now t = t\<lparr>tt_turns := nm_keep (\<lambda>turn. \<not> now - gt_updatedAt turn > tt_ttl t) (tt_turns t)\<rparr>"

definition turn_of :: "int \<Rightarrow> uid \<Rightarrow> groupAgentTurnTracker \<Rightarrow> groupAgentTurn option" where
  "turn_of groupID botUID t = nm_get (tt_turns t) groupID botUID"

definition clearLocked :: "int \<Rightarrow> uid \<Rightarrow> groupAgentTurnTracker \<Rightarrow> groupAgentTurnTracker" where
  "clearLocked groupID botUID t = t\<lparr>tt_turns := nm_del groupID botUID (tt_turns t)\<rparr>"

definition begin_turn ::
  "int \<Rightarrow> uid \<Rightarrow> uid \<Rightarrow> int \<Rightarrow> go_time \<Rightarrow> groupAgentTurnTracker \<Rightarrow> groupAgentTurnTracker \<times> bool" where
  "begin_turn groupID botUID initiatorUID requestSeqID now t =
     (if groupID \<le> 0 \<or> botUID \<le> 0 \<or> initiatorUID \<le> 0 \<or> requestSeqID \<le> 0 then (t, False)
      else let t = pruneExpiredLocked now t
           in if turn_of groupID botUID t \<noteq> None then (t, False)
              else (t\<lparr>tt_turns := nm_put groupID botUID
                      \<lparr>gt_initiatorUID = initiatorUID, gt_requestSeqID = requestSeqID, gt_runID = [], gt_updatedAt = now\<rparr> (tt_turns t)\<rparr>, True))"

definition initiatedBy :: "int \<Rightarrow> uid \<Rightarrow> uid \<Rightarrow> go_time \<Rightarrow> groupAgentTurnTracker \<Rightarrow> groupAgentTurnTracker \<times> bool" where
  "initiatedBy groupID botUID requesterUID now t =
     (if groupID \<le> 0 \<or> botUID \<le> 0 \<or> requesterUID \<le> 0 then (t, False)
      else case turn_of groupID botUID t of
        None \<Rightarrow> (t, False)
      | Some turn \<Rightarrow>
          if now - gt_updatedAt turn > tt_ttl t then (clearLocked groupID botUID t, False)
          else (t, gt_initiatorUID turn = requesterUID))"

definition normalizeTaskStatusState :: "string \<Rightarrow> string" where
  "normalizeTaskStatusState value =
     (let v = toLower (trimSpace (stripMessageNullBytes value))
      in if v \<in> {''done'', ''complete'', ''success'', ''succeeded''} then ''completed''
         else if v \<in> {''error'', ''errored'', ''failure''} then ''failed''
         else if v \<in> {''canceled'', ''cancelled'', ''stopped''} then ''cancelled''
         else if v \<in> {''timeout'', ''timed_out'', ''stuck''} then ''stale''
         else if v \<in> {''in_progress'', ''processing'', ''working''} then ''running''
         else v)"

definition observeTaskStatus ::
  "int \<Rightarrow> uid \<Rightarrow> string \<Rightarrow> string \<Rightarrow> go_time \<Rightarrow> groupAgentTurnTracker \<Rightarrow> groupAgentTurnTracker" where
  "observeTaskStatus groupID botUID runID state now t =
     (let run = trimSpace runID; st = normalizeTaskStatusState state
      in if groupID \<le> 0 \<or> botUID \<le> 0 then t
         else if run = [] \<or> (\<not> active_state st \<and> \<not> IsTerminalConversationTaskState st) then t
         else let t = pruneExpiredLocked now t
              in case turn_of groupID botUID t of
                   None \<Rightarrow> t
                 | Some turn \<Rightarrow>
                     if active_state st
                     then if gt_runID turn \<noteq> [] \<and> gt_runID turn \<noteq> run then t
                          else t\<lparr>tt_turns := nm_put groupID botUID (turn\<lparr>gt_runID := run, gt_updatedAt := now\<rparr>) (tt_turns t)\<rparr>
                     else if gt_runID turn \<noteq> run then t
                     else clearLocked groupID botUID t)"

definition activeBots :: "int \<Rightarrow> go_time \<Rightarrow> groupAgentTurnTracker \<Rightarrow> groupAgentTurnTracker \<times> uid list" where
  "activeBots groupID now t =
     (if groupID \<le> 0 then (t, [])
      else let t = pruneExpiredLocked now t in (t, map fst (nm_inner (tt_turns t) groupID)))"

definition clear_turn :: "int \<Rightarrow> uid \<Rightarrow> groupAgentTurnTracker \<Rightarrow> groupAgentTurnTracker" where
  "clear_turn groupID botUID t = (if groupID \<le> 0 \<or> botUID \<le> 0 then t else clearLocked groupID botUID t)"

definition observeGroupAgentTaskStatus :: "ConversationTaskStatus \<Rightarrow> go_time \<Rightarrow> groupAgentTurnTracker \<Rightarrow> groupAgentTurnTracker" where
  "observeGroupAgentTaskStatus status now t =
     (let groupID = extractGroupID (ts_TopicID status)
      in if \<not> isGroupTopic (ts_TopicID status) \<or> groupID \<le> 0 \<or> ts_SourceUID status \<le> 0 then t
         else observeTaskStatus groupID (ts_SourceUID status) (ts_RunID status) (ts_State status) now t)"

section \<open>Who is a bot\<close>

text \<open>A connection of the user that is not a device connector; Go takes any of them.\<close>

definition getClient :: "uid \<Rightarrow> ('a, 'b) Hub \<Rightarrow> client_ref option" where
  "getClient u h = List.find (\<lambda>c. wc_deviceConnector (hub_client h c) = None) (hub_clients_of u h)"

definition connected_as :: "AccountType \<Rightarrow> uid \<Rightarrow> ('a, 'b) Hub \<Rightarrow> bool" where
  "connected_as a u h \<longleftrightarrow> (case getClient u h of None \<Rightarrow> False | Some c \<Rightarrow> wc_accountType (hub_client h c) = a)"

text \<open>\<open>accounts\<close> is the account of a user in the database, if it can be read.\<close>

definition isBotUser :: "(uid \<Rightarrow> AccountType option) \<Rightarrow> uid \<Rightarrow> ('a, 'b) Hub \<Rightarrow> bool" where
  "isBotUser accounts u h \<longleftrightarrow> u > 0 \<and> (connected_as AccountBot u h \<or> accounts u = Some AccountBot)"

section \<open>Opening turns\<close>

record group_row =
  gw_Kind :: string
  gw_AgentIDs :: "uid list"

definition defaultAgentForGroup :: "group_row option \<Rightarrow> int \<Rightarrow> nat \<Rightarrow> string list \<Rightarrow> bool \<Rightarrow> bool \<Rightarrow> uid" where
  "defaultAgentForGroup row groupID memberCount mentions senderIsBot trustedChannelTrigger =
     (if groupID \<le> 0 \<or> memberCount \<le> 2 \<or> trustedChannelTrigger \<or> senderIsBot \<or> mentions \<noteq> [] then 0
      else case row of
        None \<Rightarrow> 0
      | Some g \<Rightarrow> if gw_Kind g \<noteq> ''agent_task'' then 0 else case gw_AgentIDs g of [] \<Rightarrow> 0 | a # _ \<Rightarrow> a)"

definition activationMutedUIDs :: "GroupMember list \<Rightarrow> uid list" where
  "activationMutedUIDs members = map me_UserID (filter me_Muted members)"

text \<open>\<open>working\<close> are the sources the store has active runs of, if it can tell.\<close>

definition activationWorkingUIDs :: "int \<Rightarrow> uid list option \<Rightarrow> go_time \<Rightarrow> groupAgentTurnTracker \<Rightarrow> groupAgentTurnTracker \<times> uid list" where
  "activationWorkingUIDs groupID working now t =
     (if groupID \<le> 0 then (t, [])
      else case activeBots groupID now t of
        (t, bots) \<Rightarrow> (t, remdups (filter (\<lambda>u. u > 0) (bots @ (case working of None \<Rightarrow> [] | Some us \<Rightarrow> us)))))"

text \<open>What the database and this server know when a message goes to a group.\<close>

record group_world =
  gr_members :: "GroupMember list option"
  gr_row :: "group_row option"
  gr_managed :: bool
  gr_working :: "uid list option"
  gr_accounts :: "uid \<Rightarrow> AccountType option"
  gr_context :: "GroupJudgeContext option"
  gr_prompt :: ActivationPrompt

definition activation_request ::
  "group_world \<Rightarrow> int \<Rightarrow> GroupMember list \<Rightarrow> MsgServerData option \<Rightarrow> string list \<Rightarrow> uid \<Rightarrow> bool \<Rightarrow> bool \<Rightarrow> uid list \<Rightarrow>
   GroupActivationRequest" where
  "activation_request w groupID members msg mentions senderUID senderIsBot trusted working =
     \<lparr>aq_SenderUID = senderUID, aq_Members = members, aq_Mentions = mentions, aq_TrustedChannelTrigger = trusted,
      aq_NotConversation = \<not> isJudgeableActivationMessage msg, aq_MutedUIDs = activationMutedUIDs members,
      aq_WorkingUIDs = Some working,
      aq_DefaultAgentUID = defaultAgentForGroup (gr_row w) groupID (length members) mentions senderIsBot trusted,
      aq_JudgeContext = (if msg = None then None else gr_context w)\<rparr>"

text \<open>The loader of working members, which prunes the tracker, is called only on the way to the judge.\<close>

definition loads_working :: "GroupActivationRequest \<Rightarrow> bool" where
  "loads_working req \<longleftrightarrow> open_message req \<and> candidate_bots req \<noteq> [] \<and>
     activationExcludingUIDs (candidate_bots req) (activationUIDSet (aq_MutedUIDs req)) \<noteq> []"

definition resolveGroupActivation ::
  "JevGroupActivationResolver option \<Rightarrow> group_world \<Rightarrow> int \<Rightarrow> GroupMember list \<Rightarrow> MsgServerData option \<Rightarrow> string list \<Rightarrow> uid \<Rightarrow>
   bool \<Rightarrow> bool \<Rightarrow> go_time \<Rightarrow> groupAgentTurnTracker \<Rightarrow> groupAgentTurnTracker \<times> GroupActivationDecision \<times> judge_call option" where
  "resolveGroupActivation resolver w groupID members msg mentions senderUID senderIsBot trusted now t =
     (case activationWorkingUIDs groupID (gr_working w) now t of
        (t', working) \<Rightarrow>
          let req = activation_request w groupID members msg mentions senderUID senderIsBot trusted working
          in case resolver of
               None \<Rightarrow> (t, deterministicGroupActivation req, None)
             | Some r \<Rightarrow> (if loads_working req then t' else t, Resolve r (gr_prompt w) req))"

record group_delivery =
  gd_uid :: uid
  gd_bot :: bool
  gd_activated :: bool

definition deliver_member ::
  "('a, 'b) Hub \<Rightarrow> group_world \<Rightarrow> int \<Rightarrow> MsgServerData option \<Rightarrow> uid \<Rightarrow> uid \<Rightarrow> bool \<Rightarrow> (uid, score) gomap \<Rightarrow> go_time \<Rightarrow> GroupMember \<Rightarrow>
   groupAgentTurnTracker \<times> group_delivery list \<Rightarrow> groupAgentTurnTracker \<times> group_delivery list" where
  "deliver_member h w groupID msg excludeUID senderUID senderIsBot activated now m st =
     (let isBot = (me_IsBot m \<or> connected_as AccountBot (me_UserID m) h);
          wakes = (isBot \<and> map_of activated (me_UserID m) \<noteq> None)
      in if me_UserID m = excludeUID \<or> (gr_managed w \<and> \<not> isBot) then st
         else ((if wakes \<and> \<not> senderIsBot \<and> isGroupAgentTurnRequest msg
                then fst (begin_turn groupID (me_UserID m) senderUID (case msg of None \<Rightarrow> 0 | Some d \<Rightarrow> sd_SeqID d) now (fst st))
                else fst st),
               snd st @ [\<lparr>gd_uid = me_UserID m, gd_bot = isBot, gd_activated = wakes\<rparr>]))"

definition broadcastToGroupWithMentions ::
  "('a, 'b) Hub \<Rightarrow> JevGroupActivationResolver option \<Rightarrow> group_world \<Rightarrow> int \<Rightarrow> MsgServerData option \<Rightarrow> uid \<Rightarrow> string list \<Rightarrow> uid \<Rightarrow> bool \<Rightarrow>
   go_time \<Rightarrow> groupAgentTurnTracker \<Rightarrow> groupAgentTurnTracker \<times> group_delivery list" where
  "broadcastToGroupWithMentions h resolver w groupID msg excludeUID mentions senderUID trusted now t =
     (case gr_members w of
        None \<Rightarrow> (t, [])
      | Some members \<Rightarrow>
          let senderIsBot = isBotUser (gr_accounts w) senderUID h
          in case resolveGroupActivation resolver w groupID members msg mentions senderUID senderIsBot trusted now t of
               (t, decision, _) \<Rightarrow>
                 fold (deliver_member h w groupID msg excludeUID senderUID senderIsBot (ad_Activated decision) now) members (t, []))"

section \<open>Stopping turns\<close>

type_synonym refusal = "nat \<times> string"

definition group_isBot :: "('a, 'b) Hub \<Rightarrow> group_world \<Rightarrow> GroupMember \<Rightarrow> bool" where
  "group_isBot h w m \<longleftrightarrow> me_IsBot m \<or> isBotUser (gr_accounts w) (me_UserID m) h"

text \<open>The loop over the members: whether the requester is one and a bot, the target a bot, and the last bot.\<close>

record cancel_scan =
  sc_requesterIsMember :: bool
  sc_requesterIsBot :: bool
  sc_targetIsBot :: bool
  sc_onlyBotUID :: uid
  sc_botCount :: nat
  sc_memberCount :: nat

definition scan_member :: "('a, 'b) Hub \<Rightarrow> group_world \<Rightarrow> uid \<Rightarrow> uid \<Rightarrow> GroupMember \<Rightarrow> cancel_scan \<Rightarrow> cancel_scan" where
  "scan_member h w requesterUID targetBotUID m s =
     (let isBot = group_isBot h w m;
          s = s\<lparr>sc_memberCount := sc_memberCount s + 1\<rparr>;
          s = (if me_UserID m = requesterUID then s\<lparr>sc_requesterIsMember := True, sc_requesterIsBot := isBot\<rparr> else s)
      in if \<not> isBot then s
         else s\<lparr>sc_botCount := sc_botCount s + 1, sc_onlyBotUID := me_UserID m,
               sc_targetIsBot := (sc_targetIsBot s \<or> me_UserID m = targetBotUID)\<rparr>)"

definition scan_members :: "('a, 'b) Hub \<Rightarrow> group_world \<Rightarrow> uid \<Rightarrow> uid \<Rightarrow> GroupMember list \<Rightarrow> cancel_scan" where
  "scan_members h w requesterUID targetBotUID members =
     fold (scan_member h w requesterUID targetBotUID) members
       \<lparr>sc_requesterIsMember = False, sc_requesterIsBot = False, sc_targetIsBot = False, sc_onlyBotUID = 0, sc_botCount = 0, sc_memberCount = 0\<rparr>"

definition authorizeGroupStreamCancel ::
  "('a, 'b) Hub \<Rightarrow> group_world \<Rightarrow> int \<Rightarrow> uid \<Rightarrow> metadata \<Rightarrow> go_time \<Rightarrow> groupAgentTurnTracker \<Rightarrow>
   groupAgentTurnTracker \<times> (refusal + uid \<times> GroupMember list)" where
  "authorizeGroupStreamCancel h w groupID requesterUID metadata now t =
     (if groupID \<le> 0 \<or> requesterUID \<le> 0 then (t, Inl (500, ''cancel authorization unavailable''))
      else case gr_members w of
        None \<Rightarrow> (t, Inl (500, ''group members unavailable''))
      | Some members \<Rightarrow>
          let targetBotUID = firstMetadataInt64 metadata [''target_bot_uid'', ''target_agent_uid''];
              s = scan_members h w requesterUID targetBotUID members;
              alone = (sc_memberCount s = 2 \<and> sc_botCount s = 1 \<and> \<not> sc_requesterIsBot s);
              implied = (targetBotUID = 0 \<and> alone);
              target = (if implied then sc_onlyBotUID s else targetBotUID);
              targetIsBot = (implied \<or> sc_targetIsBot s)
          in if \<not> sc_requesterIsMember s then (t, Inl (403, ''not a group member''))
             else if target = 0 \<or> \<not> targetIsBot then (t, Inl (403, ''target agent required''))
             else if alone then (t, Inr (target, members))
             else case initiatedBy groupID target requesterUID now t of
               (t, ok) \<Rightarrow> if \<not> ok then (t, Inl (403, ''only the current turn initiator can stop this agent''))
                        else (t, Inr (target, members)))"

definition metadataWithoutArtifactContext :: "metadata \<Rightarrow> metadata" where
  "metadataWithoutArtifactContext m =
     filter (\<lambda>kv. fst kv \<notin> {''artifact_ref'', ''artifact_context'', ''artifact_page_context'', ''artifact_context_ref'', ''artifact_task_ref''}) m"

definition cancel_metadata :: "string \<Rightarrow> uid \<Rightarrow> metadata \<Rightarrow> metadata" where
  "cancel_metadata streamID targetBotUID m =
     gm_put ''target_bot_uid'' (JNum targetBotUID) (gm_put ''stream_event'' (JStr ''cancel'')
       (gm_put ''stream_id'' (JStr streamID) (metadataWithoutXiaobaRuntime (metadataWithoutArtifactContext m))))"

definition fanoutGroupStreamCancel ::
  "('a, 'b) Hub \<Rightarrow> group_world \<Rightarrow> uid \<Rightarrow> string \<Rightarrow> uid \<Rightarrow> metadata \<Rightarrow> GroupMember list \<Rightarrow> (uid \<times> metadata) list" where
  "fanoutGroupStreamCancel h w requesterUID streamID targetBotUID m members =
     map (\<lambda>x. (me_UserID x, cancel_metadata streamID targetBotUID m))
       (filter (\<lambda>x. me_UserID x \<noteq> requesterUID \<and> \<not> (group_isBot h w x \<and> me_UserID x \<noteq> targetBotUID)) members)"

text \<open>What the store of session forks says of a topic: there may be no such store, and it may fail.\<close>

datatype fork_state = NoForkStore | ForkUnknown | ForkWritable bool

definition sessionForkPublishError :: "fork_state \<Rightarrow> refusal option" where
  "sessionForkPublishError s =
     (case s of NoForkStore \<Rightarrow> None | ForkUnknown \<Rightarrow> Some (503, ''session_fork_state_unavailable'')
      | ForkWritable writable \<Rightarrow> if writable then None else Some (409, ''session_fork_not_ready''))"

text \<open>\<open>handleStreamPub\<close> for a cancellation in a group.\<close>

record stream_world =
  sw_fork :: fork_state
  sw_group :: group_world
  sw_isMember :: bool
  sw_isMuted :: bool

definition handleGroupStreamCancel ::
  "('a, 'b) Hub \<Rightarrow> stream_world \<Rightarrow> uid \<Rightarrow> AccountType \<Rightarrow> string \<Rightarrow> metadata \<Rightarrow> go_time \<Rightarrow> groupAgentTurnTracker \<Rightarrow>
   groupAgentTurnTracker \<times> refusal \<times> (uid \<times> metadata) list" where
  "handleGroupStreamCancel h sw u accountType topic m now t =
     (let streamID = firstMetadataString m [''stream_id'']; groupID = extractGroupID topic; w = sw_group sw
      in case sessionForkPublishError (sw_fork sw) of Some e \<Rightarrow> (t, e, [])
         | None \<Rightarrow>
           if trimSpace topic = [] then (t, (400, ''topic required''), [])
           else if streamID = [] then (t, (400, ''stream_id required''), [])
           else if groupID = 0 then (t, (400, ''invalid group topic''), [])
           else if gr_managed w \<and> accountType = AccountHuman then (t, (404, ''group not found''), [])
           else if \<not> sw_isMember sw then (t, (403, ''not a group member''), [])
           else if sw_isMuted sw then (t, (403, ''you are muted in this group''), [])
           else case authorizeGroupStreamCancel h w groupID u m now t of
                  (t, Inl e) \<Rightarrow> (t, e, [])
                | (t, Inr (target, members)) \<Rightarrow>
                    (clear_turn groupID target t, (200, ''ok''), fanoutGroupStreamCancel h w u streamID target m members))"

end
