(* ===== verification/GroupTurnSafety.thy ===== *)
theory GroupTurnSafety
  imports GroupTurns
begin

text \<open>
  What the tracker of group turns guarantees: a turn belongs to the person who started it until it ends, only
  that person stops the bot, a woken bot has a turn, and a bot with a turn is not asked about again.
\<close>

section \<open>The tracker's maps\<close>

lemma nm_keep_get: "nm_ok m \<Longrightarrow> nm_get (nm_keep P m) u k = (case nm_get m u k of None \<Rightarrow> None | Some v \<Rightarrow> if P v then Some v else None)"
proof -
  assume ok: "nm_ok m"
  let ?m = "map (\<lambda>gi. (fst gi, gm_keep P (snd gi))) m"
  have keys: "map fst ?m = map fst m" by simp
  then have "gm_ok ?m" using ok unfolding nm_ok_def gm_ok_def by metis
  then have get: "map_of (nm_keep P m) u = (case map_of ?m u of None \<Rightarrow> None | Some i \<Rightarrow> if i \<noteq> [] then Some i else None)"
    using gm_get_keep [of ?m "\<lambda>i. i \<noteq> []" u] by (simp add: nm_keep_def gm_keep_def)
  have "map_of ?m u = map_option (gm_keep P) (map_of m u)" by (induction m) auto
  with get have "nm_inner (nm_keep P m) u = gm_keep P (nm_inner m u)"
    by (auto simp: nm_inner_def gm_keep_def split: option.split)
  with nm_ok_inner [OF ok, of u] show ?thesis by (simp add: nm_get_def gm_get_keep)
qed

lemma nm_keep_ok [simp]: "nm_ok m \<Longrightarrow> nm_ok (nm_keep P m)"
proof -
  assume ok: "nm_ok m"
  have "map fst (nm_keep P m) = map fst (filter (\<lambda>gi. gm_keep P (snd gi) \<noteq> []) m)"
    by (induction m) (auto simp: nm_keep_def)
  with ok have "gm_ok (nm_keep P m)" by (simp add: nm_ok_def gm_ok_def distinct_map_filter)
  moreover have "gm_ok i \<and> i \<noteq> []" if "i \<in> snd ` set (nm_keep P m)" for i
    using that ok by (auto simp: nm_keep_def nm_ok_def)
  ultimately show ?thesis by (simp add: nm_ok_def)
qed

lemma nm_inner_keys: "v \<in> set (map fst (nm_inner m u)) \<longleftrightarrow> nm_get m u v \<noteq> None"
  by (simp add: nm_get_def map_of_eq_None_iff)

definition tracker_ok :: "groupAgentTurnTracker \<Rightarrow> bool" where
  "tracker_ok t \<longleftrightarrow> nm_ok (tt_turns t)"

lemma turn_prune: "tracker_ok t \<Longrightarrow> turn_of g b (pruneExpiredLocked now t) =
    (case turn_of g b t of None \<Rightarrow> None | Some turn \<Rightarrow> if now - gt_updatedAt turn > tt_ttl t then None else Some turn)"
  by (simp add: tracker_ok_def turn_of_def pruneExpiredLocked_def nm_keep_get split: option.split)

lemma turn_clear: "turn_of g b (clearLocked g' b' t) = (if g = g' \<and> b = b' then None else turn_of g b t)"
  by (simp add: turn_of_def clearLocked_def gomap_simps)

lemma turn_put: "turn_of g b (t\<lparr>tt_turns := nm_put g' b' turn (tt_turns t)\<rparr>) = (if g = g' \<and> b = b' then Some turn else turn_of g b t)"
  by (simp add: turn_of_def gomap_simps)

lemma tracker_intros [simp]:
  "tracker_ok (newGroupAgentTurnTracker ttl)" "tracker_ok t \<Longrightarrow> tracker_ok (pruneExpiredLocked now t)"
  "tracker_ok t \<Longrightarrow> tracker_ok (clearLocked g b t)" "tracker_ok t \<Longrightarrow> tracker_ok (t\<lparr>tt_turns := nm_put g b turn (tt_turns t)\<rparr>)"
  by (simp_all add: tracker_ok_def newGroupAgentTurnTracker_def pruneExpiredLocked_def clearLocked_def)

lemma ttl_frame [simp]:
  "tt_ttl (pruneExpiredLocked now t) = tt_ttl t" "tt_ttl (clearLocked g b t) = tt_ttl t"
  by (simp_all add: pruneExpiredLocked_def clearLocked_def)

section \<open>Whose turn it is\<close>

datatype turn_op =
    TBegin int uid uid int go_time
  | TAsk int uid uid go_time
  | TObserve int uid string string go_time
  | TActive int go_time
  | TClear int uid

fun turn_step :: "turn_op \<Rightarrow> groupAgentTurnTracker \<Rightarrow> groupAgentTurnTracker" where
  "turn_step (TBegin g b u s now) t = fst (begin_turn g b u s now t)"
| "turn_step (TAsk g b u now) t = fst (initiatedBy g b u now t)"
| "turn_step (TObserve g b run state now) t = observeTaskStatus g b run state now t"
| "turn_step (TActive g now) t = fst (activeBots g now t)"
| "turn_step (TClear g b) t = clear_turn g b t"

fun between :: "go_time \<Rightarrow> go_time \<Rightarrow> turn_op \<Rightarrow> bool" where
  "between lo hi (TBegin g b u s now) \<longleftrightarrow> lo \<le> now \<and> now \<le> hi"
| "between lo hi (TAsk g b u now) \<longleftrightarrow> lo \<le> now \<and> now \<le> hi"
| "between lo hi (TObserve g b run state now) \<longleftrightarrow> lo \<le> now \<and> now \<le> hi"
| "between lo hi (TActive g now) \<longleftrightarrow> lo \<le> now \<and> now \<le> hi"
| "between lo hi (TClear g b) \<longleftrightarrow> True"

text \<open>What ends a turn: the bot is stopped, or a final status of the run the turn is bound to.\<close>

fun ends_turn :: "int \<Rightarrow> uid \<Rightarrow> turn_op \<Rightarrow> groupAgentTurnTracker \<Rightarrow> bool" where
  "ends_turn g b (TClear g' b') t \<longleftrightarrow> g' = g \<and> b' = b"
| "ends_turn g b (TObserve g' b' run state now) t \<longleftrightarrow> g' = g \<and> b' = b \<and> trimSpace run \<noteq> [] \<and>
     IsTerminalConversationTaskState (normalizeTaskStatusState state) \<and>
     (case turn_of g b t of None \<Rightarrow> False | Some turn \<Rightarrow> gt_runID turn = trimSpace run)"
| "ends_turn g b _ t \<longleftrightarrow> False"

fun goes_on :: "int \<Rightarrow> uid \<Rightarrow> turn_op list \<Rightarrow> groupAgentTurnTracker \<Rightarrow> bool" where
  "goes_on g b [] t \<longleftrightarrow> True"
| "goes_on g b (op # ops) t \<longleftrightarrow> \<not> ends_turn g b op t \<and> goes_on g b ops (turn_step op t)"

definition holds_turn :: "int \<Rightarrow> uid \<Rightarrow> uid \<Rightarrow> go_time \<Rightarrow> groupAgentTurnTracker \<Rightarrow> bool" where
  "holds_turn g b u since t \<longleftrightarrow> (\<exists>turn. turn_of g b t = Some turn \<and> gt_initiatorUID turn = u \<and> since \<le> gt_updatedAt turn)"

lemma holds_prune: "tracker_ok t \<Longrightarrow> holds_turn g b u since t \<Longrightarrow> now \<le> since + tt_ttl t \<Longrightarrow> holds_turn g b u since (pruneExpiredLocked now t)"
  by (auto simp: holds_turn_def turn_prune)

lemma step_ok: "tracker_ok t \<Longrightarrow> tracker_ok (turn_step op t) \<and> tt_ttl (turn_step op t) = tt_ttl t"
  by (cases op) (simp_all add: begin_turn_def initiatedBy_def observeTaskStatus_def activeBots_def clear_turn_def Let_def split: option.split)

lemma steps_ok: "tracker_ok t \<Longrightarrow> tracker_ok (fold turn_step ops t) \<and> tt_ttl (fold turn_step ops t) = tt_ttl t"
  by (induction ops arbitrary: t) (simp_all add: step_ok)

lemma holds_begin:
  assumes "tracker_ok t" "holds_turn g b u since t" "now \<le> since + tt_ttl t"
  shows "holds_turn g b u since (fst (begin_turn g' b' v s now t))" and "\<not> snd (begin_turn g b v s now t)"
  using holds_prune [OF assms] assms(2)
  by (auto simp: begin_turn_def Let_def holds_turn_def turn_put)

lemma holds_ask:
  assumes "tracker_ok t" "holds_turn g b u since t" "now \<le> since + tt_ttl t"
  shows "holds_turn g b u since (fst (initiatedBy g' b' v now t))"
  using assms by (auto simp: initiatedBy_def holds_turn_def turn_clear split: option.split)

lemma holds_observe:
  assumes "tracker_ok t" "holds_turn g b u since t" "now \<le> since + tt_ttl t" "since \<le> now"
    and "\<not> ends_turn g b (TObserve g' b' run state now) t"
  shows "holds_turn g b u since (observeTaskStatus g' b' run state now t)"
proof -
  note p = holds_prune [OF assms(1-3)]
  have same: "turn_of g b (pruneExpiredLocked now t) = turn_of g b t"
    using assms(2,3) by (auto simp: turn_prune [OF assms(1)] holds_turn_def)
  show ?thesis
  proof (cases "g' = g \<and> b' = b")
    case True
    with p same assms show ?thesis
      by (auto simp: observeTaskStatus_def Let_def holds_turn_def turn_put active_state_def split: option.splits)
  next
    case False
    with p assms(2) show ?thesis
      by (auto simp: observeTaskStatus_def Let_def holds_turn_def turn_put turn_clear split: option.split)
  qed
qed

lemma holds_step:
  assumes "tracker_ok t" "holds_turn g b u since t" "between since (since + tt_ttl t) op" "\<not> ends_turn g b op t"
  shows "holds_turn g b u since (turn_step op t)"
proof (cases op)
  case (TBegin g' b' v s now)
  with assms holds_begin(1) [OF assms(1,2), of now] show ?thesis by simp
next
  case (TAsk g' b' v now)
  with assms holds_ask [OF assms(1,2), of now] show ?thesis by simp
next
  case (TObserve g' b' run state now)
  with assms holds_observe [OF assms(1,2), of now g' b' run state] show ?thesis by simp
next
  case (TActive g' now)
  with assms holds_prune [OF assms(1,2), of now] show ?thesis by (simp add: activeBots_def Let_def)
next
  case (TClear g' b')
  with assms show ?thesis by (auto simp: clear_turn_def holds_turn_def turn_clear)
qed

lemma holds_steps:
  "tracker_ok t \<Longrightarrow> holds_turn g b u since t \<Longrightarrow> \<forall>op \<in> set ops. between since (since + tt_ttl t) op \<Longrightarrow> goes_on g b ops t \<Longrightarrow>
   holds_turn g b u since (fold turn_step ops t)"
proof (induction ops arbitrary: t)
  case (Cons op ops)
  from Cons.prems holds_step [OF Cons.prems(1,2), of op] step_ok [OF Cons.prems(1), of op] Cons.IH [of "turn_step op t"]
  show ?case by simp
qed simp

lemma begin_holds:
  assumes "begin_turn g b u s t0 t = (t1, True)"
  shows "holds_turn g b u t0 t1 \<and> 0 < g \<and> 0 < b \<and> 0 < u"
  using assms by (auto simp: begin_turn_def Let_def holds_turn_def turn_put split: if_splits)

lemma asked_holder:
  "holds_turn g b u since t \<Longrightarrow> now \<le> since + tt_ttl t \<Longrightarrow> 0 < g \<Longrightarrow> 0 < b \<Longrightarrow> 0 < u \<Longrightarrow> snd (initiatedBy g b v now t) \<longleftrightarrow> v = u"
  by (auto simp: initiatedBy_def holds_turn_def)


text \<open>Two people write to bot 7 in group 5, which then reports the run it works in.\<close>

definition sample_turn_ops :: "turn_op list" where
  "sample_turn_ops = [TObserve 5 7 ''r1'' ''in_progress'' 200, TBegin 5 7 3 12 300, TObserve 5 7 ''r0'' ''done'' 400, TAsk 5 7 3 500]"


section \<open>Who stops a bot\<close>

lemma refusals_are_errors:
  "authorizeGroupStreamCancel h w g q m now t = (t1, Inl (c, text)) \<Longrightarrow> c \<noteq> 200"
  "sessionForkPublishError s = Some (c, text) \<Longrightarrow> c \<noteq> 200"
  by (auto simp: authorizeGroupStreamCancel_def sessionForkPublishError_def Let_def split: if_splits option.splits prod.splits fork_state.splits)

lemma scan_facts:
  "let s = scan_members h w q target members in
     (sc_requesterIsMember s \<longleftrightarrow> (\<exists>m \<in> set members. me_UserID m = q)) \<and>
     (sc_targetIsBot s \<longleftrightarrow> (\<exists>m \<in> set members. me_UserID m = target \<and> group_isBot h w m)) \<and>
     sc_botCount s = length (filter (group_isBot h w) members) \<and> sc_memberCount s = length members \<and>
     (sc_botCount s > 0 \<longrightarrow> (\<exists>m \<in> set members. me_UserID m = sc_onlyBotUID s \<and> group_isBot h w m)) \<and>
     (sc_requesterIsBot s \<longrightarrow> (\<exists>m \<in> set members. me_UserID m = q \<and> group_isBot h w m)) \<and>
     (sc_requesterIsMember s \<and> \<not> sc_requesterIsBot s \<longrightarrow> (\<exists>m \<in> set members. me_UserID m = q \<and> \<not> group_isBot h w m))"
proof (induction members rule: rev_induct)
  case Nil
  then show ?case by (simp add: scan_members_def)
next
  case (snoc m ms)
  then show ?case
    by (auto simp: scan_members_def scan_member_def Let_def)
qed

lemma granted_stop:
  assumes "authorizeGroupStreamCancel h w g q m now t = (t1, Inr (target, members))"
  shows "0 < g \<and> gr_members w = Some members \<and> (\<exists>x \<in> set members. me_UserID x = q) \<and>
    (\<exists>x \<in> set members. me_UserID x = target \<and> group_isBot h w x) \<and>
    (snd (initiatedBy g target q now t) \<or> length members = 2 \<and> length (filter (group_isBot h w) members) = 1)"
proof -
  let ?asked = "firstMetadataInt64 m [''target_bot_uid'', ''target_agent_uid'']"
  from assms have ms: "gr_members w = Some members" and g: "0 < g"
    by (auto simp: authorizeGroupStreamCancel_def Let_def split: if_splits option.splits prod.splits)
  let ?s = "scan_members h w q ?asked members"
  note f = scan_facts [of h w q ?asked members, unfolded Let_def]
  from assms ms show ?thesis
    using f by (auto simp: authorizeGroupStreamCancel_def Let_def split: if_splits prod.splits)
qed

lemma cancel_metadata_get:
  "map_of (cancel_metadata streamID target m) k =
     (if k = ''target_bot_uid'' then Some (JNum target) else if k = ''stream_event'' then Some (JStr ''cancel'')
      else if k = ''stream_id'' then Some (JStr streamID)
      else if k \<in> {''artifact_ref'', ''artifact_context'', ''artifact_page_context'', ''artifact_context_ref'', ''artifact_task_ref'', ''xiaoba_runtime''}
      then None else map_of m k)"
proof -
  have keep: "map_of (filter (\<lambda>kv. P (fst kv)) m) k = (if P k then map_of m k else None)" for P and m :: metadata
    by (induction m) auto
  show ?thesis
    unfolding cancel_metadata_def gomap_simps metadataWithoutXiaobaRuntime_def metadataWithoutArtifactContext_def
      keep [of "\<lambda>k. k \<noteq> ''xiaoba_runtime''"]
      keep [of "\<lambda>k. k \<notin> {''artifact_ref'', ''artifact_context'', ''artifact_page_context'', ''artifact_context_ref'', ''artifact_task_ref''}"]
    by simp
qed


text \<open>Bot 7 works for 2 in group 5, where 3 is too.\<close>

definition sample_group :: group_world where
  "sample_group = \<lparr>gr_members = Some [sample_member 2 False, sample_member 3 False, sample_member 7 True, sample_member 8 True],
     gr_row = None, gr_managed = False, gr_working = None, gr_accounts = (\<lambda>_. None), gr_context = None, gr_prompt = defaultActivationPrompt\<rparr>"

definition sample_stream :: stream_world where
  "sample_stream = \<lparr>sw_fork = NoForkStore, sw_group = sample_group, sw_isMember = True, sw_isMuted = False\<rparr>"

definition sample_cancel :: metadata where
  "sample_cancel = [(''stream_id'', JStr ''s1''), (''target_bot_uid'', JNum 7), (''artifact_context'', JStr ''secret'')]"

definition sample_turn :: groupAgentTurnTracker where
  "sample_turn = fst (begin_turn 5 7 2 11 100 (newGroupAgentTurnTracker 0))"


section \<open>Woken and busy bots\<close>

lemma begin_has_turn: "0 < g \<Longrightarrow> 0 < b \<Longrightarrow> 0 < u \<Longrightarrow> 0 < s \<Longrightarrow> turn_of g b (fst (begin_turn g b u s now t)) \<noteq> None"
  by (auto simp: begin_turn_def Let_def turn_put)

definition live_turn :: "int \<Rightarrow> uid \<Rightarrow> go_time \<Rightarrow> groupAgentTurnTracker \<Rightarrow> bool" where
  "live_turn g b now t \<longleftrightarrow> (\<exists>turn. turn_of g b t = Some turn \<and> now - gt_updatedAt turn \<le> tt_ttl t)"

lemma live_begin:
  assumes "tracker_ok t"
  shows "live_turn g b now t \<Longrightarrow> live_turn g b now (fst (begin_turn g' b' u s now t))"
    and "0 < g \<Longrightarrow> 0 < b \<Longrightarrow> 0 < u \<Longrightarrow> 0 < s \<Longrightarrow> 0 \<le> tt_ttl t \<Longrightarrow> live_turn g b now (fst (begin_turn g b u s now t))"
  by (auto simp: begin_turn_def Let_def live_turn_def turn_put turn_prune [OF assms] split: option.splits if_splits)

lemma deliver_keeps:
  assumes "tracker_ok (fst st)"
  shows "tracker_ok (fst (deliver_member h w g msg ex u sb act now m st)) \<and> tt_ttl (fst (deliver_member h w g msg ex u sb act now m st)) = tt_ttl (fst st) \<and>
    (live_turn g b now (fst st) \<longrightarrow> live_turn g b now (fst (deliver_member h w g msg ex u sb act now m st)))"
  using assms step_ok [OF assms, of "TBegin g (me_UserID m) u (case msg of None \<Rightarrow> 0 | Some d \<Rightarrow> sd_SeqID d) now"] live_begin(1) [OF assms]
  by (simp add: deliver_member_def Let_def)

lemma delivered:
  assumes "tracker_ok (fst st)" and "0 < g" and "0 < u" and "isGroupAgentTurnRequest msg" and "0 \<le> tt_ttl (fst st)"
    and "d \<in> set (snd (deliver_member h w g msg ex u False act now m st))" and "d \<notin> set (snd st)" and "gd_activated d" and "0 < gd_uid d"
  shows "live_turn g (gd_uid d) now (fst (deliver_member h w g msg ex u False act now m st))"
proof -
  obtain x where msg: "msg = Some x" "0 < sd_SeqID x" using assms(4) by (auto simp: isGroupAgentTurnRequest_def split: option.splits)
  from assms(6,7) have "d = \<lparr>gd_uid = me_UserID m, gd_bot = (me_IsBot m \<or> connected_as AccountBot (me_UserID m) h),
      gd_activated = ((me_IsBot m \<or> connected_as AccountBot (me_UserID m) h) \<and> map_of act (me_UserID m) \<noteq> None)\<rparr>"
    and "\<not> (me_UserID m = ex \<or> gr_managed w \<and> \<not> (me_IsBot m \<or> connected_as AccountBot (me_UserID m) h))"
    by (auto simp: deliver_member_def Let_def split: if_splits)
  with assms msg live_begin(2) [OF assms(1), of g "me_UserID m" u "sd_SeqID x" now] show ?thesis
    by (simp add: deliver_member_def Let_def)
qed

lemma deliveries:
  assumes "0 < g" and "0 < u" and "isGroupAgentTurnRequest msg"
  shows "tracker_ok (fst st) \<Longrightarrow> 0 \<le> tt_ttl (fst st) \<Longrightarrow> \<forall>d \<in> set (snd st). gd_activated d \<and> 0 < gd_uid d \<longrightarrow> live_turn g (gd_uid d) now (fst st) \<Longrightarrow>
    \<forall>d \<in> set (snd (fold (deliver_member h w g msg ex u False act now) ms st)). gd_activated d \<and> 0 < gd_uid d \<longrightarrow>
      live_turn g (gd_uid d) now (fst (fold (deliver_member h w g msg ex u False act now) ms st))"
proof (induction ms arbitrary: st)
  case (Cons m ms)
  let ?st = "deliver_member h w g msg ex u False act now m st"
  have "live_turn g (gd_uid d) now (fst ?st)" if "d \<in> set (snd ?st)" "gd_activated d" "0 < gd_uid d" for d
  proof (cases "d \<in> set (snd st)")
    case True
    with Cons.prems(3) that deliver_keeps [OF Cons.prems(1), of h w g msg ex u False act now m "gd_uid d"] show ?thesis by blast
  next
    case False
    from delivered [OF Cons.prems(1) assms Cons.prems(2) that(1) False that(2,3)] show ?thesis .
  qed
  moreover have "tracker_ok (fst ?st)" "0 \<le> tt_ttl (fst ?st)"
    using deliver_keeps [OF Cons.prems(1), of h w g msg ex u False act now m] Cons.prems(2) by auto
  ultimately show ?case using Cons.IH [of ?st] by simp
qed simp

lemma working_tracker:
  assumes "tracker_ok t" and "activationWorkingUIDs g working now t = (t', us)"
  shows "tracker_ok t' \<and> tt_ttl t' = tt_ttl t" and "0 < g \<Longrightarrow> 0 < b \<Longrightarrow> live_turn g b now t \<Longrightarrow> b \<in> set us"
proof -
  from assms show "tracker_ok t' \<and> tt_ttl t' = tt_ttl t"
    by (auto simp: activationWorkingUIDs_def activeBots_def Let_def split: if_splits)
  assume g: "0 < g" "0 < b" and l: "live_turn g b now t"
  then have "turn_of g b (pruneExpiredLocked now t) \<noteq> None" by (auto simp: turn_prune [OF assms(1)] live_turn_def)
  then have "b \<in> set (map fst (nm_inner (tt_turns (pruneExpiredLocked now t)) g))" by (simp only: turn_of_def nm_inner_keys not_False_eq_True)
  with g assms(2) show "b \<in> set us" by (force simp: activationWorkingUIDs_def activeBots_def Let_def)
qed

text \<open>
  a bot that a person's request wakes is given a turn: after the request has gone to the group, every bot
  that was told it is addressed holds a turn that has not expired, so that somebody can stop it and later
  requests do not wake it again.
\<close>

theorem woken_bot_has_turn:
  assumes "broadcastToGroupWithMentions h resolver w g msg ex mentions u trusted now (fold turn_step ops (newGroupAgentTurnTracker ttl)) = (t', ds)"
    and "\<not> isBotUser (gr_accounts w) u h" and "isGroupAgentTurnRequest msg" and "0 < g" and "0 < u"
    and "d \<in> set ds" and "gd_activated d" and "0 < gd_uid d"
  shows "\<exists>turn. turn_of g (gd_uid d) t' = Some turn \<and> now - gt_updatedAt turn \<le> tt_ttl t'"
proof -
  let ?t = "fold turn_step ops (newGroupAgentTurnTracker ttl)"
  have "0 \<le> tt_ttl (newGroupAgentTurnTracker ttl)"
    by (simp add: newGroupAgentTurnTracker_def defaultGroupAgentTurnTTL_def go_minute_def go_second_def)
  then have ok: "tracker_ok ?t" "0 \<le> tt_ttl ?t" using steps_ok [of "newGroupAgentTurnTracker ttl" ops] by simp_all
  obtain members where ms: "gr_members w = Some members"
    using assms(1,6) by (cases "gr_members w") (auto simp: broadcastToGroupWithMentions_def)
  obtain t1 dec call where r: "resolveGroupActivation resolver w g members msg mentions u False trusted now ?t = (t1, dec, call)"
    by (metis prod.collapse)
  obtain t2 us where wk: "activationWorkingUIDs g (gr_working w) now ?t = (t2, us)" by fastforce
  have ok1: "tracker_ok t1" "0 \<le> tt_ttl t1"
    using r ok working_tracker(1) [OF ok(1) wk] by (auto simp: resolveGroupActivation_def wk Let_def split: option.splits if_splits)
  have "(t', ds) = fold (deliver_member h w g msg ex u False (ad_Activated dec) now) members (t1, [])"
    using assms(1,2) by (simp add: broadcastToGroupWithMentions_def ms r Let_def)
  then have f: "t' = fst (fold (deliver_member h w g msg ex u False (ad_Activated dec) now) members (t1, []))"
    "ds = snd (fold (deliver_member h w g msg ex u False (ad_Activated dec) now) members (t1, []))" by (metis fst_conv, metis snd_conv)
  have "\<forall>d \<in> set ds. gd_activated d \<and> 0 < gd_uid d \<longrightarrow> live_turn g (gd_uid d) now t'"
    unfolding f by (rule deliveries [OF assms(4,5,3)]) (use ok1 in simp_all)
  with assms(6-8) have "live_turn g (gd_uid d) now t'" by blast
  then show ?thesis by (simp add: live_turn_def)
qed

lemma question_key_inj: "0 \<le> a \<Longrightarrow> a < 9223372036854775808 \<Longrightarrow> 0 \<le> b \<Longrightarrow> b < 9223372036854775808 \<Longrightarrow>
  activationQuestionKey a = activationQuestionKey b \<Longrightarrow> a = b"
proof -
  assume a: "0 \<le> a" "a < 9223372036854775808" and b: "0 \<le> b" "b < 9223372036854775808"
  assume "activationQuestionKey a = activationQuestionKey b"
  then have "formatInt a = formatInt b" by (simp add: activationQuestionKey_def)
  with parse_formatInt [OF a] parse_formatInt [OF b] show "a = b" by metis
qed

text \<open>
  a bot that works is not asked about: while a bot holds a turn in the group, the judge gets no question
  about it, so an open message cannot wake it a second time.
\<close>

theorem busy_bot_not_judged:
  assumes "resolveGroupActivation (Some r) w g members msg mentions u sb trusted now (fold turn_step ops (newGroupAgentTurnTracker ttl)) =
      (t', dec, Some call)"
    and "turn_of g b (fold turn_step ops (newGroupAgentTurnTracker ttl)) = Some turn"
    and "now - gt_updatedAt turn \<le> tt_ttl (fold turn_step ops (newGroupAgentTurnTracker ttl))"
    and "0 < g" and "0 < b" and "b < 9223372036854775808" and "0 < u"
    and "\<forall>m \<in> set members. 0 < me_UserID m \<and> me_UserID m < 9223372036854775808"
  shows "activationQuestionKey b \<notin> fst ` set (snd call)"
proof -
  let ?t = "fold turn_step ops (newGroupAgentTurnTracker ttl)"
  have ok: "tracker_ok ?t" using steps_ok [of "newGroupAgentTurnTracker ttl" ops] by simp
  obtain t2 us where wk: "activationWorkingUIDs g (gr_working w) now ?t = (t2, us)" by fastforce
  have "live_turn g b now ?t" using assms(2,3) by (simp add: live_turn_def)
  from working_tracker(2) [OF ok wk assms(4,5) this] have b: "b \<in> set us" .
  let ?req = "activation_request w g members msg mentions u sb trusted us"
  have call: "snd (Resolve r (gr_prompt w) ?req) = Some call" using assms(1) by (simp add: resolveGroupActivation_def wk Let_def)
  have keys: "fst ` set (snd call) = activationQuestionKey ` {me_UserID m | m. m \<in> set members \<and> me_IsBot m \<and> me_UserID m \<noteq> u \<and>
      me_UserID m \<notin> set (activationMutedUIDs members) \<and> me_UserID m \<notin> set (activationWorkingUIDSet ?req)}"
    using asked_questions [OF call] assms(7,8) by (simp add: activation_request_def)
  have w: "b \<in> set (activationWorkingUIDSet ?req)" using b assms(5) by (simp add: activationWorkingUIDSet_def activation_request_def activationUIDSet_def)
  show ?thesis
  proof
    assume "activationQuestionKey b \<in> fst ` set (snd call)"
    then obtain m where m: "m \<in> set members" "me_UserID m \<notin> set (activationWorkingUIDSet ?req)"
      "activationQuestionKey b = activationQuestionKey (me_UserID m)" unfolding keys by auto
    from question_key_inj [OF _ _ _ _ m(3)] assms(5,6,8) m(1) have "b = me_UserID m" by (simp add: order_less_imp_le)
    with w m(2) show False by simp
  qed
qed

text \<open>Person 2 writes to a group with two bots, which a judge finds both addressed.\<close>

definition sample_message :: MsgServerData where
  "sample_message = \<lparr>sd_Topic = ''grp_5'', sd_From = ''usr2'', sd_SeqID = 12, sd_Type = ''text'', sd_MsgType = ''text'', sd_Content = JStr ''please'',
     sd_Metadata = [], sd_BlockTypes = []\<rparr>"

theorem woken_bot_has_turn_witness:
  "\<exists>t' ds d. broadcastToGroupWithMentions empty_hub None sample_group 5 (Some sample_message) 2 [''all''] 2 False 100
       (fold turn_step [] (newGroupAgentTurnTracker 0)) = (t', ds) \<and> d \<in> set ds \<and> gd_uid d = 7 \<and> turn_of 5 7 t' \<noteq> None"
proof -
  let ?b = "broadcastToGroupWithMentions empty_hub None sample_group 5 (Some sample_message) 2 [''all''] 2 False 100
    (fold turn_step [] (newGroupAgentTurnTracker 0))"
  obtain t' ds where b: "?b = (t', ds)" by fastforce
  have "list_ex (\<lambda>d. gd_uid d = 7 \<and> gd_bot d \<and> gd_activated d) (snd ?b)" by code_simp
  then have "list_ex (\<lambda>d. gd_uid d = 7 \<and> gd_bot d \<and> gd_activated d) ds" by (simp only: b snd_conv)
  then obtain d where d: "d \<in> set ds" "gd_uid d = 7" "gd_activated d" by (auto simp: list_ex_iff)
  have h: "\<not> isBotUser (gr_accounts sample_group) 2 empty_hub" by code_simp
  have m: "isGroupAgentTurnRequest (Some sample_message)" by code_simp
  have "0 < (5::int)" "0 < (2::uid)" "0 < gd_uid d" using d by simp_all
  from woken_bot_has_turn [OF b h m this(1,2) d(1,3) this(3)] b d show ?thesis by auto
qed

theorem busy_bot_not_judged_witness:
  "\<exists>t' dec call. resolveGroupActivation (Some sample_judge) sample_group 5 (the (gr_members sample_group)) (Some sample_message) [] 2 False False 200
       (fold turn_step [TBegin 5 7 2 11 100] (newGroupAgentTurnTracker 0)) = (t', dec, Some call) \<and> activationQuestionKey 7 \<notin> fst ` set (snd call)"
proof -
  let ?t = "fold turn_step [TBegin 5 7 2 11 100] (newGroupAgentTurnTracker 0)"
  let ?r = "resolveGroupActivation (Some sample_judge) sample_group 5 (the (gr_members sample_group)) (Some sample_message) [] 2 False False 200 ?t"
  have "snd (snd ?r) \<noteq> None" by code_simp
  then obtain t' dec call where r: "?r = (t', dec, Some call)" by (metis option.exhaust prod.collapse)
  have tu: "turn_of 5 7 ?t = Some \<lparr>gt_initiatorUID = 2, gt_requestSeqID = 11, gt_runID = [], gt_updatedAt = 100\<rparr>" by code_simp
  have ttl: "tt_ttl ?t = 1800000000000" by code_simp
  have "activationQuestionKey 7 \<notin> fst ` set (snd call)"
    by (rule busy_bot_not_judged [OF r tu]) (simp_all only: ttl, simp_all add: sample_group_def sample_member_def)
  with r show ?thesis by blast
qed

end
