(* ===== verification/RateLimit.thy ===== *)
theory RateLimit
  imports Revocation Complex_Main
begin

text \<open>
  The limit on the requests of a user (\<open>server/ratelimit.go\<close>): a bucket of tokens per user, refilled with
  time. A \<open>float64\<close> is a rational number here. A call with no configuration to fall back on dereferences
  nil: no answer.
\<close>

record RateLimitConfig =
  rc_MaxPerSecond :: int
  rc_MaxPerMinute :: int
  rc_BurstSize :: int

record bucket =
  bk_tokens :: rat
  bk_maxTokens :: rat
  bk_refillRate :: rat
  bk_lastRefill :: go_time

record RateLimiter =
  rl_buckets :: "(uid, bucket) gomap"
  rl_configs :: "(AccountType, RateLimitConfig) gomap"

definition DefaultRateLimits :: "(AccountType, RateLimitConfig) gomap" where
  "DefaultRateLimits =
     [(AccountHuman, \<lparr>rc_MaxPerSecond = 10, rc_MaxPerMinute = 120, rc_BurstSize = 20\<rparr>),
      (AccountBot, \<lparr>rc_MaxPerSecond = 5, rc_MaxPerMinute = 60, rc_BurstSize = 10\<rparr>),
      (AccountService, \<lparr>rc_MaxPerSecond = 20, rc_MaxPerMinute = 300, rc_BurstSize = 50\<rparr>)]"

definition NewRateLimiter :: "(AccountType, RateLimitConfig) gomap \<Rightarrow> RateLimiter" where
  "NewRateLimiter configs = \<lparr>rl_buckets = [], rl_configs = configs\<rparr>"

definition seconds :: "duration \<Rightarrow> rat" where
  "seconds d = rat_of_int d / rat_of_int go_second"

definition config_for :: "AccountType \<Rightarrow> RateLimiter \<Rightarrow> RateLimitConfig option" where
  "config_for a rl = (case map_of (rl_configs rl) a of None \<Rightarrow> map_of (rl_configs rl) AccountHuman | Some c \<Rightarrow> Some c)"

definition full_bucket :: "RateLimitConfig \<Rightarrow> go_time \<Rightarrow> bucket" where
  "full_bucket cfg now =
     \<lparr>bk_tokens = rat_of_int (rc_BurstSize cfg), bk_maxTokens = rat_of_int (rc_BurstSize cfg),
      bk_refillRate = rat_of_int (rc_MaxPerSecond cfg), bk_lastRefill = now\<rparr>"

definition refill :: "go_time \<Rightarrow> bucket \<Rightarrow> bucket" where
  "refill now b =
     b\<lparr>bk_tokens := min (bk_maxTokens b) (bk_tokens b + seconds (now - bk_lastRefill b) * bk_refillRate b), bk_lastRefill := now\<rparr>"

definition Allow :: "uid \<Rightarrow> AccountType \<Rightarrow> go_time \<Rightarrow> RateLimiter \<Rightarrow> (RateLimiter \<times> bool) option" where
  "Allow u a now rl =
     (case (case map_of (rl_buckets rl) u of
              Some b \<Rightarrow> Some b
            | None \<Rightarrow> map_option (\<lambda>cfg. full_bucket cfg now) (config_for a rl)) of
        None \<Rightarrow> None
      | Some b \<Rightarrow>
          let b = refill now b
          in Some (if bk_tokens b < 1 then (rl\<lparr>rl_buckets := gm_put u b (rl_buckets rl)\<rparr>, False)
                   else (rl\<lparr>rl_buckets := gm_put u (b\<lparr>bk_tokens := bk_tokens b - 1\<rparr>) (rl_buckets rl)\<rparr>, True)))"

definition CleanupBuckets :: "duration \<Rightarrow> go_time \<Rightarrow> RateLimiter \<Rightarrow> RateLimiter" where
  "CleanupBuckets maxAge now rl = rl\<lparr>rl_buckets := gm_keep (\<lambda>b. \<not> bk_lastRefill b < now - maxAge) (rl_buckets rl)\<rparr>"

section \<open>Histories\<close>

text \<open>A run of the limiter counts the requests of \<open>u\<close> it lets through, and stops where the program would panic.\<close>

datatype limiter_op = LAllow uid AccountType go_time | LCleanup duration go_time

definition op_time :: "limiter_op \<Rightarrow> go_time" where
  "op_time op = (case op of LAllow _ _ t \<Rightarrow> t | LCleanup _ t \<Rightarrow> t)"

definition limiter_step :: "uid \<Rightarrow> limiter_op \<Rightarrow> RateLimiter \<Rightarrow> (RateLimiter \<times> nat) option" where
  "limiter_step u op rl =
     (case op of
        LAllow v a t \<Rightarrow> map_option (\<lambda>(rl, ok). (rl, if v = u \<and> ok then 1 else 0)) (Allow v a t rl)
      | LCleanup age t \<Rightarrow> Some (CleanupBuckets age t rl, 0))"

fun limiter_run :: "uid \<Rightarrow> limiter_op list \<Rightarrow> RateLimiter \<Rightarrow> (RateLimiter \<times> nat) option" where
  "limiter_run u [] rl = Some (rl, 0)"
| "limiter_run u (op # ops) rl =
     (case limiter_step u op rl of
        None \<Rightarrow> None
      | Some (rl, n) \<Rightarrow> map_option (\<lambda>(rl, m). (rl, n + m)) (limiter_run u ops rl))"

text \<open>What a user has left at a time: a user without a bucket has a full one.\<close>

definition tokens_left :: "uid \<Rightarrow> rat \<Rightarrow> go_time \<Rightarrow> RateLimiter \<Rightarrow> rat" where
  "tokens_left u burst t rl = (case map_of (rl_buckets rl) u of None \<Rightarrow> burst | Some b \<Rightarrow> bk_tokens (refill t b))"

definition bucket_ok :: "uid \<Rightarrow> rat \<Rightarrow> rat \<Rightarrow> go_time \<Rightarrow> RateLimiter \<Rightarrow> bool" where
  "bucket_ok u burst rate t rl \<longleftrightarrow> gm_ok (rl_buckets rl) \<and>
     (\<forall>b. map_of (rl_buckets rl) u = Some b \<longrightarrow>
        bk_maxTokens b = burst \<and> bk_refillRate b = rate \<and> 0 \<le> bk_tokens b \<and> bk_tokens b \<le> burst \<and> bk_lastRefill b \<le> t)"

text \<open>The requests of \<open>u\<close> are made by one kind of account; a bucket is only removed when it is full again.\<close>

definition op_allowed :: "uid \<Rightarrow> AccountType \<Rightarrow> rat \<Rightarrow> rat \<Rightarrow> limiter_op \<Rightarrow> bool" where
  "op_allowed u a burst rate op \<longleftrightarrow>
     (case op of LAllow v b _ \<Rightarrow> v = u \<longrightarrow> b = a | LCleanup age _ \<Rightarrow> burst \<le> seconds age * rate)"

lemma seconds_add: "seconds (d + e) = seconds d + seconds e"
  by (simp add: seconds_def add_divide_distrib)

lemma seconds_mono: "d \<le> e \<Longrightarrow> seconds d \<le> seconds e"
  by (simp add: seconds_def go_second_def divide_right_mono)

lemma seconds_nonneg: "0 \<le> d \<Longrightarrow> 0 \<le> seconds d"
  by (simp add: seconds_def go_second_def)

lemma refill_later:
  assumes "t \<le> t'" and "0 \<le> bk_refillRate b"
  shows "bk_tokens (refill t' b) \<le> bk_tokens (refill t b) + seconds (t' - t) * bk_refillRate b"
proof -
  have "seconds (t' - bk_lastRefill b) = seconds (t - bk_lastRefill b) + seconds (t' - t)"
    by (simp add: seconds_add [symmetric])
  moreover have "0 \<le> seconds (t' - t) * bk_refillRate b" using assms by (simp add: seconds_nonneg)
  ultimately show ?thesis by (simp add: refill_def distrib_right min_def)
qed

lemma refill_range:
  assumes "bk_lastRefill b \<le> t" and "0 \<le> bk_refillRate b" and "0 \<le> bk_tokens b" and "0 \<le> bk_maxTokens b"
  shows "0 \<le> bk_tokens (refill t b)" and "bk_tokens (refill t b) \<le> bk_maxTokens b"
  using assms seconds_nonneg [of "t - bk_lastRefill b"] by (simp_all add: refill_def)

lemma refill_again: "bk_tokens b \<le> bk_maxTokens b \<Longrightarrow> bk_lastRefill b = t \<Longrightarrow> bk_tokens (refill t b) = bk_tokens b"
  by (simp add: refill_def seconds_def)

lemma tokens_left_range:
  assumes "bucket_ok u burst rate t rl" and "0 \<le> burst" and "0 \<le> rate"
  shows "0 \<le> tokens_left u burst t rl" and "tokens_left u burst t rl \<le> burst"
  using assms refill_range [of _ t] by (auto simp: tokens_left_def bucket_ok_def split: option.split)

lemma tokens_left_later:
  assumes "bucket_ok u burst rate t rl" and "t \<le> t'" and "0 \<le> rate"
  shows "tokens_left u burst t' rl \<le> tokens_left u burst t rl + seconds (t' - t) * rate"
  using assms refill_later [of t t'] seconds_nonneg [of "t' - t"]
  by (auto simp: tokens_left_def bucket_ok_def split: option.split)

lemma bucket_ok_later: "bucket_ok u burst rate t rl \<Longrightarrow> t \<le> t' \<Longrightarrow> bucket_ok u burst rate t' rl"
  by (auto simp: bucket_ok_def)

lemma allow_own:
  assumes "bucket_ok u burst rate t rl" and "config_for a rl = Some cfg" and "burst = rat_of_int (rc_BurstSize cfg)"
    and "rate = rat_of_int (rc_MaxPerSecond cfg)" and "0 \<le> burst" and "0 \<le> rate"
  shows "\<exists>rl' ok. Allow u a t rl = Some (rl', ok) \<and> ok = (1 \<le> tokens_left u burst t rl) \<and> bucket_ok u burst rate t rl' \<and>
     tokens_left u burst t rl' + (if ok then 1 else 0) = tokens_left u burst t rl \<and> rl_configs rl' = rl_configs rl"
proof -
  define b where "b = (case map_of (rl_buckets rl) u of Some b \<Rightarrow> b | None \<Rightarrow> full_bucket cfg t)"
  have b: "bk_maxTokens b = burst" "bk_refillRate b = rate" "0 \<le> bk_tokens b" "bk_tokens b \<le> burst" "bk_lastRefill b \<le> t"
    using assms by (auto simp: b_def bucket_ok_def full_bucket_def split: option.split)
  have left: "tokens_left u burst t rl = bk_tokens (refill t b)"
    using assms(3) by (auto simp: b_def tokens_left_def full_bucket_def refill_def seconds_def split: option.split)
  have range: "0 \<le> bk_tokens (refill t b)" "bk_tokens (refill t b) \<le> burst" using refill_range [of b t] b assms(5,6) by simp_all
  have look: "(case map_of (rl_buckets rl) u of Some b \<Rightarrow> Some b | None \<Rightarrow> map_option (\<lambda>cfg. full_bucket cfg t) (config_for a rl)) = Some b"
    using assms(2) by (auto simp: b_def split: option.split)
  have same: "bk_maxTokens (refill t b) = burst" "bk_refillRate (refill t b) = rate" "bk_lastRefill (refill t b) = t"
    using b by (simp_all add: refill_def)
  show ?thesis
  proof (cases "bk_tokens (refill t b) < 1")
    case True
    let ?rl = "rl\<lparr>rl_buckets := gm_put u (refill t b) (rl_buckets rl)\<rparr>"
    have "Allow u a t rl = Some (?rl, False)" using True by (simp add: Allow_def look Let_def)
    moreover have "bucket_ok u burst rate t ?rl" using assms(1) same range by (auto simp: bucket_ok_def gm_get_put)
    moreover have "tokens_left u burst t ?rl = bk_tokens (refill t b)"
      using same range by (simp add: tokens_left_def gm_get_put refill_again)
    ultimately show ?thesis using True left by (intro exI [of _ ?rl] exI [of _ False]) simp
  next
    case False
    let ?b = "(refill t b)\<lparr>bk_tokens := bk_tokens (refill t b) - 1\<rparr>"
    let ?rl = "rl\<lparr>rl_buckets := gm_put u ?b (rl_buckets rl)\<rparr>"
    have "Allow u a t rl = Some (?rl, True)" using False by (simp add: Allow_def look Let_def)
    moreover have "bucket_ok u burst rate t ?rl" using assms(1) same range False by (auto simp: bucket_ok_def gm_get_put)
    moreover have "tokens_left u burst t ?rl = bk_tokens (refill t b) - 1"
      using same range refill_again [of ?b t] by (simp add: tokens_left_def gm_get_put)
    ultimately show ?thesis using False left by (intro exI [of _ ?rl] exI [of _ True]) simp
  qed
qed

lemma config_cong: "rl_configs rl' = rl_configs rl \<Longrightarrow> config_for a rl' = config_for a rl"
  by (simp only: config_for_def)

lemma allow_other:
  assumes "Allow v b t rl = Some (rl', ok)" and "v \<noteq> u"
  shows "map_of (rl_buckets rl') u = map_of (rl_buckets rl) u" and "gm_ok (rl_buckets rl) \<Longrightarrow> gm_ok (rl_buckets rl')"
    and "rl_configs rl' = rl_configs rl"
  using assms by (auto simp: Allow_def Let_def gm_get_put split: option.splits if_splits)

lemma cleanup_left:
  assumes "bucket_ok u burst rate t rl" and "burst \<le> seconds age * rate" and "0 \<le> rate"
  shows "tokens_left u burst t (CleanupBuckets age t rl) = tokens_left u burst t rl"
proof (cases "map_of (rl_buckets rl) u")
  case (Some b)
  with assms(1) have b: "bk_maxTokens b = burst" "bk_refillRate b = rate" "0 \<le> bk_tokens b" "gm_ok (rl_buckets rl)"
    by (auto simp: bucket_ok_def)
  have "bk_tokens (refill t b) = burst" if "bk_lastRefill b < t - age"
  proof -
    have "seconds age \<le> seconds (t - bk_lastRefill b)" using that by (intro seconds_mono) simp
    then have "seconds age * rate \<le> seconds (t - bk_lastRefill b) * rate" using assms(3) by (rule mult_right_mono)
    with assms(2) b show ?thesis by (simp add: refill_def)
  qed
  with Some b(4) show ?thesis by (simp add: tokens_left_def CleanupBuckets_def gm_get_keep)
qed (use assms in \<open>simp add: tokens_left_def CleanupBuckets_def bucket_ok_def gm_get_keep\<close>)

lemma limiter_step_effect:
  assumes "limiter_step u op rl = Some (rl', n)" and "op_time op = t" and "op_allowed u a burst rate op"
    and ok: "bucket_ok u burst rate t rl" and cfg: "config_for a rl = Some cfg" "burst = rat_of_int (rc_BurstSize cfg)"
    "rate = rat_of_int (rc_MaxPerSecond cfg)" "0 \<le> burst" "0 \<le> rate"
  shows "bucket_ok u burst rate t rl' \<and> tokens_left u burst t rl' + rat_of_nat n = tokens_left u burst t rl \<and>
    config_for a rl' = Some cfg"
proof (cases op)
  case (LAllow v b s)
  show ?thesis
  proof (cases "v = u")
    case True
    with LAllow assms(1-3) have v: "v = u" "b = a" "s = t" by (simp_all add: op_time_def op_allowed_def)
    obtain r where r: "Allow u a t rl = Some (rl', r)" "n = (if r then 1 else 0)"
      using LAllow v assms(1) by (auto simp: limiter_step_def)
    from allow_own [OF ok cfg] r cfg(1) config_cong [of rl' rl a] show ?thesis by auto
  next
    case False
    with LAllow assms(1,2) obtain r where r: "Allow v b t rl = Some (rl', r)" "n = 0"
      by (auto simp: limiter_step_def op_time_def)
    from allow_other [OF r(1) False] ok cfg(1) r(2) config_cong [of rl' rl a] show ?thesis
      by (simp add: bucket_ok_def tokens_left_def)
  qed
next
  case (LCleanup age s)
  with assms(1-3) have "rl' = CleanupBuckets age t rl" "n = 0" "burst \<le> seconds age * rate"
    by (auto simp: limiter_step_def op_time_def op_allowed_def)
  with cleanup_left [OF ok] cfg ok config_cong [of rl' rl a] show ?thesis
    by (auto simp: bucket_ok_def CleanupBuckets_def dest: gm_get_keep_SomeD)
qed

lemma limiter_run_effect:
  assumes cfg: "burst = rat_of_int (rc_BurstSize cfg)" "rate = rat_of_int (rc_MaxPerSecond cfg)" "0 \<le> burst" "0 \<le> rate"
  shows "limiter_run u ops rl = Some (rl', n) \<Longrightarrow> bucket_ok u burst rate t rl \<Longrightarrow> config_for a rl = Some cfg \<Longrightarrow>
    sorted (map op_time ops) \<Longrightarrow> \<forall>op \<in> set ops. t \<le> op_time op \<and> op_time op \<le> t' \<and> op_allowed u a burst rate op \<Longrightarrow> t \<le> t' \<Longrightarrow>
    bucket_ok u burst rate t' rl' \<and> config_for a rl' = Some cfg \<and>
    tokens_left u burst t' rl' + rat_of_nat n \<le> tokens_left u burst t rl + seconds (t' - t) * rate"
proof (induction ops arbitrary: rl n t)
  case Nil
  with tokens_left_later [of u burst rate t rl t'] cfg bucket_ok_later show ?case by auto
next
  case (Cons op ops)
  let ?s = "op_time op"
  from Cons.prems(1) obtain rl1 n1 n2 where s: "limiter_step u op rl = Some (rl1, n1)" "limiter_run u ops rl1 = Some (rl', n2)" "n = n1 + n2"
    by (auto split: option.splits)
  have le: "t \<le> ?s" "?s \<le> t'" and al: "op_allowed u a burst rate op" using Cons.prems(5) by auto
  have ok: "bucket_ok u burst rate ?s rl" using Cons.prems(2) le(1) by (rule bucket_ok_later)
  from limiter_step_effect [OF s(1) refl al ok Cons.prems(3) cfg]
  have e: "bucket_ok u burst rate ?s rl1" "tokens_left u burst ?s rl1 + rat_of_nat n1 = tokens_left u burst ?s rl" "config_for a rl1 = Some cfg"
    by simp_all
  have "\<forall>op \<in> set ops. ?s \<le> op_time op \<and> op_time op \<le> t' \<and> op_allowed u a burst rate op" using Cons.prems(4,5) by auto
  from Cons.IH [OF s(2) e(1,3) _ this le(2)] Cons.prems(4)
  have ih: "bucket_ok u burst rate t' rl'" "config_for a rl' = Some cfg"
    "tokens_left u burst t' rl' + rat_of_nat n2 \<le> tokens_left u burst ?s rl1 + seconds (t' - ?s) * rate" by simp_all
  have "tokens_left u burst ?s rl \<le> tokens_left u burst t rl + seconds (?s - t) * rate"
    using tokens_left_later [OF Cons.prems(2) le(1) cfg(4)] .
  moreover have "seconds (t' - t) = seconds (t' - ?s) + seconds (?s - t)" by (simp add: seconds_add [symmetric])
  ultimately show ?case using ih e(2) s(3) by (simp add: distrib_right)
qed

lemma new_limiter_ok: "bucket_ok u burst rate t (NewRateLimiter configs)"
  by (simp add: bucket_ok_def NewRateLimiter_def)

lemma limiter_append:
  "limiter_run u (xs @ ys) rl = (case limiter_run u xs rl of None \<Rightarrow> None
     | Some (rl, n) \<Rightarrow> map_option (\<lambda>(rl, m). (rl, n + m)) (limiter_run u ys rl))"
  by (induction xs arbitrary: rl) (auto simp: option.map_comp comp_def case_prod_unfold option.map_id id_def [symmetric] add.assoc split: option.splits)

text \<open>
  C32: the requests of a user are limited in every window of time, not only from the start: whatever requests and
  cleanups came before and in between, the limiter lets at most the burst and the rate times the length of the
  window through. Cleanups may forget the bucket of a user as long as they wait until it is full.
\<close>

theorem requests_limited_per_window:
  assumes "limiter_run u (before @ window) (NewRateLimiter configs) = Some (rl2, n + m)"
    and "limiter_run u before (NewRateLimiter configs) = Some (rl1, n)"
    and "map_of configs a = Some cfg" and "0 \<le> rc_BurstSize cfg" and "0 \<le> rc_MaxPerSecond cfg"
    and "sorted (map op_time (before @ window))"
    and "\<forall>op \<in> set (before @ window). op_allowed u a (rat_of_int (rc_BurstSize cfg)) (rat_of_int (rc_MaxPerSecond cfg)) op"
    and "\<forall>op \<in> set window. t \<le> op_time op \<and> op_time op \<le> t'" and "\<forall>op \<in> set before. op_time op \<le> t" and "t \<le> t'"
  shows "rat_of_nat m \<le> rat_of_int (rc_BurstSize cfg) + seconds (t' - t) * rat_of_int (rc_MaxPerSecond cfg)"
proof -
  let ?B = "rat_of_int (rc_BurstSize cfg)" and ?R = "rat_of_int (rc_MaxPerSecond cfg)"
  have cfg: "?B = rat_of_int (rc_BurstSize cfg)" "?R = rat_of_int (rc_MaxPerSecond cfg)" "0 \<le> ?B" "0 \<le> ?R" using assms(4,5) by simp_all
  let ?first = "case before of [] \<Rightarrow> t | op # _ \<Rightarrow> op_time op"
  have c0: "config_for a (NewRateLimiter configs) = Some cfg" using assms(3) by (simp add: config_for_def NewRateLimiter_def)
  have "\<forall>op \<in> set before. ?first \<le> op_time op \<and> op_time op \<le> t \<and> op_allowed u a ?B ?R op" and "?first \<le> t" and "sorted (map op_time before)"
    using assms(6,7,9) by (auto simp: sorted_append split: list.split)
  from limiter_run_effect [OF cfg assms(2) new_limiter_ok c0 this(3,1,2)]
  have 1: "bucket_ok u ?B ?R t rl1" "config_for a rl1 = Some cfg" by simp_all
  have w: "limiter_run u window rl1 = Some (rl2, m)"
    using assms(1,2) by (auto simp: limiter_append split: option.splits)
  have "\<forall>op \<in> set window. t \<le> op_time op \<and> op_time op \<le> t' \<and> op_allowed u a ?B ?R op" "sorted (map op_time window)"
    using assms(6-8) by (auto simp: sorted_append)
  from limiter_run_effect [OF cfg w 1 this(2,1) assms(10)]
  have "bucket_ok u ?B ?R t' rl2" "tokens_left u ?B t' rl2 + rat_of_nat m \<le> tokens_left u ?B t rl1 + seconds (t' - t) * ?R" by simp_all
  with tokens_left_range [OF this(1) cfg(3,4)] tokens_left_range [OF 1(1) cfg(3,4)] show ?thesis by linarith
qed

section \<open>A user who keeps to the rate\<close>

definition own_request :: "uid \<Rightarrow> limiter_op \<Rightarrow> bool" where
  "own_request u op \<longleftrightarrow> (case op of LAllow v _ _ \<Rightarrow> v = u | LCleanup _ _ \<Rightarrow> False)"

text \<open>At the time \<open>t\<close>, with the prev own request at \<open>prev\<close>, the user may make a request.\<close>

definition due :: "rat \<Rightarrow> go_time option \<Rightarrow> go_time \<Rightarrow> bool" where
  "due rate prev t \<longleftrightarrow> (case prev of None \<Rightarrow> True | Some s \<Rightarrow> 1 \<le> seconds (t - s) * rate)"

fun paced :: "uid \<Rightarrow> rat \<Rightarrow> go_time option \<Rightarrow> limiter_op list \<Rightarrow> bool" where
  "paced u rate prev [] = True"
| "paced u rate prev (op # ops) =
     (if own_request u op then due rate prev (op_time op) \<and> paced u rate (Some (op_time op)) ops else paced u rate prev ops)"

definition recovered :: "uid \<Rightarrow> rat \<Rightarrow> rat \<Rightarrow> go_time option \<Rightarrow> go_time \<Rightarrow> RateLimiter \<Rightarrow> bool" where
  "recovered u burst rate prev t rl \<longleftrightarrow>
     (case prev of None \<Rightarrow> tokens_left u burst t rl = burst
      | Some s \<Rightarrow> min burst (seconds (t - s) * rate) \<le> tokens_left u burst t rl)"

lemma refill_least:
  assumes "t \<le> t'" and "0 \<le> bk_refillRate b" and "0 \<le> bk_maxTokens b"
  shows "min (bk_maxTokens b) (bk_tokens (refill t b) + seconds (t' - t) * bk_refillRate b) \<le> bk_tokens (refill t' b)"
proof -
  have "seconds (t' - bk_lastRefill b) = seconds (t - bk_lastRefill b) + seconds (t' - t)"
    by (simp add: seconds_add [symmetric])
  moreover have "0 \<le> seconds (t' - t) * bk_refillRate b" using assms by (simp add: seconds_nonneg)
  ultimately show ?thesis by (simp add: refill_def distrib_right min_def)
qed

lemma tokens_left_least:
  assumes "bucket_ok u burst rate t rl" and "t \<le> t'" and "0 \<le> rate" and "0 \<le> burst"
  shows "min burst (tokens_left u burst t rl + seconds (t' - t) * rate) \<le> tokens_left u burst t' rl"
  using assms refill_least [of t t'] seconds_nonneg [of "t' - t"]
  by (auto simp: tokens_left_def bucket_ok_def split: option.split)

lemma recovered_later:
  assumes "bucket_ok u burst rate t rl" and "t \<le> t'" and "0 \<le> rate" and "0 \<le> burst" and "recovered u burst rate prev t rl"
  shows "recovered u burst rate prev t' rl"
proof -
  have nn: "0 \<le> seconds (t' - t) * rate" using assms by (simp add: seconds_nonneg)
  note least = tokens_left_least [OF assms(1-4)]
  show ?thesis
  proof (cases prev)
    case None
    with assms(5) least nn have "burst \<le> tokens_left u burst t' rl" by (simp add: recovered_def)
    with None tokens_left_range(2) [OF bucket_ok_later [OF assms(1,2)] assms(4,3)] show ?thesis by (simp add: recovered_def)
  next
    case (Some s)
    have "seconds (t' - s) = seconds (t - s) + seconds (t' - t)" by (simp add: seconds_add [symmetric])
    with Some assms(5) least nn show ?thesis by (simp add: recovered_def distrib_right min_def split: if_splits)
  qed
qed

lemma limiter_step_some:
  assumes "rl_configs rl = configs" and "map_of configs AccountHuman \<noteq> None"
  obtains rl' n where "limiter_step u op rl = Some (rl', n)" and "rl_configs rl' = configs"
proof (cases op)
  case (LAllow v b t)
  have "config_for b rl \<noteq> None" using assms by (auto simp: config_for_def split: option.splits)
  then have "Allow v b t rl \<noteq> None" by (auto simp: Allow_def Let_def split: option.split)
  then obtain rl' ok where a: "Allow v b t rl = Some (rl', ok)" by auto
  then have "rl_configs rl' = configs" using assms(1) by (auto simp: Allow_def Let_def split: option.splits if_splits)
  with a LAllow that show ?thesis by (simp add: limiter_step_def)
next
  case (LCleanup age t)
  with assms(1) that show ?thesis by (simp add: limiter_step_def CleanupBuckets_def)
qed

lemma paced_run:
  assumes cfg: "burst = rat_of_int (rc_BurstSize cfg)" "rate = rat_of_int (rc_MaxPerSecond cfg)" "1 \<le> burst" "0 \<le> rate"
    and human: "map_of configs AccountHuman \<noteq> None"
  shows "bucket_ok u burst rate t rl \<Longrightarrow> recovered u burst rate prev t rl \<Longrightarrow> rl_configs rl = configs \<Longrightarrow> config_for a rl = Some cfg \<Longrightarrow>
    sorted (map op_time ops) \<Longrightarrow> \<forall>op \<in> set ops. t \<le> op_time op \<and> op_allowed u a burst rate op \<Longrightarrow> paced u rate prev ops \<Longrightarrow>
    \<exists>rl'. limiter_run u ops rl = Some (rl', length (filter (own_request u) ops))"
proof (induction ops arbitrary: rl t prev)
  case (Cons op ops)
  let ?s = "op_time op"
  have b0: "0 \<le> burst" using cfg(3) by simp
  obtain rl1 n where s: "limiter_step u op rl = Some (rl1, n)" "rl_configs rl1 = configs"
    using limiter_step_some [OF Cons.prems(3) human] .
  have le: "t \<le> ?s" and al: "op_allowed u a burst rate op" using Cons.prems(6) by auto
  have ok: "bucket_ok u burst rate ?s rl" using Cons.prems(1) le by (rule bucket_ok_later)
  have rec: "recovered u burst rate prev ?s rl" by (rule recovered_later [OF Cons.prems(1) le cfg(4) b0 Cons.prems(2)])
  from limiter_step_effect [OF s(1) refl al ok Cons.prems(4) cfg(1,2) b0 cfg(4)]
  have e: "bucket_ok u burst rate ?s rl1" "tokens_left u burst ?s rl1 + rat_of_nat n = tokens_left u burst ?s rl" "config_for a rl1 = Some cfg"
    by simp_all
  have rest: "sorted (map op_time ops)" "\<forall>op \<in> set ops. ?s \<le> op_time op \<and> op_allowed u a burst rate op"
    using Cons.prems(5,6) by auto
  show ?case
  proof (cases "own_request u op")
    case True
    then have p: "due rate prev ?s" "paced u rate (Some ?s) ops" using Cons.prems(7) by simp_all
    from True al obtain o: "op = LAllow u a ?s"
      by (auto simp: own_request_def op_allowed_def op_time_def split: limiter_op.splits)
    have "1 \<le> tokens_left u burst ?s rl"
      using rec p(1) cfg(3) by (auto simp: recovered_def due_def min_def split: option.splits if_splits)
    with allow_own [OF ok Cons.prems(4) cfg(1,2) b0 cfg(4)] s(1) have n: "n = 1"
      by (subst (asm) o) (auto simp: limiter_step_def)
    have "recovered u burst rate (Some ?s) ?s rl1"
      using tokens_left_range(1) [OF e(1) b0 cfg(4)] b0 by (simp add: recovered_def seconds_def)
    from Cons.IH [OF e(1) this s(2) e(3) rest p(2)] show ?thesis using s(1) n True by auto
  next
    case False
    then have "n = 0" using s(1) by (auto simp: limiter_step_def own_request_def split: limiter_op.splits)
    moreover from this rec e(2) have "recovered u burst rate prev ?s rl1" by (simp add: recovered_def split: option.splits)
    ultimately show ?thesis using Cons.IH [OF e(1) _ s(2) e(3) rest] Cons.prems(7) s(1) False by auto
  qed
qed simp

text \<open>
  nobody is refused who keeps to the rate: whatever the others do, when a user waits the time of one token between
  requests, every request is let through.
\<close>

theorem paced_user_never_refused:
  assumes "map_of configs a = Some cfg" and "map_of configs AccountHuman \<noteq> None" and "1 \<le> rc_BurstSize cfg" and "0 \<le> rc_MaxPerSecond cfg"
    and "sorted (map op_time ops)" and "\<forall>op \<in> set ops. op_allowed u a (rat_of_int (rc_BurstSize cfg)) (rat_of_int (rc_MaxPerSecond cfg)) op"
    and "paced u (rat_of_int (rc_MaxPerSecond cfg)) None ops"
  shows "\<exists>rl. limiter_run u ops (NewRateLimiter configs) = Some (rl, length (filter (own_request u) ops))"
proof -
  let ?B = "rat_of_int (rc_BurstSize cfg)" and ?R = "rat_of_int (rc_MaxPerSecond cfg)"
  let ?t = "case ops of [] \<Rightarrow> 0 | op # _ \<Rightarrow> op_time op"
  have cfg: "?B = rat_of_int (rc_BurstSize cfg)" "?R = rat_of_int (rc_MaxPerSecond cfg)" "1 \<le> ?B" "0 \<le> ?R" using assms(3,4) by simp_all
  have "\<forall>op \<in> set ops. ?t \<le> op_time op \<and> op_allowed u a ?B ?R op" using assms(5,6) by (auto split: list.split)
  moreover have "recovered u ?B ?R None ?t (NewRateLimiter configs)" "config_for a (NewRateLimiter configs) = Some cfg"
    "rl_configs (NewRateLimiter configs) = configs"
    using assms(1) by (simp_all add: recovered_def tokens_left_def NewRateLimiter_def config_for_def)
  ultimately show ?thesis using paced_run [OF cfg assms(2), where t = ?t and u = u and rl = "NewRateLimiter configs" and prev = None and a = a and ops = ops] new_limiter_ok assms(5,7) by blast
qed

text \<open>Twenty-five requests of a person at once: twenty pass. With a tenth of a second between them all pass.\<close>

definition sample_requests :: "duration \<Rightarrow> nat \<Rightarrow> limiter_op list" where
  "sample_requests gap n = map (\<lambda>i. LAllow 1 AccountHuman (int i * gap)) [0..<n]"

lemma sample_requests_counted:
  "map_option snd (limiter_run 1 (sample_requests 0 25) (NewRateLimiter DefaultRateLimits)) = Some 20"
  by code_simp

theorem requests_limited_per_window_witness:
  "map_option snd (limiter_run 1 (sample_requests 0 25) (NewRateLimiter DefaultRateLimits)) = Some 20 \<and> rat_of_nat 20 \<le> 20 + seconds 0 * 10"
proof -
  let ?cfg = "\<lparr>rc_MaxPerSecond = 10, rc_MaxPerMinute = 120, rc_BurstSize = 20\<rparr>"
  obtain rl where r: "limiter_run 1 ([] @ sample_requests 0 25) (NewRateLimiter DefaultRateLimits) = Some (rl, 0 + 20)"
    using sample_requests_counted by (auto simp: map_option_case split: option.splits)
  have "map_of DefaultRateLimits AccountHuman = Some ?cfg" by (simp add: DefaultRateLimits_def)
  moreover have "sorted (map op_time (sample_requests 0 25))" by code_simp
  moreover have "\<forall>op \<in> set (sample_requests 0 25). op_time op = 0 \<and> op_allowed 1 AccountHuman 20 10 op"
    by (auto simp: sample_requests_def op_time_def op_allowed_def)
  ultimately have "rat_of_nat 20 \<le> 20 + seconds 0 * 10"
    using requests_limited_per_window [OF r, of "NewRateLimiter DefaultRateLimits" AccountHuman ?cfg 0 0] by simp
  with sample_requests_counted show ?thesis by simp
qed

theorem paced_user_never_refused_witness:
  "\<exists>rl. limiter_run 1 (sample_requests 100000000 25) (NewRateLimiter DefaultRateLimits) = Some (rl, 25)"
proof -
  let ?cfg = "\<lparr>rc_MaxPerSecond = 10, rc_MaxPerMinute = 120, rc_BurstSize = 20\<rparr>"
  have "map_of DefaultRateLimits AccountHuman = Some ?cfg" by (simp add: DefaultRateLimits_def)
  moreover have "map_of DefaultRateLimits AccountHuman \<noteq> None" by (simp add: DefaultRateLimits_def)
  moreover have "paced 1 10 None (sample_requests 100000000 25)" by code_simp
  moreover have "sorted (map op_time (sample_requests 100000000 25))" by code_simp
  moreover have "\<forall>op \<in> set (sample_requests 100000000 25). op_allowed 1 AccountHuman 20 10 op"
    by (auto simp: sample_requests_def op_allowed_def)
  moreover have "length (filter (own_request 1) (sample_requests 100000000 25)) = 25" by code_simp
  ultimately show ?thesis using paced_user_never_refused [of DefaultRateLimits AccountHuman ?cfg "sample_requests 100000000 25" 1] by simp
qed

end
