(* ===== verification/Paging.thy ===== *)
theory Paging
  imports Prelude
begin

text \<open>
  Reading a long list page by page: a reader asks for a page, and for the next one with the cursor of the last row
  it got. What the queries of the server promise for this is the locale \<open>pager\<close>; what a reader gets is proved once.
\<close>

text \<open>At most \<open>k\<close> pages, until one is empty.\<close>

fun walk :: "nat \<Rightarrow> ('c option \<Rightarrow> 'r list) \<Rightarrow> ('r \<Rightarrow> 'c) \<Rightarrow> 'c option \<Rightarrow> 'r list" where
  "walk 0 page cursor c = []"
| "walk (Suc k) page cursor c = (let p = page c in if p = [] then [] else p @ walk k page cursor (Some (cursor (last p))))"

text \<open>The rows in the order of the query, and the page after the row with a cursor.\<close>

locale pager =
  fixes rows :: "'q \<Rightarrow> 'r list"
    and page :: "'q \<Rightarrow> 'c option \<Rightarrow> 'r list"
    and cursor :: "'r \<Rightarrow> 'c"
    and size :: "'q \<Rightarrow> nat"
    and fine :: "'q \<Rightarrow> bool"
  assumes size_pos: "0 < size q"
    and first_page: "fine q \<Longrightarrow> page q None = take (size q) (rows q)"
    and next_page: "fine q \<Longrightarrow> rows q = xs @ r # ys \<Longrightarrow> page q (Some (cursor r)) = take (size q) ys"
begin

lemma walk_rest:
  "fine q \<Longrightarrow> rows q = xs @ ys \<Longrightarrow> page q c = take (size q) ys \<Longrightarrow> walk k (page q) cursor c = take (k * size q) ys"
proof (induction k arbitrary: c xs ys)
  case (Suc k)
  show ?case
  proof (cases "page q c = []")
    case True
    with Suc.prems(3) size_pos [of q] have "ys = []" by (metis neq0_conv take_eq_Nil)
    with True show ?thesis by simp
  next
    case False
    let ?p = "take (size q) ys" and ?rest = "drop (size q) ys"
    from False Suc.prems(3) have p: "?p \<noteq> []" by simp
    then have rows: "rows q = (xs @ butlast ?p) @ last ?p # ?rest"
      using Suc.prems(2) by (metis append.assoc append_Cons append_Nil append_butlast_last_id append_take_drop_id)
    from next_page [OF Suc.prems(1) rows] have n: "page q (Some (cursor (last ?p))) = take (size q) ?rest" .
    have r: "rows q = (xs @ ?p) @ ?rest" using Suc.prems(2) by simp
    from Suc.IH [OF Suc.prems(1) r n] have "walk k (page q) cursor (Some (cursor (last ?p))) = take (k * size q) ?rest" .
    with Suc.prems(3) p show ?thesis by (simp add: Let_def take_add)
  qed
qed simp

lemma walk_all:
  assumes "fine q" and "length (rows q) \<le> k * size q"
  shows "walk k (page q) cursor None = rows q"
  using walk_rest [OF assms(1), of "[]" "rows q" None k] first_page [OF assms(1)] assms(2) by simp

lemma walk_after:
  assumes "fine q" and "rows q = xs @ r # ys" and "length ys \<le> k * size q"
  shows "walk k (page q) cursor (Some (cursor r)) = ys"
  using walk_rest [OF assms(1), of "xs @ [r]" ys] next_page [OF assms(1,2)] assms(2,3) by simp

end

section \<open>Rows in a strict order\<close>

lemma filter_after:
  assumes "sorted_wrt (\<lambda>x y. R x y \<and> \<not> R y x) (xs @ r # ys)" and "\<not> R r r"
  shows "filter (R r) (xs @ r # ys) = ys"
proof -
  have "\<forall>x \<in> set xs. \<not> R r x" "\<forall>y \<in> set ys. R r y" using assms(1) by (auto simp: sorted_wrt_append)
  then show ?thesis using assms(2) by (simp add: filter_empty_conv filter_id_conv)
qed

end
