(* ===== verification/MessageStore.thy ===== *)
theory MessageStore
  imports MessageRequests Paging
begin

text \<open>
  The messages of topics in the database (\<open>server/db/postgres/messages.go\<close>): what the statements do to the table, how a
  message is saved once for the id its client gave it, and the queries that read topics page by page. Rows are in the
  order they were inserted, which is the order of their ids; two rows of the same moment keep it. A statement that
  fails has no effect; when an operation has several, what other connections insert between them is an argument.
\<close>

section \<open>The table\<close>

record stored_message =
  mg_ID :: int
  mg_TopicID :: string
  mg_FromUID :: uid
  mg_Content :: string
  mg_MsgType :: string
  mg_CreatedAt :: go_time
  mg_ContentBlocks :: "ContentBlock list"
  mg_Mode :: string
  mg_Role :: string
  mg_ReplyTo :: "int option"
  mg_ClientMsgID :: "string option"
  mg_Metadata :: metadata

record message_db =
  md_messages :: "stored_message list"
  md_nextID :: int
  md_topics :: "(string, string \<times> uid) gomap"

definition CreateTopic :: "string \<Rightarrow> string \<Rightarrow> uid \<Rightarrow> bool \<Rightarrow> message_db \<Rightarrow> message_db \<times> bool" where
  "CreateTopic i topicType ownerID works db =
     (if \<not> works then (db, False)
      else (if map_of (md_topics db) i = None then db\<lparr>md_topics := gm_put i (topicType, ownerID) (md_topics db)\<rparr> else db, True))"

text \<open>\<open>SELECT id FROM messages WHERE topic_id = $1 AND from_uid = $2 AND client_msg_id = $3\<close>\<close>

definition client_message :: "string \<Rightarrow> uid \<Rightarrow> string \<Rightarrow> message_db \<Rightarrow> int option" where
  "client_message topicID fromUID clientMsgID db =
     map_option mg_ID (List.find (\<lambda>m. mg_TopicID m = topicID \<and> mg_FromUID m = fromUID \<and> mg_ClientMsgID m = Some clientMsgID) (md_messages db))"

text \<open>
  \<open>INSERT INTO messages ... RETURNING id\<close>. The index \<open>uk_messages_client_msg_id\<close> admits one message of an author
  in a topic for a client's id; a refused row has used up its number.
\<close>

definition insert_message :: "stored_message \<Rightarrow> bool \<Rightarrow> message_db \<Rightarrow> message_db \<times> int option" where
  "insert_message m works db =
     (if \<not> works then (db, None)
      else let i = md_nextID db; db = db\<lparr>md_nextID := i + 1\<rparr>
           in case mg_ClientMsgID m of
                None \<Rightarrow> (db\<lparr>md_messages := md_messages db @ [m\<lparr>mg_ID := i\<rparr>]\<rparr>, Some i)
              | Some k \<Rightarrow>
                  if k \<noteq> [] \<and> client_message (mg_TopicID m) (mg_FromUID m) k db \<noteq> None then (db, None)
                  else (db\<lparr>md_messages := md_messages db @ [m\<lparr>mg_ID := i\<rparr>]\<rparr>, Some i))"

record message_fields =
  mf_content :: string
  mf_blocks :: "ContentBlock list"
  mf_mode :: string
  mf_role :: string
  mf_msgType :: string
  mf_replyTo :: int
  mf_clientMsgID :: string
  mf_metadata :: metadata

definition normalized_row :: "string \<Rightarrow> uid \<Rightarrow> message_fields \<Rightarrow> go_time \<Rightarrow> stored_message" where
  "normalized_row topicID fromUID f now =
     \<lparr>mg_ID = 0, mg_TopicID = topicID, mg_FromUID = fromUID, mg_Content = mf_content f, mg_MsgType = mf_msgType f, mg_CreatedAt = now,
      mg_ContentBlocks = mf_blocks f,
      mg_Mode = (if mf_mode f \<noteq> [] then mf_mode f else if mf_blocks f \<noteq> [] then ''code'' else ''normal''), mg_Role = mf_role f,
      mg_ReplyTo = (if mf_replyTo f = 0 then None else Some (mf_replyTo f)),
      mg_ClientMsgID = (if mf_clientMsgID f = [] then None else Some (mf_clientMsgID f)), mg_Metadata = mf_metadata f\<rparr>"

definition saveMessageNormalized :: "string \<Rightarrow> uid \<Rightarrow> message_fields \<Rightarrow> go_time \<Rightarrow> bool \<Rightarrow> message_db \<Rightarrow> message_db \<times> int option" where
  "saveMessageNormalized topicID fromUID f now works db = insert_message (normalized_row topicID fromUID f now) works db"

text \<open>Which of the up to three statements succeed, and what others do before the insertion and before the second lookup.\<close>

record save_env =
  sv_now :: go_time
  sv_lookup :: bool
  sv_insert :: bool
  sv_again :: bool
  sv_before :: "(stored_message \<times> bool) list"
  sv_after :: "(stored_message \<times> bool) list"

definition inserted :: "(stored_message \<times> bool) list \<Rightarrow> message_db \<Rightarrow> message_db" where
  "inserted ms db = fold (\<lambda>(m, works) db. fst (insert_message m works db)) ms db"

definition SaveMessageWithMetadata ::
  "string \<Rightarrow> uid \<Rightarrow> message_fields \<Rightarrow> save_env \<Rightarrow> message_db \<Rightarrow> message_db \<times> (int \<times> bool) option" where
  "SaveMessageWithMetadata topicID fromUID f env db =
     (let save = saveMessageNormalized topicID fromUID f (sv_now env) (sv_insert env); key = mf_clientMsgID f
      in if key = [] then (case save db of (db, r) \<Rightarrow> (db, map_option (\<lambda>i. (i, False)) r))
         else if \<not> sv_lookup env then (db, None)
         else case client_message topicID fromUID key db of
           Some i \<Rightarrow> (db, Some (i, True))
         | None \<Rightarrow>
             (case save (inserted (sv_before env) db) of
                (db, Some i) \<Rightarrow> (db, Some (i, False))
              | (db, None) \<Rightarrow>
                  let db = inserted (sv_after env) db
                  in if \<not> sv_again env then (db, None)
                     else (db, map_option (\<lambda>i. (i, True)) (client_message topicID fromUID key db))))"

definition SaveMessageIdempotent ::
  "string \<Rightarrow> uid \<Rightarrow> message_fields \<Rightarrow> save_env \<Rightarrow> message_db \<Rightarrow> message_db \<times> (int \<times> bool) option" where
  "SaveMessageIdempotent topicID fromUID f env db = SaveMessageWithMetadata topicID fromUID (f\<lparr>mf_metadata := []\<rparr>) env db"

text \<open>The older ways to save, with the columns' defaults.\<close>

definition plain_row :: "string \<Rightarrow> uid \<Rightarrow> string \<Rightarrow> string \<Rightarrow> go_time \<Rightarrow> stored_message" where
  "plain_row topicID fromUID content msgType now =
     \<lparr>mg_ID = 0, mg_TopicID = topicID, mg_FromUID = fromUID, mg_Content = content, mg_MsgType = msgType, mg_CreatedAt = now,
      mg_ContentBlocks = [], mg_Mode = ''normal'', mg_Role = [], mg_ReplyTo = None, mg_ClientMsgID = None, mg_Metadata = []\<rparr>"

definition SaveMessage :: "string \<Rightarrow> uid \<Rightarrow> string \<Rightarrow> string \<Rightarrow> go_time \<Rightarrow> bool \<Rightarrow> message_db \<Rightarrow> message_db \<times> int option" where
  "SaveMessage topicID fromUID content msgType now works db = insert_message (plain_row topicID fromUID content msgType now) works db"

definition SaveMessageWithBlocks ::
  "string \<Rightarrow> uid \<Rightarrow> string \<Rightarrow> ContentBlock list \<Rightarrow> string \<Rightarrow> string \<Rightarrow> string \<Rightarrow> go_time \<Rightarrow> bool \<Rightarrow> message_db \<Rightarrow> message_db \<times> int option" where
  "SaveMessageWithBlocks topicID fromUID content blocks mode role msgType now works db =
     insert_message ((plain_row topicID fromUID content msgType now)\<lparr>mg_ContentBlocks := blocks, mg_Mode := mode, mg_Role := role\<rparr>) works db"

definition SaveMessageWithReply ::
  "string \<Rightarrow> uid \<Rightarrow> string \<Rightarrow> string \<Rightarrow> int \<Rightarrow> go_time \<Rightarrow> bool \<Rightarrow> message_db \<Rightarrow> message_db \<times> int option" where
  "SaveMessageWithReply topicID fromUID content msgType replyTo now works db =
     insert_message ((plain_row topicID fromUID content msgType now)\<lparr>mg_ReplyTo := if replyTo > 0 then Some replyTo else None\<rparr>) works db"

section \<open>Queries\<close>

text \<open>A query answers nothing when it fails.\<close>

definition page_limit :: "int \<Rightarrow> nat" where
  "page_limit limit = (if limit \<le> 0 then 50 else nat limit)"

definition topic_messages :: "string \<Rightarrow> message_db \<Rightarrow> stored_message list" where
  "topic_messages topicID db = sort_key mg_ID (filter (\<lambda>m. mg_TopicID m = topicID) (md_messages db))"

definition GetMessagesSince :: "string \<Rightarrow> int \<Rightarrow> int \<Rightarrow> message_db \<Rightarrow> stored_message list" where
  "GetMessagesSince topicID sinceID limit db = take (page_limit limit) (filter (\<lambda>m. mg_ID m > sinceID) (topic_messages topicID db))"

definition GetRecentMessages :: "string \<Rightarrow> int \<Rightarrow> message_db \<Rightarrow> stored_message list" where
  "GetRecentMessages topicID limit db = rev (take (page_limit limit) (rev (topic_messages topicID db)))"

definition GetMessages :: "string \<Rightarrow> int \<Rightarrow> nat \<Rightarrow> message_db \<Rightarrow> stored_message list" where
  "GetMessages topicID limit offset db = take (page_limit limit) (drop offset (sort_key mg_CreatedAt (topic_messages topicID db)))"

definition GetLatestMessages :: "string \<Rightarrow> int \<Rightarrow> nat \<Rightarrow> message_db \<Rightarrow> stored_message list" where
  "GetLatestMessages topicID limit offset db = rev (take (page_limit limit) (drop offset (rev (topic_messages topicID db))))"

definition GetLatestMessagesBefore :: "string \<Rightarrow> int \<Rightarrow> int \<Rightarrow> message_db \<Rightarrow> stored_message list" where
  "GetLatestMessagesBefore topicID beforeID limit db =
     (if beforeID \<le> 0 then GetLatestMessages topicID (int (page_limit limit)) 0 db
      else rev (take (page_limit limit) (rev (filter (\<lambda>m. mg_ID m < beforeID) (topic_messages topicID db)))))"

definition GetLatestMessagesForTopics :: "string list \<Rightarrow> message_db \<Rightarrow> (string, stored_message) gomap" where
  "GetLatestMessagesForTopics topicIDs db =
     map (\<lambda>t. (t, last (topic_messages t db))) (filter (\<lambda>t. topic_messages t db \<noteq> []) (remdups topicIDs))"

section \<open>Files\<close>

definition file_message :: "stored_message \<Rightarrow> bool" where
  "file_message m \<longleftrightarrow> mg_MsgType m \<in> {''file'', ''image''} \<or> list_ex (\<lambda>b. cb_Type b \<in> {''file'', ''image''}) (mg_ContentBlocks m)"

text \<open>A message's place in the order \<open>created_at, id\<close>.\<close>

definition file_place :: "stored_message \<Rightarrow> go_time \<times> int" where
  "file_place m = (mg_CreatedAt m, mg_ID m)"

definition fileMessageBeforeClause :: "int \<Rightarrow> go_time \<Rightarrow> bool \<Rightarrow> message_db \<Rightarrow> stored_message \<Rightarrow> bool" where
  "fileMessageBeforeClause beforeID beforeCreatedAt legacyIDOnly db m \<longleftrightarrow>
     (if legacyIDOnly \<and> beforeID > 0 then mg_ID m < beforeID
      else if beforeID > 0 \<and> \<not> is_zero_time beforeCreatedAt then file_place m < (beforeCreatedAt, beforeID)
      else if beforeID > 0 then
        (case List.find (\<lambda>x. mg_ID x = beforeID) (md_messages db) of
           Some x \<Rightarrow> file_place m < file_place x
         | None \<Rightarrow> mg_ID m < beforeID)
      else if \<not> is_zero_time beforeCreatedAt then mg_CreatedAt m < beforeCreatedAt
      else True)"

text \<open>\<open>ORDER BY created_at DESC, id DESC\<close>\<close>

definition newest_first :: "stored_message list \<Rightarrow> stored_message list" where
  "newest_first ms = rev (sort_key file_place ms)"

definition list_file_messages ::
  "(stored_message \<Rightarrow> bool) \<Rightarrow> string \<Rightarrow> int \<Rightarrow> go_time \<Rightarrow> int \<Rightarrow> bool \<Rightarrow> message_db \<Rightarrow> stored_message list" where
  "list_file_messages from_author topicID beforeID beforeCreatedAt limit legacyIDOnly db =
     (if topicID = [] then []
      else take (page_limit limit) (newest_first (filter (\<lambda>m. from_author m \<and> mg_TopicID m = topicID \<and> file_message m \<and>
             fileMessageBeforeClause beforeID beforeCreatedAt legacyIDOnly db m) (md_messages db))))"

definition listAgentFileMessages :: "uid \<Rightarrow> string \<Rightarrow> int \<Rightarrow> go_time \<Rightarrow> int \<Rightarrow> bool \<Rightarrow> message_db \<Rightarrow> stored_message list" where
  "listAgentFileMessages agentUID = list_file_messages (\<lambda>m. mg_FromUID m = agentUID)"

definition listTopicFileMessages :: "string \<Rightarrow> int \<Rightarrow> go_time \<Rightarrow> int \<Rightarrow> bool \<Rightarrow> message_db \<Rightarrow> stored_message list" where
  "listTopicFileMessages = list_file_messages (\<lambda>_. True)"

definition ListAgentFileMessages :: "uid \<Rightarrow> string \<Rightarrow> int \<Rightarrow> int \<Rightarrow> message_db \<Rightarrow> stored_message list" where
  "ListAgentFileMessages agentUID topicID beforeID limit db = listAgentFileMessages agentUID topicID beforeID zero_time limit True db"

definition ListAgentFileMessagesWithCursor :: "uid \<Rightarrow> string \<Rightarrow> int \<Rightarrow> go_time \<Rightarrow> int \<Rightarrow> message_db \<Rightarrow> stored_message list" where
  "ListAgentFileMessagesWithCursor agentUID topicID beforeID beforeCreatedAt limit db =
     listAgentFileMessages agentUID topicID beforeID beforeCreatedAt limit False db"

definition ListTopicFileMessages :: "string \<Rightarrow> int \<Rightarrow> int \<Rightarrow> message_db \<Rightarrow> stored_message list" where
  "ListTopicFileMessages topicID beforeID limit db = listTopicFileMessages topicID beforeID zero_time limit True db"

definition ListTopicFileMessagesWithCursor :: "string \<Rightarrow> int \<Rightarrow> go_time \<Rightarrow> int \<Rightarrow> message_db \<Rightarrow> stored_message list" where
  "ListTopicFileMessagesWithCursor topicID beforeID beforeCreatedAt limit db =
     listTopicFileMessages topicID beforeID beforeCreatedAt limit False db"

section \<open>Titles\<close>

definition UpdateConversationTitle ::
  "uid \<Rightarrow> string \<Rightarrow> string \<Rightarrow> message_db \<Rightarrow> (uid \<times> string, string) gomap \<Rightarrow> (uid \<times> string, string) gomap \<times> bool" where
  "UpdateConversationTitle ownerID topicID title db titles =
     (case map_of (md_topics db) topicID of
        Some (kind, _) \<Rightarrow> if kind = ''p2p'' then (gm_put (ownerID, topicID) title titles, True) else (titles, False)
      | None \<Rightarrow> (titles, False))"

definition GetConversationTitles :: "uid \<Rightarrow> string list \<Rightarrow> (uid \<times> string, string) gomap \<Rightarrow> (string, string) gomap" where
  "GetConversationTitles ownerID topicIDs titles =
     map (\<lambda>kv. (snd (fst kv), snd kv)) (filter (\<lambda>kv. fst (fst kv) = ownerID \<and> snd (fst kv) \<in> set topicIDs) titles)"

section \<open>What the table keeps\<close>

definition db_ok :: "message_db \<Rightarrow> bool" where
  "db_ok db \<longleftrightarrow> sorted_wrt (<) (map mg_ID (md_messages db)) \<and> (\<forall>m \<in> set (md_messages db). 0 < mg_ID m \<and> mg_ID m < md_nextID db) \<and>
     0 < md_nextID db"

definition empty_messages :: message_db where
  "empty_messages = \<lparr>md_messages = [], md_nextID = 1, md_topics = []\<rparr>"

definition has_key :: "string \<Rightarrow> uid \<Rightarrow> string \<Rightarrow> stored_message \<Rightarrow> bool" where
  "has_key t u k m \<longleftrightarrow> mg_TopicID m = t \<and> mg_FromUID m = u \<and> mg_ClientMsgID m = Some k"

text \<open>The rows with a key.\<close>

definition keyed :: "string \<Rightarrow> uid \<Rightarrow> string \<Rightarrow> message_db \<Rightarrow> stored_message list" where
  "keyed t u k db = filter (has_key t u k) (md_messages db)"

datatype message_op = MSave string uid message_fields save_env | MInsert stored_message bool | MTopic string string uid bool

definition message_step :: "message_op \<Rightarrow> message_db \<Rightarrow> message_db" where
  "message_step op db =
     (case op of MSave t u f env \<Rightarrow> fst (SaveMessageWithMetadata t u f env db) | MInsert m works \<Rightarrow> fst (insert_message m works db)
      | MTopic i kind owner works \<Rightarrow> fst (CreateTopic i kind owner works db))"

text \<open>Every change of the messages is a sequence of insertions.\<close>

lemma step_inserts: "\<exists>ms. md_messages (message_step op db) = md_messages (inserted ms db) \<and> md_nextID (message_step op db) = md_nextID (inserted ms db)"
proof (cases op)
  case (MSave t u f env)
  let ?row = "(normalized_row t u f (sv_now env), sv_insert env)"
  have "fst (SaveMessageWithMetadata t u f env db) \<in>
      {inserted [] db, inserted [?row] db, inserted (sv_before env @ [?row]) db, inserted (sv_before env @ [?row] @ sv_after env) db}"
    by (cases "mf_clientMsgID f = []"; cases "client_message t u (mf_clientMsgID f) db")
       (auto simp: SaveMessageWithMetadata_def saveMessageNormalized_def inserted_def Let_def split: prod.split option.split)
  then obtain ms where "fst (SaveMessageWithMetadata t u f env db) = inserted ms db" by blast
  with MSave show ?thesis by (intro exI [of _ ms]) (simp add: message_step_def)
next
  case (MInsert m works)
  then show ?thesis by (intro exI [of _ "[(m, works)]"]) (simp add: message_step_def inserted_def)
next
  case (MTopic i kind owner works)
  then show ?thesis by (intro exI [of _ "[]"]) (simp add: message_step_def inserted_def CreateTopic_def)
qed

lemma client_message_keyed: "client_message t u k db = (case keyed t u k db of [] \<Rightarrow> None | m # _ \<Rightarrow> Some (mg_ID m))"
proof -
  have "List.find P xs = (case filter P xs of [] \<Rightarrow> None | x # _ \<Rightarrow> Some x)" for P and xs :: "stored_message list"
    by (induction xs) auto
  then show ?thesis by (auto simp: client_message_def keyed_def has_key_def [abs_def] split: list.split)
qed

lemma insert_cases:
  obtains "md_messages (fst (insert_message m works db)) = md_messages db" "snd (insert_message m works db) = None"
      "md_nextID db \<le> md_nextID (fst (insert_message m works db))"
  | "md_messages (fst (insert_message m works db)) = md_messages db @ [m\<lparr>mg_ID := md_nextID db\<rparr>]"
      "snd (insert_message m works db) = Some (md_nextID db)" "md_nextID (fst (insert_message m works db)) = md_nextID db + 1"
      "\<And>t u k. k \<noteq> [] \<Longrightarrow> has_key t u k m \<Longrightarrow> keyed t u k db = []"
proof -
  let ?dup = "case mg_ClientMsgID m of None \<Rightarrow> False | Some k \<Rightarrow> k \<noteq> [] \<and> keyed (mg_TopicID m) (mg_FromUID m) k db \<noteq> []"
  have c: "client_message t u k (db\<lparr>md_nextID := i\<rparr>) = client_message t u k db" for t u k i
    by (simp add: client_message_def)
  have n: "client_message t u k db = None \<longleftrightarrow> keyed t u k db = []" for t u k
    by (simp add: client_message_keyed split: list.split)
  show thesis
  proof (cases "works \<and> \<not> ?dup")
    case True
    then show thesis
      by (intro that(2)) (auto simp: insert_message_def Let_def c n has_key_def split: option.split)
  next
    case False
    then show thesis
      by (intro that(1)) (auto simp: insert_message_def Let_def c n split: option.splits)
  qed
qed

lemma insert_db_ok: "db_ok db \<Longrightarrow> db_ok (fst (insert_message m works db))"
  by (rule insert_cases [of m works db]) (auto simp: db_ok_def sorted_wrt_append order_less_le_trans)

lemma inserted_db_ok: "db_ok db \<Longrightarrow> db_ok (inserted ms db)"
  unfolding inserted_def by (induction ms arbitrary: db) (auto simp: insert_db_ok)

definition keys_unique :: "message_db \<Rightarrow> bool" where
  "keys_unique db \<longleftrightarrow> (\<forall>t u k. k \<noteq> [] \<longrightarrow> length (keyed t u k db) \<le> 1)"

lemma insert_keys_unique: "keys_unique db \<Longrightarrow> keys_unique (fst (insert_message m works db))"
  by (rule insert_cases [of m works db]) (auto simp: keys_unique_def keyed_def has_key_def)

lemma inserted_keys_unique: "keys_unique db \<Longrightarrow> keys_unique (inserted ms db)"
  unfolding inserted_def by (induction ms arbitrary: db) (auto simp: insert_keys_unique)

lemma insert_keeps_key:
  assumes "keyed t u k db = [m]" and "k \<noteq> []"
  shows "keyed t u k (fst (insert_message x works db)) = [m]"
proof (rule insert_cases [of x works db])
  assume a: "md_messages (fst (insert_message x works db)) = md_messages db @ [x\<lparr>mg_ID := md_nextID db\<rparr>]"
    and new: "\<And>t u k. k \<noteq> [] \<Longrightarrow> has_key t u k x \<Longrightarrow> keyed t u k db = []"
  have "\<not> has_key t u k x" using new [OF assms(2)] assms(1) by auto
  then have "\<not> has_key t u k (x\<lparr>mg_ID := md_nextID db\<rparr>)" by (simp add: has_key_def)
  with assms(1) show ?thesis by (simp add: keyed_def a)
qed (use assms(1) in \<open>simp add: keyed_def\<close>)

lemma inserted_keeps_key: "k \<noteq> [] \<Longrightarrow> keyed t u k db = [m] \<Longrightarrow> keyed t u k (inserted ms db) = [m]"
  unfolding inserted_def by (induction ms arbitrary: db) (auto simp: insert_keeps_key)

lemma step_keeps:
  shows "db_ok db \<Longrightarrow> db_ok (message_step op db)" and "keys_unique db \<Longrightarrow> keys_unique (message_step op db)"
    and "k \<noteq> [] \<Longrightarrow> keyed t u k db = [m] \<Longrightarrow> keyed t u k (message_step op db) = [m]"
proof -
  obtain ms where ms: "md_messages (message_step op db) = md_messages (inserted ms db)" "md_nextID (message_step op db) = md_nextID (inserted ms db)"
    using step_inserts by blast
  then show "db_ok db \<Longrightarrow> db_ok (message_step op db)" "keys_unique db \<Longrightarrow> keys_unique (message_step op db)"
    "k \<noteq> [] \<Longrightarrow> keyed t u k db = [m] \<Longrightarrow> keyed t u k (message_step op db) = [m]"
    using inserted_db_ok [of db ms] inserted_keys_unique [of db ms] inserted_keeps_key [of k t u db m ms]
    by (simp_all add: db_ok_def keys_unique_def keyed_def)
qed

lemma steps_keep:
  shows "db_ok db \<Longrightarrow> db_ok (fold message_step ops db)" and "keys_unique db \<Longrightarrow> keys_unique (fold message_step ops db)"
    and "k \<noteq> [] \<Longrightarrow> keyed t u k db = [m] \<Longrightarrow> keyed t u k (fold message_step ops db) = [m]"
  by (induction ops arbitrary: db) (auto simp: step_keeps)

lemma empty_ok: "db_ok empty_messages" "keys_unique empty_messages"
  by (simp_all add: db_ok_def keys_unique_def keyed_def empty_messages_def)

text \<open>A key that is there is found; a key that is saved is there.\<close>

lemma save_known:
  assumes "keyed t u (mf_clientMsgID f) db = [m]" and "mf_clientMsgID f \<noteq> []"
  shows "SaveMessageWithMetadata t u f env db = (db, if sv_lookup env then Some (mg_ID m, True) else None)"
  using assms by (simp add: SaveMessageWithMetadata_def client_message_keyed Let_def)

lemma save_makes_known:
  assumes "SaveMessageWithMetadata t u f env db = (db', Some (i, dup))" and "mf_clientMsgID f \<noteq> []" and "keys_unique db"
  shows "\<exists>m. keyed t u (mf_clientMsgID f) db' = [m] \<and> mg_ID m = i"
proof -
  let ?k = "mf_clientMsgID f" and ?row = "normalized_row t u f (sv_now env)"
  have one: "\<exists>m. keyed t u ?k d = [m] \<and> mg_ID m = i" if "client_message t u ?k d = Some i" "keys_unique d" for d
  proof -
    have "length (keyed t u ?k d) \<le> 1" using that(2) assms(2) by (simp add: keys_unique_def)
    with that(1) show ?thesis by (cases "keyed t u ?k d") (simp_all add: client_message_keyed)
  qed
  have row: "has_key t u ?k ?row" using assms(2) by (simp add: has_key_def normalized_row_def)
  show ?thesis
  proof (cases "client_message t u ?k db")
    case (Some j)
    with assms(1,2) have "db' = db" "j = i" by (auto simp: SaveMessageWithMetadata_def Let_def split: if_splits)
    with Some one [of db] assms(3) show ?thesis by simp
  next
    case None
    let ?d = "inserted (sv_before env) db"
    obtain d' r where ins: "insert_message ?row (sv_insert env) ?d = (d', r)" by fastforce
    have ud: "keys_unique d'" using insert_keys_unique [OF inserted_keys_unique [OF assms(3)], of ?row "sv_insert env" "sv_before env"] ins by simp
    show ?thesis
    proof (cases r)
      case None
      then have "db' = inserted (sv_after env) d'" "client_message t u ?k db' = Some i"
        using assms(1,2) \<open>client_message t u ?k db = None\<close> ins
        by (auto simp: SaveMessageWithMetadata_def saveMessageNormalized_def Let_def split: if_splits)
      with one inserted_keys_unique [OF ud] show ?thesis by blast
    next
      case (Some j)
      then have d: "db' = d'" "j = i"
        using assms(1,2) \<open>client_message t u ?k db = None\<close> ins
        by (auto simp: SaveMessageWithMetadata_def saveMessageNormalized_def Let_def split: if_splits)
      show ?thesis
      proof (rule insert_cases [of ?row "sv_insert env" ?d])
        assume "md_messages (fst (insert_message ?row (sv_insert env) ?d)) = md_messages ?d @ [?row\<lparr>mg_ID := md_nextID ?d\<rparr>]"
          "snd (insert_message ?row (sv_insert env) ?d) = Some (md_nextID ?d)"
          "\<And>t u k. k \<noteq> [] \<Longrightarrow> has_key t u k ?row \<Longrightarrow> keyed t u k ?d = []"
        moreover from this(3) [OF assms(2) row] have "keyed t u ?k ?d = []" .
        ultimately show ?thesis using ins Some d row by (simp add: keyed_def has_key_def)
      qed (use ins Some in simp)
    qed
  qed
qed

text \<open>
  C16: a message that its client sends again is stored once: after a save with a client's id has returned a number, every
  later save of that author with that id in that topic changes nothing and, if the database answers at all, returns the same
  number as a duplicate, whatever was saved in between and by whom, and even when another connection saves the
  same message between the lookup and the insertion; and there is exactly one such row.
\<close>

theorem resent_message_stored_once:
  assumes "SaveMessageWithMetadata t u f env (fold message_step earlier empty_messages) = (db1, Some (i, dup))"
    and "mf_clientMsgID f \<noteq> []" and "mf_clientMsgID g = mf_clientMsgID f"
  shows "SaveMessageWithMetadata t u g env' (fold message_step ops db1) =
      (fold message_step ops db1, if sv_lookup env' then Some (i, True) else None) \<and>
    map mg_ID (keyed t u (mf_clientMsgID f) (fold message_step ops db1)) = [i]"
proof -
  have "keys_unique (fold message_step earlier empty_messages)" by (rule steps_keep) (rule empty_ok)
  from save_makes_known [OF assms(1,2) this] obtain m where m: "keyed t u (mf_clientMsgID f) db1 = [m]" "mg_ID m = i" by blast
  from steps_keep(3) [OF assms(2) m(1)] have k: "keyed t u (mf_clientMsgID f) (fold message_step ops db1) = [m]" .
  then have k': "keyed t u (mf_clientMsgID g) (fold message_step ops db1) = [m]" and "mf_clientMsgID g \<noteq> []" using assms(2,3) by simp_all
  from save_known [OF this] k m(2) show ?thesis by simp
qed

section \<open>Reading all of a topic\<close>

lemma topic_rows_sorted:
  assumes "db_ok db"
  shows "topic_messages t db = filter (\<lambda>m. mg_TopicID m = t) (md_messages db)"
    and "sorted_wrt (\<lambda>x y. mg_ID x < mg_ID y \<and> \<not> mg_ID y < mg_ID x) (topic_messages t db)"
proof -
  have "sorted_wrt (\<lambda>x y. mg_ID x < mg_ID y) (md_messages db)" using assms by (simp add: db_ok_def sorted_wrt_map)
  then have s: "sorted_wrt (\<lambda>x y. mg_ID x < mg_ID y) (filter (\<lambda>m. mg_TopicID m = t) (md_messages db))" by (rule sorted_wrt_filter)
  then have "sorted (map mg_ID (filter (\<lambda>m. mg_TopicID m = t) (md_messages db)))"
    by (auto simp: sorted_map intro: sorted_wrt_mono_rel [rotated])
  then show e: "topic_messages t db = filter (\<lambda>m. mg_TopicID m = t) (md_messages db)"
    by (simp add: topic_messages_def sort_key_id_if_sorted)
  from s show "sorted_wrt (\<lambda>x y. mg_ID x < mg_ID y \<and> \<not> mg_ID y < mg_ID x) (topic_messages t db)"
    unfolding e by (rule sorted_wrt_mono_rel [rotated]) auto
qed

type_synonym since_query = "string \<times> int \<times> message_db"

definition since_page :: "since_query \<Rightarrow> int option \<Rightarrow> stored_message list" where
  "since_page q c = (case q of (t, limit, db) \<Rightarrow> GetMessagesSince t (case c of None \<Rightarrow> 0 | Some i \<Rightarrow> i) limit db)"

interpretation since_pages: pager "\<lambda>(t, limit, db). topic_messages t db" since_page mg_ID "\<lambda>(t, limit, db). page_limit limit" "\<lambda>(t, limit, db). db_ok db"
proof
  fix q :: since_query and xs r ys
  obtain t limit db where q: "q = (t, limit, db)" by (cases q)
  show "0 < (case q of (t, limit, db) \<Rightarrow> page_limit limit)" by (simp add: q page_limit_def)
  assume "case q of (t, limit, db) \<Rightarrow> db_ok db"
  then have ok: "db_ok db" by (simp add: q)
  have "\<forall>m \<in> set (topic_messages t db). 0 < mg_ID m" using ok unfolding topic_rows_sorted(1) [OF ok] by (auto simp: db_ok_def)
  then show "since_page q None = take (case q of (t, limit, db) \<Rightarrow> page_limit limit) (case q of (t, limit, db) \<Rightarrow> topic_messages t db)"
    by (simp add: q since_page_def GetMessagesSince_def filter_id_conv)
  assume "(case q of (t, limit, db) \<Rightarrow> topic_messages t db) = xs @ r # ys"
  then have rows: "topic_messages t db = xs @ r # ys" by (simp add: q)
  have "filter (\<lambda>m. mg_ID r < mg_ID m) (xs @ r # ys) = ys"
    by (rule filter_after [of "\<lambda>r m. mg_ID r < mg_ID m"]) (use topic_rows_sorted(2) [OF ok, of t] rows in simp_all)
  then show "since_page q (Some (mg_ID r)) = take (case q of (t, limit, db) \<Rightarrow> page_limit limit) ys"
    by (simp add: q since_page_def GetMessagesSince_def rows)
qed

text \<open>
  a reader that has missed messages gets all of them: asking again and again for the messages after the last one it
  has, it sees every message of the topic saved since then, each once and in the order they were saved, and it
  is done after as many pages as the messages fill.
\<close>

theorem catch_up_complete:
  assumes "length (filter (\<lambda>m. mg_TopicID m = t) (md_messages (fold message_step ops empty_messages))) \<le> k * page_limit limit"
  shows "walk k (since_page (t, limit, fold message_step ops empty_messages)) mg_ID None =
      filter (\<lambda>m. mg_TopicID m = t) (md_messages (fold message_step ops empty_messages)) \<and>
    (\<forall>xs r ys. filter (\<lambda>m. mg_TopicID m = t) (md_messages (fold message_step ops empty_messages)) = xs @ r # ys \<longrightarrow>
      walk k (since_page (t, limit, fold message_step ops empty_messages)) mg_ID (Some (mg_ID r)) = ys)"
proof -
  let ?db = "fold message_step ops empty_messages"
  have ok: "db_ok ?db" by (rule steps_keep) (rule empty_ok)
  note rows = topic_rows_sorted(1) [OF ok, of t]
  have "walk k (since_page (t, limit, ?db)) mg_ID None = topic_messages t ?db"
    using since_pages.walk_all [of "(t, limit, ?db)" k] ok assms rows by simp
  moreover have "walk k (since_page (t, limit, ?db)) mg_ID (Some (mg_ID r)) = ys" if "topic_messages t ?db = xs @ r # ys" for xs r ys
  proof -
    have "length ys \<le> length (topic_messages t ?db)" by (simp add: that)
    then have "length ys \<le> k * page_limit limit" using assms rows by simp
    then show ?thesis using since_pages.walk_after [of "(t, limit, ?db)" xs r ys k] ok that by simp
  qed
  ultimately show ?thesis by (simp add: rows)
qed

section \<open>Reading all files\<close>

text \<open>The files of one author, or of all, with the cursor of the message read last: its number and its time.\<close>

type_synonym file_query = "uid option \<times> string \<times> int \<times> message_db"

definition file_page :: "file_query \<Rightarrow> (int \<times> go_time) option \<Rightarrow> stored_message list" where
  "file_page q c =
     (case q of (author, t, limit, db) \<Rightarrow> case (case c of None \<Rightarrow> (0, zero_time) | Some c \<Rightarrow> c) of (i, at) \<Rightarrow>
        case author of Some u \<Rightarrow> ListAgentFileMessagesWithCursor u t i at limit db | None \<Rightarrow> ListTopicFileMessagesWithCursor t i at limit db)"

definition file_cursor :: "stored_message \<Rightarrow> int \<times> go_time" where
  "file_cursor m = (mg_ID m, mg_CreatedAt m)"

definition wanted_file :: "uid option \<Rightarrow> string \<Rightarrow> stored_message \<Rightarrow> bool" where
  "wanted_file author t m \<longleftrightarrow> (case author of None \<Rightarrow> True | Some u \<Rightarrow> mg_FromUID m = u) \<and> mg_TopicID m = t \<and> file_message m"

definition file_rows :: "file_query \<Rightarrow> stored_message list" where
  "file_rows q = (case q of (author, t, limit, db) \<Rightarrow> newest_first (filter (wanted_file author t) (md_messages db)))"

definition files_fine :: "file_query \<Rightarrow> bool" where
  "files_fine q = (case q of (author, t, limit, db) \<Rightarrow> t \<noteq> [] \<and> db_ok db \<and> (\<forall>m \<in> set (md_messages db). mg_CreatedAt m \<noteq> zero_time))"

lemma file_page_eq:
  "file_page (author, t, limit, db) c =
     (if t = [] then []
      else take (page_limit limit) (newest_first (filter (\<lambda>m. wanted_file author t m \<and>
             fileMessageBeforeClause (fst (case c of None \<Rightarrow> (0, zero_time) | Some c \<Rightarrow> c)) (snd (case c of None \<Rightarrow> (0, zero_time) | Some c \<Rightarrow> c))
               False db m) (md_messages db))))"
  by (simp add: file_page_def wanted_file_def ListAgentFileMessagesWithCursor_def ListTopicFileMessagesWithCursor_def
      listAgentFileMessages_def listTopicFileMessages_def list_file_messages_def case_prod_unfold conj_assoc split: option.split)

lemma newest_sorted:
  assumes "db_ok db"
  shows "sorted_wrt (\<lambda>x y. file_place y < file_place x \<and> \<not> file_place x < file_place y) (newest_first (filter P (md_messages db)))"
proof -
  let ?ms = "filter P (md_messages db)"
  have "distinct (map mg_ID (md_messages db))" using assms by (simp add: db_ok_def strict_sorted_iff)
  then have "distinct (map mg_ID ?ms)" by (simp add: distinct_map_filter)
  then have "distinct (map file_place ?ms)" by (auto simp: distinct_map inj_on_def file_place_def)
  then have "distinct (map file_place (sort_key file_place ?ms))" by (simp add: distinct_map)
  then have "sorted_wrt (<) (map file_place (sort_key file_place ?ms))" by (simp add: strict_sorted_iff)
  then have "sorted_wrt (\<lambda>x y. file_place x < file_place y) (sort_key file_place ?ms)" by (simp add: sorted_wrt_map)
  then have "sorted_wrt (\<lambda>x y. file_place y < file_place x) (newest_first ?ms)" by (simp add: newest_first_def sorted_wrt_rev)
  then show ?thesis by (rule sorted_wrt_mono_rel [rotated]) (meson order_less_asym)
qed

lemma newest_filter: "newest_first (filter (\<lambda>m. P m \<and> Q m) ms) = filter Q (newest_first (filter P ms))"
  by (simp only: newest_first_def rev_filter [symmetric] filter_sort filter_filter)

interpretation file_pages: pager file_rows file_page file_cursor "\<lambda>(author, t, limit, db). page_limit limit" files_fine
proof
  fix q :: file_query and xs r ys
  obtain author t limit db where q: "q = (author, t, limit, db)" by (cases q)
  show "0 < (case q of (author, t, limit, db) \<Rightarrow> page_limit limit)" by (simp add: q page_limit_def)
  assume "files_fine q"
  then have ok: "t \<noteq> []" "db_ok db" "\<forall>m \<in> set (md_messages db). mg_CreatedAt m \<noteq> zero_time" by (simp_all add: q files_fine_def)
  have "fileMessageBeforeClause 0 zero_time False db m" for m by (simp add: fileMessageBeforeClause_def is_zero_time_def)
  then show "file_page q None = take (case q of (author, t, limit, db) \<Rightarrow> page_limit limit) (file_rows q)"
    using ok(1) by (simp add: q file_page_eq file_rows_def)
  assume "file_rows q = xs @ r # ys"
  then have rows: "newest_first (filter (wanted_file author t) (md_messages db)) = xs @ r # ys" by (simp add: q file_rows_def)
  then have "r \<in> set (newest_first (filter (wanted_file author t) (md_messages db)))" by simp
  then have "r \<in> set (md_messages db)" by (simp add: newest_first_def)
  with ok have r: "0 < mg_ID r" "mg_CreatedAt r \<noteq> zero_time" by (auto simp: db_ok_def)
  have clause: "fileMessageBeforeClause (mg_ID r) (mg_CreatedAt r) False db m \<longleftrightarrow> file_place m < file_place r" for m
    using r by (simp add: fileMessageBeforeClause_def is_zero_time_def file_place_def)
  have "filter (\<lambda>m. file_place m < file_place r) (xs @ r # ys) = ys"
    by (rule filter_after [of "\<lambda>r m. file_place m < file_place r"]) (use newest_sorted [OF ok(2), of "wanted_file author t"] rows in simp_all)
  then show "file_page q (Some (file_cursor r)) = take (case q of (author, t, limit, db) \<Rightarrow> page_limit limit) ys"
    using ok(1) by (simp add: q file_page_eq file_cursor_def clause newest_filter rows)
qed

text \<open>
  paging through the files of a topic misses and repeats none: whatever the sizes of the pages, asking for the page
  before the last file seen lists every message with a file or an image, of one author or of all, newest
  first and each once.
\<close>

theorem file_pages_complete:
  assumes "t \<noteq> []" and "\<forall>m \<in> set (md_messages (fold message_step ops empty_messages)). mg_CreatedAt m \<noteq> zero_time"
    and "length (filter (wanted_file author t) (md_messages (fold message_step ops empty_messages))) \<le> k * page_limit limit"
  shows "walk k (file_page (author, t, limit, fold message_step ops empty_messages)) file_cursor None =
      newest_first (filter (wanted_file author t) (md_messages (fold message_step ops empty_messages)))"
proof -
  let ?q = "(author, t, limit, fold message_step ops empty_messages)"
  have "db_ok (fold message_step ops empty_messages)" by (rule steps_keep) (rule empty_ok)
  with assms(1,2) have "files_fine ?q" by (simp add: files_fine_def)
  with file_pages.walk_all [of ?q k] assms(3) show ?thesis by (simp add: file_rows_def newest_first_def)
qed

section \<open>Three messages\<close>

definition sample_fields :: "string \<Rightarrow> string \<Rightarrow> message_fields" where
  "sample_fields kind k = \<lparr>mf_content = ''x'', mf_blocks = [], mf_mode = [], mf_role = [], mf_msgType = kind, mf_replyTo = 0,
     mf_clientMsgID = k, mf_metadata = []\<rparr>"

definition sample_save_env :: "go_time \<Rightarrow> save_env" where
  "sample_save_env now = \<lparr>sv_now = now, sv_lookup = True, sv_insert = True, sv_again = True, sv_before = [], sv_after = []\<rparr>"

definition sample_history :: "message_op list" where
  "sample_history =
     [MSave ''p2p_2_7'' 2 (sample_fields ''file'' ''a'') (sample_save_env 50), MSave ''p2p_2_7'' 7 (sample_fields ''image'' ''a'') (sample_save_env 40),
      MSave ''p2p_2_7'' 2 (sample_fields ''text'' ''a'') (sample_save_env 60), MInsert (normalized_row ''p2p_2_7'' 2 (sample_fields ''file'' []) 40) True]"

theorem resent_message_stored_once_witness:
  "snd (SaveMessageWithMetadata ''p2p_2_7'' 2 (sample_fields ''text'' ''b'') (sample_save_env 70) (fold message_step sample_history empty_messages)) = Some (4, False) \<and>
   snd (SaveMessageWithMetadata ''p2p_2_7'' 2 (sample_fields ''file'' ''b'') (sample_save_env 80)
     (fst (SaveMessageWithMetadata ''p2p_2_7'' 2 (sample_fields ''text'' ''b'') (sample_save_env 70) (fold message_step sample_history empty_messages)))) = Some (4, True)"
proof -
  let ?s = "SaveMessageWithMetadata ''p2p_2_7'' 2 (sample_fields ''text'' ''b'') (sample_save_env 70) (fold message_step sample_history empty_messages)"
  have r: "snd ?s = Some (4, False)" by code_simp
  then have s: "?s = (fst ?s, Some (4, False))" by (metis prod.collapse)
  have k: "mf_clientMsgID (sample_fields ''text'' ''b'') \<noteq> []" "mf_clientMsgID (sample_fields ''file'' ''b'') = mf_clientMsgID (sample_fields ''text'' ''b'')"
    by (simp_all add: sample_fields_def)
  from resent_message_stored_once [OF s k, of "sample_save_env 80" "[]"] r show ?thesis by (simp add: sample_save_env_def)
qed

theorem catch_up_complete_witness:
  "map mg_ID (walk 2 (since_page (''p2p_2_7'', 2, fold message_step sample_history empty_messages)) mg_ID None) = [1, 2, 3]"
proof -
  have f: "map mg_ID (filter (\<lambda>m. mg_TopicID m = ''p2p_2_7'') (md_messages (fold message_step sample_history empty_messages))) = [1, 2, 3]" by code_simp
  then have "length (filter (\<lambda>m. mg_TopicID m = ''p2p_2_7'') (md_messages (fold message_step sample_history empty_messages))) = 3"
    by (metis length_map length_Cons list.size(3) numeral_3_eq_3)
  then have "length (filter (\<lambda>m. mg_TopicID m = ''p2p_2_7'') (md_messages (fold message_step sample_history empty_messages))) \<le> 2 * page_limit 2"
    by (simp add: page_limit_def)
  from catch_up_complete [OF this] f show ?thesis by simp
qed

theorem file_pages_complete_witness:
  "map mg_ID (walk 3 (file_page (None, ''p2p_2_7'', 1, fold message_step sample_history empty_messages)) file_cursor None) = [1, 3, 2]"
proof -
  let ?db = "fold message_step sample_history empty_messages"
  have "list_all (\<lambda>m. mg_CreatedAt m \<noteq> zero_time) (md_messages ?db)" by code_simp
  then have "\<forall>m \<in> set (md_messages ?db). mg_CreatedAt m \<noteq> zero_time" by (simp add: list_all_iff)
  moreover have "length (filter (wanted_file None ''p2p_2_7'') (md_messages ?db)) \<le> 3 * page_limit 1" by code_simp
  moreover have "map mg_ID (newest_first (filter (wanted_file None ''p2p_2_7'') (md_messages ?db))) = [1, 3, 2]" by code_simp
  ultimately show ?thesis using file_pages_complete [of "''p2p_2_7''" sample_history None 3 1] by simp
qed

end
