(* ===== verification/TopicAccess.thy ===== *)
theory TopicAccess
  imports GroupTurns RateLimit MessageStore
begin

text \<open>
  Who may write to a topic and who may read it (\<open>server/wshandler.go\<close>, \<open>server/agents.go\<close>), the limit on bots that
  talk to each other, and the requests that need no more: subscriptions, notes and stream events. What the
  database answers is an argument: \<open>None\<close> is an error, a missing row or a missing table, where the code treats
  them alike.
\<close>

section \<open>Delivery to a user\<close>

text \<open>\<open>server/wspump.go\<close>: to every connection of the user but one, and never to a device connector.\<close>

definition sendToUserExceptConfirmed ::
  "uid \<Rightarrow> ServerMessage \<Rightarrow> client_ref option \<Rightarrow> go_time \<Rightarrow> ('a, 'b) Hub \<Rightarrow> ('a, 'b) Hub \<times> nat" where
  "sendToUserExceptConfirmed u m exclude now h =
     fold (\<lambda>c (h, delivered).
         if Some c = exclude \<or> wc_deviceConnector (hub_client h c) \<noteq> None then (h, delivered)
         else case sendRawToClient c m now h of (h, ok) \<Rightarrow> (h, if ok then delivered + 1 else delivered))
       (hub_clients_of u h) (h, 0)"

definition SendToUserExcept :: "uid \<Rightarrow> ServerMessage \<Rightarrow> client_ref option \<Rightarrow> go_time \<Rightarrow> ('a, 'b) Hub \<Rightarrow> ('a, 'b) Hub" where
  "SendToUserExcept u m exclude now h = fst (sendToUserExceptConfirmed u m exclude now h)"

definition SendToUser :: "uid \<Rightarrow> ServerMessage \<Rightarrow> go_time \<Rightarrow> ('a, 'b) Hub \<Rightarrow> ('a, 'b) Hub" where
  "SendToUser u m now h = SendToUserExcept u m None now h"

section \<open>Access\<close>

record access_world =
  aw_fork :: "string \<Rightarrow> fork_state"
  aw_managed :: "int \<Rightarrow> bool option"
  aw_isMember :: "int \<Rightarrow> uid \<Rightarrow> bool option"
  aw_isMuted :: "int \<Rightarrow> uid \<Rightarrow> bool"
  aw_members :: "int \<Rightarrow> GroupMember list option"
  aw_user :: "uid \<Rightarrow> AccountType option"
  aw_isUserBot :: "uid \<Rightarrow> bool option"
  aw_owner :: "uid \<Rightarrow> uid option"
  aw_friends :: "uid \<Rightarrow> uid \<Rightarrow> bool option"
  aw_createTopic :: bool

definition isChannelManagedGroup :: "access_world \<Rightarrow> int \<Rightarrow> bool" where
  "isChannelManagedGroup w groupID \<longleftrightarrow> groupID \<le> 0 \<or> (case aw_managed w groupID of None \<Rightarrow> True | Some managed \<Rightarrow> managed)"

datatype agent_relation = OwnsAgent | FriendOfAgent

definition accessibleAgentUser :: "access_world \<Rightarrow> uid \<Rightarrow> uid \<Rightarrow> refusal + agent_relation" where
  "accessibleAgentUser w u agentUID =
     (if agentUID \<le> 0 then Inl (400, ''invalid agent_uid'')
      else case aw_user w agentUID of
        None \<Rightarrow> Inl (404, ''agent not found'')
      | Some account \<Rightarrow>
          if account \<noteq> AccountBot then Inl (400, ''user is not an agent'')
          else if aw_owner w agentUID = Some u then Inr OwnsAgent
          else case aw_friends w u agentUID of
            None \<Rightarrow> Inl (500, ''failed to check agent access'')
          | Some friends \<Rightarrow> if friends then Inr FriendOfAgent else Inl (403, ''agent is not available to this user''))"

definition validateAgentP2PMessageAccess :: "access_world \<Rightarrow> uid \<Rightarrow> AccountType \<Rightarrow> uid \<Rightarrow> refusal option" where
  "validateAgentP2PMessageAccess w u accountType peerUID =
     (if u \<le> 0 \<or> peerUID \<le> 0 \<or> accountType = AccountBot \<or> aw_user w peerUID \<noteq> Some AccountBot then None
      else case accessibleAgentUser w u peerUID of Inl e \<Rightarrow> Some e | Inr _ \<Rightarrow> None)"

definition validateTopicReadAccess :: "access_world \<Rightarrow> uid \<Rightarrow> AccountType \<Rightarrow> string \<Rightarrow> refusal option" where
  "validateTopicReadAccess w u accountType topic =
     (if isGroupTopic topic then
        let groupID = extractGroupID topic
        in if groupID = 0 then Some (400, ''invalid group topic'')
           else if isChannelManagedGroup w groupID \<and> accountType = AccountHuman then Some (404, ''group not found'')
           else if aw_isMember w groupID u \<noteq> Some True then Some (403, ''not a group member'')
           else None
      else let peerUID = extractPeerUID topic u
        in if peerUID = 0 then Some (400, ''invalid p2p topic'')
           else validateAgentP2PMessageAccess w u accountType peerUID)"

section \<open>Bots that talk to each other\<close>

record botConvoCount =
  bc_count :: int
  bc_resetAt :: go_time

type_synonym botConvoTracker = "(string, botConvoCount) gomap"

definition botConvoMaxTurns :: int where
  "botConvoMaxTurns = 50"

definition botConvoWindow :: duration where
  "botConvoWindow = 5 * go_minute"

definition botConvoKey :: "uid \<Rightarrow> uid \<Rightarrow> string" where
  "botConvoKey u v = ''b2b_'' @ formatInt (min u v) @ ''_'' @ formatInt (max u v)"

definition botConvoTurn :: "string \<Rightarrow> go_time \<Rightarrow> botConvoTracker \<Rightarrow> botConvoTracker \<times> bool" where
  "botConvoTurn key now t =
     (case map_of t key of
        Some cc \<Rightarrow>
          if now > bc_resetAt cc then (gm_put key \<lparr>bc_count = 1, bc_resetAt = now + botConvoWindow\<rparr> t, True)
          else (gm_put key (cc\<lparr>bc_count := bc_count cc + 1\<rparr>) t, \<not> bc_count cc + 1 > botConvoMaxTurns)
      | None \<Rightarrow> (gm_put key \<lparr>bc_count = 1, bc_resetAt = now + botConvoWindow\<rparr> t, True))"

definition checkBotToBot :: "('a, 'b) Hub \<Rightarrow> uid \<Rightarrow> uid \<Rightarrow> go_time \<Rightarrow> botConvoTracker \<Rightarrow> botConvoTracker \<times> bool" where
  "checkBotToBot h senderUID peerUID now t =
     (if \<not> connected_as AccountBot senderUID h \<or> \<not> connected_as AccountBot peerUID h then (t, True)
      else botConvoTurn (botConvoKey senderUID peerUID) now t)"

section \<open>Publishing\<close>

text \<open>A limiter without a configuration panics; the outer \<open>None\<close> is that.\<close>

record access_state =
  ax_rateLimiter :: "RateLimiter option"
  ax_botConvo :: botConvoTracker

definition rate_allows :: "uid \<Rightarrow> AccountType \<Rightarrow> go_time \<Rightarrow> access_state \<Rightarrow> (access_state \<times> bool) option" where
  "rate_allows u accountType now ax =
     (case ax_rateLimiter ax of
        None \<Rightarrow> Some (ax, True)
      | Some rl \<Rightarrow> map_option (\<lambda>(rl, ok). (ax\<lparr>ax_rateLimiter := Some rl\<rparr>, ok)) (Allow u accountType now rl))"

definition publish_access ::
  "('a, 'b) Hub \<Rightarrow> access_world \<Rightarrow> uid \<Rightarrow> AccountType \<Rightarrow> string \<Rightarrow> go_time \<Rightarrow> access_state \<Rightarrow> access_state \<times> refusal option" where
  "publish_access h w u accountType topic now ax =
     (if isGroupTopic topic then
        let groupID = extractGroupID topic
        in if groupID = 0 then (ax, Some (400, ''invalid group topic''))
           else if isChannelManagedGroup w groupID \<and> accountType = AccountHuman then (ax, Some (404, ''group not found''))
           else if aw_isMember w groupID u \<noteq> Some True then (ax, Some (403, ''not a group member''))
           else if aw_isMuted w groupID u then (ax, Some (403, ''you are muted in this group''))
           else (ax, None)
      else let peerUID = extractPeerUID topic u
        in if peerUID = 0 then (ax, Some (400, ''invalid p2p topic''))
           else case validateAgentP2PMessageAccess w u accountType peerUID of
             Some e \<Rightarrow> (ax, Some e)
           | None \<Rightarrow>
               (case checkBotToBot h u peerUID now (ax_botConvo ax) of
                  (t, ok) \<Rightarrow> (ax\<lparr>ax_botConvo := t\<rparr>, if ok then None else Some (429, ''bot-to-bot conversation limit reached''))))"

definition validateMessagePublish ::
  "('a, 'b) Hub \<Rightarrow> access_world \<Rightarrow> uid \<Rightarrow> AccountType \<Rightarrow> string \<Rightarrow> bool \<Rightarrow> go_time \<Rightarrow> access_state \<Rightarrow>
   (access_state \<times> refusal option) option" where
  "validateMessagePublish h w u accountType topic applyRateLimit now ax =
     (case sessionForkPublishError (aw_fork w topic) of
        Some e \<Rightarrow> Some (ax, Some e)
      | None \<Rightarrow>
          (case (if applyRateLimit then rate_allows u accountType now ax else Some (ax, True)) of
             None \<Rightarrow> None
           | Some (ax, False) \<Rightarrow> Some (ax, Some (429, ''rate limit exceeded''))
           | Some (ax, True) \<Rightarrow> Some (publish_access h w u accountType topic now ax)))"

section \<open>Subscriptions and notes\<close>

definition send_ctrl :: "client_ref \<Rightarrow> string \<Rightarrow> refusal \<Rightarrow> go_time \<Rightarrow> ('a, 'b) Hub \<Rightarrow> ('a, 'b) Hub" where
  "send_ctrl c i e now h = SendToClient (Some c) (CtrlMessage i (fst e) (snd e) []) now h"

definition handleSub :: "access_world \<Rightarrow> client_ref \<Rightarrow> string \<Rightarrow> string \<Rightarrow> go_time \<Rightarrow> ('a, 'b) Hub \<Rightarrow> ('a, 'b) Hub" where
  "handleSub w c i topic now h =
     (let v = hub_client h c
      in case validateTopicReadAccess w (wc_uid v) (wc_accountType v) topic of
           Some e \<Rightarrow> send_ctrl c i e now h
         | None \<Rightarrow> send_ctrl c i (200, ''ok'') now h)"

definition reaches_managed :: "access_world \<Rightarrow> int \<Rightarrow> uid \<Rightarrow> bool" where
  "reaches_managed w groupID u \<longleftrightarrow> \<not> isChannelManagedGroup w groupID \<or> aw_isUserBot w u = Some True"

definition broadcastToGroup :: "access_world \<Rightarrow> int \<Rightarrow> ServerMessage \<Rightarrow> uid \<Rightarrow> go_time \<Rightarrow> ('a, 'b) Hub \<Rightarrow> ('a, 'b) Hub" where
  "broadcastToGroup w groupID m excludeUID now h =
     (case aw_members w groupID of
        None \<Rightarrow> h
      | Some members \<Rightarrow>
          fold (\<lambda>x h. if me_UserID x = excludeUID \<or> \<not> reaches_managed w groupID (me_UserID x) then h else SendToUser (me_UserID x) m now h)
            members h)"

text \<open>\<open>strings.EqualFold\<close> with a word of small ASCII letters: the long s and the Kelvin sign fold into ASCII.\<close>

fun fold_ascii :: "string \<Rightarrow> string" where
  "fold_ascii (a # b # c # s) =
     (if [a, b] = [CHR 0xC5, CHR 0xBF] then CHR ''s'' # fold_ascii (c # s)
      else if [a, b, c] = [CHR 0xE2, CHR 0x84, CHR 0xAA] then CHR ''k'' # fold_ascii s
      else lower_byte a # fold_ascii (b # c # s))"
| "fold_ascii [a, b] = (if [a, b] = [CHR 0xC5, CHR 0xBF] then ''s'' else [lower_byte a, lower_byte b])"
| "fold_ascii [a] = [lower_byte a]"
| "fold_ascii [] = []"

definition equalFold :: "string \<Rightarrow> string \<Rightarrow> bool" where
  "equalFold s word \<longleftrightarrow> fold_ascii s = word"

record MsgClientNote =
  nt_Topic :: string
  nt_What :: string
  nt_SeqID :: int
  nt_Visibility :: string
  nt_PushSubscriptionID :: string
  nt_ActiveTopic :: string
  nt_Focused :: bool

definition handleNote :: "access_world \<Rightarrow> client_ref \<Rightarrow> MsgClientNote \<Rightarrow> go_time \<Rightarrow> ('a, 'b) Hub \<Rightarrow> ('a, 'b) Hub" where
  "handleNote w c msg now h =
     (let v = hub_client h c; u = wc_uid v; kind = trimSpace (nt_What msg); topic = nt_Topic msg
      in if equalFold kind ''attention'' then
           setClientMessagingAttention c
             \<lparr>att_SubscriptionID = nt_PushSubscriptionID msg, att_ActiveTopic = nt_ActiveTopic msg,
              att_Visible = (nt_Visibility msg = ''visible''), att_Focused = nt_Focused msg\<rparr> now h
         else if equalFold kind ''visibility'' then setClientPageVisibility c (nt_Visibility msg) now h
         else if validateTopicReadAccess w u (wc_accountType v) topic \<noteq> None then h
         else let info = InfoMessage topic (formatUID u) (nt_What msg) (nt_SeqID msg)
              in if isGroupTopic topic then broadcastToGroup w (extractGroupID topic) info u now h
                 else SendToUser (extractPeerUID topic u) info now h)"

section \<open>Stream events\<close>

record MsgClientPub =
  pb_ID :: string
  pb_Topic :: string
  pb_ClientMsgID :: string
  pb_Content :: RawMessage
  pb_ContentBlocks :: "ContentBlock list"
  pb_Metadata :: metadata
  pb_MsgType :: string
  pb_Type :: string
  pb_Mode :: string
  pb_Role :: string
  pb_ReplyTo :: int
  pb_Mentions :: "string list"

definition pub_type :: "MsgClientPub \<Rightarrow> string" where
  "pub_type msg = trimSpace (firstNonEmpty [pb_Type msg, pb_MsgType msg])"

definition isStreamPub :: "MsgClientPub \<Rightarrow> bool" where
  "isStreamPub msg \<longleftrightarrow> pub_type msg = ''stream_delta'' \<or> pub_type msg = ''stream_cancel''"

definition streamDeltaAck :: "string \<Rightarrow> string \<Rightarrow> ServerMessage" where
  "streamDeltaAck i streamID = CtrlMessage i 200 ''ok'' [(''stream_id'', JStr streamID)]"

definition metadataWithoutGatewayAnnotations :: "metadata \<Rightarrow> metadata" where
  "metadataWithoutGatewayAnnotations m = filter (\<lambda>kv. fst kv \<noteq> ''gateway_annotations'') m"

definition metadataWithoutGatewayAnnotationContext :: "metadata \<Rightarrow> metadata" where
  "metadataWithoutGatewayAnnotationContext m = filter (\<lambda>kv. fst kv \<noteq> ''catsco_gateway_annotation_context'') m"

definition metadataWithoutAppOpen :: "metadata \<Rightarrow> metadata" where
  "metadataWithoutAppOpen m = filter (\<lambda>kv. fst kv \<noteq> ''app_open'') m"

definition stream_event :: "uid \<Rightarrow> string \<Rightarrow> string \<Rightarrow> string \<Rightarrow> metadata \<Rightarrow> MsgServerData" where
  "stream_event u topicID streamType content m =
     \<lparr>sd_Topic = topicID, sd_From = formatUID u, sd_SeqID = 0, sd_Type = streamType, sd_MsgType = ''text'', sd_Content = JStr content,
      sd_Metadata = gm_put ''stream_event'' (JStr (trimPrefix streamType ''stream_''))
        (metadataWithoutAppOpen (metadataWithoutXiaobaRuntime (metadataWithoutGatewayAnnotationContext
          (metadataWithoutGatewayAnnotations (metadataWithoutArtifactContext m))))),
      sd_BlockTypes = []\<rparr>"

definition fanoutStreamEvent ::
  "access_world \<Rightarrow> uid \<Rightarrow> string \<Rightarrow> string \<Rightarrow> string \<Rightarrow> metadata \<Rightarrow> client_ref option \<Rightarrow> go_time \<Rightarrow> ('a, 'b) Hub \<Rightarrow> ('a, 'b) Hub" where
  "fanoutStreamEvent w u topicID streamType content m exclude now h =
     (let data = DataMessage (stream_event u topicID (if streamType = [] then ''stream_delta'' else streamType) content m)
      in if isGroupTopic topicID then
           (if extractGroupID topicID = 0 then h else broadcastToGroup w (extractGroupID topicID) data u now h)
         else let peerUID = extractPeerUID topicID u
           in if peerUID = 0 then h else SendToUser peerUID data now (SendToUserExcept u data exclude now h))"

text \<open>
  A cancellation in a group is \<open>handleGroupStreamCancel\<close>; its notices are the recipients in the result. In a
  one-to-one topic the state of the fork is looked up twice, once here.
\<close>

definition cancel_world :: "access_world \<Rightarrow> string \<Rightarrow> uid \<Rightarrow> stream_world" where
  "cancel_world w topic u =
     (let groupID = extractGroupID topic
      in \<lparr>sw_fork = aw_fork w topic,
          sw_group = \<lparr>gr_members = aw_members w groupID, gr_row = None, gr_managed = isChannelManagedGroup w groupID, gr_working = None,
            gr_accounts = aw_user w, gr_context = None, gr_prompt = defaultActivationPrompt\<rparr>,
          sw_isMember = (aw_isMember w groupID u = Some True), sw_isMuted = aw_isMuted w groupID u\<rparr>)"

definition handleStreamPub ::
  "access_world \<Rightarrow> client_ref \<Rightarrow> MsgClientPub \<Rightarrow> go_time \<Rightarrow> ('a, 'b) Hub \<times> access_state \<times> groupAgentTurnTracker \<times> message_db \<Rightarrow>
   (('a, 'b) Hub \<times> access_state \<times> groupAgentTurnTracker \<times> message_db) \<times> (uid \<times> metadata) list" where
  "handleStreamPub w c msg now st =
     (case st of (h, ax, turns, mdb) \<Rightarrow>
       let v = hub_client h c; u = wc_uid v; topic = pb_Topic msg; i = pb_ID msg; streamType = pub_type msg;
           streamID = firstMetadataString (pb_Metadata msg) [''stream_id''];
           delta = normalizeContentText (snd (normalizeRawContent (pb_Content msg)));
           groupID = extractGroupID topic;
           refuse = (\<lambda>e. ((send_ctrl c i e now h, ax, turns, mdb), []))
       in case sessionForkPublishError (aw_fork w topic) of Some e \<Rightarrow> refuse e
          | None \<Rightarrow>
            if trimSpace topic = [] then refuse (400, ''topic required'')
            else if streamID = [] then refuse (400, ''stream_id required'')
            else if isGroupTopic topic then
              (if streamType = ''stream_cancel'' then
                 (case handleGroupStreamCancel h (cancel_world w topic u) u (wc_accountType v) topic (pb_Metadata msg) now turns of
                    (turns, e, sends) \<Rightarrow>
                      ((if fst e = 200 then SendToClient (Some c) (streamDeltaAck i streamID) now h else send_ctrl c i e now h, ax, turns, mdb), sends))
               else if groupID = 0 then refuse (400, ''invalid group topic'')
               else if isChannelManagedGroup w groupID \<and> wc_accountType v = AccountHuman then refuse (404, ''group not found'')
               else if aw_isMember w groupID u \<noteq> Some True then refuse (403, ''not a group member'')
               else if aw_isMuted w groupID u then refuse (403, ''you are muted in this group'')
               else let h = SendToClient (Some c) (streamDeltaAck i streamID) now h
                    in ((if delta \<noteq> [] then fanoutStreamEvent w u topic streamType delta (pb_Metadata msg) (Some c) now h else h,
                         ax, turns, mdb), []))
            else if extractPeerUID topic u = 0 then refuse (400, ''invalid p2p topic'')
            else case publish_access h w u (wc_accountType v) topic now ax of
              (ax, Some e) \<Rightarrow> ((send_ctrl c i e now h, ax, turns, mdb), [])
            | (ax, None) \<Rightarrow>
                let mdb = fst (CreateTopic topic ''p2p'' u (aw_createTopic w) mdb); h = SendToClient (Some c) (streamDeltaAck i streamID) now h
                in ((if delta \<noteq> [] \<or> streamType = ''stream_cancel''
                     then fanoutStreamEvent w u topic streamType delta (pb_Metadata msg) (Some c) now h else h, ax, turns, mdb), []))"

end
