(* ===== verification/TaskDelivery.thy ===== *)
theory TaskDelivery
  imports TopicAccess TaskRecovery MessageStore
begin

text \<open>
  From a bot's report on its work to everybody who sees the topic (\<open>server/conversation_task_status.go\<close>,
  \<open>server/conversation_task_delivery.go\<close>): a report becomes a status, the ledger commits it with an announcement
  in the outbox, and workers hand announcements to the recipients. What the standard library reads from a text
  (as JSON, as a time of RFC 3339) is an argument. The runtime that joins several servers is none, the memory
  runtime with this hub as its only one, or Redis with the outcome of each publication.
\<close>

section \<open>Reports\<close>

record report_reader =
  rd_json :: "string \<Rightarrow> json option"
  rd_time :: "string \<Rightarrow> go_time option"

definition maxTaskRunIDLength :: int where "maxTaskRunIDLength = 128"

definition maxTaskSummaryLength :: int where "maxTaskSummaryLength = 500"

definition maxTaskErrorLength :: int where "maxTaskErrorLength = 2000"

definition defaultActiveTaskStatusTTL :: duration where
  "defaultActiveTaskStatusTTL = 6 * (60 * go_minute)"

definition allowedTaskStatusStates :: "string list" where
  "allowedTaskStatusStates = [''idle'', ''running'', ''completed'', ''failed'', ''cancelled'', ''stale'', ''waiting'']"

definition nested_payload :: "metadata \<Rightarrow> metadata" where
  "nested_payload value = (case map_of value ''payload'' of Some (JObj nested) \<Rightarrow> nested | _ \<Rightarrow> value)"

definition taskStatusBody :: "report_reader \<Rightarrow> normalizedMessagePayload \<Rightarrow> metadata" where
  "taskStatusBody rd p =
     (case np_DisplayContent p of
        JObj value \<Rightarrow> nested_payload value
      | JStr value \<Rightarrow> (case rd_json rd value of Some (JObj parsed) \<Rightarrow> nested_payload parsed | _ \<Rightarrow> [])
      | _ \<Rightarrow> [])"

definition stringFromMap :: "metadata \<Rightarrow> string \<Rightarrow> string" where
  "stringFromMap values key = (case map_of values key of Some (JStr value) \<Rightarrow> trimSpace (stripMessageNullBytes value) | _ \<Rightarrow> [])"

definition timeFromMap :: "report_reader \<Rightarrow> metadata \<Rightarrow> string \<Rightarrow> go_time option" where
  "timeFromMap rd values key = (case map_of values key of Some (JStr value) \<Rightarrow> rd_time rd (trimSpace value) | _ \<Rightarrow> None)"

definition firstTaskStatusString :: "metadata \<Rightarrow> metadata \<Rightarrow> string list \<Rightarrow> string" where
  "firstTaskStatusString body m ks =
     (case List.find (\<lambda>s. s \<noteq> []) (map (stringFromMap body) ks @ map (stringFromMap m) ks) of Some s \<Rightarrow> s | None \<Rightarrow> [])"

definition firstTaskStatusTime :: "report_reader \<Rightarrow> metadata \<Rightarrow> metadata \<Rightarrow> string list \<Rightarrow> go_time option" where
  "firstTaskStatusTime rd body m ks =
     (case List.find (\<lambda>t. t \<noteq> None) (map (timeFromMap rd body) ks @ map (timeFromMap rd m) ks) of Some t \<Rightarrow> t | None \<Rightarrow> None)"

definition reported_state :: "report_reader \<Rightarrow> normalizedMessagePayload \<Rightarrow> string" where
  "reported_state rd p = normalizeTaskStatusState (firstTaskStatusString (taskStatusBody rd p) (np_Metadata p) [''state'', ''status''])"

definition reported_expiry :: "report_reader \<Rightarrow> normalizedMessagePayload \<Rightarrow> string \<Rightarrow> go_time \<Rightarrow> go_time option" where
  "reported_expiry rd p state now =
     (case firstTaskStatusTime rd (taskStatusBody rd p) (np_Metadata p) [''expires_at'', ''expiresAt''] of
        Some t \<Rightarrow> Some t
      | None \<Rightarrow> if active_state state then Some (now + defaultActiveTaskStatusTTL) else None)"

definition reported_status :: "report_reader \<Rightarrow> uid \<Rightarrow> string \<Rightarrow> normalizedMessagePayload \<Rightarrow> string \<Rightarrow> go_time \<Rightarrow> ConversationTaskStatus" where
  "reported_status rd u topicID p state now =
     (let body = taskStatusBody rd p; m = np_Metadata p
      in \<lparr>ts_TopicID = topicID,
          ts_RunID = truncateUTF8 (firstTaskStatusString body m [''run_id'', ''runId'', ''run'']) maxTaskRunIDLength,
          ts_State = state,
          ts_Summary = truncateUTF8 (firstTaskStatusString body m [''summary'', ''text'', ''message'']) maxTaskSummaryLength,
          ts_Error = truncateUTF8 (firstTaskStatusString body m [''error'', ''error_message'', ''errorMessage'']) maxTaskErrorLength,
          ts_SourceUID = u, ts_UpdatedAt = now,
          ts_EventUpdatedAt = (case firstTaskStatusTime rd body m [''updated_at'', ''updatedAt''] of
              Some t \<Rightarrow> BoundConversationTaskStatusEventTime t now
            | None \<Rightarrow> zero_time),
          ts_ExpiresAt = reported_expiry rd p state now\<rparr>)"

datatype report_error = TopicRequired | StateRequired | UnsupportedState string | TopicUnsaved | LedgerRefused task_error

definition normalizeConversationTaskStatus ::
  "report_reader \<Rightarrow> uid \<Rightarrow> string \<Rightarrow> normalizedMessagePayload \<Rightarrow> go_time \<Rightarrow> report_error + ConversationTaskStatus" where
  "normalizeConversationTaskStatus rd u topicID p now =
     (let state = reported_state rd p
      in if trimSpace topicID = [] then Inl TopicRequired
         else if state = [] then Inl StateRequired
         else if state \<notin> set allowedTaskStatusStates then Inl (UnsupportedState state)
         else Inr (reported_status rd u topicID p state now))"

definition canPublishTaskStatus :: "AccountType \<Rightarrow> bool" where
  "canPublishTaskStatus a \<longleftrightarrow> a = AccountBot \<or> a = AccountService"

section \<open>Committing a report\<close>

text \<open>
  What surrounds a report: this server's clock and the database's, which statements succeed, what the standard library
  reads and writes. The notification components that are told of a status are not modelled: \<open>tk_observed\<close> is what
  they are told. \<open>tk_wake\<close> is the channel that wakes the worker, \<open>tk_handed\<close> what was handed to whom.
\<close>

record report_env =
  re_reader :: report_reader
  re_error :: "report_error \<Rightarrow> string"
  re_json :: "ConversationTaskStatus \<Rightarrow> json"
  re_now :: go_time
  re_clock :: go_time
  re_topicWorks :: bool
  re_works :: bool

record ('a, 'b) task_site =
  tk_hub :: "('a, 'b) Hub"
  tk_topics :: message_db
  tk_ledger :: task_db
  tk_turns :: groupAgentTurnTracker
  tk_observed :: "ConversationTaskStatus list"
  tk_wake :: bool
  tk_handed :: "(uid \<times> ServerMessage) list"

definition persistConversationTaskStatus ::
  "report_env \<Rightarrow> uid \<Rightarrow> string \<Rightarrow> normalizedMessagePayload \<Rightarrow> message_db \<times> task_db \<Rightarrow>
   (message_db \<times> task_db) \<times> (report_error + ConversationTaskStatus \<times> ConversationTaskStatus)" where
  "persistConversationTaskStatus env u topicID p st =
     (case normalizeConversationTaskStatus (re_reader env) u topicID p (re_now env) of
        Inl e \<Rightarrow> (st, Inl e)
      | Inr s \<Rightarrow>
          (case (if isGroupTopic topicID then (fst st, True) else CreateTopic topicID ''p2p'' u (re_topicWorks env) (fst st)) of
             (mdb, False) \<Rightarrow> ((mdb, snd st), Inl TopicUnsaved)
           | (mdb, True) \<Rightarrow>
               (case Upsert taskLedger (re_works env) (re_clock env) s (snd st) of
                  (tdb, Inl e) \<Rightarrow> ((mdb, tdb), Inl (LedgerRefused e))
                | (tdb, Inr r) \<Rightarrow> ((mdb, tdb), Inr r))))"

definition taskStatusAck :: "report_env \<Rightarrow> string \<Rightarrow> ConversationTaskStatus \<Rightarrow> ServerMessage" where
  "taskStatusAck env i status = CtrlMessage i 200 ''ok'' [(''seq'', JNum 0), (''task_status'', re_json env status)]"

definition publishCommittedTaskStatus :: "('a, 'b) task_site \<Rightarrow> ('a, 'b) task_site" where
  "publishCommittedTaskStatus st = st\<lparr>tk_wake := True\<rparr>"

definition committed_report :: "report_env \<Rightarrow> ConversationTaskStatus \<Rightarrow> ('a, 'b) task_site \<Rightarrow> ('a, 'b) task_site" where
  "committed_report env sourceStatus st =
     publishCommittedTaskStatus
       (st\<lparr>tk_turns := observeGroupAgentTaskStatus sourceStatus (re_now env) (tk_turns st),
           tk_observed := tk_observed st @ [sourceStatus]\<rparr>)"

definition handleTaskStatusPub ::
  "report_env \<Rightarrow> client_ref \<Rightarrow> string \<Rightarrow> string \<Rightarrow> normalizedMessagePayload \<Rightarrow> ('a, 'b) task_site \<Rightarrow> ('a, 'b) task_site" where
  "handleTaskStatusPub env c i topicID p st =
     (let v = hub_client (tk_hub st) c; now = re_now env
      in if \<not> canPublishTaskStatus (wc_accountType v)
         then st\<lparr>tk_hub := send_ctrl c i (403, ''task_status requires a bot or service account'') now (tk_hub st)\<rparr>
         else case persistConversationTaskStatus env (wc_uid v) topicID p (tk_topics st, tk_ledger st) of
           ((mdb, tdb), Inl e) \<Rightarrow>
             st\<lparr>tk_topics := mdb, tk_ledger := tdb, tk_hub := send_ctrl c i (400, re_error env e) now (tk_hub st)\<rparr>
         | ((mdb, tdb), Inr (status, sourceStatus)) \<Rightarrow>
             committed_report env sourceStatus
               (st\<lparr>tk_topics := mdb, tk_ledger := tdb, tk_hub := SendToClient (Some c) (taskStatusAck env i status) now (tk_hub st)\<rparr>))"

text \<open>The same report over HTTP.\<close>

definition handleTaskStatus ::
  "report_env \<Rightarrow> uid \<Rightarrow> string \<Rightarrow> normalizedMessagePayload \<Rightarrow> ('a, 'b) task_site \<Rightarrow>
   ('a, 'b) task_site \<times> (report_error + ConversationTaskStatus)" where
  "handleTaskStatus env u topicID p st =
     (case persistConversationTaskStatus env u topicID p (tk_topics st, tk_ledger st) of
        ((mdb, tdb), Inl e) \<Rightarrow> (st\<lparr>tk_topics := mdb, tk_ledger := tdb\<rparr>, Inl e)
      | ((mdb, tdb), Inr (status, sourceStatus)) \<Rightarrow>
          (committed_report env sourceStatus (st\<lparr>tk_topics := mdb, tk_ledger := tdb\<rparr>), Inr status))"

section \<open>Announcing\<close>

text \<open>The older way, for a store without an outbox.\<close>

definition fanoutConversationTaskStatus ::
  "access_world \<Rightarrow> uid \<Rightarrow> ConversationTaskStatus \<Rightarrow> client_ref option \<Rightarrow> go_time \<Rightarrow> ('a, 'b) Hub \<Rightarrow> ('a, 'b) Hub" where
  "fanoutConversationTaskStatus w sourceUID status exclude now h =
     (let m = TaskStatusMessage status None 0; topic = ts_TopicID status; groupID = extractGroupID topic
      in if isGroupTopic topic then
           (if groupID = 0 then h
            else broadcastToGroup w groupID m sourceUID now
                   (if isChannelManagedGroup w groupID then h else SendToUserExcept sourceUID m exclude now h))
         else let peerUID = extractPeerUID topic sourceUID
           in if peerUID = 0 then h else SendToUser peerUID m now (SendToUserExcept sourceUID m exclude now h))"

text \<open>Who is to be told; nothing when that is not known.\<close>

definition visible_members :: "access_world \<Rightarrow> bool \<Rightarrow> GroupMember list \<Rightarrow> uid list option" where
  "visible_members w channelManaged members =
     (if \<not> channelManaged then Some (map me_UserID members)
      else if \<exists>x \<in> set members. aw_isUserBot w (me_UserID x) = None then None
      else Some (filter (\<lambda>u. aw_isUserBot w u = Some True) (map me_UserID members)))"

definition event_recipients :: "access_world \<Rightarrow> uid \<Rightarrow> string \<Rightarrow> uid list option" where
  "event_recipients w source topic =
     (if isGroupTopic topic then
        (case (aw_members w (extractGroupID topic), aw_managed w (extractGroupID topic)) of
           (Some members, Some channelManaged) \<Rightarrow> visible_members w channelManaged members
         | _ \<Rightarrow> None)
      else let peer = extractPeerUID topic source in if peer = 0 then None else Some [source, peer])"

datatype task_bus = NoBus | MemoryBus | RedisBus "uid \<Rightarrow> bool"

text \<open>Handing over to one user; Redis may refuse. What is published there reaches the user's connections on every server.\<close>

definition hand_over :: "task_bus \<Rightarrow> ServerMessage \<Rightarrow> go_time \<Rightarrow> uid \<Rightarrow> ('a, 'b) task_site \<Rightarrow> ('a, 'b) task_site \<times> bool" where
  "hand_over bus m now u st =
     (case bus of
        NoBus \<Rightarrow> (st\<lparr>tk_hub := SendToUser u m now (tk_hub st), tk_handed := tk_handed st @ [(u, m)]\<rparr>, True)
      | MemoryBus \<Rightarrow>
          (st\<lparr>tk_hub := (if u > 0 then SendToUser u m now (tk_hub st) else tk_hub st), tk_handed := tk_handed st @ [(u, m)]\<rparr>, True)
      | RedisBus published \<Rightarrow>
          if u > 0 \<and> published u then (st\<lparr>tk_handed := tk_handed st @ [(u, m)]\<rparr>, True) else (st, False))"

fun hand_all :: "task_bus \<Rightarrow> ServerMessage \<Rightarrow> go_time \<Rightarrow> uid list \<Rightarrow> ('a, 'b) task_site \<Rightarrow> ('a, 'b) task_site \<times> bool" where
  "hand_all bus m now [] st = (st, True)"
| "hand_all bus m now (u # us) st =
     (case hand_over bus m now u st of (st, True) \<Rightarrow> hand_all bus m now us st | (st, False) \<Rightarrow> (st, False))"

definition fanoutTaskStatusEvent ::
  "access_world \<Rightarrow> task_bus \<Rightarrow> uid \<Rightarrow> string \<Rightarrow> ServerMessage \<Rightarrow> go_time \<Rightarrow> ('a, 'b) task_site \<Rightarrow> ('a, 'b) task_site \<times> bool" where
  "fanoutTaskStatusEvent w bus source topic m now st =
     (case event_recipients w source topic of None \<Rightarrow> (st, False) | Some us \<Rightarrow> hand_all bus m now us st)"

definition GetConversationTaskStatuses ::
  "bool \<Rightarrow> bool \<Rightarrow> go_time \<Rightarrow> string list \<Rightarrow> task_db \<Rightarrow> task_db \<times> (string \<Rightarrow> ConversationTaskStatus option) option" where
  "GetConversationTaskStatuses reconciles reads now topics db =
     (if topics = [] then (db, Some (\<lambda>_. None))
      else if \<not> reconciles then (db, None)
      else let db = fold (reconcileLegacyConversationTaskStatuses now) (remdups topics) db
           in if \<not> reads then (db, None) else (case Summaries now topics db of (db, r) \<Rightarrow> (db, Some r)))"

definition taskStatusOutboxLease :: duration where
  "taskStatusOutboxLease = 30 * go_second"

text \<open>What surrounds a round of the worker; the outcomes of the work on an event are found by its number.\<close>

record round_env =
  dv_world :: access_world
  dv_bus :: task_bus
  dv_now :: go_time
  dv_clock :: go_time
  dv_token :: string
  dv_skip :: "nat \<Rightarrow> bool"
  dv_claims :: bool
  dv_reconciles :: "nat \<Rightarrow> bool"
  dv_reads :: "nat \<Rightarrow> bool"
  dv_completes :: "nat \<Rightarrow> bool"

definition announcement :: "(string \<Rightarrow> ConversationTaskStatus option) \<Rightarrow> outbox_row \<Rightarrow> go_time \<Rightarrow> ServerMessage" where
  "announcement statuses e now =
     TaskStatusMessage
       (case statuses (ts_TopicID (ob_status e)) of None \<Rightarrow> idle_status (ts_TopicID (ob_status e)) now | Some aggregate \<Rightarrow> aggregate)
       (Some (ob_status e)) (ob_id e)"

definition dispatch_event :: "round_env \<Rightarrow> outbox_row \<Rightarrow> ('a, 'b) task_site \<Rightarrow> ('a, 'b) task_site" where
  "dispatch_event env e st =
     (let topic = ts_TopicID (ob_status e); i = ob_id e
      in case GetConversationTaskStatuses (dv_reconciles env i) (dv_reads env i) (microseconds (dv_clock env)) [topic] (tk_ledger st) of
           (db, None) \<Rightarrow> st\<lparr>tk_ledger := db\<rparr>
         | (db, Some statuses) \<Rightarrow>
             (case fanoutTaskStatusEvent (dv_world env) (dv_bus env) (ts_SourceUID (ob_status e)) topic
                     (announcement statuses e (dv_now env)) (dv_now env) (st\<lparr>tk_ledger := db\<rparr>) of
                (st, False) \<Rightarrow> st
              | (st, True) \<Rightarrow> st\<lparr>tk_ledger := fst (CompleteEvent (dv_completes env i) i (ob_claim e) (tk_ledger st))\<rparr>))"

definition dispatchConversationTaskStatusEvents :: "round_env \<Rightarrow> ('a, 'b) task_site \<Rightarrow> ('a, 'b) task_site \<times> bool" where
  "dispatchConversationTaskStatusEvents env st =
     (case ClaimEvents (dv_token env) (dv_skip env) (dv_claims env) (dv_clock env) 32 taskStatusOutboxLease (tk_ledger st) of
        (db, None) \<Rightarrow> (st\<lparr>tk_ledger := db\<rparr>, False)
      | (db, Some events) \<Rightarrow> (fold (dispatch_event env) events (st\<lparr>tk_ledger := db\<rparr>), length events = 32))"

text \<open>The worker after it was woken: rounds until one is not full. No result when the rounds given are not enough.\<close>

fun drain :: "round_env list \<Rightarrow> ('a, 'b) task_site \<Rightarrow> ('a, 'b) task_site option" where
  "drain [] st = None"
| "drain (env # envs) st =
     (case dispatchConversationTaskStatusEvents env st of (st, True) \<Rightarrow> drain envs st | (st, False) \<Rightarrow> Some st)"

section \<open>History\<close>

definition history_page :: "int \<Rightarrow> string \<Rightarrow> task_db \<Rightarrow> (nat \<times> ConversationTaskStatus) list \<times> int" where
  "history_page beforeID topic db =
     (let runs = ListRuns topic beforeID 100 db in (runs, if length runs = 100 then int (fst (last runs)) else 0))"

definition handleTaskStatusHistory ::
  "access_world \<Rightarrow> (nat \<times> ConversationTaskStatus \<Rightarrow> json) \<Rightarrow> bool \<Rightarrow> client_ref \<Rightarrow> string \<Rightarrow> string \<Rightarrow> int \<Rightarrow> go_time \<Rightarrow> task_db \<Rightarrow>
   ('a, 'b) Hub \<Rightarrow> ('a, 'b) Hub" where
  "handleTaskStatusHistory w run_json works c i topic beforeID now db h =
     (let v = hub_client h c
      in case validateTopicReadAccess w (wc_uid v) (wc_accountType v) topic of
           Some e \<Rightarrow> send_ctrl c i e now h
         | None \<Rightarrow>
             if beforeID < 0 then send_ctrl c i (400, ''before_id must be nonnegative'') now h
             else if \<not> works then send_ctrl c i (500, ''task run history unavailable'') now h
             else (case history_page beforeID topic db of (runs, nextID) \<Rightarrow>
                     SendToClient (Some c) (CtrlMessage i 200 ''ok''
                       [(''task_statuses'', JArr (map run_json runs)), (''next_before_id'', JNum nextID)]) now h))"

end
