(* ===== verification/TopicSafety.thy ===== *)
theory TopicSafety
  imports TopicAccess
begin

text \<open>
  What is written to a topic stays in it (\<open>frames_stay_in_topic\<close>), how often two bots may write to each other
  (\<open>bot_pair_limited\<close>), and what the ids of topics leave open.
\<close>

section \<open>Mail of connections\<close>

definition mailbox :: "client_ref \<Rightarrow> ('a, 'b) Hub \<Rightarrow> ServerMessage list \<times> uid \<times> AccountType \<times> DeviceConnectorClaims option" where
  "mailbox e h = (let v = hub_client h e in (wc_send v, wc_uid v, wc_accountType v, wc_deviceConnector v))"

lemma mailbox_hub_client: "hub_client h e = hub_client h' e \<Longrightarrow> mailbox e h = mailbox e h'"
  by (simp add: mailbox_def)

lemma mailbox_remove: "mailbox e (fst (removeClient c h)) = mailbox e h"
  by (auto simp: removeClient_def Let_def mailbox_def hub_client_def split: option.split)

lemma mailbox_frame:
  "mailbox e (closeSend c h) = mailbox e h" "mailbox e (hub_with_shared f h) = mailbox e h"
  "mailbox e (hub_thin_tool x h) = mailbox e h" "mailbox e (enqueuePresence u t h) = mailbox e h"
  "mailbox e (h\<lparr>hub_recoveries := rs\<rparr>) = mailbox e h" "mailbox e (h\<lparr>hub_bodyLeases := m\<rparr>) = mailbox e h"
  "mailbox e (h\<lparr>hub_deviceClients := dc\<rparr>) = mailbox e h" "mailbox e (clearClientRuntimeRoute c now h) = mailbox e h"
  "mailbox e (hub_releaseBotBodyLease c h) = mailbox e h"
  by (simp_all add: mailbox_def closeSend_def clearClientRuntimeRoute_def hub_releaseBotBodyLease_def hub_simps Let_def split: prod.split)
     (simp_all add: hub_client_def)

lemma mailbox_unbind: "mailbox e (unbindDeviceClient c now h) = mailbox e h"
proof -
  have "mailbox e (hub_set_client c (forget_device (hub_client h c)) h) = mailbox e h" for h :: "('a, 'b) Hub"
    by (simp add: mailbox_def Let_def hub_simps forget_device_def)
  then show ?thesis by (simp add: unbindDeviceClient_def Let_def mailbox_frame)
qed

lemma mailbox_disconnect: "mailbox e (disconnectClient c now h) = mailbox e h"
proof -
  obtain h' r l where r: "removeClient c h = (h', r, l)" by (metis prod.collapse)
  then have "mailbox e h' = mailbox e h" using mailbox_remove [of e c h] by simp
  then show ?thesis by (simp add: disconnectClient_def r Let_def mailbox_frame mailbox_unbind)
qed

lemma clients_remove: "set (hub_clients_of u (fst (removeClient c h))) \<subseteq> set (hub_clients_of u h)"
  by (auto simp: removeClient_def Let_def hub_clients_of_def gm_get_put gm_get_del split: option.split if_splits)

lemma clients_disconnect: "set (hub_clients_of u (disconnectClient c now h)) \<subseteq> set (hub_clients_of u h)"
proof -
  obtain h' r l where r: "removeClient c h = (h', r, l)" by (metis prod.collapse)
  have rel: "hub_clients_of u (hub_releaseBotBodyLease c h) = hub_clients_of u h" for h :: "('a, 'b) Hub"
    by (simp add: hub_releaseBotBodyLease_def Let_def hub_simps split: prod.split) (simp add: hub_clients_of_def)
  have rec: "hub_clients_of u (h\<lparr>hub_recoveries := rs\<rparr>) = hub_clients_of u h" for rs and h :: "('a, 'b) Hub"
    by (simp add: hub_clients_of_def)
  from r have "set (hub_clients_of u h') \<subseteq> set (hub_clients_of u h)" using clients_remove [of u c h] by simp
  then show ?thesis by (simp add: disconnectClient_def r Let_def hub_simps rel rec)
qed

text \<open>From one state to another only users of a set, and one connection, were sent something.\<close>

definition only_hear :: "uid set \<Rightarrow> client_ref option \<Rightarrow> ('a, 'b) Hub \<Rightarrow> ('a, 'b) Hub \<Rightarrow> bool" where
  "only_hear us c h h' \<longleftrightarrow> (\<forall>u. set (hub_clients_of u h') \<subseteq> set (hub_clients_of u h)) \<and>
     (\<forall>e. snd (mailbox e h') = snd (mailbox e h)) \<and>
     (\<forall>e. mailbox e h' \<noteq> mailbox e h \<longrightarrow>
        Some e = c \<or> ((\<exists>u \<in> us. e \<in> set (hub_clients_of u h)) \<and> wc_deviceConnector (hub_client h e) = None))"

lemma only_hear_refl [intro]: "only_hear us c h h"
  by (simp add: only_hear_def)

lemma mailbox_connector: "snd (mailbox e h) = snd (mailbox e h') \<Longrightarrow> wc_deviceConnector (hub_client h e) = wc_deviceConnector (hub_client h' e)"
  by (simp add: mailbox_def Let_def)

lemma only_hear_trans:
  assumes "only_hear us c h h1" and "only_hear us c h1 h2"
  shows "only_hear us c h h2"
proof -
  have "wc_deviceConnector (hub_client h1 e) = wc_deviceConnector (hub_client h e)" for e
    using assms(1) mailbox_connector unfolding only_hear_def by blast
  with assms show ?thesis unfolding only_hear_def by (metis subset_iff)
qed

lemma only_hear_mono: "only_hear us c h h' \<Longrightarrow> us \<subseteq> vs \<Longrightarrow> only_hear vs c h h'"
  unfolding only_hear_def by blast

lemma only_hear_fold:
  "(\<And>x h. x \<in> set xs \<Longrightarrow> only_hear us c h (f x h)) \<Longrightarrow> only_hear us c h (fold f xs h)"
  by (induction xs arbitrary: h) (auto intro: only_hear_trans)

lemma raw_hears:
  "snd (mailbox e (fst (sendRawToClient c m now h))) = snd (mailbox e h)"
  "e \<noteq> c \<Longrightarrow> mailbox e (fst (sendRawToClient c m now h)) = mailbox e h"
  "set (hub_clients_of u (fst (sendRawToClient c m now h))) \<subseteq> set (hub_clients_of u h)"
proof -
  have "mailbox e (hub_set_client c ((hub_client h c)\<lparr>wc_send := ms\<rparr>) h) = (if e = c then (ms, snd (mailbox e h)) else mailbox e h)" for ms
    by (simp add: mailbox_def Let_def hub_simps)
  then show "snd (mailbox e (fst (sendRawToClient c m now h))) = snd (mailbox e h)"
    and "e \<noteq> c \<Longrightarrow> mailbox e (fst (sendRawToClient c m now h)) = mailbox e h"
    by (simp_all add: sendRawToClient_def Let_def mailbox_disconnect)
  show "set (hub_clients_of u (fst (sendRawToClient c m now h))) \<subseteq> set (hub_clients_of u h)"
    using clients_disconnect [of u c now h] by (simp add: sendRawToClient_def Let_def hub_simps)
qed

lemma raw_only_hear:
  "Some c = k \<or> ((\<exists>u \<in> us. c \<in> set (hub_clients_of u h)) \<and> wc_deviceConnector (hub_client h c) = None) \<Longrightarrow>
   only_hear us k h (fst (sendRawToClient c m now h))"
  unfolding only_hear_def using raw_hears [of _ c m now h] by metis

lemma client_hears: "only_hear us (Some c) h (SendToClient (Some c) m now h)"
  by (simp add: SendToClient_def raw_only_hear)

lemma user_hears: "only_hear {u} c h (SendToUserExcept u m exclude now h)"
proof -
  let ?step = "\<lambda>e (h, delivered). if Some e = exclude \<or> wc_deviceConnector (hub_client h e) \<noteq> None then (h, delivered :: nat)
      else case sendRawToClient e m now h of (h, ok) \<Rightarrow> (h, if ok then delivered + 1 else delivered)"
  have "only_hear {u} c h (fst (fold ?step es (k, n)))"
    if "only_hear {u} c h k" "set es \<subseteq> set (hub_clients_of u h)" for es n and k :: "('a, 'b) Hub"
    using that
  proof (induction es arbitrary: k n)
    case (Cons e es)
    obtain k' n' where k': "?step e (k, n) = (k', n')" by (meson surj_pair)
    have conn: "wc_deviceConnector (hub_client k e) = wc_deviceConnector (hub_client h e)"
      using Cons.prems(1) mailbox_connector unfolding only_hear_def by blast
    have "only_hear {u} c h k'"
    proof (cases "Some e = exclude \<or> wc_deviceConnector (hub_client k e) \<noteq> None")
      case True
      with k' Cons.prems(1) show ?thesis by simp
    next
      case False
      then have kk: "k' = fst (sendRawToClient e m now k)" using k' by (simp split: prod.splits)
      from False conn Cons.prems(2) have e: "(\<exists>u \<in> {u}. e \<in> set (hub_clients_of u h)) \<and> wc_deviceConnector (hub_client h e) = None" by simp
      from Cons.prems(1) e raw_hears [of _ e m now k] show ?thesis
        unfolding only_hear_def kk by (metis subset_trans)
    qed
    from Cons.IH [OF this, of n'] Cons.prems(2) show ?case by (simp only: fold_Cons comp_apply k') simp
  qed simp
  from this [of h "hub_clients_of u h" 0] show ?thesis
    unfolding SendToUserExcept_def sendToUserExceptConfirmed_def by blast
qed

section \<open>Frames stay in their topic\<close>

text \<open>Whom an event of \<open>u\<close> in a topic is for.\<close>

definition topic_audience :: "access_world \<Rightarrow> string \<Rightarrow> uid \<Rightarrow> uid set" where
  "topic_audience w topic u =
     (if isGroupTopic topic then
        {v. v \<noteq> u \<and> reaches_managed w (extractGroupID topic) v \<and>
            (case aw_members w (extractGroupID topic) of None \<Rightarrow> False | Some ms \<Rightarrow> v \<in> me_UserID ` set ms)}
      else {u, extractPeerUID topic u})"

datatype user_frame = NoteFrame MsgClientNote | StreamFrame MsgClientPub

definition frame_topic :: "user_frame \<Rightarrow> string" where
  "frame_topic f = (case f of NoteFrame m \<Rightarrow> nt_Topic m | StreamFrame m \<Rightarrow> pb_Topic m)"

definition handle_frame ::
  "access_world \<Rightarrow> client_ref \<Rightarrow> user_frame \<Rightarrow> go_time \<Rightarrow> access_state \<Rightarrow> groupAgentTurnTracker \<Rightarrow> message_db \<Rightarrow> ('a, 'b) Hub \<Rightarrow> ('a, 'b) Hub" where
  "handle_frame w c f now ax turns mdb h =
     (case f of NoteFrame m \<Rightarrow> handleNote w c m now h | StreamFrame m \<Rightarrow> fst (fst (handleStreamPub w c m now (h, ax, turns, mdb))))"

lemma broadcast_hears:
  assumes "isGroupTopic topic"
  shows "only_hear (topic_audience w topic u) c h (broadcastToGroup w (extractGroupID topic) m u now h)"
proof (cases "aw_members w (extractGroupID topic)")
  case (Some ms)
  have "only_hear (topic_audience w topic u) c k (if me_UserID x = u \<or> \<not> reaches_managed w (extractGroupID topic) (me_UserID x) then k
      else SendToUser (me_UserID x) m now k)" if "x \<in> set ms" for x and k :: "('a, 'b) Hub"
    using that assms Some user_hears [of "me_UserID x" c k m None now]
    by (auto simp: topic_audience_def SendToUser_def intro: only_hear_mono)
  then show ?thesis unfolding broadcastToGroup_def Some by (simp only: option.case) (rule only_hear_fold)
qed (simp add: broadcastToGroup_def only_hear_refl)

lemma peers_hear:
  "\<not> isGroupTopic topic \<Longrightarrow> only_hear (topic_audience w topic u) c h (SendToUser (extractPeerUID topic u) m now h)"
  "\<not> isGroupTopic topic \<Longrightarrow> only_hear (topic_audience w topic u) c h (SendToUserExcept u m ex now h)"
  using user_hears [of "extractPeerUID topic u" c h m None now] user_hears [of u c h m ex now]
  by (auto simp: topic_audience_def SendToUser_def intro: only_hear_mono)

lemma stream_hears: "only_hear (topic_audience w topic u) c h (fanoutStreamEvent w u topic t content m ex now h)"
  unfolding fanoutStreamEvent_def Let_def
  by (simp add: only_hear_refl broadcast_hears) (blast intro: only_hear_trans peers_hear)

lemma ctrl_hears: "only_hear us (Some c) h (send_ctrl c i e now h)"
  by (simp add: send_ctrl_def client_hears)

lemma attention_hears:
  "only_hear us c' h (setClientMessagingAttention c a now h)" "only_hear us c' h (setClientPageVisibility c vis now h)"
proof -
  have s: "mailbox e (syncClientMessagingAttention c now h) = mailbox e h" for e and h :: "('a, 'b) Hub"
    by (simp add: syncClientMessagingAttention_def mailbox_frame)
  have m: "mailbox e (hub_set_client c ((hub_client h c)\<lparr>wc_messagingAttention := x\<rparr>) h) = mailbox e h" for e x and h :: "('a, 'b) Hub"
    by (simp add: mailbox_def Let_def hub_simps)
  show "only_hear us c' h (setClientMessagingAttention c a now h)" "only_hear us c' h (setClientPageVisibility c vis now h)"
    by (simp_all add: only_hear_def setClientMessagingAttention_def setClientPageVisibility_def Let_def s m hub_simps)
qed

lemma publish_is_read: "publish_access h w u a topic now ax = (ax', None) \<Longrightarrow>
    validateTopicReadAccess w u a topic = None \<and> \<not> (isGroupTopic topic \<and> aw_isMuted w (extractGroupID topic) u)"
  by (auto simp: publish_access_def validateTopicReadAccess_def Let_def split: if_splits option.splits prod.splits)

text \<open>What a frame does: nothing that others hear, unless its author may read the topic.\<close>

lemma frame_cases:
  "only_hear {} (Some c) h (handle_frame w c f now ax turns mdb h) \<or>
   (validateTopicReadAccess w (wc_uid (hub_client h c)) (wc_accountType (hub_client h c)) (frame_topic f) = None \<and>
    (\<forall>m. f = StreamFrame m \<longrightarrow> \<not> (isGroupTopic (pb_Topic m) \<and> aw_isMuted w (extractGroupID (pb_Topic m)) (wc_uid (hub_client h c)))) \<and>
    only_hear (topic_audience w (frame_topic f) (wc_uid (hub_client h c))) (Some c) h (handle_frame w c f now ax turns mdb h))"
proof (cases f)
  case (NoteFrame m)
  then show ?thesis
    by (cases "validateTopicReadAccess w (wc_uid (hub_client h c)) (wc_accountType (hub_client h c)) (nt_Topic m)")
       (auto simp: handle_frame_def frame_topic_def handleNote_def Let_def intro: attention_hears broadcast_hears peers_hear only_hear_refl)
next
  case (StreamFrame m)
  let ?u = "wc_uid (hub_client h c)" and ?a = "wc_accountType (hub_client h c)" and ?t = "pb_Topic m"
  have fan: "only_hear (topic_audience w ?t ?u) (Some c) h (fanoutStreamEvent w ?u ?t s d md ex now (SendToClient (Some c) ack now h))"
    for s d md ex ack by (blast intro: only_hear_trans client_hears stream_hears)
  let ?h' = "fst (fst (handleStreamPub w c m now (h, ax, turns, mdb)))"
  have "only_hear {} (Some c) h ?h' \<or>
      (validateTopicReadAccess w ?u ?a ?t = None \<and> \<not> (isGroupTopic ?t \<and> aw_isMuted w (extractGroupID ?t) ?u) \<and>
       only_hear (topic_audience w ?t ?u) (Some c) h ?h')"
  proof (cases "isGroupTopic ?t")
    case True
    then show ?thesis
      unfolding handleStreamPub_def Let_def prod.case
      by (auto simp: ctrl_hears client_hears validateTopicReadAccess_def Let_def intro: fan split: option.split prod.split)
  next
    case False
    obtain ax' e where p: "publish_access h w ?u ?a ?t now ax = (ax', e)" by fastforce
    show ?thesis
    proof (cases e)
      case None
      with p publish_is_read [of h w ?u ?a ?t now ax ax'] False show ?thesis
        unfolding handleStreamPub_def Let_def prod.case
        by (auto simp: ctrl_hears client_hears intro: fan split: option.split)
    next
      case (Some r)
      with p False show ?thesis
        unfolding handleStreamPub_def Let_def prod.case
        by (auto simp: ctrl_hears split: option.split)
    qed
  qed
  with StreamFrame show ?thesis by (simp add: handle_frame_def frame_topic_def)
qed


section \<open>Bots that write to each other\<close>

text \<open>Attempts of bots, each with the connections of its moment; counted are the ones of two connected bots that pass.\<close>

type_synonym ('a, 'b) convo_attempt = "('a, 'b) Hub \<times> uid \<times> uid \<times> go_time"

definition attempt_time :: "('a, 'b) convo_attempt \<Rightarrow> go_time" where
  "attempt_time x = snd (snd (snd x))"

definition attempt_counts :: "uid \<Rightarrow> uid \<Rightarrow> ('a, 'b) convo_attempt \<Rightarrow> bool" where
  "attempt_counts a b x \<longleftrightarrow> (case x of (h, u, v, s) \<Rightarrow>
     connected_as AccountBot u h \<and> connected_as AccountBot v h \<and> {u, v} = {a, b})"

fun convo_run :: "uid \<Rightarrow> uid \<Rightarrow> ('a, 'b) convo_attempt list \<Rightarrow> botConvoTracker \<Rightarrow> botConvoTracker \<times> nat" where
  "convo_run a b [] t = (t, 0)"
| "convo_run a b (x # xs) t =
     (case checkBotToBot (fst x) (fst (snd x)) (fst (snd (snd x))) (attempt_time x) t of
        (t', ok) \<Rightarrow> (case convo_run a b xs t' of (t'', n) \<Rightarrow> (t'', (if ok \<and> attempt_counts a b x then 1 else 0) + n)))"

text \<open>How many more turns an entry lets through before its window ends.\<close>

definition turns_left :: "string \<Rightarrow> botConvoTracker \<Rightarrow> nat" where
  "turns_left k t = (case map_of t k of None \<Rightarrow> 0 | Some cc \<Rightarrow> nat (botConvoMaxTurns - bc_count cc))"

definition resets_after :: "string \<Rightarrow> go_time \<Rightarrow> botConvoTracker \<Rightarrow> bool" where
  "resets_after k s t \<longleftrightarrow> (\<exists>cc. map_of t k = Some cc \<and> s \<le> bc_resetAt cc)"

definition counts_positive :: "botConvoTracker \<Rightarrow> bool" where
  "counts_positive t \<longleftrightarrow> (\<forall>k cc. map_of t k = Some cc \<longrightarrow> 0 \<le> bc_count cc)"

lemma counted_key: "attempt_counts a b (h, u, v, s) \<Longrightarrow> botConvoKey u v = botConvoKey a b"
  by (auto simp: attempt_counts_def botConvoKey_def doubleton_eq_iff min.commute max.commute)

lemma turn_positive: "counts_positive t \<Longrightarrow> counts_positive (fst (botConvoTurn k now t))"
  by (auto simp: counts_positive_def botConvoTurn_def gm_get_put split: option.split)

lemma turn_other: "k' \<noteq> k \<Longrightarrow> map_of (fst (botConvoTurn k' now t)) k = map_of t k"
  by (auto simp: botConvoTurn_def gm_get_put split: option.split)

lemma turn_in_window:
  assumes "resets_after k s t" and "now \<le> s"
  shows "resets_after k s (fst (botConvoTurn k now t))"
    and "turns_left k (fst (botConvoTurn k now t)) + (if snd (botConvoTurn k now t) then 1 else 0) \<le> turns_left k t"
  using assms by (auto simp: resets_after_def turns_left_def botConvoTurn_def gm_get_put split: option.split)

lemma turn_new_window:
  assumes "counts_positive t" and "t0 \<le> now" and "s = t0 + botConvoWindow"
  shows "(turns_left k (fst (botConvoTurn k now t)) + (if snd (botConvoTurn k now t) then 1 else 0) \<le> turns_left k t) \<or>
    (resets_after k s (fst (botConvoTurn k now t)) \<and>
     turns_left k (fst (botConvoTurn k now t)) + (if snd (botConvoTurn k now t) then 1 else 0) \<le> 50)"
  using assms by (auto simp: resets_after_def turns_left_def botConvoTurn_def gm_get_put botConvoMaxTurns_def split: option.split)

text \<open>An attempt either leaves the pair's entry alone, or is a turn of it.\<close>

lemma attempt_cases:
  obtains "map_of (fst (checkBotToBot (fst x) (fst (snd x)) (fst (snd (snd x))) (attempt_time x) t)) k = map_of t k"
      "botConvoKey a b = k \<Longrightarrow> \<not> attempt_counts a b x"
  | "checkBotToBot (fst x) (fst (snd x)) (fst (snd (snd x))) (attempt_time x) t = botConvoTurn k (attempt_time x) t"
proof -
  obtain h u v s where x: "x = (h, u, v, s)" by (metis surj_pair)
  let ?both = "connected_as AccountBot u h \<and> connected_as AccountBot v h"
  show thesis
  proof (cases "?both \<and> botConvoKey u v = k")
    case True
    then show thesis by (intro that(2)) (simp add: x checkBotToBot_def attempt_time_def)
  next
    case False
    show thesis
    proof (rule that(1))
      show "map_of (fst (checkBotToBot (fst x) (fst (snd x)) (fst (snd (snd x))) (attempt_time x) t)) k = map_of t k"
        using False by (auto simp: x checkBotToBot_def turn_other)
      show "botConvoKey a b = k \<Longrightarrow> \<not> attempt_counts a b x"
        using False counted_key [of a b h u v s] by (auto simp: x attempt_counts_def)
    qed
  qed
qed

lemma check_positive: "counts_positive t \<Longrightarrow> counts_positive (fst (checkBotToBot h u v now t))"
  by (simp add: checkBotToBot_def turn_positive)

lemma run_positive: "counts_positive t \<Longrightarrow> counts_positive (fst (convo_run a b xs t))"
proof (induction xs arbitrary: t)
  case (Cons x xs)
  obtain t' ok where s: "checkBotToBot (fst x) (fst (snd x)) (fst (snd (snd x))) (attempt_time x) t = (t', ok)" by fastforce
  then have "counts_positive t'" using check_positive [OF Cons.prems] by (metis fst_conv)
  with s Cons.IH [of t'] show ?case by (cases "convo_run a b xs t'") simp
qed simp

lemma run_in_window:
  "resets_after (botConvoKey a b) s t \<Longrightarrow> \<forall>x \<in> set xs. attempt_time x \<le> s \<Longrightarrow>
    snd (convo_run a b xs t) \<le> turns_left (botConvoKey a b) t"
proof (induction xs arbitrary: t)
  case (Cons x xs)
  let ?k = "botConvoKey a b"
  obtain t' ok where s: "checkBotToBot (fst x) (fst (snd x)) (fst (snd (snd x))) (attempt_time x) t = (t', ok)" by fastforce
  have now: "attempt_time x \<le> s" "\<forall>x \<in> set xs. attempt_time x \<le> s" using Cons.prems(2) by simp_all
  show ?case
  proof (rule attempt_cases [of x t ?k a b])
    assume "map_of (fst (checkBotToBot (fst x) (fst (snd x)) (fst (snd (snd x))) (attempt_time x) t)) ?k = map_of t ?k"
      "?k = ?k \<Longrightarrow> \<not> attempt_counts a b x"
    then have e: "map_of t' ?k = map_of t ?k" "\<not> attempt_counts a b x" using s by simp_all
    then have "resets_after ?k s t'" "turns_left ?k t' = turns_left ?k t" using Cons.prems(1) by (simp_all add: resets_after_def turns_left_def)
    with Cons.IH [of t'] now e(2) s show ?thesis by (simp split: prod.splits)
  next
    assume "checkBotToBot (fst x) (fst (snd x)) (fst (snd (snd x))) (attempt_time x) t = botConvoTurn ?k (attempt_time x) t"
    with s turn_in_window [OF Cons.prems(1) now(1)] have "resets_after ?k s t'" "turns_left ?k t' + (if ok then 1 else 0) \<le> turns_left ?k t"
      by simp_all
    with Cons.IH [of t'] now s show ?thesis by (auto split: prod.splits)
  qed
qed simp

lemma run_any_window:
  "counts_positive t \<Longrightarrow> \<forall>x \<in> set xs. t0 \<le> attempt_time x \<and> attempt_time x \<le> t0 + botConvoWindow \<Longrightarrow>
    snd (convo_run a b xs t) \<le> turns_left (botConvoKey a b) t + 50"
proof (induction xs arbitrary: t)
  case (Cons x xs)
  let ?k = "botConvoKey a b" and ?s = "t0 + botConvoWindow"
  obtain t' ok where s: "checkBotToBot (fst x) (fst (snd x)) (fst (snd (snd x))) (attempt_time x) t = (t', ok)" by fastforce
  have now: "t0 \<le> attempt_time x" "attempt_time x \<le> ?s" and rest: "\<forall>x \<in> set xs. t0 \<le> attempt_time x \<and> attempt_time x \<le> ?s"
    using Cons.prems(2) by simp_all
  have pos: "counts_positive t'" using check_positive [OF Cons.prems(1)] s by (metis fst_conv)
  note ih = Cons.IH [OF pos rest]
  show ?case
  proof (rule attempt_cases [of x t ?k a b])
    assume "map_of (fst (checkBotToBot (fst x) (fst (snd x)) (fst (snd (snd x))) (attempt_time x) t)) ?k = map_of t ?k"
      "?k = ?k \<Longrightarrow> \<not> attempt_counts a b x"
    then have e: "turns_left ?k t' = turns_left ?k t" "\<not> attempt_counts a b x" using s by (simp_all add: turns_left_def)
    with ih s show ?thesis by (simp split: prod.splits)
  next
    assume "checkBotToBot (fst x) (fst (snd x)) (fst (snd (snd x))) (attempt_time x) t = botConvoTurn ?k (attempt_time x) t"
    with s turn_new_window [OF Cons.prems(1) now(1) refl, of ?k]
    consider "turns_left ?k t' + (if ok then 1 else 0) \<le> turns_left ?k t"
      | "resets_after ?k ?s t'" "turns_left ?k t' + (if ok then 1 else 0) \<le> 50" by auto
    then show ?thesis
    proof cases
      case 1
      with ih s show ?thesis by (auto split: prod.splits)
    next
      case 2
      have "\<forall>x \<in> set xs. attempt_time x \<le> ?s" using rest by blast
      from run_in_window [OF 2(1) this] have "snd (convo_run a b xs t') \<le> turns_left ?k t'" .
      with 2(2) s show ?thesis by (auto split: prod.splits)
    qed
  qed
qed simp

text \<open>
  two bots cannot keep each other busy: whatever they did before, in any five minutes at most a hundred of the
  messages and stream events they send each other pass, twice what the limit says, since the count starts anew with
  the first one after a window.
\<close>

theorem bot_pair_limited:
  assumes "\<forall>x \<in> set xs. t0 \<le> attempt_time x \<and> attempt_time x \<le> t0 + botConvoWindow"
  shows "snd (convo_run a b xs (fst (convo_run a b earlier []))) \<le> 100"
proof -
  let ?t = "fst (convo_run a b earlier [])"
  have pos: "counts_positive ?t" by (rule run_positive) (simp add: counts_positive_def)
  have "0 \<le> bc_count cc" if "map_of ?t (botConvoKey a b) = Some cc" for cc using that pos by (auto simp: counts_positive_def)
  then have "turns_left (botConvoKey a b) ?t \<le> 50"
    by (cases "map_of ?t (botConvoKey a b)") (simp_all add: turns_left_def botConvoMaxTurns_def)
  with run_any_window [OF pos assms, of a b] show ?thesis by linarith
qed

section \<open>Several ids for one topic\<close>

text \<open>Ids that are not canonical are accepted: they name the same group or pair as another topic.\<close>

lemma topic_aliases:
  "isGroupTopic ''grp_05'' \<and> extractGroupID ''grp_05'' = 5 \<and> groupTopicID 5 \<noteq> ''grp_05''"
  "extractPeerUID ''p2p_7_2'' 2 = 7 \<and> extractPeerUID ''p2p_7_2'' 7 = 2 \<and> p2pTopicID 2 7 \<noteq> ''p2p_7_2''"
  by code_simp+

section \<open>A person, two bots and a group\<close>

text \<open>Person 2 is connected by connection 1, bot 7 by connection 2 and bot 8 by connection 3; the three are group 5.\<close>

definition sample_memory :: "client_ref \<Rightarrow> Client" where
  "sample_memory c =
     (if c = 1 then no_client\<lparr>wc_uid := 2, wc_connectionID := ''c1''\<rparr>
      else if c = 2 then sample_bot ''c2''
      else if c = 3 then (sample_bot ''c3'')\<lparr>wc_uid := 8\<rparr> else no_client)"

definition sample_trio :: "(unit, unit) Hub" where
  "sample_trio = admitClient 3 [] 10 (admitClient 2 [] 10 (admitClient 1 [] 10
     (newHubWithState ''n'' None None None None (\<lambda>_. []) [] (\<lambda>_. False) sample_memory)))"

definition sample_access :: access_world where
  "sample_access =
     \<lparr>aw_fork = (\<lambda>_. NoForkStore), aw_managed = (\<lambda>_. Some False), aw_isMember = (\<lambda>g u. Some (g = 5 \<and> u \<in> {2, 7, 8})), aw_isMuted = (\<lambda>_ _. False),
      aw_members = (\<lambda>g. if g = 5 then Some [sample_member 2 False, sample_member 7 True, sample_member 8 True] else None),
      aw_user = (\<lambda>u. Some (if u \<in> {7, 8} then AccountBot else AccountHuman)), aw_isUserBot = (\<lambda>u. Some (u \<in> {7, 8})),
      aw_owner = (\<lambda>_. None), aw_friends = (\<lambda>u v. Some (u = 2 \<and> v = 7)), aw_createTopic = True\<rparr>"

definition sample_note :: MsgClientNote where
  "sample_note = \<lparr>nt_Topic = ''grp_5'', nt_What = ''read'', nt_SeqID = 4, nt_Visibility = [], nt_PushSubscriptionID = [], nt_ActiveTopic = [],
     nt_Focused = False\<rparr>"

lemma sample_trio_ok: "hub_ok sample_trio"
proof -
  let ?h = "newHubWithState ''n'' None None None None (\<lambda>_. []) [] (\<lambda>_. False) sample_memory :: (unit, unit) Hub"
  have "hub_ok ?h" by (rule hub_ok_new) (simp add: sample_memory_def sample_bot_def no_client_def)
  moreover have "wc_connectionID (hub_client ?h 1) \<noteq> []" "wc_connectionID (hub_client (admitClient 1 [] 10 ?h) 2) \<noteq> []"
    "wc_connectionID (hub_client (admitClient 2 [] 10 (admitClient 1 [] 10 ?h)) 3) \<noteq> []" by code_simp+
  ultimately show ?thesis unfolding sample_trio_def by (intro hub_ok_admit)
qed


text \<open>A hundred attempts of the two bots, fifty just before a window ends and fifty just after, all pass.\<close>

definition sample_attempts :: "go_time \<Rightarrow> nat \<Rightarrow> (unit, unit) convo_attempt list" where
  "sample_attempts s n = replicate n (sample_trio, 7, 8, s)"

theorem bot_pair_limited_witness:
  "snd (convo_run 7 8 (sample_attempts 300000000000 49 @ sample_attempts 300000000001 51) (fst (convo_run 7 8 (sample_attempts 0 1) []))) = 99 \<and>
   snd (convo_run 7 8 (sample_attempts 300000000000 49 @ sample_attempts 300000000001 51) (fst (convo_run 7 8 (sample_attempts 0 1) []))) \<le> 100"
proof -
  have bots: "connected_as AccountBot 7 sample_trio" "connected_as AccountBot 8 sample_trio" by code_simp+
  have step: "checkBotToBot sample_trio 7 8 s t = botConvoTurn (botConvoKey 7 8) s t" for s t using bots by (simp add: checkBotToBot_def)
  have c: "attempt_counts 7 8 (sample_trio, 7, 8, s)" for s using bots by (simp add: attempt_counts_def)
  have "snd (convo_run 7 8 (sample_attempts 300000000000 49 @ sample_attempts 300000000001 51) (fst (convo_run 7 8 (sample_attempts 0 1) []))) = 99"
    by (simp add: sample_attempts_def numeral_eq_Suc attempt_time_def step c botConvoTurn_def botConvoMaxTurns_def botConvoWindow_def
        go_minute_def go_second_def)
  moreover have "\<forall>x \<in> set (sample_attempts 300000000000 49 @ sample_attempts 300000000001 51).
      1 \<le> attempt_time x \<and> attempt_time x \<le> 1 + botConvoWindow"
    by (auto simp: sample_attempts_def attempt_time_def botConvoWindow_def go_minute_def go_second_def)
  ultimately show ?thesis using bot_pair_limited [of "sample_attempts 300000000000 49 @ sample_attempts 300000000001 51" 1 7 8 "sample_attempts 0 1"]
    by simp
qed

end
