(* ===== verification/TaskDeliverySafety.thy ===== *)
theory TaskDeliverySafety
  imports TaskDelivery TopicSafety
begin

text \<open>
  What the delivery of announcements guarantees: no announcement is lost, the worker comes to rest, and what is
  committed is well formed.
\<close>

section \<open>Nothing else touches the outbox\<close>

lemma reload_frame:
  assumes "GetConversationTaskStatuses reconciles reads now topics db = (db', r)"
  shows "td_outbox db' = td_outbox db" and "td_nextEvent db' = td_nextEvent db"
proof -
  have f: "td_outbox (fold (reconcileLegacyConversationTaskStatuses now) ts db) = td_outbox db \<and>
      td_nextEvent (fold (reconcileLegacyConversationTaskStatuses now) ts db) = td_nextEvent db" for ts
    by (induction ts arbitrary: db) simp_all
  show "td_outbox db' = td_outbox db" "td_nextEvent db' = td_nextEvent db"
    using assms f by (auto simp: GetConversationTaskStatuses_def Summaries_def Let_def split: if_splits prod.splits)
qed

lemma hand_over_cases:
  assumes "hand_over bus m now u st = (st', ok)"
  shows "tk_ledger st' = tk_ledger st" and "set (tk_handed st) \<subseteq> set (tk_handed st')" and "ok \<Longrightarrow> (u, m) \<in> set (tk_handed st')"
  using assms by (auto simp: hand_over_def split: task_bus.splits if_splits)

lemma hand_all_cases:
  assumes "hand_all bus m now us st = (st', ok)"
  shows "tk_ledger st' = tk_ledger st \<and> set (tk_handed st) \<subseteq> set (tk_handed st') \<and> (ok \<longrightarrow> (\<forall>u \<in> set us. (u, m) \<in> set (tk_handed st')))"
  using assms
proof (induction us arbitrary: st)
  case (Cons u us)
  obtain st1 ok1 where h: "hand_over bus m now u st = (st1, ok1)" by fastforce
  note c = hand_over_cases [OF h]
  show ?case
  proof (cases ok1)
    case True
    with Cons.prems h have "hand_all bus m now us st1 = (st', ok)" by simp
    from Cons.IH [OF this] c True show ?thesis by auto
  next
    case False
    with Cons.prems h c show ?thesis by auto
  qed
qed simp

text \<open>Everybody who is to be told, as far as the world of a round knows, was handed the announcement.\<close>

definition told :: "round_env \<Rightarrow> nat \<Rightarrow> ConversationTaskStatus \<Rightarrow> (uid \<times> ServerMessage) list \<Rightarrow> bool" where
  "told env i s handed \<longleftrightarrow>
     (\<exists>us aggregate. event_recipients (dv_world env) (ts_SourceUID s) (ts_TopicID s) = Some us \<and>
        (\<forall>u \<in> set us. (u, TaskStatusMessage aggregate (Some s) i) \<in> set handed))"

lemma told_mono: "told env i s handed \<Longrightarrow> set handed \<subseteq> set handed' \<Longrightarrow> told env i s handed'"
  by (fastforce simp: told_def)

lemma dispatch_event_cases:
  fixes env e and st :: "('a, 'b) task_site"
  defines "st' \<equiv> dispatch_event env e st"
  shows "set (tk_handed st) \<subseteq> set (tk_handed st') \<and> td_nextEvent (tk_ledger st') = td_nextEvent (tk_ledger st) \<and>
    (td_outbox (tk_ledger st') = td_outbox (tk_ledger st) \<or>
     td_outbox (tk_ledger st') = filter (\<lambda>x. \<not> (ob_id x = ob_id e \<and> ob_claim x = ob_claim e)) (td_outbox (tk_ledger st)) \<and>
       told env (ob_id e) (ob_status e) (tk_handed st'))"
proof -
  let ?topic = "ts_TopicID (ob_status e)"
  obtain db r where g: "GetConversationTaskStatuses (dv_reconciles env (ob_id e)) (dv_reads env (ob_id e)) (microseconds (dv_clock env))
      [?topic] (tk_ledger st) = (db, r)" by fastforce
  note frame = reload_frame [OF g]
  show ?thesis
  proof (cases r)
    case None
    with g frame show ?thesis by (simp add: st'_def dispatch_event_def Let_def)
  next
    case (Some statuses)
    let ?m = "announcement statuses e (dv_now env)"
    show ?thesis
    proof (cases "event_recipients (dv_world env) (ts_SourceUID (ob_status e)) ?topic")
      case None
      with Some g frame show ?thesis by (simp add: st'_def dispatch_event_def fanoutTaskStatusEvent_def Let_def)
    next
      case us: (Some us)
      obtain st1 ok where h: "hand_all (dv_bus env) ?m (dv_now env) us (st\<lparr>tk_ledger := db\<rparr>) = (st1, ok)" by fastforce
      from hand_all_cases [OF this] have c: "tk_ledger st1 = db" "set (tk_handed st) \<subseteq> set (tk_handed st1)"
        "ok \<longrightarrow> (\<forall>u \<in> set us. (u, ?m) \<in> set (tk_handed st1))" by simp_all
      have s: "st' = (if ok then st1\<lparr>tk_ledger := fst (CompleteEvent (dv_completes env (ob_id e)) (ob_id e) (ob_claim e) (tk_ledger st1))\<rparr> else st1)"
        using g Some us h by (simp add: st'_def dispatch_event_def fanoutTaskStatusEvent_def Let_def split: bool.split)
      have "ok \<Longrightarrow> told env (ob_id e) (ob_status e) (tk_handed st1)"
        using us c(3) unfolding told_def announcement_def by blast
      with c frame show ?thesis by (auto simp: s CompleteEvent_def)
    qed
  qed
qed

section \<open>No announcement is lost\<close>

definition waiting_event :: "nat \<Rightarrow> ConversationTaskStatus \<Rightarrow> task_db \<Rightarrow> bool" where
  "waiting_event i s db \<longleftrightarrow> (\<exists>e \<in> set (td_outbox db). ob_id e = i \<and> ob_status e = s)"

definition numbered :: "task_db \<Rightarrow> bool" where
  "numbered db \<longleftrightarrow> outbox_ok db \<and> distinct (map ob_id (td_outbox db))"

lemma numbered_unique:
  "numbered db \<Longrightarrow> waiting_event i s db \<Longrightarrow> e \<in> set (td_outbox db) \<Longrightarrow> ob_id e = i \<Longrightarrow> ob_status e = s"
  by (auto simp: numbered_def waiting_event_def distinct_map dest!: inj_onD)

lemma numbered_filter:
  "numbered db \<Longrightarrow> td_outbox db' = filter P (td_outbox db) \<Longrightarrow> td_nextEvent db' = td_nextEvent db \<Longrightarrow> numbered db'"
  by (simp add: numbered_def outbox_ok_def distinct_map_filter)

lemma numbered_cong: "numbered db \<Longrightarrow> td_outbox db' = td_outbox db \<Longrightarrow> td_nextEvent db' = td_nextEvent db \<Longrightarrow> numbered db'"
  by (simp add: numbered_def outbox_ok_def)

lemma numbered_map:
  assumes "numbered db" and "td_outbox db' = map f (td_outbox db)" and "\<And>e. ob_id (f e) = ob_id e" and "td_nextEvent db' = td_nextEvent db"
  shows "numbered db'"
proof -
  have m: "map ob_id (td_outbox db') = map ob_id (td_outbox db)" using assms(2,3) by simp
  have "\<forall>e \<in> set (td_outbox db'). ob_id e < td_nextEvent db'" using assms by (auto simp: numbered_def outbox_ok_def)
  then show ?thesis using assms(1) m by (simp add: numbered_def outbox_ok_def)
qed

lemma waiting_map:
  assumes "waiting_event i s db" and "td_outbox db' = map f (td_outbox db)" and "\<And>e. ob_id (f e) = ob_id e" and "\<And>e. ob_status (f e) = ob_status e"
  shows "waiting_event i s db'"
proof -
  from assms(1) obtain e where "e \<in> set (td_outbox db)" "ob_id e = i" "ob_status e = s" by (auto simp: waiting_event_def)
  then have "f e \<in> set (td_outbox db')" "ob_id (f e) = i" "ob_status (f e) = s" using assms(2-4) by simp_all
  then show ?thesis by (auto simp: waiting_event_def)
qed

lemma numbered_append:
  "numbered db \<Longrightarrow> td_outbox db' = td_outbox db @ [outbox_event (td_nextEvent db) s now] \<Longrightarrow> td_nextEvent db' = Suc (td_nextEvent db) \<Longrightarrow>
   numbered db'"
  by (force simp: numbered_def outbox_ok_def outbox_event_def)

lemma claim_shape:
  assumes "ClaimEvents token skip works clock limit lease db = (db', Some es)"
  defines "taken \<equiv> take (claim_limit limit) (filter (\<lambda>e. ob_available e \<le> microseconds clock \<and> \<not> skip (ob_id e)) (td_outbox db))"
  shows "es = map (\<lambda>e. e\<lparr>ob_claim := token\<rparr>) taken"
    and "td_outbox db' = map (\<lambda>e. if ob_id e \<in> ob_id ` set taken
         then e\<lparr>ob_claim := token, ob_available := microseconds clock + claim_lease lease\<rparr> else e) (td_outbox db)"
    and "td_nextEvent db' = td_nextEvent db"
  using assms by (auto simp: ClaimEvents_def Let_def split: if_splits)

lemma claim_refused: "ClaimEvents token skip works clock limit lease db = (db', None) \<Longrightarrow> db' = db"
  by (auto simp: ClaimEvents_def Let_def split: if_splits)

lemma claim_keeps:
  assumes "numbered db"
  shows "numbered (fst (ClaimEvents token skip works clock limit lease db))"
    and "waiting_event i s db \<Longrightarrow> waiting_event i s (fst (ClaimEvents token skip works clock limit lease db))"
proof -
  obtain db' r where c: "ClaimEvents token skip works clock limit lease db = (db', r)" by fastforce
  show "numbered (fst (ClaimEvents token skip works clock limit lease db))"
  proof (cases r)
    case None
    with c assms claim_refused [of token skip works clock limit lease db db'] show ?thesis by simp
  next
    case (Some es)
    from numbered_map [OF assms claim_shape(2) [OF c [unfolded Some]] _ claim_shape(3) [OF c [unfolded Some]]] c show ?thesis by simp
  qed
  show "waiting_event i s db \<Longrightarrow> waiting_event i s (fst (ClaimEvents token skip works clock limit lease db))"
  proof (cases r)
    case None
    with c claim_refused [of token skip works clock limit lease db db'] show "waiting_event i s db \<Longrightarrow> ?thesis" by simp
  next
    case (Some es)
    assume "waiting_event i s db"
    from waiting_map [OF this claim_shape(2) [OF c [unfolded Some]]] show ?thesis using c by simp
  qed
qed

lemma step_keeps_events:
  assumes "numbered db" and "\<forall>works i claim. op \<noteq> LComplete works i claim"
  shows "numbered (ledger_step op db)" and "waiting_event i s db \<Longrightarrow> waiting_event i s (ledger_step op db)"
proof -
  have "numbered (ledger_step op db) \<and> (waiting_event i s db \<longrightarrow> waiting_event i s (ledger_step op db))"
    using step_outbox [of op db]
  proof (elim disjE exE conjE)
    fix s' now assume a: "td_outbox (ledger_step op db) = td_outbox db @ [outbox_event (td_nextEvent db) s' now]"
      "td_nextEvent (ledger_step op db) = Suc (td_nextEvent db)"
    from numbered_append [OF assms(1) this] a show ?thesis by (auto simp: waiting_event_def)
  next
    fix token skip works clock limit lease assume "op = LClaim token skip works clock limit lease"
    with claim_keeps [OF assms(1)] show ?thesis by simp
  qed (use assms numbered_cong [OF assms(1)] in \<open>auto simp: waiting_event_def\<close>)
  then show "numbered (ledger_step op db)" "waiting_event i s db \<Longrightarrow> waiting_event i s (ledger_step op db)" by simp_all
qed

text \<open>What happens at a server and to the tables: reports, rounds of the worker, and everything but completions by others.\<close>

datatype site_op =
    Report report_env client_ref string string normalizedMessagePayload
  | Round round_env
  | Tables ledger_op

fun site_step :: "site_op \<Rightarrow> ('a, 'b) task_site \<Rightarrow> ('a, 'b) task_site" where
  "site_step (Report env c i topicID p) st = handleTaskStatusPub env c i topicID p st"
| "site_step (Round env) st = fst (dispatchConversationTaskStatusEvents env st)"
| "site_step (Tables op) st = st\<lparr>tk_ledger := ledger_step op (tk_ledger st)\<rparr>"

fun no_completion :: "site_op \<Rightarrow> bool" where
  "no_completion (Tables (LComplete works i claim)) \<longleftrightarrow> False"
| "no_completion _ \<longleftrightarrow> True"

definition kept_or_told :: "nat \<Rightarrow> ConversationTaskStatus \<Rightarrow> round_env set \<Rightarrow> ('a, 'b) task_site \<Rightarrow> bool" where
  "kept_or_told i s envs st \<longleftrightarrow> waiting_event i s (tk_ledger st) \<or> (\<exists>env \<in> envs. told env i s (tk_handed st))"

lemma event_step:
  assumes "numbered (tk_ledger st)" and "ob_id e = i \<longrightarrow> ob_status e = s" and "env \<in> envs" and "kept_or_told i s envs st"
  shows "numbered (tk_ledger (dispatch_event env e st)) \<and> kept_or_told i s envs (dispatch_event env e st)"
proof -
  let ?st = "dispatch_event env e st"
  note c = dispatch_event_cases [of st env e]
  have "numbered (tk_ledger ?st)"
    using c numbered_cong [OF assms(1)] numbered_filter [OF assms(1)] by blast
  moreover have "kept_or_told i s envs ?st"
  proof (cases "\<exists>env \<in> envs. told env i s (tk_handed st)")
    case True
    with c told_mono show ?thesis by (fastforce simp: kept_or_told_def)
  next
    case False
    with assms(4) have w: "waiting_event i s (tk_ledger st)" by (simp add: kept_or_told_def)
    from c show ?thesis
    proof (elim conjE disjE)
      assume "td_outbox (tk_ledger ?st) = td_outbox (tk_ledger st)"
      with w show ?thesis by (simp add: kept_or_told_def waiting_event_def)
    next
      assume f: "td_outbox (tk_ledger ?st) = filter (\<lambda>x. \<not> (ob_id x = ob_id e \<and> ob_claim x = ob_claim e)) (td_outbox (tk_ledger st))"
        and t: "told env (ob_id e) (ob_status e) (tk_handed ?st)"
      show ?thesis
      proof (cases "ob_id e = i")
        case True
        with t assms(2,3) show ?thesis by (auto simp: kept_or_told_def)
      next
        case False
        with w f show ?thesis by (auto simp: kept_or_told_def waiting_event_def)
      qed
    qed
  qed
  ultimately show ?thesis by simp
qed

lemma events_step:
  "numbered (tk_ledger st) \<Longrightarrow> \<forall>e \<in> set es. ob_id e = i \<longrightarrow> ob_status e = s \<Longrightarrow> env \<in> envs \<Longrightarrow> kept_or_told i s envs st \<Longrightarrow>
   numbered (tk_ledger (fold (dispatch_event env) es st)) \<and> kept_or_told i s envs (fold (dispatch_event env) es st)"
proof (induction es arbitrary: st)
  case (Cons e es)
  with event_step [of st e i s env envs] have "numbered (tk_ledger (dispatch_event env e st))" "kept_or_told i s envs (dispatch_event env e st)"
    by simp_all
  with Cons show ?case by simp
qed simp

lemma round_step:
  assumes "numbered (tk_ledger st)" and "env \<in> envs" and "kept_or_told i s envs st"
  shows "numbered (tk_ledger (fst (dispatchConversationTaskStatusEvents env st))) \<and>
    kept_or_told i s envs (fst (dispatchConversationTaskStatusEvents env st))"
proof -
  obtain db r where c: "ClaimEvents (dv_token env) (dv_skip env) (dv_claims env) (dv_clock env) 32 taskStatusOutboxLease (tk_ledger st) = (db, r)"
    by fastforce
  let ?st = "st\<lparr>tk_ledger := db\<rparr>"
  have n: "numbered db" using claim_keeps(1) [OF assms(1)] c by (metis fst_conv)
  have k: "kept_or_told i s envs ?st"
    using assms(3) claim_keeps(2) [OF assms(1), of i s] c by (auto simp: kept_or_told_def) (metis fst_conv)
  show ?thesis
  proof (cases r)
    case None
    with c n k show ?thesis by (simp add: dispatchConversationTaskStatusEvents_def)
  next
    case (Some es)
    have d: "fst (dispatchConversationTaskStatusEvents env st) = fold (dispatch_event env) es ?st"
      using c Some by (simp add: dispatchConversationTaskStatusEvents_def)
    show ?thesis
    proof (cases "\<forall>e \<in> set es. ob_id e = i \<longrightarrow> ob_status e = s")
      case True
      from events_step [of ?st, OF _ this assms(2) k] n d show ?thesis by simp
    next
      case False
      then obtain e where e: "e \<in> set es" "ob_id e = i" "ob_status e \<noteq> s" by blast
      then obtain e0 where "e0 \<in> set (td_outbox (tk_ledger st))" "ob_id e0 = i" "ob_status e0 \<noteq> s"
        using claim_shape(1) [OF c [unfolded Some]] by (auto dest!: in_set_takeD)
      then have "\<not> waiting_event i s (tk_ledger st)" using numbered_unique [OF assms(1)] by blast
      with assms(3) obtain env' where t: "env' \<in> envs" "told env' i s (tk_handed st)" by (auto simp: kept_or_told_def)
      have "numbered (tk_ledger (fold (dispatch_event env) es st)) \<and> told env' i s (tk_handed (fold (dispatch_event env) es st))"
        if "numbered (tk_ledger st)" "told env' i s (tk_handed st)" for es and st :: "('a, 'b) task_site"
        using that
      proof (induction es arbitrary: st)
        case (Cons e es)
        note c = dispatch_event_cases [of st env e]
        have "numbered (tk_ledger (dispatch_event env e st))"
          using c numbered_cong [OF Cons.prems(1)] numbered_filter [OF Cons.prems(1)] by blast
        moreover have "told env' i s (tk_handed (dispatch_event env e st))" using c Cons.prems(2) told_mono by blast
        ultimately show ?case using Cons.IH by simp
      qed simp
      from this [of ?st es] n t d show ?thesis by (auto simp: kept_or_told_def)
    qed
  qed
qed

lemma report_ledger:
  fixes st :: "('a, 'b) task_site"
  shows "tk_handed (handleTaskStatusPub env c i topicID p st) = tk_handed st"
    and "tk_ledger (handleTaskStatusPub env c i topicID p st) = tk_ledger st \<or>
      (\<exists>works clock s. tk_ledger (handleTaskStatusPub env c i topicID p st) = ledger_step (LUpsert works clock s) (tk_ledger st))"
proof -
  obtain mdb tdb r where q: "persistConversationTaskStatus env (wc_uid (hub_client (tk_hub st) c)) topicID p (tk_topics st, tk_ledger st) = ((mdb, tdb), r)"
    by (metis surj_pair)
  then have t: "tdb = tk_ledger st \<or> (\<exists>works clock s. tdb = ledger_step (LUpsert works clock s) (tk_ledger st))"
    by (auto simp: persistConversationTaskStatus_def split: sum.splits prod.splits bool.splits if_splits) (metis fst_conv)+
  show "tk_handed (handleTaskStatusPub env c i topicID p st) = tk_handed st"
    by (simp add: handleTaskStatusPub_def Let_def q committed_report_def publishCommittedTaskStatus_def split: sum.split)
  have "tk_ledger (handleTaskStatusPub env c i topicID p st) \<in> {tk_ledger st, tdb}"
    by (simp add: handleTaskStatusPub_def Let_def q committed_report_def publishCommittedTaskStatus_def split: sum.split)
  with t show "tk_ledger (handleTaskStatusPub env c i topicID p st) = tk_ledger st \<or>
      (\<exists>works clock s. tk_ledger (handleTaskStatusPub env c i topicID p st) = ledger_step (LUpsert works clock s) (tk_ledger st))"
    by auto
qed

definition rounds :: "site_op list \<Rightarrow> round_env set" where
  "rounds ops = {env. Round env \<in> set ops}"

lemma site_keeps:
  assumes "numbered (tk_ledger st)" and "no_completion op" and "kept_or_told i s envs st" and "rounds [op] \<subseteq> envs"
  shows "numbered (tk_ledger (site_step op st)) \<and> kept_or_told i s envs (site_step op st)"
proof (cases op)
  case (Report env c j topicID p)
  have "numbered (tk_ledger (site_step op st)) \<and> (waiting_event i s (tk_ledger st) \<longrightarrow> waiting_event i s (tk_ledger (site_step op st)))"
    using report_ledger(2) [of env c j topicID p st]
  proof (elim disjE exE)
    fix works clock x assume t: "tk_ledger (handleTaskStatusPub env c j topicID p st) = ledger_step (LUpsert works clock x) (tk_ledger st)"
    show ?thesis unfolding Report site_step.simps t using step_keeps_events [OF assms(1), of "LUpsert works clock x"] by blast
  qed (use assms(1) in \<open>simp add: Report\<close>)
  then show ?thesis using assms(3) report_ledger(1) [of env c j topicID p st] by (auto simp: kept_or_told_def Report)
next
  case (Round env)
  with assms(4) have "env \<in> envs" by (simp add: rounds_def)
  from round_step [OF assms(1) this assms(3)] show ?thesis by (simp add: Round)
next
  case (Tables x)
  with assms(2) have "\<forall>works i claim. x \<noteq> LComplete works i claim" by (cases x) auto
  from step_keeps_events [OF assms(1) this] assms(3) show ?thesis by (auto simp: Tables kept_or_told_def)
qed

lemma sites_keep:
  "numbered (tk_ledger st) \<Longrightarrow> \<forall>op \<in> set ops. no_completion op \<Longrightarrow> kept_or_told i s envs st \<Longrightarrow> rounds ops \<subseteq> envs \<Longrightarrow>
   numbered (tk_ledger (fold site_step ops st)) \<and> kept_or_told i s envs (fold site_step ops st)"
proof (induction ops arbitrary: st)
  case (Cons op ops)
  then have "rounds [op] \<subseteq> envs" "rounds ops \<subseteq> envs" "no_completion op" by (auto simp: rounds_def)
  with site_keeps [OF Cons.prems(1) this(3) Cons.prems(3) this(1)] Cons.IH Cons.prems(2) show ?case by simp
qed simp

text \<open>
  C5: no announcement of agent work is lost: whatever fails and whatever happens in between, an event that is in the
  outbox stays there until, in some round of a worker, everybody who then may see its topic has been handed the
  very status that was reported.
\<close>

theorem announcement_not_lost:
  assumes "numbered (tk_ledger st)" and "e \<in> set (td_outbox (tk_ledger st))" and "\<forall>op \<in> set ops. no_completion op"
  shows "(\<exists>x \<in> set (td_outbox (tk_ledger (fold site_step ops st))). ob_id x = ob_id e \<and> ob_status x = ob_status e) \<or>
    (\<exists>env us aggregate. Round env \<in> set ops \<and>
       event_recipients (dv_world env) (ts_SourceUID (ob_status e)) (ts_TopicID (ob_status e)) = Some us \<and>
       (\<forall>u \<in> set us. (u, TaskStatusMessage aggregate (Some (ob_status e)) (ob_id e)) \<in> set (tk_handed (fold site_step ops st))))"
proof -
  have "kept_or_told (ob_id e) (ob_status e) (rounds ops) st" using assms(2) by (auto simp: kept_or_told_def waiting_event_def)
  from sites_keep [OF assms(1,3) this] have "kept_or_told (ob_id e) (ob_status e) (rounds ops) (fold site_step ops st)" by simp
  then show ?thesis by (auto simp: kept_or_told_def waiting_event_def told_def rounds_def)
qed

section \<open>The worker comes to rest\<close>

definition due_rows :: "go_time \<Rightarrow> task_db \<Rightarrow> nat" where
  "due_rows limit db = length (filter (\<lambda>e. ob_available e < limit) (td_outbox db))"

lemma claim_due:
  assumes "ClaimEvents token skip works clock n lease db = (db', Some es)" and "numbered db"
    and "microseconds clock < limit" and "limit \<le> microseconds clock + claim_lease lease"
  shows "due_rows limit db' + length es \<le> due_rows limit db"
proof -
  let ?taken = "take (claim_limit n) (filter (\<lambda>e. ob_available e \<le> microseconds clock \<and> \<not> skip (ob_id e)) (td_outbox db))"
  let ?due = "filter (\<lambda>e. ob_available e < limit) (td_outbox db)"
  let ?P = "\<lambda>e. ob_id e \<in> ob_id ` set ?taken"
  have d: "distinct (td_outbox db)" using assms(2) by (simp add: numbered_def distinct_map)
  have "due_rows limit db' = length (filter (\<lambda>e. \<not> ?P e) ?due)"
    unfolding due_rows_def claim_shape(2) [OF assms(1)] filter_map length_map filter_filter o_def
    by (rule arg_cong [where f = length], rule filter_cong [OF refl]) (use assms(4) in \<open>simp split: if_split\<close>)
  moreover have "length es \<le> length (filter ?P ?due)"
  proof -
    have "set ?taken \<subseteq> set (filter ?P ?due)"
    proof
      fix e assume e: "e \<in> set ?taken"
      from in_set_takeD [OF this] assms(3) have "e \<in> set ?due" by simp
      with e show "e \<in> set (filter ?P ?due)" by simp
    qed
    then have "card (set ?taken) \<le> length (filter ?P ?due)" by (meson card_length card_mono finite_set le_trans)
    moreover have "distinct ?taken" using d by simp
    ultimately show ?thesis by (simp add: claim_shape(1) [OF assms(1)] distinct_card)
  qed
  moreover have "length (filter ?P ?due) + length (filter (\<lambda>e. \<not> ?P e) ?due) = length ?due" by (rule sum_length_filter_compl)
  ultimately show ?thesis by (simp add: due_rows_def)
qed

lemma event_due:
  "due_rows limit (tk_ledger (dispatch_event env e st)) \<le> due_rows limit (tk_ledger st) \<and>
   (numbered (tk_ledger st) \<longrightarrow> numbered (tk_ledger (dispatch_event env e st)))"
proof -
  have less: "due_rows limit db' \<le> due_rows limit db" if "td_outbox db' = filter P (td_outbox db)" for db db' P
  proof -
    have "filter (\<lambda>e. ob_available e < limit) (filter P (td_outbox db)) = filter P (filter (\<lambda>e. ob_available e < limit) (td_outbox db))"
      by (simp add: conj_commute)
    then show ?thesis using that length_filter_le [of P "filter (\<lambda>e. ob_available e < limit) (td_outbox db)"] by (simp add: due_rows_def)
  qed
  from dispatch_event_cases [of st env e] show ?thesis
  proof (elim conjE disjE)
    assume "td_nextEvent (tk_ledger (dispatch_event env e st)) = td_nextEvent (tk_ledger st)"
      and "td_outbox (tk_ledger (dispatch_event env e st)) = td_outbox (tk_ledger st)"
    with numbered_cong [of "tk_ledger st" "tk_ledger (dispatch_event env e st)"] show ?thesis by (simp add: due_rows_def)
  next
    assume n: "td_nextEvent (tk_ledger (dispatch_event env e st)) = td_nextEvent (tk_ledger st)"
      and f: "td_outbox (tk_ledger (dispatch_event env e st)) =
        filter (\<lambda>x. \<not> (ob_id x = ob_id e \<and> ob_claim x = ob_claim e)) (td_outbox (tk_ledger st))"
    from less [OF f] numbered_filter [OF _ f n] show ?thesis by blast
  qed
qed

lemma events_due:
  "numbered (tk_ledger st) \<Longrightarrow>
   due_rows limit (tk_ledger (fold (dispatch_event env) es st)) \<le> due_rows limit (tk_ledger st) \<and> numbered (tk_ledger (fold (dispatch_event env) es st))"
proof (induction es arbitrary: st)
  case (Cons e es)
  from event_due [of limit env e st] Cons.prems
  have e: "due_rows limit (tk_ledger (dispatch_event env e st)) \<le> due_rows limit (tk_ledger st)" "numbered (tk_ledger (dispatch_event env e st))"
    by simp_all
  from Cons.IH [OF e(2)] le_trans [OF _ e(1)] show ?case by simp
qed simp

definition rounds_within :: "go_time \<Rightarrow> round_env list \<Rightarrow> bool" where
  "rounds_within t envs \<longleftrightarrow> (\<forall>env \<in> set envs. t \<le> microseconds (dv_clock env) \<and> microseconds (dv_clock env) < t + taskStatusOutboxLease)"

lemma drain_due:
  "numbered (tk_ledger st) \<Longrightarrow> rounds_within t envs \<Longrightarrow> due_rows (t + taskStatusOutboxLease) (tk_ledger st) < 32 * length envs \<Longrightarrow>
   \<exists>st'. drain envs st = Some st'"
proof (induction envs arbitrary: st)
  case (Cons env envs)
  let ?limit = "t + taskStatusOutboxLease"
  obtain st1 more where d: "dispatchConversationTaskStatusEvents env st = (st1, more)" by fastforce
  show ?case
  proof (cases more)
    case False
    with d show ?thesis by simp
  next
    case True
    then obtain db es where c: "ClaimEvents (dv_token env) (dv_skip env) (dv_claims env) (dv_clock env) 32 taskStatusOutboxLease (tk_ledger st) = (db, Some es)"
      and f: "st1 = fold (dispatch_event env) es (st\<lparr>tk_ledger := db\<rparr>)" and n: "length es = 32"
      using d by (auto simp: dispatchConversationTaskStatusEvents_def split: prod.splits option.splits)
    have clock: "microseconds (dv_clock env) < ?limit" "?limit \<le> microseconds (dv_clock env) + claim_lease taskStatusOutboxLease"
      using Cons.prems(2) by (auto simp: rounds_within_def claim_lease_def taskStatusOutboxLease_def go_second_def)
    have "numbered db" using claim_keeps(1) [OF Cons.prems(1)] c by (metis fst_conv)
    then have "numbered (tk_ledger (st\<lparr>tk_ledger := db\<rparr>))" by simp
    from events_due [OF this, of ?limit env es] claim_due [OF c Cons.prems(1) clock] n Cons.prems(3) f
    have "due_rows ?limit (tk_ledger st1) < 32 * length envs" "numbered (tk_ledger st1)" by simp_all
    with Cons.IH [of st1] Cons.prems(2) True d show ?thesis by (simp add: rounds_within_def)
  qed
qed simp

text \<open>
  C39: the worker comes to rest: whatever fails, it does not take the same announcements again and again without a
  pause. Rounds that follow each other within half a minute end after as many as a thirty-second part of the
  outbox, and one more.
\<close>

theorem worker_comes_to_rest:
  assumes "numbered (tk_ledger st)" and "rounds_within t envs" and "length (td_outbox (tk_ledger st)) < 32 * length envs"
  shows "\<exists>st'. drain envs st = Some st'"
proof -
  have "due_rows (t + taskStatusOutboxLease) (tk_ledger st) \<le> length (td_outbox (tk_ledger st))" by (simp add: due_rows_def)
  with drain_due [OF assms(1,2)] assms(3) show ?thesis by simp
qed

section \<open>What is committed is well formed\<close>

lemma upsert_receipt:
  assumes "Upsert taskLedger works clock inp db = (db', Inr (aggregate, receipt))"
  shows "run_key receipt = run_key inp \<and> ts_State receipt = ts_State inp \<and> ts_Summary receipt = ts_Summary inp \<and>
    ts_Error receipt = ts_Error inp \<and> ts_ExpiresAt receipt = ts_ExpiresAt inp \<and> works \<and> ts_SourceUID inp > 0"
proof -
  let ?now = "microseconds clock" and ?s = "PrepareConversationTaskStatusForStore inp (microseconds clock)"
  have s: "run_key ?s = run_key inp" "sameReceipt r ?s = sameReceipt r inp" "ts_State ?s = ts_State inp" "ts_Summary ?s = ts_Summary inp"
    "ts_Error ?s = ts_Error inp" "ts_ExpiresAt ?s = ts_ExpiresAt inp" for r
    by (simp_all add: PrepareConversationTaskStatusForStore_def Let_def run_key_def sameReceipt_def)
  have k: "find_run (run_key inp) (lockTopic taskLedger ?now (ts_TopicID inp) db) = Some r \<Longrightarrow> run_key r = run_key inp" for r
    by (rule find_key)
  from assms show ?thesis
    by (auto simp: Upsert_def Let_def s sameReceipt_def split: if_splits option.splits prod.splits dest: k)
qed

lemma receipt_stored:
  assumes "Upsert taskLedger works clock inp db = (db', Inr (aggregate, receipt))"
  shows "find_run (run_key receipt) db' = Some receipt"
proof -
  let ?now = "microseconds clock" and ?s = "PrepareConversationTaskStatusForStore inp (microseconds clock)"
  let ?l = "lockTopic taskLedger ?now (ts_TopicID inp) db"
  have "find_run (run_key ?s) (fst (ledger_write ?s ?now ?l)) = Some ?s" by (rule write_find)
  then show ?thesis
    using assms find_key [of "run_key ?s" ?l] by (auto simp: Upsert_def Let_def split: if_splits option.splits prod.splits)
qed

lemma runes_bound: "0 < n \<Longrightarrow> int (length (go_runes (truncateUTF8 s n))) \<le> n"
  by (rule truncateUTF8_bound)

text \<open>
  what a report makes of the ledger is well formed, whatever the bot sent: a receipt that is given is stored under
  the topic of the request and the reporter's own user id, its state is one of the seven, its texts keep to their
  lengths in code points, and work that is going on has a time when it expires.
\<close>

theorem accepted_report_well_formed:
  assumes "persistConversationTaskStatus env u topicID p st = (st', Inr (aggregate, receipt))"
  shows "ts_TopicID receipt = topicID \<and> ts_SourceUID receipt = u \<and> u > 0 \<and> ts_State receipt \<in> set allowedTaskStatusStates \<and>
    length (go_runes (ts_RunID receipt)) \<le> 128 \<and> length (go_runes (ts_Summary receipt)) \<le> 500 \<and>
    length (go_runes (ts_Error receipt)) \<le> 2000 \<and> (active_state (ts_State receipt) \<longrightarrow> ts_ExpiresAt receipt \<noteq> None) \<and>
    find_run (run_key receipt) (snd st') = Some receipt"
proof -
  from assms obtain s where n: "normalizeConversationTaskStatus (re_reader env) u topicID p (re_now env) = Inr s"
    and up: "Upsert taskLedger (re_works env) (re_clock env) s (snd st) = (snd st', Inr (aggregate, receipt))"
    by (auto simp: persistConversationTaskStatus_def split: sum.splits prod.splits bool.splits)
  from n have s: "s = reported_status (re_reader env) u topicID p (ts_State s) (re_now env)" "ts_State s \<in> set allowedTaskStatusStates"
    by (auto simp: normalizeConversationTaskStatus_def Let_def reported_status_def split: if_splits)
  have f: "ts_TopicID s = topicID" "ts_SourceUID s = u"
    "length (go_runes (ts_RunID s)) \<le> 128" "length (go_runes (ts_Summary s)) \<le> 500" "length (go_runes (ts_Error s)) \<le> 2000"
    "active_state (ts_State s) \<longrightarrow> ts_ExpiresAt s \<noteq> None"
    using runes_bound [of maxTaskRunIDLength] runes_bound [of maxTaskSummaryLength] runes_bound [of maxTaskErrorLength]
    by (subst s(1); auto simp: reported_status_def Let_def reported_expiry_def maxTaskRunIDLength_def maxTaskSummaryLength_def
        maxTaskErrorLength_def split: option.split)+
  from receipt_stored [of "re_works env" "re_clock env" s "snd st"] up have "find_run (run_key receipt) (snd st') = Some receipt" by simp
  with upsert_receipt [OF up] f s(2) show ?thesis by (simp add: run_key_def)
qed

section \<open>A report of bot 7\<close>

definition sample_report :: normalizedMessagePayload where
  "sample_report =
     \<lparr>np_StoredContent = ''working'',
      np_DisplayContent = JObj [(''state'', JStr ''in_progress''), (''run_id'', JStr ''r1''), (''summary'', JStr ''reading'')],
      np_StoredType = ''text'', np_DisplayType = ''task_status'', np_ExplicitDisplayType = True, np_ClientMsgID = [], np_ContentBlocks = [],
      np_Metadata = [], np_Mode = [], np_Role = [], np_Mentions = []\<rparr>"

definition sample_report_env :: report_env where
  "sample_report_env =
     \<lparr>re_reader = \<lparr>rd_json = (\<lambda>_. None), rd_time = (\<lambda>_. None)\<rparr>, re_error = (\<lambda>_. ''refused''), re_json = (\<lambda>s. JStr (ts_State s)),
      re_now = 1000000, re_clock = 1000000, re_topicWorks = True, re_works = True\<rparr>"

definition sample_round :: "go_time \<Rightarrow> (uid \<Rightarrow> bool) \<Rightarrow> round_env" where
  "sample_round clock published =
     \<lparr>dv_world = sample_access, dv_bus = RedisBus published, dv_now = clock, dv_clock = clock, dv_token = ''w1'', dv_skip = (\<lambda>_. False),
      dv_claims = True, dv_reconciles = (\<lambda>_. True), dv_reads = (\<lambda>_. True), dv_completes = (\<lambda>_. True)\<rparr>"

definition sample_site :: "(unit, unit) task_site" where
  "sample_site = handleTaskStatusPub sample_report_env 2 ''i1'' ''grp_5'' sample_report
     \<lparr>tk_hub = sample_trio, tk_topics = empty_messages, tk_ledger = empty_db, tk_turns = newGroupAgentTurnTracker 0, tk_observed = [],
      tk_wake = False, tk_handed = []\<rparr>"

text \<open>The first round cannot publish to member 8, so the announcement waits; a minute later it goes to everybody.\<close>

definition sample_rounds :: "site_op list" where
  "sample_rounds = [Round (sample_round 2000000 (\<lambda>u. u \<noteq> 8)), Round (sample_round 60000000000 (\<lambda>_. True))]"

lemma sample_site_row:
  "map (\<lambda>e. (ob_id e, ts_TopicID (ob_status e), ts_SourceUID (ob_status e), ts_State (ob_status e))) (td_outbox (tk_ledger sample_site)) =
     [(1, ''grp_5'', 7, ''running'')] \<and> td_nextEvent (tk_ledger sample_site) = 2"
  by code_simp

theorem announcement_not_lost_witness:
  "\<exists>s aggregate. ts_State s = ''running'' \<and> td_outbox (tk_ledger (fold site_step sample_rounds sample_site)) = [] \<and>
     (\<forall>u \<in> {2, 7, 8}. (u, TaskStatusMessage aggregate (Some s) 1) \<in> set (tk_handed (fold site_step sample_rounds sample_site)))"
proof -
  obtain e where e: "td_outbox (tk_ledger sample_site) = [e]" "ob_id e = 1" "ts_TopicID (ob_status e) = ''grp_5''"
    "ts_SourceUID (ob_status e) = 7" "ts_State (ob_status e) = ''running''"
    using sample_site_row by auto
  have n: "numbered (tk_ledger sample_site)" using e sample_site_row by (simp add: numbered_def outbox_ok_def)
  have empty: "td_outbox (tk_ledger (fold site_step sample_rounds sample_site)) = []" by code_simp
  have all: "event_recipients sample_access 7 ''grp_5'' = Some [2, 7, 8]" by code_simp
  have ops: "\<forall>op \<in> set sample_rounds. no_completion op" by (simp add: sample_rounds_def)
  have "e \<in> set (td_outbox (tk_ledger sample_site))" using e(1) by simp
  from announcement_not_lost [OF n this ops] empty obtain env us aggregate where
    r: "Round env \<in> set sample_rounds" "event_recipients (dv_world env) 7 ''grp_5'' = Some us"
      "\<forall>u \<in> set us. (u, TaskStatusMessage aggregate (Some (ob_status e)) 1) \<in> set (tk_handed (fold site_step sample_rounds sample_site))"
    unfolding e by auto
  from r(1) have "dv_world env = sample_access" by (auto simp: sample_rounds_def sample_round_def)
  with r(2) all have "us = [2, 7, 8]" by simp
  with r(3) e(5) empty show ?thesis by (intro exI [of _ "ob_status e"] exI [of _ aggregate]) simp
qed

theorem worker_comes_to_rest_witness:
  "\<exists>st'. drain [sample_round 2000000 (\<lambda>_. True)] sample_site = Some st'"
proof -
  have o: "length (td_outbox (tk_ledger sample_site)) = 1" using arg_cong [OF conjunct1 [OF sample_site_row], of length] by simp
  have n: "numbered (tk_ledger sample_site)" using sample_site_row by (auto simp: numbered_def outbox_ok_def)
  have w: "rounds_within 2000000 [sample_round 2000000 (\<lambda>_. True)]"
    by (simp add: rounds_within_def sample_round_def microseconds_def taskStatusOutboxLease_def go_second_def)
  show ?thesis by (rule worker_comes_to_rest [OF n w]) (simp add: o)
qed

theorem accepted_report_well_formed_witness:
  "\<exists>mdb tdb aggregate receipt.
     persistConversationTaskStatus sample_report_env 7 ''grp_5'' sample_report (empty_messages, empty_db) = ((mdb, tdb), Inr (aggregate, receipt)) \<and>
     ts_State receipt = ''running'' \<and> ts_ExpiresAt receipt \<noteq> None \<and> find_run (run_key receipt) tdb = Some receipt"
proof -
  have "(case snd (persistConversationTaskStatus sample_report_env 7 ''grp_5'' sample_report (empty_messages, empty_db)) of
      Inl _ \<Rightarrow> False | Inr (aggregate, receipt) \<Rightarrow> ts_State receipt = ''running'')" by code_simp
  then obtain mdb tdb aggregate receipt where
    p: "persistConversationTaskStatus sample_report_env 7 ''grp_5'' sample_report (empty_messages, empty_db) = ((mdb, tdb), Inr (aggregate, receipt))"
    and s: "ts_State receipt = ''running''"
    by (cases "persistConversationTaskStatus sample_report_env 7 ''grp_5'' sample_report (empty_messages, empty_db)") (auto split: sum.splits)
  from accepted_report_well_formed [OF p] p s show ?thesis by (auto simp: active_state_def)
qed

end
