(* ===== verification/Publishing.thy ===== *)
theory Publishing
  imports TaskDeliverySafety
begin

text \<open>
  The way of a message (\<open>handlePub\<close>, \<open>handleGroupPub\<close> of \<open>server/wshandler.go\<close>; \<open>saveNormalizedMessage\<close>,
  \<open>fanoutNormalizedMessage\<close> of \<open>server/messages.go\<close>): limited, normalized, allowed, saved, confirmed to its author and
  handed to everybody else in the topic. Modelled are messages that carry no reference to an artifact, an application or an
  annotation. A copy has the public metadata; what the server adds for its recipient (identities, device directories,
  skill connectors) is left out, as are push notifications, statistics and what goes to external channels. Metadata that
  comes from a client is JSON, so it never has the token by which the server marks messages of a channel binding.
\<close>

definition metadataWithoutChannelTrust :: "metadata \<Rightarrow> metadata" where
  "metadataWithoutChannelTrust m = filter (\<lambda>kv. fst kv \<noteq> ''__catsco_channel_binding_delivery_trust'') m"

text \<open>The keys of references.\<close>

definition plain_metadata :: "metadata \<Rightarrow> bool" where
  "plain_metadata m \<longleftrightarrow> (\<forall>kv \<in> set m. fst kv \<notin> {''artifact_context_ref'', ''artifact_task_ref'', ''gateway_annotations'',
     ''catsco_gateway_annotation_context'', ''app_open'', ''file_annotations'', ''file_annotations_context'', ''catsco_file_annotations_trusted''})"

definition messageRequestFromPub :: "MsgClientPub \<Rightarrow> SendMessageRequest" where
  "messageRequestFromPub msg =
     \<lparr>sm_TopicID = pb_Topic msg, sm_ClientMsgID = pb_ClientMsgID msg, sm_Content = pb_Content msg, sm_ContentBlocks = pb_ContentBlocks msg,
      sm_Metadata = pb_Metadata msg, sm_MsgType = pb_MsgType msg, sm_Type = pb_Type msg, sm_Mode = pb_Mode msg, sm_Role = pb_Role msg,
      sm_ReplyTo = pb_ReplyTo msg, sm_Mentions = pb_Mentions msg\<rparr>"

definition saved_fields :: "int \<Rightarrow> normalizedMessagePayload \<Rightarrow> message_fields" where
  "saved_fields replyTo p =
     \<lparr>mf_content = np_StoredContent p, mf_blocks = np_ContentBlocks p, mf_mode = np_Mode p, mf_role = np_Role p, mf_msgType = np_StoredType p,
      mf_replyTo = replyTo, mf_clientMsgID = np_ClientMsgID p,
      mf_metadata = metadataWithoutXiaobaRuntime (metadataWithoutArtifactContext (np_Metadata p))\<rparr>"

text \<open>The stores of both databases keep metadata; the number and whether the message was there already.\<close>

definition saveNormalizedMessage ::
  "string \<Rightarrow> uid \<Rightarrow> int \<Rightarrow> normalizedMessagePayload \<Rightarrow> save_env \<Rightarrow> message_db \<Rightarrow> message_db \<times> (int \<times> bool) option" where
  "saveNormalizedMessage topicID u replyTo p env db = SaveMessageWithMetadata topicID u (saved_fields replyTo p) env db"

definition public_metadata :: "metadata \<Rightarrow> metadata" where
  "public_metadata m = metadataWithoutXiaobaRuntime (metadataWithoutArtifactContext (metadataWithoutChannelTrust m))"

definition messageForRecipient :: "uid \<Rightarrow> string \<Rightarrow> normalizedMessagePayload \<Rightarrow> int \<Rightarrow> MsgServerData" where
  "messageForRecipient u topicID p msgID =
     \<lparr>sd_Topic = topicID, sd_From = formatUID u, sd_SeqID = msgID, sd_Type = np_DisplayType p, sd_MsgType = np_StoredType p,
      sd_Content = np_DisplayContent p, sd_Metadata = public_metadata (np_Metadata p), sd_BlockTypes = map cb_Type (np_ContentBlocks p)\<rparr>"

text \<open>What surrounds a publication.\<close>

record publish_env =
  pe_access :: access_world
  pe_report :: report_env
  pe_save :: save_env
  pe_resolver :: "JevGroupActivationResolver option"
  pe_row :: "group_row option"
  pe_working :: "uid list option"
  pe_context :: "GroupJudgeContext option"
  pe_prompt :: ActivationPrompt
  pe_now :: go_time

definition group_of :: "publish_env \<Rightarrow> int \<Rightarrow> group_world" where
  "group_of env groupID =
     \<lparr>gr_members = aw_members (pe_access env) groupID, gr_row = pe_row env, gr_managed = isChannelManagedGroup (pe_access env) groupID,
      gr_working = pe_working env, gr_accounts = aw_user (pe_access env), gr_context = pe_context env, gr_prompt = pe_prompt env\<rparr>"

definition fanout_group ::
  "publish_env \<Rightarrow> uid \<Rightarrow> int \<Rightarrow> normalizedMessagePayload \<Rightarrow> MsgServerData \<Rightarrow> client_ref option \<Rightarrow>
   ('a, 'b) Hub \<times> groupAgentTurnTracker \<Rightarrow> ('a, 'b) Hub \<times> groupAgentTurnTracker" where
  "fanout_group env u groupID p data exclude st =
     (let now = pe_now env;
          h = (if isChannelManagedGroup (pe_access env) groupID then fst st else SendToUserExcept u (DataMessage data) exclude now (fst st))
      in case broadcastToGroupWithMentions h (pe_resolver env) (group_of env groupID) groupID (Some data) u (np_Mentions p) u False now (snd st) of
           (turns, deliveries) \<Rightarrow> (fold (\<lambda>d. SendToUser (gd_uid d) (DataMessage data) now) deliveries h, turns))"

definition fanoutNormalizedMessage ::
  "publish_env \<Rightarrow> uid \<Rightarrow> string \<Rightarrow> normalizedMessagePayload \<Rightarrow> int \<Rightarrow> client_ref option \<Rightarrow>
   ('a, 'b) Hub \<times> groupAgentTurnTracker \<Rightarrow> ('a, 'b) Hub \<times> groupAgentTurnTracker" where
  "fanoutNormalizedMessage env u topicID p msgID exclude st =
     (let data = messageForRecipient u topicID p msgID; now = pe_now env
      in if isGroupTopic topicID then
           (if extractGroupID topicID = 0 then st else fanout_group env u (extractGroupID topicID) p data exclude st)
         else let peerUID = extractPeerUID topicID u
           in if peerUID = 0 then st
              else (SendToUser peerUID (DataMessage data) now (SendToUserExcept u (DataMessage data) exclude now (fst st)), snd st))"

record ('a, 'b) chat_site =
  ch_site :: "('a, 'b) task_site"
  ch_access :: access_state
  ch_cancels :: "(uid \<times> metadata) list"

definition ch_hub :: "('a, 'b) chat_site \<Rightarrow> ('a, 'b) Hub" where "ch_hub st = tk_hub (ch_site st)"

definition ch_messages :: "('a, 'b) chat_site \<Rightarrow> message_db" where "ch_messages st = tk_topics (ch_site st)"

definition with_site :: "(('a, 'b) task_site \<Rightarrow> ('a, 'b) task_site) \<Rightarrow> ('a, 'b) chat_site \<Rightarrow> ('a, 'b) chat_site" where
  "with_site f st = st\<lparr>ch_site := f (ch_site st)\<rparr>"

definition answer :: "client_ref \<Rightarrow> ServerMessage \<Rightarrow> go_time \<Rightarrow> ('a, 'b) chat_site \<Rightarrow> ('a, 'b) chat_site" where
  "answer c m now st = with_site (\<lambda>s. s\<lparr>tk_hub := SendToClient (Some c) m now (tk_hub s)\<rparr>) st"

definition fan_out ::
  "publish_env \<Rightarrow> client_ref \<Rightarrow> uid \<Rightarrow> string \<Rightarrow> normalizedMessagePayload \<Rightarrow> int \<Rightarrow> ('a, 'b) chat_site \<Rightarrow> ('a, 'b) chat_site" where
  "fan_out env c u topicID p msgID st =
     with_site (\<lambda>s. case fanoutNormalizedMessage env u topicID p msgID (Some c) (tk_hub s, tk_turns s) of
         (h, turns) \<Rightarrow> s\<lparr>tk_hub := h, tk_turns := turns\<rparr>) st"

definition publishAck :: "string \<Rightarrow> int \<Rightarrow> bool \<Rightarrow> string \<Rightarrow> ServerMessage" where
  "publishAck i msgID duplicate clientMsgID =
     CtrlMessage i 200 ''ok'' [(''seq'', JNum msgID), (''duplicate'', JBool duplicate), (''client_msg_id'', JStr clientMsgID)]"

text \<open>The part both kinds of topic have in common: transient messages, reports, and messages to be kept.\<close>

definition publish_payload ::
  "publish_env \<Rightarrow> client_ref \<Rightarrow> MsgClientPub \<Rightarrow> normalizedMessagePayload \<Rightarrow> ('a, 'b) chat_site \<Rightarrow> ('a, 'b) chat_site" where
  "publish_payload env c msg p st =
     (let u = wc_uid (hub_client (ch_hub st) c); topic = pb_Topic msg; i = pb_ID msg; now = pe_now env
      in if isTransientRuntimePayload p then
           fan_out env c u topic p 0 (answer c (CtrlMessage i 200 ''ok'' [(''seq'', JNum 0)]) now st)
         else if isTaskStatusPayload p then with_site (handleTaskStatusPub (pe_report env) c i topic p) st
         else case saveNormalizedMessage topic u (pb_ReplyTo msg) p (pe_save env) (ch_messages st) of
           (db, None) \<Rightarrow> answer c (CtrlMessage i 500 ''save failed'' []) now (with_site (\<lambda>s. s\<lparr>tk_topics := db\<rparr>) st)
         | (db, Some (msgID, duplicate)) \<Rightarrow>
             let st = answer c (publishAck i msgID duplicate (np_ClientMsgID p)) now (with_site (\<lambda>s. s\<lparr>tk_topics := db\<rparr>) st)
             in if duplicate then st else fan_out env c u topic p msgID st)"

definition handleGroupPub ::
  "publish_env \<Rightarrow> client_ref \<Rightarrow> MsgClientPub \<Rightarrow> normalizedMessagePayload \<Rightarrow> ('a, 'b) chat_site \<Rightarrow> ('a, 'b) chat_site" where
  "handleGroupPub env c msg p st =
     (let u = wc_uid (hub_client (ch_hub st) c); groupID = extractGroupID (pb_Topic msg); i = pb_ID msg; w = pe_access env;
          refuse = (\<lambda>e. answer c (CtrlMessage i (fst e) (snd e) []) (pe_now env) st)
      in if groupID = 0 then refuse (400, ''invalid group topic'')
         else if aw_isMember w groupID u \<noteq> Some True then refuse (403, ''not a group member'')
         else if aw_isMuted w groupID u then refuse (403, ''you are muted in this group'')
         else publish_payload env c msg p st)"

definition publish_p2p ::
  "publish_env \<Rightarrow> client_ref \<Rightarrow> MsgClientPub \<Rightarrow> normalizedMessagePayload \<Rightarrow> ('a, 'b) chat_site \<Rightarrow> ('a, 'b) chat_site" where
  "publish_p2p env c msg p st =
     (let u = wc_uid (hub_client (ch_hub st) c)
      in publish_payload env c msg p
           (with_site (\<lambda>s. s\<lparr>tk_topics := fst (CreateTopic (pb_Topic msg) ''p2p'' u (aw_createTopic (pe_access env)) (tk_topics s))\<rparr>) st))"

text \<open>Everything after the limit. The limit of bots is counted here also.\<close>

definition publish_message ::
  "publish_env \<Rightarrow> client_ref \<Rightarrow> MsgClientPub \<Rightarrow> ('a, 'b) chat_site \<Rightarrow> ('a, 'b) chat_site option" where
  "publish_message env c msg st =
     (let v = hub_client (ch_hub st) c; i = pb_ID msg; now = pe_now env
      in case normalizeMessageRequest (messageRequestFromPub msg) of
           Inl e \<Rightarrow> Some (answer c (CtrlMessage i 400 e []) now st)
         | Inr p \<Rightarrow>
             (case validateMessagePublish (ch_hub st) (pe_access env) (wc_uid v) (wc_accountType v) (pb_Topic msg) False now (ch_access st) of
                None \<Rightarrow> None
              | Some (ax, Some e) \<Rightarrow> Some (answer c (CtrlMessage i (fst e) (snd e) []) now (st\<lparr>ch_access := ax\<rparr>))
              | Some (ax, None) \<Rightarrow>
                  if \<not> plain_metadata (np_Metadata p) then None
                  else let p = p\<lparr>np_Metadata := metadataWithoutArtifactContext (np_Metadata p)\<rparr>; st = st\<lparr>ch_access := ax\<rparr>
                       in Some (if isGroupTopic (pb_Topic msg) then handleGroupPub env c msg p st else publish_p2p env c msg p st)))"

text \<open>No result when the limiter panics, or the message carries a reference.\<close>

definition handlePub :: "publish_env \<Rightarrow> client_ref \<Rightarrow> MsgClientPub \<Rightarrow> ('a, 'b) chat_site \<Rightarrow> ('a, 'b) chat_site option" where
  "handlePub env c msg st =
     (let v = hub_client (ch_hub st) c; s = ch_site st; now = pe_now env
      in if isStreamPub msg then
           (case handleStreamPub (pe_access env) c msg now (tk_hub s, ch_access st, tk_turns s, tk_topics s) of
              ((h, ax, turns, mdb), sends) \<Rightarrow>
                Some (st\<lparr>ch_site := s\<lparr>tk_hub := h, tk_turns := turns, tk_topics := mdb\<rparr>, ch_access := ax, ch_cancels := ch_cancels st @ sends\<rparr>))
         else case rate_allows (wc_uid v) (wc_accountType v) now (ch_access st) of
           None \<Rightarrow> None
         | Some (ax, False) \<Rightarrow> Some (answer c (CtrlMessage (pb_ID msg) 429 ''rate limit exceeded'' []) now (st\<lparr>ch_access := ax\<rparr>))
         | Some (ax, True) \<Rightarrow> publish_message env c msg (st\<lparr>ch_access := ax\<rparr>))"

end
