(* ===== verification/PublishingSafety.thy ===== *)
theory PublishingSafety
  imports Publishing
begin

text \<open>
  What publishing guarantees: who hears of a message, that a new one is stored and delivered as it was stored, and that one
  that is sent again is neither stored nor delivered again.
\<close>

section \<open>Sites\<close>

lemma site_frame [simp]:
  "ch_access (with_site f st) = ch_access st" "ch_cancels (with_site f st) = ch_cancels st" "ch_site (with_site f st) = f (ch_site st)"
  "ch_hub (with_site f st) = tk_hub (f (ch_site st))" "ch_messages (with_site f st) = tk_topics (f (ch_site st))"
  "ch_site (st\<lparr>ch_access := ax\<rparr>) = ch_site st" "ch_hub (st\<lparr>ch_access := ax\<rparr>) = ch_hub st" "ch_messages (st\<lparr>ch_access := ax\<rparr>) = ch_messages st"
  by (simp_all add: with_site_def ch_hub_def ch_messages_def)

lemma answer_frame [simp]:
  "ch_messages (answer c m now st) = ch_messages st" "ch_hub (answer c m now st) = SendToClient (Some c) m now (ch_hub st)"
  "tk_turns (ch_site (answer c m now st)) = tk_turns (ch_site st)"
  by (simp_all add: answer_def ch_hub_def ch_messages_def with_site_def)

lemma fan_out_hub:
  "ch_hub (fan_out env c u t p i st) = fst (fanoutNormalizedMessage env u t p i (Some c) (ch_hub st, tk_turns (ch_site st)))"
  "ch_messages (fan_out env c u t p i st) = ch_messages st"
  by (simp_all add: fan_out_def ch_hub_def ch_messages_def with_site_def split: prod.split)

lemma report_hub:
  "(\<exists>m. tk_hub (handleTaskStatusPub env c i t p s) = SendToClient (Some c) m (re_now env) (tk_hub s))"
proof -
  obtain mdb tdb r where q: "persistConversationTaskStatus env (wc_uid (hub_client (tk_hub s) c)) t p (tk_topics s, tk_ledger s) = ((mdb, tdb), r)"
    by (metis surj_pair)
  show ?thesis
    by (auto simp: handleTaskStatusPub_def Let_def q committed_report_def publishCommittedTaskStatus_def send_ctrl_def split: sum.split)
qed

section \<open>Who hears\<close>

text \<open>Whom a message of \<open>u\<close> in a topic is for.\<close>

definition message_audience :: "access_world \<Rightarrow> string \<Rightarrow> uid \<Rightarrow> uid set" where
  "message_audience w topic u =
     (if isGroupTopic topic then insert u (case aw_members w (extractGroupID topic) of None \<Rightarrow> {} | Some ms \<Rightarrow> me_UserID ` set ms)
      else {u, extractPeerUID topic u})"

lemma deliveries_members:
  "gd_uid ` set (snd (fold (deliver_member h w g msg ex s sb act now) ms (t, ds))) \<subseteq> gd_uid ` set ds \<union> me_UserID ` set ms"
proof (induction ms arbitrary: t ds)
  case (Cons m ms)
  obtain t' ds' where d: "deliver_member h w g msg ex s sb act now m (t, ds) = (t', ds')" by fastforce
  then have "gd_uid ` set ds' \<subseteq> insert (me_UserID m) (gd_uid ` set ds)"
    by (auto simp: deliver_member_def Let_def split: if_splits)
  with Cons.IH [of t' ds'] show ?case by (auto simp: d)
qed simp

lemma broadcast_members:
  "gd_uid ` set (snd (broadcastToGroupWithMentions h r w g msg ex ms s trusted now t)) \<subseteq>
   (case gr_members w of None \<Rightarrow> {} | Some xs \<Rightarrow> me_UserID ` set xs)"
proof (cases "gr_members w")
  case (Some xs)
  obtain t' decision call where r: "resolveGroupActivation r w g xs msg ms s (isBotUser (gr_accounts w) s h) trusted now t = (t', decision, call)"
    by (metis surj_pair)
  from deliveries_members [of h w g msg ex s "isBotUser (gr_accounts w) s h" "ad_Activated decision" now xs t' "[]"]
  show ?thesis by (simp add: broadcastToGroupWithMentions_def Some Let_def r)
qed (simp add: broadcastToGroupWithMentions_def)

lemma fanout_hears: "only_hear (message_audience (pe_access env) t u) c (fst st) (fst (fanoutNormalizedMessage env u t p i ex st))"
proof (cases "isGroupTopic t")
  case False
  have "only_hear (message_audience (pe_access env) t u) c h (SendToUserExcept v m x now h)" if "v \<in> {u, extractPeerUID t u}" for v m x now and h :: "('a, 'b) Hub"
    using that False user_hears [of v c h m x now] by (auto simp: message_audience_def intro: only_hear_mono)
  note hears = this
  have "only_hear (message_audience (pe_access env) t u) c h
      (SendToUserExcept (extractPeerUID t u) m None now (SendToUserExcept u m ex now h))" for m now and h :: "('a, 'b) Hub"
    by (rule only_hear_trans [OF hears hears]) simp_all
  with False show ?thesis by (simp add: fanoutNormalizedMessage_def Let_def SendToUser_def only_hear_refl)
next
  case True
  let ?w = "pe_access env" and ?g = "extractGroupID t" and ?d = "messageForRecipient u t p i"
  let ?h = "if isChannelManagedGroup ?w ?g then fst st else SendToUserExcept u (DataMessage ?d) ex (pe_now env) (fst st)"
  have own: "only_hear (message_audience ?w t u) c (fst st) ?h"
    using True user_hears [of u c "fst st" "DataMessage ?d" ex "pe_now env"]
    by (auto simp: message_audience_def intro: only_hear_mono only_hear_refl)
  obtain turns ds where b: "broadcastToGroupWithMentions ?h (pe_resolver env) (group_of env ?g) ?g (Some ?d) u (np_Mentions p) u False (pe_now env) (snd st) = (turns, ds)"
    by fastforce
  have "gd_uid ` set ds \<subseteq> message_audience ?w t u"
    using broadcast_members [of ?h "pe_resolver env" "group_of env ?g" ?g "Some ?d" u "np_Mentions p" u False "pe_now env" "snd st"] True
    unfolding b by (auto simp: group_of_def message_audience_def)
  then have "only_hear (message_audience ?w t u) c k (SendToUser (gd_uid d) (DataMessage ?d) (pe_now env) k)" if "d \<in> set ds" for d and k :: "('a, 'b) Hub"
    using that user_hears [of "gd_uid d" c k "DataMessage ?d" None "pe_now env"]
    by (auto simp: SendToUser_def intro: only_hear_mono)
  then have "only_hear (message_audience ?w t u) c ?h (fold (\<lambda>d. SendToUser (gd_uid d) (DataMessage ?d) (pe_now env)) ds ?h)"
    by (rule only_hear_fold)
  with own have "only_hear (message_audience ?w t u) c (fst st) (fold (\<lambda>d. SendToUser (gd_uid d) (DataMessage ?d) (pe_now env)) ds ?h)"
    by (rule only_hear_trans)
  then show ?thesis
    using True b by (simp add: fanoutNormalizedMessage_def fanout_group_def Let_def only_hear_refl)
qed

lemma payload_hears:
  fixes env c msg p st
  defines "u \<equiv> wc_uid (hub_client (ch_hub st) c)"
  shows "only_hear (message_audience (pe_access env) (pb_Topic msg) u) (Some c) (ch_hub st) (ch_hub (publish_payload env c msg p st))"
proof -
  have f: "only_hear (message_audience (pe_access env) (pb_Topic msg) u) (Some c) (ch_hub st) (ch_hub (fan_out env c u (pb_Topic msg) p i (answer c m now st')))"
    if "ch_hub st' = ch_hub st" for i m now and st' :: "('a, 'b) chat_site"
    unfolding fan_out_hub answer_frame(2) that
    by (rule only_hear_trans [OF client_hears]) (use fanout_hears [of env "pb_Topic msg" u "Some c" "(SendToClient (Some c) m now (ch_hub st), _)"] in simp)
  have a: "only_hear us (Some c) (ch_hub st) (ch_hub (answer c m now st'))" if "ch_hub st' = ch_hub st" for us m now and st' :: "('a, 'b) chat_site"
    by (simp add: that client_hears)
  have s: "ch_hub (with_site (\<lambda>s. s\<lparr>tk_topics := db\<rparr>) st) = ch_hub st" for db by (simp add: ch_hub_def)
  have t: "only_hear us (Some c) (ch_hub st) (ch_hub (with_site (handleTaskStatusPub (pe_report env) c i t p) st))" for us i t
    using report_hub [of "pe_report env" c i t p "ch_site st"] by (auto simp: ch_hub_def intro: client_hears)
  show ?thesis
    unfolding publish_payload_def Let_def u_def [symmetric]
    using f [OF s] f [OF refl] a [OF s] t by (auto simp: split: prod.split option.split)
qed

lemma site_hub_same: "ch_hub (with_site (\<lambda>s. s\<lparr>tk_topics := x s\<rparr>) st) = ch_hub st"
  by (simp add: ch_hub_def)

lemma message_cases:
  fixes env c msg st
  defines "u \<equiv> wc_uid (hub_client (ch_hub st) c)" and "a \<equiv> wc_accountType (hub_client (ch_hub st) c)"
  assumes "publish_message env c msg st = Some st'"
  shows "only_hear {} (Some c) (ch_hub st) (ch_hub st') \<or>
    (validateTopicReadAccess (pe_access env) u a (pb_Topic msg) = None \<and>
     \<not> (isGroupTopic (pb_Topic msg) \<and> aw_isMuted (pe_access env) (extractGroupID (pb_Topic msg)) u) \<and>
     only_hear (message_audience (pe_access env) (pb_Topic msg) u) (Some c) (ch_hub st) (ch_hub st'))"
proof (cases "normalizeMessageRequest (messageRequestFromPub msg)")
  case (Inl e)
  with assms(3) show ?thesis by (auto simp: publish_message_def Let_def client_hears)
next
  case (Inr p)
  let ?v = "validateMessagePublish (ch_hub st) (pe_access env) u a (pb_Topic msg) False (pe_now env) (ch_access st)"
  show ?thesis
  proof (cases "\<exists>ax. ?v = Some (ax, None)")
    case True
    then obtain ax where v: "?v = Some (ax, None)" by blast
    then have "publish_access (ch_hub st) (pe_access env) u a (pb_Topic msg) (pe_now env) (ch_access st) = (ax, None)"
      by (auto simp: validateMessagePublish_def split: option.splits)
    from publish_is_read [OF this]
    have r: "validateTopicReadAccess (pe_access env) u a (pb_Topic msg) = None"
      "\<not> (isGroupTopic (pb_Topic msg) \<and> aw_isMuted (pe_access env) (extractGroupID (pb_Topic msg)) u)" by simp_all
    let ?p = "p\<lparr>np_Metadata := metadataWithoutArtifactContext (np_Metadata p)\<rparr>" and ?st = "st\<lparr>ch_access := ax\<rparr>"
    have s: "st' = (if isGroupTopic (pb_Topic msg) then handleGroupPub env c msg ?p ?st else publish_p2p env c msg ?p ?st)"
      using assms(3) Inr v by (auto simp: publish_message_def Let_def u_def a_def split: if_splits)
    have "only_hear (message_audience (pe_access env) (pb_Topic msg) u) (Some c) (ch_hub st) (ch_hub st')"
    proof (cases "isGroupTopic (pb_Topic msg)")
      case True
      with payload_hears [of env msg ?st c ?p] s show ?thesis
        by (auto simp: handleGroupPub_def Let_def u_def intro: client_hears)
    next
      case False
      with payload_hears [of env msg "with_site (\<lambda>s. s\<lparr>tk_topics := fst (CreateTopic (pb_Topic msg) ''p2p'' u (aw_createTopic (pe_access env)) (tk_topics s))\<rparr>) ?st" c ?p] s
      show ?thesis by (simp add: publish_p2p_def Let_def u_def ch_hub_def)
    qed
    with r show ?thesis by simp
  next
    case False
    with assms(3) Inr show ?thesis
      by (auto simp: publish_message_def Let_def u_def a_def client_hears split: option.splits prod.splits)
  qed
qed

text \<open>
  C24: a message goes to its topic and nowhere else: a connection other than the author's is sent something only if the
  author may read the topic and is not muted there, and if the connection belongs to a member of the group or to one of
  the two sides of a one-to-one topic. A device connector is never sent a message.
\<close>

theorem message_stays_in_topic:
  assumes "hub_ok (ch_hub st)" and "handlePub env c msg st = Some st'" and "\<not> isStreamPub msg" and "e \<noteq> c"
    and "wc_send (hub_client (ch_hub st') e) \<noteq> wc_send (hub_client (ch_hub st) e)"
  shows "wc_deviceConnector (hub_client (ch_hub st) e) = None \<and>
    wc_uid (hub_client (ch_hub st) e) \<in> message_audience (pe_access env) (pb_Topic msg) (wc_uid (hub_client (ch_hub st) c)) \<and>
    validateTopicReadAccess (pe_access env) (wc_uid (hub_client (ch_hub st) c)) (wc_accountType (hub_client (ch_hub st) c)) (pb_Topic msg) = None \<and>
    \<not> (isGroupTopic (pb_Topic msg) \<and> aw_isMuted (pe_access env) (extractGroupID (pb_Topic msg)) (wc_uid (hub_client (ch_hub st) c)))"
proof -
  let ?u = "wc_uid (hub_client (ch_hub st) c)" and ?h = "ch_hub st" and ?h' = "ch_hub st'"
  from assms(5) have m: "mailbox e ?h' \<noteq> mailbox e ?h" by (auto simp: mailbox_def Let_def)
  with assms(4) have not: "\<not> only_hear {} (Some c) ?h ?h'" by (auto simp: only_hear_def)
  obtain ax ok where r: "rate_allows ?u (wc_accountType (hub_client ?h c)) (pe_now env) (ch_access st) = Some (ax, ok)"
    using assms(2,3) by (auto simp: handlePub_def Let_def split: option.splits)
  with assms(2,3) not have "publish_message env c msg (st\<lparr>ch_access := ax\<rparr>) = Some st'"
    by (cases ok) (auto simp: handlePub_def Let_def client_hears)
  from message_cases [OF this] not
  have f: "validateTopicReadAccess (pe_access env) ?u (wc_accountType (hub_client ?h c)) (pb_Topic msg) = None"
    "\<not> (isGroupTopic (pb_Topic msg) \<and> aw_isMuted (pe_access env) (extractGroupID (pb_Topic msg)) ?u)"
    "only_hear (message_audience (pe_access env) (pb_Topic msg) ?u) (Some c) ?h ?h'" by simp_all
  from f(3) m assms(4) obtain u where "u \<in> message_audience (pe_access env) (pb_Topic msg) ?u" "e \<in> set (hub_clients_of u ?h)"
    "wc_deviceConnector (hub_client ?h e) = None" unfolding only_hear_def by blast
  moreover from this(2) assms(1) have "wc_uid (hub_client ?h e) = u" by (simp add: hub_ok_def index_ok_def)
  ultimately show ?thesis using f(1,2) by simp
qed

section \<open>A message that is sent again\<close>

lemma client_message_found:
  assumes "m \<in> set (md_messages db)" and "has_key t u k m"
  shows "\<exists>m' \<in> set (md_messages db). has_key t u k m' \<and> client_message t u k db = Some (mg_ID m')"
proof -
  have "m \<in> set (keyed t u k db)" using assms by (simp add: keyed_def)
  then obtain m' ms where "keyed t u k db = m' # ms" by (cases "keyed t u k db") auto
  then have "m' \<in> set (keyed t u k db)" "client_message t u k db = Some (mg_ID m')" by (simp_all add: client_message_keyed)
  then show ?thesis by (auto simp: keyed_def)
qed

text \<open>
  C17: a message that is sent again is not delivered again: when the author's client sends a message with an id the topic
  already has a message of the author for, nothing is stored, nobody but the author's connection is sent anything, and no
  bot gets a turn. If the message is confirmed, then with the number of the message that is stored.
\<close>

theorem resent_message_not_delivered:
  assumes "handlePub env c msg st = Some st'" and "\<not> isStreamPub msg" and "normalizeMessageRequest (messageRequestFromPub msg) = Inr p"
    and "\<not> isTransientRuntimePayload p" and "\<not> isTaskStatusPayload p" and "np_ClientMsgID p \<noteq> []"
    and "m \<in> set (md_messages (ch_messages st))"
    and "has_key (pb_Topic msg) (wc_uid (hub_client (ch_hub st) c)) (np_ClientMsgID p) m"
  shows "md_messages (ch_messages st') = md_messages (ch_messages st) \<and> tk_turns (ch_site st') = tk_turns (ch_site st) \<and>
    (\<exists>reply. ch_hub st' = SendToClient (Some c) reply (pe_now env) (ch_hub st) \<and>
       (\<forall>params. reply = CtrlMessage (pb_ID msg) 200 ''ok'' params \<longrightarrow>
          (\<exists>m' \<in> set (md_messages (ch_messages st)). has_key (pb_Topic msg) (wc_uid (hub_client (ch_hub st) c)) (np_ClientMsgID p) m' \<and>
             params = [(''seq'', JNum (mg_ID m')), (''duplicate'', JBool True), (''client_msg_id'', JStr (np_ClientMsgID p))])))"
    (is "?same st' \<and> ?turns st' \<and> (\<exists>reply. ?sent st' reply \<and> ?right reply)")
proof -
  let ?u = "wc_uid (hub_client (ch_hub st) c)" and ?t = "pb_Topic msg" and ?k = "np_ClientMsgID p" and ?i = "pb_ID msg"
  let ?good = "\<lambda>st'. ?same st' \<and> ?turns st' \<and> (\<exists>reply. ?sent st' reply \<and> ?right reply)"
  have refuse: "?good (answer c (CtrlMessage ?i code words []) (pe_now env) st1)"
    if "ch_site st1 = ch_site st" "code \<noteq> 200" for st1 code words
    using that by (auto simp: ch_hub_def ch_messages_def answer_def with_site_def)
  have found: "\<exists>m' \<in> set (md_messages db). has_key ?t ?u ?k m' \<and> client_message ?t ?u ?k db = Some (mg_ID m')"
    if "md_messages db = md_messages (ch_messages st)" for db
    using client_message_found [of m db ?t ?u ?k] assms(7,8) that by simp
  have payload: "?good (publish_payload env c msg (p\<lparr>np_Metadata := md\<rparr>) st1)"
    if s: "md_messages (ch_messages st1) = md_messages (ch_messages st)" "ch_hub st1 = ch_hub st" "tk_turns (ch_site st1) = tk_turns (ch_site st)"
    for st1 md
  proof -
    let ?p = "p\<lparr>np_Metadata := md\<rparr>"
    have kind: "\<not> isTransientRuntimePayload ?p" "\<not> isTaskStatusPayload ?p"
      using assms(4,5) by (simp_all add: isTransientRuntimePayload_def isTaskStatusPayload_def)
    obtain m' where m': "m' \<in> set (md_messages (ch_messages st))" "has_key ?t ?u ?k m'" "client_message ?t ?u ?k (ch_messages st1) = Some (mg_ID m')"
      using found [OF s(1)] s(1) by auto
    have k: "mf_clientMsgID (saved_fields (pb_ReplyTo msg) ?p) = ?k" by (simp add: saved_fields_def)
    have "saveNormalizedMessage ?t ?u (pb_ReplyTo msg) ?p (pe_save env) (ch_messages st1) \<in>
        {(ch_messages st1, None), (ch_messages st1, Some (mg_ID m', True))}"
      using assms(6) m'(3) unfolding saveNormalizedMessage_def SaveMessageWithMetadata_def k Let_def by simp
    with kind s m'(1,2) show ?thesis
      by (auto simp: publish_payload_def Let_def publishAck_def ch_hub_def ch_messages_def answer_def with_site_def)
  qed
  obtain ax ok where r: "rate_allows ?u (wc_accountType (hub_client (ch_hub st) c)) (pe_now env) (ch_access st) = Some (ax, ok)"
    using assms(1,2) by (auto simp: handlePub_def Let_def split: option.splits)
  show ?thesis
  proof (cases ok)
    case False
    with r assms(1,2) refuse [of "st\<lparr>ch_access := ax\<rparr>" 429 "''rate limit exceeded''"] show ?thesis by (auto simp: handlePub_def Let_def)
  next
    case True
    with r assms(1,2) have "publish_message env c msg (st\<lparr>ch_access := ax\<rparr>) = Some st'" by (auto simp: handlePub_def Let_def)
    then obtain ax2 e where v: "validateMessagePublish (ch_hub st) (pe_access env) ?u (wc_accountType (hub_client (ch_hub st) c)) ?t False (pe_now env) ax = Some (ax2, e)"
      and st': "st' = (case e of Some x \<Rightarrow> answer c (CtrlMessage ?i (fst x) (snd x) []) (pe_now env) (st\<lparr>ch_access := ax2\<rparr>)
        | None \<Rightarrow> let q = p\<lparr>np_Metadata := metadataWithoutArtifactContext (np_Metadata p)\<rparr>; s = st\<lparr>ch_access := ax2\<rparr>
                  in if isGroupTopic ?t then handleGroupPub env c msg q s else publish_p2p env c msg q s)"
      using assms(3) by (auto simp: publish_message_def Let_def split: option.splits if_splits)
    show ?thesis
    proof (cases e)
      case (Some x)
      have "fst x \<noteq> 200"
        using v Some by (auto simp: validateMessagePublish_def publish_access_def sessionForkPublishError_def validateAgentP2PMessageAccess_def
            accessibleAgentUser_def Let_def split: option.splits if_splits fork_state.splits prod.splits sum.splits)
      with refuse [of "st\<lparr>ch_access := ax2\<rparr>"] Some st' show ?thesis by simp
    next
      case None
      let ?q = "p\<lparr>np_Metadata := metadataWithoutArtifactContext (np_Metadata p)\<rparr>" and ?s = "st\<lparr>ch_access := ax2\<rparr>"
      show ?thesis
      proof (cases "isGroupTopic ?t")
        case True
        with None st' payload [of ?s] refuse [of ?s] show ?thesis by (simp add: handleGroupPub_def Let_def)
      next
        case False
        have "md_messages (fst (CreateTopic ?t ''p2p'' ?u w db)) = md_messages db" for w db by (simp add: CreateTopic_def)
        with False None st' payload show ?thesis by (simp add: publish_p2p_def Let_def ch_hub_def ch_messages_def)
      qed
    qed
  qed
qed

section \<open>What is delivered is stored\<close>

text \<open>From one state to another nothing but copies of a message was put into queues.\<close>

definition only_sends :: "ServerMessage \<Rightarrow> ('a, 'b) Hub \<Rightarrow> ('a, 'b) Hub \<Rightarrow> bool" where
  "only_sends m h h' \<longleftrightarrow> (\<forall>e. \<exists>n. wc_send (hub_client h' e) = wc_send (hub_client h e) @ replicate n m)"

lemma only_sends_refl: "only_sends m h h"
  unfolding only_sends_def by (metis append_Nil2 replicate_0)

lemma only_sends_trans: "only_sends m h h1 \<Longrightarrow> only_sends m h1 h2 \<Longrightarrow> only_sends m h h2"
  unfolding only_sends_def by (metis append.assoc replicate_add)

lemma only_sends_fold: "(\<And>x h. only_sends m h (f x h)) \<Longrightarrow> only_sends m h (fold f xs h)"
  by (induction xs arbitrary: h) (auto intro: only_sends_trans only_sends_refl)

lemma send_disconnect: "wc_send (hub_client (disconnectClient c now h) e) = wc_send (hub_client h e)"
  using mailbox_disconnect [of e c now h] by (simp add: mailbox_def Let_def)

lemma raw_send:
  "wc_send (hub_client (fst (sendRawToClient c m now h)) e) =
     wc_send (hub_client h e) @ (if e = c \<and> \<not> wc_sendClosed (hub_client h c) \<and> length (wc_send (hub_client h c)) < wc_sendCapacity (hub_client h c) then [m] else [])"
  by (simp add: sendRawToClient_def Let_def send_disconnect hub_simps)

lemma raw_only_sends: "only_sends m h (fst (sendRawToClient c m now h))"
  unfolding only_sends_def raw_send
proof
  fix e
  show "\<exists>n. wc_send (hub_client h e) @ (if e = c \<and> \<not> wc_sendClosed (hub_client h c) \<and> length (wc_send (hub_client h c)) < wc_sendCapacity (hub_client h c)
      then [m] else []) = wc_send (hub_client h e) @ replicate n m"
    by (intro exI [of _ "if e = c \<and> \<not> wc_sendClosed (hub_client h c) \<and> length (wc_send (hub_client h c)) < wc_sendCapacity (hub_client h c) then 1 else 0"]) simp
qed

lemma user_only_sends: "only_sends m h (SendToUserExcept u m ex now h)"
proof -
  let ?step = "\<lambda>e (h, delivered). if Some e = ex \<or> wc_deviceConnector (hub_client h e) \<noteq> None then (h, delivered :: nat)
      else case sendRawToClient e m now h of (h, ok) \<Rightarrow> (h, if ok then delivered + 1 else delivered)"
  have "only_sends m k (fst (fold ?step es (k, n)))" for es n and k :: "('a, 'b) Hub"
  proof (induction es arbitrary: k n)
    case (Cons e es)
    obtain k' n' where k': "?step e (k, n) = (k', n')" by (meson surj_pair)
    have "only_sends m k k'"
      using k' raw_only_sends [of m k e now] only_sends_refl [of m k] by (auto split: if_splits prod.splits)
    from only_sends_trans [OF this Cons.IH] show ?case by (simp only: fold_Cons comp_apply k')
  qed (simp add: only_sends_refl)
  then show ?thesis unfolding SendToUserExcept_def sendToUserExceptConfirmed_def by blast
qed

lemma fanout_only_sends:
  fixes st :: "('a, 'b) Hub \<times> groupAgentTurnTracker"
  shows "only_sends (DataMessage (messageForRecipient u t p i)) (fst st) (fst (fanoutNormalizedMessage env u t p i ex st))"
proof -
  let ?m = "DataMessage (messageForRecipient u t p i)" and ?now = "pe_now env"
  have user: "only_sends ?m h (SendToUser v ?m ?now h)" for v and h :: "('a, 'b) Hub" by (simp add: SendToUser_def user_only_sends)
  have members: "only_sends ?m (fst st) (fold (\<lambda>d. SendToUser (gd_uid d) ?m ?now) ds h)" if "only_sends ?m (fst st) h" for ds h
    by (rule only_sends_trans [OF that only_sends_fold]) (rule user)
  have peer: "only_sends ?m (fst st) (SendToUser v ?m ?now (SendToUserExcept u ?m ex ?now (fst st)))" for v
    by (rule only_sends_trans [OF user_only_sends user])
  show ?thesis
  proof (cases "isGroupTopic t \<and> extractGroupID t \<noteq> 0")
    case True
    let ?h = "if isChannelManagedGroup (pe_access env) (extractGroupID t) then fst st else SendToUserExcept u ?m ex ?now (fst st)"
    obtain turns ds where b: "broadcastToGroupWithMentions ?h (pe_resolver env) (group_of env (extractGroupID t)) (extractGroupID t)
        (Some (messageForRecipient u t p i)) u (np_Mentions p) u False ?now (snd st) = (turns, ds)" by fastforce
    have "only_sends ?m (fst st) ?h" by (simp add: only_sends_refl user_only_sends)
    from members [OF this, of ds] b True show ?thesis by (simp add: fanoutNormalizedMessage_def fanout_group_def Let_def)
  next
    case False
    then show ?thesis by (auto simp: fanoutNormalizedMessage_def Let_def only_sends_refl peer)
  qed
qed

text \<open>A message that was saved as a new one is in the table.\<close>

lemma inserted_keeps_row: "m \<in> set (md_messages db) \<Longrightarrow> m \<in> set (md_messages (inserted ms db))"
  unfolding inserted_def
proof (induction ms arbitrary: db)
  case (Cons x ms)
  have "m \<in> set (md_messages (fst (insert_message (fst x) (snd x) db)))"
    by (rule insert_cases [of "fst x" "snd x" db]) (use Cons.prems in simp_all)
  with Cons.IH show ?case by (simp add: case_prod_beta)
qed simp

lemma insert_new: "insert_message m works db = (db', Some i) \<Longrightarrow> m\<lparr>mg_ID := i\<rparr> \<in> set (md_messages db')"
  by (rule insert_cases [of m works db]) simp_all

lemma saved_row:
  assumes "saveNormalizedMessage t u r p env db = (db', Some (i, False))"
  shows "(normalized_row t u (saved_fields r p) (sv_now env))\<lparr>mg_ID := i\<rparr> \<in> set (md_messages db')"
proof -
  let ?f = "saved_fields r p" and ?save = "saveMessageNormalized t u (saved_fields r p) (sv_now env) (sv_insert env)"
  have "\<exists>d. ?save d = (db', Some i)"
    using assms unfolding saveNormalizedMessage_def SaveMessageWithMetadata_def Let_def
    by (auto split: if_splits option.splits prod.splits)
  then show ?thesis by (auto simp: saveMessageNormalized_def dest: insert_new)
qed

text \<open>What a publication that is not transient and no report comes to.\<close>

datatype publication = Refused | Confirmed normalizedMessagePayload int

definition publication_of ::
  "publish_env \<Rightarrow> client_ref \<Rightarrow> MsgClientPub \<Rightarrow> publication \<Rightarrow> ('a, 'b) chat_site \<Rightarrow> ('a, 'b) chat_site \<Rightarrow> bool" where
  "publication_of env c msg x st st' \<longleftrightarrow>
     (let u = wc_uid (hub_client (ch_hub st) c); t = pb_Topic msg
      in case x of
           Refused \<Rightarrow> (\<exists>reply. ch_hub st' = SendToClient (Some c) reply (pe_now env) (ch_hub st) \<and> (\<forall>j k. reply \<noteq> publishAck (pb_ID msg) j False k))
         | Confirmed q j \<Rightarrow>
             (\<exists>db. saveNormalizedMessage t u (pb_ReplyTo msg) q (pe_save env) db = (ch_messages st', Some (j, False))) \<and>
             ch_hub st' = fst (fanoutNormalizedMessage env u t q j (Some c)
               (SendToClient (Some c) (publishAck (pb_ID msg) j False (np_ClientMsgID q)) (pe_now env) (ch_hub st), tk_turns (ch_site st))))"

lemma payload_publication:
  assumes "\<not> isTransientRuntimePayload q" and "\<not> isTaskStatusPayload q" and "ch_hub st1 = ch_hub st" and "tk_turns (ch_site st1) = tk_turns (ch_site st)"
  shows "\<exists>x. publication_of env c msg x st (publish_payload env c msg q st1) \<and> (\<forall>q' j. x = Confirmed q' j \<longrightarrow> q' = q)"
proof -
  let ?u = "wc_uid (hub_client (ch_hub st) c)"
  obtain db r where s: "saveNormalizedMessage (pb_Topic msg) ?u (pb_ReplyTo msg) q (pe_save env) (ch_messages st1) = (db, r)" by fastforce
  have topics: "ch_hub (with_site (\<lambda>s. s\<lparr>tk_topics := db\<rparr>) st1) = ch_hub st" "ch_messages (with_site (\<lambda>s. s\<lparr>tk_topics := db\<rparr>) st1) = db"
    using assms(3) by (simp_all add: ch_hub_def)
  show ?thesis
  proof (cases "\<exists>j. r = Some (j, False)")
    case True
    then obtain j where j: "r = Some (j, False)" by blast
    have "publication_of env c msg (Confirmed q j) st (publish_payload env c msg q st1)"
      using assms s j topics
      by (auto simp: publication_of_def publish_payload_def Let_def fan_out_hub)
    then show ?thesis by blast
  next
    case False
    have "publication_of env c msg Refused st (publish_payload env c msg q st1)"
      using assms s False topics
      by (auto simp: publication_of_def publish_payload_def Let_def publishAck_def split: option.split)
    then show ?thesis by blast
  qed
qed

lemma refusal_publication:
  "ch_hub st1 = ch_hub st \<Longrightarrow> code \<noteq> 200 \<Longrightarrow> publication_of env c msg Refused st (answer c (CtrlMessage i code s ps) (pe_now env) st1)"
  by (auto simp: publication_of_def publishAck_def Let_def)

lemma publish_refusals: "publish_access h w u a t now ax = (ax', Some e) \<Longrightarrow> fst e \<noteq> 200"
  by (auto simp: publish_access_def validateAgentP2PMessageAccess_def accessibleAgentUser_def Let_def
      split: option.splits if_splits prod.splits sum.splits)

lemma handlePub_publication:
  assumes "handlePub env c msg st = Some st'" and "\<not> isStreamPub msg" and "normalizeMessageRequest (messageRequestFromPub msg) = Inr p"
    and "\<not> isTransientRuntimePayload p" and "\<not> isTaskStatusPayload p"
  shows "\<exists>x. publication_of env c msg x st st' \<and> (\<forall>q j. x = Confirmed q j \<longrightarrow> q = p\<lparr>np_Metadata := metadataWithoutArtifactContext (np_Metadata p)\<rparr>)"
proof -
  let ?v = "hub_client (ch_hub st) c" and ?t = "pb_Topic msg"
  let ?q = "p\<lparr>np_Metadata := metadataWithoutArtifactContext (np_Metadata p)\<rparr>"
  have q: "\<not> isTransientRuntimePayload ?q" "\<not> isTaskStatusPayload ?q"
    using assms(4,5) by (simp_all add: isTransientRuntimePayload_def isTaskStatusPayload_def)
  obtain ax ok where r: "rate_allows (wc_uid ?v) (wc_accountType ?v) (pe_now env) (ch_access st) = Some (ax, ok)"
    using assms(1,2) by (auto simp: handlePub_def Let_def split: option.splits)
  show ?thesis
  proof (cases ok)
    case False
    with r assms(1,2) have "st' = answer c (CtrlMessage (pb_ID msg) 429 ''rate limit exceeded'' []) (pe_now env) (st\<lparr>ch_access := ax\<rparr>)"
      by (auto simp: handlePub_def Let_def)
    with refusal_publication [of "st\<lparr>ch_access := ax\<rparr>" st 429] show ?thesis by (intro exI [of _ Refused]) simp
  next
    case True
    with r assms(1,2) have "publish_message env c msg (st\<lparr>ch_access := ax\<rparr>) = Some st'" by (auto simp: handlePub_def Let_def)
    then obtain ax2 e where v: "validateMessagePublish (ch_hub st) (pe_access env) (wc_uid ?v) (wc_accountType ?v) ?t False (pe_now env) ax = Some (ax2, e)"
      and st': "st' = (case e of Some x \<Rightarrow> answer c (CtrlMessage (pb_ID msg) (fst x) (snd x) []) (pe_now env) (st\<lparr>ch_access := ax2\<rparr>)
        | None \<Rightarrow> if isGroupTopic ?t then handleGroupPub env c msg ?q (st\<lparr>ch_access := ax2\<rparr>) else publish_p2p env c msg ?q (st\<lparr>ch_access := ax2\<rparr>))"
      using assms(3) by (auto simp: publish_message_def Let_def split: option.splits if_splits)
    show ?thesis
    proof (cases e)
      case (Some x)
      have "fst x \<noteq> 200"
        using v Some by (cases x) (auto simp: validateMessagePublish_def sessionForkPublishError_def dest: publish_refusals
            split: option.splits fork_state.splits if_splits)
      with refusal_publication [of "st\<lparr>ch_access := ax2\<rparr>" st] Some st' show ?thesis by (intro exI [of _ Refused]) simp
    next
      case None
      let ?s = "st\<lparr>ch_access := ax2\<rparr>"
      show ?thesis
      proof (cases "isGroupTopic ?t")
        case True
        with None st' have g: "st' = handleGroupPub env c msg ?q ?s" by simp
        let ?no = "\<lambda>code s. answer c (CtrlMessage (pb_ID msg) code s []) (pe_now env) ?s"
        have "st' \<in> {publish_payload env c msg ?q ?s, ?no 400 ''invalid group topic'', ?no 403 ''not a group member'', ?no 403 ''you are muted in this group''}"
          unfolding g by (simp add: handleGroupPub_def Let_def)
        moreover have "publication_of env c msg Refused st (?no 400 s)" "publication_of env c msg Refused st (?no 403 s)" for s
          by (rule refusal_publication; simp)+
        ultimately show ?thesis
          using payload_publication [OF q, of ?s st env c msg] by (elim insertE; simp?) (intro exI [of _ Refused]; simp)+
      next
        case False
        let ?s2 = "with_site (\<lambda>s. s\<lparr>tk_topics := fst (CreateTopic ?t ''p2p'' (wc_uid ?v) (aw_createTopic (pe_access env)) (tk_topics s))\<rparr>) ?s"
        have "ch_hub ?s2 = ch_hub st" "tk_turns (ch_site ?s2) = tk_turns (ch_site st)" by (simp_all add: ch_hub_def)
        from payload_publication [OF q this, of env c msg] False None st' show ?thesis by (simp add: publish_p2p_def Let_def)
      qed
    qed
  qed
qed

lemma client_sends: "only_sends m h (SendToClient (Some c) m now h)"
  by (simp add: SendToClient_def raw_only_sends)


section \<open>A confirmed message arrives\<close>

lemma disconnect_other_site: "e \<noteq> c \<Longrightarrow> hub_client (disconnectClient c now h) e = hub_client h e"
proof -
  assume ne: "e \<noteq> c"
  obtain h' r l where r: "removeClient c h = (h', r, l)" by (metis prod.collapse)
  then have m: "hub_memory h' = hub_memory h" by (auto simp: removeClient_def Let_def split: option.splits if_splits)
  have cl: "hub_client (closeSend c k) e = hub_client k e" for k :: "('a, 'b) Hub" using ne by (simp add: closeSend_def hub_simps)
  have clr: "hub_client (clearClientRuntimeRoute c now k) e = hub_client k e" for k :: "('a, 'b) Hub"
    by (simp add: clearClientRuntimeRoute_def hub_simps Let_def)
  have rel: "hub_client (hub_releaseBotBodyLease c k) e = hub_client k e" for k :: "('a, 'b) Hub"
    by (simp add: hub_releaseBotBodyLease_def Let_def hub_simps split: prod.split) (simp add: hub_client_def)
  have dc: "hub_client (k\<lparr>hub_deviceClients := x\<rparr>) e = hub_client k e" for x and k :: "('a, 'b) Hub" by (simp add: hub_client_def)
  have un: "hub_client (unbindDeviceClient c now k) e = hub_client k e" for k :: "('a, 'b) Hub"
    using ne by (simp add: unbindDeviceClient_def Let_def hub_simps dc)
  have "hub_client h' e = hub_client h e" using m by (simp add: hub_client_def)
  then show ?thesis by (simp add: disconnectClient_def r Let_def hub_simps un clr rel cl)
qed

lemma raw_other: "e \<noteq> c \<Longrightarrow> hub_client (fst (sendRawToClient c m now h)) e = hub_client h e"
  by (simp add: sendRawToClient_def Let_def disconnect_other_site hub_simps)

lemma remove_lists: "wc_uid (hub_client h c) \<noteq> v \<Longrightarrow> hub_clients_of v (fst (removeClient c h)) = hub_clients_of v h"
  by (auto simp: removeClient_def Let_def hub_clients_of_def gm_get_put gm_get_del split: option.split)

lemma disconnect_lists: "wc_uid (hub_client h c) \<noteq> v \<Longrightarrow> hub_clients_of v (disconnectClient c now h) = hub_clients_of v h"
proof -
  assume ne: "wc_uid (hub_client h c) \<noteq> v"
  obtain h' r l where r: "removeClient c h = (h', r, l)" by (metis prod.collapse)
  have rel: "hub_clients_of v (hub_releaseBotBodyLease c k) = hub_clients_of v k" for k :: "('a, 'b) Hub"
    by (simp add: hub_releaseBotBodyLease_def Let_def hub_simps split: prod.split) (simp add: hub_clients_of_def)
  have dc: "hub_clients_of v (k\<lparr>hub_deviceClients := x\<rparr>) = hub_clients_of v k" for x and k :: "('a, 'b) Hub" by (simp add: hub_clients_of_def)
  have clr: "hub_clients_of v (clearClientRuntimeRoute c now k) = hub_clients_of v k" for k :: "('a, 'b) Hub"
    by (simp add: clearClientRuntimeRoute_def hub_simps Let_def)
  have un: "hub_clients_of v (unbindDeviceClient c now k) = hub_clients_of v k" for k :: "('a, 'b) Hub"
    by (simp add: unbindDeviceClient_def Let_def hub_simps dc)
  have cl: "hub_clients_of v (closeSend c k) = hub_clients_of v k" for k :: "('a, 'b) Hub" by (simp add: closeSend_def hub_simps)
  from remove_lists [OF ne] r show ?thesis by (simp add: disconnectClient_def Let_def hub_simps un clr rel cl)
qed

lemma raw_lists: "wc_uid (hub_client h c) \<noteq> v \<Longrightarrow> hub_clients_of v (fst (sendRawToClient c m now h)) = hub_clients_of v h"
  by (simp add: sendRawToClient_def Let_def disconnect_lists hub_simps)

text \<open>One step of a delivery to the connections of a user.\<close>

definition mail_step ::
  "ServerMessage \<Rightarrow> client_ref option \<Rightarrow> go_time \<Rightarrow> client_ref \<Rightarrow> ('a, 'b) Hub \<times> nat \<Rightarrow> ('a, 'b) Hub \<times> nat" where
  "mail_step m ex now e st =
     (if Some e = ex \<or> wc_deviceConnector (hub_client (fst st) e) \<noteq> None then st
      else (fst (sendRawToClient e m now (fst st)), if snd (sendRawToClient e m now (fst st)) then snd st + 1 else snd st))"

lemma except_steps:
  fixes h :: "('a, 'b) Hub"
  shows "SendToUserExcept u m ex now h = fst (fold (mail_step m ex now) (hub_clients_of u h) (h, 0))"
proof -
  have "(mail_step m ex now :: client_ref \<Rightarrow> ('a, 'b) Hub \<times> nat \<Rightarrow> ('a, 'b) Hub \<times> nat) = (\<lambda>c (h, delivered). if Some c = ex \<or> wc_deviceConnector (hub_client h c) \<noteq> None then (h, delivered)
      else case sendRawToClient c m now h of (h, ok) \<Rightarrow> (h, if ok then delivered + 1 else delivered))"
    by (intro ext) (auto simp: mail_step_def case_prod_beta)
  then show ?thesis by (simp only: SendToUserExcept_def sendToUserExceptConfirmed_def)
qed

lemma step_other: "e \<noteq> c \<Longrightarrow> hub_client (fst (mail_step m ex now c st)) e = hub_client (fst st) e"
  by (simp add: mail_step_def raw_other)

lemma steps_other: "e \<notin> set cs \<Longrightarrow> hub_client (fst (fold (mail_step m ex now) cs st)) e = hub_client (fst st) e"
proof (induction cs arbitrary: st)
  case (Cons c cs)
  from Cons.prems have "e \<noteq> c" "e \<notin> set cs" by auto
  with Cons.IH [of "mail_step m ex now c st"] step_other [of e c m ex now st] show ?case by simp
qed simp

lemma step_lists: "wc_uid (hub_client (fst st) c) \<noteq> v \<Longrightarrow> hub_clients_of v (fst (mail_step m ex now c st)) = hub_clients_of v (fst st)"
  by (simp add: mail_step_def raw_lists)

lemma step_uid: "wc_uid (hub_client (fst (mail_step m ex now c st)) e) = wc_uid (hub_client (fst st) e)"
  using raw_hears(1) [of e c m now "fst st"] by (simp add: mail_step_def mailbox_def Let_def)

lemma steps_lists:
  "\<forall>c \<in> set cs. wc_uid (hub_client (fst st) c) \<noteq> v \<Longrightarrow> hub_clients_of v (fst (fold (mail_step m ex now) cs st)) = hub_clients_of v (fst st)"
proof (induction cs arbitrary: st)
  case (Cons c cs)
  from Cons.prems have "\<forall>d \<in> set cs. wc_uid (hub_client (fst (mail_step m ex now c st)) d) \<noteq> v" by (simp add: step_uid)
  from Cons.IH [OF this] Cons.prems step_lists [of st c v m ex now] show ?case by simp
qed simp

lemma except_delivers:
  assumes "distinct (hub_clients_of v h)" and "e \<in> set (hub_clients_of v h)" and "Some e \<noteq> ex"
    and "wc_deviceConnector (hub_client h e) = None" and "\<not> wc_sendClosed (hub_client h e)"
    and "length (wc_send (hub_client h e)) < wc_sendCapacity (hub_client h e)"
  shows "wc_send (hub_client (SendToUserExcept v m ex now h) e) = wc_send (hub_client h e) @ [m]"
proof -
  obtain xs ys where l: "hub_clients_of v h = xs @ e # ys" using assms(2) by (meson split_list)
  with assms(1) have ne: "e \<notin> set xs" "e \<notin> set ys" by auto
  define st where "st = fold (mail_step m ex now) xs (h, 0)"
  have e: "hub_client (fst st) e = hub_client h e" using steps_other [OF ne(1), of m ex now "(h, 0)"] by (simp add: st_def)
  have "fst (mail_step m ex now e st) = fst (sendRawToClient e m now (fst st))" using assms(3,4) e by (auto simp: mail_step_def)
  then have "wc_send (hub_client (fst (mail_step m ex now e st)) e) = wc_send (hub_client h e) @ [m]" using assms(5,6) by (simp add: raw_send e)
  then show ?thesis using steps_other [OF ne(2), of m ex now "mail_step m ex now e st"] by (simp add: except_steps l st_def)
qed

lemma client_of_hub_ok: "hub_ok h \<Longrightarrow> x \<in> set (hub_clients_of u h) \<Longrightarrow> wc_uid (hub_client h x) = u"
  by (simp add: hub_ok_def index_ok_def)

lemma appended_once: "old @ [a] = x @ replicate n d \<Longrightarrow> x \<in> {old, old @ [b]} \<Longrightarrow> a \<noteq> d \<Longrightarrow> a = b"
  by (cases n) (auto simp: append_eq_append_conv2 append_eq_Cons_conv)

text \<open>
  C18: a confirmed message has arrived: when the author of a message in a one-to-one topic is told that it was accepted
  as a new one, every connection of the other side that is open and not full has it in its queue, with the number the
  author was told.
\<close>

theorem confirmed_message_arrives:
  assumes "hub_ok (ch_hub st)" and "handlePub env c msg st = Some st'" and "\<not> isStreamPub msg"
    and "normalizeMessageRequest (messageRequestFromPub msg) = Inr p" and "\<not> isTransientRuntimePayload p" and "\<not> isTaskStatusPayload p"
    and "\<not> isGroupTopic (pb_Topic msg)"
    and "wc_send (hub_client (ch_hub st') c) = wc_send (hub_client (ch_hub st) c) @ [publishAck (pb_ID msg) j False k]"
    and "extractPeerUID (pb_Topic msg) (wc_uid (hub_client (ch_hub st) c)) = v" and "v \<noteq> wc_uid (hub_client (ch_hub st) c)" and "v \<noteq> 0"
    and "distinct (hub_clients_of v (ch_hub st))" and "e \<in> set (hub_clients_of v (ch_hub st))"
    and "wc_deviceConnector (hub_client (ch_hub st) e) = None" and "\<not> wc_sendClosed (hub_client (ch_hub st) e)"
    and "length (wc_send (hub_client (ch_hub st) e)) < wc_sendCapacity (hub_client (ch_hub st) e)"
  shows "\<exists>data. wc_send (hub_client (ch_hub st') e) = wc_send (hub_client (ch_hub st) e) @ [DataMessage data] \<and>
    sd_SeqID data = j \<and> sd_From data = formatUID (wc_uid (hub_client (ch_hub st) c)) \<and> sd_Content data = np_DisplayContent p"
proof -
  let ?h = "ch_hub st" and ?u = "wc_uid (hub_client (ch_hub st) c)" and ?t = "pb_Topic msg" and ?now = "pe_now env"
  let ?q = "p\<lparr>np_Metadata := metadataWithoutArtifactContext (np_Metadata p)\<rparr>"
  from client_of_hub_ok [OF assms(1,13)] assms(10) have ne: "wc_uid (hub_client ?h e) = v" "e \<noteq> c" by auto
  have mine: "wc_send (hub_client (SendToClient (Some c) m ?now ?h) c) \<in> {wc_send (hub_client ?h c), wc_send (hub_client ?h c) @ [m]}" for m
    by (simp add: SendToClient_def raw_send)
  from handlePub_publication [OF assms(2-6)] obtain x where x: "publication_of env c msg x st st'" "\<forall>q i. x = Confirmed q i \<longrightarrow> q = ?q" by blast
  show ?thesis
  proof (cases x)
    case Refused
    with x(1) obtain reply where "ch_hub st' = SendToClient (Some c) reply ?now ?h" "\<forall>j k. reply \<noteq> publishAck (pb_ID msg) j False k"
      by (auto simp: publication_of_def Let_def)
    with mine [of reply] assms(8) show ?thesis by auto
  next
    case (Confirmed q i)
    let ?ack = "publishAck (pb_ID msg) i False (np_ClientMsgID q)" and ?data = "messageForRecipient ?u ?t q i"
    define h1 where "h1 = SendToClient (Some c) ?ack ?now ?h"
    define h2 where "h2 = SendToUserExcept ?u (DataMessage ?data) (Some c) ?now h1"
    from x Confirmed have q: "q = ?q" and "ch_hub st' = fst (fanoutNormalizedMessage env ?u ?t q i (Some c) (h1, tk_turns (ch_site st)))"
      by (auto simp: publication_of_def Let_def h1_def)
    then have h: "ch_hub st' = SendToUserExcept v (DataMessage ?data) None ?now h2"
      using assms(7,9,11) by (simp add: fanoutNormalizedMessage_def Let_def h2_def SendToUser_def)
    have "only_sends (DataMessage ?data) h1 (ch_hub st')" unfolding h h2_def by (rule only_sends_trans [OF user_only_sends user_only_sends])
    then obtain n where "wc_send (hub_client (ch_hub st') c) = wc_send (hub_client h1 c) @ replicate n (DataMessage ?data)"
      unfolding only_sends_def by blast
    then have "publishAck (pb_ID msg) j False k = ?ack"
      using appended_once [of "wc_send (hub_client ?h c)" "publishAck (pb_ID msg) j False k" "wc_send (hub_client h1 c)" n "DataMessage ?data" ?ack]
        mine [of ?ack] assms(8) unfolding h1_def [symmetric] by (simp add: publishAck_def)
    then have i: "i = j" by (simp add: publishAck_def)
    have one: "hub_clients_of v h1 = hub_clients_of v ?h" "hub_client h1 e = hub_client ?h e"
      using raw_lists [of ?h c v ?ack ?now] assms(10) raw_other [OF ne(2), of ?ack ?now ?h] by (simp_all add: h1_def SendToClient_def)
    have uid1: "wc_uid (hub_client h1 y) = wc_uid (hub_client ?h y)" for y
      using raw_hears(1) [of y c ?ack ?now ?h] by (simp add: h1_def SendToClient_def mailbox_def Let_def)
    have "set (hub_clients_of ?u h1) \<subseteq> set (hub_clients_of ?u ?h)" using raw_hears(3) by (simp add: h1_def SendToClient_def)
    with client_of_hub_ok [OF assms(1)] uid1 assms(10) have own: "\<forall>y \<in> set (hub_clients_of ?u h1). wc_uid (hub_client h1 y) \<noteq> v" by auto
    then have "hub_clients_of v h2 = hub_clients_of v h1"
      unfolding h2_def except_steps using steps_lists [of "hub_clients_of ?u h1" "(h1, 0)" v] by simp
    moreover have "e \<notin> set (hub_clients_of ?u h1)" using own uid1 ne(1) by auto
    then have "hub_client h2 e = hub_client h1 e" unfolding h2_def except_steps using steps_other by fastforce
    ultimately have "wc_send (hub_client (ch_hub st') e) = wc_send (hub_client ?h e) @ [DataMessage ?data]"
      unfolding h using except_delivers [of v h2 e None "DataMessage ?data" ?now] assms(12-16) one by simp
    with i q show ?thesis by (intro exI [of _ ?data]) (simp add: messageForRecipient_def)
  qed
qed

section \<open>Person 2 and bot 7\<close>

definition sample_publish_env :: publish_env where
  "sample_publish_env =
     \<lparr>pe_access = sample_access, pe_report = sample_report_env,
      pe_save = \<lparr>sv_now = 5, sv_lookup = True, sv_insert = True, sv_again = True, sv_before = [], sv_after = []\<rparr>, pe_resolver = None, pe_row = None,
      pe_working = None, pe_context = None, pe_prompt = defaultActivationPrompt, pe_now = 20\<rparr>"

definition sample_pub :: MsgClientPub where
  "sample_pub = \<lparr>pb_ID = ''m1'', pb_Topic = ''p2p_2_7'', pb_ClientMsgID = ''k1'',
     pb_Content = \<lparr>raw_text = CHR 0x22 # ''hi'' @ [CHR 0x22], raw_value = Some (JStr ''hi'')\<rparr>, pb_ContentBlocks = [], pb_Metadata = [],
     pb_MsgType = [], pb_Type = [], pb_Mode = [], pb_Role = [], pb_ReplyTo = 0, pb_Mentions = []\<rparr>"

definition sample_chat :: "(unit, unit) chat_site" where
  "sample_chat = \<lparr>ch_site = \<lparr>tk_hub = sample_trio, tk_topics = empty_messages, tk_ledger = empty_db, tk_turns = newGroupAgentTurnTracker 0,
     tk_observed = [], tk_wake = False, tk_handed = []\<rparr>, ch_access = \<lparr>ax_rateLimiter = None, ax_botConvo = []\<rparr>, ch_cancels = []\<rparr>"

definition sample_payload :: normalizedMessagePayload where
  "sample_payload = (case normalizeMessageRequest (messageRequestFromPub sample_pub) of Inr p \<Rightarrow> p | Inl _ \<Rightarrow> sample_report)"

definition sample_published :: "(unit, unit) chat_site" where
  "sample_published = (case handlePub sample_publish_env 1 sample_pub sample_chat of Some st \<Rightarrow> st | None \<Rightarrow> sample_chat)"

lemma sample_facts:
  "handlePub sample_publish_env 1 sample_pub sample_chat = Some sample_published"
  "normalizeMessageRequest (messageRequestFromPub sample_pub) = Inr sample_payload"
  "\<not> isStreamPub sample_pub" "\<not> isTransientRuntimePayload sample_payload" "\<not> isTaskStatusPayload sample_payload"
  "hub_ok (ch_hub sample_chat)" "wc_uid (hub_client (ch_hub sample_chat) 1) = 2" "np_ClientMsgID sample_payload = ''k1''"
  "np_DisplayContent sample_payload = JStr ''hi''" "np_StoredContent sample_payload = ''hi''"
proof -
  have "handlePub sample_publish_env 1 sample_pub sample_chat \<noteq> None" by code_simp
  then show "handlePub sample_publish_env 1 sample_pub sample_chat = Some sample_published" by (auto simp: sample_published_def)
  have "(case normalizeMessageRequest (messageRequestFromPub sample_pub) of Inl _ \<Rightarrow> False | Inr _ \<Rightarrow> True)" by code_simp
  then show "normalizeMessageRequest (messageRequestFromPub sample_pub) = Inr sample_payload" by (auto simp: sample_payload_def split: sum.splits)
  show "hub_ok (ch_hub sample_chat)" using sample_trio_ok by (simp add: sample_chat_def ch_hub_def)
qed code_simp+

lemma sample_mail:
  "wc_send (hub_client (ch_hub sample_chat) 1) = []" "wc_send (hub_client (ch_hub sample_chat) 2) = []"
  "wc_send (hub_client (ch_hub sample_published) 1) = [publishAck ''m1'' 1 False ''k1'']"
  "wc_send (hub_client (ch_hub sample_published) 2) \<noteq> []"
  "map mg_ID (md_messages (ch_messages sample_published)) = [1]"
  "list_all (has_key ''p2p_2_7'' 2 ''k1'') (md_messages (ch_messages sample_published))"
  "wc_uid (hub_client (ch_hub sample_published) 1) = 2"
  "hub_clients_of 7 (ch_hub sample_chat) = [2]" "wc_deviceConnector (hub_client (ch_hub sample_chat) 2) = None"
  "\<not> wc_sendClosed (hub_client (ch_hub sample_chat) 2)" "0 < wc_sendCapacity (hub_client (ch_hub sample_chat) 2)"
  "wc_uid (hub_client (ch_hub sample_chat) 2) = 7"
  by code_simp+

theorem message_stays_in_topic_witness:
  "wc_send (hub_client (ch_hub sample_published) 2) \<noteq> [] \<and> 7 \<in> message_audience sample_access ''p2p_2_7'' 2"
proof -
  have ne: "(2 :: client_ref) \<noteq> 1" and s: "wc_send (hub_client (ch_hub sample_published) 2) \<noteq> wc_send (hub_client (ch_hub sample_chat) 2)"
    using sample_mail(2,4) by simp_all
  from message_stays_in_topic [OF sample_facts(6,1,3) ne s] sample_mail(4,12) sample_facts(7) show ?thesis
    by (simp add: sample_publish_env_def sample_pub_def)
qed


text \<open>The same message once more, on the state the first one left.\<close>

theorem resent_message_not_delivered_witness:
  "\<exists>st'. handlePub sample_publish_env 1 sample_pub sample_published = Some st' \<and> map mg_ID (md_messages (ch_messages st')) = [1] \<and>
     (\<exists>reply. ch_hub st' = SendToClient (Some 1) reply 20 (ch_hub sample_published))"
proof -
  have "handlePub sample_publish_env 1 sample_pub sample_published \<noteq> None" by code_simp
  then obtain st' where st': "handlePub sample_publish_env 1 sample_pub sample_published = Some st'" by auto
  obtain m where m: "m \<in> set (md_messages (ch_messages sample_published))" using sample_mail(5) by (cases "md_messages (ch_messages sample_published)") auto
  have k: "has_key (pb_Topic sample_pub) (wc_uid (hub_client (ch_hub sample_published) 1)) (np_ClientMsgID sample_payload) m"
    using m sample_mail(6,7) sample_facts(8) by (simp add: sample_pub_def list_all_iff)
  have "np_ClientMsgID sample_payload \<noteq> []" by (simp add: sample_facts(8))
  from resent_message_not_delivered [OF st' sample_facts(3,2,4,5) this m k] st' sample_mail(5) show ?thesis
    by (auto simp: sample_publish_env_def)
qed

theorem confirmed_message_arrives_witness:
  "\<exists>data. wc_send (hub_client (ch_hub sample_published) 2) = [DataMessage data] \<and> sd_SeqID data = 1 \<and> sd_Content data = JStr ''hi''"
proof -
  let ?c = "1 :: client_ref"
  have a: "\<not> isGroupTopic (pb_Topic sample_pub)" "extractPeerUID (pb_Topic sample_pub) (wc_uid (hub_client (ch_hub sample_chat) ?c)) = 7"
    "(7 :: uid) \<noteq> wc_uid (hub_client (ch_hub sample_chat) ?c)" "(7 :: uid) \<noteq> 0" "distinct (hub_clients_of 7 (ch_hub sample_chat))"
    by code_simp+
  have s: "wc_send (hub_client (ch_hub sample_published) ?c) = wc_send (hub_client (ch_hub sample_chat) ?c) @ [publishAck (pb_ID sample_pub) 1 False ''k1'']"
    using sample_mail(1,3) by (simp add: sample_pub_def)
  have e: "2 \<in> set (hub_clients_of 7 (ch_hub sample_chat))" using sample_mail(8) by simp
  have "length (wc_send (hub_client (ch_hub sample_chat) 2)) < wc_sendCapacity (hub_client (ch_hub sample_chat) 2)" using sample_mail(2,11) by simp
  from confirmed_message_arrives [OF sample_facts(6,1,3,2,4,5) a(1) s a(2-5) e sample_mail(9,10) this] sample_mail(2) sample_facts(9)
  show ?thesis by auto
qed

end
