(* ===== verification/CommerceTables.thy ===== *)
theory CommerceTables
  imports Complex_Main GoStrings
begin

text \<open>
  The tables behind purchases and cloud workers (\<open>server/db/postgres/schema.go\<close>, \<open>cloud_worker_deployment.go\<close>), and what the
  statements on them have in common. A table is the list of its rows in the order they were inserted. The states that the
  CHECK constraints enumerate are datatypes, a NULL column is \<open>None\<close>, an amount of money is a rational. What a column's
  declared length or scale would cut off or refuse is not modelled: a statement refused for it is one that fails.
\<close>

section \<open>Rows\<close>

record plan =
  pl_ID :: int
  pl_Slug :: string
  pl_Name :: string
  pl_Description :: string
  pl_PriceFen :: int
  pl_Currency :: string
  pl_SaleState :: string
  pl_PurchaseLimit :: int
  pl_MonthlyBudget :: rat
  pl_ModelBudgets :: "(string, rat) gomap"
  pl_DurationDays :: int
  pl_State :: int
  pl_Profile :: string
  pl_RetentionDays :: int
  pl_WorkerIncluded :: bool
  pl_Tier :: int
  pl_RuntimePlan :: string

datatype entitlement_state = EntitlementActive | EntitlementExpired | EntitlementRevoked

record entitlement =
  en_ID :: int
  en_UID :: uid
  en_PlanID :: int
  en_Source :: string
  en_SourceRef :: string
  en_State :: entitlement_state
  en_StartsAt :: go_time
  en_ExpiresAt :: "go_time option"

datatype credit_state = CreditAvailable | CreditReserved | CreditConsumed | CreditRevoked | CreditQueued

record credit =
  cr_ID :: int
  cr_UID :: uid
  cr_EntitlementID :: "int option"
  cr_SourceRef :: string
  cr_State :: credit_state
  cr_ReservationRef :: string
  cr_WorkerUID :: "uid option"
  cr_ExpiresAt :: "go_time option"
  cr_CreatedAt :: go_time
  cr_ReservedAt :: "go_time option"
  cr_ConsumedAt :: "go_time option"
  cr_QueuedAt :: "go_time option"
  cr_Profile :: string
  cr_Billing :: string
  cr_RetentionDays :: int
  cr_RuntimePlan :: string

datatype lifecycle_state = WorkerActive | DeletePending | DeleteRunning | DeleteFailed | WorkerDeleted

record lifecycle =
  lc_ID :: int
  lc_WorkerUID :: uid
  lc_OwnerUID :: uid
  lc_TenantName :: string
  lc_PackageExpiresAt :: go_time
  lc_DeleteAfter :: go_time
  lc_State :: lifecycle_state
  lc_ArchivedAt :: "go_time option"
  lc_DeleteStartedAt :: "go_time option"
  lc_DeletedAt :: "go_time option"
  lc_LastError :: string
  lc_CreatedAt :: go_time
  lc_UpdatedAt :: go_time
  lc_BillingMode :: string
  lc_ConversionPending :: bool
  lc_BillingAction :: string
  lc_BillingActionStartedAt :: "go_time option"
  lc_RetentionDays :: int

record quota_grant =
  qg_ID :: int
  qg_UID :: uid
  qg_PlanID :: int
  qg_GrantType :: string
  qg_Model :: string
  qg_Amount :: rat
  qg_EffectiveAt :: go_time
  qg_ExpiresAt :: "go_time option"
  qg_SourceRef :: string
  qg_RevokedAt :: "go_time option"

record ledger_entry =
  le_UID :: uid
  le_Model :: string
  le_Amount :: rat
  le_EntryType :: string
  le_SourceType :: string
  le_SourceID :: int
  le_Note :: string

datatype order_status =
  OrderCreated | OrderPending | OrderPaid | OrderFulfilled | OrderClosed | OrderFailed | OrderRefunding | OrderRefunded

record commercial_order =
  or_ID :: int
  or_OrderNo :: string
  or_UID :: uid
  or_PlanID :: int
  or_PlanSlug :: string
  or_PlanName :: string
  or_PlanDescription :: string
  or_PlanDurationDays :: int
  or_PlanMonthlyBudget :: rat
  or_PlanModelBudgets :: "(string, rat) gomap"
  or_AmountFen :: int
  or_Currency :: string
  or_Channel :: string
  or_Status :: order_status
  or_ProviderTradeNo :: string
  or_CheckoutURL :: string
  or_ClientRequestID :: string
  or_ExpiresAt :: "go_time option"
  or_PaidAt :: "go_time option"
  or_FulfilledAt :: "go_time option"
  or_ClosedAt :: "go_time option"
  or_RefundRequestNo :: string
  or_RefundedAt :: "go_time option"
  or_LastError :: string
  or_CreatedAt :: go_time
  or_UpdatedAt :: go_time
  or_PlanIncludesWorker :: bool

record payment_event =
  pe_Channel :: string
  pe_EventID :: string
  pe_OrderNo :: string
  pe_ProviderTradeNo :: string
  pe_EventType :: string
  pe_PayloadHash :: string

record commerce =
  cd_plans :: "plan list"
  cd_entitlements :: "entitlement list"
  cd_credits :: "credit list"
  cd_lifecycles :: "lifecycle list"
  cd_grants :: "quota_grant list"
  cd_ledger :: "ledger_entry list"
  cd_orders :: "commercial_order list"
  cd_requests :: "(uid \<times> string, string) gomap"
  cd_events :: "payment_event list"
  cd_nextID :: int

text \<open>
  The ids of all tables come from one counter here; each table has its own in the database, and only their order within a
  table is ever used.
\<close>

section \<open>Statements and transactions\<close>

text \<open>\<open>UPDATE ... SET f WHERE p\<close>, and the number of rows it affects\<close>

definition update_rows :: "('a \<Rightarrow> bool) \<Rightarrow> ('a \<Rightarrow> 'a) \<Rightarrow> 'a list \<Rightarrow> 'a list" where
  "update_rows p f rows = map (\<lambda>r. if p r then f r else r) rows"

definition affected :: "('a \<Rightarrow> bool) \<Rightarrow> 'a list \<Rightarrow> int" where
  "affected p rows = int (length (filter p rows))"

text \<open>\<open>SELECT ... ORDER BY k LIMIT 1\<close>\<close>

definition first_row :: "('a \<Rightarrow> 'k::linorder) \<Rightarrow> 'a list \<Rightarrow> 'a option" where
  "first_row k rows = (case sort_key k rows of [] \<Rightarrow> None | r # _ \<Rightarrow> Some r)"

text \<open>
  What the database does with a transaction (or a statement outside of one): it commits and says so, it fails and leaves
  the tables as they were, or it commits and the answer is lost.
\<close>

datatype db_outcome = Committed | RolledBack | Unanswered

definition db_error :: string where
  "db_error = ''database error''"

definition in_tx :: "db_outcome \<Rightarrow> 'db \<Rightarrow> 'db \<times> (string + 'a) \<Rightarrow> 'db \<times> (string + 'a)" where
  "in_tx out db r =
     (case out of
        Committed \<Rightarrow> r
      | RolledBack \<Rightarrow> (db, case snd r of Inl e \<Rightarrow> Inl e | Inr _ \<Rightarrow> Inl db_error)
      | Unanswered \<Rightarrow> (case snd r of Inl _ \<Rightarrow> r | Inr _ \<Rightarrow> (fst r, Inl db_error)))"

definition go_day :: duration where
  "go_day = 24 * 60 * 60 * go_second"

text \<open>\<open>AddDate(0, 0, n)\<close> and \<open>n * INTERVAL '1 day'\<close> on the times in UTC that the code uses\<close>

definition addDays :: "go_time \<Rightarrow> int \<Rightarrow> go_time" where
  "addDays t n = t + n * go_day"

definition not_expired :: "go_time option \<Rightarrow> go_time \<Rightarrow> bool" where
  "not_expired e now \<longleftrightarrow> (case e of None \<Rightarrow> True | Some t \<Rightarrow> t > now)"

text \<open>\<open>strings.EqualFold\<close> on currency codes, which are ASCII\<close>

definition equalFoldASCII :: "string \<Rightarrow> string \<Rightarrow> bool" where
  "equalFoldASCII a b \<longleftrightarrow> toLower a = toLower b"

section \<open>Facts\<close>

lemma set_update_rows: "set (update_rows p f rows) = (\<lambda>r. if p r then f r else r) ` set rows"
  by (simp add: update_rows_def)

lemma update_rows_length [simp]: "length (update_rows p f rows) = length rows"
  by (simp add: update_rows_def)

lemma update_rows_nth: "i < length rows \<Longrightarrow> update_rows p f rows ! i = (if p (rows ! i) then f (rows ! i) else rows ! i)"
  by (simp add: update_rows_def)

lemma update_rows_map: "(\<And>r. p r \<Longrightarrow> g (f r) = g r) \<Longrightarrow> map g (update_rows p f rows) = map g rows"
  by (simp add: update_rows_def)

lemma update_rows_none: "(\<And>r. r \<in> set rows \<Longrightarrow> \<not> p r) \<Longrightarrow> update_rows p f rows = rows"
  unfolding update_rows_def by (rule map_idI) simp

lemma affected_pos: "affected p rows > 0 \<longleftrightarrow> (\<exists>r\<in>set rows. p r)"
  by (auto simp: affected_def filter_empty_conv)

lemma affected_zero: "affected p rows = 0 \<longleftrightarrow> (\<forall>r\<in>set rows. \<not> p r)"
  by (simp add: affected_def filter_empty_conv)

lemma first_row_None: "first_row k rows = None \<longleftrightarrow> rows = []"
  by (auto simp: first_row_def split: list.splits dest: arg_cong [of _ _ length])

lemma first_row_Some:
  assumes "first_row k rows = Some r"
  shows "r \<in> set rows \<and> (\<forall>s\<in>set rows. k r \<le> k s)"
proof -
  obtain rest where s: "sort_key k rows = r # rest"
    using assms by (auto simp: first_row_def split: list.splits)
  have "sorted (map k (r # rest))"
    using sorted_sort_key [of k rows] by (simp only: s)
  moreover have "set rows = set (r # rest)"
    by (metis s set_sort)
  ultimately show ?thesis by auto
qed

text \<open>A transaction leaves the tables as they were or as its statements made them, and only a committed one reports success.\<close>

lemma in_tx_cases:
  obtains (applied) "fst (in_tx out db r) = fst r" | (kept) "fst (in_tx out db r) = db"
  by (cases out) (auto simp: in_tx_def split: sum.splits)

lemma in_tx_success: "snd (in_tx out db r) = Inr x \<Longrightarrow> in_tx out db r = r"
  by (cases out) (auto simp: in_tx_def split: sum.splits)

lemma in_tx_invariant: "P db \<Longrightarrow> P (fst r) \<Longrightarrow> P (fst (in_tx out db r))"
  by (rule in_tx_cases [of out db r]) simp_all

lemma in_tx_committed [simp]: "in_tx Committed db r = r"
  by (simp add: in_tx_def)

end
