(* ===== verification/CloudCredits.thy ===== *)
theory CloudCredits
  imports CommerceTables "HOL-Library.Product_Lexorder"
begin

text \<open>
  Cloud worker credits (\<open>server/db/postgres/cloud_worker_credits.go\<close>, \<open>cloud_worker_queue.go\<close>, the profiles of
  \<open>server/store/types/cloud_worker_deployment.go\<close>): each paid credit opens one worker. It is granted, reserved by a create,
  and then consumed, given back, parked for want of capacity or revoked. Transactions run one after the other, so
  \<open>FOR UPDATE SKIP LOCKED\<close> finds no row locked; \<open>CURRENT_TIMESTAMP\<close> and \<open>time.Now\<close> are the one moment of the operation.
\<close>

section \<open>Profiles, billing modes, tiers\<close>

definition CloudWorkerPrivateNAT :: string where "CloudWorkerPrivateNAT = ''private_nat''"
definition CloudWorkerPublicIP :: string where "CloudWorkerPublicIP = ''public_ip''"
definition CloudWorkerPackedShared :: string where "CloudWorkerPackedShared = ''packed_shared''"
definition CloudWorkerMonthly :: string where "CloudWorkerMonthly = ''month''"
definition CloudWorkerOnDemand :: string where "CloudWorkerOnDemand = ''ondemand''"

lemmas profile_names = CloudWorkerPrivateNAT_def CloudWorkerPublicIP_def CloudWorkerPackedShared_def
  CloudWorkerMonthly_def CloudWorkerOnDemand_def

definition NormalizeCloudWorkerBilling :: "string \<Rightarrow> string \<times> bool" where
  "NormalizeCloudWorkerBilling mode =
     (if mode = '''' \<or> mode = CloudWorkerMonthly then (CloudWorkerMonthly, True) else (mode, mode = CloudWorkerOnDemand))"

definition NormalizeCloudWorkerProfile :: "string \<Rightarrow> string \<times> bool" where
  "NormalizeCloudWorkerProfile profile =
     (if profile = '''' \<or> profile = CloudWorkerPrivateNAT then (CloudWorkerPrivateNAT, True)
      else if profile = CloudWorkerPublicIP \<or> profile = CloudWorkerPackedShared then (profile, True)
      else (profile, False))"

definition CloudWorkerBillingForProfile :: "string \<Rightarrow> string \<Rightarrow> string" where
  "CloudWorkerBillingForProfile profile billing =
     (if fst (NormalizeCloudWorkerProfile profile) = CloudWorkerPackedShared then CloudWorkerMonthly
      else fst (NormalizeCloudWorkerBilling billing))"

definition NormalizeCloudWorkerRuntimePlan :: "string \<Rightarrow> string \<times> bool" where
  "NormalizeCloudWorkerRuntimePlan p =
     (let q = toLower (trimSpace p)
      in if q = '''' then ('''', True)
         else if q \<in> {''light'', ''standard'', ''pro'', ''heavy''} then (q, True)
         else (p, False))"

definition CloudWorkerRetentionDays :: "int \<Rightarrow> int \<Rightarrow> int" where
  "CloudWorkerRetentionDays configured durationDays =
     (if configured > 0 then (if configured > 90 then 90 else configured)
      else if durationDays \<le> 0 then 15
      else if durationDays \<le> 7 then 3
      else 7)"

section \<open>Summaries\<close>

definition counted_credit :: "credit_state \<Rightarrow> bool" where
  "counted_credit s \<longleftrightarrow> s \<in> {CreditAvailable, CreditReserved, CreditConsumed, CreditQueued}"

definition CloudWorkerCreditSummary :: "uid \<Rightarrow> go_time \<Rightarrow> commerce \<Rightarrow> string + (int \<times> int)" where
  "CloudWorkerCreditSummary u now db =
     (if u \<le> 0 then Inl ''invalid cloud worker credit owner''
      else let mine = filter (\<lambda>c. cr_UID c = u \<and> not_expired (cr_ExpiresAt c) now) (cd_credits db)
           in Inr (affected (counted_credit \<circ> cr_State) mine, affected (\<lambda>c. cr_State c = CreditAvailable) mine))"

definition CloudWorkerConfiguredCreditSummary :: "uid \<Rightarrow> string \<Rightarrow> string \<Rightarrow> go_time \<Rightarrow> commerce \<Rightarrow> string + (int \<times> int)" where
  "CloudWorkerConfiguredCreditSummary u profile billing now db =
     (if billing \<noteq> '''' \<and> \<not> snd (NormalizeCloudWorkerBilling billing) then Inl ''invalid billing mode''
      else let (profile, valid) = NormalizeCloudWorkerProfile profile
           in if \<not> valid \<or> u \<le> 0 then Inl ''invalid deployment profile owner''
              else let mine = filter (\<lambda>c. cr_UID c = u \<and> cr_Profile c = profile \<and> (billing = '''' \<or> cr_Billing c = billing)
                                         \<and> not_expired (cr_ExpiresAt c) now) (cd_credits db)
                   in Inr (affected (counted_credit \<circ> cr_State) mine, affected (\<lambda>c. cr_State c = CreditAvailable) mine))"

section \<open>Granting\<close>

definition new_credit :: "uid \<Rightarrow> string \<Rightarrow> go_time option \<Rightarrow> string \<Rightarrow> string \<Rightarrow> int \<Rightarrow> string \<Rightarrow> go_time \<Rightarrow> int \<Rightarrow> credit" where
  "new_credit u ref expiresAt profile billing retention runtimePlan now i =
     \<lparr>cr_ID = i, cr_UID = u, cr_EntitlementID = None, cr_SourceRef = ref, cr_State = CreditAvailable,
      cr_ReservationRef = '''', cr_WorkerUID = None, cr_ExpiresAt = expiresAt, cr_CreatedAt = now, cr_ReservedAt = None,
      cr_ConsumedAt = None, cr_QueuedAt = None, cr_Profile = profile, cr_Billing = billing,
      cr_RetentionDays = retention, cr_RuntimePlan = runtimePlan\<rparr>"

definition credit_of_source :: "string \<Rightarrow> commerce \<Rightarrow> credit option" where
  "credit_of_source ref db = List.find (\<lambda>c. cr_SourceRef c = ref) (cd_credits db)"

text \<open>\<open>INSERT INTO cloud_worker_credits ... ON CONFLICT (source_ref) DO NOTHING\<close>, with whether a row was added\<close>

definition insert_credit :: "(int \<Rightarrow> credit) \<Rightarrow> commerce \<Rightarrow> commerce \<times> bool" where
  "insert_credit row db =
     (if credit_of_source (cr_SourceRef (row 0)) db = None
      then (db\<lparr>cd_credits := cd_credits db @ [row (cd_nextID db)], cd_nextID := cd_nextID db + 1\<rparr>, True)
      else (db, False))"

definition manual_ref :: "string \<Rightarrow> int \<Rightarrow> string" where
  "manual_ref sourceRef i = ''manual:'' @ sourceRef @ '':'' @ formatInt i"

fun grant_rows :: "uid \<Rightarrow> string \<Rightarrow> go_time option \<Rightarrow> string \<Rightarrow> string \<Rightarrow> go_time \<Rightarrow> int list \<Rightarrow> int \<Rightarrow> commerce \<Rightarrow> commerce \<times> (string + int)" where
  "grant_rows u sourceRef expiresAt profile billing now [] granted db = (db, Inr granted)"
| "grant_rows u sourceRef expiresAt profile billing now (i # is) granted db =
     (let ref = manual_ref sourceRef i;
          (db1, added) = insert_credit (new_credit u ref expiresAt profile billing 0 '''' now) db
      in if added then grant_rows u sourceRef expiresAt profile billing now is (granted + 1) db1
         else case credit_of_source ref db1 of
                None \<Rightarrow> (db1, Inl ''sql: no rows in result set'')
              | Some c \<Rightarrow>
                  if cr_UID c \<noteq> u \<or> cr_Profile c \<noteq> profile \<or> cr_Billing c \<noteq> billing
                  then (db1, Inl ''operation already belongs to a different owner or deployment profile'')
                  else grant_rows u sourceRef expiresAt profile billing now is granted db1)"

text \<open>An error in the middle of the transaction rolls it back.\<close>

definition all_or_nothing :: "'db \<Rightarrow> 'db \<times> (string + 'a) \<Rightarrow> 'db \<times> (string + 'a)" where
  "all_or_nothing db r = (case snd r of Inl e \<Rightarrow> (db, Inl e) | Inr _ \<Rightarrow> r)"

definition GrantCloudWorkerConfiguredCredits ::
  "uid \<Rightarrow> int \<Rightarrow> string \<Rightarrow> go_time option \<Rightarrow> string \<Rightarrow> string \<Rightarrow> go_time \<Rightarrow> db_outcome \<Rightarrow> commerce \<Rightarrow> commerce \<times> (string + int)" where
  "GrantCloudWorkerConfiguredCredits u n sourceRef expiresAt profile billing now out db =
     (let (billing, billingValid) = NormalizeCloudWorkerBilling billing;
          (profile, valid) = NormalizeCloudWorkerProfile profile;
          sourceRef = trimSpace sourceRef
      in if \<not> billingValid \<or> billing = CloudWorkerOnDemand \<and> (case expiresAt of None \<Rightarrow> True | Some t \<Rightarrow> \<not> t > now)
         then (db, Inl ''on-demand trial requires a future expiry'')
         else if \<not> valid then (db, Inl ''invalid cloud worker deployment profile'')
         else if u \<le> 0 \<or> n \<le> 0 \<or> n > 100 \<or> sourceRef = '''' \<or> length sourceRef > 96
         then (db, Inl ''invalid cloud worker credit grant'')
         else in_tx out db (all_or_nothing db (grant_rows u sourceRef expiresAt profile billing now [1..n] 0 db)))"

definition GrantCloudWorkerProfileCredits ::
  "uid \<Rightarrow> int \<Rightarrow> string \<Rightarrow> go_time option \<Rightarrow> string \<Rightarrow> go_time \<Rightarrow> db_outcome \<Rightarrow> commerce \<Rightarrow> commerce \<times> (string + int)" where
  "GrantCloudWorkerProfileCredits u n sourceRef expiresAt profile =
     GrantCloudWorkerConfiguredCredits u n sourceRef expiresAt profile CloudWorkerMonthly"

definition GrantCloudWorkerCredits ::
  "uid \<Rightarrow> int \<Rightarrow> string \<Rightarrow> go_time option \<Rightarrow> go_time \<Rightarrow> db_outcome \<Rightarrow> commerce \<Rightarrow> commerce \<times> (string + int)" where
  "GrantCloudWorkerCredits u n sourceRef expiresAt =
     GrantCloudWorkerProfileCredits u n sourceRef expiresAt CloudWorkerPrivateNAT"

text \<open>\<open>grantCloudWorkerCredit\<close>, inside the transaction that fulfils an order; \<open>None\<close> when its arguments are refused\<close>

definition grantCloudWorkerCredit :: "uid \<Rightarrow> string \<Rightarrow> go_time \<Rightarrow> string \<Rightarrow> int \<Rightarrow> string \<Rightarrow> go_time \<Rightarrow> commerce \<Rightarrow> commerce \<times> (string + unit)" where
  "grantCloudWorkerCredit u sourceRef expiresAt profile retentionDays runtimePlan now db =
     (let (profile, valid) = NormalizeCloudWorkerProfile profile;
          (runtimePlan, validPlan) = NormalizeCloudWorkerRuntimePlan runtimePlan
      in if u \<le> 0 \<or> trimSpace sourceRef = '''' then (db, Inl ''invalid cloud worker credit grant'')
         else if \<not> valid then (db, Inl ''invalid cloud worker deployment profile'')
         else if retentionDays < 0 \<or> retentionDays > 90 then (db, Inl ''invalid cloud worker retention window'')
         else if \<not> validPlan then (db, Inl ''invalid cloud worker runtime plan'')
         else (fst (insert_credit (new_credit u (trimSpace sourceRef) (Some expiresAt) profile CloudWorkerMonthly
                                     retentionDays runtimePlan now) db), Inr ()))"

section \<open>Reserving\<close>

definition entitlement_live :: "go_time \<Rightarrow> entitlement \<Rightarrow> bool" where
  "entitlement_live now e \<longleftrightarrow> en_State e = EntitlementActive \<and> en_StartsAt e \<le> now \<and> not_expired (en_ExpiresAt e) now"

definition backed_by_id :: "go_time \<Rightarrow> entitlement list \<Rightarrow> credit \<Rightarrow> bool" where
  "backed_by_id now es c \<longleftrightarrow>
     (\<exists>e\<in>set es. cr_EntitlementID c = Some (en_ID e) \<and> en_UID e = cr_UID c \<and> entitlement_live now e)"

definition backed_by_order :: "go_time \<Rightarrow> entitlement list \<Rightarrow> credit \<Rightarrow> bool" where
  "backed_by_order now es c \<longleftrightarrow>
     (\<exists>e\<in>set es. en_UID e = cr_UID c \<and> en_Source e = ''order'' \<and> cr_SourceRef c = ''order:'' @ en_SourceRef e
                 \<and> entitlement_live now e)"

definition unreserve :: "credit_state \<Rightarrow> credit \<Rightarrow> credit" where
  "unreserve s c = c\<lparr>cr_State := s, cr_ReservationRef := '''', cr_ReservedAt := None\<rparr>"

text \<open>The state of a reservation that was abandoned: revoked when what paid for it has ended\<close>

definition stale_state :: "go_time \<Rightarrow> entitlement list \<Rightarrow> credit \<Rightarrow> credit_state" where
  "stale_state now es c =
     (if cr_EntitlementID c \<noteq> None \<and> \<not> backed_by_id now es c then CreditRevoked
      else if hasPrefix (cr_SourceRef c) ''order:'' \<and> \<not> backed_by_order now es c then CreditRevoked
      else CreditAvailable)"

definition stale_reservation :: "uid \<Rightarrow> go_time \<Rightarrow> credit \<Rightarrow> bool" where
  "stale_reservation u now c \<longleftrightarrow>
     cr_UID c = u \<and> cr_State c = CreditReserved
     \<and> (case cr_ReservedAt c of None \<Rightarrow> False | Some t \<Rightarrow> t < now - 20 * go_minute)"

definition release_stale :: "uid \<Rightarrow> go_time \<Rightarrow> commerce \<Rightarrow> commerce" where
  "release_stale u now db =
     db\<lparr>cd_credits := update_rows (stale_reservation u now) (\<lambda>c. unreserve (stale_state now (cd_entitlements db) c) c) (cd_credits db)\<rparr>"

text \<open>The index \<open>uk_cloud_worker_credits_reservation\<close> admits a reservation's name once.\<close>

definition mark_reserved :: "int \<Rightarrow> string \<Rightarrow> go_time \<Rightarrow> commerce \<Rightarrow> commerce option" where
  "mark_reserved i reservation now db =
     (if \<exists>c\<in>set (cd_credits db). cr_ID c \<noteq> i \<and> cr_ReservationRef c = reservation then None
      else Some (db\<lparr>cd_credits := update_rows (\<lambda>c. cr_ID c = i)
               (\<lambda>c. c\<lparr>cr_State := CreditReserved, cr_ReservationRef := reservation, cr_ReservedAt := Some now\<rparr>) (cd_credits db)\<rparr>))"

definition spendable :: "uid \<Rightarrow> go_time \<Rightarrow> credit \<Rightarrow> bool" where
  "spendable u now c \<longleftrightarrow> cr_UID c = u \<and> cr_State c = CreditAvailable \<and> not_expired (cr_ExpiresAt c) now"

definition ReserveCloudWorkerCredit :: "uid \<Rightarrow> string \<Rightarrow> go_time \<Rightarrow> db_outcome \<Rightarrow> commerce \<Rightarrow> commerce \<times> (string + bool)" where
  "ReserveCloudWorkerCredit u reservation now out db =
     (let reservation = trimSpace reservation
      in if u \<le> 0 \<or> reservation = '''' then (db, Inl ''invalid cloud worker credit reservation'')
         else in_tx out db
           (let db1 = release_stale u now db
            in case first_row (\<lambda>c. (cr_CreatedAt c, cr_ID c)) (filter (spendable u now) (cd_credits db1)) of
                 None \<Rightarrow> (db, Inr False)
               | Some c \<Rightarrow> (case mark_reserved (cr_ID c) reservation now db1 of
                              None \<Rightarrow> (db, Inl db_error)
                            | Some db2 \<Rightarrow> (db2, Inr True))))"

record credit_selection =
  cs_Profile :: string
  cs_BillingMode :: string
  cs_RuntimePlan :: string
  cs_RetentionDays :: int
  cs_ExpiresAt :: "go_time option"

definition no_selection :: credit_selection where
  "no_selection = \<lparr>cs_Profile = '''', cs_BillingMode = '''', cs_RuntimePlan = '''', cs_RetentionDays = 0, cs_ExpiresAt = None\<rparr>"

text \<open>The order in which credits are spent: the fleet of the plan in force, then the cheaper fleets, then the older credit\<close>

definition on_active_plan :: "go_time \<Rightarrow> commerce \<Rightarrow> credit \<Rightarrow> bool" where
  "on_active_plan now db c \<longleftrightarrow>
     (\<exists>e\<in>set (cd_entitlements db). en_UID e = cr_UID c \<and> entitlement_live now e
        \<and> (\<exists>p\<in>set (cd_plans db). pl_ID p = en_PlanID e \<and> pl_Profile p = cr_Profile c))"

definition spend_key :: "go_time \<Rightarrow> commerce \<Rightarrow> credit \<Rightarrow> nat \<times> nat \<times> nat \<times> nat \<times> go_time \<times> int" where
  "spend_key now db c =
     (if on_active_plan now db c then 0 else 1,
      if cr_Profile c = CloudWorkerPackedShared then 0 else 1,
      if cr_Profile c = CloudWorkerPublicIP then 0 else 1,
      if cr_Billing c = CloudWorkerMonthly then 0 else 1,
      cr_CreatedAt c, cr_ID c)"

definition ReserveCloudWorkerConfiguredCredit ::
  "uid \<Rightarrow> string \<Rightarrow> string \<Rightarrow> string \<Rightarrow> go_time \<Rightarrow> db_outcome \<Rightarrow> commerce \<Rightarrow> commerce \<times> (string + (credit_selection \<times> bool))" where
  "ReserveCloudWorkerConfiguredCredit u reservation profile billing now out db =
     (let trimmed = trimSpace reservation
      in if billing \<noteq> '''' \<and> \<not> snd (NormalizeCloudWorkerBilling billing) then (db, Inl ''invalid billing mode'')
         else if profile \<noteq> '''' \<and> \<not> snd (NormalizeCloudWorkerProfile profile) then (db, Inl ''invalid deployment profile'')
         else if u \<le> 0 \<or> trimmed = '''' then (db, Inl ''invalid cloud worker credit reservation'')
         else in_tx out db
           (let db1 = release_stale u now db;
                offered = filter (\<lambda>c. spendable u now c \<and> (profile = '''' \<or> cr_Profile c = profile)
                                     \<and> (billing = '''' \<or> cr_Billing c = billing)) (cd_credits db1)
            in case first_row (spend_key now db1) offered of
                 None \<Rightarrow> (db, Inr (no_selection, False))
               | Some c \<Rightarrow> (case mark_reserved (cr_ID c) trimmed now db1 of
                              None \<Rightarrow> (db, Inl db_error)
                            | Some db2 \<Rightarrow>
                                (db2, Inr (\<lparr>cs_Profile = cr_Profile c, cs_BillingMode = cr_Billing c,
                                            cs_RuntimePlan = cr_RuntimePlan c, cs_RetentionDays = cr_RetentionDays c,
                                            cs_ExpiresAt = cr_ExpiresAt c\<rparr>, True)))))"

definition ReserveCloudWorkerProfileCredit ::
  "uid \<Rightarrow> string \<Rightarrow> string \<Rightarrow> go_time \<Rightarrow> db_outcome \<Rightarrow> commerce \<Rightarrow> commerce \<times> (string + (string \<times> bool))" where
  "ReserveCloudWorkerProfileCredit u reservation profile now out db =
     (let (db1, r) = ReserveCloudWorkerConfiguredCredit u reservation profile CloudWorkerMonthly now out db
      in (db1, case r of Inl e \<Rightarrow> Inl e | Inr (s, reserved) \<Rightarrow> Inr (cs_Profile s, reserved)))"

section \<open>What becomes of a reservation\<close>

definition holds_reservation :: "uid \<Rightarrow> string \<Rightarrow> credit \<Rightarrow> bool" where
  "holds_reservation u reservation c \<longleftrightarrow>
     cr_UID c = u \<and> cr_ReservationRef c = reservation \<and> cr_State c = CreditReserved"

definition ReleaseCloudWorkerCredit :: "uid \<Rightarrow> string \<Rightarrow> go_time \<Rightarrow> db_outcome \<Rightarrow> commerce \<Rightarrow> commerce \<times> (string + unit)" where
  "ReleaseCloudWorkerCredit u reservation now out db =
     (if u \<le> 0 \<or> trimSpace reservation = '''' then (db, Inl ''invalid cloud worker credit release'')
      else in_tx out db
        (db\<lparr>cd_credits := update_rows (holds_reservation u (trimSpace reservation))
              (\<lambda>c. unreserve (if hasPrefix (cr_SourceRef c) ''order:'' \<and> \<not> backed_by_order now (cd_entitlements db) c
                              then CreditRevoked else CreditAvailable) c) (cd_credits db)\<rparr>, Inr ()))"

text \<open>\<open>QueueCloudWorkerCredit\<close> does not trim the reservation's name.\<close>

definition QueueCloudWorkerCredit :: "uid \<Rightarrow> string \<Rightarrow> go_time \<Rightarrow> db_outcome \<Rightarrow> commerce \<Rightarrow> commerce \<times> (string + bool)" where
  "QueueCloudWorkerCredit u reservation now out db =
     (if u \<le> 0 \<or> reservation = '''' then (db, Inl ''invalid cloud worker queue request'')
      else in_tx out db
        (db\<lparr>cd_credits := update_rows (holds_reservation u reservation)
              (\<lambda>c. (unreserve CreditQueued c)\<lparr>cr_QueuedAt := Some now\<rparr>) (cd_credits db)\<rparr>,
         Inr (affected (holds_reservation u reservation) (cd_credits db) = 1)))"

definition queued_for :: "uid \<Rightarrow> go_time \<Rightarrow> credit \<Rightarrow> bool" where
  "queued_for u now c \<longleftrightarrow> cr_UID c = u \<and> cr_State c = CreditQueued \<and> not_expired (cr_ExpiresAt c) now"

definition ClaimQueuedCloudWorkerCredit :: "uid \<Rightarrow> go_time \<Rightarrow> db_outcome \<Rightarrow> commerce \<Rightarrow> commerce \<times> (string + bool)" where
  "ClaimQueuedCloudWorkerCredit u now out db =
     (if u \<le> 0 then (db, Inl ''invalid cloud worker queue claim'')
      else in_tx out db
        (db\<lparr>cd_credits := update_rows (queued_for u now)
              (\<lambda>c. c\<lparr>cr_State := CreditAvailable, cr_QueuedAt := None\<rparr>) (cd_credits db)\<rparr>,
         Inr (affected (queued_for u now) (cd_credits db) > 0)))"

text \<open>Queue positions and the two lists that the sweep retries\<close>

definition queue_times :: "(credit \<Rightarrow> bool) \<Rightarrow> commerce \<Rightarrow> go_time list" where
  "queue_times p db = List.map_filter cr_QueuedAt (filter (\<lambda>c. cr_State c = CreditQueued \<and> p c) (cd_credits db))"

definition CloudWorkerQueuePosition :: "uid \<Rightarrow> commerce \<Rightarrow> string + int" where
  "CloudWorkerQueuePosition u db =
     (if u \<le> 0 then Inl ''invalid cloud worker queue owner''
      else case sort (queue_times (\<lambda>c. cr_UID c = u) db) of
             [] \<Rightarrow> Inr (- 1)
           | t # _ \<Rightarrow> Inr (affected (\<lambda>s. s < t) (queue_times (\<lambda>_. True) db)))"

fun oldest_first :: "(uid \<times> go_time) list \<Rightarrow> (uid, go_time) gomap \<Rightarrow> (uid, go_time) gomap" where
  "oldest_first [] m = m"
| "oldest_first ((u, t) # rows) m =
     oldest_first rows (case map_of m u of None \<Rightarrow> m @ [(u, t)] | Some s \<Rightarrow> gm_put u (min s t) m)"

definition orphaned_credit :: "go_time \<Rightarrow> go_time \<Rightarrow> credit \<Rightarrow> bool" where
  "orphaned_credit minAge now c \<longleftrightarrow>
     cr_State c = CreditAvailable \<and> (hasPrefix (cr_SourceRef c) ''order:'' \<or> hasPrefix (cr_SourceRef c) ''invite:'')
     \<and> cr_CreatedAt c \<le> now - minAge \<and> not_expired (cr_ExpiresAt c) now"

text \<open>Both lists take whole seconds of the age and default their limit.\<close>

definition whole_seconds :: "duration \<Rightarrow> duration" where
  "whole_seconds minAge = (if minAge < 0 then 0 else go_quot minAge go_second * go_second)"

definition ListOrphanedCloudWorkerCredits :: "duration \<Rightarrow> int \<Rightarrow> go_time \<Rightarrow> commerce \<Rightarrow> uid list" where
  "ListOrphanedCloudWorkerCredits minAge limit now db =
     take (nat (if limit \<le> 0 then 10 else limit))
       (map fst (sort_key snd (oldest_first
          (map (\<lambda>c. (cr_UID c, cr_CreatedAt c)) (filter (orphaned_credit (whole_seconds minAge) now) (cd_credits db))) [])))"

record queued_credit =
  qc_UID :: uid
  qc_Tier :: string
  qc_QueuedAt :: go_time

definition ListQueuedCloudWorkerCredits :: "duration \<Rightarrow> int \<Rightarrow> go_time \<Rightarrow> commerce \<Rightarrow> queued_credit list" where
  "ListQueuedCloudWorkerCredits minAge limit now db =
     take (nat (if limit \<le> 0 then 20 else limit))
       (sort_key qc_QueuedAt (List.map_filter
          (\<lambda>c. case cr_QueuedAt c of
                 None \<Rightarrow> None
               | Some t \<Rightarrow> if cr_State c = CreditQueued \<and> t \<le> now - whole_seconds minAge
                           then Some \<lparr>qc_UID = cr_UID c, qc_Tier = cr_RuntimePlan c, qc_QueuedAt = t\<rparr> else None)
          (cd_credits db)))"

end
