(* ===== verification/CloudLifecycles.thy ===== *)
theory CloudLifecycles
  imports CloudCredits
begin

text \<open>
  The lifecycles of cloud workers (\<open>server/db/postgres/cloud_worker_credits.go\<close>, \<open>cloud_worker_billing.go\<close>): until when a
  worker is paid for, after which moment it may be destroyed, who is destroying it, and which billing action runs at the
  provider. Each function is one statement; its WHERE clause is a predicate of its own.
\<close>

section \<open>A worker is registered\<close>

definition new_lifecycle :: "uid \<Rightarrow> uid \<Rightarrow> string \<Rightarrow> go_time \<Rightarrow> go_time \<Rightarrow> string \<Rightarrow> int \<Rightarrow> go_time \<Rightarrow> int \<Rightarrow> lifecycle" where
  "new_lifecycle worker owner tenant expires deleteAfter billing retention now i =
     \<lparr>lc_ID = i, lc_WorkerUID = worker, lc_OwnerUID = owner, lc_TenantName = tenant, lc_PackageExpiresAt = expires,
      lc_DeleteAfter = deleteAfter, lc_State = WorkerActive, lc_ArchivedAt = None, lc_DeleteStartedAt = None,
      lc_DeletedAt = None, lc_LastError = '''', lc_CreatedAt = now, lc_UpdatedAt = now, lc_BillingMode = billing,
      lc_ConversionPending = False, lc_BillingAction = '''', lc_BillingActionStartedAt = None, lc_RetentionDays = retention\<rparr>"

definition tenant_taken :: "string \<Rightarrow> uid \<Rightarrow> commerce \<Rightarrow> bool" where
  "tenant_taken tenant worker db \<longleftrightarrow> (\<exists>l\<in>set (cd_lifecycles db). lc_TenantName l = tenant \<and> lc_WorkerUID l \<noteq> worker)"

definition add_lifecycle :: "(int \<Rightarrow> lifecycle) \<Rightarrow> commerce \<Rightarrow> commerce" where
  "add_lifecycle row db = db\<lparr>cd_lifecycles := cd_lifecycles db @ [row (cd_nextID db)], cd_nextID := cd_nextID db + 1\<rparr>"

text \<open>\<open>INSERT INTO cloud_worker_lifecycles ... ON CONFLICT (worker_uid) DO UPDATE\<close>; \<open>None\<close> when the tenant's name is taken\<close>

definition upsert_lifecycle :: "uid \<Rightarrow> uid \<Rightarrow> string \<Rightarrow> go_time \<Rightarrow> go_time \<Rightarrow> string \<Rightarrow> int \<Rightarrow> go_time \<Rightarrow> commerce \<Rightarrow> commerce option" where
  "upsert_lifecycle worker owner tenant expires deleteAfter billing retention now db =
     (if tenant_taken tenant worker db then None
      else if \<exists>l\<in>set (cd_lifecycles db). lc_WorkerUID l = worker
      then Some (db\<lparr>cd_lifecycles := update_rows (\<lambda>l. lc_WorkerUID l = worker)
             (\<lambda>l. l\<lparr>lc_OwnerUID := owner, lc_TenantName := tenant, lc_PackageExpiresAt := expires,
                    lc_DeleteAfter := deleteAfter, lc_BillingMode := billing, lc_RetentionDays := retention,
                    lc_State := WorkerActive, lc_ArchivedAt := None, lc_DeleteStartedAt := None, lc_LastError := '''',
                    lc_UpdatedAt := now\<rparr>) (cd_lifecycles db)\<rparr>)
      else Some (add_lifecycle (new_lifecycle worker owner tenant expires deleteAfter billing retention now) db))"

text \<open>\<open>CommitCloudWorkerCredit\<close>: the credit is consumed by its worker, whose lifecycle starts with the credit's window.\<close>

definition commit_grace :: "string \<Rightarrow> int \<Rightarrow> int" where
  "commit_grace billing graceDays =
     (let g = (if billing = CloudWorkerOnDemand then 3 else graceDays)
      in if g \<le> 0 then CloudWorkerRetentionDays 0 0 else g)"

definition consume_credit :: "uid \<Rightarrow> string \<Rightarrow> uid \<Rightarrow> go_time \<Rightarrow> commerce \<Rightarrow> commerce" where
  "consume_credit u reservation worker now db =
     db\<lparr>cd_credits := update_rows (holds_reservation u reservation)
          (\<lambda>c. c\<lparr>cr_State := CreditConsumed, cr_WorkerUID := Some worker, cr_ConsumedAt := Some now\<rparr>) (cd_credits db)\<rparr>"

definition CommitCloudWorkerCredit ::
  "uid \<Rightarrow> string \<Rightarrow> uid \<Rightarrow> string \<Rightarrow> int \<Rightarrow> go_time \<Rightarrow> db_outcome \<Rightarrow> commerce \<Rightarrow> commerce \<times> (string + unit)" where
  "CommitCloudWorkerCredit u reservation worker tenantName graceDays now out db =
     (let trimmed = trimSpace reservation
      in if u \<le> 0 \<or> trimmed = '''' \<or> worker \<le> 0 then (db, Inl ''invalid cloud worker credit commit'')
         else if trimSpace tenantName = '''' \<or> graceDays < 0 \<or> graceDays > 90
         then (db, Inl ''invalid cloud worker lifecycle metadata'')
         else in_tx out db
           (case List.find (holds_reservation u trimmed) (cd_credits db) of
              None \<Rightarrow> (db, Inl ''cloud worker credit reservation not found'')
            | Some c \<Rightarrow>
                let db1 = consume_credit u trimmed worker now db
                in case cr_ExpiresAt c of
                     None \<Rightarrow> (db1, Inr ())
                   | Some e \<Rightarrow>
                       let grace = commit_grace (cr_Billing c) graceDays
                       in (case upsert_lifecycle worker u (trimSpace tenantName) e (addDays e grace) (cr_Billing c) grace now db1 of
                             None \<Rightarrow> (db, Inl db_error)
                           | Some db2 \<Rightarrow> (db2, Inr ()))))"

definition RegisterCloudWorkerLifecycle ::
  "uid \<Rightarrow> uid \<Rightarrow> string \<Rightarrow> go_time \<Rightarrow> string \<Rightarrow> int \<Rightarrow> go_time \<Rightarrow> db_outcome \<Rightarrow> commerce \<Rightarrow> commerce \<times> (string + unit)" where
  "RegisterCloudWorkerLifecycle worker owner tenantName packageExpiresAt billingMode graceDays now out db =
     (let (billing, valid) = NormalizeCloudWorkerBilling billingMode
      in if worker \<le> 0 \<or> owner \<le> 0 \<or> trimSpace tenantName = '''' \<or> is_zero_time packageExpiresAt \<or> \<not> valid
            \<or> graceDays < 0 \<or> graceDays > 90
         then (db, Inl ''invalid cloud worker lifecycle registration'')
         else in_tx out db
           (if \<exists>l\<in>set (cd_lifecycles db). lc_WorkerUID l = worker then (db, Inr ())
            else if tenant_taken (trimSpace tenantName) worker db then (db, Inl db_error)
            else (add_lifecycle (new_lifecycle worker owner (trimSpace tenantName) packageExpiresAt
                    (addDays packageExpiresAt graceDays) billing graceDays now) db, Inr ())))"

section \<open>Paid periods\<close>

definition update_lifecycles :: "(lifecycle \<Rightarrow> bool) \<Rightarrow> (lifecycle \<Rightarrow> lifecycle) \<Rightarrow> commerce \<Rightarrow> commerce" where
  "update_lifecycles p f db = db\<lparr>cd_lifecycles := update_rows p f (cd_lifecycles db)\<rparr>"

definition renewable :: "lifecycle \<Rightarrow> bool" where
  "renewable l \<longleftrightarrow> lc_State l \<in> {WorkerActive, DeletePending, DeleteFailed}"

definition renewed_grace :: "int \<Rightarrow> lifecycle \<Rightarrow> int" where
  "renewed_grace retentionDays l =
     (if retentionDays > 0 then retentionDays else if lc_RetentionDays l > 0 then lc_RetentionDays l else 15)"

definition renewed :: "go_time \<Rightarrow> int \<Rightarrow> go_time \<Rightarrow> lifecycle \<Rightarrow> lifecycle" where
  "renewed expiresAt retentionDays now l =
     l\<lparr>lc_PackageExpiresAt := max (lc_PackageExpiresAt l) expiresAt,
       lc_RetentionDays := (if retentionDays > 0 then retentionDays else lc_RetentionDays l),
       lc_DeleteAfter := addDays (max (lc_PackageExpiresAt l) expiresAt) (renewed_grace retentionDays l),
       lc_State := WorkerActive, lc_ArchivedAt := None, lc_DeleteStartedAt := None, lc_LastError := '''',
       lc_UpdatedAt := now\<rparr>"

text \<open>Inside the transaction of a payment; a trial is also to be converted to a month.\<close>

definition renewed_by_payment :: "go_time \<Rightarrow> int \<Rightarrow> go_time \<Rightarrow> lifecycle \<Rightarrow> lifecycle" where
  "renewed_by_payment expiresAt retentionDays now l =
     (renewed expiresAt retentionDays now l)
       \<lparr>lc_ConversionPending := (if lc_BillingMode l = CloudWorkerOnDemand then True else lc_ConversionPending l)\<rparr>"

definition extendCloudWorkerLifecyclesWithPaidPeriod ::
  "uid \<Rightarrow> go_time \<Rightarrow> int \<Rightarrow> go_time \<Rightarrow> commerce \<Rightarrow> commerce \<times> (string + unit)" where
  "extendCloudWorkerLifecyclesWithPaidPeriod owner expiresAt retentionDays now db =
     (if owner \<le> 0 \<or> is_zero_time expiresAt then (db, Inl ''invalid cloud worker lifecycle extension'')
      else if retentionDays < 0 \<or> retentionDays > 90 then (db, Inl ''invalid cloud worker retention window'')
      else (update_lifecycles (\<lambda>l. lc_OwnerUID l = owner \<and> renewable l) (renewed_by_payment expiresAt retentionDays now) db, Inr ()))"

definition ExtendCloudWorkerLifecycles ::
  "uid \<Rightarrow> go_time \<Rightarrow> int \<Rightarrow> go_time \<Rightarrow> db_outcome \<Rightarrow> commerce \<Rightarrow> commerce \<times> (string + unit)" where
  "ExtendCloudWorkerLifecycles owner expiresAt graceDays now out db =
     (if owner \<le> 0 \<or> is_zero_time expiresAt \<or> graceDays < 0 \<or> graceDays > 90
      then (db, Inl ''invalid cloud worker lifecycle extension'')
      else in_tx out db (update_lifecycles (\<lambda>l. lc_OwnerUID l = owner \<and> renewable l) (renewed expiresAt graceDays now) db, Inr ()))"

definition ExtendCloudWorkerLifecycle ::
  "int \<Rightarrow> go_time \<Rightarrow> int \<Rightarrow> go_time \<Rightarrow> db_outcome \<Rightarrow> commerce \<Rightarrow> commerce \<times> (string + unit)" where
  "ExtendCloudWorkerLifecycle i expiresAt graceDays now out db =
     (if i \<le> 0 \<or> is_zero_time expiresAt \<or> graceDays < 0 \<or> graceDays > 90
      then (db, Inl ''invalid cloud worker lifecycle extension'')
      else in_tx out db (update_lifecycles (\<lambda>l. lc_ID l = i \<and> renewable l) (renewed expiresAt graceDays now) db, Inr ()))"

section \<open>Towards the end of a worker\<close>

definition archived :: "go_time \<Rightarrow> go_time \<Rightarrow> lifecycle \<Rightarrow> lifecycle" where
  "archived deleteAfter now l =
     l\<lparr>lc_State := DeletePending, lc_ArchivedAt := (case lc_ArchivedAt l of None \<Rightarrow> Some now | Some t \<Rightarrow> Some t),
       lc_DeleteAfter := deleteAfter, lc_UpdatedAt := now\<rparr>"

definition ForceCloudWorkerLifecyclePending ::
  "int \<Rightarrow> go_time \<Rightarrow> go_time \<Rightarrow> db_outcome \<Rightarrow> commerce \<Rightarrow> commerce \<times> (string + unit)" where
  "ForceCloudWorkerLifecyclePending i deleteAfter now out db =
     (if i \<le> 0 \<or> is_zero_time deleteAfter then (db, Inl ''invalid cloud worker lifecycle force-pending'')
      else in_tx out db (update_lifecycles (\<lambda>l. lc_ID l = i \<and> lc_State l \<in> {WorkerActive, DeletePending})
                           (archived deleteAfter now) db, Inr ()))"

definition MarkCloudWorkerLifecyclePending ::
  "int \<Rightarrow> go_time \<Rightarrow> go_time \<Rightarrow> db_outcome \<Rightarrow> commerce \<Rightarrow> commerce \<times> (string + unit)" where
  "MarkCloudWorkerLifecyclePending i deleteAfter now out db =
     in_tx out db (update_lifecycles (\<lambda>l. lc_ID l = i \<and> lc_State l = WorkerActive \<and> lc_PackageExpiresAt l \<le> now)
                     (archived deleteAfter now) db, Inr ())"

text \<open>The rows a claim may take: their package and their retention have run out and no billing action protects them.\<close>

definition stale_claim :: "go_time option \<Rightarrow> go_time \<Rightarrow> bool" where
  "stale_claim started now \<longleftrightarrow> (case started of None \<Rightarrow> False | Some t \<Rightarrow> t \<le> now - 30 * go_minute)"

definition claimable :: "go_time \<Rightarrow> lifecycle \<Rightarrow> bool" where
  "claimable now l \<longleftrightarrow>
     \<not> lc_ConversionPending l \<and> lc_BillingAction l = '''' \<and> lc_PackageExpiresAt l \<le> now \<and> lc_DeleteAfter l \<le> now
     \<and> (lc_State l \<in> {DeletePending, DeleteFailed} \<or> lc_State l = DeleteRunning \<and> stale_claim (lc_DeleteStartedAt l) now)"

definition claimed :: "go_time \<Rightarrow> lifecycle \<Rightarrow> lifecycle" where
  "claimed now l = l\<lparr>lc_State := DeleteRunning, lc_DeleteStartedAt := Some now, lc_UpdatedAt := now\<rparr>"

definition ClaimCloudWorkerLifecycleDeletion :: "int \<Rightarrow> go_time \<Rightarrow> db_outcome \<Rightarrow> commerce \<Rightarrow> commerce \<times> (string + bool)" where
  "ClaimCloudWorkerLifecycleDeletion i now out db =
     in_tx out db (update_lifecycles (\<lambda>l. lc_ID l = i \<and> claimable now l) (claimed now) db,
                   Inr (affected (\<lambda>l. lc_ID l = i \<and> claimable now l) (cd_lifecycles db) = 1))"

definition MarkCloudWorkerLifecycleDeleted :: "int \<Rightarrow> string \<Rightarrow> go_time \<Rightarrow> db_outcome \<Rightarrow> commerce \<Rightarrow> commerce \<times> (string + unit)" where
  "MarkCloudWorkerLifecycleDeleted i errText now out db =
     (let s = (if trimSpace errText \<noteq> '''' then DeleteFailed else WorkerDeleted)
      in in_tx out db (update_lifecycles (\<lambda>l. lc_ID l = i)
           (\<lambda>l. l\<lparr>lc_State := s, lc_DeletedAt := (if s = WorkerDeleted then Some now else lc_DeletedAt l),
                  lc_LastError := trimSpace errText, lc_UpdatedAt := now\<rparr>) db, Inr ()))"

definition MarkCloudWorkerLifecycleAwaitingRecycle ::
  "int \<Rightarrow> string \<Rightarrow> go_time \<Rightarrow> db_outcome \<Rightarrow> commerce \<Rightarrow> commerce \<times> (string + unit)" where
  "MarkCloudWorkerLifecycleAwaitingRecycle i note now out db =
     in_tx out db (update_lifecycles (\<lambda>l. lc_ID l = i \<and> lc_State l = DeleteRunning)
        (\<lambda>l. l\<lparr>lc_State := DeletePending, lc_DeleteAfter := now + 60 * go_minute, lc_LastError := trimSpace note,
               lc_UpdatedAt := now\<rparr>) db, Inr ())"

section \<open>Reading\<close>

definition ListCloudWorkerLifecycles :: "uid \<Rightarrow> commerce \<Rightarrow> lifecycle list" where
  "ListCloudWorkerLifecycles owner db =
     sort_key (\<lambda>l. (lc_CreatedAt l, lc_ID l))
       (filter (\<lambda>l. lc_OwnerUID l = owner \<and> lc_State l \<noteq> WorkerDeleted) (cd_lifecycles db))"

definition lifecycle_due :: "go_time \<Rightarrow> lifecycle \<Rightarrow> bool" where
  "lifecycle_due now l \<longleftrightarrow>
     renewable l \<and> lc_ConversionPending l \<and> lc_UpdatedAt l \<le> now - go_minute
     \<or> lc_State l = WorkerActive \<and> lc_PackageExpiresAt l \<le> now
     \<or> lc_State l \<in> {DeletePending, DeleteFailed} \<and> lc_DeleteAfter l \<le> now
     \<or> lc_State l = DeleteRunning \<and> stale_claim (lc_DeleteStartedAt l) now"

definition ListCloudWorkerLifecycleDue :: "go_time \<Rightarrow> int \<Rightarrow> commerce \<Rightarrow> lifecycle list" where
  "ListCloudWorkerLifecycleDue now limit db =
     take (nat (if limit \<le> 0 \<or> limit > 500 then 100 else limit))
       (sort_key (\<lambda>l. (lc_DeleteAfter l, lc_ID l)) (filter (lifecycle_due now) (cd_lifecycles db)))"

definition GetCloudWorkerBillingLifecycle :: "string \<Rightarrow> commerce \<Rightarrow> lifecycle option" where
  "GetCloudWorkerBillingLifecycle tenant db =
     List.find (\<lambda>l. lc_TenantName l = tenant \<and> lc_State l \<noteq> WorkerDeleted) (cd_lifecycles db)"

section \<open>Billing actions\<close>

definition RequestCloudWorkerConversion :: "int \<Rightarrow> go_time \<Rightarrow> db_outcome \<Rightarrow> commerce \<Rightarrow> commerce \<times> (string + bool)" where
  "RequestCloudWorkerConversion i now out db =
     (let p = (\<lambda>l. lc_ID l = i \<and> lc_BillingMode l = CloudWorkerOnDemand \<and> renewable l)
      in in_tx out db (update_lifecycles p (\<lambda>l. l\<lparr>lc_ConversionPending := True, lc_UpdatedAt := now\<rparr>) db,
                       Inr (affected p (cd_lifecycles db) = 1)))"

definition action_claimable :: "string \<Rightarrow> bool \<Rightarrow> go_time \<Rightarrow> lifecycle \<Rightarrow> bool" where
  "action_claimable action automatic now l \<longleftrightarrow>
     renewable l
     \<and> (lc_BillingAction l = ''''
        \<or> (case lc_BillingActionStartedAt l of None \<Rightarrow> False | Some t \<Rightarrow> t < now - 30 * go_minute))
     \<and> (if action \<in> {''convert'', ''cancel''} then lc_ConversionPending l
        else lc_BillingMode l = CloudWorkerOnDemand \<and> \<not> lc_ConversionPending l)
     \<and> (\<not> automatic \<or> action = ''convert'' \<or> lc_PackageExpiresAt l \<le> now)
     \<and> (action \<noteq> ''start'' \<or> lc_PackageExpiresAt l > now)"

definition ClaimCloudWorkerBillingAction ::
  "int \<Rightarrow> string \<Rightarrow> bool \<Rightarrow> go_time \<Rightarrow> db_outcome \<Rightarrow> commerce \<Rightarrow> commerce \<times> (string + bool)" where
  "ClaimCloudWorkerBillingAction i action automatic now out db =
     (if action \<notin> {''convert'', ''suspend'', ''start'', ''cancel''} then (db, Inl ''invalid billing action'')
      else let p = (\<lambda>l. lc_ID l = i \<and> action_claimable action automatic now l)
           in in_tx out db (update_lifecycles p
                (\<lambda>l. l\<lparr>lc_BillingAction := action, lc_BillingActionStartedAt := Some now, lc_UpdatedAt := now\<rparr>) db,
                Inr (affected p (cd_lifecycles db) = 1)))"

definition action_over :: "string \<Rightarrow> go_time \<Rightarrow> lifecycle \<Rightarrow> lifecycle" where
  "action_over err now l =
     l\<lparr>lc_BillingAction := '''', lc_BillingActionStartedAt := None, lc_LastError := err, lc_UpdatedAt := now\<rparr>"

definition suspended :: "string \<Rightarrow> go_time \<Rightarrow> lifecycle \<Rightarrow> lifecycle" where
  "suspended action now l =
     (if action = ''suspend'' \<and> lc_PackageExpiresAt l \<le> now \<and> \<not> lc_ConversionPending l
      then l\<lparr>lc_State := DeletePending, lc_DeleteAfter := max (lc_DeleteAfter l) (now + 3 * go_day)\<rparr> else l)"

definition converted :: "go_time \<Rightarrow> go_time \<Rightarrow> lifecycle \<Rightarrow> lifecycle" where
  "converted expiresAt now l =
     (action_over '''' now l)\<lparr>lc_BillingMode := CloudWorkerMonthly, lc_ConversionPending := False,
       lc_PackageExpiresAt := expiresAt, lc_DeleteAfter := expiresAt + 15 * go_day, lc_State := WorkerActive,
       lc_ArchivedAt := None, lc_DeleteStartedAt := None\<rparr>"

text \<open>The mode noted in the bot's deployment is not part of these tables.\<close>

definition CompleteCloudWorkerBillingAction ::
  "int \<Rightarrow> string \<Rightarrow> go_time \<Rightarrow> string \<Rightarrow> go_time \<Rightarrow> db_outcome \<Rightarrow> commerce \<Rightarrow> commerce \<times> (string + unit)" where
  "CompleteCloudWorkerBillingAction i action expiresAt errorText now out db =
     (if errorText \<noteq> '''' then
        in_tx out db (update_lifecycles (\<lambda>l. lc_ID l = i \<and> lc_BillingAction l = action) (action_over errorText now) db, Inr ())
      else if action = ''cancel'' then
        in_tx out db (update_lifecycles (\<lambda>l. lc_ID l = i \<and> lc_BillingAction l = ''cancel'' \<and> lc_BillingMode l = CloudWorkerOnDemand)
          (\<lambda>l. (action_over '''' now l)\<lparr>lc_ConversionPending := False, lc_State := WorkerActive\<rparr>) db, Inr ())
      else if action \<noteq> ''convert'' then
        in_tx out db (update_lifecycles (\<lambda>l. lc_ID l = i \<and> lc_BillingAction l = action)
          (\<lambda>l. action_over '''' now (suspended action now l)) db, Inr ())
      else if \<not> expiresAt > now then (db, Inl ''provider monthly expiry is not in the future'')
      else let p = (\<lambda>l. lc_ID l = i \<and> lc_BillingAction l = ''convert'' \<and> lc_State l \<notin> {DeleteRunning, WorkerDeleted})
           in in_tx out db
             (if affected p (cd_lifecycles db) = 0 then (db, Inl ''sql: no rows in result set'')
              else (update_lifecycles p (converted expiresAt now) db, Inr ())))"

definition trial_releasable :: "lifecycle \<Rightarrow> bool" where
  "trial_releasable l \<longleftrightarrow> lc_BillingMode l = CloudWorkerOnDemand \<and> \<not> lc_ConversionPending l \<and> lc_BillingAction l = '''' \<and> renewable l"

definition ClaimCloudWorkerTrialRelease :: "int \<Rightarrow> go_time \<Rightarrow> db_outcome \<Rightarrow> commerce \<Rightarrow> commerce \<times> (string + bool)" where
  "ClaimCloudWorkerTrialRelease i now out db =
     in_tx out db (update_lifecycles (\<lambda>l. lc_ID l = i \<and> trial_releasable l) (claimed now) db,
                   Inr (affected (\<lambda>l. lc_ID l = i \<and> trial_releasable l) (cd_lifecycles db) = 1))"

section \<open>What updates of lifecycles leave alone\<close>

lemma update_lifecycles_simps [simp]:
  "cd_credits (update_lifecycles p f db) = cd_credits db"
  "cd_entitlements (update_lifecycles p f db) = cd_entitlements db"
  "cd_orders (update_lifecycles p f db) = cd_orders db"
  "cd_grants (update_lifecycles p f db) = cd_grants db"
  "cd_ledger (update_lifecycles p f db) = cd_ledger db"
  "cd_events (update_lifecycles p f db) = cd_events db"
  "cd_plans (update_lifecycles p f db) = cd_plans db"
  "cd_requests (update_lifecycles p f db) = cd_requests db"
  "cd_nextID (update_lifecycles p f db) = cd_nextID db"
  "cd_lifecycles (update_lifecycles p f db) = update_rows p f (cd_lifecycles db)"
  by (simp_all add: update_lifecycles_def)

end
