(* ===== verification/Orders.thy ===== *)
theory Orders
  imports CloudLifecycles
begin

text \<open>
  Orders for packages (\<open>server/db/postgres/commercial_payment.go\<close>, \<open>commercial_plan_tier.go\<close>): an order is created, its
  payment begins, a confirmed payment fulfils it once, and a refund takes back what it gave. Advisory locks serialise
  transactions, which run one after the other here. The iteration order of a map of budgets is that of the list that
  stands for it. A plan read \<open>FOR SHARE\<close> is the row of the moment.
\<close>

section \<open>Plans and their ladder\<close>

definition plan_by_id :: "int \<Rightarrow> commerce \<Rightarrow> plan option" where
  "plan_by_id i db = List.find (\<lambda>p. pl_ID p = i) (cd_plans db)"

definition plan_by_slug :: "string \<Rightarrow> commerce \<Rightarrow> plan option" where
  "plan_by_slug slug db = List.find (\<lambda>p. pl_Slug p = slug) (cd_plans db)"

definition GetCommercialPlan :: "int \<Rightarrow> commerce \<Rightarrow> string + plan option" where
  "GetCommercialPlan i db = (if i \<le> 0 then Inl ''invalid commercial plan id'' else Inr (plan_by_id i db))"

definition GetCommercialPlanBySlug :: "string \<Rightarrow> commerce \<Rightarrow> plan option" where
  "GetCommercialPlanBySlug slug db = plan_by_slug (trimSpace slug) db"

definition planTierForPlanID :: "int \<Rightarrow> commerce \<Rightarrow> int" where
  "planTierForPlanID i db = (case plan_by_id i db of None \<Rightarrow> 0 | Some p \<Rightarrow> pl_Tier p)"

definition planTierForSlug :: "string \<Rightarrow> commerce \<Rightarrow> int" where
  "planTierForSlug slug db =
     (if trimSpace slug = '''' then 0
      else case plan_by_slug (trimSpace slug) db of None \<Rightarrow> 0 | Some p \<Rightarrow> pl_Tier p)"

definition entitlement_tiers :: "uid \<Rightarrow> go_time \<Rightarrow> commerce \<Rightarrow> int list" where
  "entitlement_tiers u now db =
     filter (\<lambda>t. t > 0) (map (\<lambda>e. planTierForPlanID (en_PlanID e) db)
       (filter (\<lambda>e. en_UID e = u \<and> entitlement_live now e) (cd_entitlements db)))"

definition activeCommercialOfficialPlanTier :: "uid \<Rightarrow> go_time \<Rightarrow> commerce \<Rightarrow> int" where
  "activeCommercialOfficialPlanTier u now db = foldr max (entitlement_tiers u now db) 0"

definition validateCommercialOfficialPlanPurchase :: "uid \<Rightarrow> string \<Rightarrow> go_time \<Rightarrow> commerce \<Rightarrow> string + unit" where
  "validateCommercialOfficialPlanPurchase u targetSlug now db =
     (let targetTier = planTierForSlug targetSlug db
      in if targetTier = 0 then Inr ()
         else if activeCommercialOfficialPlanTier u now db > targetTier then Inl ''commercial plan is below active plan''
         else Inr ())"

definition open_order :: "go_time \<Rightarrow> commercial_order \<Rightarrow> bool" where
  "open_order now r \<longleftrightarrow> or_Status r \<in> {OrderCreated, OrderPending} \<and> not_expired (or_ExpiresAt r) now"

definition validateCommercialOfficialOpenOrder :: "uid \<Rightarrow> int \<Rightarrow> string \<Rightarrow> string \<Rightarrow> go_time \<Rightarrow> commerce \<Rightarrow> string + unit" where
  "validateCommercialOfficialOpenOrder u targetPlanID channel targetSlug now db =
     (if planTierForSlug targetSlug db = 0 then Inr ()
      else if \<exists>r\<in>set (cd_orders db). or_UID r = u \<and> open_order now r \<and> planTierForPlanID (or_PlanID r) db > 0
                \<and> (or_PlanID r \<noteq> targetPlanID \<or> or_Channel r \<noteq> trimSpace channel)
      then Inl ''another commercial plan order is already pending''
      else Inr ())"

definition commercialPlanIDsBelow :: "int \<Rightarrow> commerce \<Rightarrow> int list" where
  "commercialPlanIDsBelow targetTier db =
     (if targetTier \<le> 0 then []
      else map pl_ID (sort_key (\<lambda>p. (pl_Tier p, pl_ID p)) (filter (\<lambda>p. pl_Tier p > 0 \<and> pl_Tier p < targetTier) (cd_plans db))))"

definition commercialPlanHasQuota :: "plan \<Rightarrow> bool" where
  "commercialPlanHasQuota p \<longleftrightarrow> pl_MonthlyBudget p > 0 \<or> (\<exists>(m, a)\<in>set (pl_ModelBudgets p). a > 0)"

definition commercialPlanHasPositiveModelBudget :: "plan \<Rightarrow> bool" where
  "commercialPlanHasPositiveModelBudget p \<longleftrightarrow>
     (\<exists>(m, a)\<in>set (pl_ModelBudgets p). trimSpace m \<noteq> '''' \<and> trimSpace m \<noteq> ''*'' \<and> a > 0)"

text \<open>What a plan says of the worker that it buys\<close>

definition planIncludesCloudWorker :: "int \<Rightarrow> commerce \<Rightarrow> bool" where
  "planIncludesCloudWorker i db = (case plan_by_id i db of None \<Rightarrow> False | Some p \<Rightarrow> pl_WorkerIncluded p)"

definition planCloudWorkerDeploymentProfile :: "int \<Rightarrow> commerce \<Rightarrow> string" where
  "planCloudWorkerDeploymentProfile i db =
     (case plan_by_id i db of
        None \<Rightarrow> CloudWorkerPrivateNAT
      | Some p \<Rightarrow> (case NormalizeCloudWorkerProfile (pl_Profile p) of (profile, ok) \<Rightarrow> if ok then profile else CloudWorkerPrivateNAT))"

definition planCloudWorkerRuntimePlan :: "int \<Rightarrow> commerce \<Rightarrow> string" where
  "planCloudWorkerRuntimePlan i db =
     (case plan_by_id i db of
        None \<Rightarrow> ''''
      | Some p \<Rightarrow> (case NormalizeCloudWorkerRuntimePlan (pl_RuntimePlan p) of (tier, ok) \<Rightarrow> if ok then tier else ''''))"

definition planCloudWorkerRetentionDays :: "int \<Rightarrow> int \<Rightarrow> commerce \<Rightarrow> int" where
  "planCloudWorkerRetentionDays i durationDays db =
     (case plan_by_id i db of
        None \<Rightarrow> CloudWorkerRetentionDays 0 durationDays
      | Some p \<Rightarrow> CloudWorkerRetentionDays (pl_RetentionDays p) durationDays)"

section \<open>Quota grants and the ledger\<close>

text \<open>A statement after the other in a transaction, up to the first error\<close>

definition and_then :: "commerce \<times> (string + 'a) \<Rightarrow> ('a \<Rightarrow> commerce \<Rightarrow> commerce \<times> (string + 'b)) \<Rightarrow> commerce \<times> (string + 'b)" where
  "and_then r f = (case snd r of Inl e \<Rightarrow> (fst r, Inl e) | Inr x \<Rightarrow> f x (fst r))"

definition plan_budgets :: "rat \<Rightarrow> (string, rat) gomap \<Rightarrow> (string, rat) gomap" where
  "plan_budgets monthlyBudget budgets = (if monthlyBudget > 0 then gm_put ''*'' monthlyBudget budgets else budgets)"

definition add_grant :: "uid \<Rightarrow> int \<Rightarrow> string \<Rightarrow> string \<Rightarrow> string \<Rightarrow> go_time \<Rightarrow> go_time \<Rightarrow> string \<times> rat \<Rightarrow> commerce \<Rightarrow> commerce" where
  "add_grant u planID source sourceRef planName startsAt expiresAt ma db =
     (let model = trimSpace (fst ma); amount = snd ma; i = cd_nextID db
      in if model = '''' \<or> amount \<le> 0 then db
         else db\<lparr>cd_grants := cd_grants db @ [\<lparr>qg_ID = i, qg_UID = u, qg_PlanID = planID, qg_GrantType = source,
                   qg_Model = model, qg_Amount = amount, qg_EffectiveAt = startsAt, qg_ExpiresAt = Some expiresAt,
                   qg_SourceRef = sourceRef, qg_RevokedAt = None\<rparr>],
                 cd_ledger := cd_ledger db @ [\<lparr>le_UID = u, le_Model = model, le_Amount = amount, le_EntryType = ''grant'',
                   le_SourceType = source, le_SourceID = i, le_Note = planName\<rparr>],
                 cd_nextID := i + 1\<rparr>)"

definition createCommercialPlanGrants ::
  "uid \<Rightarrow> int \<Rightarrow> string \<Rightarrow> string \<Rightarrow> string \<Rightarrow> rat \<Rightarrow> (string, rat) gomap \<Rightarrow> go_time \<Rightarrow> go_time \<Rightarrow> commerce \<Rightarrow> commerce" where
  "createCommercialPlanGrants u planID source sourceRef planName monthlyBudget budgets startsAt expiresAt db =
     fold (add_grant u planID source sourceRef planName startsAt expiresAt) (plan_budgets monthlyBudget budgets) db"

definition reversal :: "string \<Rightarrow> string \<Rightarrow> quota_grant \<Rightarrow> ledger_entry" where
  "reversal sourceType note g =
     \<lparr>le_UID = qg_UID g, le_Model = qg_Model g, le_Amount = - qg_Amount g, le_EntryType = ''revoke'',
      le_SourceType = sourceType, le_SourceID = qg_ID g, le_Note = note\<rparr>"

text \<open>\<open>revoked_at = at, expires_at = LEAST(COALESCE(expires_at, at), at)\<close>\<close>

definition revoke_grant :: "go_time \<Rightarrow> quota_grant \<Rightarrow> quota_grant" where
  "revoke_grant moment g =
     g\<lparr>qg_RevokedAt := Some moment, qg_ExpiresAt := Some (case qg_ExpiresAt g of None \<Rightarrow> moment | Some t \<Rightarrow> min t moment)\<rparr>"

definition reverse_grants :: "string \<Rightarrow> string \<Rightarrow> (quota_grant \<Rightarrow> bool) \<Rightarrow> go_time \<Rightarrow> commerce \<Rightarrow> commerce" where
  "reverse_grants sourceType note p moment db =
     db\<lparr>cd_ledger := cd_ledger db @ map (reversal sourceType note) (filter p (cd_grants db)),
        cd_grants := update_rows p (revoke_grant moment) (cd_grants db)\<rparr>"

section \<open>Moving up the ladder\<close>

definition commercialFreePlanSlug :: string where
  "commercialFreePlanSlug = ''catsco-free''"

definition on_plan_slug :: "string \<Rightarrow> commerce \<Rightarrow> int \<Rightarrow> bool" where
  "on_plan_slug slug db i \<longleftrightarrow> (\<exists>p\<in>set (cd_plans db). pl_ID p = i \<and> pl_Slug p = slug)"

definition free_grant :: "uid \<Rightarrow> commerce \<Rightarrow> quota_grant \<Rightarrow> bool" where
  "free_grant u db g \<longleftrightarrow> qg_UID g = u \<and> on_plan_slug commercialFreePlanSlug db (qg_PlanID g)
     \<and> qg_GrantType g = ''free'' \<and> qg_RevokedAt g = None"

definition revokeCommercialFreeBaseline :: "uid \<Rightarrow> string \<Rightarrow> go_time \<Rightarrow> commerce \<Rightarrow> commerce" where
  "revokeCommercialFreeBaseline u targetSlug now db =
     (let db1 = reverse_grants ''upgrade'' (''upgrade to '' @ targetSlug) (free_grant u db) now db
      in db1\<lparr>cd_entitlements := update_rows
           (\<lambda>e. en_UID e = u \<and> en_State e = EntitlementActive \<and> on_plan_slug commercialFreePlanSlug db (en_PlanID e))
           (\<lambda>e. e\<lparr>en_State := EntitlementRevoked\<rparr>) (cd_entitlements db1)\<rparr>)"

definition superseded_credit :: "uid \<Rightarrow> int \<Rightarrow> go_time \<Rightarrow> commerce \<Rightarrow> credit \<Rightarrow> bool" where
  "superseded_credit u planID now db c \<longleftrightarrow>
     cr_UID c = u \<and> cr_State c = CreditAvailable
     \<and> (\<exists>e\<in>set (cd_entitlements db). en_UID e = u \<and> entitlement_live now e \<and> en_PlanID e = planID
          \<and> (en_Source e \<in> {''order'', ''invite''} \<and> cr_EntitlementID c = Some (en_ID e)
             \<or> en_Source e = ''order'' \<and> cr_SourceRef c = ''order:'' @ en_SourceRef e))"

definition superseded_grant :: "uid \<Rightarrow> int \<Rightarrow> quota_grant \<Rightarrow> bool" where
  "superseded_grant u planID g \<longleftrightarrow> qg_UID g = u \<and> qg_RevokedAt g = None \<and> qg_PlanID g = planID
     \<and> qg_GrantType g \<in> {''order'', ''invite''}"

definition revokeCommercialPlanTier :: "uid \<Rightarrow> string \<Rightarrow> go_time \<Rightarrow> int \<Rightarrow> commerce \<Rightarrow> commerce" where
  "revokeCommercialPlanTier u targetSlug now planID db =
     (let db1 = db\<lparr>cd_credits := update_rows (superseded_credit u planID now db) (unreserve CreditRevoked) (cd_credits db)\<rparr>;
          db2 = db1\<lparr>cd_entitlements := update_rows (\<lambda>e. en_UID e = u \<and> entitlement_live now e \<and> en_PlanID e = planID)
             (\<lambda>e. e\<lparr>en_State := EntitlementRevoked,
                    en_ExpiresAt := Some (case en_ExpiresAt e of None \<Rightarrow> now | Some t \<Rightarrow> min t now)\<rparr>) (cd_entitlements db1)\<rparr>
      in reverse_grants ''upgrade'' (''upgrade to '' @ targetSlug) (superseded_grant u planID) now db2)"

definition activateCommercialOfficialPlan :: "uid \<Rightarrow> string \<Rightarrow> go_time \<Rightarrow> commerce \<Rightarrow> commerce \<times> (string + unit)" where
  "activateCommercialOfficialPlan u targetSlug now db =
     (let targetTier = planTierForSlug targetSlug db; activeTier = activeCommercialOfficialPlanTier u now db
      in if targetTier = 0 then (db, Inr ())
         else if activeTier > targetTier then (db, Inl ''commercial plan is below active plan'')
         else if activeTier = targetTier then (db, Inr ())
         else let db1 = revokeCommercialFreeBaseline u targetSlug now db
              in (if activeTier > 0
                  then fold (revokeCommercialPlanTier u targetSlug now) (commercialPlanIDsBelow targetTier db1) db1 else db1, Inr ()))"

section \<open>Reading an order\<close>

definition order_of :: "string \<Rightarrow> commerce \<Rightarrow> commercial_order option" where
  "order_of orderNo db = List.find (\<lambda>r. or_OrderNo r = orderNo) (cd_orders db)"

definition GetCommercialOrder :: "uid \<Rightarrow> string \<Rightarrow> commerce \<Rightarrow> commercial_order option" where
  "GetCommercialOrder u orderNo db =
     List.find (\<lambda>r. or_OrderNo r = trimSpace orderNo \<and> (u > 0 \<longrightarrow> or_UID r = u)) (cd_orders db)"

definition newest_orders :: "commercial_order list \<Rightarrow> commercial_order list" where
  "newest_orders rows = sort_key (\<lambda>r. (- or_CreatedAt r, - or_ID r)) rows"

definition ListCommercialOrders :: "uid \<Rightarrow> int \<Rightarrow> commerce \<Rightarrow> commercial_order list" where
  "ListCommercialOrders u limit db =
     take (nat (if limit \<le> 0 \<or> limit > 200 then 20 else limit))
       (newest_orders (filter (\<lambda>r. u > 0 \<longrightarrow> or_UID r = u) (cd_orders db)))"

definition ListCommercialOrdersForReconciliation :: "int \<Rightarrow> go_time \<Rightarrow> commerce \<Rightarrow> commercial_order list" where
  "ListCommercialOrdersForReconciliation limit now db =
     (let cutoff = now - 7 * go_day
      in take (nat (if limit \<le> 0 \<or> limit > 500 then 100 else limit))
           (sort_key (\<lambda>r. (or_UpdatedAt r, or_ID r))
             (filter (\<lambda>r. or_Status r \<in> {OrderCreated, OrderPending} \<and> or_CreatedAt r \<ge> cutoff
                          \<or> or_Status r = OrderClosed \<and> (case or_ClosedAt r of None \<Rightarrow> False | Some t \<Rightarrow> t \<ge> cutoff))
               (cd_orders db))))"

text \<open>
  \<open>UPDATE commercial_orders SET f WHERE order_no = $1 AND p RETURNING ...\<close>: the trigger of the table sets \<open>updated_at\<close>,
  and order numbers are unique.
\<close>

definition update_order :: "string \<Rightarrow> (commercial_order \<Rightarrow> bool) \<Rightarrow> (commercial_order \<Rightarrow> commercial_order) \<Rightarrow> go_time \<Rightarrow> commerce \<Rightarrow> commerce" where
  "update_order orderNo p f now db =
     db\<lparr>cd_orders := update_rows (\<lambda>r. or_OrderNo r = orderNo \<and> p r) (\<lambda>r. (f r)\<lparr>or_UpdatedAt := now\<rparr>) (cd_orders db)\<rparr>"

definition order_matches :: "string \<Rightarrow> (commercial_order \<Rightarrow> bool) \<Rightarrow> commerce \<Rightarrow> bool" where
  "order_matches orderNo p db \<longleftrightarrow> (\<exists>r\<in>set (cd_orders db). or_OrderNo r = orderNo \<and> p r)"

end
