(* ===== verification/Payments.thy ===== *)
theory Payments
  imports Orders Topics
begin

text \<open>
  The life of an order (\<open>server/db/postgres/commercial_payment.go\<close>): created, paid, fulfilled, refunded. Every function is
  one transaction; what it reads at \<open>CURRENT_TIMESTAMP\<close> and \<open>time.Now\<close> is one moment.
\<close>

section \<open>Creating an order\<close>

definition normalizeCommercialCurrency :: "string \<Rightarrow> string" where
  "normalizeCommercialCurrency value =
     (let v = toUpper (trimSpace value) in if v = '''' then ''CNY'' else v)"

record order_request =
  oq_OrderNo :: string
  oq_UID :: uid
  oq_PlanID :: int
  oq_Channel :: string
  oq_ClientRequestID :: string
  oq_ExpiresAt :: "go_time option"

definition new_order :: "order_request \<Rightarrow> string \<Rightarrow> plan \<Rightarrow> go_time \<Rightarrow> int \<Rightarrow> commercial_order" where
  "new_order q channel p now i =
     \<lparr>or_ID = i, or_OrderNo = oq_OrderNo q, or_UID = oq_UID q, or_PlanID = pl_ID p, or_PlanSlug = pl_Slug p,
      or_PlanName = pl_Name p, or_PlanDescription = pl_Description p, or_PlanDurationDays = pl_DurationDays p,
      or_PlanMonthlyBudget = pl_MonthlyBudget p, or_PlanModelBudgets = pl_ModelBudgets p, or_AmountFen = pl_PriceFen p,
      or_Currency = normalizeCommercialCurrency (pl_Currency p), or_Channel = channel, or_Status = OrderCreated,
      or_ProviderTradeNo = '''', or_CheckoutURL = '''', or_ClientRequestID = trimSpace (oq_ClientRequestID q),
      or_ExpiresAt = Some (case oq_ExpiresAt q of None \<Rightarrow> now + 20 * go_minute | Some t \<Rightarrow> t),
      or_PaidAt = None, or_FulfilledAt = None, or_ClosedAt = None, or_RefundRequestNo = '''', or_RefundedAt = None,
      or_LastError = '''', or_CreatedAt = now, or_UpdatedAt = now, or_PlanIncludesWorker = False\<rparr>"

text \<open>An earlier order of the same request, by its own id or by an alias\<close>

definition requested_order :: "order_request \<Rightarrow> commerce \<Rightarrow> commercial_order option" where
  "requested_order q db =
     (case List.find (\<lambda>r. or_UID r = oq_UID q \<and> or_ClientRequestID r = oq_ClientRequestID q) (cd_orders db) of
        Some r \<Rightarrow> Some r
      | None \<Rightarrow> (case map_of (cd_requests db) (oq_UID q, oq_ClientRequestID q) of
                   None \<Rightarrow> None
                 | Some orderNo \<Rightarrow> order_of orderNo db))"

definition purchasable :: "plan \<Rightarrow> bool" where
  "purchasable p \<longleftrightarrow> pl_State p = 0 \<and> pl_PriceFen p > 0 \<and> pl_DurationDays p > 0 \<and> \<not> pl_MonthlyBudget p > 0
     \<and> commercialPlanHasPositiveModelBudget p"

definition reusable_order :: "order_request \<Rightarrow> string \<Rightarrow> plan \<Rightarrow> go_time \<Rightarrow> commerce \<Rightarrow> commercial_order option" where
  "reusable_order q channel p now db =
     first_row (\<lambda>r. (- or_CreatedAt r, - or_ID r))
       (filter (\<lambda>r. or_UID r = oq_UID q \<and> or_PlanID r = pl_ID p \<and> or_Channel r = channel \<and> open_order now r) (cd_orders db))"

text \<open>A limited plan: reservations that expired are closed before the orders of the buyer are counted.\<close>

definition close_expired_reservations :: "uid \<Rightarrow> int \<Rightarrow> go_time \<Rightarrow> commerce \<Rightarrow> commerce" where
  "close_expired_reservations u planID now db =
     db\<lparr>cd_orders := update_rows
          (\<lambda>r. or_UID r = u \<and> or_PlanID r = planID \<and> or_Status r \<in> {OrderCreated, OrderPending} \<and> \<not> not_expired (or_ExpiresAt r) now)
          (\<lambda>r. r\<lparr>or_Status := OrderClosed, or_ClosedAt := Some now, or_CheckoutURL := '''', or_UpdatedAt := now\<rparr>) (cd_orders db)\<rparr>"

definition purchases :: "uid \<Rightarrow> int \<Rightarrow> commerce \<Rightarrow> int" where
  "purchases u planID db =
     affected (\<lambda>r. or_UID r = u \<and> or_PlanID r = planID \<and> or_Status r \<in> {OrderCreated, OrderPending, OrderPaid, OrderFulfilled})
       (cd_orders db)"

text \<open>\<open>INSERT INTO commercial_orders\<close> and its request id; \<open>None\<close> when a unique index refuses one of the rows\<close>

definition insert_order :: "order_request \<Rightarrow> string \<Rightarrow> plan \<Rightarrow> go_time \<Rightarrow> commerce \<Rightarrow> (commerce \<times> commercial_order) option" where
  "insert_order q channel p now db =
     (let r = new_order q channel p now (cd_nextID db); key = (oq_UID q, oq_ClientRequestID q)
      in if (\<exists>s\<in>set (cd_orders db). or_OrderNo s = or_OrderNo r
                \<or> or_UID s = or_UID r \<and> or_ClientRequestID s = or_ClientRequestID r)
            \<or> map_of (cd_requests db) key \<noteq> None
         then None
         else Some (db\<lparr>cd_orders := cd_orders db @ [r], cd_requests := cd_requests db @ [(key, or_OrderNo r)],
                       cd_nextID := cd_nextID db + 1\<rparr>, r))"

definition place_order :: "order_request \<Rightarrow> string \<Rightarrow> plan \<Rightarrow> go_time \<Rightarrow> commerce \<Rightarrow> commerce \<times> (string + commercial_order)" where
  "place_order q channel p now db =
     (let limited = pl_PurchaseLimit p > 0;
          db1 = (if limited then close_expired_reservations (oq_UID q) (pl_ID p) now db else db)
      in if limited \<and> purchases (oq_UID q) (pl_ID p) db1 \<ge> pl_PurchaseLimit p then (db, Inl ''purchase limit reached'')
         else case insert_order q channel p now db1 of
                None \<Rightarrow> (db, Inl db_error)
              | Some (db2, r) \<Rightarrow> (db2, Inr r))"

definition CreateCommercialOrder :: "order_request \<Rightarrow> go_time \<Rightarrow> db_outcome \<Rightarrow> commerce \<Rightarrow> commerce \<times> (string + commercial_order)" where
  "CreateCommercialOrder q now out db =
     (let channel = trimSpace (oq_Channel q)
      in if oq_UID q \<le> 0 \<or> oq_PlanID q \<le> 0 \<or> trimSpace (oq_OrderNo q) = '''' \<or> trimSpace (oq_ClientRequestID q) = ''''
         then (db, Inl ''invalid commercial order'')
         else if channel = '''' then (db, Inl ''invalid commercial order'')
         else in_tx out db
           (case requested_order q db of
              Some r \<Rightarrow> (db, if or_PlanID r \<noteq> oq_PlanID q \<or> or_Channel r \<noteq> channel
                             then Inl ''client request id is already used by another order'' else Inr r)
            | None \<Rightarrow>
                (case plan_by_id (oq_PlanID q) db of
                   None \<Rightarrow> (db, Inl ''commercial plan not found'')
                 | Some p \<Rightarrow>
                     if \<not> purchasable p then (db, Inl ''commercial plan is not purchasable'')
                     else (case validateCommercialOfficialPlanPurchase (oq_UID q) (pl_Slug p) now db of
                             Inl e \<Rightarrow> (db, Inl e)
                           | Inr _ \<Rightarrow>
                               (case validateCommercialOfficialOpenOrder (oq_UID q) (pl_ID p) channel (pl_Slug p) now db of
                                  Inl e \<Rightarrow> (db, Inl e)
                                | Inr _ \<Rightarrow>
                                    (case reusable_order q channel p now db of
                                       Some r \<Rightarrow>
                                         (if map_of (cd_requests db) (oq_UID q, oq_ClientRequestID q) = None
                                          then db\<lparr>cd_requests := cd_requests db @ [((oq_UID q, oq_ClientRequestID q), or_OrderNo r)]\<rparr>
                                          else db, Inr r)
                                     | None \<Rightarrow> place_order q channel p now db))))))"

section \<open>Paying\<close>

text \<open>A statement that updates at most one order and falls back to reading it\<close>

definition claim_order ::
  "string \<Rightarrow> (commercial_order \<Rightarrow> bool) \<Rightarrow> (commercial_order \<Rightarrow> commercial_order) \<Rightarrow> go_time \<Rightarrow> commerce \<Rightarrow> commerce \<times> bool" where
  "claim_order orderNo p f now db =
     (if order_matches orderNo p db then (update_order orderNo p f now db, True) else (db, False))"

definition awaiting_payment :: "go_time \<Rightarrow> commercial_order \<Rightarrow> bool" where
  "awaiting_payment now r \<longleftrightarrow>
     or_Status r \<in> {OrderCreated, OrderFailed}
     \<or> or_Status r = OrderPending \<and> or_CheckoutURL r = '''' \<and> or_UpdatedAt r \<le> now - 30 * go_second"

definition BeginCommercialOrderPayment ::
  "string \<Rightarrow> go_time \<Rightarrow> go_time \<Rightarrow> db_outcome \<Rightarrow> commerce \<Rightarrow> commerce \<times> (string + (commercial_order \<times> bool))" where
  "BeginCommercialOrderPayment orderNo expiresAt now out db =
     in_tx out db
       (let (db1, won) = claim_order (trimSpace orderNo) (awaiting_payment now)
              (\<lambda>r. r\<lparr>or_Status := OrderPending, or_CheckoutURL := '''', or_ExpiresAt := Some expiresAt, or_ClosedAt := None,
                     or_LastError := ''''\<rparr>) now db
        in (db1, case GetCommercialOrder 0 orderNo db1 of
                   None \<Rightarrow> Inl ''commercial order not found''
                 | Some r \<Rightarrow> Inr (r, won)))"

definition SetCommercialOrderPaymentIntent ::
  "string \<Rightarrow> string \<Rightarrow> go_time \<Rightarrow> go_time \<Rightarrow> db_outcome \<Rightarrow> commerce \<Rightarrow> commerce \<times> (string + commercial_order option)" where
  "SetCommercialOrderPaymentIntent orderNo checkoutURL expiresAt now out db =
     in_tx out db
       (let (db1, won) = claim_order (trimSpace orderNo) (\<lambda>r. or_Status r = OrderPending)
              (\<lambda>r. r\<lparr>or_Status := OrderPending, or_CheckoutURL := trimSpace checkoutURL, or_ExpiresAt := Some expiresAt,
                     or_LastError := ''''\<rparr>) now db
        in (db1, Inr (GetCommercialOrder 0 orderNo db1)))"

text \<open>\<open>utf8.DecodeLastRuneInString\<close>: the bytes of the code point at the end, one for an invalid one\<close>

definition last_rune_size :: "string \<Rightarrow> nat" where
  "last_rune_size s =
     (if rune_width (drop (length s - 2) s) = 2 then 2 else if rune_width (drop (length s - 3) s) = 3 then 3
      else if rune_width (drop (length s - 4) s) = 4 then 4 else 1)"

lemma last_rune_size_pos: "0 < last_rune_size s"
  by (simp add: last_rune_size_def)

function drop_runes :: "string \<Rightarrow> string" where
  "drop_runes s = (if length s > 500 then drop_runes (take (length s - last_rune_size s) s) else s)"
  by auto
termination by (relation "measure length") (use last_rune_size_pos in \<open>auto intro!: diff_less\<close>)

declare drop_runes.simps [simp del]

definition truncateCommercialError :: "string \<Rightarrow> string" where
  "truncateCommercialError value = drop_runes (trimSpace value)"

definition FailCommercialOrder :: "string \<Rightarrow> string \<Rightarrow> go_time \<Rightarrow> db_outcome \<Rightarrow> commerce \<Rightarrow> commerce \<times> (string + unit)" where
  "FailCommercialOrder orderNo message now out db =
     in_tx out db (update_order (trimSpace orderNo) (\<lambda>r. or_Status r \<in> {OrderCreated, OrderPending})
       (\<lambda>r. r\<lparr>or_Status := OrderFailed, or_LastError := truncateCommercialError message\<rparr>) now db, Inr ())"

definition CancelCommercialOrder ::
  "uid \<Rightarrow> string \<Rightarrow> string \<Rightarrow> go_time \<Rightarrow> db_outcome \<Rightarrow> commerce \<Rightarrow> commerce \<times> (string + (commercial_order option \<times> bool))" where
  "CancelCommercialOrder u orderNo reason now out db =
     (if u \<le> 0 \<or> trimSpace orderNo = '''' then (db, Inl ''invalid commercial order cancellation'')
      else in_tx out db
        (let (db1, won) = claim_order (trimSpace orderNo)
               (\<lambda>r. or_UID r = u \<and> or_Status r \<in> {OrderCreated, OrderPending, OrderFailed})
               (\<lambda>r. r\<lparr>or_Status := OrderClosed, or_ClosedAt := Some now, or_CheckoutURL := '''',
                      or_LastError := truncateCommercialError reason\<rparr>) now db
         in (db1, Inr (GetCommercialOrder u orderNo db1, won))))"

text \<open>\<open>WHERE o.id = expired.id\<close> names the selected rows themselves.\<close>

definition CloseExpiredCommercialOrders :: "int \<Rightarrow> go_time \<Rightarrow> db_outcome \<Rightarrow> commerce \<Rightarrow> commerce \<times> (string + int)" where
  "CloseExpiredCommercialOrders limit now out db =
     (let expired = take (nat (if limit \<le> 0 \<or> limit > 1000 then 100 else limit))
            (sort_key (\<lambda>r. case or_ExpiresAt r of None \<Rightarrow> 0 | Some t \<Rightarrow> t)
              (filter (\<lambda>r. or_Status r \<in> {OrderCreated, OrderPending} \<and> \<not> not_expired (or_ExpiresAt r) now) (cd_orders db)))
      in in_tx out db
           (db\<lparr>cd_orders := update_rows (\<lambda>r. r \<in> set expired)
               (\<lambda>r. r\<lparr>or_Status := OrderClosed, or_ClosedAt := Some now, or_CheckoutURL := '''', or_UpdatedAt := now\<rparr>) (cd_orders db)\<rparr>,
            Inr (int (length expired))))"

section \<open>Fulfilment\<close>

record payment_confirmation =
  pc_Channel :: string
  pc_EventID :: string
  pc_ProviderTradeNo :: string
  pc_AmountFen :: int
  pc_Currency :: string
  pc_PaidAt :: go_time
  pc_PayloadHash :: string

text \<open>\<open>INSERT INTO commercial_payment_events ... ON CONFLICT(channel, event_id) DO NOTHING\<close>; \<open>None\<close> when the event is known\<close>

definition record_event :: "string \<Rightarrow> string \<Rightarrow> string \<Rightarrow> string \<Rightarrow> string \<Rightarrow> string \<Rightarrow> commerce \<Rightarrow> commerce option" where
  "record_event channel eventID orderNo tradeNo eventType hash db =
     (if \<exists>e\<in>set (cd_events db). pe_Channel e = channel \<and> pe_EventID e = eventID then None
      else Some (db\<lparr>cd_events := cd_events db @ [\<lparr>pe_Channel = channel, pe_EventID = eventID, pe_OrderNo = orderNo,
               pe_ProviderTradeNo = tradeNo, pe_EventType = eventType, pe_PayloadHash = hash\<rparr>]\<rparr>))"

text \<open>
  The expiry of the entitlement in force for a slug, \<open>Some None\<close> for one that never ends: \<open>ORDER BY expires_at DESC NULLS
  LAST\<close> takes the latest that ends.
\<close>

definition activeCommercialOfficialPlanExpiry :: "uid \<Rightarrow> string \<Rightarrow> go_time \<Rightarrow> commerce \<Rightarrow> go_time option option" where
  "activeCommercialOfficialPlanExpiry u slug now db =
     (let live = filter (\<lambda>e. en_UID e = u \<and> entitlement_live now e \<and> on_plan_slug (trimSpace slug) db (en_PlanID e)) (cd_entitlements db);
          ends = List.map_filter en_ExpiresAt live
      in if live = [] then None else if ends = [] then Some None else Some (Some (foldr max (tl ends) (hd ends))))"

text \<open>A renewal of the tier in force starts where it ends; everything else starts when it is paid.\<close>

definition period_start :: "commercial_order \<Rightarrow> go_time \<Rightarrow> commerce \<Rightarrow> go_time" where
  "period_start r paidAt db =
     (if planTierForSlug (or_PlanSlug r) db > 0
      then (case activeCommercialOfficialPlanExpiry (or_UID r) (or_PlanSlug r) paidAt db of
              Some (Some t) \<Rightarrow> if t > paidAt then t else paidAt
            | _ \<Rightarrow> paidAt)
      else paidAt)"

text \<open>The index \<open>uk_commercial_entitlements_order_once\<close> admits one entitlement for an order.\<close>

definition insert_order_entitlement :: "uid \<Rightarrow> int \<Rightarrow> string \<Rightarrow> go_time \<Rightarrow> go_time \<Rightarrow> commerce \<Rightarrow> commerce option" where
  "insert_order_entitlement u planID orderNo startsAt expiresAt db =
     (if \<exists>e\<in>set (cd_entitlements db). en_UID e = u \<and> en_Source e = ''order'' \<and> en_SourceRef e = orderNo then None
      else Some (db\<lparr>cd_entitlements := cd_entitlements db @ [\<lparr>en_ID = cd_nextID db, en_UID = u, en_PlanID = planID,
               en_Source = ''order'', en_SourceRef = orderNo, en_State = EntitlementActive, en_StartsAt = startsAt,
               en_ExpiresAt = Some expiresAt\<rparr>], cd_nextID := cd_nextID db + 1\<rparr>))"

definition cloudWorkerSurvivesRenewal :: "uid \<Rightarrow> go_time \<Rightarrow> commerce \<Rightarrow> bool" where
  "cloudWorkerSurvivesRenewal u now db \<longleftrightarrow>
     (\<exists>l\<in>set (cd_lifecycles db). lc_OwnerUID l = u \<and> lc_State l \<notin> {WorkerDeleted, DeleteRunning})
     \<or> (\<exists>c\<in>set (cd_credits db). cr_UID c = u \<and> cr_State c \<in> {CreditAvailable, CreditReserved}
           \<and> not_expired (cr_ExpiresAt c) now)"

definition grant_worker :: "commercial_order \<Rightarrow> go_time \<Rightarrow> go_time \<Rightarrow> commerce \<Rightarrow> commerce \<times> (string + unit)" where
  "grant_worker r expiresAt now db =
     (let retention = planCloudWorkerRetentionDays (or_PlanID r) (or_PlanDurationDays r) db
      in and_then
           (if cloudWorkerSurvivesRenewal (or_UID r) now db then (db, Inr ())
            else grantCloudWorkerCredit (or_UID r) (''order:'' @ or_OrderNo r) expiresAt
                   (planCloudWorkerDeploymentProfile (or_PlanID r) db) retention (planCloudWorkerRuntimePlan (or_PlanID r) db) now db)
           (\<lambda>_. extendCloudWorkerLifecyclesWithPaidPeriod (or_UID r) expiresAt retention now))"

text \<open>What a paid order gives, after its event is recorded and its place on the ladder is taken\<close>

definition mark_fulfilled :: "string \<Rightarrow> go_time \<Rightarrow> go_time \<Rightarrow> commercial_order \<Rightarrow> commercial_order" where
  "mark_fulfilled tradeNo paidAt now s =
     s\<lparr>or_Status := OrderFulfilled, or_ProviderTradeNo := tradeNo, or_PaidAt := Some paidAt,
       or_FulfilledAt := Some now, or_CheckoutURL := '''', or_LastError := ''''\<rparr>"

definition complete_order :: "string \<Rightarrow> string \<Rightarrow> go_time \<Rightarrow> go_time \<Rightarrow> bool \<Rightarrow> commerce \<Rightarrow> commerce \<times> (string + commercial_order)" where
  "complete_order orderNo tradeNo paidAt now includesWorker db =
     (let db1 = update_order orderNo (\<lambda>_. True) (mark_fulfilled tradeNo paidAt now) now db
      in (db1, case order_of orderNo db1 of
                 None \<Rightarrow> Inl ''sql: no rows in result set''
               | Some s \<Rightarrow> Inr (s\<lparr>or_PlanIncludesWorker := includesWorker\<rparr>)))"

definition deliver_order :: "commercial_order \<Rightarrow> string \<Rightarrow> go_time \<Rightarrow> go_time \<Rightarrow> go_time \<Rightarrow> commerce \<Rightarrow> commerce \<times> (string + commercial_order)" where
  "deliver_order r tradeNo startsAt paidAt now db =
     (let expiresAt = addDays startsAt (or_PlanDurationDays r)
      in case insert_order_entitlement (or_UID r) (or_PlanID r) (or_OrderNo r) startsAt expiresAt db of
           None \<Rightarrow> (db, Inl db_error)
         | Some db1 \<Rightarrow>
             let db2 = createCommercialPlanGrants (or_UID r) (or_PlanID r) ''order'' (or_OrderNo r) (or_PlanName r)
                         (or_PlanMonthlyBudget r) (or_PlanModelBudgets r) startsAt expiresAt db1;
                 includes = planIncludesCloudWorker (or_PlanID r) db2
             in and_then (if includes then grant_worker r expiresAt now db2 else (db2, Inr ()))
                  (\<lambda>_. complete_order (or_OrderNo r) tradeNo paidAt now includes))"

text \<open>The checks of a confirmed payment against the order it names\<close>

definition check_payment :: "commercial_order \<Rightarrow> payment_confirmation \<Rightarrow> string + unit" where
  "check_payment r c =
     (if or_Status r \<in> {OrderRefunded, OrderRefunding} then Inl ''commercial order cannot be fulfilled from status''
      else if or_Channel r \<noteq> trimSpace (pc_Channel c) then Inl ''payment channel mismatch''
      else if or_AmountFen r \<noteq> pc_AmountFen c \<or> \<not> equalFoldASCII (or_Currency r) (pc_Currency c) then Inl ''payment amount mismatch''
      else Inr ())"

definition fulfill_paid :: "commercial_order \<Rightarrow> payment_confirmation \<Rightarrow> go_time \<Rightarrow> commerce \<Rightarrow> commerce \<times> (string + commercial_order)" where
  "fulfill_paid r c now db =
     (let paidAt = (if is_zero_time (pc_PaidAt c) then now else pc_PaidAt c)
      in case record_event (pc_Channel c) (pc_EventID c) (or_OrderNo r) (trimSpace (pc_ProviderTradeNo c)) ''payment_success''
                (trimSpace (pc_PayloadHash c)) db of
           None \<Rightarrow> (db, Inl ''payment event was already used'')
         | Some db1 \<Rightarrow>
             and_then (activateCommercialOfficialPlan (or_UID r) (or_PlanSlug r) paidAt db1)
               (\<lambda>_. deliver_order r (trimSpace (pc_ProviderTradeNo c)) (period_start r paidAt db1) paidAt now))"

definition FulfillCommercialOrder ::
  "string \<Rightarrow> payment_confirmation option \<Rightarrow> go_time \<Rightarrow> db_outcome \<Rightarrow> commerce \<Rightarrow> commerce \<times> (string + (commercial_order \<times> bool))" where
  "FulfillCommercialOrder orderNo confirmation now out db =
     (case confirmation of
        None \<Rightarrow> (db, Inl ''invalid payment confirmation'')
      | Some c \<Rightarrow>
          if trimSpace (pc_EventID c) = '''' then (db, Inl ''invalid payment confirmation'')
          else in_tx out db (all_or_nothing db
            (case order_of (trimSpace orderNo) db of
               None \<Rightarrow> (db, Inl ''commercial order not found'')
             | Some r \<Rightarrow>
                 if or_Status r = OrderFulfilled then (db, Inr (r, False))
                 else (case check_payment r c of
                         Inl e \<Rightarrow> (db, Inl e)
                       | Inr _ \<Rightarrow> and_then (fulfill_paid r c now db) (\<lambda>s db. (db, Inr (s, True)))))))"

section \<open>Refunds\<close>

definition refundable :: "go_time \<Rightarrow> commercial_order \<Rightarrow> bool" where
  "refundable staleBefore r \<longleftrightarrow> or_Status r = OrderFulfilled \<or> or_Status r = OrderRefunding \<and> or_UpdatedAt r < staleBefore"

definition BeginCommercialOrderRefund ::
  "string \<Rightarrow> string \<Rightarrow> duration \<Rightarrow> go_time \<Rightarrow> db_outcome \<Rightarrow> commerce \<Rightarrow> commerce \<times> (string + (commercial_order option \<times> bool))" where
  "BeginCommercialOrderRefund orderNo refundRequestNo staleAfter now out db =
     (if trimSpace orderNo = '''' \<or> trimSpace refundRequestNo = '''' then (db, Inl ''invalid commercial refund claim'')
      else in_tx out db
        (let (db1, won) = claim_order (trimSpace orderNo)
               (refundable (now - (if staleAfter \<le> 0 then 2 * go_minute else staleAfter)))
               (\<lambda>r. r\<lparr>or_Status := OrderRefunding, or_RefundRequestNo := trimSpace refundRequestNo, or_LastError := ''''\<rparr>) now db
         in (db1, Inr (GetCommercialOrder 0 orderNo db1, won))))"

definition FailCommercialOrderRefund ::
  "string \<Rightarrow> string \<Rightarrow> string \<Rightarrow> go_time \<Rightarrow> db_outcome \<Rightarrow> commerce \<Rightarrow> commerce \<times> (string + unit)" where
  "FailCommercialOrderRefund orderNo refundRequestNo message now out db =
     in_tx out db (update_order (trimSpace orderNo)
       (\<lambda>r. or_Status r = OrderRefunding \<and> or_RefundRequestNo r = trimSpace refundRequestNo)
       (\<lambda>r. r\<lparr>or_Status := OrderFulfilled, or_LastError := truncateCommercialError message\<rparr>) now db, Inr ())"

record refund_confirmation =
  rc_Channel :: string
  rc_EventID :: string
  rc_ProviderTradeNo :: string
  rc_RefundRequestNo :: string
  rc_AmountFen :: int
  rc_Currency :: string
  rc_RefundedAt :: go_time
  rc_PayloadHash :: string

definition check_refund :: "commercial_order \<Rightarrow> refund_confirmation \<Rightarrow> string + unit" where
  "check_refund r c =
     (if or_Status r \<noteq> OrderRefunding \<or> or_RefundRequestNo r \<noteq> trimSpace (rc_RefundRequestNo c)
      then Inl ''commercial refund claim mismatch''
      else if or_Channel r \<noteq> trimSpace (rc_Channel c) \<or> or_AmountFen r \<noteq> rc_AmountFen c
              \<or> \<not> equalFoldASCII (or_Currency r) (rc_Currency c) then Inl ''commercial refund payment mismatch''
      else if trimSpace (or_ProviderTradeNo r) \<noteq> '''' \<and> trimSpace (or_ProviderTradeNo r) \<noteq> trimSpace (rc_ProviderTradeNo c)
      then Inl ''commercial refund trade mismatch''
      else Inr ())"

text \<open>The grants of the order are reversed; the index \<open>uk_commercial_refund_ledger_grant\<close> admits one reversal of a grant.\<close>

definition order_grant :: "commercial_order \<Rightarrow> quota_grant \<Rightarrow> bool" where
  "order_grant r g \<longleftrightarrow> qg_UID g = or_UID r \<and> qg_GrantType g = ''order'' \<and> qg_SourceRef g = or_OrderNo r \<and> qg_RevokedAt g = None"

definition refund_entry :: "ledger_entry \<Rightarrow> ledger_entry list \<Rightarrow> ledger_entry list" where
  "refund_entry e rows =
     (if \<exists>f\<in>set rows. le_SourceType f = ''refund'' \<and> le_EntryType f = ''revoke'' \<and> le_SourceID f = le_SourceID e
      then rows else rows @ [e])"

definition reverse_order_grants :: "commercial_order \<Rightarrow> go_time \<Rightarrow> commerce \<Rightarrow> commerce" where
  "reverse_order_grants r refundedAt db =
     db\<lparr>cd_ledger := fold refund_entry (map (reversal ''refund'' (''refund '' @ or_OrderNo r)) (filter (order_grant r) (cd_grants db))) (cd_ledger db),
        cd_grants := update_rows (order_grant r) (revoke_grant refundedAt) (cd_grants db)\<rparr>"

definition order_right :: "commercial_order \<Rightarrow> entitlement \<Rightarrow> bool" where
  "order_right r e \<longleftrightarrow> en_UID e = or_UID r \<and> en_Source e = ''order'' \<and> en_SourceRef e = or_OrderNo r"

definition revoke_order_rights :: "commercial_order \<Rightarrow> commerce \<Rightarrow> commerce" where
  "revoke_order_rights r db =
     db\<lparr>cd_entitlements := update_rows (\<lambda>e. order_right r e \<and> en_State e \<noteq> EntitlementRevoked)
          (\<lambda>e. e\<lparr>en_State := EntitlementRevoked\<rparr>) (cd_entitlements db)\<rparr>"

definition refunded_credit :: "commercial_order \<Rightarrow> credit \<Rightarrow> bool" where
  "refunded_credit r c \<longleftrightarrow> cr_UID c = or_UID r \<and> cr_SourceRef c = ''order:'' @ or_OrderNo r
     \<and> cr_State c \<in> {CreditAvailable, CreditReserved, CreditConsumed}"

definition revoke_order_credit :: "commercial_order \<Rightarrow> commerce \<Rightarrow> commerce" where
  "revoke_order_credit r db = db\<lparr>cd_credits := update_rows (refunded_credit r) (unreserve CreditRevoked) (cd_credits db)\<rparr>"

text \<open>\<open>SELECT MAX(expires_at)\<close> of what is still paid\<close>

definition remaining_paid :: "uid \<Rightarrow> go_time \<Rightarrow> commerce \<Rightarrow> go_time option" where
  "remaining_paid u now db =
     (case filter (\<lambda>t. t > now) (List.map_filter en_ExpiresAt
             (filter (\<lambda>e. en_UID e = u \<and> en_State e = EntitlementActive) (cd_entitlements db))) of
        [] \<Rightarrow> None | t # ts \<Rightarrow> Some (foldr max ts t))"

definition rolled_back :: "go_time \<Rightarrow> go_time \<Rightarrow> lifecycle \<Rightarrow> lifecycle" where
  "rolled_back rollbackUntil now l =
     l\<lparr>lc_PackageExpiresAt := rollbackUntil,
       lc_DeleteAfter := addDays rollbackUntil (if lc_RetentionDays l = 0 then 3 else max (lc_RetentionDays l) 3),
       lc_ConversionPending := False, lc_UpdatedAt := now\<rparr>"

definition roll_back_workers :: "uid \<Rightarrow> go_time \<Rightarrow> go_time \<Rightarrow> commerce \<Rightarrow> commerce" where
  "roll_back_workers u rollbackUntil now db =
     update_lifecycles (\<lambda>l. lc_OwnerUID l = u \<and> renewable l) (rolled_back rollbackUntil now) db"

definition mark_refunded :: "go_time \<Rightarrow> commercial_order \<Rightarrow> commercial_order" where
  "mark_refunded refundedAt s =
     s\<lparr>or_Status := OrderRefunded, or_RefundedAt := Some refundedAt, or_CheckoutURL := '''', or_LastError := ''''\<rparr>"

definition take_back :: "commercial_order \<Rightarrow> go_time \<Rightarrow> go_time \<Rightarrow> commerce \<Rightarrow> commerce" where
  "take_back r refundedAt now db =
     (let db1 = revoke_order_credit r (reverse_order_grants r refundedAt (revoke_order_rights r db));
          rollbackUntil = (case remaining_paid (or_UID r) now db1 of None \<Rightarrow> refundedAt | Some t \<Rightarrow> t)
      in update_order (or_OrderNo r) (\<lambda>_. True) (mark_refunded refundedAt) now (roll_back_workers (or_UID r) rollbackUntil now db1))"

definition refund_claimed :: "commercial_order \<Rightarrow> refund_confirmation \<Rightarrow> go_time \<Rightarrow> commerce \<Rightarrow> commerce \<times> (string + (commercial_order option \<times> bool))" where
  "refund_claimed r c now db =
     (case record_event (rc_Channel c) (rc_EventID c) (or_OrderNo r) (trimSpace (rc_ProviderTradeNo c)) ''refund_success''
             (trimSpace (rc_PayloadHash c)) db of
        None \<Rightarrow> (db, Inl ''refund event was already used'')
      | Some db1 \<Rightarrow>
          let db2 = take_back r (if is_zero_time (rc_RefundedAt c) then now else rc_RefundedAt c) now db1
          in (db2, Inr (order_of (or_OrderNo r) db2, True)))"

definition CompleteCommercialOrderRefund ::
  "string \<Rightarrow> refund_confirmation option \<Rightarrow> go_time \<Rightarrow> db_outcome \<Rightarrow> commerce \<Rightarrow> commerce \<times> (string + (commercial_order option \<times> bool))" where
  "CompleteCommercialOrderRefund orderNo confirmation now out db =
     (case confirmation of
        None \<Rightarrow> (db, Inl ''invalid refund confirmation'')
      | Some c \<Rightarrow>
          if trimSpace (rc_EventID c) = '''' \<or> trimSpace (rc_RefundRequestNo c) = '''' then (db, Inl ''invalid refund confirmation'')
          else in_tx out db
            (case order_of (trimSpace orderNo) db of
               None \<Rightarrow> (db, Inl ''commercial order not found'')
             | Some r \<Rightarrow>
                 if or_Status r = OrderRefunded then (db, Inr (Some r, False))
                 else (case check_refund r c of
                         Inl e \<Rightarrow> (db, Inl e)
                       | Inr _ \<Rightarrow> refund_claimed r c now db)))"

section \<open>Trials\<close>

definition trial_claimed :: "uid \<Rightarrow> commerce \<Rightarrow> bool" where
  "trial_claimed u db \<longleftrightarrow> (\<exists>e\<in>set (cd_entitlements db). en_UID e = u \<and> en_Source e = ''trial'')"

definition trial_plan :: "string \<Rightarrow> commerce \<Rightarrow> plan option" where
  "trial_plan slug db = List.find (\<lambda>p. pl_Slug p = slug \<and> pl_State p = 0) (cd_plans db)"

definition start_trial :: "uid \<Rightarrow> plan \<Rightarrow> go_time \<Rightarrow> commerce \<Rightarrow> commerce" where
  "start_trial u p now db =
     (let expiresAt = addDays now (pl_DurationDays p);
          db1 = db\<lparr>cd_entitlements := cd_entitlements db @ [\<lparr>en_ID = cd_nextID db, en_UID = u, en_PlanID = pl_ID p,
                   en_Source = ''trial'', en_SourceRef = pl_Slug p, en_State = EntitlementActive,
                   en_StartsAt = now, en_ExpiresAt = Some expiresAt\<rparr>], cd_nextID := cd_nextID db + 1\<rparr>
      in createCommercialPlanGrants u (pl_ID p) ''trial'' (pl_Slug p) (pl_Name p) (pl_MonthlyBudget p) (pl_ModelBudgets p)
           now expiresAt db1)"

text \<open>The index \<open>uk_commercial_entitlements_trial_once\<close> asks what the count before it asks. The summary is not returned here.\<close>

definition ClaimCommercialTrial :: "uid \<Rightarrow> string \<Rightarrow> go_time \<Rightarrow> db_outcome \<Rightarrow> commerce \<Rightarrow> commerce \<times> (string + unit)" where
  "ClaimCommercialTrial u planSlug now out db =
     (if u \<le> 0 \<or> trimSpace planSlug = '''' then (db, Inl ''invalid commercial trial'')
      else in_tx out db
        (case trial_plan (trimSpace planSlug) db of
           None \<Rightarrow> (db, Inl ''trial plan is unavailable'')
         | Some p \<Rightarrow>
             if pl_PriceFen p \<noteq> 0 \<or> pl_SaleState p \<noteq> ''hidden'' \<or> pl_DurationDays p \<le> 0 \<or> \<not> commercialPlanHasQuota p
             then (db, Inl ''trial plan is unavailable'')
             else if trial_claimed u db then (db, Inl ''trial package already claimed'')
             else (start_trial u p now db, Inr ())))"

definition HasCommercialTrial :: "uid \<Rightarrow> commerce \<Rightarrow> bool" where
  "HasCommercialTrial = trial_claimed"

definition CommercialRelaySyncRequired :: "uid \<Rightarrow> go_time \<Rightarrow> commerce \<Rightarrow> bool" where
  "CommercialRelaySyncRequired u now db \<longleftrightarrow>
     (\<exists>e\<in>set (cd_entitlements db). en_UID e = u \<and> en_Source e \<in> {''order'', ''trial''} \<and> entitlement_live now e)"

end
