(* ===== verification/CommerceSteps.thy ===== *)
theory CommerceSteps
  imports Payments
begin

text \<open>
  Histories of purchases and workers: the operations of \<open>CloudCredits\<close>, \<open>CloudLifecycles\<close> and \<open>Payments\<close> in any order, at any
  moments and with any outcome of their transactions; and how the rows of a table evolve along them.
\<close>

section \<open>Operations\<close>

datatype commerce_op =
    GrantCredits uid int string "go_time option" string string
  | ReserveCredit uid string
  | ReserveConfigured uid string string string
  | CommitCredit uid string uid string int
  | ReleaseCredit uid string
  | QueueCredit uid string
  | ClaimQueued uid
  | RegisterWorker uid uid string go_time string int
  | ExtendOwner uid go_time int
  | ExtendWorker int go_time int
  | ForcePending int go_time
  | MarkPending int go_time
  | ClaimDeletion int
  | MarkDeleted int string
  | AwaitRecycle int string
  | RequestConversion int
  | ClaimAction int string bool
  | CompleteAction int string go_time string
  | ClaimTrialRelease int
  | CreateOrder order_request
  | BeginPayment string go_time
  | SetIntent string string go_time
  | FailOrder string string
  | CancelOrder uid string string
  | CloseExpired int
  | FulfillOrder string "payment_confirmation option"
  | BeginRefund string string duration
  | FailRefund string string string
  | CompleteRefund string "refund_confirmation option"
  | ClaimTrial uid string

fun commerce_step :: "go_time \<times> db_outcome \<times> commerce_op \<Rightarrow> commerce \<Rightarrow> commerce" where
  "commerce_step (now, out, GrantCredits u n ref e p b) db = fst (GrantCloudWorkerConfiguredCredits u n ref e p b now out db)"
| "commerce_step (now, out, ReserveCredit u res) db = fst (ReserveCloudWorkerCredit u res now out db)"
| "commerce_step (now, out, ReserveConfigured u res p b) db = fst (ReserveCloudWorkerConfiguredCredit u res p b now out db)"
| "commerce_step (now, out, CommitCredit u res w tenant g) db = fst (CommitCloudWorkerCredit u res w tenant g now out db)"
| "commerce_step (now, out, ReleaseCredit u res) db = fst (ReleaseCloudWorkerCredit u res now out db)"
| "commerce_step (now, out, QueueCredit u res) db = fst (QueueCloudWorkerCredit u res now out db)"
| "commerce_step (now, out, ClaimQueued u) db = fst (ClaimQueuedCloudWorkerCredit u now out db)"
| "commerce_step (now, out, RegisterWorker w u tenant e b g) db = fst (RegisterCloudWorkerLifecycle w u tenant e b g now out db)"
| "commerce_step (now, out, ExtendOwner u e g) db = fst (ExtendCloudWorkerLifecycles u e g now out db)"
| "commerce_step (now, out, ExtendWorker i e g) db = fst (ExtendCloudWorkerLifecycle i e g now out db)"
| "commerce_step (now, out, ForcePending i d) db = fst (ForceCloudWorkerLifecyclePending i d now out db)"
| "commerce_step (now, out, MarkPending i d) db = fst (MarkCloudWorkerLifecyclePending i d now out db)"
| "commerce_step (now, out, ClaimDeletion i) db = fst (ClaimCloudWorkerLifecycleDeletion i now out db)"
| "commerce_step (now, out, MarkDeleted i err) db = fst (MarkCloudWorkerLifecycleDeleted i err now out db)"
| "commerce_step (now, out, AwaitRecycle i note) db = fst (MarkCloudWorkerLifecycleAwaitingRecycle i note now out db)"
| "commerce_step (now, out, RequestConversion i) db = fst (RequestCloudWorkerConversion i now out db)"
| "commerce_step (now, out, ClaimAction i a auto) db = fst (ClaimCloudWorkerBillingAction i a auto now out db)"
| "commerce_step (now, out, CompleteAction i a e err) db = fst (CompleteCloudWorkerBillingAction i a e err now out db)"
| "commerce_step (now, out, ClaimTrialRelease i) db = fst (ClaimCloudWorkerTrialRelease i now out db)"
| "commerce_step (now, out, CreateOrder q) db = fst (CreateCommercialOrder q now out db)"
| "commerce_step (now, out, BeginPayment n e) db = fst (BeginCommercialOrderPayment n e now out db)"
| "commerce_step (now, out, SetIntent n url e) db = fst (SetCommercialOrderPaymentIntent n url e now out db)"
| "commerce_step (now, out, FailOrder n m) db = fst (FailCommercialOrder n m now out db)"
| "commerce_step (now, out, CancelOrder u n m) db = fst (CancelCommercialOrder u n m now out db)"
| "commerce_step (now, out, CloseExpired k) db = fst (CloseExpiredCommercialOrders k now out db)"
| "commerce_step (now, out, FulfillOrder n c) db = fst (FulfillCommercialOrder n c now out db)"
| "commerce_step (now, out, BeginRefund n q d) db = fst (BeginCommercialOrderRefund n q d now out db)"
| "commerce_step (now, out, FailRefund n q m) db = fst (FailCommercialOrderRefund n q m now out db)"
| "commerce_step (now, out, CompleteRefund n c) db = fst (CompleteCommercialOrderRefund n c now out db)"
| "commerce_step (now, out, ClaimTrial u s) db = fst (ClaimCommercialTrial u s now out db)"

definition commerce_after :: "(go_time \<times> db_outcome \<times> commerce_op) list \<Rightarrow> commerce \<Rightarrow> commerce" where
  "commerce_after steps db = fold commerce_step steps db"

text \<open>The books of a new site: plans, and nothing sold yet\<close>

definition no_sales :: "plan list \<Rightarrow> commerce" where
  "no_sales plans =
     \<lparr>cd_plans = plans, cd_entitlements = [], cd_credits = [], cd_lifecycles = [], cd_grants = [], cd_ledger = [],
      cd_orders = [], cd_requests = [], cd_events = [], cd_nextID = 1\<rparr>"

lemma commerce_after_invariant:
  assumes "I db" and "\<And>s db. I db \<Longrightarrow> I (commerce_step s db)"
  shows "I (commerce_after steps db)"
  using assms(1) by (induction steps arbitrary: db) (simp_all add: commerce_after_def assms(2))

lemma commerce_after_rel:
  assumes "\<And>db. R db db" and "\<And>a b c. R a b \<Longrightarrow> R b c \<Longrightarrow> R a c" and "\<And>s db. s \<in> set steps \<Longrightarrow> R db (commerce_step s db)"
  shows "R db (commerce_after steps db)"
  using assms(3)
proof (induction steps arbitrary: db)
  case Nil
  then show ?case by (simp add: commerce_after_def assms(1))
next
  case (Cons s steps)
  have "R db (commerce_step s db)" and "R (commerce_step s db) (commerce_after steps (commerce_step s db))"
    using Cons by simp_all
  then have "R db (commerce_after steps (commerce_step s db))"
    by (rule assms(2))
  then show ?case by (simp add: commerce_after_def)
qed

lemma in_tx_rel: "R db db \<Longrightarrow> R db (fst r) \<Longrightarrow> R db (fst (in_tx out db r))"
  by (rule in_tx_cases [of out db r]) simp_all

lemma all_or_nothing_rel: "R db db \<Longrightarrow> R db (fst r) \<Longrightarrow> R db (fst (all_or_nothing db r))"
  by (simp add: all_or_nothing_def split: sum.splits)

lemma and_then_rel:
  assumes trans: "\<And>a b c. R a b \<Longrightarrow> R b c \<Longrightarrow> R a c" and first: "R db (fst r)"
    and then_: "\<And>x db1. R db1 (fst (f x db1))"
  shows "R db (fst (and_then r f))"
  using first trans [OF first then_] by (simp add: and_then_def split: sum.splits)

section \<open>Rows that evolve\<close>

text \<open>Each row of the table stays at its place, changed as \<open>R\<close> allows; new rows come after them.\<close>

definition grows :: "('a \<Rightarrow> 'a \<Rightarrow> bool) \<Rightarrow> 'a list \<Rightarrow> 'a list \<Rightarrow> bool" where
  "grows R xs ys \<longleftrightarrow> list_all2 R xs (take (length xs) ys)"

lemma grows_refl: "(\<And>x. R x x) \<Longrightarrow> grows R xs xs"
  by (simp add: grows_def list_all2_same)

lemma grows_length: "grows R xs ys \<Longrightarrow> length xs \<le> length ys"
  using list_all2_lengthD [of R xs "take (length xs) ys"] by (simp add: grows_def)

lemma grows_nth: "grows R xs ys \<Longrightarrow> i < length xs \<Longrightarrow> R (xs ! i) (ys ! i)"
  using list_all2_nthD [of R xs "take (length xs) ys" i] by (simp add: grows_def)

lemma growsI: "length xs \<le> length ys \<Longrightarrow> (\<And>i. i < length xs \<Longrightarrow> R (xs ! i) (ys ! i)) \<Longrightarrow> grows R xs ys"
  by (simp add: grows_def list_all2_conv_all_nth)

lemma grows_trans:
  assumes "\<And>x y z. R x y \<Longrightarrow> R y z \<Longrightarrow> R x z" and "grows R xs ys" and "grows R ys zs"
  shows "grows R xs zs"
proof (rule growsI)
  show "length xs \<le> length zs"
    using grows_length [OF assms(2)] grows_length [OF assms(3)] by simp
next
  fix i assume i: "i < length xs"
  then have "i < length ys"
    using grows_length [OF assms(2)] by simp
  then show "R (xs ! i) (zs ! i)"
    using assms(1) grows_nth [OF assms(2) i] grows_nth [OF assms(3)] by blast
qed

lemma grows_append: "grows R xs ys \<Longrightarrow> grows R xs (ys @ zs)"
  using grows_length [of R xs ys] by (simp add: grows_def)

lemma grows_update: "(\<And>x. R x x) \<Longrightarrow> (\<And>x. p x \<Longrightarrow> R x (f x)) \<Longrightarrow> grows R xs (update_rows p f xs)"
  by (rule growsI) (simp_all add: update_rows_nth)

lemma grows_mono: "grows R xs ys \<Longrightarrow> (\<And>x y. R x y \<Longrightarrow> S x y) \<Longrightarrow> grows S xs ys"
  by (auto simp: grows_def elim: list_all2_mono)

lemma grows_mem: "grows R xs ys \<Longrightarrow> x \<in> set xs \<Longrightarrow> \<exists>y\<in>set ys. R x y"
  by (metis grows_length grows_nth in_set_conv_nth order_less_le_trans)

end
