(* ===== verification/CreditSafety.thy ===== *)
theory CreditSafety
  imports CommerceSteps
begin

text \<open>
  What holds of the credits of a site along every history: a row keeps its identity, what is spent stays spent on the worker
  it opened, a source buys one credit, and a reservation names one.
\<close>

section \<open>How a credit evolves\<close>

definition spent :: "credit \<Rightarrow> bool" where
  "spent c \<longleftrightarrow> cr_State c \<in> {CreditConsumed, CreditRevoked}"

definition credit_evolves :: "credit \<Rightarrow> credit \<Rightarrow> bool" where
  "credit_evolves c d \<longleftrightarrow>
     cr_ID d = cr_ID c \<and> cr_UID d = cr_UID c \<and> cr_SourceRef d = cr_SourceRef c \<and> cr_Profile d = cr_Profile c
     \<and> cr_Billing d = cr_Billing c \<and> cr_ExpiresAt d = cr_ExpiresAt c
     \<and> (spent c \<longrightarrow> spent d \<and> cr_WorkerUID d = cr_WorkerUID c)"

lemma credit_evolves_refl: "credit_evolves c c"
  by (simp add: credit_evolves_def)

lemma credit_evolves_trans: "credit_evolves a b \<Longrightarrow> credit_evolves b c \<Longrightarrow> credit_evolves a c"
  by (simp add: credit_evolves_def)

abbreviation credits_evolve :: "commerce \<Rightarrow> commerce \<Rightarrow> bool" where
  "credits_evolve db db' \<equiv> grows credit_evolves (cd_credits db) (cd_credits db')"

lemma credits_evolve_refl: "credits_evolve db db"
  by (rule grows_refl) (rule credit_evolves_refl)

lemma credits_evolve_trans: "credits_evolve a b \<Longrightarrow> credits_evolve b c \<Longrightarrow> credits_evolve a c"
  by (rule grows_trans) (rule credit_evolves_trans)

lemma credits_evolve_same: "cd_credits db' = cd_credits db \<Longrightarrow> credits_evolve db db'"
  by (simp add: credits_evolve_refl)

lemma credits_evolve_update:
  assumes "\<And>c. p c \<Longrightarrow> credit_evolves c (f c)" and "cd_credits db' = update_rows p f (cd_credits db)"
  shows "credits_evolve db db'"
  unfolding assms(2) by (rule grows_update) (simp_all add: credit_evolves_refl assms(1))

lemma insert_credit_evolves: "credits_evolve db (fst (insert_credit row db))"
  by (auto simp: insert_credit_def intro: grows_append credits_evolve_refl)

lemma grant_rows_evolves: "credits_evolve db (fst (grant_rows u ref e p b now is k db))"
proof (induction u ref e p b now "is" k db rule: grant_rows.induct)
  case (1 u sourceRef e p b now k db)
  show ?case by (simp add: credits_evolve_refl)
next
  case (2 u sourceRef e p b now i "is" k db)
  obtain db1 added where ins: "insert_credit (new_credit u (manual_ref sourceRef i) e p b 0 '''' now) db = (db1, added)"
    by fastforce
  have first: "credits_evolve db db1"
    using insert_credit_evolves [of db "new_credit u (manual_ref sourceRef i) e p b 0 '''' now"] by (simp add: ins)
  show ?case
    using first "2.IH"(1) [OF refl ins [symmetric]] "2.IH"(2) [OF refl ins [symmetric]] credits_evolve_trans [OF first]
    by (auto simp: ins Let_def split: option.splits if_splits)
qed

lemma release_stale_evolves: "credits_evolve db (release_stale u now db)"
  by (rule credits_evolve_update [where p = "stale_reservation u now"
        and f = "\<lambda>c. unreserve (stale_state now (cd_entitlements db) c) c"])
    (auto simp: release_stale_def stale_reservation_def credit_evolves_def spent_def unreserve_def)

lemma mark_reserved_evolves:
  assumes "mark_reserved i res now db = Some db'" and "\<forall>c\<in>set (cd_credits db). cr_ID c = i \<longrightarrow> \<not> spent c"
  shows "credits_evolve db db'"
proof -
  have db': "cd_credits db' = update_rows (\<lambda>c. cr_ID c = i)
      (\<lambda>c. c\<lparr>cr_State := CreditReserved, cr_ReservationRef := res, cr_ReservedAt := Some now\<rparr>) (cd_credits db)"
    using assms(1) by (auto simp: mark_reserved_def split: if_splits)
  show ?thesis
    unfolding db'
  proof (rule growsI)
    fix k assume k: "k < length (cd_credits db)"
    then have "cd_credits db ! k \<in> set (cd_credits db)" by simp
    then show "credit_evolves (cd_credits db ! k) (update_rows (\<lambda>c. cr_ID c = i)
        (\<lambda>c. c\<lparr>cr_State := CreditReserved, cr_ReservationRef := res, cr_ReservedAt := Some now\<rparr>) (cd_credits db) ! k)"
      using assms(2) k by (auto simp: update_rows_nth credit_evolves_def)
  qed simp
qed

section \<open>The rows are what the indexes promise\<close>

definition one_reservation :: "credit list \<Rightarrow> bool" where
  "one_reservation cs \<longleftrightarrow>
     (\<forall>c\<in>set cs. \<forall>d\<in>set cs. cr_ReservationRef c = cr_ReservationRef d \<longrightarrow> cr_ReservationRef c \<noteq> [] \<longrightarrow> cr_ID c = cr_ID d)"

definition credits_ok :: "commerce \<Rightarrow> bool" where
  "credits_ok db \<longleftrightarrow>
     distinct (map cr_ID (cd_credits db)) \<and> (\<forall>c\<in>set (cd_credits db). cr_ID c < cd_nextID db)
     \<and> distinct (map cr_SourceRef (cd_credits db)) \<and> one_reservation (cd_credits db)"

lemma one_reservationD:
  "one_reservation cs \<Longrightarrow> c \<in> set cs \<Longrightarrow> d \<in> set cs \<Longrightarrow> cr_ReservationRef c = cr_ReservationRef d \<Longrightarrow> cr_ReservationRef c \<noteq> []
     \<Longrightarrow> cr_ID c = cr_ID d"
  unfolding one_reservation_def by blast

lemma one_reservationI:
  "(\<And>c d. c \<in> set cs \<Longrightarrow> d \<in> set cs \<Longrightarrow> cr_ReservationRef c = cr_ReservationRef d \<Longrightarrow> cr_ReservationRef c \<noteq> [] \<Longrightarrow> cr_ID c = cr_ID d)
     \<Longrightarrow> one_reservation cs"
  unfolding one_reservation_def by blast

lemma credits_ok_same: "cd_credits db' = cd_credits db \<Longrightarrow> cd_nextID db \<le> cd_nextID db' \<Longrightarrow> credits_ok db \<Longrightarrow> credits_ok db'"
  unfolding credits_ok_def by (simp only:) (meson order_less_le_trans)

text \<open>An update that keeps the identities keeps the rest if the reservations it leaves name one row each.\<close>

lemma credits_ok_rows:
  assumes ok: "credits_ok db" and new: "cd_credits db' = update_rows p f (cd_credits db)" and nxt: "cd_nextID db' = cd_nextID db"
    and keep: "\<And>c. cr_ID (f c) = cr_ID c \<and> cr_SourceRef (f c) = cr_SourceRef c"
    and one: "one_reservation (update_rows p f (cd_credits db))"
  shows "credits_ok db'"
proof -
  have ids: "map cr_ID (update_rows p f (cd_credits db)) = map cr_ID (cd_credits db)"
    and refs: "map cr_SourceRef (update_rows p f (cd_credits db)) = map cr_SourceRef (cd_credits db)"
    by (simp_all add: update_rows_map keep)
  have "\<forall>c\<in>set (update_rows p f (cd_credits db)). cr_ID c < cd_nextID db"
    using ok keep by (auto simp: set_update_rows credits_ok_def)
  then show ?thesis
    using ok one unfolding credits_ok_def new nxt ids refs by blast
qed

lemma credits_ok_update:
  assumes ok: "credits_ok db" and new: "cd_credits db' = update_rows p f (cd_credits db)" and nxt: "cd_nextID db' = cd_nextID db"
    and keep: "\<And>c. cr_ID (f c) = cr_ID c \<and> cr_SourceRef (f c) = cr_SourceRef c"
    and res: "\<And>c. cr_ReservationRef (f c) = cr_ReservationRef c \<or> cr_ReservationRef (f c) = []"
  shows "credits_ok db'"
proof (rule credits_ok_rows [OF ok new nxt keep])
  have old: "\<exists>d\<in>set (cd_credits db). cr_ID c = cr_ID d \<and> cr_ReservationRef c = cr_ReservationRef d"
    if c: "c \<in> set (update_rows p f (cd_credits db))" and r: "cr_ReservationRef c \<noteq> []" for c
  proof -
    obtain d where d: "d \<in> set (cd_credits db)" "c = (if p d then f d else d)"
      using c unfolding set_update_rows by auto
    then have "cr_ID c = cr_ID d" "cr_ReservationRef c = cr_ReservationRef d"
      using keep [of d] res [of d] r by (simp_all split: if_splits)
    then show ?thesis using d(1) by blast
  qed
  show "one_reservation (update_rows p f (cd_credits db))"
  proof (rule one_reservationI)
    fix c d assume c: "c \<in> set (update_rows p f (cd_credits db))" and d: "d \<in> set (update_rows p f (cd_credits db))"
      and same: "cr_ReservationRef c = cr_ReservationRef d" "cr_ReservationRef c \<noteq> []"
    obtain a b where ab: "a \<in> set (cd_credits db)" "b \<in> set (cd_credits db)" "cr_ID c = cr_ID a" "cr_ID d = cr_ID b"
      "cr_ReservationRef c = cr_ReservationRef a" "cr_ReservationRef d = cr_ReservationRef b"
      using old [OF c] old [OF d] same by auto
    then show "cr_ID c = cr_ID d"
      using one_reservationD [of "cd_credits db" a b] ok same by (simp add: credits_ok_def)
  qed
qed

lemma new_credit_fields [simp]:
  "cr_ID (new_credit u ref e p b r t now i) = i" "cr_SourceRef (new_credit u ref e p b r t now i) = ref"
  "cr_ReservationRef (new_credit u ref e p b r t now i) = []" "cr_UID (new_credit u ref e p b r t now i) = u"
  "cr_Profile (new_credit u ref e p b r t now i) = p" "cr_Billing (new_credit u ref e p b r t now i) = b"
  by (simp_all add: new_credit_def)

lemma insert_credit_ok: "credits_ok db \<Longrightarrow> credits_ok (fst (insert_credit (new_credit u ref e p b r t now) db))"
proof (cases "credit_of_source ref db = None")
  case True
  let ?c = "new_credit u ref e p b r t now (cd_nextID db)"
  assume ok: "credits_ok db"
  have fresh: "\<forall>c\<in>set (cd_credits db). cr_SourceRef c \<noteq> ref"
    using True by (simp add: credit_of_source_def find_None_iff)
  have ids: "\<forall>c\<in>set (cd_credits db). cr_ID c < cd_nextID db" and d: "distinct (map cr_ID (cd_credits db))"
    and s: "distinct (map cr_SourceRef (cd_credits db))" and one: "one_reservation (cd_credits db)"
    using ok unfolding credits_ok_def by blast+
  have "distinct (map cr_ID (cd_credits db @ [?c]))" "distinct (map cr_SourceRef (cd_credits db @ [?c]))"
    using d s ids fresh by auto
  moreover have "\<forall>c\<in>set (cd_credits db @ [?c]). cr_ID c < cd_nextID db + 1"
    using ids by auto
  moreover have "one_reservation (cd_credits db @ [?c])"
    by (rule one_reservationI) (use one in \<open>auto dest: one_reservationD\<close>)
  ultimately show ?thesis
    using True by (simp add: insert_credit_def credits_ok_def)
next
  case False
  then show "credits_ok db \<Longrightarrow> ?thesis"
    by (simp only: insert_credit_def new_credit_fields) simp
qed

lemma mark_reserved_ok:
  assumes ok: "credits_ok db" and m: "mark_reserved i res now db = Some db'"
  shows "credits_ok db'"
proof (rule credits_ok_rows [OF ok])
  let ?f = "\<lambda>c. c\<lparr>cr_State := CreditReserved, cr_ReservationRef := res, cr_ReservedAt := Some now\<rparr>"
  have alone: "\<And>c. c \<in> set (cd_credits db) \<Longrightarrow> cr_ReservationRef c = res \<Longrightarrow> cr_ID c = i"
    using m by (auto simp: mark_reserved_def split: if_splits)
  show "cd_credits db' = update_rows (\<lambda>c. cr_ID c = i) ?f (cd_credits db)" and "cd_nextID db' = cd_nextID db"
    using m by (auto simp: mark_reserved_def split: if_splits)
  show "cr_ID (?f c) = cr_ID c \<and> cr_SourceRef (?f c) = cr_SourceRef c" for c
    by simp
  show "one_reservation (update_rows (\<lambda>c. cr_ID c = i) ?f (cd_credits db))"
  proof (rule one_reservationI)
    fix c d assume c: "c \<in> set (update_rows (\<lambda>c. cr_ID c = i) ?f (cd_credits db))"
      and d: "d \<in> set (update_rows (\<lambda>c. cr_ID c = i) ?f (cd_credits db))"
      and same: "cr_ReservationRef c = cr_ReservationRef d" "cr_ReservationRef c \<noteq> []"
    obtain a where a: "a \<in> set (cd_credits db)" "cr_ID c = cr_ID a" "cr_ReservationRef c = (if cr_ID a = i then res else cr_ReservationRef a)"
      using c unfolding set_update_rows by auto
    obtain b where b: "b \<in> set (cd_credits db)" "cr_ID d = cr_ID b" "cr_ReservationRef d = (if cr_ID b = i then res else cr_ReservationRef b)"
      using d unfolding set_update_rows by auto
    show "cr_ID c = cr_ID d"
      using a b same alone [OF a(1)] alone [OF b(1)] one_reservationD [of "cd_credits db" a b] ok
      by (auto simp: credits_ok_def split: if_splits)
  qed
qed

lemma grant_rows_ok: "credits_ok db \<Longrightarrow> credits_ok (fst (grant_rows u ref e p b now is k db))"
proof (induction u ref e p b now "is" k db rule: grant_rows.induct)
  case (1 u sourceRef e p b now k db)
  then show ?case by simp
next
  case (2 u sourceRef e p b now i "is" k db)
  obtain db1 added where ins: "insert_credit (new_credit u (manual_ref sourceRef i) e p b 0 '''' now) db = (db1, added)"
    by fastforce
  have first: "credits_ok db1"
    using insert_credit_ok [OF "2.prems", of u "manual_ref sourceRef i" e p b 0 "''''" now] by (simp add: ins)
  show ?case
    using first "2.IH"(1) [OF refl ins [symmetric]] "2.IH"(2) [OF refl ins [symmetric]]
    by (auto simp: ins Let_def split: option.splits if_splits)
qed

lemma release_stale_ok: "credits_ok db \<Longrightarrow> credits_ok (release_stale u now db)"
  by (erule credits_ok_update [where p = "stale_reservation u now"
        and f = "\<lambda>c. unreserve (stale_state now (cd_entitlements db) c) c"])
    (simp_all add: release_stale_def unreserve_def)

section \<open>Every operation\<close>

text \<open>The claim on the credits that every operation keeps: they evolve, and stay what the indexes promise.\<close>

definition credits_kept :: "commerce \<Rightarrow> commerce \<Rightarrow> bool" where
  "credits_kept db db' \<longleftrightarrow> (credits_ok db \<longrightarrow> credits_ok db' \<and> credits_evolve db db')"

lemma credits_kept_refl: "credits_kept db db"
  by (simp add: credits_kept_def credits_evolve_refl)

lemma credits_kept_trans: "credits_kept a b \<Longrightarrow> credits_kept b c \<Longrightarrow> credits_kept a c"
  unfolding credits_kept_def by (meson credits_evolve_trans)

lemma credits_kept_same: "cd_credits db' = cd_credits db \<Longrightarrow> cd_nextID db \<le> cd_nextID db' \<Longrightarrow> credits_kept db db'"
  by (simp add: credits_kept_def credits_evolve_same credits_ok_same)

lemma credits_kept_update:
  assumes "\<And>c. p c \<Longrightarrow> credit_evolves c (f c)"
    and "\<And>c. cr_ID (f c) = cr_ID c \<and> cr_SourceRef (f c) = cr_SourceRef c"
    and "\<And>c. cr_ReservationRef (f c) = cr_ReservationRef c \<or> cr_ReservationRef (f c) = []"
  shows "credits_kept db (db\<lparr>cd_credits := update_rows p f (cd_credits db)\<rparr>)"
proof -
  have "credits_evolve db (db\<lparr>cd_credits := update_rows p f (cd_credits db)\<rparr>)"
    by (rule credits_evolve_update [OF assms(1)]) simp_all
  moreover have "credits_ok db \<Longrightarrow> credits_ok (db\<lparr>cd_credits := update_rows p f (cd_credits db)\<rparr>)"
    by (erule credits_ok_update [OF _ _ _ assms(2,3)]) simp_all
  ultimately show ?thesis by (simp add: credits_kept_def)
qed

lemmas credit_change = credit_evolves_def spent_def unreserve_def

lemma fst_if_rel: "P (fst x) \<Longrightarrow> P (fst y) \<Longrightarrow> P (fst (if b then x else y))"
  by simp

lemma insert_credit_kept: "credits_kept db (fst (insert_credit (new_credit u ref e p b r t now) db))"
  by (simp add: credits_kept_def insert_credit_ok insert_credit_evolves)

lemma grant_kept: "credits_kept db (fst (GrantCloudWorkerConfiguredCredits u n ref e p b now out db))"
proof -
  have rows: "credits_kept db (fst (all_or_nothing db (grant_rows u ref' e p' b' now is 0 db)))" for ref' p' b' "is"
    by (rule all_or_nothing_rel) (simp_all add: credits_kept_def grant_rows_ok grant_rows_evolves credits_evolve_refl)
  show ?thesis
    by (simp add: GrantCloudWorkerConfiguredCredits_def Let_def credits_kept_refl
        in_tx_rel [of credits_kept, OF credits_kept_refl rows] split: prod.split)
qed

lemma release_stale_kept: "credits_kept db (release_stale u now db)"
  by (simp add: credits_kept_def release_stale_ok release_stale_evolves)

text \<open>Reserving marks a credit that is available, and ids are unique.\<close>

lemma same_credit: "credits_ok db \<Longrightarrow> c \<in> set (cd_credits db) \<Longrightarrow> d \<in> set (cd_credits db) \<Longrightarrow> cr_ID d = cr_ID c \<Longrightarrow> d = c"
  unfolding credits_ok_def by (meson distinct_map inj_onD)

lemma mark_reserved_kept:
  assumes m: "mark_reserved (cr_ID c) res now db = Some db'" and c: "c \<in> set (cd_credits db)" and free: "\<not> spent c"
  shows "credits_kept db db'"
  unfolding credits_kept_def
proof (intro impI conjI)
  assume ok: "credits_ok db"
  show "credits_ok db'"
    by (rule mark_reserved_ok [OF ok m])
  have "\<forall>d\<in>set (cd_credits db). cr_ID d = cr_ID c \<longrightarrow> \<not> spent d"
    using same_credit [OF ok c] free by blast
  then show "credits_evolve db db'"
    by (rule mark_reserved_evolves [OF m])
qed

lemma pick_spendable:
  assumes "first_row k (filter (\<lambda>c. spendable u now c \<and> q c) cs) = Some c"
  shows "c \<in> set cs \<and> spendable u now c"
  using first_row_Some [OF assms] by simp

lemma spendable_not_spent: "spendable u now c \<Longrightarrow> \<not> spent c"
  by (simp add: spendable_def spent_def)

lemma reserve_pick_kept:
  assumes pick: "first_row k (filter q (cd_credits (release_stale u now db))) = Some c" and q: "\<And>c. q c \<Longrightarrow> \<not> spent c"
    and m: "mark_reserved (cr_ID c) r now (release_stale u now db) = Some db2"
  shows "credits_kept db db2"
proof -
  have "c \<in> set (cd_credits (release_stale u now db))" and "\<not> spent c"
    using first_row_Some [OF pick] q by auto
  then show ?thesis
    using credits_kept_trans [OF release_stale_kept mark_reserved_kept [OF m]] by blast
qed

lemma reserve_kept: "credits_kept db (fst (ReserveCloudWorkerCredit u res now out db))"
proof -
  have "credits_kept db (fst (case first_row (\<lambda>c. (cr_CreatedAt c, cr_ID c)) (filter (spendable u now) (cd_credits (release_stale u now db))) of
          None \<Rightarrow> (db, Inr False)
        | Some c \<Rightarrow> (case mark_reserved (cr_ID c) r now (release_stale u now db) of
                       None \<Rightarrow> (db, Inl db_error) | Some db2 \<Rightarrow> (db2, Inr True))))" for r
    by (simp add: credits_kept_refl split: option.split)
      (metis (no_types, lifting) reserve_pick_kept spendable_not_spent)
  then show ?thesis
    by (simp add: ReserveCloudWorkerCredit_def Let_def credits_kept_refl in_tx_rel [of credits_kept, OF credits_kept_refl])
qed

lemma reserve_configured_kept: "credits_kept db (fst (ReserveCloudWorkerConfiguredCredit u res p b now out db))"
proof -
  have "credits_kept db (fst (case first_row k (filter (\<lambda>c. spendable u now c \<and> q c) (cd_credits (release_stale u now db))) of
          None \<Rightarrow> (db, Inr x)
        | Some c \<Rightarrow> (case mark_reserved (cr_ID c) r now (release_stale u now db) of
                       None \<Rightarrow> (db, Inl db_error) | Some db2 \<Rightarrow> (db2, Inr (y c)))))"
    for k :: "credit \<Rightarrow> 'k::linorder" and q x r and y :: "credit \<Rightarrow> 'x"
    by (simp add: credits_kept_refl split: option.split)
      (metis (no_types, lifting) reserve_pick_kept spendable_not_spent)
  note pick = this
  show ?thesis
    unfolding ReserveCloudWorkerConfiguredCredit_def Let_def
    by (intro fst_if_rel [where P = "credits_kept db"] in_tx_rel [of credits_kept] pick) (simp_all add: credits_kept_refl)
qed

lemma release_kept: "credits_kept db (fst (ReleaseCloudWorkerCredit u res now out db))"
  by (auto simp: ReleaseCloudWorkerCredit_def holds_reservation_def credit_change
      intro!: credits_kept_refl in_tx_rel [of credits_kept] credits_kept_update)

lemma queue_kept: "credits_kept db (fst (QueueCloudWorkerCredit u res now out db))"
  by (auto simp: QueueCloudWorkerCredit_def holds_reservation_def credit_change
      intro!: credits_kept_refl in_tx_rel [of credits_kept] credits_kept_update)

lemma claim_queued_kept: "credits_kept db (fst (ClaimQueuedCloudWorkerCredit u now out db))"
  by (auto simp: ClaimQueuedCloudWorkerCredit_def queued_for_def credit_change
      intro!: credits_kept_refl in_tx_rel [of credits_kept] credits_kept_update)

lemma consume_kept: "credits_kept db (consume_credit u res w now db)"
  unfolding consume_credit_def by (rule credits_kept_update) (simp_all add: holds_reservation_def credit_change)

lemma upsert_kept: "upsert_lifecycle w u tenant e d b g now db = Some db' \<Longrightarrow> credits_kept db db'"
  by (auto simp: upsert_lifecycle_def add_lifecycle_def split: if_splits intro!: credits_kept_same)

lemma commit_kept: "credits_kept db (fst (CommitCloudWorkerCredit u res w tenant g now out db))"
  unfolding CommitCloudWorkerCredit_def Let_def
  by (intro fst_if_rel [where P = "credits_kept db"] in_tx_rel [of credits_kept])
    (auto split: option.split intro!: credits_kept_refl consume_kept intro: credits_kept_trans [OF consume_kept upsert_kept])

lemma update_lifecycles_kept: "credits_kept db (update_lifecycles p f db)"
  by (simp add: credits_kept_same)

lemma lifecycle_ops_kept:
  "credits_kept db (fst (RegisterCloudWorkerLifecycle w u tenant e b g now out db))"
  "credits_kept db (fst (ExtendCloudWorkerLifecycles u e g now out db))"
  "credits_kept db (fst (ExtendCloudWorkerLifecycle i e g now out db))"
  "credits_kept db (fst (ForceCloudWorkerLifecyclePending i d now out db))"
  "credits_kept db (fst (MarkCloudWorkerLifecyclePending i d now out db))"
  "credits_kept db (fst (ClaimCloudWorkerLifecycleDeletion i now out db))"
  "credits_kept db (fst (MarkCloudWorkerLifecycleDeleted i err now out db))"
  "credits_kept db (fst (MarkCloudWorkerLifecycleAwaitingRecycle i err now out db))"
  "credits_kept db (fst (RequestCloudWorkerConversion i now out db))"
  "credits_kept db (fst (ClaimCloudWorkerBillingAction i a auto now out db))"
  "credits_kept db (fst (CompleteCloudWorkerBillingAction i a e err now out db))"
  "credits_kept db (fst (ClaimCloudWorkerTrialRelease i now out db))"
  by (auto simp: RegisterCloudWorkerLifecycle_def ExtendCloudWorkerLifecycles_def ExtendCloudWorkerLifecycle_def
      ForceCloudWorkerLifecyclePending_def MarkCloudWorkerLifecyclePending_def ClaimCloudWorkerLifecycleDeletion_def
      MarkCloudWorkerLifecycleDeleted_def MarkCloudWorkerLifecycleAwaitingRecycle_def RequestCloudWorkerConversion_def
      ClaimCloudWorkerBillingAction_def CompleteCloudWorkerBillingAction_def ClaimCloudWorkerTrialRelease_def Let_def
      add_lifecycle_def split: prod.split
      intro!: fst_if_rel [where P = "credits_kept db"] in_tx_rel [of credits_kept] credits_kept_refl update_lifecycles_kept
      intro: credits_kept_same)

lemma claim_order_credits: "cd_credits (fst (claim_order n p f now db)) = cd_credits db \<and> cd_nextID (fst (claim_order n p f now db)) = cd_nextID db"
  by (simp add: claim_order_def update_order_def)

lemma place_order_kept: "credits_kept db (fst (place_order q ch p now db))"
  by (auto simp: place_order_def insert_order_def Let_def close_expired_reservations_def split: option.split if_splits
      intro!: credits_kept_same)

lemma create_order_kept: "credits_kept db (fst (CreateCommercialOrder q now out db))"
  unfolding CreateCommercialOrder_def Let_def
  by (intro fst_if_rel [where P = "credits_kept db"] in_tx_rel [of credits_kept])
    (auto split: option.split sum.split intro!: credits_kept_refl place_order_kept credits_kept_same)

lemma update_order_credits [simp]:
  "cd_credits (update_order n p f now db) = cd_credits db" "cd_nextID (update_order n p f now db) = cd_nextID db"
  by (simp_all add: update_order_def)

lemma reverse_grants_credits [simp]:
  "cd_credits (reverse_grants s n p t db) = cd_credits db" "cd_nextID (reverse_grants s n p t db) = cd_nextID db"
  by (simp_all add: reverse_grants_def)

lemma order_ops_kept:
  "credits_kept db (fst (BeginCommercialOrderPayment n e now out db))"
  "credits_kept db (fst (SetCommercialOrderPaymentIntent n url e now out db))"
  "credits_kept db (fst (FailCommercialOrder n m now out db))"
  "credits_kept db (fst (CancelCommercialOrder u n m now out db))"
  "credits_kept db (fst (CloseExpiredCommercialOrders k now out db))"
  "credits_kept db (fst (BeginCommercialOrderRefund n q d now out db))"
  "credits_kept db (fst (FailCommercialOrderRefund n q m now out db))"
  unfolding BeginCommercialOrderPayment_def SetCommercialOrderPaymentIntent_def FailCommercialOrder_def
    CancelCommercialOrder_def CloseExpiredCommercialOrders_def BeginCommercialOrderRefund_def FailCommercialOrderRefund_def
    Let_def case_prod_beta
  by (intro fst_if_rel [where P = "credits_kept db"] in_tx_rel [of credits_kept]; simp add: credits_kept_refl
      credits_kept_same claim_order_credits)+

lemma add_grant_kept: "credits_kept db (add_grant u i s r n st e ma db)"
  by (auto simp: add_grant_def Let_def intro!: credits_kept_refl credits_kept_same)

lemma fold_kept: "(\<And>x db. credits_kept db (f x db)) \<Longrightarrow> credits_kept db (fold f xs db)"
  by (induction xs arbitrary: db) (auto intro: credits_kept_refl credits_kept_trans)

lemma create_grants_kept: "credits_kept db (createCommercialPlanGrants u i s r n m b st e db)"
  by (simp add: createCommercialPlanGrants_def fold_kept add_grant_kept)

lemma reverse_grants_kept: "credits_kept db (reverse_grants s n p t db)"
  by (simp add: reverse_grants_def credits_kept_same)

lemma revoke_tier_kept: "credits_kept db (revokeCommercialPlanTier u slug now i db)"
proof -
  have "credits_kept db (db\<lparr>cd_credits := update_rows (superseded_credit u i now db) (unreserve CreditRevoked) (cd_credits db)\<rparr>)"
    by (rule credits_kept_update) (auto simp: superseded_credit_def credit_change)
  then show ?thesis
    unfolding revokeCommercialPlanTier_def Let_def
    by (rule credits_kept_trans) (rule credits_kept_trans [OF credits_kept_same reverse_grants_kept], simp_all)
qed

lemma free_baseline_kept: "credits_kept db (revokeCommercialFreeBaseline u slug now db)"
  unfolding revokeCommercialFreeBaseline_def Let_def
  by (rule credits_kept_trans [OF reverse_grants_kept]) (rule credits_kept_same, simp_all)

lemma activate_kept: "credits_kept db (fst (activateCommercialOfficialPlan u slug now db))"
  by (auto simp: activateCommercialOfficialPlan_def Let_def free_baseline_kept
      intro: credits_kept_refl credits_kept_trans [OF free_baseline_kept fold_kept [OF revoke_tier_kept]])

lemma extend_paid_kept: "credits_kept db (fst (extendCloudWorkerLifecyclesWithPaidPeriod u e g now db))"
  by (simp add: extendCloudWorkerLifecyclesWithPaidPeriod_def credits_kept_refl update_lifecycles_kept)

lemma grant_credit_kept: "credits_kept db (fst (grantCloudWorkerCredit u ref e p g r now db))"
  by (simp add: grantCloudWorkerCredit_def Let_def credits_kept_refl insert_credit_kept split: prod.split)

lemma grant_worker_kept: "credits_kept db (fst (grant_worker r e now db))"
  unfolding grant_worker_def Let_def
  by (rule and_then_rel [of credits_kept, OF credits_kept_trans _ extend_paid_kept])
    (auto simp: credits_kept_refl grant_credit_kept)

lemma complete_order_kept: "credits_kept db (fst (complete_order n tr p now w db))"
  by (simp add: complete_order_def update_order_def Let_def credits_kept_same)

lemma deliver_kept: "credits_kept db (fst (deliver_order r tr st p now db))"
proof -
  have ins: "credits_kept db db1" if "insert_order_entitlement u i n a b db = Some db1" for u i n a b db1
    using that by (auto simp: insert_order_entitlement_def split: if_splits intro!: credits_kept_same)
  have rest: "credits_kept db2 (fst (and_then (if w then grant_worker r e now db2 else (db2, Inr ()))
      (\<lambda>_. complete_order (or_OrderNo r) tr p now w)))" for w e db2
    by (rule and_then_rel [of credits_kept, OF credits_kept_trans _ complete_order_kept])
      (auto simp: credits_kept_refl grant_worker_kept)
  show ?thesis
  proof (cases "insert_order_entitlement (or_UID r) (or_PlanID r) (or_OrderNo r) st (addDays st (or_PlanDurationDays r)) db")
    case None
    then show ?thesis by (simp add: deliver_order_def Let_def credits_kept_refl)
  next
    case (Some db1)
    show ?thesis
      unfolding deliver_order_def Let_def Some option.case
      by (rule credits_kept_trans [OF ins [OF Some] credits_kept_trans [OF create_grants_kept rest]])
  qed
qed

lemma record_event_kept: "record_event ch ev n tr ty h db = Some db1 \<Longrightarrow> credits_kept db db1"
  by (auto simp: record_event_def split: if_splits intro!: credits_kept_same)

lemma fulfill_paid_kept: "credits_kept db (fst (fulfill_paid r c now db))"
  unfolding fulfill_paid_def Let_def
  by (auto split: option.split intro!: credits_kept_refl and_then_rel [of credits_kept, OF credits_kept_trans]
      intro: credits_kept_trans [OF record_event_kept] activate_kept deliver_kept)

lemma fulfill_kept: "credits_kept db (fst (FulfillCommercialOrder n c now out db))"
proof -
  have "credits_kept db (fst (and_then (fulfill_paid r x now db) (\<lambda>s db. (db, Inr (s, True)))))" for r x
    by (rule and_then_rel [of credits_kept, OF credits_kept_trans fulfill_paid_kept]) (simp_all add: credits_kept_refl)
  then show ?thesis
    unfolding FulfillCommercialOrder_def
    by (auto split: option.split sum.split intro!: credits_kept_refl in_tx_rel [of credits_kept] all_or_nothing_rel [of credits_kept])
qed

lemma roll_back_kept: "credits_kept db (roll_back_workers u t now db)"
  by (simp add: roll_back_workers_def update_lifecycles_kept)

lemma revoke_order_credit_kept: "credits_kept db (revoke_order_credit r db)"
proof -
  have "credits_kept db (db\<lparr>cd_credits := update_rows (refunded_credit r) (unreserve CreditRevoked) (cd_credits db)\<rparr>)"
    by (rule credits_kept_update) (auto simp: refunded_credit_def credit_change)
  then show ?thesis by (simp add: revoke_order_credit_def)
qed

lemma take_back_kept: "credits_kept db (take_back r t now db)"
proof -
  have "credits_kept db (reverse_order_grants r t (revoke_order_rights r db))"
    by (rule credits_kept_same) (simp_all add: reverse_order_grants_def revoke_order_rights_def)
  then have a: "credits_kept db (revoke_order_credit r (reverse_order_grants r t (revoke_order_rights r db)))"
    by (rule credits_kept_trans) (rule revoke_order_credit_kept)
  show ?thesis
    unfolding take_back_def Let_def
    by (rule credits_kept_trans [OF a credits_kept_trans [OF roll_back_kept]]) (rule credits_kept_same, simp_all add: roll_back_workers_def)
qed

lemma refund_kept: "credits_kept db (fst (CompleteCommercialOrderRefund n c now out db))"
proof -
  have "credits_kept db (fst (refund_claimed r x now db))" for r x
    by (auto simp: refund_claimed_def Let_def split: option.split intro: credits_kept_refl
        credits_kept_trans [OF record_event_kept take_back_kept])
  then show ?thesis
    unfolding CompleteCommercialOrderRefund_def
    by (auto split: option.split sum.split intro!: credits_kept_refl in_tx_rel [of credits_kept])
qed

lemma trial_kept: "credits_kept db (fst (ClaimCommercialTrial u s now out db))"
proof -
  have "credits_kept db (start_trial u p now db)" for p
    unfolding start_trial_def Let_def
    by (rule credits_kept_trans [OF credits_kept_same create_grants_kept]) simp_all
  then show ?thesis
    unfolding ClaimCommercialTrial_def
    by (auto split: option.split intro!: credits_kept_refl in_tx_rel [of credits_kept])
qed

lemmas credit_ops_kept = grant_kept reserve_kept reserve_configured_kept commit_kept release_kept queue_kept claim_queued_kept
  lifecycle_ops_kept order_ops_kept create_order_kept fulfill_kept refund_kept trial_kept

lemma step_kept: "credits_kept db (commerce_step s db)"
proof -
  obtain now out op where s: "s = (now, out, op)" by (cases s)
  show ?thesis
    unfolding s by (cases op) (simp_all add: credit_ops_kept)
qed

lemma history_kept: "credits_kept db (commerce_after steps db)"
  by (rule commerce_after_rel [where R = credits_kept]) (rule credits_kept_refl, erule (1) credits_kept_trans, rule step_kept)

lemma no_sales_ok: "credits_ok (no_sales plans)"
  by (simp add: credits_ok_def no_sales_def one_reservation_def)

lemma history_credits_ok: "credits_ok (commerce_after steps (no_sales plans))"
  using history_kept [of "no_sales plans" steps] no_sales_ok by (simp add: credits_kept_def)

lemma history_credit:
  assumes "credits_ok db" and "c \<in> set (cd_credits db)" and "d \<in> set (cd_credits (commerce_after steps db))" and "cr_ID d = cr_ID c"
  shows "credit_evolves c d"
proof -
  have kept: "credits_ok (commerce_after steps db)" "credits_evolve db (commerce_after steps db)"
    using history_kept [of db steps] assms(1) by (simp_all add: credits_kept_def)
  obtain e where e: "e \<in> set (cd_credits (commerce_after steps db))" "credit_evolves c e"
    using grows_mem [OF kept(2) assms(2)] by blast
  then have "e = d"
    using same_credit [OF kept(1) assms(3) e(1)] assms(4) by (simp add: credit_evolves_def)
  then show ?thesis using e(2) by simp
qed

section \<open>Spending\<close>

text \<open>A site with one plan, and an operator's grant of a credit that opens worker 71\<close>

definition sample_plan :: plan where
  "sample_plan =
     \<lparr>pl_ID = 1, pl_Slug = ''team'', pl_Name = ''Team'', pl_Description = [], pl_PriceFen = 9900, pl_Currency = ''cny'',
      pl_SaleState = ''public'', pl_PurchaseLimit = 0, pl_MonthlyBudget = 0, pl_ModelBudgets = [(''model-a'', 5)],
      pl_DurationDays = 30, pl_State = 0, pl_Profile = ''packed_shared'', pl_RetentionDays = 0, pl_WorkerIncluded = True,
      pl_Tier = 1, pl_RuntimePlan = ''light''\<rparr>"

definition sample_spending :: "(go_time \<times> db_outcome \<times> commerce_op) list" where
  "sample_spending =
     [(100, Committed, GrantCredits 5 1 ''op'' None ''packed_shared'' ''month''),
      (200, Committed, ReserveConfigured 5 ''create-1'' [] [])]"

text \<open>
  C12: A credit that a worker has consumed is never spent again: after any operations, in any order and whatever became of
  their transactions, its row still belongs to that worker, consumed or (after a refund) revoked.
\<close>

theorem credit_spent_once:
  assumes "c \<in> set (cd_credits (commerce_after before (no_sales plans)))" and "cr_State c = CreditConsumed"
    and "d \<in> set (cd_credits (commerce_after later (commerce_after before (no_sales plans))))" and "cr_ID d = cr_ID c"
  shows "cr_WorkerUID d = cr_WorkerUID c \<and> cr_State d \<in> {CreditConsumed, CreditRevoked}"
  using history_credit [OF history_credits_ok assms(1,3,4)] assms(2) by (simp add: credit_evolves_def spent_def)

theorem credit_spent_once_witness:
  "cr_WorkerUID (hd (cd_credits (commerce_after [(400, Committed, ReleaseCredit 5 ''create-1'')]
     (commerce_after (sample_spending @ [(300, Committed, CommitCredit 5 ''create-1'' 71 ''tenant'' 7)]) (no_sales [sample_plan]))))) = Some 71"
  (is "cr_WorkerUID (hd (cd_credits (commerce_after ?later (commerce_after ?before ?site)))) = _")
proof -
  let ?c = "hd (cd_credits (commerce_after ?before ?site))" and ?d = "hd (cd_credits (commerce_after ?later (commerce_after ?before ?site)))"
  have c: "?c \<in> set (cd_credits (commerce_after ?before ?site))" by code_simp
  have s: "cr_State ?c = CreditConsumed" by code_simp
  have d: "?d \<in> set (cd_credits (commerce_after ?later (commerce_after ?before ?site)))" by code_simp
  have i: "cr_ID ?d = cr_ID ?c" by code_simp
  have w: "cr_WorkerUID ?c = Some 71" by code_simp
  show ?thesis
    using credit_spent_once [OF c s d i] w by simp
qed

lemma affected_one:
  assumes "distinct (map k xs)" and "x \<in> set xs" and "\<And>y. y \<in> set xs \<Longrightarrow> p y \<longleftrightarrow> y = x" and "\<not> q x" and "q (f x)"
  shows "affected q (update_rows p f xs) = affected q xs + 1"
proof -
  obtain as bs where xs: "xs = as @ x # bs"
    using split_list [OF assms(2)] by blast
  have no: "\<forall>y\<in>set as \<union> set bs. \<not> p y"
    using assms(1,3) unfolding xs by auto
  have "update_rows p f as = as" "update_rows p f bs = bs"
    using no by (simp_all add: update_rows_none)
  then show ?thesis
    using assms(3)[of x] assms(4,5) by (simp add: affected_def xs update_rows_def)
qed

lemma commit_success:
  assumes "CommitCloudWorkerCredit u res w tenant g now out db = (db', Inr ())"
  obtains c where "trimSpace res \<noteq> []" "c \<in> set (cd_credits db)" "holds_reservation u (trimSpace res) c"
    "cd_credits db' = update_rows (holds_reservation u (trimSpace res))
        (\<lambda>c. c\<lparr>cr_State := CreditConsumed, cr_WorkerUID := Some w, cr_ConsumedAt := Some now\<rparr>) (cd_credits db)"
proof -
  have ne: "trimSpace res \<noteq> []"
    using assms by (auto simp: CommitCloudWorkerCredit_def Let_def split: if_splits)
  let ?r = "case List.find (holds_reservation u (trimSpace res)) (cd_credits db) of
              None \<Rightarrow> (db, Inl ''cloud worker credit reservation not found'')
            | Some c \<Rightarrow>
                let db1 = consume_credit u (trimSpace res) w now db
                in case cr_ExpiresAt c of
                     None \<Rightarrow> (db1, Inr ())
                   | Some e \<Rightarrow>
                       let grace = commit_grace (cr_Billing c) g
                       in (case upsert_lifecycle w u (trimSpace tenant) e (addDays e grace) (cr_Billing c) grace now db1 of
                             None \<Rightarrow> (db, Inl db_error)
                           | Some db2 \<Rightarrow> (db2, Inr ()))"
  have "in_tx out db ?r = (db', Inr ())"
    using assms by (simp add: CommitCloudWorkerCredit_def Let_def split: if_splits)
  then have r: "?r = (db', Inr ())"
    using in_tx_success [of out db ?r "()"] by simp
  obtain c where c: "List.find (holds_reservation u (trimSpace res)) (cd_credits db) = Some c"
    using r by (auto split: option.splits)
  have up: "cd_credits db2 = cd_credits db1" if "upsert_lifecycle w u tn e d b gr now db1 = Some db2" for db1 db2 tn e d b gr
    using that by (auto simp: upsert_lifecycle_def add_lifecycle_def split: if_splits)
  have "cd_credits db' = cd_credits (consume_credit u (trimSpace res) w now db)"
    using r c by (auto simp: Let_def split: option.splits dest: up)
  moreover have "c \<in> set (cd_credits db) \<and> holds_reservation u (trimSpace res) c"
    using find_SomeD [OF c] by simp
  ultimately show thesis
    using that [OF ne, of c] by (simp add: consume_credit_def)
qed

text \<open>
  C28: A worker costs exactly one credit: a commit that succeeds turns exactly one of the owner's reserved credits into a
  consumed one, and no other credit of the site changes.
\<close>

theorem worker_costs_one_credit:
  assumes "db = commerce_after before (no_sales plans)"
    and "CommitCloudWorkerCredit u reservation worker tenant grace now out db = (db', Inr ())"
  shows "affected (\<lambda>c. cr_State c = CreditConsumed) (cd_credits db') = affected (\<lambda>c. cr_State c = CreditConsumed) (cd_credits db) + 1
    \<and> (\<exists>c\<in>set (cd_credits db). holds_reservation u (trimSpace reservation) c
         \<and> (\<forall>d\<in>set (cd_credits db). d \<noteq> c \<longrightarrow> d \<in> set (cd_credits db')))"
proof -
  have ok: "credits_ok db"
    unfolding assms(1) by (rule history_credits_ok)
  let ?p = "holds_reservation u (trimSpace reservation)"
  obtain c where ne: "trimSpace reservation \<noteq> []" and c: "c \<in> set (cd_credits db)" "?p c"
    and new: "cd_credits db' = update_rows ?p (\<lambda>c. c\<lparr>cr_State := CreditConsumed, cr_WorkerUID := Some worker,
                 cr_ConsumedAt := Some now\<rparr>) (cd_credits db)"
    by (rule commit_success [OF assms(2)])
  have only: "?p d \<longleftrightarrow> d = c" if "d \<in> set (cd_credits db)" for d
  proof
    assume "?p d"
    then have "cr_ReservationRef d = cr_ReservationRef c" "cr_ReservationRef d \<noteq> []"
      using c(2) ne by (simp_all add: holds_reservation_def)
    then have "cr_ID d = cr_ID c"
      using one_reservationD [OF _ that c(1)] ok by (simp add: credits_ok_def)
    then show "d = c"
      by (rule same_credit [OF ok c(1) that])
  qed (simp add: c(2))
  have "affected (\<lambda>c. cr_State c = CreditConsumed) (cd_credits db') = affected (\<lambda>c. cr_State c = CreditConsumed) (cd_credits db) + 1"
    unfolding new
  proof (rule affected_one [where k = cr_ID and x = c])
    show "distinct (map cr_ID (cd_credits db))" using ok by (simp add: credits_ok_def)
    show "cr_State c \<noteq> CreditConsumed" using c(2) by (simp add: holds_reservation_def)
  qed (simp_all add: c(1) only)
  moreover have "\<forall>d\<in>set (cd_credits db). d \<noteq> c \<longrightarrow> d \<in> set (cd_credits db')"
    unfolding new set_update_rows using only by (auto simp: image_iff)
  ultimately show ?thesis
    using c by blast
qed

theorem worker_costs_one_credit_witness:
  "affected (\<lambda>c. cr_State c = CreditConsumed)
     (cd_credits (fst (CommitCloudWorkerCredit 5 ''create-1'' 71 ''tenant'' 7 300 Committed
        (commerce_after sample_spending (no_sales [sample_plan]))))) = 1"
proof -
  let ?db = "commerce_after sample_spending (no_sales [sample_plan])"
  let ?r = "CommitCloudWorkerCredit 5 ''create-1'' 71 ''tenant'' 7 300 Committed ?db"
  have "snd ?r = Inr ()" by code_simp
  then have r: "?r = (fst ?r, Inr ())" by (metis prod.collapse)
  have "affected (\<lambda>c. cr_State c = CreditConsumed) (cd_credits ?db) = 0" by code_simp
  then show ?thesis
    using worker_costs_one_credit [OF refl r] by simp
qed

section \<open>Granting\<close>

definition granted_to :: "uid \<Rightarrow> string \<Rightarrow> string \<Rightarrow> string \<Rightarrow> credit \<Rightarrow> bool" where
  "granted_to u ref p b c \<longleftrightarrow> cr_SourceRef c = ref \<and> cr_UID c = u \<and> cr_Profile c = p \<and> cr_Billing c = b"

lemma granted_evolves: "credit_evolves c d \<Longrightarrow> granted_to u ref p b c \<Longrightarrow> granted_to u ref p b d"
  by (simp add: credit_evolves_def granted_to_def)

lemma granted_kept:
  "grows credit_evolves cs ds \<Longrightarrow> \<exists>c\<in>set cs. granted_to u ref p b c \<Longrightarrow> \<exists>c\<in>set ds. granted_to u ref p b c"
  by (meson granted_evolves grows_mem)

lemma insert_credit_present:
  assumes "insert_credit (new_credit u ref e p b r t now) db = (db1, True)"
  shows "\<exists>c\<in>set (cd_credits db1). granted_to u ref p b c"
  using assms by (auto simp: insert_credit_def granted_to_def split: if_splits)

lemma grant_rows_success:
  "grant_rows u ref e p b now is k db = (db', Inr n) \<Longrightarrow> i \<in> set is
     \<Longrightarrow> \<exists>c\<in>set (cd_credits db'). granted_to u (manual_ref ref i) p b c"
proof (induction u ref e p b now "is" k db rule: grant_rows.induct)
  case (1 u sourceRef e p b now k db)
  then show ?case by simp
next
  case (2 u sourceRef e p b now j "is" k db)
  obtain db1 added where ins: "insert_credit (new_credit u (manual_ref sourceRef j) e p b 0 [] now) db = (db1, added)"
    by fastforce
  show ?case
  proof (cases added)
    case True
    have run: "grant_rows u sourceRef e p b now is (k + 1) db1 = (db', Inr n)"
      using "2.prems"(1) ins True by (simp add: Let_def)
    have "\<exists>c\<in>set (cd_credits db'). granted_to u (manual_ref sourceRef j) p b c"
      using granted_kept [of "cd_credits db1" "cd_credits db'"] insert_credit_present [of u _ e p b 0 "[]" now db db1] ins True
        grant_rows_evolves [of db1 u sourceRef e p b now "is" "k + 1"] run by simp
    then show ?thesis
      using "2.IH"(1) [OF refl refl ins [symmetric] True run] "2.prems"(2) by auto
  next
    case False
    obtain c where c: "credit_of_source (manual_ref sourceRef j) db1 = Some c"
      and mine: "\<not> (cr_UID c \<noteq> u \<or> cr_Profile c \<noteq> p \<or> cr_Billing c \<noteq> b)"
      and run: "grant_rows u sourceRef e p b now is k db1 = (db', Inr n)"
      using "2.prems"(1) ins False by (auto simp: Let_def split: option.splits if_splits)
    have "\<exists>c\<in>set (cd_credits db1). granted_to u (manual_ref sourceRef j) p b c"
      using find_SomeD [OF c [unfolded credit_of_source_def]] mine by (auto simp: granted_to_def)
    then have "\<exists>c\<in>set (cd_credits db'). granted_to u (manual_ref sourceRef j) p b c"
      using granted_kept [of "cd_credits db1" "cd_credits db'"] grant_rows_evolves [of db1 u sourceRef e p b now "is" k] run by simp
    then show ?thesis
      using "2.IH"(2) [OF refl refl ins [symmetric] False c mine run] "2.prems"(2) by auto
  qed
qed

lemma granted_unique:
  assumes "credits_ok db" and "c \<in> set (cd_credits db)" and "granted_to u ref p b c"
  shows "credit_of_source ref db = Some c"
proof -
  obtain d where d: "credit_of_source ref db = Some d"
    using assms(2,3) by (cases "credit_of_source ref db") (auto simp: credit_of_source_def find_None_iff granted_to_def)
  then have "d \<in> set (cd_credits db)" "cr_SourceRef d = cr_SourceRef c"
    using find_SomeD [OF d [unfolded credit_of_source_def]] assms(3) by (auto simp: granted_to_def)
  then have "d = c"
    using assms(1,2) unfolding credits_ok_def by (meson distinct_map inj_onD)
  then show ?thesis using d by simp
qed

lemma grant_rows_repeat:
  assumes "credits_ok db"
  shows "(\<And>i. i \<in> set is \<Longrightarrow> \<exists>c\<in>set (cd_credits db). granted_to u (manual_ref ref i) p b c)
     \<Longrightarrow> grant_rows u ref e p b now is k db = (db, Inr k)"
proof (induction "is")
  case (Cons i "is")
  obtain c where c: "c \<in> set (cd_credits db)" "granted_to u (manual_ref ref i) p b c"
    using Cons.prems [of i] by auto
  have f: "credit_of_source (manual_ref ref i) db = Some c"
    by (rule granted_unique [OF assms c])
  have rest: "grant_rows u ref e p b now is k db = (db, Inr k)"
    by (rule Cons.IH) (rule Cons.prems, simp)
  show ?case
    using f c(2) rest by (simp add: insert_credit_def granted_to_def Let_def)
qed simp

lemma grant_success:
  assumes "GrantCloudWorkerConfiguredCredits u n ref e p b now out db = (db1, Inr k)"
  shows "grant_rows u (trimSpace ref) e (fst (NormalizeCloudWorkerProfile p)) (fst (NormalizeCloudWorkerBilling b)) now [1..n] 0 db = (db1, Inr k)"
proof -
  obtain b' bv where nb: "NormalizeCloudWorkerBilling b = (b', bv)" by fastforce
  obtain p' pv where np: "NormalizeCloudWorkerProfile p = (p', pv)" by fastforce
  let ?r = "grant_rows u (trimSpace ref) e p' b' now [1..n] 0 db"
  have "in_tx out db (all_or_nothing db ?r) = (db1, Inr k)"
    using assms by (simp add: GrantCloudWorkerConfiguredCredits_def nb np Let_def split: if_splits)
  then have "all_or_nothing db ?r = (db1, Inr k)"
    using in_tx_success [of out db "all_or_nothing db ?r" k] by simp
  then show ?thesis
    by (auto simp: all_or_nothing_def nb np split: sum.splits)
qed

text \<open>
  Granting is idempotent: after a grant that succeeded, and whatever happened since, the same operation (its reference,
  owner, count, profile and billing mode, at any moment and with any expiry) adds no credit and changes nothing.
\<close>

theorem repeated_grant_adds_nothing:
  assumes "GrantCloudWorkerConfiguredCredits u n ref e p b now out (commerce_after before (no_sales plans)) = (db1, Inr k)"
    and "db2 = commerce_after later db1"
  shows "\<exists>r. GrantCloudWorkerConfiguredCredits u n ref e' p b now' Committed db2 = (db2, r)
    \<and> (r = Inr 0 \<or> r = Inl ''on-demand trial requires a future expiry'')"
proof -
  let ?db = "commerce_after before (no_sales plans)"
  obtain b' bv where nb: "NormalizeCloudWorkerBilling b = (b', bv)" by fastforce
  obtain p' pv where np: "NormalizeCloudWorkerProfile p = (p', pv)" by fastforce
  have rows: "grant_rows u (trimSpace ref) e p' b' now [1..n] 0 ?db = (db1, Inr k)"
    using grant_success [OF assms(1)] by (simp add: nb np)
  have ok1: "credits_ok db1"
    using grant_rows_ok [OF history_credits_ok, of u "trimSpace ref" e p' b' now "[1..n]" 0 before plans] rows by simp
  have kept: "credits_ok db2" "credits_evolve db1 db2"
    using history_kept [of db1 later] ok1 by (simp_all add: credits_kept_def assms(2))
  have there: "\<exists>c\<in>set (cd_credits db2). granted_to u (manual_ref (trimSpace ref) i) p' b' c" if "i \<in> set [1..n]" for i
    by (rule granted_kept [OF kept(2) grant_rows_success [OF rows that]])
  have again: "grant_rows u (trimSpace ref) e' p' b' now' [1..n] 0 db2 = (db2, Inr 0)"
    by (rule grant_rows_repeat [OF kept(1) there])
  have valid: "bv" "pv" "\<not> (u \<le> 0 \<or> n \<le> 0 \<or> n > 100 \<or> trimSpace ref = [] \<or> length (trimSpace ref) > 96)"
    using assms(1) by (auto simp: GrantCloudWorkerConfiguredCredits_def nb np Let_def split: if_splits)
  show ?thesis
    using valid by (simp add: GrantCloudWorkerConfiguredCredits_def nb np Let_def again all_or_nothing_def)
qed

theorem repeated_grant_adds_nothing_witness:
  "snd (GrantCloudWorkerConfiguredCredits 5 2 ''op-7'' None ''public_ip'' [] 900 Committed
     (commerce_after [(300, Committed, ReserveCredit 5 ''create-1'')]
        (fst (GrantCloudWorkerConfiguredCredits 5 2 ''op-7'' None ''public_ip'' [] 100 Committed (no_sales []))))) = Inr 0"
proof -
  let ?r = "GrantCloudWorkerConfiguredCredits 5 2 ''op-7'' None ''public_ip'' [] 100 Committed (commerce_after [] (no_sales []))"
  have "snd ?r = Inr 2" by code_simp
  then have r: "?r = (fst ?r, Inr 2)" by (metis prod.collapse)
  have "isl (snd (GrantCloudWorkerConfiguredCredits 5 2 ''op-7'' None ''public_ip'' [] 900 Committed
     (commerce_after [(300, Committed, ReserveCredit 5 ''create-1'')] (fst ?r)))) = False" by code_simp
  then show ?thesis
    using repeated_grant_adds_nothing [OF r refl, of None 900 "[(300, Committed, ReserveCredit 5 ''create-1'')]"]
    by (auto simp: commerce_after_def)
qed

end
