(* ===== verification/OrderSafety.thy ===== *)
theory OrderSafety
  imports CreditSafety
begin

text \<open>
  What holds of the orders of a site along every history: an order is delivered once, on a recorded payment, and a refunded
  order keeps no right; the ledger agrees with the quota in force.
\<close>

section \<open>The books of a site\<close>

definition delivered :: "commercial_order \<Rightarrow> bool" where
  "delivered r \<longleftrightarrow> or_Status r \<in> {OrderFulfilled, OrderRefunding, OrderRefunded}"

definition order_rights :: "commerce \<Rightarrow> string list" where
  "order_rights db = map en_SourceRef (filter (\<lambda>e. en_Source e = ''order'') (cd_entitlements db))"

definition paid_event :: "string \<Rightarrow> payment_event \<Rightarrow> bool" where
  "paid_event n p \<longleftrightarrow> pe_OrderNo p = n \<and> pe_EventType p = ''payment_success''"

definition counts_ok :: "commerce \<Rightarrow> bool" where
  "counts_ok db \<longleftrightarrow>
     distinct (map or_OrderNo (cd_orders db))
     \<and> (\<forall>r\<in>set (cd_orders db). count_list (order_rights db) (or_OrderNo r) = (if delivered r then 1 else 0))
     \<and> set (order_rights db) \<subseteq> or_OrderNo ` set (cd_orders db)"

definition events_ok :: "commerce \<Rightarrow> bool" where
  "events_ok db \<longleftrightarrow>
     distinct (map (\<lambda>p. (pe_Channel p, pe_EventID p)) (cd_events db))
     \<and> (\<forall>r\<in>set (cd_orders db). delivered r \<longrightarrow> (\<exists>p\<in>set (cd_events db). paid_event (or_OrderNo r) p))"

text \<open>The rights of an order belong to its buyer, and are revoked once it is refunded.\<close>

definition right_ok :: "commercial_order \<Rightarrow> entitlement \<Rightarrow> bool" where
  "right_ok r e \<longleftrightarrow> (en_Source e = ''order'' \<and> en_SourceRef e = or_OrderNo r \<longrightarrow>
     en_UID e = or_UID r \<and> (or_Status r = OrderRefunded \<longrightarrow> en_State e = EntitlementRevoked))"

definition quota_ok :: "commercial_order \<Rightarrow> quota_grant \<Rightarrow> bool" where
  "quota_ok r g \<longleftrightarrow> (qg_GrantType g = ''order'' \<and> qg_SourceRef g = or_OrderNo r \<longrightarrow>
     qg_UID g = or_UID r \<and> (or_Status r = OrderRefunded \<longrightarrow> qg_RevokedAt g \<noteq> None))"

definition rights_ok :: "commerce \<Rightarrow> bool" where
  "rights_ok db \<longleftrightarrow>
     (\<forall>r\<in>set (cd_orders db). (\<forall>e\<in>set (cd_entitlements db). right_ok r e) \<and> (\<forall>g\<in>set (cd_grants db). quota_ok r g))
     \<and> (\<forall>g\<in>set (cd_grants db). qg_GrantType g = ''order'' \<longrightarrow> qg_SourceRef g \<in> or_OrderNo ` set (cd_orders db))"

definition books_ok :: "commerce \<Rightarrow> bool" where
  "books_ok db \<longleftrightarrow> counts_ok db \<and> events_ok db \<and> rights_ok db"

definition same_books :: "commerce \<Rightarrow> commerce \<Rightarrow> bool" where
  "same_books db db' \<longleftrightarrow>
     cd_orders db' = cd_orders db \<and> cd_entitlements db' = cd_entitlements db \<and> cd_grants db' = cd_grants db
     \<and> cd_ledger db' = cd_ledger db \<and> cd_events db' = cd_events db \<and> cd_plans db' = cd_plans db
     \<and> cd_nextID db \<le> cd_nextID db'"

lemma same_books_refl: "same_books db db"
  by (simp add: same_books_def)

lemma same_books_trans: "same_books a b \<Longrightarrow> same_books b c \<Longrightarrow> same_books a c"
  by (simp add: same_books_def)

lemma same_books_ok: "same_books db db' \<Longrightarrow> books_ok db \<Longrightarrow> books_ok db'"
  by (simp add: same_books_def books_ok_def counts_ok_def events_ok_def rights_ok_def order_rights_def)

section \<open>Operations that leave the books alone\<close>

lemma update_lifecycles_same: "same_books db (update_lifecycles p f db)"
  by (simp add: same_books_def)

lemma insert_credit_same: "same_books db (fst (insert_credit row db))"
  by (simp add: insert_credit_def same_books_def)

lemma grant_rows_same: "same_books db (fst (grant_rows u ref e p b now is k db))"
proof (induction u ref e p b now "is" k db rule: grant_rows.induct)
  case (1 u sourceRef e p b now k db)
  show ?case by (simp add: same_books_refl)
next
  case (2 u sourceRef e p b now i "is" k db)
  obtain db1 added where ins: "insert_credit (new_credit u (manual_ref sourceRef i) e p b 0 [] now) db = (db1, added)"
    by fastforce
  have first: "same_books db db1"
    using insert_credit_same [of db "new_credit u (manual_ref sourceRef i) e p b 0 [] now"] by (simp add: ins)
  show ?case
    using first "2.IH"(1) [OF refl refl ins [symmetric]] "2.IH"(2) [OF refl refl ins [symmetric]] same_books_trans [OF first]
    by (auto simp: ins Let_def split: option.splits if_splits)
qed

lemma release_stale_same: "same_books db (release_stale u now db)"
  by (simp add: release_stale_def same_books_def)

lemma mark_reserved_same: "mark_reserved i res now db = Some db' \<Longrightarrow> same_books db db'"
  by (auto simp: mark_reserved_def same_books_def split: if_splits)

lemma upsert_same: "upsert_lifecycle w u tenant e d b g now db = Some db' \<Longrightarrow> same_books db db'"
  by (auto simp: upsert_lifecycle_def add_lifecycle_def same_books_def split: if_splits)

lemma consume_same: "same_books db (consume_credit u res w now db)"
  by (simp add: consume_credit_def same_books_def)

lemma grant_same: "same_books db (fst (GrantCloudWorkerConfiguredCredits u n ref e p b now out db))"
  unfolding GrantCloudWorkerConfiguredCredits_def Let_def case_prod_beta
  by (intro fst_if_rel [where P = "same_books db"] in_tx_rel [of same_books] all_or_nothing_rel [of same_books] grant_rows_same)
    (simp_all add: same_books_refl)

lemma reserve_same: "same_books db (fst (ReserveCloudWorkerCredit u res now out db))"
  unfolding ReserveCloudWorkerCredit_def Let_def
  by (intro fst_if_rel [where P = "same_books db"] in_tx_rel [of same_books])
    (auto split: option.split intro: same_books_refl same_books_trans [OF release_stale_same mark_reserved_same])

lemma reserve_configured_same: "same_books db (fst (ReserveCloudWorkerConfiguredCredit u res p b now out db))"
  unfolding ReserveCloudWorkerConfiguredCredit_def Let_def
  by (intro fst_if_rel [where P = "same_books db"] in_tx_rel [of same_books])
    (auto split: option.split intro: same_books_refl same_books_trans [OF release_stale_same mark_reserved_same])

lemma commit_same: "same_books db (fst (CommitCloudWorkerCredit u res w tenant g now out db))"
  unfolding CommitCloudWorkerCredit_def Let_def
  by (intro fst_if_rel [where P = "same_books db"] in_tx_rel [of same_books])
    (auto split: option.split intro!: same_books_refl consume_same intro: same_books_trans [OF consume_same upsert_same])

lemma credit_ops_same:
  "same_books db (fst (ReleaseCloudWorkerCredit u res now out db))"
  "same_books db (fst (QueueCloudWorkerCredit u res now out db))"
  "same_books db (fst (ClaimQueuedCloudWorkerCredit u now out db))"
  unfolding ReleaseCloudWorkerCredit_def QueueCloudWorkerCredit_def ClaimQueuedCloudWorkerCredit_def
  by (intro fst_if_rel [where P = "same_books db"] in_tx_rel [of same_books]; simp add: same_books_def)+

lemma lifecycle_ops_same:
  "same_books db (fst (RegisterCloudWorkerLifecycle w u tenant e b g now out db))"
  "same_books db (fst (ExtendCloudWorkerLifecycles u e g now out db))"
  "same_books db (fst (ExtendCloudWorkerLifecycle i e g now out db))"
  "same_books db (fst (ForceCloudWorkerLifecyclePending i d now out db))"
  "same_books db (fst (MarkCloudWorkerLifecyclePending i d now out db))"
  "same_books db (fst (ClaimCloudWorkerLifecycleDeletion i now out db))"
  "same_books db (fst (MarkCloudWorkerLifecycleDeleted i err now out db))"
  "same_books db (fst (MarkCloudWorkerLifecycleAwaitingRecycle i err now out db))"
  "same_books db (fst (RequestCloudWorkerConversion i now out db))"
  "same_books db (fst (ClaimCloudWorkerBillingAction i a auto now out db))"
  "same_books db (fst (CompleteCloudWorkerBillingAction i a e err now out db))"
  "same_books db (fst (ClaimCloudWorkerTrialRelease i now out db))"
  unfolding RegisterCloudWorkerLifecycle_def ExtendCloudWorkerLifecycles_def ExtendCloudWorkerLifecycle_def
    ForceCloudWorkerLifecyclePending_def MarkCloudWorkerLifecyclePending_def ClaimCloudWorkerLifecycleDeletion_def
    MarkCloudWorkerLifecycleDeleted_def MarkCloudWorkerLifecycleAwaitingRecycle_def RequestCloudWorkerConversion_def
    ClaimCloudWorkerBillingAction_def CompleteCloudWorkerBillingAction_def ClaimCloudWorkerTrialRelease_def Let_def case_prod_beta
  by (intro fst_if_rel [where P = "same_books db"] in_tx_rel [of same_books]; simp add: same_books_def add_lifecycle_def)+

section \<open>Operations on orders\<close>

definition order_keeps :: "commercial_order \<Rightarrow> commercial_order \<Rightarrow> bool" where
  "order_keeps r s \<longleftrightarrow> or_OrderNo s = or_OrderNo r \<and> or_UID s = or_UID r \<and> delivered s = delivered r
     \<and> (or_Status s = OrderRefunded \<longrightarrow> or_Status r = OrderRefunded)"

lemma updated_order:
  assumes "\<And>r. p r \<Longrightarrow> order_keeps r (f r)" and "s \<in> set (update_rows p f rs)"
  shows "\<exists>r\<in>set rs. order_keeps r s"
  using assms by (auto simp: set_update_rows order_keeps_def)

lemma updated_order_numbers:
  assumes "\<And>r. p r \<Longrightarrow> order_keeps r (f r)"
  shows "map or_OrderNo (update_rows p f rs) = map or_OrderNo rs"
  using assms by (auto simp: update_rows_def order_keeps_def)

lemma books_orders_updated:
  assumes keep: "\<And>r. p r \<Longrightarrow> order_keeps r (f r)" and new: "cd_orders db' = update_rows p f (cd_orders db)"
    and same: "cd_entitlements db' = cd_entitlements db" "cd_grants db' = cd_grants db" "cd_events db' = cd_events db"
    and ok: "books_ok db"
  shows "books_ok db'"
proof -
  have numbers: "map or_OrderNo (cd_orders db') = map or_OrderNo (cd_orders db)"
    unfolding new by (rule updated_order_numbers [OF keep])
  then have names: "or_OrderNo ` set (cd_orders db') = or_OrderNo ` set (cd_orders db)"
    by (metis set_map)
  have old: "\<exists>r\<in>set (cd_orders db). order_keeps r s" if "s \<in> set (cd_orders db')" for s
    using updated_order [OF keep] that unfolding new by blast
  have rights: "order_rights db' = order_rights db"
    by (simp add: order_rights_def same)
  have c: "count_list (order_rights db) (or_OrderNo s) = (if delivered s then 1 else 0)" if "s \<in> set (cd_orders db')" for s
    using old [OF that] ok by (auto simp: order_keeps_def books_ok_def counts_ok_def)
  have e: "\<exists>p\<in>set (cd_events db). paid_event (or_OrderNo s) p" if "s \<in> set (cd_orders db')" "delivered s" for s
    using old [OF that(1)] that(2) ok by (auto simp: order_keeps_def books_ok_def events_ok_def)
  have r: "right_ok s e" if s: "s \<in> set (cd_orders db')" and "e \<in> set (cd_entitlements db)" for s e
  proof -
    obtain r where r: "r \<in> set (cd_orders db)" "order_keeps r s" using old [OF s] by blast
    then have "right_ok r e" using ok that(2) by (simp add: books_ok_def rights_ok_def)
    then show ?thesis using r(2) by (auto simp: right_ok_def order_keeps_def)
  qed
  have q: "quota_ok s g" if s: "s \<in> set (cd_orders db')" and "g \<in> set (cd_grants db)" for s g
  proof -
    obtain r where r: "r \<in> set (cd_orders db)" "order_keeps r s" using old [OF s] by blast
    then have "quota_ok r g" using ok that(2) by (simp add: books_ok_def rights_ok_def)
    then show ?thesis using r(2) by (auto simp: quota_ok_def order_keeps_def)
  qed
  have "counts_ok db'"
    using ok c unfolding books_ok_def counts_ok_def rights numbers names by blast
  moreover have "events_ok db'"
    using ok e unfolding books_ok_def events_ok_def same by blast
  moreover have "rights_ok db'"
    using ok r q unfolding books_ok_def rights_ok_def same names by blast
  ultimately show ?thesis by (simp add: books_ok_def)
qed

definition books_kept :: "commerce \<Rightarrow> commerce \<Rightarrow> bool" where
  "books_kept db db' \<longleftrightarrow> (books_ok db \<longrightarrow> books_ok db')"

lemma books_kept_refl: "books_kept db db"
  by (simp add: books_kept_def)

lemma books_kept_same: "same_books db db' \<Longrightarrow> books_kept db db'"
  by (simp add: books_kept_def same_books_ok)

lemma update_order_kept:
  assumes "\<And>r. p r \<Longrightarrow> order_keeps r (f r)"
  shows "books_kept db (update_order n p f now db)"
proof -
  have keep: "order_keeps r ((f r)\<lparr>or_UpdatedAt := now\<rparr>)" if "or_OrderNo r = n \<and> p r" for r
    using assms [of r] that by (simp add: order_keeps_def delivered_def)
  show ?thesis
    unfolding books_kept_def
    by (intro impI, rule books_orders_updated [OF keep]) (simp_all add: update_order_def)
qed

lemma claim_order_kept:
  assumes "\<And>r. p r \<Longrightarrow> order_keeps r (f r)"
  shows "books_kept db (fst (claim_order n p f now db))"
  using update_order_kept [OF assms] by (simp add: claim_order_def books_kept_refl)

lemmas order_states = order_keeps_def delivered_def awaiting_payment_def refundable_def

lemma order_steps_kept:
  "books_kept db (fst (BeginCommercialOrderPayment n e now out db))"
  "books_kept db (fst (SetCommercialOrderPaymentIntent n url e now out db))"
  "books_kept db (fst (FailCommercialOrder n m now out db))"
  "books_kept db (fst (CancelCommercialOrder u n m now out db))"
  "books_kept db (fst (BeginCommercialOrderRefund n q d now out db))"
  "books_kept db (fst (FailCommercialOrderRefund n q m now out db))"
  unfolding BeginCommercialOrderPayment_def SetCommercialOrderPaymentIntent_def FailCommercialOrder_def
    CancelCommercialOrder_def BeginCommercialOrderRefund_def FailCommercialOrderRefund_def Let_def case_prod_beta fst_conv
  by (intro fst_if_rel [where P = "books_kept db"] in_tx_rel [of books_kept] books_kept_refl;
      auto simp: books_kept_refl order_states intro!: claim_order_kept update_order_kept)+

lemma close_orders_kept:
  assumes "\<And>r. p r \<Longrightarrow> or_Status r \<in> {OrderCreated, OrderPending}"
  shows "books_kept db (db\<lparr>cd_orders := update_rows p
      (\<lambda>r. r\<lparr>or_Status := OrderClosed, or_ClosedAt := Some now, or_CheckoutURL := [], or_UpdatedAt := now\<rparr>) (cd_orders db)\<rparr>)"
  unfolding books_kept_def
proof (intro impI, rule books_orders_updated)
  show "order_keeps r (r\<lparr>or_Status := OrderClosed, or_ClosedAt := Some now, or_CheckoutURL := [], or_UpdatedAt := now\<rparr>)" if "p r" for r
    using assms [OF that] by (auto simp: order_keeps_def delivered_def)
qed simp_all

lemma books_append_order:
  assumes ok: "books_ok db" and r: "\<not> delivered r" and fresh: "or_OrderNo r \<notin> or_OrderNo ` set (cd_orders db)"
  shows "books_ok (db\<lparr>cd_orders := cd_orders db @ [r], cd_requests := q, cd_nextID := i\<rparr>)"
proof -
  have none: "or_OrderNo r \<notin> set (order_rights db)"
    using ok fresh by (auto simp: books_ok_def counts_ok_def)
  have norights: "\<forall>e\<in>set (cd_entitlements db). right_ok r e"
    using none unfolding right_ok_def order_rights_def by force
  have noquota: "\<forall>g\<in>set (cd_grants db). quota_ok r g"
    using ok fresh unfolding quota_ok_def books_ok_def rights_ok_def by metis
  show ?thesis
    using ok r fresh none norights noquota
    by (auto simp: books_ok_def counts_ok_def events_ok_def rights_ok_def order_rights_def count_list_0_iff)
qed

lemma place_order_books: "books_kept db (fst (place_order q ch p now db))"
proof -
  let ?db1 = "if pl_PurchaseLimit p > 0 then close_expired_reservations (oq_UID q) (pl_ID p) now db else db"
  have closed: "books_kept db ?db1"
    unfolding close_expired_reservations_def by (auto intro!: books_kept_refl close_orders_kept simp del: insert_iff)
  have new: "books_ok db2" if ins: "insert_order q ch p now ?db1 = Some (db2, r)" and ok: "books_ok ?db1" for db2 r
  proof -
    let ?r = "new_order q ch p now (cd_nextID ?db1)"
    have fresh: "or_OrderNo ?r \<notin> or_OrderNo ` set (cd_orders ?db1)"
      using ins by (auto simp: insert_order_def Let_def split: if_splits)
    have db2: "db2 = ?db1\<lparr>cd_orders := cd_orders ?db1 @ [?r],
        cd_requests := cd_requests ?db1 @ [((oq_UID q, oq_ClientRequestID q), or_OrderNo ?r)], cd_nextID := cd_nextID ?db1 + 1\<rparr>"
      using ins unfolding insert_order_def Let_def by (metis option.distinct(1) option.inject prod.inject)
    have "\<not> delivered ?r"
      by (simp add: new_order_def delivered_def)
    then show ?thesis
      unfolding db2 using books_append_order [OF ok _ fresh] by blast
  qed
  show ?thesis
  proof (cases "insert_order q ch p now ?db1")
    case None
    then show ?thesis by (simp add: place_order_def Let_def books_kept_refl)
  next
    case (Some x)
    obtain db2 r where x: "x = (db2, r)" by (cases x)
    then show ?thesis
      using new [of db2 r] Some closed by (simp add: place_order_def Let_def books_kept_def)
  qed
qed

lemma create_order_books: "books_kept db (fst (CreateCommercialOrder q now out db))"
  unfolding CreateCommercialOrder_def Let_def
  by (intro fst_if_rel [where P = "books_kept db"] in_tx_rel [of books_kept])
    (auto split: option.split sum.split intro!: books_kept_refl place_order_books books_kept_same simp: same_books_def)

lemma close_expired_books: "books_kept db (fst (CloseExpiredCommercialOrders k now out db))"
proof -
  have "or_Status r \<in> {OrderCreated, OrderPending}"
    if "r \<in> set (take n (sort_key f (filter (\<lambda>r. or_Status r \<in> {OrderCreated, OrderPending} \<and> q r) rs)))"
    for r n and f :: "commercial_order \<Rightarrow> int" and q rs
    using in_set_takeD [OF that] by simp
  then show ?thesis
    unfolding CloseExpiredCommercialOrders_def Let_def
    by (intro in_tx_rel [of books_kept] books_kept_refl) (simp only: fst_conv close_orders_kept)
qed

section \<open>Fulfilment\<close>

text \<open>What a step up the ladder does to the rights of the buyer: nothing is added, what is revoked stays revoked.\<close>

definition right_reduces :: "entitlement \<Rightarrow> entitlement \<Rightarrow> bool" where
  "right_reduces e f \<longleftrightarrow> en_Source f = en_Source e \<and> en_SourceRef f = en_SourceRef e \<and> en_UID f = en_UID e
     \<and> (en_State e = EntitlementRevoked \<longrightarrow> en_State f = EntitlementRevoked)"

definition quota_reduces :: "quota_grant \<Rightarrow> quota_grant \<Rightarrow> bool" where
  "quota_reduces g h \<longleftrightarrow> qg_GrantType h = qg_GrantType g \<and> qg_SourceRef h = qg_SourceRef g \<and> qg_UID h = qg_UID g
     \<and> (qg_RevokedAt g \<noteq> None \<longrightarrow> qg_RevokedAt h \<noteq> None)"

definition rights_reduce :: "commerce \<Rightarrow> commerce \<Rightarrow> bool" where
  "rights_reduce db db' \<longleftrightarrow>
     cd_orders db' = cd_orders db \<and> cd_events db' = cd_events db
     \<and> list_all2 right_reduces (cd_entitlements db) (cd_entitlements db')
     \<and> list_all2 quota_reduces (cd_grants db) (cd_grants db')"

lemma rights_reduce_refl: "rights_reduce db db"
  by (simp add: rights_reduce_def list_all2_same right_reduces_def quota_reduces_def)

lemma rights_reduce_trans:
  assumes "rights_reduce a b" and "rights_reduce b c"
  shows "rights_reduce a c"
proof -
  have "list_all2 right_reduces (cd_entitlements a) (cd_entitlements c)"
    by (rule list_all2_trans [where ?P1.0 = right_reduces and ?P2.0 = right_reduces and bs = "cd_entitlements b"])
      (use assms in \<open>auto simp: rights_reduce_def right_reduces_def\<close>)
  moreover have "list_all2 quota_reduces (cd_grants a) (cd_grants c)"
    by (rule list_all2_trans [where ?P1.0 = quota_reduces and ?P2.0 = quota_reduces and bs = "cd_grants b"])
      (use assms in \<open>auto simp: rights_reduce_def quota_reduces_def\<close>)
  ultimately show ?thesis
    using assms by (simp add: rights_reduce_def)
qed

lemma update_rows_reduces: "(\<And>x. R x x) \<Longrightarrow> (\<And>x. p x \<Longrightarrow> R x (f x)) \<Longrightarrow> list_all2 R xs (update_rows p f xs)"
  by (simp add: list_all2_conv_all_nth update_rows_nth)

lemma rights_reduceI:
  assumes "cd_orders db' = cd_orders db" "cd_events db' = cd_events db"
    and "cd_entitlements db' = update_rows p f (cd_entitlements db)" "\<And>e. p e \<Longrightarrow> right_reduces e (f e)"
    and "cd_grants db' = update_rows q h (cd_grants db)" "\<And>g. q g \<Longrightarrow> quota_reduces g (h g)"
  shows "rights_reduce db db'"
  using assms unfolding rights_reduce_def
  by (simp add: update_rows_reduces right_reduces_def [of x x for x] quota_reduces_def [of x x for x])

lemma rights_reduce_entitlements:
  assumes "cd_orders db' = cd_orders db" "cd_events db' = cd_events db" "cd_grants db' = cd_grants db"
    and "cd_entitlements db' = update_rows p f (cd_entitlements db)" "\<And>e. right_reduces e (f e)"
  shows "rights_reduce db db'"
  by (rule rights_reduceI [where p = p and f = f and q = "\<lambda>_. False" and h = id]) (simp_all add: assms update_rows_none)

lemma rights_reduce_ok:
  assumes red: "rights_reduce db db'" and ok: "books_ok db"
  shows "books_ok db'"
proof -
  have orders: "cd_orders db' = cd_orders db" and events: "cd_events db' = cd_events db"
    and e: "list_all2 right_reduces (cd_entitlements db) (cd_entitlements db')" and g: "list_all2 quota_reduces (cd_grants db) (cd_grants db')"
    using red by (simp_all add: rights_reduce_def)
  have refs: "map en_SourceRef (filter (\<lambda>e. en_Source e = ''order'') fs) = map en_SourceRef (filter (\<lambda>e. en_Source e = ''order'') es)"
    if "list_all2 right_reduces es fs" for es fs
    using that by (induction rule: list_all2_induct) (auto simp: right_reduces_def)
  have oldE: "\<exists>e\<in>set (cd_entitlements db). right_reduces e f" if "f \<in> set (cd_entitlements db')" for f
    using e that by (metis in_set_conv_nth list_all2_conv_all_nth)
  have oldG: "\<exists>g\<in>set (cd_grants db). quota_reduces g h" if "h \<in> set (cd_grants db')" for h
    using g that by (metis in_set_conv_nth list_all2_conv_all_nth)
  have "counts_ok db'"
    using ok refs [OF e] by (simp add: books_ok_def counts_ok_def order_rights_def orders)
  moreover have "right_ok r f" if r: "r \<in> set (cd_orders db)" and f: "f \<in> set (cd_entitlements db')" for r f
  proof -
    obtain e where e: "e \<in> set (cd_entitlements db)" "right_reduces e f" using oldE [OF f] by blast
    have "right_ok r e" using ok e(1) r by (simp add: books_ok_def rights_ok_def)
    then show ?thesis using e(2) by (auto simp: right_ok_def right_reduces_def)
  qed
  moreover have "quota_ok r h \<and> (qg_GrantType h = ''order'' \<longrightarrow> qg_SourceRef h \<in> or_OrderNo ` set (cd_orders db))"
    if r: "r \<in> set (cd_orders db)" and h: "h \<in> set (cd_grants db')" for r h
  proof -
    obtain g where g: "g \<in> set (cd_grants db)" "quota_reduces g h" using oldG [OF h] by blast
    have "quota_ok r g" "qg_GrantType g = ''order'' \<longrightarrow> qg_SourceRef g \<in> or_OrderNo ` set (cd_orders db)"
      using ok g(1) r by (simp_all add: books_ok_def rights_ok_def)
    then show ?thesis using g(2) unfolding quota_ok_def quota_reduces_def by metis
  qed
  moreover have "qg_SourceRef h \<in> or_OrderNo ` set (cd_orders db)" if h: "h \<in> set (cd_grants db')" "qg_GrantType h = ''order''" for h
  proof -
    obtain g where "g \<in> set (cd_grants db)" "quota_reduces g h" using oldG [OF h(1)] by blast
    then show ?thesis using ok h(2) by (auto simp: books_ok_def rights_ok_def quota_reduces_def)
  qed
  ultimately show ?thesis
    using ok by (simp add: books_ok_def events_ok_def rights_ok_def orders events)
qed

lemma reverse_grants_reduces: "rights_reduce db (reverse_grants s n p t db)"
  by (rule rights_reduceI [where p = "\<lambda>_. False" and f = id and q = p and h = "revoke_grant t"])
    (simp_all add: reverse_grants_def update_rows_none quota_reduces_def revoke_grant_def)

lemma free_baseline_reduces: "rights_reduce db (revokeCommercialFreeBaseline u slug now db)"
  unfolding revokeCommercialFreeBaseline_def Let_def
  by (rule rights_reduce_trans [OF reverse_grants_reduces], rule rights_reduce_entitlements)
    (rule commerce.simps | simp add: right_reduces_def)+

lemma revoke_tier_reduces: "rights_reduce db (revokeCommercialPlanTier u slug now i db)"
proof -
  have "rights_reduce db (db\<lparr>cd_credits := cs, cd_entitlements := update_rows p
      (\<lambda>e. e\<lparr>en_State := EntitlementRevoked, en_ExpiresAt := x e\<rparr>) (cd_entitlements db)\<rparr>)"
    for cs p and x :: "entitlement \<Rightarrow> go_time option"
  proof (rule rights_reduce_entitlements [where p = p])
    show "right_reduces e (e\<lparr>en_State := EntitlementRevoked, en_ExpiresAt := x e\<rparr>)" for e
      by (cases e) (simp add: right_reduces_def)
  qed simp_all
  then show ?thesis
    unfolding revokeCommercialPlanTier_def Let_def
    using rights_reduce_trans [OF _ reverse_grants_reduces] by simp
qed

lemma fold_reduces: "(\<And>x db. rights_reduce db (f x db)) \<Longrightarrow> rights_reduce db (fold f xs db)"
  by (induction xs arbitrary: db) (auto intro: rights_reduce_refl rights_reduce_trans)

lemma activate_reduces: "rights_reduce db (fst (activateCommercialOfficialPlan u slug now db))"
  by (auto simp: activateCommercialOfficialPlan_def Let_def free_baseline_reduces
      intro: rights_reduce_refl rights_reduce_trans [OF free_baseline_reduces fold_reduces [OF revoke_tier_reduces]])

lemma record_event_effect:
  assumes "record_event ch ev n tr ty h db = Some db1"
  shows "cd_orders db1 = cd_orders db" and "cd_entitlements db1 = cd_entitlements db" and "cd_grants db1 = cd_grants db"
    and "cd_ledger db1 = cd_ledger db" and "cd_plans db1 = cd_plans db"
    and "\<exists>p\<in>set (cd_events db1). pe_OrderNo p = n \<and> pe_EventType p = ty"
    and "books_ok db \<Longrightarrow> books_ok db1"
proof -
  define p where "p = \<lparr>pe_Channel = ch, pe_EventID = ev, pe_OrderNo = n, pe_ProviderTradeNo = tr, pe_EventType = ty, pe_PayloadHash = h\<rparr>"
  have p: "pe_Channel p = ch" "pe_EventID p = ev" "pe_OrderNo p = n" "pe_EventType p = ty"
    by (simp_all add: p_def)
  have new: "\<forall>e\<in>set (cd_events db). \<not> (pe_Channel e = ch \<and> pe_EventID e = ev)"
    and db1: "db1 = db\<lparr>cd_events := cd_events db @ [p]\<rparr>"
    using assms by (auto simp: record_event_def p_def split: if_splits)
  show "cd_orders db1 = cd_orders db" "cd_entitlements db1 = cd_entitlements db" "cd_grants db1 = cd_grants db"
    "cd_ledger db1 = cd_ledger db" "cd_plans db1 = cd_plans db" "\<exists>p\<in>set (cd_events db1). pe_OrderNo p = n \<and> pe_EventType p = ty"
    using p by (simp_all add: db1)
  assume ok: "books_ok db"
  then have "events_ok db1"
    using new p by (auto simp: books_ok_def events_ok_def db1)
  then show "books_ok db1"
    using ok by (simp add: books_ok_def counts_ok_def rights_ok_def order_rights_def db1)
qed

text \<open>The grants of a plan carry its source; nothing else of the books changes.\<close>

lemma create_grants_effect:
  "\<exists>new. cd_grants (createCommercialPlanGrants u i s ref n m b st e db) = cd_grants db @ new
     \<and> (\<forall>g\<in>set new. qg_GrantType g = s \<and> qg_SourceRef g = ref \<and> qg_UID g = u \<and> qg_RevokedAt g = None)"
  "cd_orders (createCommercialPlanGrants u i s ref n m b st e db) = cd_orders db"
  "cd_events (createCommercialPlanGrants u i s ref n m b st e db) = cd_events db"
  "cd_entitlements (createCommercialPlanGrants u i s ref n m b st e db) = cd_entitlements db"
proof -
  have fold: "(\<exists>new. cd_grants (fold (add_grant u i s ref n st e) bs db) = cd_grants db @ new
        \<and> (\<forall>g\<in>set new. qg_GrantType g = s \<and> qg_SourceRef g = ref \<and> qg_UID g = u \<and> qg_RevokedAt g = None))
     \<and> cd_orders (fold (add_grant u i s ref n st e) bs db) = cd_orders db
     \<and> cd_events (fold (add_grant u i s ref n st e) bs db) = cd_events db
     \<and> cd_entitlements (fold (add_grant u i s ref n st e) bs db) = cd_entitlements db" for bs
  proof (induction bs arbitrary: db)
    case (Cons b bs)
    have "\<exists>g. add_grant u i s ref n st e b db = db \<or> cd_grants (add_grant u i s ref n st e b db) = cd_grants db @ [g]
        \<and> qg_GrantType g = s \<and> qg_SourceRef g = ref \<and> qg_UID g = u \<and> qg_RevokedAt g = None"
      by (rule exI [of _ "\<lparr>qg_ID = cd_nextID db, qg_UID = u, qg_PlanID = i, qg_GrantType = s, qg_Model = trimSpace (fst b),
          qg_Amount = snd b, qg_EffectiveAt = st, qg_ExpiresAt = Some e, qg_SourceRef = ref, qg_RevokedAt = None\<rparr>"])
        (simp add: add_grant_def Let_def)
    moreover have "cd_orders (add_grant u i s ref n st e b db) = cd_orders db" "cd_events (add_grant u i s ref n st e b db) = cd_events db"
      "cd_entitlements (add_grant u i s ref n st e b db) = cd_entitlements db"
      by (simp_all add: add_grant_def Let_def)
    ultimately show ?case
      using Cons.IH [of "add_grant u i s ref n st e b db"] by auto
  qed simp
  show "\<exists>new. cd_grants (createCommercialPlanGrants u i s ref n m b st e db) = cd_grants db @ new
     \<and> (\<forall>g\<in>set new. qg_GrantType g = s \<and> qg_SourceRef g = ref \<and> qg_UID g = u \<and> qg_RevokedAt g = None)"
    "cd_orders (createCommercialPlanGrants u i s ref n m b st e db) = cd_orders db"
    "cd_events (createCommercialPlanGrants u i s ref n m b st e db) = cd_events db"
    "cd_entitlements (createCommercialPlanGrants u i s ref n m b st e db) = cd_entitlements db"
    unfolding createCommercialPlanGrants_def using fold by blast+
qed

lemma grant_credit_same: "same_books db (fst (grantCloudWorkerCredit u ref e p g r now db))"
  by (simp add: grantCloudWorkerCredit_def Let_def same_books_refl insert_credit_same split: prod.split)

lemma extend_paid_same: "same_books db (fst (extendCloudWorkerLifecyclesWithPaidPeriod u e g now db))"
  by (simp add: extendCloudWorkerLifecyclesWithPaidPeriod_def same_books_refl update_lifecycles_same)

lemma grant_worker_same: "same_books db (fst (grant_worker r e now db))"
  unfolding grant_worker_def Let_def
  by (rule and_then_rel [of same_books, OF same_books_trans _ extend_paid_same]) (auto simp: same_books_refl grant_credit_same)

lemma same_number:
  assumes "counts_ok db" and "r \<in> set (cd_orders db)" and "s \<in> set (cd_orders db)" and "or_OrderNo s = or_OrderNo r"
  shows "s = r"
  using assms unfolding counts_ok_def by (meson distinct_map inj_onD)

text \<open>The books after an order is delivered: one right more, one order fulfilled\<close>

lemma books_deliver:
  assumes ok: "books_ok db" and r: "r \<in> set (cd_orders db)" "\<not> delivered r"
    and paid: "\<exists>p\<in>set (cd_events db). paid_event (or_OrderNo r) p"
    and ents: "cd_entitlements db' = cd_entitlements db @ [e]"
    and e: "en_Source e = ''order''" "en_SourceRef e = or_OrderNo r" "en_UID e = or_UID r"
    and grants: "cd_grants db' = cd_grants db @ new" "\<forall>g\<in>set new. qg_GrantType g = ''order'' \<and> qg_SourceRef g = or_OrderNo r \<and> qg_UID g = or_UID r"
    and orders: "cd_orders db' = update_rows (\<lambda>s. or_OrderNo s = or_OrderNo r) f (cd_orders db)"
    and f: "\<And>s. or_OrderNo (f s) = or_OrderNo s \<and> or_UID (f s) = or_UID s \<and> or_Status (f s) = OrderFulfilled"
    and events: "cd_events db' = cd_events db"
  shows "books_ok db'"
proof -
  have counts: "counts_ok db" and rights: "rights_ok db" and evs: "events_ok db"
    using ok by (simp_all add: books_ok_def)
  have numbers: "map or_OrderNo (cd_orders db') = map or_OrderNo (cd_orders db)"
    unfolding orders using f by (simp add: update_rows_map)
  then have names: "or_OrderNo ` set (cd_orders db') = or_OrderNo ` set (cd_orders db)"
    by (metis set_map)
  have old: "\<exists>t\<in>set (cd_orders db). or_OrderNo s = or_OrderNo t \<and> or_UID s = or_UID t
      \<and> (if t = r then or_Status s = OrderFulfilled else s = t)" if s: "s \<in> set (cd_orders db')" for s
  proof -
    obtain t where t: "t \<in> set (cd_orders db)" "s = (if or_OrderNo t = or_OrderNo r then f t else t)"
      using s unfolding orders set_update_rows by blast
    have "t = r \<longleftrightarrow> or_OrderNo t = or_OrderNo r"
      using same_number [OF counts r(1) t(1)] by blast
    then show ?thesis using t f [of t] by (intro bexI [OF _ t(1)]) auto
  qed
  have refs: "order_rights db' = order_rights db @ [or_OrderNo r]"
    using e by (simp add: order_rights_def ents)
  have "count_list (order_rights db') (or_OrderNo s) = (if delivered s then 1 else 0)" if s: "s \<in> set (cd_orders db')" for s
  proof -
    obtain t where t: "t \<in> set (cd_orders db)" "or_OrderNo s = or_OrderNo t" "if t = r then or_Status s = OrderFulfilled else s = t"
      using old [OF s] by blast
    have n: "or_OrderNo t = or_OrderNo r \<longleftrightarrow> t = r" using same_number [OF counts r(1) t(1)] by blast
    have c: "count_list (order_rights db) (or_OrderNo t) = (if delivered t then 1 else 0)"
      using counts t(1) by (simp add: counts_ok_def)
    show ?thesis
      using c n t(2,3) r(2) by (cases "t = r") (auto simp: refs delivered_def)
  qed
  moreover have "set (order_rights db') \<subseteq> or_OrderNo ` set (cd_orders db')"
    using counts r(1) by (auto simp: refs names counts_ok_def)
  ultimately have "counts_ok db'"
    using counts numbers by (simp add: counts_ok_def)
  moreover have "events_ok db'"
    unfolding events_ok_def events
  proof (intro conjI ballI impI)
    show "distinct (map (\<lambda>p. (pe_Channel p, pe_EventID p)) (cd_events db))"
      using evs by (simp add: events_ok_def)
    fix s assume s: "s \<in> set (cd_orders db')" "delivered s"
    obtain t where t: "t \<in> set (cd_orders db)" "or_OrderNo s = or_OrderNo t" "if t = r then or_Status s = OrderFulfilled else s = t"
      using old [OF s(1)] by blast
    then show "\<exists>p\<in>set (cd_events db). paid_event (or_OrderNo s) p"
      using paid evs s(2) by (cases "t = r") (auto simp: events_ok_def)
  qed
  moreover have "right_ok s x" if s: "s \<in> set (cd_orders db')" and x: "x \<in> set (cd_entitlements db')" for s x
  proof -
    obtain t where t: "t \<in> set (cd_orders db)" "or_OrderNo s = or_OrderNo t" "or_UID s = or_UID t"
      "if t = r then or_Status s = OrderFulfilled else s = t"
      using old [OF s] by blast
    have n: "or_OrderNo t = or_OrderNo r \<longleftrightarrow> t = r" using same_number [OF counts r(1) t(1)] by blast
    have "x \<in> set (cd_entitlements db) \<Longrightarrow> right_ok t x"
      using rights t(1) by (simp add: rights_ok_def)
    then show ?thesis
      using x e t n by (cases "t = r") (auto simp: ents right_ok_def)
  qed
  moreover have "quota_ok s g" if s: "s \<in> set (cd_orders db')" and g: "g \<in> set (cd_grants db')" for s g
  proof -
    obtain t where t: "t \<in> set (cd_orders db)" "or_OrderNo s = or_OrderNo t" "or_UID s = or_UID t"
      "if t = r then or_Status s = OrderFulfilled else s = t"
      using old [OF s] by blast
    have n: "or_OrderNo t = or_OrderNo r \<longleftrightarrow> t = r" using same_number [OF counts r(1) t(1)] by blast
    have "g \<in> set (cd_grants db) \<Longrightarrow> quota_ok t g"
      using rights t(1) by (simp add: rights_ok_def)
    then show ?thesis
      using g grants(2) t n by (cases "t = r") (auto simp: grants(1) quota_ok_def)
  qed
  moreover have "\<forall>g\<in>set (cd_grants db'). qg_GrantType g = ''order'' \<longrightarrow> qg_SourceRef g \<in> or_OrderNo ` set (cd_orders db')"
    using rights grants(2) r(1) by (auto simp: grants(1) names rights_ok_def)
  ultimately show ?thesis
    by (simp add: books_ok_def rights_ok_def)
qed

lemma and_then_Inr: "and_then x f = (db', Inr y) \<Longrightarrow> \<exists>z. snd x = Inr z \<and> f z (fst x) = (db', Inr y)"
  by (auto simp: and_then_def split: sum.splits)

lemma deliver_books:
  assumes ok: "books_ok db" and r: "r \<in> set (cd_orders db)" "\<not> delivered r"
    and paid: "\<exists>p\<in>set (cd_events db). paid_event (or_OrderNo r) p"
    and run: "deliver_order r tr st p now db = (db', Inr s)"
  shows "books_ok db'"
proof -
  define expires where "expires = addDays st (or_PlanDurationDays r)"
  define e where "e = \<lparr>en_ID = cd_nextID db, en_UID = or_UID r, en_PlanID = or_PlanID r, en_Source = ''order'',
      en_SourceRef = or_OrderNo r, en_State = EntitlementActive, en_StartsAt = st, en_ExpiresAt = Some expires\<rparr>"
  obtain db1 where ins: "insert_order_entitlement (or_UID r) (or_PlanID r) (or_OrderNo r) st expires db = Some db1"
    using run by (auto simp: deliver_order_def expires_def Let_def split: option.splits)
  then have db1: "db1 = db\<lparr>cd_entitlements := cd_entitlements db @ [e], cd_nextID := cd_nextID db + 1\<rparr>"
    by (auto simp: insert_order_entitlement_def e_def split: if_splits)
  define db2 where "db2 = createCommercialPlanGrants (or_UID r) (or_PlanID r) ''order'' (or_OrderNo r) (or_PlanName r)
                         (or_PlanMonthlyBudget r) (or_PlanModelBudgets r) st expires db1"
  define w where "w = planIncludesCloudWorker (or_PlanID r) db2"
  have rest: "and_then (if w then grant_worker r expires now db2 else (db2, Inr ())) (\<lambda>_. complete_order (or_OrderNo r) tr p now w) = (db', Inr s)"
    using run ins by (simp add: deliver_order_def expires_def [symmetric] db2_def [symmetric] w_def Let_def)
  define db3 where "db3 = fst (if w then grant_worker r expires now db2 else (db2, Inr ()))"
  have same3: "same_books db2 db3"
    by (simp add: db3_def same_books_refl grant_worker_same)
  have db': "db' = update_order (or_OrderNo r) (\<lambda>_. True) (mark_fulfilled tr p now) now db3"
    using and_then_Inr [OF rest] by (auto simp: complete_order_def db3_def Let_def)
  obtain new where new: "cd_grants db2 = cd_grants db1 @ new"
    "\<forall>g\<in>set new. qg_GrantType g = ''order'' \<and> qg_SourceRef g = or_OrderNo r \<and> qg_UID g = or_UID r"
    using create_grants_effect(1) [of "or_UID r" "or_PlanID r" "''order''" "or_OrderNo r" "or_PlanName r" "or_PlanMonthlyBudget r"
        "or_PlanModelBudgets r" st expires db1] unfolding db2_def [symmetric] by blast
  note parts = create_grants_effect(2-4) [of "or_UID r" "or_PlanID r" "''order''" "or_OrderNo r" "or_PlanName r" "or_PlanMonthlyBudget r"
        "or_PlanModelBudgets r" st expires db1, folded db2_def]
  show ?thesis
  proof (rule books_deliver [OF ok r paid, where e = e and new = new and f = "\<lambda>r. (mark_fulfilled tr p now r)\<lparr>or_UpdatedAt := now\<rparr>"])
    show "cd_entitlements db' = cd_entitlements db @ [e]" "cd_grants db' = cd_grants db @ new" "cd_events db' = cd_events db"
      using same3 parts new(1) by (simp_all add: db' update_order_def same_books_def db1)
    show "cd_orders db' = update_rows (\<lambda>s. or_OrderNo s = or_OrderNo r) (\<lambda>r. (mark_fulfilled tr p now r)\<lparr>or_UpdatedAt := now\<rparr>) (cd_orders db)"
      using same3 parts by (simp add: db' update_order_def same_books_def db1)
  qed (simp_all add: e_def new(2) mark_fulfilled_def)
qed

lemma order_of_mem: "order_of n db = Some r \<Longrightarrow> r \<in> set (cd_orders db) \<and> or_OrderNo r = n"
  using find_SomeD [of "\<lambda>r. or_OrderNo r = n" "cd_orders db" r] by (simp add: order_of_def)

lemma fulfill_books:
  assumes ok: "books_ok db" and r: "order_of n db = Some r" "\<not> delivered r" and run: "fulfill_paid r c now db = (db', Inr s)"
  shows "books_ok db'"
proof -
  define paidAt where "paidAt = (if is_zero_time (pc_PaidAt c) then now else pc_PaidAt c)"
  obtain db1 where ev: "record_event (pc_Channel c) (pc_EventID c) (or_OrderNo r) (trimSpace (pc_ProviderTradeNo c)) ''payment_success''
                (trimSpace (pc_PayloadHash c)) db = Some db1"
    using run by (auto simp: fulfill_paid_def Let_def split: option.splits)
  note e = record_event_effect [OF ev]
  let ?a = "activateCommercialOfficialPlan (or_UID r) (or_PlanSlug r) paidAt db1"
  have "and_then ?a (\<lambda>_. deliver_order r (trimSpace (pc_ProviderTradeNo c)) (period_start r paidAt db1) paidAt now) = (db', Inr s)"
    using run ev by (simp add: fulfill_paid_def paidAt_def Let_def)
  from and_then_Inr [OF this]
  have d: "deliver_order r (trimSpace (pc_ProviderTradeNo c)) (period_start r paidAt db1) paidAt now (fst ?a) = (db', Inr s)"
    by simp
  have red: "rights_reduce db1 (fst ?a)"
    by (rule activate_reduces)
  have "books_ok (fst ?a)"
    by (rule rights_reduce_ok [OF red e(7) [OF ok]])
  moreover have "r \<in> set (cd_orders (fst ?a))" "\<exists>p\<in>set (cd_events (fst ?a)). paid_event (or_OrderNo r) p"
    using order_of_mem [OF r(1)] red e(1,6) by (auto simp: rights_reduce_def paid_event_def)
  ultimately show ?thesis
    using deliver_books [OF _ _ r(2) _ d] by blast
qed

lemma fulfill_order_books: "books_kept db (fst (FulfillCommercialOrder n c now out db))"
proof (cases c)
  case None
  then show ?thesis by (simp add: FulfillCommercialOrder_def books_kept_refl)
next
  case (Some x)
  define run where "run = (case order_of (trimSpace n) db of
               None \<Rightarrow> (db, Inl ''commercial order not found'')
             | Some r \<Rightarrow>
                 if or_Status r = OrderFulfilled then (db, Inr (r, False))
                 else (case check_payment r x of
                         Inl e \<Rightarrow> (db, Inl e)
                       | Inr _ \<Rightarrow> and_then (fulfill_paid r x now db) (\<lambda>s db. (db, Inr (s, True)))))"
  have "books_kept db (fst (all_or_nothing db run))"
  proof (cases "snd run")
    case (Inl e)
    then show ?thesis by (simp add: all_or_nothing_def books_kept_refl)
  next
    case (Inr y)
    then have eq: "all_or_nothing db run = run" by (simp add: all_or_nothing_def)
    obtain r where r: "order_of (trimSpace n) db = Some r"
      using Inr by (auto simp: run_def split: option.splits)
    show ?thesis
    proof (cases "or_Status r = OrderFulfilled")
      case True
      then show ?thesis by (simp add: run_def r all_or_nothing_def books_kept_refl)
    next
      case False
      then obtain z where z: "check_payment r x = Inr z"
        using Inr by (auto simp: run_def r split: sum.splits)
      then have und: "\<not> delivered r"
        using False by (auto simp: check_payment_def delivered_def split: if_splits)
      have run: "run = and_then (fulfill_paid r x now db) (\<lambda>s db. (db, Inr (s, True)))"
        using False z by (simp add: run_def r)
      obtain db1 s where f: "fulfill_paid r x now db = (db1, s)" by fastforce
      obtain s' where s': "s = Inr s'" and db1: "fst run = db1"
        using Inr by (auto simp: run f and_then_def split: sum.splits)
      show ?thesis
        unfolding eq db1 books_kept_def using fulfill_books [OF _ r und f [unfolded s']] by blast
    qed
  qed
  then show ?thesis
    by (simp add: FulfillCommercialOrder_def Some run_def [symmetric] books_kept_refl in_tx_rel [of books_kept, OF books_kept_refl])
qed

section \<open>Refunds and trials\<close>

lemma books_mark_refunded:
  assumes ok: "books_ok db" and r: "r \<in> set (cd_orders db)" "delivered r"
    and rights: "\<And>e. e \<in> set (cd_entitlements db) \<Longrightarrow> order_right r e \<Longrightarrow> en_State e = EntitlementRevoked"
    and quota: "\<And>g. g \<in> set (cd_grants db) \<Longrightarrow> \<not> order_grant r g"
  shows "books_ok (update_order (or_OrderNo r) (\<lambda>_. True) (mark_refunded t) now db)"
proof -
  let ?f = "\<lambda>s. (mark_refunded t s)\<lparr>or_UpdatedAt := now\<rparr>" and ?db' = "update_order (or_OrderNo r) (\<lambda>_. True) (mark_refunded t) now db"
  have counts: "counts_ok db" and rok: "rights_ok db" and evs: "events_ok db"
    using ok by (simp_all add: books_ok_def)
  have orders: "cd_orders ?db' = update_rows (\<lambda>s. or_OrderNo s = or_OrderNo r) ?f (cd_orders db)"
    and same: "cd_entitlements ?db' = cd_entitlements db" "cd_grants ?db' = cd_grants db" "cd_events ?db' = cd_events db"
    by (simp_all add: update_order_def)
  have numbers: "map or_OrderNo (cd_orders ?db') = map or_OrderNo (cd_orders db)"
    unfolding orders by (simp add: update_rows_map mark_refunded_def)
  then have names: "or_OrderNo ` set (cd_orders ?db') = or_OrderNo ` set (cd_orders db)"
    by (metis set_map)
  have old: "\<exists>t\<in>set (cd_orders db). or_OrderNo s = or_OrderNo t \<and> or_UID s = or_UID t \<and> delivered s = delivered t \<and> (t = r \<or> s = t)"
    if s: "s \<in> set (cd_orders ?db')" for s
  proof -
    obtain u where u: "u \<in> set (cd_orders db)" "s = (if or_OrderNo u = or_OrderNo r then ?f u else u)"
      using s unfolding orders set_update_rows by blast
    have "u = r \<longleftrightarrow> or_OrderNo u = or_OrderNo r"
      using same_number [OF counts r(1) u(1)] by blast
    then show ?thesis
      using u r(2) by (intro bexI [OF _ u(1)]) (auto simp: mark_refunded_def delivered_def)
  qed
  have refs: "order_rights ?db' = order_rights db"
    by (simp add: order_rights_def same)
  have "counts_ok ?db'"
    using counts old numbers names unfolding counts_ok_def refs by (metis (no_types, lifting))
  moreover have "events_ok ?db'"
    using evs old unfolding events_ok_def same by metis
  moreover have "right_ok s e" if s: "s \<in> set (cd_orders ?db')" and e: "e \<in> set (cd_entitlements db)" for s e
  proof -
    obtain u where u: "u \<in> set (cd_orders db)" "or_OrderNo s = or_OrderNo u" "or_UID s = or_UID u" "u = r \<or> s = u"
      using old [OF s] by blast
    have "right_ok u e" using rok u(1) e by (simp add: rights_ok_def)
    then show ?thesis
      using u rights [OF e] by (auto simp: right_ok_def order_right_def)
  qed
  moreover have "quota_ok s g" if s: "s \<in> set (cd_orders ?db')" and g: "g \<in> set (cd_grants db)" for s g
  proof -
    obtain u where u: "u \<in> set (cd_orders db)" "or_OrderNo s = or_OrderNo u" "or_UID s = or_UID u" "u = r \<or> s = u"
      using old [OF s] by blast
    have "quota_ok u g" using rok u(1) g by (simp add: rights_ok_def)
    then show ?thesis
      using u quota [OF g] by (auto simp: quota_ok_def order_grant_def)
  qed
  ultimately show ?thesis
    using rok names by (simp add: books_ok_def rights_ok_def same)
qed

definition taken_back :: "commercial_order \<Rightarrow> go_time \<Rightarrow> commerce \<Rightarrow> commerce" where
  "taken_back r t db = revoke_order_credit r (reverse_order_grants r t (revoke_order_rights r db))"

lemma taken_back_reduces: "rights_reduce db (taken_back r t db)"
proof (rule rights_reduceI)
  show "cd_entitlements (taken_back r t db) = update_rows (\<lambda>e. order_right r e \<and> en_State e \<noteq> EntitlementRevoked)
      (\<lambda>e. e\<lparr>en_State := EntitlementRevoked\<rparr>) (cd_entitlements db)"
    and "cd_grants (taken_back r t db) = update_rows (order_grant r) (revoke_grant t) (cd_grants db)"
    by (simp_all add: taken_back_def revoke_order_credit_def reverse_order_grants_def revoke_order_rights_def)
  show "right_reduces e (e\<lparr>en_State := EntitlementRevoked\<rparr>)" for e
    by (simp add: right_reduces_def)
  show "quota_reduces g (revoke_grant t g)" for g
    by (simp add: quota_reduces_def revoke_grant_def)
qed (simp_all add: taken_back_def revoke_order_credit_def reverse_order_grants_def revoke_order_rights_def)

lemma taken_back_rights:
  "e \<in> set (cd_entitlements (taken_back r t db)) \<Longrightarrow> order_right r e \<Longrightarrow> en_State e = EntitlementRevoked"
  by (auto simp: taken_back_def revoke_order_credit_def reverse_order_grants_def revoke_order_rights_def set_update_rows order_right_def
      split: if_splits)

lemma taken_back_quota: "g \<in> set (cd_grants (taken_back r t db)) \<Longrightarrow> \<not> order_grant r g"
  by (auto simp: taken_back_def revoke_order_credit_def reverse_order_grants_def revoke_order_rights_def set_update_rows order_grant_def
      revoke_grant_def split: if_splits)

lemma take_back_books:
  assumes ok: "books_ok db" and r: "r \<in> set (cd_orders db)" "delivered r"
  shows "books_ok (take_back r t now db)"
proof -
  let ?db1 = "taken_back r t db"
  define db2 where "db2 = roll_back_workers (or_UID r) (case remaining_paid (or_UID r) now ?db1 of None \<Rightarrow> t | Some t \<Rightarrow> t) now ?db1"
  have same: "same_books ?db1 db2"
    by (simp add: db2_def roll_back_workers_def update_lifecycles_same)
  have ok1: "books_ok ?db1" and o1: "cd_orders ?db1 = cd_orders db"
    using rights_reduce_ok [OF taken_back_reduces ok] taken_back_reduces [of db r t] by (simp_all add: rights_reduce_def)
  have "books_ok (update_order (or_OrderNo r) (\<lambda>_. True) (mark_refunded t) now db2)"
  proof (rule books_mark_refunded [OF same_books_ok [OF same ok1]])
    show "r \<in> set (cd_orders db2)" "delivered r"
      using r same o1 by (simp_all add: same_books_def)
  qed (use same taken_back_rights taken_back_quota in \<open>auto simp: same_books_def\<close>)
  then show ?thesis
    by (simp add: take_back_def taken_back_def db2_def Let_def)
qed

lemma check_refund_delivered: "check_refund r c = Inr z \<Longrightarrow> delivered r"
  by (auto simp: check_refund_def delivered_def split: if_splits)

lemma refund_claimed_books:
  assumes ok: "books_ok db" and r: "order_of n db = Some r" and chk: "check_refund r c = Inr z"
  shows "books_ok (fst (refund_claimed r c now db))"
proof (cases "record_event (rc_Channel c) (rc_EventID c) (or_OrderNo r) (trimSpace (rc_ProviderTradeNo c)) ''refund_success''
             (trimSpace (rc_PayloadHash c)) db")
  case None
  then show ?thesis using ok by (simp add: refund_claimed_def)
next
  case (Some db1)
  then show ?thesis
    using take_back_books [OF record_event_effect(7) [OF Some ok] _ check_refund_delivered [OF chk]] order_of_mem [OF r]
      record_event_effect(1) [OF Some] by (simp add: refund_claimed_def Let_def)
qed

lemma refund_books: "books_kept db (fst (CompleteCommercialOrderRefund n c now out db))"
  unfolding CompleteCommercialOrderRefund_def
  by (auto split: option.split sum.split intro!: in_tx_rel [of books_kept] books_kept_refl)
    (auto simp: books_kept_def intro: refund_claimed_books)

lemma trial_books: "books_kept db (fst (ClaimCommercialTrial u s now out db))"
proof -
  have "books_kept db (start_trial u p now db)" for p
    unfolding books_kept_def
  proof
    assume ok: "books_ok db"
    define db1 where "db1 = db\<lparr>cd_entitlements := cd_entitlements db @ [\<lparr>en_ID = cd_nextID db, en_UID = u, en_PlanID = pl_ID p,
                   en_Source = ''trial'', en_SourceRef = pl_Slug p, en_State = EntitlementActive,
                   en_StartsAt = now, en_ExpiresAt = Some (addDays now (pl_DurationDays p))\<rparr>], cd_nextID := cd_nextID db + 1\<rparr>"
    let ?db' = "createCommercialPlanGrants u (pl_ID p) ''trial'' (pl_Slug p) (pl_Name p) (pl_MonthlyBudget p) (pl_ModelBudgets p)
           now (addDays now (pl_DurationDays p)) db1"
    note parts = create_grants_effect [of u "pl_ID p" "''trial''" "pl_Slug p" "pl_Name p" "pl_MonthlyBudget p" "pl_ModelBudgets p"
        now "addDays now (pl_DurationDays p)" db1]
    obtain new where new: "cd_grants ?db' = cd_grants db1 @ new" "\<forall>g\<in>set new. qg_GrantType g = ''trial''"
      using parts(1) by blast
    have "books_ok ?db'"
      using ok new parts(2-4)
      by (auto simp: books_ok_def counts_ok_def events_ok_def rights_ok_def order_rights_def db1_def right_ok_def quota_ok_def)
    then show "books_ok (start_trial u p now db)"
      by (simp add: start_trial_def db1_def Let_def)
  qed
  then show ?thesis
    unfolding ClaimCommercialTrial_def
    by (auto split: option.split intro!: in_tx_rel [of books_kept] books_kept_refl)
qed

lemmas book_ops = grant_same reserve_same reserve_configured_same commit_same credit_ops_same lifecycle_ops_same

lemma step_books: "books_ok db \<Longrightarrow> books_ok (commerce_step s db)"
proof -
  obtain now out op where s: "s = (now, out, op)" by (cases s)
  have "books_kept db (commerce_step s db)"
    unfolding s
    by (cases op) (simp_all add: books_kept_same book_ops order_steps_kept create_order_books close_expired_books
        fulfill_order_books refund_books trial_books)
  then show "books_ok db \<Longrightarrow> ?thesis" by (simp add: books_kept_def)
qed

lemma no_sales_books: "books_ok (no_sales plans)"
  by (simp add: no_sales_def books_ok_def counts_ok_def events_ok_def rights_ok_def order_rights_def)

lemma history_books: "books_ok (commerce_after steps (no_sales plans))"
  by (rule commerce_after_invariant [of books_ok]) (rule no_sales_books, rule step_books)

section \<open>The ledger\<close>

definition ledger_total :: "uid \<Rightarrow> string \<Rightarrow> ledger_entry list \<Rightarrow> rat" where
  "ledger_total u m es = sum_list (map le_Amount (filter (\<lambda>e. le_UID e = u \<and> le_Model e = m) es))"

definition quota_total :: "uid \<Rightarrow> string \<Rightarrow> quota_grant list \<Rightarrow> rat" where
  "quota_total u m gs = sum_list (map qg_Amount (filter (\<lambda>g. qg_UID g = u \<and> qg_Model g = m \<and> qg_RevokedAt g = None) gs))"

definition refund_of :: "int \<Rightarrow> ledger_entry \<Rightarrow> bool" where
  "refund_of i e \<longleftrightarrow> le_SourceType e = ''refund'' \<and> le_EntryType e = ''revoke'' \<and> le_SourceID e = i"

definition ledger_ok :: "commerce \<Rightarrow> bool" where
  "ledger_ok db \<longleftrightarrow>
     distinct (map qg_ID (cd_grants db)) \<and> (\<forall>g\<in>set (cd_grants db). qg_ID g < cd_nextID db)
     \<and> (\<forall>e\<in>set (cd_ledger db). le_SourceID e < cd_nextID db)
     \<and> (\<forall>g\<in>set (cd_grants db). qg_RevokedAt g = None \<longrightarrow> (\<forall>e\<in>set (cd_ledger db). \<not> refund_of (qg_ID g) e))
     \<and> (\<forall>u m. ledger_total u m (cd_ledger db) = quota_total u m (cd_grants db))"

definition ledger_kept :: "commerce \<Rightarrow> commerce \<Rightarrow> bool" where
  "ledger_kept db db' \<longleftrightarrow> (ledger_ok db \<longrightarrow> ledger_ok db')"

lemma ledger_kept_refl: "ledger_kept db db"
  by (simp add: ledger_kept_def)

lemma ledger_kept_trans: "ledger_kept a b \<Longrightarrow> ledger_kept b c \<Longrightarrow> ledger_kept a c"
  by (simp add: ledger_kept_def)

lemma ledger_kept_same:
  assumes "cd_grants db' = cd_grants db" and "cd_ledger db' = cd_ledger db" and "cd_nextID db \<le> cd_nextID db'"
  shows "ledger_kept db db'"
  unfolding ledger_kept_def ledger_ok_def assms(1,2) using assms(3) by (meson order_less_le_trans)

lemma totals_append [simp]:
  "ledger_total u m (xs @ ys) = ledger_total u m xs + ledger_total u m ys"
  "quota_total u m (gs @ hs) = quota_total u m gs + quota_total u m hs"
  by (simp_all add: ledger_total_def quota_total_def)

lemma ledger_add_grant: "ledger_kept db (add_grant u i s r n st e ma db)"
proof (cases "trimSpace (fst ma) = [] \<or> snd ma \<le> 0")
  case True
  then show ?thesis by (auto simp: add_grant_def Let_def ledger_kept_refl)
next
  case False
  define g where "g = \<lparr>qg_ID = cd_nextID db, qg_UID = u, qg_PlanID = i, qg_GrantType = s, qg_Model = trimSpace (fst ma),
      qg_Amount = snd ma, qg_EffectiveAt = st, qg_ExpiresAt = Some e, qg_SourceRef = r, qg_RevokedAt = None\<rparr>"
  define l where "l = \<lparr>le_UID = u, le_Model = trimSpace (fst ma), le_Amount = snd ma, le_EntryType = ''grant'',
      le_SourceType = s, le_SourceID = cd_nextID db, le_Note = n\<rparr>"
  have new: "add_grant u i s r n st e ma db = db\<lparr>cd_grants := cd_grants db @ [g], cd_ledger := cd_ledger db @ [l], cd_nextID := cd_nextID db + 1\<rparr>"
    using False by (simp add: add_grant_def g_def l_def Let_def)
  show ?thesis
    unfolding ledger_kept_def
  proof
    assume ok: "ledger_ok db"
    have total: "ledger_total v m [l] = quota_total v m [g]" for v m
      by (simp add: ledger_total_def quota_total_def g_def l_def)
    have "\<not> refund_of (qg_ID h) l" for h
      by (simp add: refund_of_def l_def)
    moreover have "\<forall>e\<in>set (cd_ledger db). \<not> refund_of (qg_ID g) e"
      using ok by (auto simp: ledger_ok_def refund_of_def g_def)
    moreover have "distinct (map qg_ID (cd_grants db @ [g]))" "\<forall>h\<in>set (cd_grants db @ [g]). qg_ID h < cd_nextID db + 1"
      "\<forall>h\<in>set (cd_ledger db @ [l]). le_SourceID h < cd_nextID db + 1"
      using ok by (auto simp: ledger_ok_def g_def l_def)
    ultimately show "ledger_ok (add_grant u i s r n st e ma db)"
      using ok total unfolding new by (auto simp: ledger_ok_def)
  qed
qed

lemma fold_ledger: "(\<And>x db. ledger_kept db (f x db)) \<Longrightarrow> ledger_kept db (fold f xs db)"
  by (induction xs arbitrary: db) (auto intro: ledger_kept_refl ledger_kept_trans)

lemma create_grants_ledger: "ledger_kept db (createCommercialPlanGrants u i s r n m b st e db)"
  by (simp add: createCommercialPlanGrants_def fold_ledger ledger_add_grant)

text \<open>Reversing grants that are in force takes their amounts out of both sides.\<close>

lemma reversal_total:
  assumes "\<And>g. p g \<Longrightarrow> qg_RevokedAt g = None"
  shows "ledger_total u m (map (reversal s n) (filter p gs)) + quota_total u m gs = quota_total u m (update_rows p (revoke_grant t) gs)"
proof (induction gs)
  case (Cons g gs)
  then show ?case
    using assms [of g] by (auto simp: ledger_total_def quota_total_def update_rows_def reversal_def revoke_grant_def)
qed (simp add: ledger_total_def quota_total_def update_rows_def)

lemma reversed_ok:
  assumes ok: "ledger_ok db" and p: "\<And>g. p g \<Longrightarrow> qg_RevokedAt g = None"
    and led: "cd_ledger db' = cd_ledger db @ map (reversal s n) (filter p (cd_grants db))"
    and gr: "cd_grants db' = update_rows p (revoke_grant t) (cd_grants db)" and nxt: "cd_nextID db' = cd_nextID db"
  shows "ledger_ok db'"
proof -
  have ids: "map qg_ID (cd_grants db') = map qg_ID (cd_grants db)"
    unfolding gr by (rule update_rows_map) (simp add: revoke_grant_def)
  have old: "\<exists>h\<in>set (cd_grants db). qg_ID h = qg_ID g \<and> (qg_RevokedAt g = None \<longrightarrow> g = h \<and> \<not> p h)" if g: "g \<in> set (cd_grants db')" for g
  proof -
    obtain h where "h \<in> set (cd_grants db)" "g = (if p h then revoke_grant t h else h)"
      using g unfolding gr set_update_rows by blast
    then show ?thesis by (intro bexI [of _ h]) (auto simp: revoke_grant_def)
  qed
  have d: "distinct (map qg_ID (cd_grants db))" using ok by (simp add: ledger_ok_def)
  have "\<not> refund_of (qg_ID g) e" if g: "g \<in> set (cd_grants db')" "qg_RevokedAt g = None" and e: "e \<in> set (cd_ledger db')" for g e
  proof -
    have h: "g \<in> set (cd_grants db)" "\<not> p g" using old [OF g(1)] g(2) by auto
    have "qg_ID k \<noteq> qg_ID g" if "k \<in> set (cd_grants db)" "p k" for k
      using that h d by (metis distinct_map inj_onD)
    then show ?thesis
      using e h g(2) ok by (auto simp: led ledger_ok_def refund_of_def reversal_def)
  qed
  moreover have "ledger_total u m (cd_ledger db') = quota_total u m (cd_grants db')" for u m
    using ok reversal_total [where p = p and u = u and m = m and s = s and n = n and gs = "cd_grants db" and t = t, OF p] by (simp add: led gr ledger_ok_def add.commute)
  moreover have "\<forall>e\<in>set (cd_ledger db'). le_SourceID e < cd_nextID db'"
    using ok by (auto simp: led nxt ledger_ok_def reversal_def)
  moreover have "\<forall>g\<in>set (cd_grants db'). qg_ID g < cd_nextID db'"
    using old ok unfolding ledger_ok_def nxt by metis
  ultimately show ?thesis
    using d by (simp add: ledger_ok_def ids)
qed

lemma reverse_grants_ledger: "(\<And>g. p g \<Longrightarrow> qg_RevokedAt g = None) \<Longrightarrow> ledger_kept db (reverse_grants s n p t db)"
  unfolding ledger_kept_def by (intro impI, rule reversed_ok [where p = p and s = s and n = n and t = t]) (simp_all add: reverse_grants_def)

lemma activate_ledger: "ledger_kept db (fst (activateCommercialOfficialPlan u slug now db))"
proof -
  have free: "ledger_kept db (revokeCommercialFreeBaseline u slug now db)" for db
    unfolding revokeCommercialFreeBaseline_def Let_def
    by (rule ledger_kept_trans [OF reverse_grants_ledger ledger_kept_same]) (simp_all add: free_grant_def)
  have tier: "ledger_kept db (revokeCommercialPlanTier u slug now i db)" for i db
    unfolding revokeCommercialPlanTier_def Let_def
    by (rule ledger_kept_trans [OF ledger_kept_same reverse_grants_ledger]) (simp_all add: superseded_grant_def)
  show ?thesis
    by (auto simp: activateCommercialOfficialPlan_def Let_def free
        intro: ledger_kept_refl ledger_kept_trans [OF free fold_ledger [OF tier]])
qed

lemma fold_refund_entry:
  assumes "distinct (map le_SourceID es)" and "\<And>e. e \<in> set es \<Longrightarrow> le_SourceType e = ''refund'' \<and> le_EntryType e = ''revoke''"
    and "\<And>e f. e \<in> set es \<Longrightarrow> f \<in> set rows \<Longrightarrow> \<not> refund_of (le_SourceID e) f"
  shows "fold refund_entry es rows = rows @ es"
  using assms
proof (induction es arbitrary: rows)
  case (Cons e es)
  have "refund_entry e rows = rows @ [e]"
    using Cons.prems(3) [of e] by (auto simp: refund_entry_def refund_of_def)
  moreover have "fold refund_entry es (rows @ [e]) = (rows @ [e]) @ es"
    using Cons.prems by (intro Cons.IH) (auto simp: refund_of_def)
  ultimately show ?case by simp
qed simp

lemma reverse_order_ledger:
  assumes ok: "ledger_ok db"
  shows "cd_ledger (reverse_order_grants r t db)
    = cd_ledger db @ map (reversal ''refund'' (''refund '' @ or_OrderNo r)) (filter (order_grant r) (cd_grants db))"
proof -
  have "distinct (map qg_ID (filter (order_grant r) (cd_grants db)))"
    using ok by (simp add: ledger_ok_def distinct_map_filter)
  then have "fold refund_entry (map (reversal ''refund'' (''refund '' @ or_OrderNo r)) (filter (order_grant r) (cd_grants db))) (cd_ledger db)
    = cd_ledger db @ map (reversal ''refund'' (''refund '' @ or_OrderNo r)) (filter (order_grant r) (cd_grants db))"
    using ok by (intro fold_refund_entry) (auto simp: reversal_def o_def ledger_ok_def order_grant_def)
  then show ?thesis by (simp add: reverse_order_grants_def)
qed

lemma take_back_ledger: "ledger_kept db (take_back r t now db)"
  unfolding ledger_kept_def
proof
  assume ok: "ledger_ok db"
  then have ok1: "ledger_ok (revoke_order_rights r db)"
    using ledger_kept_same [of "revoke_order_rights r db" db] by (simp add: revoke_order_rights_def ledger_kept_def)
  have "ledger_ok (reverse_order_grants r t (revoke_order_rights r db))"
    by (rule reversed_ok [OF ok1 _ reverse_order_ledger [OF ok1], where t = t]) (simp_all add: order_grant_def reverse_order_grants_def)
  moreover have "ledger_kept (reverse_order_grants r t (revoke_order_rights r db)) (take_back r t now db)"
    by (rule ledger_kept_same) (simp_all add: take_back_def Let_def update_order_def roll_back_workers_def revoke_order_credit_def)
  ultimately show "ledger_ok (take_back r t now db)" by (simp add: ledger_kept_def)
qed

lemma same_ledger: "same_books db db' \<Longrightarrow> ledger_kept db db'"
  by (rule ledger_kept_same) (simp_all add: same_books_def)

lemma record_event_ledger: "record_event ch ev n tr ty h db = Some db1 \<Longrightarrow> ledger_kept db db1"
  by (rule ledger_kept_same) (auto simp: record_event_def split: if_splits)

lemma deliver_ledger: "ledger_kept db (fst (deliver_order r tr st p now db))"
proof (cases "insert_order_entitlement (or_UID r) (or_PlanID r) (or_OrderNo r) st (addDays st (or_PlanDurationDays r)) db")
  case None
  then show ?thesis by (simp add: deliver_order_def Let_def ledger_kept_refl)
next
  case (Some db1)
  have ins: "ledger_kept db db1"
    using Some by (intro ledger_kept_same) (auto simp: insert_order_entitlement_def split: if_splits)
  have finish: "ledger_kept db3 (fst (complete_order n tr p now w db3))" for n w db3
    by (rule ledger_kept_same) (simp_all add: complete_order_def update_order_def Let_def)
  have rest: "ledger_kept db2 (fst (and_then (if w then grant_worker r e now db2 else (db2, Inr ())) (\<lambda>_. complete_order n tr p now w)))" for w e n db2
    by (rule and_then_rel [of ledger_kept, OF ledger_kept_trans _ finish]) (simp_all add: ledger_kept_refl same_ledger grant_worker_same)
  show ?thesis
    unfolding deliver_order_def Let_def Some option.case
    by (rule ledger_kept_trans [OF ins ledger_kept_trans [OF create_grants_ledger rest]])
qed

lemma fulfill_ledger: "ledger_kept db (fst (FulfillCommercialOrder n c now out db))"
proof -
  have paid: "ledger_kept db (fst (fulfill_paid r c now db))" for r c
    unfolding fulfill_paid_def Let_def
    by (auto split: option.split intro!: ledger_kept_refl and_then_rel [of ledger_kept, OF ledger_kept_trans]
        intro: ledger_kept_trans [OF record_event_ledger] activate_ledger deliver_ledger)
  have "ledger_kept db (fst (and_then (fulfill_paid r x now db) (\<lambda>s db. (db, Inr (s, True)))))" for r x
    by (rule and_then_rel [of ledger_kept, OF ledger_kept_trans paid]) (simp_all add: ledger_kept_refl)
  then show ?thesis
    unfolding FulfillCommercialOrder_def
    by (auto split: option.split sum.split intro!: ledger_kept_refl in_tx_rel [of ledger_kept] all_or_nothing_rel [of ledger_kept])
qed

lemma refund_ledger: "ledger_kept db (fst (CompleteCommercialOrderRefund n c now out db))"
proof -
  have "ledger_kept db (fst (refund_claimed r x now db))" for r x
    by (auto simp: refund_claimed_def Let_def split: option.split intro: ledger_kept_refl
        ledger_kept_trans [OF record_event_ledger take_back_ledger])
  then show ?thesis
    unfolding CompleteCommercialOrderRefund_def
    by (auto split: option.split sum.split intro!: ledger_kept_refl in_tx_rel [of ledger_kept])
qed

lemma trial_ledger: "ledger_kept db (fst (ClaimCommercialTrial u s now out db))"
proof -
  have "ledger_kept db (start_trial u p now db)" for p
    unfolding start_trial_def Let_def
    by (rule ledger_kept_trans [OF ledger_kept_same create_grants_ledger]) simp_all
  then show ?thesis
    unfolding ClaimCommercialTrial_def
    by (auto split: option.split intro!: ledger_kept_refl in_tx_rel [of ledger_kept])
qed

lemma place_order_ledger: "ledger_kept db (fst (place_order q ch p now db))"
  by (auto simp: place_order_def insert_order_def Let_def close_expired_reservations_def split: option.split if_splits
      intro!: ledger_kept_same)

lemma create_order_ledger: "ledger_kept db (fst (CreateCommercialOrder q now out db))"
  unfolding CreateCommercialOrder_def Let_def
  by (intro fst_if_rel [where P = "ledger_kept db"] in_tx_rel [of ledger_kept])
    (auto split: option.split sum.split intro!: ledger_kept_refl place_order_ledger ledger_kept_same)

lemma claim_order_ledger:
  "cd_grants (fst (claim_order n p f now db)) = cd_grants db" "cd_ledger (fst (claim_order n p f now db)) = cd_ledger db"
  "cd_nextID (fst (claim_order n p f now db)) = cd_nextID db"
  by (simp_all add: claim_order_def update_order_def)

lemma order_steps_ledger:
  "ledger_kept db (fst (BeginCommercialOrderPayment n e now out db))"
  "ledger_kept db (fst (SetCommercialOrderPaymentIntent n url e now out db))"
  "ledger_kept db (fst (FailCommercialOrder n m now out db))"
  "ledger_kept db (fst (CancelCommercialOrder u n m now out db))"
  "ledger_kept db (fst (CloseExpiredCommercialOrders k now out db))"
  "ledger_kept db (fst (BeginCommercialOrderRefund n q d now out db))"
  "ledger_kept db (fst (FailCommercialOrderRefund n q m now out db))"
  unfolding BeginCommercialOrderPayment_def SetCommercialOrderPaymentIntent_def FailCommercialOrder_def
    CancelCommercialOrder_def CloseExpiredCommercialOrders_def BeginCommercialOrderRefund_def FailCommercialOrderRefund_def
    Let_def case_prod_beta fst_conv
  by (intro fst_if_rel [where P = "ledger_kept db"] in_tx_rel [of ledger_kept]; simp add: ledger_kept_refl ledger_kept_same
      claim_order_ledger update_order_def)+

lemma step_ledger: "ledger_ok db \<Longrightarrow> ledger_ok (commerce_step s db)"
proof -
  obtain now out op where s: "s = (now, out, op)" by (cases s)
  have "ledger_kept db (commerce_step s db)"
    unfolding s
    by (cases op) (simp_all add: same_ledger book_ops order_steps_ledger create_order_ledger fulfill_ledger refund_ledger trial_ledger)
  then show "ledger_ok db \<Longrightarrow> ?thesis" by (simp add: ledger_kept_def)
qed

lemma history_ledger: "ledger_ok (commerce_after steps (no_sales plans))"
proof (rule commerce_after_invariant [of ledger_ok])
  show "ledger_ok (no_sales plans)"
    by (simp add: no_sales_def ledger_ok_def ledger_total_def quota_total_def)
qed (rule step_ledger)

section \<open>What buyers and the site can rely on\<close>

text \<open>
  A sale on the sample plan: ordered at 1000, payable until 5000, paid as event \<open>ev-1\<close> at 2000
\<close>

definition sample_purchase :: order_request where
  "sample_purchase = \<lparr>oq_OrderNo = ''o-1'', oq_UID = 5, oq_PlanID = 1, oq_Channel = ''alipay'', oq_ClientRequestID = ''req-1'',
      oq_ExpiresAt = Some 5000\<rparr>"

definition sample_payment :: payment_confirmation where
  "sample_payment = \<lparr>pc_Channel = ''alipay'', pc_EventID = ''ev-1'', pc_ProviderTradeNo = ''t-1'', pc_AmountFen = 9900,
      pc_Currency = ''cny'', pc_PaidAt = 2000, pc_PayloadHash = ''h''\<rparr>"

definition sample_refund :: refund_confirmation where
  "sample_refund = \<lparr>rc_Channel = ''alipay'', rc_EventID = ''ev-2'', rc_ProviderTradeNo = ''t-1'', rc_RefundRequestNo = ''rf-1'',
      rc_AmountFen = 9900, rc_Currency = ''CNY'', rc_RefundedAt = 4000, rc_PayloadHash = ''h''\<rparr>"

definition sample_sale :: "(go_time \<times> db_outcome \<times> commerce_op) list" where
  "sample_sale = [(1000, Committed, CreateOrder sample_purchase), (2000, Committed, FulfillOrder ''o-1'' (Some sample_payment))]"

text \<open>
  C9: An order is delivered at most once: along every history, whatever is retried or lost, an order that was fulfilled has
  exactly one entitlement and a payment event of its own on record, and any other order has no entitlement.
\<close>

theorem order_delivered_once:
  assumes "db = commerce_after steps (no_sales plans)" and "r \<in> set (cd_orders db)"
  shows "count_list (order_rights db) (or_OrderNo r) = (if delivered r then 1 else 0)
    \<and> (delivered r \<longrightarrow> (\<exists>p\<in>set (cd_events db). pe_OrderNo p = or_OrderNo r \<and> pe_EventType p = ''payment_success''))"
  using history_books [of steps plans] assms by (simp add: books_ok_def counts_ok_def events_ok_def paid_event_def)

theorem order_delivered_once_witness:
  "count_list (order_rights (commerce_after (sample_sale @ sample_sale) (no_sales [sample_plan])))
     (or_OrderNo (hd (cd_orders (commerce_after (sample_sale @ sample_sale) (no_sales [sample_plan]))))) = 1"
proof -
  let ?db = "commerce_after (sample_sale @ sample_sale) (no_sales [sample_plan])"
  have r: "hd (cd_orders ?db) \<in> set (cd_orders ?db)" by code_simp
  have d: "delivered (hd (cd_orders ?db))" by code_simp
  show ?thesis
    using order_delivered_once [OF refl r] d by simp
qed


section \<open>A refund is final\<close>

definition refunded_stay :: "commerce \<Rightarrow> commerce \<Rightarrow> bool" where
  "refunded_stay db db' \<longleftrightarrow>
     (\<forall>s\<in>set (cd_orders db). or_Status s = OrderRefunded
        \<longrightarrow> (\<exists>t\<in>set (cd_orders db'). or_OrderNo t = or_OrderNo s \<and> or_Status t = OrderRefunded))"

lemma refunded_stay_refl: "refunded_stay db db"
  by (auto simp: refunded_stay_def)

lemma refunded_stay_trans: "refunded_stay a b \<Longrightarrow> refunded_stay b c \<Longrightarrow> refunded_stay a c"
  unfolding refunded_stay_def by metis

lemma refunded_stay_same: "cd_orders db' = cd_orders db \<Longrightarrow> refunded_stay db db'"
  by (auto simp: refunded_stay_def)

lemma refunded_stay_books: "same_books db db' \<Longrightarrow> refunded_stay db db'"
  by (rule refunded_stay_same) (simp add: same_books_def)

lemma refunded_stay_update:
  assumes "cd_orders db' = update_rows p f (cd_orders db)"
    and "\<And>s. s \<in> set (cd_orders db) \<Longrightarrow> p s \<Longrightarrow> or_Status s = OrderRefunded \<Longrightarrow> or_OrderNo (f s) = or_OrderNo s \<and> or_Status (f s) = OrderRefunded"
  shows "refunded_stay db db'"
  unfolding refunded_stay_def assms(1) set_update_rows
proof (intro ballI impI)
  fix s assume s: "s \<in> set (cd_orders db)" "or_Status s = OrderRefunded"
  show "\<exists>t\<in>(\<lambda>r. if p r then f r else r) ` set (cd_orders db). or_OrderNo t = or_OrderNo s \<and> or_Status t = OrderRefunded"
    by (rule bexI [OF _ imageI [OF s(1)]]) (use s assms(2) [OF s(1)] in auto)
qed

lemma update_order_refunded:
  assumes "\<And>r. p r \<Longrightarrow> or_Status r \<noteq> OrderRefunded"
  shows "refunded_stay db (update_order n p f now db)"
  by (rule refunded_stay_update [where p = "\<lambda>r. or_OrderNo r = n \<and> p r" and f = "\<lambda>r. (f r)\<lparr>or_UpdatedAt := now\<rparr>"])
    (auto simp: update_order_def dest: assms)

lemma claim_order_refunded:
  assumes "\<And>r. p r \<Longrightarrow> or_Status r \<noteq> OrderRefunded"
  shows "refunded_stay db (fst (claim_order n p f now db))"
  using update_order_refunded [OF assms] by (simp add: claim_order_def refunded_stay_refl)

lemma close_orders_refunded:
  assumes "\<And>r. p r \<Longrightarrow> or_Status r \<in> {OrderCreated, OrderPending}"
  shows "refunded_stay db (db\<lparr>cd_orders := update_rows p f (cd_orders db)\<rparr>)"
  by (rule refunded_stay_update [where p = p and f = f]) (auto dest: assms)

lemma order_steps_refunded:
  "refunded_stay db (fst (BeginCommercialOrderPayment n e now out db))"
  "refunded_stay db (fst (SetCommercialOrderPaymentIntent n url e now out db))"
  "refunded_stay db (fst (FailCommercialOrder n m now out db))"
  "refunded_stay db (fst (CancelCommercialOrder u n m now out db))"
  "refunded_stay db (fst (BeginCommercialOrderRefund n q d now out db))"
  "refunded_stay db (fst (FailCommercialOrderRefund n q m now out db))"
  unfolding BeginCommercialOrderPayment_def SetCommercialOrderPaymentIntent_def FailCommercialOrder_def
    CancelCommercialOrder_def BeginCommercialOrderRefund_def FailCommercialOrderRefund_def Let_def case_prod_beta fst_conv
  by (intro fst_if_rel [where P = "refunded_stay db"] in_tx_rel [of refunded_stay] refunded_stay_refl;
      auto simp: refunded_stay_refl awaiting_payment_def refundable_def intro!: claim_order_refunded update_order_refunded)+

lemma close_expired_refunded: "refunded_stay db (fst (CloseExpiredCommercialOrders k now out db))"
proof -
  have "or_Status r \<in> {OrderCreated, OrderPending}"
    if "r \<in> set (take n (sort_key f (filter (\<lambda>r. or_Status r \<in> {OrderCreated, OrderPending} \<and> q r) rs)))"
    for r n and f :: "commercial_order \<Rightarrow> int" and q rs
    using in_set_takeD [OF that] by simp
  then show ?thesis
    unfolding CloseExpiredCommercialOrders_def Let_def
    by (intro in_tx_rel [of refunded_stay] refunded_stay_refl) (simp only: fst_conv close_orders_refunded)
qed

lemma place_order_refunded: "refunded_stay db (fst (place_order q ch p now db))"
proof -
  let ?db1 = "if pl_PurchaseLimit p > 0 then close_expired_reservations (oq_UID q) (pl_ID p) now db else db"
  have closed: "refunded_stay db ?db1"
    unfolding close_expired_reservations_def by (auto intro!: refunded_stay_refl close_orders_refunded)
  have new: "refunded_stay ?db1 db2" if "insert_order q ch p now ?db1 = Some (db2, r)" for db2 r
    using that by (auto simp: insert_order_def Let_def refunded_stay_def split: if_splits)
  show ?thesis
  proof (cases "insert_order q ch p now ?db1")
    case None
    then show ?thesis by (simp add: place_order_def Let_def refunded_stay_refl)
  next
    case (Some x)
    then show ?thesis
      using refunded_stay_trans [OF closed new] by (cases x) (simp add: place_order_def Let_def refunded_stay_refl)
  qed
qed

lemma create_order_refunded: "refunded_stay db (fst (CreateCommercialOrder q now out db))"
  unfolding CreateCommercialOrder_def Let_def
  by (intro fst_if_rel [where P = "refunded_stay db"] in_tx_rel [of refunded_stay])
    (auto split: option.split sum.split intro!: refunded_stay_refl place_order_refunded refunded_stay_same)

lemma deliver_refunded:
  assumes ok: "counts_ok db" and r: "r \<in> set (cd_orders db)" "\<not> delivered r"
  shows "refunded_stay db (fst (deliver_order r tr st p now db))"
proof (cases "insert_order_entitlement (or_UID r) (or_PlanID r) (or_OrderNo r) st (addDays st (or_PlanDurationDays r)) db")
  case None
  then show ?thesis by (simp add: deliver_order_def Let_def refunded_stay_refl)
next
  case (Some db1)
  have o1: "cd_orders db1 = cd_orders db"
    using Some by (auto simp: insert_order_entitlement_def split: if_splits)
  have finish: "refunded_stay db3 (fst (complete_order (or_OrderNo r) tr p now w db3))" if "cd_orders db3 = cd_orders db" for w db3
  proof (rule refunded_stay_update)
    show "cd_orders (fst (complete_order (or_OrderNo r) tr p now w db3))
      = update_rows (\<lambda>s. or_OrderNo s = or_OrderNo r) (\<lambda>s. (mark_fulfilled tr p now s)\<lparr>or_UpdatedAt := now\<rparr>) (cd_orders db3)"
      by (simp add: complete_order_def update_order_def Let_def)
    fix s assume "s \<in> set (cd_orders db3)" "or_OrderNo s = or_OrderNo r" "or_Status s = OrderRefunded"
    moreover have "s = r" using same_number [OF ok r(1)] calculation that by simp
    ultimately show "or_OrderNo ((mark_fulfilled tr p now s)\<lparr>or_UpdatedAt := now\<rparr>) = or_OrderNo s
        \<and> or_Status ((mark_fulfilled tr p now s)\<lparr>or_UpdatedAt := now\<rparr>) = OrderRefunded"
      using r(2) by (simp add: delivered_def)
  qed
  have rest: "refunded_stay db2 (fst (and_then (if w then grant_worker r e now db2 else (db2, Inr ())) (\<lambda>_. complete_order (or_OrderNo r) tr p now w)))"
    if o2: "cd_orders db2 = cd_orders db" for w e db2
  proof -
    let ?x = "if w then grant_worker r e now db2 else (db2, Inr ())"
    have same: "cd_orders (fst ?x) = cd_orders db"
      using o2 grant_worker_same [of db2 r e now] by (simp add: same_books_def)
    then have a: "refunded_stay db2 (fst ?x)" using o2 by (simp add: refunded_stay_same)
    show ?thesis
      using a refunded_stay_trans [OF a finish [OF same]] unfolding and_then_def by (cases "snd ?x") (simp_all only: sum.case fst_conv)
  qed
  have via: "refunded_stay db x" if "refunded_stay (createCommercialPlanGrants u i s rf n m b st e db1) x" for u i s rf n m b st e x
    using that by (simp add: refunded_stay_def create_grants_effect(2) o1)
  have grants: "cd_orders (createCommercialPlanGrants u i s rf n m b st e db1) = cd_orders db" for u i s rf n m b st e
    by (simp add: create_grants_effect(2) o1)
  show ?thesis
    unfolding deliver_order_def Let_def Some option.case by (rule via [OF rest [OF grants]])
qed

lemma fulfill_paid_refunded:
  assumes ok: "books_ok db" and r: "order_of n db = Some r" "\<not> delivered r"
  shows "refunded_stay db (fst (fulfill_paid r c now db))"
proof (cases "record_event (pc_Channel c) (pc_EventID c) (or_OrderNo r) (trimSpace (pc_ProviderTradeNo c)) ''payment_success''
                (trimSpace (pc_PayloadHash c)) db")
  case None
  then show ?thesis by (simp add: fulfill_paid_def refunded_stay_refl)
next
  case (Some db1)
  define paidAt where "paidAt = (if is_zero_time (pc_PaidAt c) then now else pc_PaidAt c)"
  let ?a = "activateCommercialOfficialPlan (or_UID r) (or_PlanSlug r) paidAt db1"
  have red: "rights_reduce db1 (fst ?a)" by (rule activate_reduces)
  have "books_ok (fst ?a)" by (rule rights_reduce_ok [OF red record_event_effect(7) [OF Some ok]])
  then have c: "counts_ok (fst ?a)" by (simp add: books_ok_def)
  have o: "cd_orders (fst ?a) = cd_orders db"
    using red record_event_effect(1) [OF Some] by (simp add: rights_reduce_def)
  have a: "refunded_stay db (fst ?a)" by (rule refunded_stay_same [OF o])
  have d: "refunded_stay (fst ?a) (fst (deliver_order r tr st paidAt now (fst ?a)))" for tr st
    by (rule deliver_refunded [OF c _ r(2)]) (use o order_of_mem [OF r(1)] in simp)
  show ?thesis
    unfolding fulfill_paid_def Let_def Some option.case paidAt_def [symmetric] and_then_def
    using a refunded_stay_trans [OF a d] by (cases "snd ?a") (simp_all only: sum.case fst_conv)
qed

lemma fulfill_refunded:
  assumes ok: "books_ok db"
  shows "refunded_stay db (fst (FulfillCommercialOrder n c now out db))"
proof -
  have "refunded_stay db (fst (and_then (fulfill_paid r x now db) (\<lambda>s db. (db, Inr (s, True)))))"
    if "order_of m db = Some r" "\<not> delivered r" for m r x
    using fulfill_paid_refunded [OF ok that] by (simp add: and_then_def split: sum.split)
  moreover have "\<not> delivered r" if "check_payment r x = Inr z" "or_Status r \<noteq> OrderFulfilled" for r x z
    using that by (auto simp: check_payment_def delivered_def split: if_splits)
  ultimately show ?thesis
    unfolding FulfillCommercialOrder_def
    by (auto split: option.split sum.split intro!: refunded_stay_refl in_tx_rel [of refunded_stay] all_or_nothing_rel [of refunded_stay])
qed

lemma take_back_refunded: "refunded_stay db (take_back r t now db)"
  by (rule refunded_stay_update [where p = "\<lambda>s. or_OrderNo s = or_OrderNo r" and f = "\<lambda>s. (mark_refunded t s)\<lparr>or_UpdatedAt := now\<rparr>"])
    (simp_all add: take_back_def Let_def update_order_def roll_back_workers_def revoke_order_credit_def reverse_order_grants_def
      revoke_order_rights_def mark_refunded_def)

lemma refund_refunded: "refunded_stay db (fst (CompleteCommercialOrderRefund n c now out db))"
proof -
  have "refunded_stay db (fst (refund_claimed r x now db))" for r x
    by (auto simp: refund_claimed_def Let_def refunded_stay_refl split: option.split
        intro: refunded_stay_trans [OF refunded_stay_same [OF record_event_effect(1)] take_back_refunded])
  then show ?thesis
    unfolding CompleteCommercialOrderRefund_def
    by (auto split: option.split sum.split intro!: refunded_stay_refl in_tx_rel [of refunded_stay])
qed

lemma trial_refunded: "refunded_stay db (fst (ClaimCommercialTrial u s now out db))"
  unfolding ClaimCommercialTrial_def
  by (auto split: option.split intro!: refunded_stay_refl in_tx_rel [of refunded_stay])
    (simp add: start_trial_def Let_def refunded_stay_same create_grants_effect(2))

lemma step_refunded: "books_ok db \<Longrightarrow> refunded_stay db (commerce_step s db)"
proof -
  obtain now out op where s: "s = (now, out, op)" by (cases s)
  show "books_ok db \<Longrightarrow> ?thesis"
    unfolding s
    by (cases op) (simp_all add: refunded_stay_books book_ops order_steps_refunded create_order_refunded close_expired_refunded
        fulfill_refunded refund_refunded trial_refunded)
qed

lemma history_refunded: "books_ok db \<Longrightarrow> refunded_stay db (commerce_after steps db) \<and> books_ok (commerce_after steps db)"
proof (induction steps arbitrary: db)
  case Nil
  then show ?case by (simp add: commerce_after_def refunded_stay_refl)
next
  case (Cons s steps)
  show ?case
    using Cons.IH [OF step_books [OF Cons.prems, of s]] refunded_stay_trans [OF step_refunded [OF Cons.prems, of s]]
    by (simp add: commerce_after_def)
qed

lemma refund_success:
  assumes run: "CompleteCommercialOrderRefund n (Some c) now out db = (db1, Inr (o1, True))" and r: "order_of (trimSpace n) db = Some r"
  obtains db0 t where "check_refund r c = Inr ()" and "books_ok db \<longrightarrow> books_ok db0" and "cd_orders db0 = cd_orders db"
    and "cd_credits db0 = cd_credits db" and "db1 = take_back r t now db0"
proof -
  let ?r = "if or_Status r = OrderRefunded then (db, Inr (Some r, False))
            else (case check_refund r c of Inl e \<Rightarrow> (db, Inl e) | Inr _ \<Rightarrow> refund_claimed r c now db)"
  have "in_tx out db ?r = (db1, Inr (o1, True))"
    using run r by (simp add: CompleteCommercialOrderRefund_def split: if_splits)
  then have eq: "?r = (db1, Inr (o1, True))"
    using in_tx_success [of out db ?r "(o1, True)"] by simp
  then have chk: "check_refund r c = Inr ()" and claimed: "refund_claimed r c now db = (db1, Inr (o1, True))"
    by (auto split: if_splits sum.splits)
  obtain db0 where ev: "record_event (rc_Channel c) (rc_EventID c) (or_OrderNo r) (trimSpace (rc_ProviderTradeNo c))
      ''refund_success'' (trimSpace (rc_PayloadHash c)) db = Some db0"
    using claimed by (auto simp: refund_claimed_def split: option.splits)
  have "db1 = take_back r (if is_zero_time (rc_RefundedAt c) then now else rc_RefundedAt c) now db0"
    using claimed ev by (simp add: refund_claimed_def Let_def)
  moreover have "cd_credits db0 = cd_credits db"
    using ev by (auto simp: record_event_def split: if_splits)
  ultimately show thesis
    using that [OF chk _ record_event_effect(1) [OF ev]] record_event_effect(7) [OF ev] by blast
qed

text \<open>
  C6: A refund is final: once a refund of an order is completed, then after any further operations the order's entitlement
  and quota stay revoked, and the worker credit it bought, unless it was waiting in the queue for capacity at that moment,
  can never be spent.
\<close>

theorem refund_takes_everything_back:
  assumes db: "db = commerce_after before (no_sales plans)"
    and run: "CompleteCommercialOrderRefund n (Some c) now out db = (db1, Inr (o1, True))"
    and r: "order_of (trimSpace n) db = Some r"
    and db2: "db2 = commerce_after later db1"
  shows "(\<forall>e\<in>set (cd_entitlements db2). en_Source e = ''order'' \<and> en_SourceRef e = or_OrderNo r \<longrightarrow> en_State e = EntitlementRevoked)
    \<and> (\<forall>g\<in>set (cd_grants db2). qg_GrantType g = ''order'' \<and> qg_SourceRef g = or_OrderNo r \<longrightarrow> qg_RevokedAt g \<noteq> None)
    \<and> (\<forall>k\<in>set (cd_credits db). cr_UID k = or_UID r \<and> cr_SourceRef k = ''order:'' @ or_OrderNo r \<and> cr_State k \<noteq> CreditQueued
         \<longrightarrow> (\<forall>l\<in>set (cd_credits db2). cr_ID l = cr_ID k \<longrightarrow> spent l))"
proof -
  obtain db0 t where chk: "check_refund r c = Inr ()" and keep: "books_ok db \<longrightarrow> books_ok db0" and o0: "cd_orders db0 = cd_orders db"
    and c0: "cd_credits db0 = cd_credits db" and db1: "db1 = take_back r t now db0"
    by (rule refund_success [OF run r])
  have ok: "books_ok db" "credits_ok db"
    unfolding db by (rule history_books history_credits_ok)+
  have mem: "r \<in> set (cd_orders db0)" using order_of_mem [OF r] o0 by simp
  have ok1: "books_ok db1"
    unfolding db1 by (rule take_back_books [OF keep [rule_format, OF ok(1)] mem check_refund_delivered [OF chk]])
  let ?m = "\<lambda>s. (mark_refunded t s)\<lparr>or_UpdatedAt := now\<rparr>"
  have "cd_orders db1 = update_rows (\<lambda>s. or_OrderNo s = or_OrderNo r) ?m (cd_orders db0)"
    by (simp add: db1 take_back_def Let_def update_order_def roll_back_workers_def revoke_order_credit_def
        reverse_order_grants_def revoke_order_rights_def)
  then have "?m r \<in> set (cd_orders db1)"
    using mem by (auto simp: set_update_rows)
  then have "\<exists>s\<in>set (cd_orders db1). or_OrderNo s = or_OrderNo r \<and> or_Status s = OrderRefunded"
    by (rule bexI [rotated]) (simp add: mark_refunded_def)
  then obtain s where s: "s \<in> set (cd_orders db2)" "or_OrderNo s = or_OrderNo r" "or_Status s = OrderRefunded"
    using history_refunded [OF ok1, of later] unfolding refunded_stay_def db2 by metis
  have "rights_ok db2"
    using history_refunded [OF ok1, of later] by (simp add: db2 books_ok_def)
  then have rights: "right_ok s e" "quota_ok s g" if "e \<in> set (cd_entitlements db2)" "g \<in> set (cd_grants db2)" for e g
    using s(1) that by (simp_all add: rights_ok_def)
  have ents: "\<forall>e\<in>set (cd_entitlements db2). en_Source e = ''order'' \<and> en_SourceRef e = or_OrderNo r \<longrightarrow> en_State e = EntitlementRevoked"
    using \<open>rights_ok db2\<close> s by (auto simp: rights_ok_def right_ok_def)
  have quota: "\<forall>g\<in>set (cd_grants db2). qg_GrantType g = ''order'' \<and> qg_SourceRef g = or_OrderNo r \<longrightarrow> qg_RevokedAt g \<noteq> None"
    using \<open>rights_ok db2\<close> s unfolding rights_ok_def quota_ok_def by metis
  have "spent l" if k: "k \<in> set (cd_credits db)" "cr_UID k = or_UID r \<and> cr_SourceRef k = ''order:'' @ or_OrderNo r \<and> cr_State k \<noteq> CreditQueued"
    and l: "l \<in> set (cd_credits db2)" "cr_ID l = cr_ID k" for k l
  proof -
    let ?f = "\<lambda>c. if refunded_credit r c then unreserve CreditRevoked c else c"
    have new: "cd_credits db1 = update_rows (refunded_credit r) (unreserve CreditRevoked) (cd_credits db)"
      using c0 by (simp add: db1 take_back_def Let_def update_order_def roll_back_workers_def revoke_order_credit_def
          reverse_order_grants_def revoke_order_rights_def)
    have m: "?f k \<in> set (cd_credits db1)"
      unfolding new set_update_rows by (rule imageI [OF k(1)])
    have sp: "spent (?f k)"
      using k(2) by (cases "cr_State k") (auto simp: refunded_credit_def spent_def unreserve_def)
    have "credits_ok db1"
      using refund_kept [of db n "Some c" now out] ok(2) by (simp add: run credits_kept_def)
    then have "credit_evolves (?f k) l"
      using history_credit [OF _ m, of l later] l by (simp add: db2 unreserve_def)
    then show ?thesis using sp by (simp add: credit_evolves_def)
  qed
  then show ?thesis using ents quota by blast
qed

definition sample_refunding :: "(go_time \<times> db_outcome \<times> commerce_op) list" where
  "sample_refunding = sample_sale @ [(3000, Committed, BeginRefund ''o-1'' ''rf-1'' 0)]"

theorem refund_takes_everything_back_witness:
  "en_State (hd (cd_entitlements (commerce_after [(6000, Committed, FulfillOrder ''o-1'' (Some sample_payment))]
       (fst (CompleteCommercialOrderRefund ''o-1'' (Some sample_refund) 4500 Committed
          (commerce_after sample_refunding (no_sales [sample_plan]))))))) = EntitlementRevoked"
proof -
  let ?db = "commerce_after sample_refunding (no_sales [sample_plan])"
  let ?run = "CompleteCommercialOrderRefund ''o-1'' (Some sample_refund) 4500 Committed ?db"
  let ?r = "hd (cd_orders ?db)"
  have "map_sum (\<lambda>_. ()) snd (snd ?run) = Inr True" by code_simp
  then obtain o1 where "snd ?run = Inr (o1, True)"
    by (cases "snd ?run") auto
  then have run: "?run = (fst ?run, Inr (o1, True))" by (metis prod.collapse)
  have r: "order_of (trimSpace ''o-1'') ?db = Some ?r" by code_simp
  have n: "or_OrderNo ?r = ''o-1''" by code_simp
  let ?es = "cd_entitlements (commerce_after [(6000, Committed, FulfillOrder ''o-1'' (Some sample_payment))] (fst ?run))"
  have "length ?es = 1" and e: "en_Source (hd ?es) = ''order''" "en_SourceRef (hd ?es) = ''o-1''" by code_simp+
  then have "hd ?es \<in> set ?es"
    by (cases ?es) simp_all
  then show ?thesis
    using refund_takes_everything_back [OF refl run r refl, of "[(6000, Committed, FulfillOrder ''o-1'' (Some sample_payment))]"] n e
    by simp
qed

section \<open>Payments that do not match, and credits in the queue\<close>

text \<open>
  C21: Only the payment of an order delivers it: a confirmation that reports success names an order that was not delivered
  yet, its channel, amount and currency, and an event never used before; a confirmation that is refused or repeated changes
  nothing at all.
\<close>

theorem payment_must_match:
  assumes run: "FulfillCommercialOrder n (Some c) now out db = (db', res)" and out: "out \<noteq> Unanswered"
  shows "(\<exists>r s. res = Inr (s, True) \<and> order_of (trimSpace n) db = Some r \<and> \<not> delivered r
      \<and> or_Channel r = trimSpace (pc_Channel c) \<and> or_AmountFen r = pc_AmountFen c \<and> equalFoldASCII (or_Currency r) (pc_Currency c)
      \<and> (\<forall>e\<in>set (cd_events db). \<not> (pe_Channel e = pc_Channel c \<and> pe_EventID e = pc_EventID c)))
    \<or> db' = db"
proof (cases "trimSpace (pc_EventID c) = [] \<or> (\<exists>e. res = Inl e)")
  case True
  then show ?thesis
    using run out by (cases out) (auto simp: FulfillCommercialOrder_def in_tx_def all_or_nothing_def split: sum.splits if_splits)
next
  case False
  then obtain x where x: "res = Inr x" by (cases res) auto
  define paid where "paid = (case order_of (trimSpace n) db of
               None \<Rightarrow> (db, Inl ''commercial order not found'')
             | Some r \<Rightarrow>
                 if or_Status r = OrderFulfilled then (db, Inr (r, False))
                 else (case check_payment r c of
                         Inl e \<Rightarrow> (db, Inl e)
                       | Inr _ \<Rightarrow> and_then (fulfill_paid r c now db) (\<lambda>s db. (db, Inr (s, True)))))"
  have "in_tx out db (all_or_nothing db paid) = (db', Inr x)"
    using run False by (simp add: FulfillCommercialOrder_def paid_def x)
  then have "all_or_nothing db paid = (db', Inr x)"
    using in_tx_success [of out db "all_or_nothing db paid" x] by simp
  then have p: "paid = (db', Inr x)"
    by (simp add: all_or_nothing_def split: sum.splits)
  obtain r where r: "order_of (trimSpace n) db = Some r"
    using p by (auto simp: paid_def split: option.splits)
  show ?thesis
  proof (cases "or_Status r = OrderFulfilled")
    case True
    then show ?thesis using p by (simp add: paid_def r)
  next
    case other: False
    obtain z where z: "check_payment r c = Inr z"
      using p other by (auto simp: paid_def r split: sum.splits)
    have run2: "and_then (fulfill_paid r c now db) (\<lambda>s db. (db, Inr (s, True))) = (db', Inr x)"
      using p other z by (simp add: paid_def r)
    obtain s where s: "snd (fulfill_paid r c now db) = Inr s" "x = (s, True)"
      using and_then_Inr [OF run2] by auto
    have "\<forall>e\<in>set (cd_events db). \<not> (pe_Channel e = pc_Channel c \<and> pe_EventID e = pc_EventID c)"
      using s(1) by (auto simp: fulfill_paid_def record_event_def Let_def split: if_splits)
    moreover have "\<not> delivered r" "or_Channel r = trimSpace (pc_Channel c)" "or_AmountFen r = pc_AmountFen c"
      "equalFoldASCII (or_Currency r) (pc_Currency c)"
      using z other by (auto simp: check_payment_def delivered_def split: if_splits)
    ultimately show ?thesis using r x s(2) by blast
  qed
qed

theorem payment_must_match_witness:
  "fst (FulfillCommercialOrder ''o-1'' (Some (sample_payment\<lparr>pc_AmountFen := 1\<rparr>)) 2000 Committed
     (commerce_after [(1000, Committed, CreateOrder sample_purchase)] (no_sales [sample_plan])))
   = commerce_after [(1000, Committed, CreateOrder sample_purchase)] (no_sales [sample_plan])"
proof -
  let ?db = "commerce_after [(1000, Committed, CreateOrder sample_purchase)] (no_sales [sample_plan])"
  let ?run = "FulfillCommercialOrder ''o-1'' (Some (sample_payment\<lparr>pc_AmountFen := 1\<rparr>)) 2000 Committed ?db"
  have run: "?run = (fst ?run, snd ?run)" by simp
  have no: "\<nexists>s. snd ?run = Inr (s, True)"
  proof -
    have "isl (snd ?run)" by code_simp
    then show ?thesis by (cases "snd ?run") auto
  qed
  show ?thesis
    using payment_must_match [OF run] no by auto
qed

text \<open>
  A credit parked for want of capacity escapes the refund of its order: the sweep makes it available again, and a create
  reserves it.
\<close>

definition sample_parking :: "(go_time \<times> db_outcome \<times> commerce_op) list" where
  "sample_parking = sample_sale @
     [(2100, Committed, ReserveConfigured 5 ''create-1'' [] []), (2200, Committed, QueueCredit 5 ''create-1'')]"

definition sample_free_worker :: "(go_time \<times> db_outcome \<times> commerce_op) list" where
  "sample_free_worker = sample_parking @
     [(3000, Committed, BeginRefund ''o-1'' ''rf-1'' 0), (4500, Committed, CompleteRefund ''o-1'' (Some sample_refund)),
      (5000, Committed, ClaimQueued 5)]"


text \<open>A renewal paid while the first credit waits in the queue\<close>

definition sample_renewal :: "(go_time \<times> db_outcome \<times> commerce_op) list" where
  "sample_renewal = sample_parking @
     [(3000, Committed, CreateOrder (sample_purchase\<lparr>oq_OrderNo := ''o-2'', oq_ClientRequestID := ''req-2''\<rparr>)),
      (4000, Committed, FulfillOrder ''o-2'' (Some (sample_payment\<lparr>pc_EventID := ''ev-3''\<rparr>)))]"

text \<open>
  A renewal gives a second machine to a buyer who is still waiting for the first: the queued credit is not counted as one
  in hand, so two credits are outstanding for one package.
\<close>

theorem renewal_while_queued_adds_credit:
  "map cr_State (cd_credits (commerce_after sample_renewal (no_sales [sample_plan]))) = [CreditQueued, CreditAvailable]"
  by code_simp

end
