(* ===== verification/Spec2Isabelle.thy ===== *)
theory Spec2Isabelle
  imports DeviceCallFlow TaskRecovery GroupTurnSafety PublishingSafety OrderSafety
begin

text \<open>
  The runtime state of the CatsCo server.
\<close>

end
